(* ===== verification/Prelude.thy ===== *)
theory Prelude
  imports Main "HOL-Library.Word" "HOL-Library.Signed_Division"
begin

unbundle bit_operations_syntax

text \<open>
  Vocabulary shared by every component: Go's machine integers and bytes, the
  outcome of code that may panic, decimal formatting, and the behaviour of a
  positioned read and write on a plain file (\<^verbatim>\<open>os.File.ReadAt\<close> and
  \<^verbatim>\<open>os.File.WriteAt\<close> of Go's standard library).

  The collections: \<open>go_int\<close> holds the facts on 64-bit arithmetic, \<open>file_simps\<close>
  the facts on file contents, \<open>slice_simps\<close> the facts on slices.
\<close>

named_theorems go_int
named_theorems file_simps
named_theorems slice_simps

section \<open>Machine integers\<close>

type_synonym byte = "8 word"
type_synonym bytes = "8 word list"
type_synonym u16 = "16 word"
type_synonym u32 = "32 word"
type_synonym u64 = "64 word"

text \<open>
  An \<^verbatim>\<open>int64\<close> (also \<^verbatim>\<open>int\<close> on the 64-bit targets of the program and
  \<^verbatim>\<open>time.Duration\<close>) is an \<open>int\<close> kept in range by \<open>i64\<close> after every operation that
  can leave it.
\<close>

definition max_i64 :: int where "max_i64 = 2 ^ 63 - 1"
definition min_i64 :: int where "min_i64 = - (2 ^ 63)"

definition i64 :: "int \<Rightarrow> int" where
  "i64 x = (x + 2 ^ 63) mod 2 ^ 64 - 2 ^ 63"

definition in_i64 :: "int \<Rightarrow> bool" where
  "in_i64 x \<longleftrightarrow> min_i64 \<le> x \<and> x \<le> max_i64"

lemma i64_id [simp, go_int]: "in_i64 x \<Longrightarrow> i64 x = x"
  by (simp add: i64_def in_i64_def min_i64_def max_i64_def)

lemma in_i64_i64 [simp, go_int]: "in_i64 (i64 x)"
proof -
  have "0 \<le> (x + 2 ^ 63) mod 2 ^ 64" "(x + 2 ^ 63) mod 2 ^ 64 < 2 ^ 64"
    by simp_all
  then show ?thesis
    by (simp add: i64_def in_i64_def min_i64_def max_i64_def)
qed

lemma in_i64I [intro, go_int]: "- (2 ^ 63) \<le> x \<Longrightarrow> x < 2 ^ 63 \<Longrightarrow> in_i64 x"
  by (simp add: in_i64_def min_i64_def max_i64_def)

lemma in_i64_0 [simp]: "in_i64 0" and in_i64_1 [simp]: "in_i64 1"
  by (simp_all add: in_i64_def min_i64_def max_i64_def)

lemma i64_0 [simp]: "i64 0 = 0"
  by simp

lemma sint_word_of_i64: "0 \<le> r \<Longrightarrow> in_i64 r \<Longrightarrow> sint (word_of_int r :: u64) = r"
  using sint_sbintrunc' [where 'a = 64, of r]
  by (simp add: in_i64_def min_i64_def max_i64_def signed_take_bit_int_eq_self)

lemma in_i64_sint [simp]: "in_i64 (sint (x :: u64))"
  using sint_greater_eq [of x] sint_less [of x]
  by (simp add: in_i64_def min_i64_def max_i64_def)

lemma sint_uint_small: "uint (w :: u64) < 2 ^ 63 \<Longrightarrow> sint w = uint w"
proof -
  assume "uint w < 2 ^ 63"
  moreover have "sint w = signed_take_bit 63 (uint w)"
    by (simp add: sint_uint)
  moreover have "- (2 ^ 63) \<le> uint w"
    by (rule order_trans [of _ 0]) simp_all
  ultimately show ?thesis
    by (simp add: signed_take_bit_int_eq_self)
qed

text \<open>Go's \<^verbatim>\<open>/\<close> and \<^verbatim>\<open>%\<close> truncate towards zero; on non-negative operands they are
  \<open>div\<close> and \<open>mod\<close>.\<close>

definition go_quot :: "int \<Rightarrow> int \<Rightarrow> int" where
  "go_quot a b = signed_divide a b"

definition go_rem :: "int \<Rightarrow> int \<Rightarrow> int" where
  "go_rem a b = signed_modulo a b"

lemma go_quot_pos [simp, go_int]: "0 \<le> a \<Longrightarrow> 0 < b \<Longrightarrow> go_quot a b = a div b"
  by (cases "a = 0") (simp_all add: go_quot_def signed_divide_int_def sgn_mult)

lemma go_rem_pos [simp, go_int]: "0 \<le> a \<Longrightarrow> 0 < b \<Longrightarrow> go_rem a b = a mod b"
  by (cases "a = 0") (simp_all add: go_rem_def smod_int_alt_def)

lemma go_rem_neg [simp, go_int]:
  assumes "a < 0" "0 < b"
  shows "go_rem a b \<le> 0" and "- b < go_rem a b"
proof -
  have r: "go_rem a b = - ((- a) mod b)"
    using assms by (simp add: go_rem_def smod_int_alt_def)
  show "go_rem a b \<le> 0" and "- b < go_rem a b"
    using assms by (simp_all add: r)
qed

lemma abs_go_rem_less: "b \<noteq> 0 \<Longrightarrow> \<bar>go_rem a b\<bar> < \<bar>b\<bar>"
  by (simp add: go_rem_def smod_int_alt_def abs_mult sgn_if)

text \<open>Moving forward inside one block of length \<open>b\<close> keeps the quotient.\<close>

lemma block_div_mod:
  fixes a b j :: int
  assumes "0 \<le> a" "0 < b" "0 \<le> j" "j < b - a mod b"
  shows "(a + j) div b = a div b" and "(a + j) mod b = a mod b + j"
proof -
  have eq: "a + j = b * (a div b) + (a mod b + j)"
    by simp
  have "0 \<le> a mod b + j" "a mod b + j < b"
    using assms by simp_all
  then show "(a + j) div b = a div b" "(a + j) mod b = a mod b + j"
    using eq int_div_pos_eq int_mod_pos_eq by blast+
qed

section \<open>Outcomes\<close>

text \<open>A Go call returns or panics.\<close>

datatype 'a outcome = Return 'a | Panic

fun bind_outcome :: "'a outcome \<Rightarrow> ('a \<Rightarrow> 'b outcome) \<Rightarrow> 'b outcome" where
  "bind_outcome (Return x) f = f x"
| "bind_outcome Panic f = Panic"

fun map_outcome_result :: "('a \<Rightarrow> 'b) \<Rightarrow> 'a outcome \<Rightarrow> 'b outcome" where
  "map_outcome_result f (Return x) = Return (f x)"
| "map_outcome_result f Panic = Panic"

lemma bind_outcome_Return_iff:
  "bind_outcome m f = Return y \<longleftrightarrow> (\<exists>x. m = Return x \<and> f x = Return y)"
  by (cases m) simp_all

lemma map_outcome_result_eq_Return:
  "map_outcome_result f m = Return y \<longleftrightarrow> (\<exists>x. m = Return x \<and> y = f x)"
  by (cases m) auto

section \<open>Slices\<close>

text \<open>\<open>slice i n xs\<close> is the \<open>n\<close> elements of \<open>xs\<close> from index \<open>i\<close> on, fewer where the
  list ends.\<close>

definition slice :: "nat \<Rightarrow> nat \<Rightarrow> 'a list \<Rightarrow> 'a list" where
  "slice i n xs = take n (drop i xs)"

lemma slice_0 [simp, slice_simps]: "slice i 0 xs = []"
  by (simp add: slice_def)

lemma slice_all [simp, slice_simps]: "slice 0 (length xs) xs = xs"
  by (simp add: slice_def)

lemma length_slice [simp, slice_simps]: "length (slice i n xs) = min n (length xs - i)"
  by (simp add: slice_def min.commute)

lemma nth_slice [simp, slice_simps]:
  "j < n \<Longrightarrow> i + j < length xs \<Longrightarrow> slice i n xs ! j = xs ! (i + j)"
  by (simp add: slice_def)

lemma slice_append: "slice i m xs @ slice (i + m) n xs = slice i (m + n) xs"
  by (simp add: slice_def take_add add.commute)

lemma slice_map [slice_simps]: "slice i n (map f xs) = map f (slice i n xs)"
  by (simp add: slice_def take_map drop_map)

section \<open>File contents\<close>

text \<open>
  A positioned read returns what the file holds from the offset on, at most
  \<open>n\<close> bytes. A positioned write of a non-empty buffer replaces the bytes at the
  offset and fills a gap before it with zeros; an empty one leaves the file as
  it is.
\<close>

definition file_read :: "bytes \<Rightarrow> nat \<Rightarrow> nat \<Rightarrow> bytes" where
  "file_read c off n = slice off n c"

definition file_write :: "bytes \<Rightarrow> nat \<Rightarrow> bytes \<Rightarrow> bytes" where
  "file_write c off p =
     (if p = [] then c
      else take off c @ replicate (off - length c) 0 @ p @ drop (off + length p) c)"

lemma file_write_Nil [simp, file_simps]: "file_write c off [] = c"
  by (simp add: file_write_def)

lemma length_file_write [simp, file_simps]:
  "p \<noteq> [] \<Longrightarrow> length (file_write c off p) = max (length c) (off + length p)"
  by (auto simp: file_write_def)

lemma file_write_prefix_length [simp]:
  "length (take off c @ replicate (off - length c) (0::byte)) = off"
  by auto

lemma nth_file_write:
  assumes "p \<noteq> []" and "i < max (length c) (off + length p)"
  shows "file_write c off p ! i =
    (if off \<le> i \<and> i < off + length p then p ! (i - off)
     else if i < length c then c ! i else 0)"
proof -
  let ?pre = "take off c @ replicate (off - length c) (0::byte)"
  have w: "file_write c off p = ?pre @ p @ drop (off + length p) c"
    using assms by (simp add: file_write_def)
  have len: "length ?pre = off" by auto
  consider "i < off" | "off \<le> i" "i < off + length p" | "off + length p \<le> i" "i < length c"
    using assms(2) by linarith
  then show ?thesis
  proof cases
    case 1
    then have "file_write c off p ! i = ?pre ! i"
      using len by (simp only: w nth_append) simp
    with 1 show ?thesis by (simp add: nth_append)
  next
    case 2
    then have "i - off < length p" by simp
    with 2 show ?thesis
      using len by (simp only: w nth_append [of ?pre]) (simp add: nth_append)
  next
    case 3
    then have "\<not> i - off < length p" by simp
    with 3 show ?thesis
      using len by (simp only: w nth_append [of ?pre]) (simp add: nth_append)
  qed
qed

lemma file_read_write [simp, file_simps]:
  "file_read (file_write c off p) off (length p) = p"
proof (cases "p = []")
  case False
  have "file_write c off p =
    (take off c @ replicate (off - length c) 0) @ p @ drop (off + length p) c"
    using False by (simp add: file_write_def)
  then show ?thesis
    by (simp only: file_read_def slice_def) auto
qed (simp add: file_read_def)

section \<open>Decimal formatting\<close>

text \<open>\<^verbatim>\<open>strconv.FormatInt(n, 10)\<close> and the verb \<^verbatim>\<open>%d\<close>.\<close>

definition digit_char :: "nat \<Rightarrow> char" where
  "digit_char d = char_of (48 + d)"

fun format_nat :: "nat \<Rightarrow> string" where
  "format_nat n =
     (if n < 10 then [digit_char n] else format_nat (n div 10) @ [digit_char (n mod 10)])"

declare format_nat.simps [simp del]

definition format_int :: "int \<Rightarrow> string" where
  "format_int i = (if i < 0 then CHR ''-'' # format_nat (nat (- i)) else format_nat (nat i))"

fun parse_digits :: "nat \<Rightarrow> string \<Rightarrow> nat" where
  "parse_digits acc [] = acc"
| "parse_digits acc (c # cs) = parse_digits (10 * acc + (of_char c - 48)) cs"

lemma parse_digits_append:
  "parse_digits acc (xs @ ys) = parse_digits (parse_digits acc xs) ys"
  by (induction acc xs rule: parse_digits.induct) simp_all

lemma of_char_digit [simp]: "d < 10 \<Longrightarrow> of_char (digit_char d) - 48 = d"
  by (simp add: digit_char_def)

lemma parse_format_nat: "parse_digits 0 (format_nat n) = n"
proof (induction n rule: format_nat.induct)
  case (1 n)
  show ?case
  proof (cases "n < 10")
    case True
    then show ?thesis by (simp add: format_nat.simps [of n])
  next
    case False
    with 1 have "parse_digits 0 (format_nat (n div 10)) = n div 10" by simp
    with False show ?thesis
      by (simp add: format_nat.simps [of n] parse_digits_append)
  qed
qed

lemma format_nat_inj [simp]: "format_nat m = format_nat n \<longleftrightarrow> m = n"
  by (metis parse_format_nat)

lemma format_nat_digits: "set (format_nat n) \<subseteq> digit_char ` {..<10}"
proof (induction n rule: format_nat.induct)
  case (1 n)
  then show ?case
    by (cases "n < 10") (auto simp: format_nat.simps [of n])
qed

lemma dash_not_digit: "CHR ''-'' \<notin> digit_char ` {..<10}"
proof
  assume "CHR ''-'' \<in> digit_char ` {..<10}"
  then obtain d where "d < 10" "CHR ''-'' = digit_char d" by auto
  then have "(of_char (CHR ''-'') :: nat) = of_char (digit_char d)" by simp
  with \<open>d < 10\<close> show False by (simp add: digit_char_def)
qed

lemma format_nat_no_dash: "CHR ''-'' \<notin> set (format_nat n)"
  using format_nat_digits dash_not_digit by blast

lemma format_int_inj [simp]: "format_int a = format_int b \<longleftrightarrow> a = b"
proof -
  have "format_nat m \<noteq> CHR ''-'' # s" for m s
    using format_nat_no_dash [of m] by auto
  moreover have "CHR ''-'' # s \<noteq> format_nat m" for m s
    using format_nat_no_dash [of m] by (metis list.set_intros(1))
  ultimately show ?thesis
    by (auto simp: format_int_def eq_nat_nat_iff)
qed

end
