(* ===== verification/Errorsx.thy ===== *)
theory Errorsx
  imports Complex_Main Prelude
begin

text \<open>
  The error values of the program and the package \<^verbatim>\<open>shallows/internal/errorsx\<close>.

  A Go \<^verbatim>\<open>error\<close> is a \<open>goerr option\<close>, \<open>None\<close> for \<^verbatim>\<open>nil\<close>. The constructors of
  \<open>goerr\<close> are the dynamic types the program builds or receives; those with an
  argument of type \<open>goerr\<close> wrap another error. Stack traces and the addresses of
  allocated errors are not kept, so a comparison is only offered against the
  values of type \<open>target\<close>: package-level sentinels, \<^verbatim>\<open>errorsx.String\<close> constants and
  the zero values of the marker structs, which is all the program compares with.
\<close>

named_theorems err_simps

section \<open>Error values\<close>

datatype sentinel =
    EOF | ErrUnexpectedEOF | ErrNotExist | ErrExist | ErrUnsupported
  | Canceled | DeadlineExceeded
  | ErrNoRows | ErrTxDone
  | NamedSentinel string

datatype errno = ENOENT | EEXIST | EOTHER

datatype goerr =
    Sentinel sentinel
  | StringErr string
  | Fundamental string
  | Errno errno
  | PathErr string string goerr
  | WithMessage goerr string
  | WithStack goerr
  | UnauthorizedErr goerr
  | TimeoutErr goerr int
  | NotificationErr goerr
  | UserFriendlyErr goerr
  | AlertableErr goerr real
  | ContextualErr goerr "(string \<times> string) list"
  | UnrecoverableErr goerr
  | HttpError int goerr

datatype target =
    TSentinel sentinel | TString string | TAlertable | TContextual | TUnrecoverable

section \<open>The standard library's view of an error\<close>

text \<open>The method \<^verbatim>\<open>Unwrap() error\<close>. The marker structs \<^verbatim>\<open>unauthorized\<close> and \<^verbatim>\<open>timeout\<close>
  embed an error, which promotes its \<^verbatim>\<open>Error\<close> method only, so they do not unwrap.\<close>

fun unwrap_method :: "goerr \<Rightarrow> goerr option" where
  "unwrap_method (PathErr op p e) = Some e"
| "unwrap_method (WithMessage e m) = Some e"
| "unwrap_method (WithStack e) = Some e"
| "unwrap_method (NotificationErr e) = Some e"
| "unwrap_method (UserFriendlyErr e) = Some e"
| "unwrap_method (AlertableErr e r) = Some e"
| "unwrap_method (ContextualErr e d) = Some e"
| "unwrap_method (UnrecoverableErr e) = Some e"
| "unwrap_method e = None"

text \<open>The method \<^verbatim>\<open>Cause() error\<close> that the package calls \<^verbatim>\<open>causer\<close>.\<close>

fun cause_method :: "goerr \<Rightarrow> goerr option" where
  "cause_method (WithMessage e m) = Some e"
| "cause_method (WithStack e) = Some e"
| "cause_method (NotificationErr e) = Some e"
| "cause_method (UserFriendlyErr e) = Some e"
| "cause_method e = None"

text \<open>The method \<^verbatim>\<open>Is(target error) bool\<close>: the marker structs match any target with the
  same marker, \<^verbatim>\<open>syscall.Errno\<close> matches the sentinels it stands for.\<close>

fun is_method :: "goerr \<Rightarrow> target \<Rightarrow> bool" where
  "is_method (AlertableErr e r) t = (t = TAlertable)"
| "is_method (ContextualErr e d) t = (t = TContextual)"
| "is_method (UnrecoverableErr e) t = (t = TUnrecoverable)"
| "is_method (Errno ENOENT) t = (t = TSentinel ErrNotExist)"
| "is_method (Errno EEXIST) t = (t = TSentinel ErrExist)"
| "is_method e t = False"

fun same_value :: "goerr \<Rightarrow> target \<Rightarrow> bool" where
  "same_value (Sentinel s) t = (t = TSentinel s)"
| "same_value (StringErr s) t = (t = TString s)"
| "same_value e t = False"

text \<open>\<^verbatim>\<open>errors.Is\<close>: the error or something it wraps equals the target, or says so.\<close>

function errors_is :: "goerr \<Rightarrow> target \<Rightarrow> bool" where
  "errors_is e t =
     (if same_value e t then True
      else if is_method e t then True
      else (case unwrap_method e of None \<Rightarrow> False | Some e' \<Rightarrow> errors_is e' t))"
  by pat_completeness auto

lemma unwrap_method_size [termination_simp]:
  "unwrap_method e = Some e' \<Longrightarrow> size e' < size e"
  by (cases e) auto

lemma cause_method_size [termination_simp]:
  "cause_method e = Some e' \<Longrightarrow> size e' < size e"
  by (cases e) auto

lemma cause_method_unwrap: "cause_method e = Some e' \<Longrightarrow> unwrap_method e = Some e'"
  by (cases e) auto

termination errors_is
  by (relation "measure (\<lambda>(e, t). size e)") (auto simp: unwrap_method_size)

declare errors_is.simps [simp del]

lemma errors_is_leaf [simp, err_simps]:
  "errors_is (Sentinel s) t \<longleftrightarrow> t = TSentinel s"
  "errors_is (StringErr m) t \<longleftrightarrow> t = TString m"
  "\<not> errors_is (Fundamental m) t"
  "\<not> errors_is (UnauthorizedErr e) t"
  "\<not> errors_is (TimeoutErr e d) t"
  "\<not> errors_is (HttpError c e) t"
  "errors_is (Errno ENOENT) t \<longleftrightarrow> t = TSentinel ErrNotExist"
  "errors_is (Errno EEXIST) t \<longleftrightarrow> t = TSentinel ErrExist"
  "\<not> errors_is (Errno EOTHER) t"
  by (simp_all add: errors_is.simps)

lemma errors_is_wrapper [simp, err_simps]:
  "errors_is (PathErr op p e) t = errors_is e t"
  "errors_is (WithMessage e m) t = errors_is e t"
  "errors_is (WithStack e) t = errors_is e t"
  "errors_is (NotificationErr e) t = errors_is e t"
  "errors_is (UserFriendlyErr e) t = errors_is e t"
  "errors_is (AlertableErr e r) t \<longleftrightarrow> t = TAlertable \<or> errors_is e t"
  "errors_is (ContextualErr e d) t \<longleftrightarrow> t = TContextual \<or> errors_is e t"
  "errors_is (UnrecoverableErr e) t \<longleftrightarrow> t = TUnrecoverable \<or> errors_is e t"
  by (subst errors_is.simps, simp)+

text \<open>\<^verbatim>\<open>errors.As\<close> into a variable of a marker type finds the outermost error of it.\<close>

function as_unrecoverable :: "goerr \<Rightarrow> goerr option" where
  "as_unrecoverable e =
     (case e of UnrecoverableErr c \<Rightarrow> Some e
      | _ \<Rightarrow> (case unwrap_method e of None \<Rightarrow> None | Some e' \<Rightarrow> as_unrecoverable e'))"
  by pat_completeness auto
termination by (relation "measure size") (auto simp: unwrap_method_size)

declare as_unrecoverable.simps [simp del]

function as_alertable :: "goerr \<Rightarrow> (goerr \<times> real) option" where
  "as_alertable e =
     (case e of AlertableErr c r \<Rightarrow> Some (c, r)
      | _ \<Rightarrow> (case unwrap_method e of None \<Rightarrow> None | Some e' \<Rightarrow> as_alertable e'))"
  by pat_completeness auto
termination by (relation "measure size") (auto simp: unwrap_method_size)

declare as_alertable.simps [simp del]

function as_contextual :: "goerr \<Rightarrow> (string \<times> string) list option" where
  "as_contextual e =
     (case e of ContextualErr c d \<Rightarrow> Some d
      | _ \<Rightarrow> (case unwrap_method e of None \<Rightarrow> None | Some e' \<Rightarrow> as_contextual e'))"
  by pat_completeness auto
termination by (relation "measure size") (auto simp: unwrap_method_size)

declare as_contextual.simps [simp del]

lemma as_unrecoverable_iff: "as_unrecoverable e \<noteq> None \<longleftrightarrow> errors_is e TUnrecoverable"
proof (induction e rule: as_unrecoverable.induct)
  case (1 e)
  then show ?case
    by (subst as_unrecoverable.simps, subst errors_is.simps)
      (cases e; auto split: option.splits; (case_tac x4; simp)?)
qed

section \<open>Package errorsx: constructors\<close>

definition New :: "string \<Rightarrow> goerr" where
  "New message = Fundamental message"

definition withStack :: "goerr option \<Rightarrow> goerr option" where
  "withStack err = (case err of None \<Rightarrow> None | Some e \<Rightarrow> Some (WithStack e))"

definition Wrap :: "goerr option \<Rightarrow> string \<Rightarrow> goerr option" where
  "Wrap err message =
     (case err of None \<Rightarrow> None | Some e \<Rightarrow> Some (WithStack (WithMessage e message)))"

definition withMessage :: "goerr option \<Rightarrow> string \<Rightarrow> goerr option" where
  "withMessage err message =
     (case err of None \<Rightarrow> None | Some e \<Rightarrow> Some (WithMessage e message))"

definition Authorization :: "goerr \<Rightarrow> goerr" where
  "Authorization e = UnauthorizedErr e"

definition Timedout :: "goerr \<Rightarrow> int \<Rightarrow> goerr" where
  "Timedout e d = TimeoutErr e d"

definition Notification :: "goerr \<Rightarrow> goerr" where
  "Notification e = NotificationErr e"

definition UserFriendly :: "goerr \<Rightarrow> goerr" where
  "UserFriendly e = UserFriendlyErr e"

definition NewUnrecoverable :: "goerr \<Rightarrow> goerr" where
  "NewUnrecoverable e = UnrecoverableErr e"

text \<open>An \<^verbatim>\<open>AlertableOption\<close> acts on the rate alone; \<^verbatim>\<open>NewAlert\<close> starts from rate 0 and
  applies the options in order.\<close>

definition AlertableOptionRate :: "real \<Rightarrow> real \<Rightarrow> real" where
  "AlertableOptionRate r old = r"

definition NewAlert :: "goerr \<Rightarrow> (real \<Rightarrow> real) list \<Rightarrow> goerr" where
  "NewAlert e options = AlertableErr e (fold (\<lambda>opt r. opt r) options 0)"

definition WrapAlert :: "goerr \<Rightarrow> (real \<Rightarrow> real) list \<Rightarrow> goerr" where
  "WrapAlert e options = (if errors_is e TAlertable then e else NewAlert e options)"

definition Sample :: "real \<Rightarrow> goerr option \<Rightarrow> goerr option" where
  "Sample rnd err =
     (case err of None \<Rightarrow> None
      | Some e \<Rightarrow> (case as_alertable e of
          None \<Rightarrow> None
        | Some (c, rate) \<Rightarrow> if rnd < rate then Some e else None))"

definition NewContext :: "goerr \<Rightarrow> goerr" where
  "NewContext e = ContextualErr e []"

text \<open>\<^verbatim>\<open>Add\<close> stores into the map of details, replacing an older value of the key.\<close>

fun Add :: "string \<Rightarrow> string \<Rightarrow> goerr \<Rightarrow> goerr" where
  "Add k v (ContextualErr e d) = ContextualErr e ((k, v) # filter (\<lambda>p. fst p \<noteq> k) d)"
| "Add k v e = e"

definition Context :: "goerr option \<Rightarrow> (string \<times> string) list" where
  "Context err =
     (case err of None \<Rightarrow> []
      | Some e \<Rightarrow> (case as_contextual e of None \<Rightarrow> [] | Some d \<Rightarrow> d))"

section \<open>Package errorsx: inspection\<close>

fun Compact :: "goerr option list \<Rightarrow> goerr option" where
  "Compact [] = None"
| "Compact (err # errs) = (if err \<noteq> None then err else Compact errs)"

definition std_is :: "goerr option \<Rightarrow> target \<Rightarrow> bool" where
  "std_is err t = (case err of None \<Rightarrow> False | Some e \<Rightarrow> errors_is e t)"

fun Ignore :: "goerr option \<Rightarrow> target list \<Rightarrow> goerr option" where
  "Ignore err [] = err"
| "Ignore err (t # ts) = (if std_is err t then None else Ignore err ts)"

fun Is :: "goerr option \<Rightarrow> target list \<Rightarrow> bool" where
  "Is err [] = False"
| "Is err (t # ts) = (if std_is err t then True else Is err ts)"

function Cause :: "goerr option \<Rightarrow> goerr option" where
  "Cause err =
     (case err of None \<Rightarrow> None
      | Some e \<Rightarrow> (case cause_method e of None \<Rightarrow> err | Some e' \<Rightarrow> Cause (Some e')))"
  by pat_completeness auto
termination by (relation "measure (case_option 0 size)") (auto simp: cause_method_size)

declare Cause.simps [simp del]

function Unwrap :: "goerr option \<Rightarrow> goerr option" where
  "Unwrap err =
     (case err of None \<Rightarrow> None
      | Some e \<Rightarrow> (case cause_method e of
          Some e' \<Rightarrow> Unwrap (Some e')
        | None \<Rightarrow> (case unwrap_method e of Some e' \<Rightarrow> Unwrap (Some e') | None \<Rightarrow> err)))"
  by pat_completeness auto
termination
  by (relation "measure (case_option 0 size)") (auto simp: cause_method_size unwrap_method_size)

declare Unwrap.simps [simp del]

text \<open>The rendered text of an error (\<^verbatim>\<open>Error()\<close>); only \<^verbatim>\<open>withMessage\<close> adds to it. The text of
  a sentinel, an errno and a \<^verbatim>\<open>PathError\<close> is the standard library's and a parameter.\<close>

fun error_string :: "(goerr \<Rightarrow> string) \<Rightarrow> goerr \<Rightarrow> string" where
  "error_string std (StringErr s) = s"
| "error_string std (Fundamental m) = m"
| "error_string std (WithMessage e m) = m @ '': '' @ error_string std e"
| "error_string std (WithStack e) = error_string std e"
| "error_string std (UnauthorizedErr e) = error_string std e"
| "error_string std (TimeoutErr e d) = error_string std e"
| "error_string std (NotificationErr e) = error_string std e"
| "error_string std (UserFriendlyErr e) = error_string std e"
| "error_string std (AlertableErr e r) = error_string std e"
| "error_string std (ContextualErr e d) = error_string std e"
| "error_string std (UnrecoverableErr e) = error_string std e"
| "error_string std (HttpError c e) = error_string std e"
| "error_string std e = std e"

definition Must :: "'a \<Rightarrow> goerr option \<Rightarrow> 'a outcome" where
  "Must v err = (if err = None then Return v else Panic)"

definition PanicZero :: "'a \<Rightarrow> 'a \<Rightarrow> 'a outcome" where
  "PanicZero zero v = (if v = zero then Panic else Return v)"

text \<open>\<^verbatim>\<open>Zero\<close> and \<^verbatim>\<open>LogErr\<close> also write a line to the log, which is the second component;
  the log itself is assumed to accept it (a failing log makes \<^verbatim>\<open>Zero\<close> panic).\<close>

definition Zero :: "'a \<Rightarrow> goerr option \<Rightarrow> 'a \<times> goerr list" where
  "Zero v err = (case err of None \<Rightarrow> (v, []) | Some e \<Rightarrow> (v, [e]))"

definition LogErr :: "goerr option \<Rightarrow> goerr option \<times> goerr list" where
  "LogErr err = (case err of None \<Rightarrow> (None, []) | Some e \<Rightarrow> (Some e, [e]))"

section \<open>Lemmas\<close>

lemma std_is_None [simp, err_simps]: "\<not> std_is None t"
  by (simp add: std_is_def)

lemma std_is_Some [simp, err_simps]: "std_is (Some e) t = errors_is e t"
  by (simp add: std_is_def)

lemma Wrap_None_iff [simp, err_simps]: "Wrap err m = None \<longleftrightarrow> err = None"
  by (simp add: Wrap_def split: option.splits)

lemma Wrap_None [simp]: "Wrap None m = None"
  by (simp add: Wrap_def)

lemma Wrap_Some [simp, err_simps]: "Wrap (Some e) m = Some (WithStack (WithMessage e m))"
  by (simp add: Wrap_def)

lemma withStack_simps [simp, err_simps]:
  "withStack None = None" "withStack (Some e) = Some (WithStack e)"
  by (simp_all add: withStack_def)

lemma withMessage_simps [simp, err_simps]:
  "withMessage None m = None" "withMessage (Some e) m = Some (WithMessage e m)"
  by (simp_all add: withMessage_def)

lemma std_is_Wrap [simp, err_simps]: "std_is (Wrap err m) t = std_is err t"
  by (cases err) simp_all

lemma Is_iff: "Is err ts \<longleftrightarrow> (\<exists>t \<in> set ts. std_is err t)"
  by (induction ts) auto

lemma Ignore_eq: "Ignore err ts = (if Is err ts then None else err)"
  by (induction ts) auto

lemma Ignore_None [simp]: "Ignore None ts = None"
  by (simp add: Ignore_eq)

lemma Compact_None_iff: "Compact errs = None \<longleftrightarrow> (\<forall>e \<in> set errs. e = None)"
  by (induction errs) auto

lemma Compact_append: "Compact (xs @ ys) = (if Compact xs = None then Compact ys else Compact xs)"
  by (induction xs) auto

lemma Compact_in: "Compact errs = Some e \<Longrightarrow> Some e \<in> set errs"
  by (induction errs) (auto split: if_splits)

lemma Cause_simps [simp, err_simps]:
  "Cause None = None"
  "Cause (Some (WithMessage e m)) = Cause (Some e)"
  "Cause (Some (WithStack e)) = Cause (Some e)"
  "Cause (Some (NotificationErr e)) = Cause (Some e)"
  "Cause (Some (UserFriendlyErr e)) = Cause (Some e)"
  "Cause (Some (Sentinel s)) = Some (Sentinel s)"
  "Cause (Some (HttpError c e)) = Some (HttpError c e)"
  by (subst Cause.simps, simp)+

lemma Cause_Wrap [simp, err_simps]: "Cause (Wrap err m) = Cause err"
  by (cases err) simp_all

lemma Cause_no_causer: "Cause err = Some e \<Longrightarrow> cause_method e = None"
proof (induction err rule: Cause.induct)
  case (1 err)
  then show ?case
    by (subst (asm) (2) Cause.simps) (auto split: option.splits)
qed

lemma Cause_idem: "Cause (Cause err) = Cause err"
proof (cases "Cause err")
  case (Some e)
  then show ?thesis
    using Cause_no_causer [OF Some] by (subst Cause.simps) simp
qed simp

lemma Cause_None_iff [simp]: "Cause err = None \<longleftrightarrow> err = None"
proof (induction err rule: Cause.induct)
  case (1 err)
  then show ?case
    by (subst Cause.simps) (auto split: option.splits)
qed

lemma Unwrap_leaf: "Unwrap err = Some e \<Longrightarrow> unwrap_method e = None"
proof (induction err rule: Unwrap.induct)
  case (1 err)
  then show ?case
    by (subst (asm) (3) Unwrap.simps)
      (auto split: option.splits dest: cause_method_unwrap)
qed

end
