(* ===== verification/Langx.thy ===== *)
theory Langx
  imports Prelude
begin

text \<open>
  The generic helpers of \<^verbatim>\<open>shallows/internal/langx\<close>, \<^verbatim>\<open>slicesx\<close>, \<^verbatim>\<open>numericx\<close> and
  \<^verbatim>\<open>stringsx\<close> the other packages are written with. A type parameter with a zero
  value is a type variable with the zero value as an argument; a variadic
  parameter is a list. Strings are byte strings, and white space is that of ASCII.
\<close>

named_theorems langx_simps

section \<open>langx\<close>

definition Autoderef :: "'a \<Rightarrow> 'a option \<Rightarrow> 'a" where
  "Autoderef zero a = (case a of None \<Rightarrow> zero | Some v \<Rightarrow> v)"

definition DefaultIfZero :: "'a \<Rightarrow> 'a \<Rightarrow> 'a \<Rightarrow> 'a" where
  "DefaultIfZero zero fallback v = (if v \<noteq> zero then v else fallback)"

text \<open>A functional option is a function on the value it configures.\<close>

fun Clone :: "'a \<Rightarrow> ('a \<Rightarrow> 'a) list \<Rightarrow> 'a" where
  "Clone v [] = v"
| "Clone v (opt # options) = Clone (opt v) options"

definition Compose :: "('a \<Rightarrow> 'a) list \<Rightarrow> 'a \<Rightarrow> 'a" where
  "Compose options v = fold (\<lambda>opt v. opt v) options v"

fun FirstNonZero :: "'a \<Rightarrow> 'a list \<Rightarrow> 'a" where
  "FirstNonZero x [] = x"
| "FirstNonZero x (v # s) = (if v = x then FirstNonZero x s else v)"

lemma Clone_append [langx_simps]: "Clone v (xs @ ys) = Clone (Clone v xs) ys"
  by (induction v xs rule: Clone.induct) simp_all

lemma Clone_fold: "Clone v options = fold (\<lambda>opt v. opt v) options v"
  by (induction v options rule: Clone.induct) simp_all

lemma Compose_Clone: "Compose options v = Clone v options"
  by (simp add: Compose_def Clone_fold)

lemma Clone_invariant:
  "P v \<Longrightarrow> (\<And>opt x. opt \<in> set options \<Longrightarrow> P x \<Longrightarrow> P (opt x)) \<Longrightarrow> P (Clone v options)"
  by (induction v options rule: Clone.induct) simp_all

lemma FirstNonZero_zero_iff [langx_simps]:
  "FirstNonZero x s = x \<longleftrightarrow> (\<forall>v \<in> set s. v = x)"
  by (induction s) auto

lemma FirstNonZero_in: "FirstNonZero x s \<noteq> x \<Longrightarrow> FirstNonZero x s \<in> set s"
  by (induction s) auto

section \<open>slicesx\<close>

fun Remove :: "('a \<Rightarrow> bool) \<Rightarrow> 'a list \<Rightarrow> 'a list" where
  "Remove remove [] = []"
| "Remove remove (i # items) =
     (if remove i then Remove remove items else i # Remove remove items)"

fun Filter :: "('a \<Rightarrow> bool) \<Rightarrow> 'a list \<Rightarrow> 'a list" where
  "Filter match [] = []"
| "Filter match (i # items) =
     (if \<not> match i then Filter match items else i # Filter match items)"

fun Flatten :: "'a list list \<Rightarrow> 'a list" where
  "Flatten [] = []"
| "Flatten (i # items) = i @ Flatten items"

fun Find :: "('a \<Rightarrow> bool) \<Rightarrow> 'a \<Rightarrow> 'a list \<Rightarrow> 'a \<times> bool" where
  "Find match zero [] = (zero, False)"
| "Find match zero (i # items) = (if match i then (i, True) else Find match zero items)"

fun FindOrZero :: "('a \<Rightarrow> bool) \<Rightarrow> 'a \<Rightarrow> 'a list \<Rightarrow> 'a" where
  "FindOrZero match zero [] = zero"
| "FindOrZero match zero (i # items) = (if match i then i else FindOrZero match zero items)"

fun MapTransform :: "('a \<Rightarrow> 'b) \<Rightarrow> 'a list \<Rightarrow> 'b list" where
  "MapTransform m [] = []"
| "MapTransform m (i # items) = m i # MapTransform m items"

text \<open>The results so far come back with the first error.\<close>

fun MapTransformErr :: "('a \<Rightarrow> 'b \<times> 'e option) \<Rightarrow> 'a list \<Rightarrow> 'b list \<times> 'e option" where
  "MapTransformErr m [] = ([], None)"
| "MapTransformErr m (i # items) =
     (case m i of
        (v, Some err) \<Rightarrow> ([], Some err)
      | (v, None) \<Rightarrow> (let (results, err) = MapTransformErr m items in (v # results, err)))"

definition Reduce :: "'a \<Rightarrow> ('a \<Rightarrow> 'a) list \<Rightarrow> 'a" where
  "Reduce v options = fold (\<lambda>opt v. opt v) options v"

fun First :: "'a \<Rightarrow> 'a list \<Rightarrow> 'a \<times> bool" where
  "First zero [] = (zero, False)"
| "First zero (v # items) = (if v \<noteq> zero then (v, True) else First zero items)"

definition FirstOrZero :: "'a \<Rightarrow> 'a list \<Rightarrow> 'a" where
  "FirstOrZero zero items = fst (First zero items)"

fun FirstOrDefault :: "'a \<Rightarrow> 'a \<Rightarrow> 'a list \<Rightarrow> 'a" where
  "FirstOrDefault zero fallback [] = fallback"
| "FirstOrDefault zero fallback (v # items) =
     (if v \<noteq> zero then v else FirstOrDefault zero fallback items)"

definition Last :: "'a \<Rightarrow> 'a list \<Rightarrow> 'a \<times> bool" where
  "Last zero items =
     (if length items = 0 then (zero, False) else (items ! (length items - 1), True))"

definition LastOrZero :: "'a \<Rightarrow> 'a list \<Rightarrow> 'a" where
  "LastOrZero zero items = fst (Last zero items)"

definition LastOrDefault :: "'a \<Rightarrow> 'a \<Rightarrow> 'a list \<Rightarrow> 'a" where
  "LastOrDefault zero fallback items =
     (case Last zero items of (l, True) \<Rightarrow> l | (l, False) \<Rightarrow> fallback)"

lemma Remove_Filter [langx_simps]: "Remove p xs = Filter (\<lambda>x. \<not> p x) xs"
  by (induction xs) auto

lemma Filter_filter [langx_simps]: "Filter p xs = filter p xs"
  by (induction xs) auto

lemma MapTransform_map [langx_simps]: "MapTransform m xs = map m xs"
  by (induction xs) auto

lemma Find_snd_iff [langx_simps]: "snd (Find p z xs) \<longleftrightarrow> (\<exists>x \<in> set xs. p x)"
  by (induction xs) auto

lemma FindOrZero_Find [langx_simps]: "FindOrZero p z xs = fst (Find p z xs)"
  by (induction xs) auto

lemma First_Find [langx_simps]: "First z xs = Find (\<lambda>x. x \<noteq> z) z xs"
  by (induction xs) auto

lemma FirstOrDefault_eq [langx_simps]:
  "FirstOrDefault z d xs = (if snd (First z xs) then fst (First z xs) else d)"
  by (induction xs) auto

lemma Find_in: "Find p z xs = (x, True) \<Longrightarrow> x \<in> set xs \<and> p x"
  by (induction xs) (auto split: if_splits)

lemma MapTransformErr_None:
  "MapTransformErr m xs = (ys, None) \<longleftrightarrow>
   (\<forall>x \<in> set xs. snd (m x) = None) \<and> ys = map (fst \<circ> m) xs"
proof (induction xs arbitrary: ys)
  case (Cons x xs)
  obtain r e where "MapTransformErr m xs = (r, e)" by fastforce
  then show ?case
    using Cons [of r] Cons [of "map (fst \<circ> m) xs"]
    by (cases "m x") (auto split: option.splits)
qed auto

lemma MapTransformErr_prefix:
  "MapTransformErr m xs = (ys, err) \<Longrightarrow> ys = map (fst \<circ> m) (take (length ys) xs)"
  by (induction xs arbitrary: ys err) (auto split: option.splits prod.splits)

section \<open>numericx\<close>

fun max_from :: "'a::linorder \<Rightarrow> 'a list \<Rightarrow> 'a" where
  "max_from cmp [] = cmp"
| "max_from cmp (v # values) = (if cmp > v then max_from cmp values else max_from v values)"

fun min_from :: "'a::linorder \<Rightarrow> 'a list \<Rightarrow> 'a" where
  "min_from cmp [] = cmp"
| "min_from cmp (v # values) = (if cmp < v then min_from cmp values else min_from v values)"

lemma max_from_Max [langx_simps]: "max_from x xs = Max (set (x # xs))"
proof (induction xs arbitrary: x)
  case (Cons v xs)
  then show ?case by (cases "xs = []") (auto simp: max_def)
qed simp

lemma min_from_Min [langx_simps]: "min_from x xs = Min (set (x # xs))"
proof (induction xs arbitrary: x)
  case (Cons v xs)
  then show ?case by (cases "xs = []") (auto simp: min_def)
qed simp

section \<open>stringsx\<close>

definition is_space :: "char \<Rightarrow> bool" where
  "is_space c \<longleftrightarrow> of_char c \<in> {9, 10, 11, 12, 13, 32 :: nat}"

definition TrimSpace :: "string \<Rightarrow> string" where
  "TrimSpace s = rev (dropWhile is_space (rev (dropWhile is_space s)))"

definition DefaultIfBlank :: "string \<Rightarrow> string \<Rightarrow> string" where
  "DefaultIfBlank s defaultValue = (if TrimSpace s \<noteq> '''' then s else defaultValue)"

fun FirstNonBlank :: "string list \<Rightarrow> string" where
  "FirstNonBlank [] = ''''"
| "FirstNonBlank (s # values) =
     (if length (TrimSpace s) \<noteq> 0 then s else FirstNonBlank values)"

definition Blank :: "string \<Rightarrow> bool" where
  "Blank s \<longleftrightarrow> length (TrimSpace s) = 0"

definition Present :: "string \<Rightarrow> bool" where
  "Present s \<longleftrightarrow> length (TrimSpace s) > 0"

lemma TrimSpace_Nil_iff [langx_simps]: "TrimSpace s = '''' \<longleftrightarrow> (\<forall>c \<in> set s. is_space c)"
  using set_dropWhileD [of _ is_space s] dropWhile_eq_Nil_conv [of is_space s]
  by (auto simp: TrimSpace_def) (metis dropWhile_eq_Nil_conv hd_dropWhile hd_in_set)

lemma Present_iff [langx_simps]: "Present s \<longleftrightarrow> \<not> Blank s"
  by (auto simp: Present_def Blank_def)

lemma Blank_iff [langx_simps]: "Blank s \<longleftrightarrow> (\<forall>c \<in> set s. is_space c)"
  by (simp add: Blank_def TrimSpace_Nil_iff)

lemma TrimSpace_idem [simp]: "TrimSpace (TrimSpace s) = TrimSpace s"
proof -
  have hd_drop: "dropWhile p xs = xs" if "xs \<noteq> [] \<Longrightarrow> \<not> p (hd xs)" for p and xs :: string
    using that by (cases xs) auto
  let ?a = "dropWhile is_space s"
  let ?t = "TrimSpace s"
  have "dropWhile is_space ?t = ?t"
  proof (rule hd_drop)
    assume ne: "?t \<noteq> []"
    have "\<exists>zs. ?a = ?t @ zs"
      by (metis TrimSpace_def rev_append rev_rev_ident takeWhile_dropWhile_id)
    with ne show "\<not> is_space (hd ?t)"
      by (metis append_is_Nil_conv hd_append2 hd_dropWhile)
  qed
  moreover have "dropWhile is_space (rev ?t) = rev ?t"
    by (rule hd_drop) (simp only: TrimSpace_def rev_rev_ident, erule hd_dropWhile)
  ultimately show ?thesis
    by (metis TrimSpace_def rev_rev_ident)
qed

text \<open>\<^verbatim>\<open>CompactWhitespace\<close>: the class \<^verbatim>\<open>\s\<close> of a regular expression has no vertical tab.\<close>

definition is_ws :: "char \<Rightarrow> bool" where
  "is_ws c \<longleftrightarrow> of_char c \<in> {9, 10, 12, 13, 32 :: nat}"

fun squeeze :: "bool \<Rightarrow> string \<Rightarrow> string" where
  "squeeze inside [] = []"
| "squeeze inside (c # cs) =
     (if is_ws c then (if inside then squeeze True cs else CHR '' '' # squeeze True cs)
      else c # squeeze False cs)"

definition CompactWhitespace :: "string \<Rightarrow> string" where
  "CompactWhitespace s = TrimSpace (squeeze False s)"

definition First_string :: "string list \<Rightarrow> string" where
  "First_string values = (case values of [] \<Rightarrow> '''' | s # _ \<Rightarrow> s)"

lemma squeeze_idem: "squeeze b (squeeze b s) = squeeze b s"
proof (induction b s rule: squeeze.induct)
  case (2 inside c cs)
  then show ?case
    by (auto simp: is_ws_def)
qed simp

end
