(* ===== verification/Gostd.thy ===== *)
theory Gostd
  imports Langx
begin

text \<open>
  The functions of Go's standard library on strings and paths the program calls:
  \<^verbatim>\<open>strings.Cut\<close>, \<^verbatim>\<open>Split\<close>, \<^verbatim>\<open>Replace\<close>, \<^verbatim>\<open>TrimPrefix\<close>, \<^verbatim>\<open>TrimSuffix\<close>, \<^verbatim>\<open>Fields\<close>, and
  \<^verbatim>\<open>path/filepath\<close>'s \<^verbatim>\<open>Split\<close>, \<^verbatim>\<open>Base\<close>, \<^verbatim>\<open>Clean\<close> and \<^verbatim>\<open>Join\<close> on Unix.
\<close>

named_theorems str_simps

section \<open>Package strings\<close>

definition HasPrefix :: "string \<Rightarrow> string \<Rightarrow> bool" where
  "HasPrefix s p \<longleftrightarrow> take (length p) s = p"

definition HasSuffix :: "string \<Rightarrow> string \<Rightarrow> bool" where
  "HasSuffix s p \<longleftrightarrow> length p \<le> length s \<and> drop (length s - length p) s = p"

definition TrimPrefix :: "string \<Rightarrow> string \<Rightarrow> string" where
  "TrimPrefix s p = (if HasPrefix s p then drop (length p) s else s)"

definition TrimSuffix :: "string \<Rightarrow> string \<Rightarrow> string" where
  "TrimSuffix s p = (if HasSuffix s p then take (length s - length p) s else s)"

text \<open>The parts before and after the first occurrence of a separator.\<close>

fun cut :: "string \<Rightarrow> string \<Rightarrow> (string \<times> string) option" where
  "cut sep [] = (if sep = [] then Some ([], []) else None)"
| "cut sep (c # cs) =
     (if HasPrefix (c # cs) sep then Some ([], drop (length sep) (c # cs))
      else (case cut sep cs of None \<Rightarrow> None | Some (a, b) \<Rightarrow> Some (c # a, b)))"

definition Contains :: "string \<Rightarrow> string \<Rightarrow> bool" where
  "Contains s sub \<longleftrightarrow> cut sub s \<noteq> None"

lemma cut_length: "cut sep s = Some (a, b) \<Longrightarrow> length a + length sep + length b = length s"
proof (induction sep s arbitrary: a b rule: cut.induct)
  case (2 sep c cs)
  show ?case
  proof (cases "HasPrefix (c # cs) sep")
    case True
    then have "length sep \<le> length (c # cs)"
      unfolding HasPrefix_def by (metis length_take min.cobounded1)
    with True 2(2) show ?thesis by auto
  next
    case False
    with 2 show ?thesis by (auto split: option.splits)
  qed
qed (auto split: if_splits)

lemma cut_append: "cut sep s = Some (a, b) \<Longrightarrow> s = a @ sep @ b"
proof (induction sep s arbitrary: a b rule: cut.induct)
  case (2 sep c cs)
  show ?case
  proof (cases "HasPrefix (c # cs) sep")
    case True
    with 2(2) show ?thesis
      unfolding HasPrefix_def by (metis append_Nil append_take_drop_id cut.simps(2)
          HasPrefix_def option.inject prod.inject)
  next
    case False
    with 2 show ?thesis by (auto split: option.splits)
  qed
qed (auto split: if_splits)

text \<open>\<^verbatim>\<open>strings.Split\<close> with a non-empty separator.\<close>

function split_str :: "string \<Rightarrow> string \<Rightarrow> string list" where
  "split_str sep s =
     (if sep = [] then [s]
      else (case cut sep s of None \<Rightarrow> [s] | Some (a, b) \<Rightarrow> a # split_str sep b))"
  by pat_completeness auto
termination
  by (relation "measure (\<lambda>(sep, s). length s)") (auto dest!: cut_length simp flip: length_greater_0_conv)

declare split_str.simps [simp del]

lemma split_str_ne [simp]: "split_str sep s \<noteq> []"
  by (subst split_str.simps) (auto split: option.splits)

definition replace_first :: "string \<Rightarrow> string \<Rightarrow> string \<Rightarrow> string" where
  "replace_first s old new = (case cut old s of None \<Rightarrow> s | Some (a, b) \<Rightarrow> a @ new @ b)"

definition replace_all :: "string \<Rightarrow> string \<Rightarrow> string \<Rightarrow> string" where
  "replace_all s old new = concat (butlast (map (\<lambda>x. x @ new) (split_str old s))) @
     last (split_str old s)"

text \<open>\<^verbatim>\<open>strings.Fields\<close>: the maximal runs of characters that are not white space.\<close>

fun fields_aux :: "string \<Rightarrow> string \<Rightarrow> string list" where
  "fields_aux cur [] = (if cur = [] then [] else [cur])"
| "fields_aux cur (c # cs) =
     (if is_space c then (if cur = [] then fields_aux [] cs else cur # fields_aux [] cs)
      else fields_aux (cur @ [c]) cs)"

definition Fields :: "string \<Rightarrow> string list" where
  "Fields s = fields_aux [] s"

definition to_lower :: "char \<Rightarrow> char" where
  "to_lower c = (if 65 \<le> (of_char c :: nat) \<and> (of_char c :: nat) \<le> 90
                 then char_of ((of_char c :: nat) + 32) else c)"

definition ToLower :: "string \<Rightarrow> string" where
  "ToLower s = map to_lower s"

fun join_str :: "string \<Rightarrow> string list \<Rightarrow> string" where
  "join_str sep [] = []"
| "join_str sep [s] = s"
| "join_str sep (s # t # ss) = s @ sep @ join_str sep (t # ss)"

section \<open>Package filepath\<close>

definition is_sep :: "char \<Rightarrow> bool" where
  "is_sep c \<longleftrightarrow> c = CHR ''/''"

definition path_split :: "string \<Rightarrow> string \<times> string" where
  "path_split p =
     (let file = rev (takeWhile (\<lambda>c. \<not> is_sep c) (rev p))
      in (take (length p - length file) p, file))"

definition path_base :: "string \<Rightarrow> string" where
  "path_base p =
     (if p = [] then ''.''
      else let q = rev (dropWhile is_sep (rev p)); file = snd (path_split q)
           in if q = [] then ''/'' else file)"

fun clean_stack :: "bool \<Rightarrow> string list \<Rightarrow> string list \<Rightarrow> string list" where
  "clean_stack rooted st [] = rev st"
| "clean_stack rooted st (c # cs) =
     (if c = [] \<or> c = ''.'' then clean_stack rooted st cs
      else if c = ''..'' then
        (case st of
           [] \<Rightarrow> clean_stack rooted (if rooted then [] else [''..'']) cs
         | x # xs \<Rightarrow> if x = ''..'' then clean_stack rooted (''..'' # st) cs
                    else clean_stack rooted xs cs)
      else clean_stack rooted (c # st) cs)"

definition path_clean :: "string \<Rightarrow> string" where
  "path_clean p =
     (let rooted = HasPrefix p ''/'';
          out = (if rooted then ''/'' else []) @
                join_str ''/'' (clean_stack rooted [] (split_str ''/'' p))
      in if out = [] then ''.'' else out)"

fun path_join_list :: "string list \<Rightarrow> string" where
  "path_join_list [] = []"
| "path_join_list (e # es) =
     (if e = [] then path_join_list es else path_clean (join_str ''/'' (e # es)))"

lemma path_split_append: "fst (path_split p) @ snd (path_split p) = p"
proof -
  let ?f = "rev (takeWhile (\<lambda>c. \<not> is_sep c) (rev p))"
  have "rev (dropWhile (\<lambda>c. \<not> is_sep c) (rev p)) @ ?f = p"
    by (metis rev_append rev_rev_ident takeWhile_dropWhile_id)
  then have "take (length p - length ?f) p = rev (dropWhile (\<lambda>c. \<not> is_sep c) (rev p))"
    by (metis append_eq_conv_conj diff_add_inverse2 length_append)
  with \<open>_ @ ?f = p\<close> show ?thesis
    by (simp add: path_split_def Let_def)
qed

lemma path_split_dir_rev:
  "fst (path_split p) = rev (dropWhile (\<lambda>c. \<not> is_sep c) (rev p))"
proof -
  have "snd (path_split p) = rev (takeWhile (\<lambda>c. \<not> is_sep c) (rev p))"
    by (simp add: path_split_def Let_def)
  with path_split_append [of p] show ?thesis
    by (metis append_same_eq rev_append rev_rev_ident takeWhile_dropWhile_id)
qed

lemma path_split_dir_last:
  "fst (path_split p) \<noteq> [] \<Longrightarrow> last (fst (path_split p)) = CHR ''/''"
  unfolding path_split_dir_rev
  by (metis hd_dropWhile hd_rev is_sep_def rev_is_Nil_conv rev_rev_ident)

lemma path_split_dir_length: "length (fst (path_split p)) \<le> length p"
  by (metis append_Nil2 le_add1 length_append path_split_append)

lemma TrimSuffix_slash_length:
  assumes "fst (path_split p) \<noteq> []"
  shows "length (TrimSuffix (fst (path_split p)) ''/'') < length p"
proof -
  let ?d = "fst (path_split p)"
  have "drop (length ?d - 1) ?d = [last ?d]"
    using assms by (metis append_butlast_last_id append_eq_conv_conj length_butlast)
  then have "HasSuffix ?d ''/''"
    using assms path_split_dir_last [OF assms]
    by (simp add: HasSuffix_def) (metis Suc_leI length_greater_0_conv)
  then have "length (TrimSuffix ?d ''/'') < length ?d"
    using assms by (simp add: TrimSuffix_def)
  with path_split_dir_length [of p] show ?thesis by simp
qed

end
