(* ===== verification/Httpx.thy ===== *)
theory Httpx
  imports Errorsx Gostd
begin

text \<open>
  \<^verbatim>\<open>shallows/internal/httpx\<close>: the helpers the HTTP clients and handlers are written
  with, as far as their result depends on the program. A request and a response are
  records of the parts the program reads; header names are compared without case, as
  \<^verbatim>\<open>http.Header\<close> does by storing them in canonical form. A round tripper passes its own
  state along.
\<close>

section \<open>Requests and responses\<close>

type_synonym header = "string \<Rightarrow> string list"

definition hdr_get :: "header \<Rightarrow> string \<Rightarrow> string" where
  "hdr_get h k = (case h (ToLower k) of [] \<Rightarrow> '''' | v # vs \<Rightarrow> v)"

definition hdr_set :: "header \<Rightarrow> string \<Rightarrow> string \<Rightarrow> header" where
  "hdr_set h k v = h(ToLower k := [v])"

definition hdr_add :: "header \<Rightarrow> string \<Rightarrow> string \<Rightarrow> header" where
  "hdr_add h k v = h(ToLower k := h (ToLower k) @ [v])"

record request =
  rMethod :: string
  rHost :: string
  rPath :: string
  rQuery :: string
  rHeader :: header
  rBody :: bytes
  rTLS :: bool

record response =
  StatusCode :: int
  Status :: string
  rsHeader :: header
  rsChunks :: "bytes list"
  rsErr :: "goerr option"

type_synonym result = "response option \<times> goerr option"

section \<open>Status codes and errors\<close>

fun CheckStatusCode :: "int \<Rightarrow> int list \<Rightarrow> bool" where
  "CheckStatusCode actual [] = False"
| "CheckStatusCode actual (code # acceptable) =
     (if actual = code then True else CheckStatusCode actual acceptable)"

definition GetRedirect :: "response \<Rightarrow> string \<times> bool" where
  "GetRedirect r =
     (if \<not> CheckStatusCode (StatusCode r) [307, 308] then ('''', False)
      else (hdr_get (rsHeader r) ''LOCATION'', True))"

definition IsSuccess :: "int \<Rightarrow> bool" where
  "IsSuccess actual = CheckStatusCode actual [204, 200, 202, 201]"

text \<open>A nil response with a nil error is a nil dereference.\<close>

definition AsError :: "result \<Rightarrow> result outcome" where
  "AsError = (\<lambda>(r, err).
     if err \<noteq> None then Return (r, err)
     else case r of
       None \<Rightarrow> Panic
     | Some resp \<Rightarrow>
         if StatusCode resp \<ge> 400
         then Return (r, Some (HttpError (StatusCode resp) (New (Status resp))))
         else Return (r, None))"

definition ErrorCode :: "response \<Rightarrow> goerr option" where
  "ErrorCode resp =
     (if StatusCode resp < 400 then None
      else Some (HttpError (StatusCode resp) (New (Status resp))))"

text \<open>\<^verbatim>\<open>IgnoreError\<close> asserts the value type \<^verbatim>\<open>Error\<close>. The package only makes pointers \<^verbatim>\<open>*Error\<close>,
  which are the \<open>HttpError\<close>s of the model, so the assertion is on a type no error of the
  program has; \<open>as_value_error\<close> says which errors would have it.\<close>

definition IgnoreError :: "(goerr \<Rightarrow> int option) \<Rightarrow> goerr option \<Rightarrow> int list \<Rightarrow> bool" where
  "IgnoreError as_value_error err codes =
     (case Cause err of
        None \<Rightarrow> False
      | Some e \<Rightarrow> (case as_value_error e of
          None \<Rightarrow> False
        | Some code \<Rightarrow> CheckStatusCode code codes))"

definition RangeHeaders :: "request \<Rightarrow> u64 \<Rightarrow> u64 \<Rightarrow> request" where
  "RangeHeaders r start e =
     r\<lparr>rHeader := hdr_add (rHeader r) ''Range''
        (''bytes='' @ format_nat (unat start) @ ''-'' @ format_nat (unat e))\<rparr>"

section \<open>Requests: origin and scheme\<close>

definition GetOrigin :: "request \<Rightarrow> string" where
  "GetOrigin r = TrimSuffix
     (FirstNonBlank [hdr_get (rHeader r) ''origin'', hdr_get (rHeader r) ''referer'']) ''/''"

definition HTTPRequestScheme :: "request \<Rightarrow> string" where
  "HTTPRequestScheme req = (if \<not> rTLS req then ''http'' else ''https'')"

definition HTTPRequestOrigin :: "request \<Rightarrow> string" where
  "HTTPRequestOrigin req =
     (let o1 = hdr_get (rHeader req) ''ORIGIN'';
          o2 = TrimPrefix o1 (HTTPRequestScheme req)
      in TrimPrefix o2 ''://'')"

definition HTTPRequestURL :: "request \<Rightarrow> string" where
  "HTTPRequestURL req = HTTPRequestScheme req @ ''://'' @ rHost req"

definition WebsocketRequestScheme :: "request \<Rightarrow> string" where
  "WebsocketRequestScheme req = (if \<not> rTLS req then ''ws'' else ''wss'')"

text \<open>\<^verbatim>\<open>mime.ParseMediaType\<close> is the argument \<open>parse\<close>.\<close>

definition MimeType :: "(string \<Rightarrow> string \<times> goerr option) \<Rightarrow> header \<Rightarrow> string" where
  "MimeType parse h =
     (let fallback = ''application/octet-stream'' in
      case parse (hdr_get h ''Content-Type'') of
        (t, Some err) \<Rightarrow> fallback
      | (t, None) \<Rightarrow> DefaultIfBlank t fallback)"

section \<open>Response writers\<close>

text \<open>\<^verbatim>\<open>http.ResponseWriter\<close>: the first \<^verbatim>\<open>WriteHeader\<close> (or the first \<^verbatim>\<open>Write\<close>, with 200) sends the
  headers as they are; later header changes and status codes have no effect.\<close>

record response_writer =
  wHeader :: header
  wSent :: "(int \<times> header) option"
  wBody :: string

definition fresh_response :: response_writer where
  "fresh_response = \<lparr>wHeader = (\<lambda>_. []), wSent = None, wBody = ''''\<rparr>"

definition Header_Set :: "string \<Rightarrow> string \<Rightarrow> response_writer \<Rightarrow> response_writer" where
  "Header_Set k v w = w\<lparr>wHeader := hdr_set (wHeader w) k v\<rparr>"

definition WriteHeader :: "int \<Rightarrow> response_writer \<Rightarrow> response_writer" where
  "WriteHeader code w =
     (if wSent w = None then w\<lparr>wSent := Some (code, wHeader w)\<rparr> else w)"

definition resp_Write :: "string \<Rightarrow> response_writer \<Rightarrow> response_writer" where
  "resp_Write b w = (let w = WriteHeader 200 w in w\<lparr>wBody := wBody w @ b\<rparr>)"

text \<open>\<^verbatim>\<open>WriteJSON\<close> and its relatives; the encoder is an argument. A write to the connection is
  taken to succeed.\<close>

definition WriteJSON ::
  "('a \<Rightarrow> goerr + string) \<Rightarrow> response_writer \<Rightarrow> 'a \<Rightarrow> response_writer \<times> goerr option" where
  "WriteJSON encode resp ctx =
     (let resp = Header_Set ''Content-Type'' ''application/json'' resp in
      case encode ctx of
        Inl err \<Rightarrow> (WriteHeader 500 resp, Some err)
      | Inr buffer \<Rightarrow> (resp_Write buffer resp, None))"

definition WriteJSONCode ::
  "('a \<Rightarrow> goerr + string) \<Rightarrow> response_writer \<Rightarrow> int \<Rightarrow> 'a \<Rightarrow> response_writer \<times> goerr option" where
  "WriteJSONCode encode resp code ctx =
     (let resp = WriteHeader code resp;
          resp = Header_Set ''Content-Type'' ''application/json'' resp in
      case encode ctx of
        Inl err \<Rightarrow> (WriteHeader 500 resp, Some err)
      | Inr buffer \<Rightarrow> (resp_Write buffer resp, None))"

definition WriteEmptyJSONArray :: "response_writer \<Rightarrow> int \<Rightarrow> response_writer \<times> goerr option" where
  "WriteEmptyJSONArray resp code =
     (let resp = Header_Set ''Content-Type'' ''application/json'' resp;
          resp = WriteHeader code resp
      in (resp_Write ''[]'' resp, None))"

definition WriteEmptyJSON :: "response_writer \<Rightarrow> int \<Rightarrow> response_writer \<times> goerr option" where
  "WriteEmptyJSON resp code =
     (let resp = Header_Set ''Content-Type'' ''application/json'' resp;
          resp = WriteHeader code resp
      in (resp_Write ''{}'' resp, None))"

definition Unauthorized :: "response_writer \<Rightarrow> response_writer" where
  "Unauthorized r = WriteHeader 401 r"

definition Forbidden :: "response_writer \<Rightarrow> response_writer" where
  "Forbidden r = WriteHeader 403 r"

definition ErrorHeader :: "response_writer \<Rightarrow> int \<Rightarrow> response_writer" where
  "ErrorHeader r code = WriteHeader code r"

section \<open>Round trippers\<close>

text \<open>A delegate returns its new state, how many bytes of the body it read, and the result.\<close>

type_synonym 's delegate = "'s \<Rightarrow> request \<Rightarrow> 's \<times> nat \<times> result"

text \<open>\<^verbatim>\<open>HeadersTransport\<close>: the headers as a list of keys with their values, in the order of the
  iteration.\<close>

fun add_headers :: "(string \<times> string list) list \<Rightarrow> request \<Rightarrow> request" where
  "add_headers [] req = req"
| "add_headers ((k, values) # hs) req =
     add_headers hs (fold (\<lambda>v r. r\<lparr>rHeader := hdr_add (rHeader r) k v\<rparr>) values req)"

definition HeadersTransport_RoundTrip ::
  "(string \<times> string list) list \<Rightarrow> 's delegate \<Rightarrow> 's delegate" where
  "HeadersTransport_RoundTrip h delegate s req = delegate s (add_headers h req)"

definition RateLimitTransport_RoundTrip ::
  "goerr option \<Rightarrow> 's delegate \<Rightarrow> 's delegate" where
  "RateLimitTransport_RoundTrip wait delegate s req =
     (case wait of Some err \<Rightarrow> (s, 0, None, Some err) | None \<Rightarrow> delegate s req)"

definition rewritehost_RoundTrip :: "string \<Rightarrow> string \<Rightarrow> 's delegate \<Rightarrow> 's delegate" where
  "rewritehost_RoundTrip dst_host dst_query delegate s req =
     delegate s (req\<lparr>rHost := dst_host, rQuery := dst_query\<rparr>)"

text \<open>\<^verbatim>\<open>RetryTransport\<close>: the body the delegate reads is copied to a buffer on the way, and the
  second attempt sends that buffer.\<close>

definition NewRetryTransport :: "int list \<Rightarrow> int set" where
  "NewRetryTransport codes = set codes"

definition RetryTransport_RoundTrip ::
  "int set \<Rightarrow> 's delegate \<Rightarrow> 's \<Rightarrow> request \<Rightarrow> ('s \<times> result \<times> request list) outcome" where
  "RetryTransport_RoundTrip codes delegate s req =
     (case delegate s req of
        (s1, n, resp, Some err) \<Rightarrow>
          if errors_is err (TSentinel DeadlineExceeded) then
            (let req2 = req\<lparr>rBody := take n (rBody req)\<rparr>; (s2, m, r) = delegate s1 req2
             in Return (s2, r, [req, req2]))
          else Return (s1, (resp, Some err), [req])
      | (s1, n, None, None) \<Rightarrow> Panic
      | (s1, n, Some resp, None) \<Rightarrow>
          if StatusCode resp \<notin> codes then Return (s1, (Some resp, None), [req])
          else
            (let req2 = req\<lparr>rBody := take n (rBody req)\<rparr>; (s2, m, r) = delegate s1 req2
             in Return (s2, r, [req, req2])))"

section \<open>Timeouts and chaos\<close>

text \<open>The rolling timeouts: \<open>fired\<close> says whether the timer had expired when the inner call
  returned; the first component tells whether the context is cancelled.\<close>

definition timeoutresponse_Write ::
  "(bytes \<Rightarrow> nat \<times> goerr option) \<Rightarrow> bool \<Rightarrow> bytes \<Rightarrow> bool \<times> nat \<times> goerr option" where
  "timeoutresponse_Write inner fired b =
     (let (n, err) = inner b in
      if fired then (True, 0, Some (Sentinel DeadlineExceeded)) else (False, n, err))"

definition timeoutreader_Read ::
  "(nat \<Rightarrow> nat \<times> goerr option) \<Rightarrow> bool \<Rightarrow> nat \<Rightarrow> bool \<times> nat \<times> goerr option" where
  "timeoutreader_Read inner fired b =
     (let (n, err) = inner b in
      if fired then (True, 0, Some (Sentinel DeadlineExceeded)) else (False, n, err))"

definition ChaosRateLimited :: "int \<Rightarrow> response_writer \<Rightarrow> response_writer" where
  "ChaosRateLimited max_ns w =
     WriteHeader 429 (Header_Set ''Retry-After''
       (format_int (go_quot (max_ns - go_rem max_ns 1000000000) 1000000000)) w)"

text \<open>\<^verbatim>\<open>rand.Intn(0)\<close> panics.\<close>

definition ChaosStatusCodes :: "(nat \<Rightarrow> nat) \<Rightarrow> int list \<Rightarrow> response_writer \<Rightarrow> response_writer outcome" where
  "ChaosStatusCodes intn codes w =
     (if codes = [] then Panic else Return (WriteHeader (codes ! intn (length codes)) w))"

definition Chaos ::
  "real \<Rightarrow> (response_writer \<Rightarrow> response_writer outcome) list \<Rightarrow> real \<Rightarrow> (nat \<Rightarrow> nat) \<Rightarrow>
   (response_writer \<Rightarrow> response_writer outcome) \<Rightarrow> response_writer \<Rightarrow> response_writer outcome" where
  "Chaos rate behavior prob intn original w =
     (if rate = 0 \<or> length behavior = 0 then original w
      else if rate < prob then original w
      else (behavior ! intn (length behavior)) w)"

section \<open>Lemmas\<close>

lemma CheckStatusCode_iff [simp]: "CheckStatusCode c cs \<longleftrightarrow> c \<in> set cs"
  by (induction cs) auto

lemma AsError_cases:
  "AsError (r, err) = Return (r', err') \<Longrightarrow> r' = r \<and> (err \<noteq> None \<longrightarrow> err' = err) \<and>
    (err = None \<longrightarrow> (\<exists>resp. r = Some resp \<and> (err' = None \<longleftrightarrow> StatusCode resp < 400)))"
  by (auto simp: AsError_def split: option.splits if_splits)

lemma hdr_get_set [simp]: "ToLower k = ToLower k' \<Longrightarrow> hdr_get (hdr_set h k v) k' = v"
  by (simp add: hdr_get_def hdr_set_def)

section \<open>Properties\<close>

text \<open>\<^verbatim>\<open>RetryTransport\<close> calls its delegate once, or twice with the same request but for the
  body: exactly when the first call ended in a deadline or a response with a retried
  status. The second body is the part of the first the delegate had read, so it is the
  whole body just when all of it was read.\<close>

theorem RetryTransport_attempts:
  assumes "RetryTransport_RoundTrip codes delegate s req = Return (s', r, sent)"
    and "delegate s req = (s1, n, resp, err)"
  shows "if std_is err (TSentinel DeadlineExceeded) \<or>
       (err = None \<and> (\<exists>x. resp = Some x \<and> StatusCode x \<in> codes))
    then sent = [req, req\<lparr>rBody := take n (rBody req)\<rparr>] \<and>
      (length (rBody req) \<le> n \<longrightarrow> sent = [req, req]) \<and>
      (\<exists>m. delegate s1 (req\<lparr>rBody := take n (rBody req)\<rparr>) = (s', m, r))
    else sent = [req] \<and> s' = s1 \<and> r = (resp, err)"
  using assms
  by (auto simp: RetryTransport_RoundTrip_def Let_def split: option.splits if_splits prod.splits)

definition flaky :: "nat delegate" where
  "flaky k req = (Suc k, 2, Some \<lparr>StatusCode = (if k = 0 then 502 else 200), Status = ''s'',
     rsHeader = (\<lambda>_. []), rsChunks = [], rsErr = None\<rparr>, None)"

definition post_abc :: request where
  "post_abc = \<lparr>rMethod = ''POST'', rHost = ''h'', rPath = ''/'', rQuery = '''',
     rHeader = (\<lambda>_. []), rBody = [97, 98, 99], rTLS = True\<rparr>"

theorem RetryTransport_attempts_witness:
  "\<exists>s' r. RetryTransport_RoundTrip {502} flaky 0 post_abc =
     Return (s', r, [post_abc, post_abc\<lparr>rBody := [97, 98]\<rparr>])"
proof -
  obtain s' r sent where rt: "RetryTransport_RoundTrip {502} flaky 0 post_abc = Return (s', r, sent)"
    by (simp add: RetryTransport_RoundTrip_def flaky_def Let_def)
  have "flaky 0 post_abc = (1, 2, Some \<lparr>StatusCode = 502, Status = ''s'',
     rsHeader = (\<lambda>_. []), rsChunks = [], rsErr = None\<rparr>, None)"
    by (simp add: flaky_def)
  from RetryTransport_attempts [OF rt this] rt show ?thesis
    by (auto simp: post_abc_def)
qed

text \<open>A response \<^verbatim>\<open>WriteJSON\<close> writes is sent with the JSON content type and the encoded
  body; \<^verbatim>\<open>WriteJSONCode\<close> sends the headers first, so its content type never reaches the
  client.\<close>

theorem WriteJSON_content_type:
  assumes "encode x = Inr b" and "wSent w = None"
  shows "(\<exists>h. wSent (fst (WriteJSON encode w x)) = Some (200, h) \<and>
      hdr_get h ''Content-Type'' = ''application/json'') \<and>
    wSent (fst (WriteJSONCode encode w code x)) = Some (code, wHeader w)"
  using assms
  by (simp_all add: WriteJSON_def WriteJSONCode_def resp_Write_def WriteHeader_def Header_Set_def Let_def)

theorem WriteJSON_content_type_witness:
  "wSent (fst (WriteJSONCode (\<lambda>x. Inr x) fresh_response 201 ''{}'')) = Some (201, \<lambda>_. [])"
  using WriteJSON_content_type [of "\<lambda>x. Inr x" "''{}''" "''{}''" fresh_response 201]
  by (simp add: fresh_response_def)

end
