(* ===== verification/Timex.thy ===== *)
theory Timex
  imports Errorsx
begin

text \<open>
  \<^verbatim>\<open>shallows/internal/timex\<close>. A \<^verbatim>\<open>time.Time\<close> is the instant it denotes, in nanoseconds since
  the first of January of the year 1 (the zero value of the type), and a
  \<^verbatim>\<open>time.Duration\<close> a 64-bit number of nanoseconds. The seconds of an instant are an
  \<^verbatim>\<open>int64\<close>, so \<^verbatim>\<open>time.Unix\<close> wraps.
\<close>

type_synonym instant = int
type_synonym duration = int

definition Nanosecond :: duration where "Nanosecond = 1"
definition Millisecond :: duration where "Millisecond = 1000000"
definition Second :: duration where "Second = 1000000000"
definition Minute :: duration where "Minute = 60 * Second"
definition Hour :: duration where "Hour = 60 * Minute"

definition unix_to_internal :: int where "unix_to_internal = 62135596800"

definition time_unix :: "int \<Rightarrow> int \<Rightarrow> instant" where
  "time_unix sec nsec =
     (if nsec < 0 \<or> nsec \<ge> Second then
        (let n = go_quot nsec Second;
             sec = i64 (sec + n); nsec = nsec - n * Second;
             (sec, nsec) = (if nsec < 0 then (i64 (sec - 1), nsec + Second) else (sec, nsec))
         in i64 (sec + unix_to_internal) * Second + nsec)
      else i64 (sec + unix_to_internal) * Second + nsec)"

definition Inf :: instant where
  "Inf = time_unix (max_i64 - 62135596800) 999999999"

definition NegInf :: instant where
  "NegInf = time_unix min_i64 min_i64"

fun max_time_from :: "instant \<Rightarrow> instant list \<Rightarrow> instant" where
  "max_time_from d [] = d"
| "max_time_from d (c # ds) = max_time_from (if c > d then c else d) ds"

definition time_Max :: "instant list \<Rightarrow> instant" where
  "time_Max ds = max_time_from NegInf ds"

fun min_time_from :: "instant \<Rightarrow> instant list \<Rightarrow> instant" where
  "min_time_from d [] = d"
| "min_time_from d (c # ds) = min_time_from (if c < d then c else d) ds"

definition time_Min :: "instant list \<Rightarrow> instant" where
  "time_Min ds = min_time_from Inf ds"

text \<open>\<^verbatim>\<open>NowAndEvery\<close>: what the loop waits for is the list of events, the result of each call of
  the function the list of results; the second component counts the calls. Without an
  event left it is still waiting, which is the result \<open>None\<close>.\<close>

datatype ticker_event = Tick | Done goerr

fun every_loop :: "(nat \<Rightarrow> goerr option) \<Rightarrow> nat \<Rightarrow> ticker_event list \<Rightarrow> (goerr \<times> nat) option" where
  "every_loop do n [] = None"
| "every_loop do n (Tick # es) =
     (case do n of Some err \<Rightarrow> Some (err, Suc n) | None \<Rightarrow> every_loop do (Suc n) es)"
| "every_loop do n (Done err # es) = Some (err, n)"

definition NowAndEvery :: "(nat \<Rightarrow> goerr option) \<Rightarrow> ticker_event list \<Rightarrow> (goerr \<times> nat) option" where
  "NowAndEvery do es = (case do 0 of Some err \<Rightarrow> Some (err, 1) | None \<Rightarrow> every_loop do 1 es)"

section \<open>Durations\<close>

definition DurationOrDefault :: "duration \<Rightarrow> duration \<Rightarrow> duration" where
  "DurationOrDefault a b = (if a = 0 then b else a)"

definition DurationMax :: "duration list \<Rightarrow> duration" where
  "DurationMax ds = fold (\<lambda>c d. if c > d then c else d) ds 0"

definition DurationMin :: "duration list \<Rightarrow> duration" where
  "DurationMin ds = fold (\<lambda>c d. if c < d then c else d) ds max_i64"

section \<open>The range of RFC 3339\<close>

definition RFC3339NegInf :: instant where
  "RFC3339NegInf = (- 366 * 86400 + 3661) * Second"

definition RFC3339Inf :: instant where
  "RFC3339Inf = 315537897599 * Second + 999000000"

definition RFC3339NanoMax :: "instant \<Rightarrow> instant" where
  "RFC3339NanoMax t = (let ts = RFC3339Inf in if t < ts then t else ts)"

definition RFC3339NanoMin :: "instant \<Rightarrow> instant" where
  "RFC3339NanoMin t = (let ts = RFC3339NegInf in if t > ts \<and> t \<noteq> NegInf then t else ts)"

definition RFC3339NanoEncode :: "instant \<Rightarrow> instant" where
  "RFC3339NanoEncode t = RFC3339NanoMax (RFC3339NanoMin t)"

definition RFC3339NanoMinDecode :: "instant \<Rightarrow> instant" where
  "RFC3339NanoMinDecode t = (let ts = RFC3339NegInf in if t > ts \<and> t \<noteq> ts then t else NegInf)"

definition RFC3339NanoMaxDecode :: "instant \<Rightarrow> instant" where
  "RFC3339NanoMaxDecode t = (let ts = RFC3339Inf in if t < ts \<or> t \<noteq> ts then t else Inf)"

definition RFC3339NanoDecode :: "instant \<Rightarrow> instant" where
  "RFC3339NanoDecode t = RFC3339NanoMaxDecode (RFC3339NanoMinDecode t)"

section \<open>Lemmas\<close>

lemma Inf_eq: "Inf = max_i64 * Second + 999999999"
  by code_simp

lemma NegInf_eq: "NegInf = (min_i64 + 52912224763) * Second + 145224192"
  by code_simp

lemma RFC3339_order:
  "NegInf < RFC3339NegInf" "RFC3339NegInf < RFC3339Inf" "RFC3339Inf < Inf"
  by (simp_all add: NegInf_eq Inf_eq RFC3339NegInf_def RFC3339Inf_def Second_def
      min_i64_def max_i64_def)

lemma fold_max_ge: "(d :: int) \<le> fold (\<lambda>c d. if c > d then c else d) ds d"
  by (induction ds arbitrary: d) (auto intro: order_trans dest: less_imp_le)

lemma DurationMax_nonneg [simp]: "0 \<le> DurationMax ds"
  unfolding DurationMax_def by (rule fold_max_ge)

lemma DurationMax_two: "0 \<le> a \<Longrightarrow> DurationMax [a, b] = max a b"
  by (auto simp: DurationMax_def)

section \<open>Properties\<close>

text \<open>Encoding for RFC 3339 keeps every instant inside the range and clamps the others to
  its ends, and decoding takes the ends back to the infinities, so that decoding an
  encoded instant returns it, or the infinity on its side of the range.\<close>

theorem RFC3339_round_trip:
  "RFC3339NegInf \<le> RFC3339NanoEncode t \<and> RFC3339NanoEncode t \<le> RFC3339Inf \<and>
   RFC3339NanoDecode (RFC3339NanoEncode t) =
     (if t \<le> RFC3339NegInf then NegInf else if RFC3339Inf \<le> t then Inf else t)"
  using RFC3339_order
  by (auto simp: RFC3339NanoEncode_def RFC3339NanoMax_def RFC3339NanoMin_def RFC3339NanoDecode_def
      RFC3339NanoMinDecode_def RFC3339NanoMaxDecode_def Let_def)

end
