(* ===== verification/Jwtx.thy ===== *)
theory Jwtx
  imports Httpx Timex
begin

text \<open>
  Bearer tokens: \<^verbatim>\<open>shallows/internal/jwtx\<close>, the extraction of \<^verbatim>\<open>shallows/authn\<close> and the
  middleware of \<^verbatim>\<open>shallows/httpauth\<close>.

  The library \<^verbatim>\<open>golang-jwt\<close> is a parameter: \<open>parse algos secret s\<close> is
  \<^verbatim>\<open>jwt.ParseWithClaims\<close> on the text \<open>s\<close>, an error or the claims and the flag
  \<^verbatim>\<open>token.Valid\<close>. Times are nanoseconds since the epoch; a \<^verbatim>\<open>jwt.NumericDate\<close> is an instant
  cut to the second, and may be missing.
\<close>

section \<open>Claims\<close>

record RegisteredClaims =
  rc_ID :: string
  rc_Issuer :: string
  rc_Subject :: string
  rc_Audience :: "string list"
  rc_ExpiresAt :: "int option"
  rc_NotBefore :: "int option"
  rc_IssuedAt :: "int option"

definition NewNumericDate :: "int \<Rightarrow> int option" where
  "NewNumericDate t = Some (t - t mod 1000000000)"

definition unix_seconds :: "int \<Rightarrow> int" where
  "unix_seconds t = t div 1000000000"

text \<open>An option that adds to a missing date dereferences nil.\<close>

type_synonym claims_option = "RegisteredClaims \<Rightarrow> RegisteredClaims outcome"

definition ClaimsOptionExpiration :: "int \<Rightarrow> claims_option" where
  "ClaimsOptionExpiration d rc =
     (case rc_IssuedAt rc of
        None \<Rightarrow> Panic
      | Some t \<Rightarrow> Return (rc\<lparr>rc_ExpiresAt := NewNumericDate (t + d)\<rparr>))"

definition ClaimsOptionAuthzExpiration :: claims_option where
  "ClaimsOptionAuthzExpiration = ClaimsOptionExpiration 3600000000000"

definition ClaimsOptionAuthnExpiration :: claims_option where
  "ClaimsOptionAuthnExpiration = ClaimsOptionExpiration (7 * 24 * 3600000000000)"

definition ClaimsOptionAuthnRefreshExpiration :: claims_option where
  "ClaimsOptionAuthnRefreshExpiration rc = Return (rc\<lparr>rc_ExpiresAt := None\<rparr>)"

definition ClaimsOptionIssued :: "int \<Rightarrow> claims_option" where
  "ClaimsOptionIssued t rc = Return (rc\<lparr>rc_IssuedAt := NewNumericDate t\<rparr>)"

definition ClaimsOptionNotBefore :: "int \<Rightarrow> claims_option" where
  "ClaimsOptionNotBefore t rc = Return (rc\<lparr>rc_NotBefore := NewNumericDate t\<rparr>)"

definition ClaimsOptionIssuer :: "string \<Rightarrow> claims_option" where
  "ClaimsOptionIssuer s rc = Return (rc\<lparr>rc_Issuer := s\<rparr>)"

definition ClaimsOptionAudience :: "string list \<Rightarrow> claims_option" where
  "ClaimsOptionAudience s rc = Return (rc\<lparr>rc_Audience := s\<rparr>)"

definition ClaimsOptionID :: "string \<Rightarrow> claims_option" where
  "ClaimsOptionID s rc = Return (rc\<lparr>rc_ID := s\<rparr>)"

fun ClaimsOptionComposed :: "claims_option list \<Rightarrow> claims_option" where
  "ClaimsOptionComposed [] rc = Return rc"
| "ClaimsOptionComposed (opt # opts) rc = bind_outcome (opt rc) (ClaimsOptionComposed opts)"

text \<open>\<open>uuid\<close> is the fresh identifier and \<open>now\<close> the clock.\<close>

definition NewJWTClaims ::
  "string \<Rightarrow> int \<Rightarrow> string \<Rightarrow> claims_option list \<Rightarrow> RegisteredClaims outcome" where
  "NewJWTClaims uuid now subject options =
     ClaimsOptionComposed options
       \<lparr>rc_ID = uuid, rc_Issuer = '''', rc_Subject = subject, rc_Audience = [],
        rc_ExpiresAt = NewNumericDate (now + 60000000000), rc_NotBefore = NewNumericDate now,
        rc_IssuedAt = NewNumericDate now\<rparr>"

section \<open>Validation\<close>

type_synonym 'c jwt_parse = "string list \<Rightarrow> bytes \<Rightarrow> string \<Rightarrow> goerr + 'c \<times> bool"

text \<open>\<^verbatim>\<open>strings.NewReplacer("bearer ", "", "BEARER ", "")\<close>.\<close>

function strip_bearer :: "string \<Rightarrow> string" where
  "strip_bearer s =
     (case s of [] \<Rightarrow> []
      | c # cs \<Rightarrow>
          if HasPrefix s ''bearer '' \<or> HasPrefix s ''BEARER '' then strip_bearer (drop 7 s)
          else c # strip_bearer cs)"
  by pat_completeness auto
termination by (relation "measure length") auto

declare strip_bearer.simps [simp del]

definition Validate ::
  "'c jwt_parse \<Rightarrow> string list \<Rightarrow> string \<Rightarrow> bytes \<Rightarrow> string \<Rightarrow> goerr + 'c" where
  "Validate parse algos typename secret encoded =
     (case parse algos secret (strip_bearer encoded) of
        Inl err \<Rightarrow> Inl (WithStack (WithMessage err (''unable to parse jwt token: '' @ typename)))
      | Inr (claims, valid) \<Rightarrow>
          if \<not> valid then Inl (Fundamental ''invalid token'') else Inr claims)"

definition BearerFromHTTPContext ::
  "'c jwt_parse \<Rightarrow> string list \<Rightarrow> string \<Rightarrow> bytes \<Rightarrow> request \<Rightarrow> string \<times> (goerr + 'c)" where
  "BearerFromHTTPContext parse algos typename secret r =
     (let encoded = hdr_get (rHeader r) ''authorization''
      in (encoded, Validate parse algos typename secret encoded))"

definition NotAuthorized :: goerr where
  "NotAuthorized = New ''not authorized''"

text \<open>\<^verbatim>\<open>authn.Bearer\<close>: the word after the scheme, whose case does not matter.\<close>

definition Bearer :: "request \<Rightarrow> string" where
  "Bearer req =
     (let h = hdr_get (rHeader req) ''authorization'';
          (before, after) = (case cut '' '' h of None \<Rightarrow> (h, '''') | Some p \<Rightarrow> p)
      in if ToLower before \<noteq> ''bearer'' then '''' else after)"

section \<open>Middleware\<close>

text \<open>A handler acts on the state of the service and on the response. Its context holds what
  the middleware put there, here a value of type \<open>'x\<close>.\<close>

type_synonym ('s, 'x) handler =
  "'s \<Rightarrow> 'x \<Rightarrow> response_writer \<Rightarrow> request \<Rightarrow> ('s \<times> response_writer) outcome"

definition AuthenticateWithToken ::
  "RegisteredClaims jwt_parse \<Rightarrow> string list \<Rightarrow> bytes \<Rightarrow> ('s, 'x) handler \<Rightarrow> ('s, 'x) handler" where
  "AuthenticateWithToken parse algos secret original s ctx resp req =
     (case Validate parse algos ''*jwt.RegisteredClaims'' secret (Bearer req) of
        Inl err \<Rightarrow> Return (s, Unauthorized resp)
      | Inr b \<Rightarrow> original s ctx resp req)"

definition IssuerSubjectID ::
  "RegisteredClaims jwt_parse \<Rightarrow> string list \<Rightarrow> bytes \<Rightarrow> request \<Rightarrow> goerr + string \<times> string" where
  "IssuerSubjectID parse algos secret req =
     (case snd (BearerFromHTTPContext parse algos ''*jwt.RegisteredClaims'' secret req) of
        Inl err \<Rightarrow> Inl err
      | Inr b \<Rightarrow> Inr (rc_Issuer b, rc_Subject b))"

text \<open>\<^verbatim>\<open>httpx.ParseForm\<close>; whether the form is malformed is an argument.\<close>

definition ParseForm :: "bool \<Rightarrow> ('s, 'x) handler \<Rightarrow> ('s, 'x) handler" where
  "ParseForm malformed original s ctx w r =
     (if malformed then
        Return (s, resp_Write (''malformatted form'' @ ''\<newline>'')
          (WriteHeader 400 (Header_Set ''X-Content-Type-Options'' ''nosniff''
            (Header_Set ''Content-Type'' ''text/plain; charset=utf-8'' w))))
      else original s ctx w r)"

section \<open>Lemmas\<close>

lemma strip_bearer_id: "CHR '' '' \<notin> set s \<Longrightarrow> strip_bearer s = s"
proof (induction s rule: strip_bearer.induct)
  case (1 s)
  have np: "\<not> HasPrefix s p" if "CHR '' '' \<in> set p" for p
    using 1(3) that unfolding HasPrefix_def by (metis in_set_takeD)
  show ?case
    using 1 np [of "''bearer ''"] np [of "''BEARER ''"]
    by (subst strip_bearer.simps) (auto split: list.splits)
qed

lemma strip_bearer_prefix:
  "CHR '' '' \<notin> set s \<Longrightarrow> strip_bearer (''bearer '' @ s) = s"
  by (subst strip_bearer.simps) (simp add: HasPrefix_def strip_bearer_id)

lemma strip_bearer_step:
  "\<not> HasPrefix (c # cs) ''bearer '' \<Longrightarrow> \<not> HasPrefix (c # cs) ''BEARER '' \<Longrightarrow>
   strip_bearer (c # cs) = c # strip_bearer cs"
  by (subst strip_bearer.simps) simp

text \<open>The scheme spelled with one capital is not removed.\<close>

lemma strip_bearer_capital: "strip_bearer (''Bearer '' @ s) = ''Bearer '' @ strip_bearer s"
  by (simp add: strip_bearer_step HasPrefix_def)

end
