(* ===== verification/Sqlx.thy ===== *)
theory Sqlx
  imports Timex Gostd
begin

text \<open>
  Queries: \<^verbatim>\<open>shallows/internal/sqlx\<close>, and the tables the generated queries run on.

  A table is the list of its rows in the order they were inserted. What the database adds to
  a statement is the record \<open>sqldb\<close>: the error it fails with, the instant \<^verbatim>\<open>NOW()\<close> denotes, the
  errors of an arithmetic expression out of the range of its type, of a duplicate key and of a
  name that is no column, and the cast of a text to a \<^verbatim>\<open>UUID\<close>, in one spelling. A statement that
  fails leaves the table as it was. \<^verbatim>\<open>QueryRow\<close> answers with the first row or \<^verbatim>\<open>sql.ErrNoRows\<close>.
\<close>

section \<open>Errors\<close>

definition IgnoreNoRows :: "goerr option \<Rightarrow> goerr option" where
  "IgnoreNoRows err = (if Cause err = Some (Sentinel ErrNoRows) then None else err)"

definition is_ErrNoRows :: "goerr option \<Rightarrow> goerr option" where
  "is_ErrNoRows err = (if Cause err = Some (Sentinel ErrNoRows) then err else None)"

definition IgnoreTxDone :: "goerr option \<Rightarrow> goerr option" where
  "IgnoreTxDone err = (if err = Some (Sentinel ErrTxDone) then None else err)"

lemma IgnoreNoRows_or: "IgnoreNoRows err = None \<or> is_ErrNoRows err = None"
  by (simp add: IgnoreNoRows_def is_ErrNoRows_def)

section \<open>Result sets\<close>

text \<open>The rows of a scanner, each the record or the error \<^verbatim>\<open>Scan\<close> makes of it, and the error
  \<^verbatim>\<open>Err\<close> reports once they are consumed. The loop body is a function of a state that also
  says whether it wants more; the result is its last state and the cause the iterator keeps.\<close>

record 'a result_set =
  rs_rows :: "(goerr + 'a) list"
  rs_err :: "goerr option"

fun iter_rows :: "('s \<Rightarrow> 'a \<Rightarrow> 's \<times> bool) \<Rightarrow> 's \<Rightarrow> (goerr + 'a) list \<Rightarrow> goerr option \<Rightarrow> 's \<times> goerr option" where
  "iter_rows body s [] err = (s, err)"
| "iter_rows body s (Inl e # rows) err = (s, withStack (Some e))"
| "iter_rows body s (Inr p # rows) err =
     (case body s p of
        (s', True) \<Rightarrow> iter_rows body s' rows err
      | (s', False) \<Rightarrow> (s', None))"

definition Iter :: "'a result_set \<Rightarrow> ('s \<Rightarrow> 'a \<Rightarrow> 's \<times> bool) \<Rightarrow> 's \<Rightarrow> 's \<times> goerr option" where
  "Iter rs body s = iter_rows body s (rs_rows rs) (rs_err rs)"

definition ScanOne :: "'a result_set \<Rightarrow> goerr + 'a" where
  "ScanOne rs =
     (case Iter rs (\<lambda>_ v. (Some v, False)) None of
        (Some v, _) \<Rightarrow> Inr v
      | (None, err) \<Rightarrow>
          (case Compact [err, Some (Sentinel ErrNoRows)] of
             Some e \<Rightarrow> Inl e | None \<Rightarrow> Inl (Sentinel ErrNoRows)))"

definition ScanInto :: "'a result_set \<Rightarrow> 'a list \<Rightarrow> 'a list \<times> goerr option" where
  "ScanInto rs dst = Iter rs (\<lambda>d v. (d @ [v], True)) dst"

definition Discard :: "'a result_set \<Rightarrow> goerr option" where
  "Discard rs = snd (Iter rs (\<lambda>_ _. ((), True)) ())"

text \<open>The longest prefix of rows that scan.\<close>

fun scanned :: "(goerr + 'a) list \<Rightarrow> 'a list" where
  "scanned (Inr v # rows) = v # scanned rows"
| "scanned rows = []"

lemma iter_rows_append:
  "fst (iter_rows (\<lambda>d v. (d @ [v], True)) d rows err) = d @ scanned rows"
  by (induction rows arbitrary: d rule: scanned.induct) simp_all

lemma iter_rows_err:
  "snd (iter_rows (\<lambda>d v. (f d v, True)) d rows err) =
     (case dropWhile (\<lambda>r. \<not> isl r) rows of [] \<Rightarrow> err | Inl e # _ \<Rightarrow> withStack (Some e) | _ \<Rightarrow> err)"
  by (induction rows arbitrary: d rule: scanned.induct) simp_all

lemma ScanInto_eq: "fst (ScanInto rs dst) = dst @ scanned (rs_rows rs)"
  by (simp add: ScanInto_def Iter_def iter_rows_append)

text \<open>\<^verbatim>\<open>sqlxx.ScanEach\<close> calls a function that may fail on every row.\<close>

fun each_rows ::
  "('s \<Rightarrow> 'a \<Rightarrow> 's \<times> goerr option) \<Rightarrow> 's \<Rightarrow> (goerr + 'a) list \<Rightarrow> goerr option \<Rightarrow> 's \<times> goerr option" where
  "each_rows body s [] err = (s, withStack err)"
| "each_rows body s (Inl e # rows) err = (s, withStack (Some e))"
| "each_rows body s (Inr p # rows) err =
     (case body s p of
        (s', Some cause) \<Rightarrow> (s', withStack (Some cause))
      | (s', None) \<Rightarrow> each_rows body s' rows err)"

definition ScanEach :: "'a result_set \<Rightarrow> ('s \<Rightarrow> 'a \<Rightarrow> 's \<times> goerr option) \<Rightarrow> 's \<Rightarrow> 's \<times> goerr option" where
  "ScanEach rs body s = each_rows body s (rs_rows rs) (rs_err rs)"

lemma ScanEach_Iter:
  "fst (ScanEach rs (\<lambda>s p. (f s p, None)) s) = fst (Iter rs (\<lambda>s p. (f s p, True)) s) \<and>
   (snd (ScanEach rs (\<lambda>s p. (f s p, None)) s) = None \<longleftrightarrow> snd (Iter rs (\<lambda>s p. (f s p, True)) s) = None)"
proof -
  have "fst (each_rows (\<lambda>s p. (f s p, None)) s rows err) = fst (iter_rows (\<lambda>s p. (f s p, True)) s rows err) \<and>
     (snd (each_rows (\<lambda>s p. (f s p, None)) s rows err) = None \<longleftrightarrow> snd (iter_rows (\<lambda>s p. (f s p, True)) s rows err) = None)"
    for rows err
    by (induction rows arbitrary: s rule: scanned.induct) (auto simp: withStack_def split: option.split)
  then show ?thesis by (simp add: ScanEach_def Iter_def)
qed

section \<open>Transactions\<close>

text \<open>The state of the database is a value; what a transaction did is kept when it commits.\<close>

definition CompleteTx ::
  "goerr option \<Rightarrow> 'd \<Rightarrow> 'd \<times> goerr option \<Rightarrow> 'd \<times> goerr option" where
  "CompleteTx commit d finished =
     (case finished of
        (d', None) \<Rightarrow> (case commit of None \<Rightarrow> (d', None) | Some e \<Rightarrow> (d, Some e))
      | (d', Some err) \<Rightarrow> (d, Some err))"

datatype queryer = Beginner | InTx | OtherQueryer

definition WithinTransaction ::
  "queryer \<Rightarrow> goerr option \<Rightarrow> goerr option \<Rightarrow> ('d \<Rightarrow> 'd \<times> goerr option) \<Rightarrow> 'd \<Rightarrow> 'd \<times> goerr option" where
  "WithinTransaction q begin_err commit work d =
     (case q of
        Beginner \<Rightarrow> (case begin_err of Some e \<Rightarrow> (d, Some e) | None \<Rightarrow> CompleteTx commit d (work d))
      | InTx \<Rightarrow> work d
      | OtherQueryer \<Rightarrow> (d, Some (StringErr ''not a transaction'')))"

section \<open>Column lists\<close>

definition PrependTableName :: "string \<Rightarrow> string \<Rightarrow> string" where
  "PrependTableName tbl reference =
     join_str '','' (map (\<lambda>column. tbl @ ''.'' @ column) (split_str '','' reference))"

definition Columns :: "string \<Rightarrow> string list" where
  "Columns reference = split_str '','' reference"

section \<open>Statements\<close>

record sqldb =
  sql_err :: "goerr option"
  sql_now :: instant
  sql_range :: goerr
  sql_duplicate :: goerr
  sql_undefined :: goerr
  sql_uuid :: "string \<Rightarrow> goerr + string"

definition query_row :: "'r list \<Rightarrow> goerr + 'r" where
  "query_row rows = (case rows of [] \<Rightarrow> Inl (Sentinel ErrNoRows) | r # _ \<Rightarrow> Inr r)"

definition select_where :: "sqldb \<Rightarrow> ('r \<Rightarrow> bool) \<Rightarrow> 'r list \<Rightarrow> 'r result_set" where
  "select_where db p tbl =
     (case sql_err db of
        Some e \<Rightarrow> \<lparr>rs_rows = [], rs_err = Some e\<rparr>
      | None \<Rightarrow> \<lparr>rs_rows = map Inr (filter p tbl), rs_err = None\<rparr>)"

definition find_where :: "sqldb \<Rightarrow> ('r \<Rightarrow> bool) \<Rightarrow> 'r list \<Rightarrow> goerr + 'r" where
  "find_where db p tbl =
     (case sql_err db of Some e \<Rightarrow> Inl e | None \<Rightarrow> query_row (filter p tbl))"

text \<open>An assignment may fail for a row; then so does the statement.\<close>

definition update_where ::
  "sqldb \<Rightarrow> ('r \<Rightarrow> bool) \<Rightarrow> ('r \<Rightarrow> goerr + 'r) \<Rightarrow> 'r list \<Rightarrow> 'r list \<times> (goerr + 'r)" where
  "update_where db p f tbl =
     (case sql_err db of
        Some e \<Rightarrow> (tbl, Inl e)
      | None \<Rightarrow>
          (case find isl (map f (filter p tbl)) of
             Some bad \<Rightarrow> (tbl, Inl (projl bad))
           | None \<Rightarrow> (map (\<lambda>r. if p r then projr (f r) else r) tbl,
                   query_row (map (projr \<circ> f) (filter p tbl)))))"

definition delete_where :: "sqldb \<Rightarrow> ('r \<Rightarrow> bool) \<Rightarrow> 'r list \<Rightarrow> 'r list \<times> (goerr + 'r)" where
  "delete_where db p tbl =
     (case sql_err db of
        Some e \<Rightarrow> (tbl, Inl e)
      | None \<Rightarrow> (filter (\<lambda>r. \<not> p r) tbl, query_row (filter p tbl)))"

text \<open>\<^verbatim>\<open>INSERT ... ON CONFLICT (id) DO UPDATE\<close>: the assignment sees the stored row and the row
  \<^verbatim>\<open>EXCLUDED\<close>.\<close>

definition upsert ::
  "('r \<Rightarrow> 'k) \<Rightarrow> sqldb \<Rightarrow> ('r \<Rightarrow> 'r \<Rightarrow> goerr + 'r) \<Rightarrow> 'r \<Rightarrow> 'r list \<Rightarrow> 'r list \<times> (goerr + 'r)" where
  "upsert key db conflict new tbl =
     (case sql_err db of
        Some e \<Rightarrow> (tbl, Inl e)
      | None \<Rightarrow>
          if key new \<in> set (map key tbl)
          then update_where db (\<lambda>r. key r = key new) (\<lambda>r. conflict r new) tbl
          else (tbl @ [new], Inr new))"

text \<open>An assignment that cannot fail, with all the rows the statement returns.\<close>

definition update_all :: "sqldb \<Rightarrow> ('r \<Rightarrow> bool) \<Rightarrow> ('r \<Rightarrow> 'r) \<Rightarrow> 'r list \<Rightarrow> 'r list \<times> 'r result_set" where
  "update_all db p f tbl =
     (case sql_err db of
        Some e \<Rightarrow> (tbl, \<lparr>rs_rows = [], rs_err = Some e\<rparr>)
      | None \<Rightarrow> (map (\<lambda>r. if p r then f r else r) tbl,
          \<lparr>rs_rows = map Inr (map f (filter p tbl)), rs_err = None\<rparr>))"

text \<open>A text where a \<^verbatim>\<open>UUID\<close> is expected.\<close>

definition uuid_arg :: "sqldb \<Rightarrow> string \<Rightarrow> (string \<Rightarrow> 't \<Rightarrow> 't \<times> (goerr + 'r)) \<Rightarrow> 't \<Rightarrow> 't \<times> (goerr + 'r)" where
  "uuid_arg db s k tbl = (case sql_uuid db s of Inl e \<Rightarrow> (tbl, Inl e) | Inr u \<Rightarrow> k u tbl)"

text \<open>A select with its clauses: \<open>order\<close> is what the database makes of \<^verbatim>\<open>ORDER BY\<close>.\<close>

definition select_page ::
  "sqldb \<Rightarrow> ('r \<Rightarrow> bool) \<Rightarrow> ('r list \<Rightarrow> 'r list) \<Rightarrow> u64 \<Rightarrow> u64 \<Rightarrow> 'r list \<Rightarrow> 'r result_set" where
  "select_page db p order skip limit tbl =
     (case sql_err db of
        Some e \<Rightarrow> \<lparr>rs_rows = [], rs_err = Some e\<rparr>
      | None \<Rightarrow> \<lparr>rs_rows = map Inr (take (unat limit) (drop (unat skip) (order (filter p tbl)))), rs_err = None\<rparr>)"

lemma update_where_all:
  "update_where db p (\<lambda>r. Inr (f r)) tbl =
     (fst (update_all db p f tbl),
      case sql_err db of Some e \<Rightarrow> Inl e | None \<Rightarrow> query_row (map f (filter p tbl)))"
proof -
  have "find isl (map (\<lambda>r. Inr (f r) :: goerr + _) xs) = None" for xs
    by (auto simp: find_None_iff)
  then show ?thesis
    by (simp add: update_where_def update_all_def comp_def split: option.split)
qed

text \<open>The pages of a listing, one after the other.\<close>

lemma page_offset:
  fixes l :: u64
  assumes "0 < l" "n * unat l < 2 ^ 64" "k < n"
  shows "unat (of_nat k * l) = k * unat l"
proof -
  have pos: "0 < unat l" using assms(1) by (simp add: word_less_nat_alt)
  then have "k * unat l < n * unat l" using assms(3) by simp
  then have bound: "k * unat l < 2 ^ 64" using assms(2) by linarith
  moreover have "k \<le> k * unat l" using pos by simp
  ultimately have "k < 2 ^ 64" by linarith
  with bound show ?thesis by (simp add: unat_word_ariths unat_of_nat)
qed

lemma concat_pages:
  assumes "\<And>k. k < n \<Longrightarrow> pages k = take l (drop (k * l) xs)" "length xs \<le> n * l"
  shows "concat (map pages [0..<n]) = xs"
proof -
  have "concat (map pages [0..<k]) = take (k * l) xs" if "k \<le> n" for k
    using that
  proof (induction k)
    case (Suc k)
    then show ?case
      using take_add [of "k * l" l xs] by (simp add: assms(1) add.commute)
  qed simp
  with assms(2) show ?thesis by simp
qed

section \<open>Tables with a primary key\<close>

definition table_ok :: "('r \<Rightarrow> 'k) \<Rightarrow> ('r \<Rightarrow> bool) \<Rightarrow> 'r list \<Rightarrow> bool" where
  "table_ok key good tbl \<longleftrightarrow> distinct (map key tbl) \<and> (\<forall>r \<in> set tbl. good r)"

definition row_of :: "('r \<Rightarrow> 'k) \<Rightarrow> 'r list \<Rightarrow> 'k \<Rightarrow> 'r option" where
  "row_of key tbl k = find (\<lambda>r. key r = k) tbl"

lemma row_of_filter: "row_of key tbl k = (case filter (\<lambda>r. key r = k) tbl of [] \<Rightarrow> None | r # _ \<Rightarrow> Some r)"
  unfolding row_of_def by (induction tbl) auto

lemma row_of_map:
  "\<forall>r. key (f r) = key r \<Longrightarrow> row_of key (map f tbl) k = map_option f (row_of key tbl k)"
  unfolding row_of_def by (induction tbl) auto

lemma row_of_append:
  "row_of key (tbl @ [r]) k =
     (case row_of key tbl k of None \<Rightarrow> (if key r = k then Some r else None) | Some r' \<Rightarrow> Some r')"
  unfolding row_of_def by (induction tbl) auto

lemma row_of_None_iff: "row_of key tbl k = None \<longleftrightarrow> k \<notin> set (map key tbl)"
  by (auto simp: row_of_def find_None_iff)

lemma row_of_Some: "row_of key tbl k = Some r \<Longrightarrow> r \<in> set tbl \<and> key r = k"
  by (auto simp: row_of_def find_Some_iff)

lemma find_where_row_of:
  "sql_err db = None \<Longrightarrow>
   find_where db (\<lambda>r. key r = k) tbl =
     (case row_of key tbl k of None \<Rightarrow> Inl (Sentinel ErrNoRows) | Some r \<Rightarrow> Inr r)"
  by (auto simp: find_where_def query_row_def row_of_filter split: list.splits)

text \<open>A successful statement, row by row.\<close>

lemma find_isl_None:
  "find isl (map f xs) = None \<Longrightarrow> x \<in> set xs \<Longrightarrow> \<exists>y. f x = Inr y"
  unfolding find_None_iff by (metis imageI list.set_map sum.collapse(2))

lemma update_where_cases:
  obtains (failed) e where "update_where db p f tbl = (tbl, Inl e)"
  | (ran) "sql_err db = None" "\<And>r. r \<in> set tbl \<Longrightarrow> p r \<Longrightarrow> \<exists>y. f r = Inr y"
    "update_where db p f tbl = (map (\<lambda>r. if p r then projr (f r) else r) tbl,
       query_row (map (projr \<circ> f) (filter p tbl)))"
proof (cases "sql_err db")
  case (Some e)
  then show ?thesis by (intro that(1) [of e]) (simp add: update_where_def)
next
  case None
  show ?thesis
  proof (cases "find isl (map f (filter p tbl))")
    case (Some bad)
    with None show ?thesis by (intro that(1) [of "projl bad"]) (simp add: update_where_def)
  next
    case none: None
    have "\<exists>y. f r = Inr y" if "r \<in> set tbl" "p r" for r
      using find_isl_None [OF none] that by simp
    with None none show ?thesis by (intro that(2)) (simp_all add: update_where_def)
  qed
qed

lemma update_where_rows:
  assumes "update_where db p f tbl = (tbl', res)" "r' \<in> set tbl'"
  shows "r' \<in> set tbl \<or> (\<exists>r \<in> set tbl. p r \<and> f r = Inr r')"
proof (cases rule: update_where_cases [of db p f tbl])
  case ran
  with assms obtain r where r: "r \<in> set tbl" "r' = (if p r then projr (f r) else r)"
    by auto
  with ran(2) [of r] show ?thesis
    by (cases "p r") force+
qed (use assms in simp)

lemma update_where_keys:
  assumes "update_where db p f tbl = (tbl', res)"
    and "\<And>r r'. r \<in> set tbl \<Longrightarrow> f r = Inr r' \<Longrightarrow> key r' = key r"
  shows "map key tbl' = map key tbl"
proof (cases rule: update_where_cases [of db p f tbl])
  case ran
  have "key (if p r then projr (f r) else r) = key r" if "r \<in> set tbl" for r
    using ran(2) [OF that] assms(2) [OF that] by fastforce
  with ran(3) assms(1) show ?thesis by auto
qed (use assms in simp)

lemma update_where_ok:
  assumes "update_where db p f tbl = (tbl', res)" "table_ok key good tbl"
    and "\<And>r r'. f r = Inr r' \<Longrightarrow> good r \<Longrightarrow> key r' = key r \<and> good r'"
  shows "table_ok key good tbl'"
proof -
  have "good r'" if "r' \<in> set tbl'" for r'
    using update_where_rows [OF assms(1) that] assms(2,3) by (auto simp: table_ok_def)
  moreover have "map key tbl' = map key tbl"
    using update_where_keys [OF assms(1)] assms(2,3) by (auto simp: table_ok_def)
  ultimately show ?thesis
    using assms(2) by (simp add: table_ok_def)
qed

lemma delete_where_ok:
  "delete_where db p tbl = (tbl', res) \<Longrightarrow> table_ok key good tbl \<Longrightarrow> table_ok key good tbl'"
  by (auto simp: delete_where_def table_ok_def distinct_map_filter split: option.splits)

lemma row_of_map_same:
  "(\<And>r. r \<in> set tbl \<Longrightarrow> key (g r) = key r) \<Longrightarrow>
   row_of key (map g tbl) k = map_option g (row_of key tbl k)"
  unfolding row_of_def by (induction tbl) auto

lemma update_key_row_of:
  assumes "update_where db (\<lambda>r. key r = k) f tbl = (tbl', Inr r')"
    and key: "\<And>r r'. f r = Inr r' \<Longrightarrow> key r' = key r"
  shows "(\<exists>r. row_of key tbl k = Some r \<and> f r = Inr r' \<and> row_of key tbl' k = Some r') \<and>
    (\<forall>j. j \<noteq> k \<longrightarrow> row_of key tbl' j = row_of key tbl j)"
proof (cases rule: update_where_cases [of db "\<lambda>r. key r = k" f tbl])
  case ran
  let ?g = "\<lambda>r. if key r = k then projr (f r) else r"
  obtain r rs where r: "filter (\<lambda>r. key r = k) tbl = r # rs" "projr (f r) = r'"
    using ran(3) assms(1)
    by (cases "filter (\<lambda>r. key r = k) tbl") (auto simp: query_row_def)
  then have mem: "r \<in> set tbl" "key r = k"
    using filter_eq_ConsD [OF r(1)] by auto
  with ran(2) r(2) have fr: "f r = Inr r'" by fastforce
  have tbl': "tbl' = map ?g tbl"
    using ran(3) assms(1) by simp
  have "key (?g x) = key x" if "x \<in> set tbl" for x
    using ran(2) [OF that] key by fastforce
  from row_of_map_same [of tbl key ?g, OF this]
  have row: "row_of key tbl' j = map_option ?g (row_of key tbl j)" for j
    unfolding tbl' by blast
  have k: "row_of key tbl k = Some r"
    using r(1) by (simp add: row_of_filter)
  have "row_of key tbl' k = Some r'"
    using row [of k] k mem(2) r(2) by simp
  moreover have "row_of key tbl' j = row_of key tbl j" if "j \<noteq> k" for j
    using row [of j] row_of_Some [of key tbl j] that by (cases "row_of key tbl j") auto
  ultimately show ?thesis
    using k fr by blast
qed (use assms in simp)

lemma update_key_fails:
  assumes "sql_err db = None" "row_of key tbl k = Some old" "\<And>r. f r = Inl e"
  shows "update_where db (\<lambda>r. key r = k) f tbl = (tbl, Inl e)"
  using assms
  by (auto simp: update_where_def row_of_filter split: list.splits)

lemma update_key_result:
  assumes "sql_err db = None" "row_of key tbl k = Some old" "\<And>r. f r = Inr (g r)"
  shows "snd (update_where db (\<lambda>r. key r = k) f tbl) = Inr (g old)"
proof -
  have "find isl (map f xs) = None" for xs
    by (auto simp: find_None_iff assms(3))
  with assms show ?thesis
    by (auto simp: update_where_def row_of_filter query_row_def split: list.splits)
qed

section \<open>Upserts\<close>

text \<open>What the tables share: a conflict keeps the key and the invariant of the rows.\<close>

locale conflict_rule =
  fixes key :: "'r \<Rightarrow> 'k" and good :: "'r \<Rightarrow> bool" and conflict :: "'r \<Rightarrow> 'r \<Rightarrow> goerr + 'r"
  assumes conflict_key: "conflict old new = Inr r \<Longrightarrow> key r = key old"
    and conflict_good: "conflict old new = Inr r \<Longrightarrow> good old \<Longrightarrow> good new \<Longrightarrow> good r"
begin

lemma upsert_ok:
  assumes "upsert key db conflict new tbl = (tbl', res)" "table_ok key good tbl" "good new"
  shows "table_ok key good tbl'"
proof (cases "sql_err db = None \<and> key new \<in> set (map key tbl)")
  case True
  with assms(1) have "update_where db (\<lambda>r. key r = key new) (\<lambda>r. conflict r new) tbl = (tbl', res)"
    by (simp add: upsert_def)
  from update_where_ok [OF this assms(2)] show ?thesis
    using conflict_key conflict_good assms(3) by blast
qed (use assms in \<open>auto simp: upsert_def table_ok_def split: option.splits\<close>)

lemma upsert_new:
  assumes "sql_err db = None" "row_of key tbl (key new) = None"
  shows "upsert key db conflict new tbl = (tbl @ [new], Inr new)"
  using assms by (simp add: upsert_def row_of_None_iff)

lemma upsert_stored:
  assumes "upsert key db conflict new tbl = (tbl', Inr r')"
  shows "row_of key tbl' (key new) = Some r' \<and>
    (\<forall>k. k \<noteq> key new \<longrightarrow> row_of key tbl' k = row_of key tbl k) \<and>
    (case row_of key tbl (key new) of None \<Rightarrow> r' = new | Some old \<Rightarrow> conflict old new = Inr r')"
proof (cases "row_of key tbl (key new)")
  case None
  with assms have "tbl' = tbl @ [new]" "r' = new"
    by (auto simp: upsert_def row_of_None_iff split: option.splits if_splits)
  with None show ?thesis
    by (simp add: row_of_append split: option.splits)
next
  case (Some old)
  then have "key new \<in> set (map key tbl)"
    using row_of_None_iff [of key tbl "key new"] by auto
  with assms have "update_where db (\<lambda>r. key r = key new) (\<lambda>r. conflict r new) tbl = (tbl', Inr r')"
    by (auto simp: upsert_def split: option.splits)
  from update_key_row_of [OF this] Some show ?thesis
    using conflict_key by auto
qed

end

end
