(* ===== verification/Metaapi.thy ===== *)
theory Metaapi
  imports Jwtx Sqlx
begin

text \<open>
  Permissions: \<^verbatim>\<open>shallows/metaapi/authz.go\<close> and \<^verbatim>\<open>http.authz.go\<close>, with the queries of
  \<^verbatim>\<open>shallows/meta/genieql.gen.go\<close> they call.

  The state of the service is the table \<^verbatim>\<open>authz_meta\<close>, a map from the profile, which is
  unique in it. The library for tokens, the encoders, the clock, the fresh identifiers and
  the failures of the database are the record \<open>api_env\<close>. Profile identifiers are the
  canonical text of a UUID. \<^verbatim>\<open>Bind\<close> is the function \<open>Serve\<close> on the path below the router;
  the middleware that only provides buffers and deadlines is left out.
\<close>

section \<open>Tokens\<close>

record Token =
  Id :: string
  Issuer :: string
  ProfileId :: string
  SessionId :: string
  Issued :: int
  Expires :: int
  NotBefore :: int
  Usermanagement :: bool
  BillingRead :: bool
  BillingModify :: bool
  CommunityModify :: bool
  ArchiveUpload :: u64
  ArchiveDownload :: u64

record Authz =
  az_CreatedAt :: int
  az_ID :: string
  az_ProfileID :: string
  az_UpdatedAt :: int
  az_Usermanagement :: bool

definition zero_Authz :: Authz where
  "zero_Authz = \<lparr>az_CreatedAt = 0, az_ID = '''', az_ProfileID = '''', az_UpdatedAt = 0,
     az_Usermanagement = False\<rparr>"

type_synonym TokenOption = "Token \<Rightarrow> Token"

definition TokenOptionFromAuthz :: "Authz \<Rightarrow> TokenOption" where
  "TokenOptionFromAuthz a t = t\<lparr>Usermanagement := az_Usermanagement a\<rparr>"

text \<open>A claim without one of the dates dereferences nil.\<close>

definition TokenFromRegisterClaims :: "RegisteredClaims \<Rightarrow> TokenOption list \<Rightarrow> Token outcome" where
  "TokenFromRegisterClaims claims options =
     (case (rc_IssuedAt claims, rc_ExpiresAt claims, rc_NotBefore claims) of
        (Some i, Some e, Some n) \<Rightarrow>
          Return (Clone \<lparr>Id = rc_ID claims, Issuer = rc_Issuer claims,
            ProfileId = rc_Subject claims, SessionId = '''', Issued = unix_seconds i,
            Expires = unix_seconds e, NotBefore = unix_seconds n, Usermanagement = False,
            BillingRead = False, BillingModify = False, CommunityModify = False,
            ArchiveUpload = 0, ArchiveDownload = 0\<rparr> options)
      | _ \<Rightarrow> Panic)"

text \<open>The methods of \<^verbatim>\<open>tokenclaims\<close> the token library validates with.\<close>

definition GetExpirationTime :: "Token \<Rightarrow> int option" where
  "GetExpirationTime t = NewNumericDate (Expires t * 1000000000)"

definition GetIssuedAt :: "Token \<Rightarrow> int option" where
  "GetIssuedAt t = NewNumericDate (Issued t * 1000000000)"

definition GetNotBefore :: "Token \<Rightarrow> int option" where
  "GetNotBefore t = NewNumericDate (NotBefore t * 1000000000)"

definition GetSubject :: "Token \<Rightarrow> string" where
  "GetSubject t = ProfileId t"

section \<open>Authorization of a request\<close>

text \<open>The context of a request holds the token, once there is one.\<close>

definition FromContext :: "Token option \<Rightarrow> goerr + Token" where
  "FromContext ctx = (case ctx of Some t \<Rightarrow> Inr t | None \<Rightarrow> Inl NotAuthorized)"

definition WithAuthorization :: "Token option \<Rightarrow> Token \<Rightarrow> Token option" where
  "WithAuthorization ctx b = Some b"

definition AuthzPermUsermanagement ::
  "Token option \<Rightarrow> goerr option \<Rightarrow> Token option \<times> Token option \<times> goerr option" where
  "AuthzPermUsermanagement ctx cause =
     (if cause \<noteq> None then (ctx, None, Some (Authorization (Fundamental ''not authorized'')))
      else (case FromContext ctx of
        Inl err \<Rightarrow> (ctx, None, Wrap (Some (Authorization err)) ''not authorized'')
      | Inr token \<Rightarrow>
          if \<not> Usermanagement token
          then (ctx, Some token, Some (Authorization
            (WithStack (Fundamental ''not authorized: permission denied''))))
          else (ctx, Some token, None)))"

definition AuthzTokenHTTP ::
  "Token jwt_parse \<Rightarrow> string list \<Rightarrow> bytes \<Rightarrow>
   (Token option \<Rightarrow> goerr option \<Rightarrow> Token option \<times> Token option \<times> goerr option) \<Rightarrow>
   ('s, Token option) handler \<Rightarrow> ('s, Token option) handler" where
  "AuthzTokenHTTP parse algos secret check original s ctx w r =
     (case Validate parse algos ''*metaapi.tokenclaims'' secret (Bearer r) of
        Inl err \<Rightarrow> Return (s, Unauthorized w)
      | Inr claims \<Rightarrow>
          (case check (WithAuthorization ctx claims) None of
             (ctx', _, Some err) \<Rightarrow> Return (s, Unauthorized w)
           | (ctx', _, None) \<Rightarrow> original s ctx' w r))"

section \<open>The service\<close>

datatype payload =
    AuthzResponse string Token
  | AuthzProfileResponse Token
  | AuthzGrantResponse Token
  | AuthzRevokeResponse Token

record api_env =
  parse_registered :: "RegisteredClaims jwt_parse"
  parse_token :: "Token jwt_parse"
  sign :: "bytes \<Rightarrow> Token \<Rightarrow> goerr + string"
  algos :: "string list"
  jwtsecret :: bytes
  encode :: "payload \<Rightarrow> goerr + string"
  decode_grant :: "bytes \<Rightarrow> goerr + Token option"
  now :: int
  fresh_uuid :: string
  row_uuid :: string
  db_err :: "goerr option"
  form_malformed :: bool

type_synonym authz_table = "string \<rightharpoonup> Authz"

definition AuthzFindByProfileID :: "api_env \<Rightarrow> authz_table \<Rightarrow> string \<Rightarrow> goerr + Authz" where
  "AuthzFindByProfileID e tbl pid =
     (case db_err e of
        Some err \<Rightarrow> Inl err
      | None \<Rightarrow> (case tbl pid of None \<Rightarrow> Inl (Sentinel ErrNoRows) | Some a \<Rightarrow> Inr a))"

definition AuthzUpsertWithDefaults ::
  "api_env \<Rightarrow> authz_table \<Rightarrow> Authz \<Rightarrow> authz_table \<times> (goerr + Authz)" where
  "AuthzUpsertWithDefaults e tbl p =
     (case db_err e of
        Some err \<Rightarrow> (tbl, Inl err)
      | None \<Rightarrow>
          let row = (case tbl (az_ProfileID p) of
                None \<Rightarrow> \<lparr>az_CreatedAt = now e, az_ID = row_uuid e, az_ProfileID = az_ProfileID p,
                         az_UpdatedAt = now e, az_Usermanagement = az_Usermanagement p\<rparr>
              | Some old \<Rightarrow> old\<lparr>az_Usermanagement := az_Usermanagement p, az_UpdatedAt := now e\<rparr>)
          in (tbl(az_ProfileID p \<mapsto> row), Inr row))"

definition AuthzDeleteByProfileID ::
  "api_env \<Rightarrow> authz_table \<Rightarrow> string \<Rightarrow> authz_table \<times> (goerr + Authz)" where
  "AuthzDeleteByProfileID e tbl pid =
     (case db_err e of
        Some err \<Rightarrow> (tbl, Inl err)
      | None \<Rightarrow>
          (case tbl pid of
             None \<Rightarrow> (tbl, Inl (Sentinel ErrNoRows))
           | Some a \<Rightarrow> (tbl(pid := None), Inr a)))"

text \<open>\<^verbatim>\<open>Scan(&a)\<close> followed by \<^verbatim>\<open>IgnoreNoRows\<close>: a missing row leaves the zero value.\<close>

definition found_or_zero :: "goerr + Authz \<Rightarrow> goerr + Authz" where
  "found_or_zero r =
     (case r of
        Inr a \<Rightarrow> Inr a
      | Inl err \<Rightarrow> (case IgnoreNoRows (Some err) of Some err \<Rightarrow> Inl err | None \<Rightarrow> Inr zero_Authz))"

definition authz_claims :: "api_env \<Rightarrow> string \<Rightarrow> TokenOption list \<Rightarrow> Token outcome" where
  "authz_claims e pid options =
     bind_outcome (NewJWTClaims (fresh_uuid e) (now e) pid [ClaimsOptionAuthzExpiration])
       (\<lambda>registered. TokenFromRegisterClaims registered options)"

type_synonym api_handler = "(authz_table, Token option) handler"

definition authz :: "api_env \<Rightarrow> api_handler" where
  "authz e tbl ctx w r =
     (case IssuerSubjectID (parse_registered e) (algos e) (jwtsecret e) r of
        Inl err \<Rightarrow> Return (tbl, ErrorHeader w 400)
      | Inr (_, pid) \<Rightarrow>
          (case found_or_zero (AuthzFindByProfileID e tbl pid) of
             Inl err \<Rightarrow> Return (tbl, ErrorHeader w 500)
           | Inr a \<Rightarrow>
               bind_outcome (authz_claims e pid [TokenOptionFromAuthz a]) (\<lambda>claims.
                 (case sign e (jwtsecret e) claims of
                    Inl err \<Rightarrow> Return (tbl, ErrorHeader w 500)
                  | Inr bearer \<Rightarrow>
                      Return (tbl, fst (WriteJSON (encode e) w (AuthzResponse bearer claims)))))))"

definition profile :: "api_env \<Rightarrow> string \<Rightarrow> api_handler" where
  "profile e pid tbl ctx w r =
     (case found_or_zero (AuthzFindByProfileID e tbl pid) of
        Inl err \<Rightarrow> Return (tbl, ErrorHeader w 500)
      | Inr a \<Rightarrow>
          bind_outcome (authz_claims e pid [TokenOptionFromAuthz a]) (\<lambda>claims.
            Return (tbl, fst (WriteJSON (encode e) w (AuthzProfileResponse claims)))))"

text \<open>A request without a token in its body dereferences nil.\<close>

definition grant :: "api_env \<Rightarrow> string \<Rightarrow> api_handler" where
  "grant e pid tbl ctx w r =
     (case decode_grant e (rBody r) of
        Inl err \<Rightarrow> Return (tbl, fst (WriteEmptyJSON w 400))
      | Inr None \<Rightarrow> Panic
      | Inr (Some token) \<Rightarrow>
          (case AuthzUpsertWithDefaults e tbl
                  (zero_Authz\<lparr>az_ProfileID := pid, az_Usermanagement := Usermanagement token\<rparr>) of
             (tbl', Inl err) \<Rightarrow> Return (tbl', fst (WriteEmptyJSON w 400))
           | (tbl', Inr a) \<Rightarrow>
               bind_outcome (authz_claims e pid [TokenOptionFromAuthz a]) (\<lambda>claims.
                 Return (tbl', fst (WriteJSON (encode e) w (AuthzGrantResponse claims))))))"

definition revoke :: "api_env \<Rightarrow> string \<Rightarrow> api_handler" where
  "revoke e pid tbl ctx w r =
     (case AuthzDeleteByProfileID e tbl pid of
        (tbl', Inl err) \<Rightarrow> Return (tbl', fst (WriteEmptyJSON w 400))
      | (tbl', Inr a) \<Rightarrow>
          bind_outcome (authz_claims e pid []) (\<lambda>claims.
            Return (tbl', fst (WriteJSON (encode e) w (AuthzRevokeResponse claims)))))"

text \<open>The variable of the route \<^verbatim>\<open>/{id}\<close>: one non-empty segment.\<close>

definition path_id :: "string \<Rightarrow> string option" where
  "path_id p =
     (case p of [] \<Rightarrow> None
      | c # pid \<Rightarrow> if c = CHR ''/'' \<and> pid \<noteq> [] \<and> CHR ''/'' \<notin> set pid then Some pid else None)"

definition Serve :: "api_env \<Rightarrow> api_handler" where
  "Serve e tbl ctx w r =
     (if rPath r = ''/'' then
        (if rMethod r = ''GET'' then
           ParseForm (form_malformed e)
             (AuthenticateWithToken (parse_registered e) (algos e) (jwtsecret e) (authz e)) tbl ctx w r
         else Return (tbl, WriteHeader 405 w))
      else (case path_id (rPath r) of
        None \<Rightarrow> Return (tbl, WriteHeader 404 w)
      | Some pid \<Rightarrow>
          if rMethod r = ''GET'' then
            ParseForm (form_malformed e)
              (AuthzTokenHTTP (parse_token e) (algos e) (jwtsecret e) AuthzPermUsermanagement
                (profile e pid)) tbl ctx w r
          else if rMethod r = ''POST'' then
            AuthzTokenHTTP (parse_token e) (algos e) (jwtsecret e) AuthzPermUsermanagement
              (ParseForm (form_malformed e) (grant e pid)) tbl ctx w r
          else if rMethod r = ''DELETE'' then
            ParseForm (form_malformed e)
              (AuthzTokenHTTP (parse_token e) (algos e) (jwtsecret e) AuthzPermUsermanagement
                (revoke e pid)) tbl ctx w r
          else Return (tbl, WriteHeader 405 w)))"

section \<open>Lemmas\<close>

lemma AuthzTokenHTTP_Return:
  assumes "AuthzTokenHTTP parse algs secret AuthzPermUsermanagement original s ctx w r = Return (s', w')"
    and "s' \<noteq> s"
  shows "\<exists>token. Validate parse algs ''*metaapi.tokenclaims'' secret (Bearer r) = Inr token \<and>
    Usermanagement token \<and> original s (Some token) w r = Return (s', w')"
  using assms
  by (auto simp: AuthzTokenHTTP_def AuthzPermUsermanagement_def FromContext_def
      WithAuthorization_def split: sum.splits if_splits)

lemma ParseForm_Return:
  assumes "ParseForm malformed original s ctx w r = Return (s', w')" "s' \<noteq> s"
  shows "original s ctx w r = Return (s', w')"
  using assms by (auto simp: ParseForm_def split: if_splits)

lemma bind_outcome_const:
  "bind_outcome m (\<lambda>x. Return (s, f x)) = Return (s', w') \<Longrightarrow> s' = s"
  by (cases m) auto

text \<open>The token issued for a profile.\<close>

definition issued :: "api_env \<Rightarrow> string \<Rightarrow> bool \<Rightarrow> Token" where
  "issued e pid um =
     \<lparr>Id = fresh_uuid e, Issuer = '''', ProfileId = pid, SessionId = '''',
      Issued = now e div 1000000000, Expires = now e div 1000000000 + 3600,
      NotBefore = now e div 1000000000, Usermanagement = um,
      BillingRead = False, BillingModify = False, CommunityModify = False,
      ArchiveUpload = 0, ArchiveDownload = 0\<rparr>"

lemma second_div: "(t - t mod 1000000000) div 1000000000 = t div (1000000000 :: int)"
  by (simp add: minus_mod_eq_mult_div)

lemma hour_div:
  "((t - t mod 1000000000 + 3600000000000) -
     (t - t mod 1000000000 + 3600000000000) mod 1000000000) div 1000000000 =
   t div 1000000000 + (3600 :: int)"
proof -
  have "t - t mod 1000000000 + 3600000000000 = 1000000000 * (t div 1000000000 + 3600)"
    by (simp add: minus_mod_eq_mult_div distrib_left)
  then show ?thesis
    by simp
qed

lemma authz_claims_eq:
  "authz_claims e pid [TokenOptionFromAuthz a] = Return (issued e pid (az_Usermanagement a))"
  "authz_claims e pid [] = Return (issued e pid False)"
  by (simp_all add: authz_claims_def NewJWTClaims_def ClaimsOptionAuthzExpiration_def
      ClaimsOptionExpiration_def NewNumericDate_def TokenFromRegisterClaims_def
      TokenOptionFromAuthz_def unix_seconds_def issued_def second_div hour_div)

lemma authz_table_same: "authz e tbl ctx w r = Return (tbl', w') \<Longrightarrow> tbl' = tbl"
  by (auto simp: authz_def authz_claims_eq split: sum.splits)

lemma profile_table_same: "profile e pid tbl ctx w r = Return (tbl', w') \<Longrightarrow> tbl' = tbl"
  by (auto simp: profile_def bind_outcome_Return_iff split: sum.splits)

lemma AuthenticateWithToken_same:
  "AuthenticateWithToken parse algs secret (authz e) tbl ctx w r = Return (tbl', w') \<Longrightarrow> tbl' = tbl"
  by (auto simp: AuthenticateWithToken_def split: sum.splits dest: authz_table_same)

lemma grant_frame:
  "grant e pid tbl ctx w r = Return (tbl', w') \<Longrightarrow> k \<noteq> pid \<Longrightarrow> tbl' k = tbl k"
  by (auto simp: grant_def AuthzUpsertWithDefaults_def Let_def bind_outcome_Return_iff
      zero_Authz_def split: sum.splits option.splits prod.splits)

lemma revoke_frame:
  "revoke e pid tbl ctx w r = Return (tbl', w') \<Longrightarrow> k \<noteq> pid \<Longrightarrow> tbl' k = tbl k"
  by (auto simp: revoke_def AuthzDeleteByProfileID_def bind_outcome_Return_iff
      split: sum.splits option.splits prod.splits)

lemma AuthzTokenHTTP_passes:
  assumes "Validate parse algs ''*metaapi.tokenclaims'' secret (Bearer r) = Inr token"
    and "Usermanagement token"
  shows "AuthzTokenHTTP parse algs secret AuthzPermUsermanagement original s ctx w r =
    original s (Some token) w r"
  using assms
  by (simp add: AuthzTokenHTTP_def AuthzPermUsermanagement_def FromContext_def
      WithAuthorization_def)

lemma grant_table:
  assumes "db_err e = None" "decode_grant e (rBody r) = Inr (Some token)"
  shows "\<exists>tbl' a. grant e pid tbl ctx w r =
      Return (tbl', fst (WriteJSON (encode e) w (AuthzGrantResponse (issued e pid (Usermanagement token))))) \<and>
    tbl' pid = Some a \<and> az_Usermanagement a = Usermanagement token"
  using assms
  by (cases "tbl pid")
    (simp_all add: grant_def AuthzUpsertWithDefaults_def zero_Authz_def authz_claims_eq Let_def)

section \<open>Properties\<close>

text \<open>Permissions change only at the hand of a user manager. Whatever the request and the
  answers of the token library and the database, if serving it changes the table then it
  is a POST or a DELETE on \<^verbatim>\<open>/{id}\<close>, the bearer token of its header is valid and grants user
  management, and the row changed is the one of that id.\<close>

theorem Serve_guarded:
  assumes "Serve e tbl ctx w r = Return (tbl', w')" and "tbl' \<noteq> tbl"
  shows "rMethod r \<in> {''POST'', ''DELETE''} \<and>
    (\<exists>token. Validate (parse_token e) (algos e) ''*metaapi.tokenclaims'' (jwtsecret e) (Bearer r) =
        Inr token \<and> Usermanagement token) \<and>
    (\<exists>pid. path_id (rPath r) = Some pid \<and> (\<forall>k. k \<noteq> pid \<longrightarrow> tbl' k = tbl k))"
proof -
  note guards = ParseForm_Return [OF _ assms(2)] AuthzTokenHTTP_Return [OF _ assms(2)]
  have not_root: "rPath r \<noteq> ''/''"
    using assms AuthenticateWithToken_same
    by (auto simp: Serve_def split: if_splits dest!: guards(1))
  then obtain pid where pid: "path_id (rPath r) = Some pid"
    using assms by (cases "path_id (rPath r)") (auto simp: Serve_def)
  consider (get) "rMethod r = ''GET''" | (post) "rMethod r = ''POST''" | (delete) "rMethod r = ''DELETE''"
    using assms not_root pid by (auto simp: Serve_def split: if_splits)
  then show ?thesis
  proof cases
    case get
    with assms not_root pid have False
      by (auto simp: Serve_def dest!: guards dest: profile_table_same)
    then show ?thesis ..
  next
    case post
    with assms(1) not_root pid show ?thesis
      by (auto simp: Serve_def dest!: guards dest: grant_frame)
  next
    case delete
    with assms(1) not_root pid show ?thesis
      by (auto simp: Serve_def dest!: guards dest: revoke_frame)
  qed
qed

text \<open>A grant reaches the grantee. After a user manager posts a permission for a profile,
  the profile's own request for authorization is answered with a signed token for exactly
  that profile and that permission, issued now and valid for an hour.\<close>

theorem grant_then_authz:
  assumes "db_err e1 = None" "\<not> form_malformed e1" "db_err e2 = None" "\<not> form_malformed e2"
    and "rMethod post = ''POST''" "path_id (rPath post) = Some pid" "rPath post \<noteq> ''/''"
    and "Validate (parse_token e1) (algos e1) ''*metaapi.tokenclaims'' (jwtsecret e1) (Bearer post) =
      Inr manager" "Usermanagement manager"
    and "decode_grant e1 (rBody post) = Inr (Some wanted)"
    and "rMethod req = ''GET''" "rPath req = ''/''"
    and "Validate (parse_registered e2) (algos e2) ''*jwt.RegisteredClaims'' (jwtsecret e2) (Bearer req) =
      Inr session"
    and "IssuerSubjectID (parse_registered e2) (algos e2) (jwtsecret e2) req = Inr (issuer, pid)"
    and "sign e2 (jwtsecret e2) (issued e2 pid (Usermanagement wanted)) = Inr bearer"
  shows "\<exists>tbl'. Serve e1 tbl ctx1 w1 post = Return (tbl', fst (WriteJSON (encode e1) w1
        (AuthzGrantResponse (issued e1 pid (Usermanagement wanted))))) \<and>
    Serve e2 tbl' ctx2 w2 req = Return (tbl', fst (WriteJSON (encode e2) w2
        (AuthzResponse bearer (issued e2 pid (Usermanagement wanted)))))"
proof -
  obtain tbl' a where g: "grant e1 pid tbl (Some manager) w1 post = Return (tbl', fst (WriteJSON (encode e1) w1
        (AuthzGrantResponse (issued e1 pid (Usermanagement wanted)))))"
    "tbl' pid = Some a" "az_Usermanagement a = Usermanagement wanted"
    using grant_table [OF assms(1,10)] by blast
  have "Serve e1 tbl ctx1 w1 post = Return (tbl', fst (WriteJSON (encode e1) w1
        (AuthzGrantResponse (issued e1 pid (Usermanagement wanted)))))"
    using g(1) assms(2,5-9)
    by (simp add: Serve_def AuthzTokenHTTP_passes ParseForm_def)
  moreover have "Serve e2 tbl' ctx2 w2 req = Return (tbl', fst (WriteJSON (encode e2) w2
        (AuthzResponse bearer (issued e2 pid (Usermanagement wanted)))))"
    using g(2,3) assms(3,4,11-15)
    by (simp add: Serve_def ParseForm_def AuthenticateWithToken_def authz_def
        AuthzFindByProfileID_def found_or_zero_def authz_claims_eq)
  ultimately show ?thesis by blast
qed

text \<open>The spelling of the scheme matters to one of the two readers of the header. A header
  \<^verbatim>\<open>Bearer <token>\<close> passes the middleware, which ignores its case, but the handler removes
  \<^verbatim>\<open>bearer\<close> and \<^verbatim>\<open>BEARER\<close> only and hands the rest to the token library with the scheme in
  front: with a library that rejects a text with a space in it, as it must, a valid token
  is answered with a bad request.\<close>

theorem authz_capital_bearer:
  assumes "\<And>s. CHR '' '' \<in> set s \<Longrightarrow> \<exists>err. parse_registered e (algos e) (jwtsecret e) s = Inl err"
    and "hdr_get (rHeader r) ''authorization'' = ''Bearer '' @ token"
    and "rMethod r = ''GET''" "rPath r = ''/''" "\<not> form_malformed e"
    and "Validate (parse_registered e) (algos e) ''*jwt.RegisteredClaims'' (jwtsecret e) token =
      Inr session"
  shows "Serve e tbl ctx w r = Return (tbl, ErrorHeader w 400)"
proof -
  have b: "Bearer r = token"
    using assms(2) by (simp add: Bearer_def HasPrefix_def ToLower_def to_lower_def char_of_def
        bit_Suc_0_iff)
  have "\<exists>err. parse_registered e (algos e) (jwtsecret e) (strip_bearer (''Bearer '' @ token)) = Inl err"
    unfolding strip_bearer_capital by (rule assms(1)) simp
  then have "\<exists>err. IssuerSubjectID (parse_registered e) (algos e) (jwtsecret e) r = Inl err"
    using assms(2) by (auto simp: IssuerSubjectID_def BearerFromHTTPContext_def Validate_def Let_def)
  with b assms(3-6) show ?thesis
    by (auto simp: Serve_def ParseForm_def AuthenticateWithToken_def authz_def)
qed

section \<open>An example service\<close>

definition demo_api :: api_env where
  "demo_api =
     \<lparr>parse_registered = (\<lambda>algs secret s. if s = ''session''
        then Inr (\<lparr>rc_ID = '''', rc_Issuer = '''', rc_Subject = ''p1'', rc_Audience = [],
          rc_ExpiresAt = None, rc_NotBefore = None, rc_IssuedAt = None\<rparr>, True)
        else Inl (Fundamental ''token is malformed'')),
      parse_token = (\<lambda>algs secret s. if s = ''manager''
        then Inr (\<lparr>Id = '''', Issuer = '''', ProfileId = ''p0'', SessionId = '''', Issued = 0,
          Expires = 0, NotBefore = 0, Usermanagement = True, BillingRead = False,
          BillingModify = False, CommunityModify = False, ArchiveUpload = 0, ArchiveDownload = 0\<rparr>, True)
        else Inl (Fundamental ''token is malformed'')),
      sign = (\<lambda>secret t. Inr ''signed''), algos = [''HS512''], jwtsecret = [],
      encode = (\<lambda>p. Inr ''{}''),
      decode_grant = (\<lambda>b. Inr (Some \<lparr>Id = '''', Issuer = '''', ProfileId = '''', SessionId = '''',
        Issued = 0, Expires = 0, NotBefore = 0, Usermanagement = True, BillingRead = False,
        BillingModify = False, CommunityModify = False, ArchiveUpload = 0, ArchiveDownload = 0\<rparr>)),
      now = 5000000000, fresh_uuid = ''u1'', row_uuid = ''r1'', db_err = None,
      form_malformed = False\<rparr>"

definition demo_req :: "string \<Rightarrow> string \<Rightarrow> string \<Rightarrow> request" where
  "demo_req method p auth =
     \<lparr>rMethod = method, rHost = ''example.com'', rPath = p, rQuery = '''',
      rHeader = (\<lambda>k. if k = ''authorization'' then [auth] else []), rBody = [], rTLS = True\<rparr>"

lemma demo_manager:
  "Validate (parse_token demo_api) (algos demo_api) ''*metaapi.tokenclaims'' (jwtsecret demo_api)
     (Bearer (demo_req m p ''bearer manager'')) =
   Inr \<lparr>Id = '''', Issuer = '''', ProfileId = ''p0'', SessionId = '''', Issued = 0,
          Expires = 0, NotBefore = 0, Usermanagement = True, BillingRead = False,
          BillingModify = False, CommunityModify = False, ArchiveUpload = 0, ArchiveDownload = 0\<rparr>"
  by (simp add: demo_api_def demo_req_def Validate_def Bearer_def hdr_get_def ToLower_def
      to_lower_def HasPrefix_def strip_bearer_id)

lemma demo_session:
  "Validate (parse_registered demo_api) (algos demo_api) ''*jwt.RegisteredClaims''
     (jwtsecret demo_api) (Bearer (demo_req m p ''bearer session'')) =
   Inr \<lparr>rc_ID = '''', rc_Issuer = '''', rc_Subject = ''p1'', rc_Audience = [],
          rc_ExpiresAt = None, rc_NotBefore = None, rc_IssuedAt = None\<rparr>"
  "IssuerSubjectID (parse_registered demo_api) (algos demo_api) (jwtsecret demo_api)
     (demo_req m p ''bearer session'') = Inr ('''', ''p1'')"
  by (simp_all add: demo_api_def demo_req_def Validate_def Bearer_def hdr_get_def ToLower_def
      to_lower_def HasPrefix_def strip_bearer_id IssuerSubjectID_def BearerFromHTTPContext_def
      strip_bearer_step strip_bearer_prefix [of "''session''", simplified])

theorem grant_then_authz_witness:
  "\<exists>tbl'. Serve demo_api Map.empty None fresh_response (demo_req ''POST'' ''/p1'' ''bearer manager'') =
      Return (tbl', fst (WriteJSON (encode demo_api) fresh_response
        (AuthzGrantResponse (issued demo_api ''p1'' True)))) \<and>
    Serve demo_api tbl' None fresh_response (demo_req ''GET'' ''/'' ''bearer session'') =
      Return (tbl', fst (WriteJSON (encode demo_api) fresh_response
        (AuthzResponse ''signed'' (issued demo_api ''p1'' True))))"
proof -
  let ?wanted = "\<lparr>Id = '''', Issuer = '''', ProfileId = '''', SessionId = '''',
        Issued = 0, Expires = 0, NotBefore = 0, Usermanagement = True, BillingRead = False,
        BillingModify = False, CommunityModify = False, ArchiveUpload = 0, ArchiveDownload = 0\<rparr>"
  have body: "decode_grant demo_api (rBody (demo_req ''POST'' ''/p1'' ''bearer manager'')) = Inr (Some ?wanted)"
    by (simp add: demo_api_def)
  have "\<exists>tbl'. Serve demo_api Map.empty None fresh_response (demo_req ''POST'' ''/p1'' ''bearer manager'') =
      Return (tbl', fst (WriteJSON (encode demo_api) fresh_response
        (AuthzGrantResponse (issued demo_api ''p1'' (Usermanagement ?wanted))))) \<and>
    Serve demo_api tbl' None fresh_response (demo_req ''GET'' ''/'' ''bearer session'') =
      Return (tbl', fst (WriteJSON (encode demo_api) fresh_response
        (AuthzResponse ''signed'' (issued demo_api ''p1'' (Usermanagement ?wanted)))))"
    by (rule grant_then_authz [OF _ _ _ _ _ _ _ demo_manager _ body _ _ demo_session])
      (simp_all add: demo_api_def demo_req_def path_id_def)
  then show ?thesis
    by (simp only: Token.select_convs)
qed

theorem Serve_guarded_witness:
  "\<exists>tbl' w'. Serve demo_api Map.empty None fresh_response (demo_req ''POST'' ''/p1'' ''bearer manager'') =
      Return (tbl', w') \<and> (\<exists>a. tbl' ''p1'' = Some a) \<and> (\<forall>k. k \<noteq> ''p1'' \<longrightarrow> tbl' k = None)"
proof -
  let ?r = "demo_req ''POST'' ''/p1'' ''bearer manager''"
  obtain tbl' w' a where s: "Serve demo_api Map.empty None fresh_response ?r = Return (tbl', w')"
    "tbl' ''p1'' = Some a"
  proof -
    have "db_err demo_api = None" "\<exists>t. decode_grant demo_api (rBody ?r) = Inr (Some t)"
      by (simp_all add: demo_api_def)
    then show thesis
      using grant_table [of demo_api ?r] demo_manager that
      by (auto simp: Serve_def AuthzTokenHTTP_passes ParseForm_def path_id_def demo_req_def)
        (simp add: demo_api_def, blast)
  qed
  then have "tbl' \<noteq> Map.empty" by auto
  with Serve_guarded [OF s(1)] have "\<forall>k. k \<noteq> ''p1'' \<longrightarrow> tbl' k = None"
    by (auto simp: demo_req_def path_id_def)
  with s show ?thesis by blast
qed

theorem authz_capital_bearer_witness:
  "Serve demo_api Map.empty None fresh_response (demo_req ''GET'' ''/'' ''Bearer session'') =
     Return (Map.empty, ErrorHeader fresh_response 400)"
proof (rule authz_capital_bearer)
  show "Validate (parse_registered demo_api) (algos demo_api) ''*jwt.RegisteredClaims''
      (jwtsecret demo_api) ''session'' =
    Inr \<lparr>rc_ID = '''', rc_Issuer = '''', rc_Subject = ''p1'', rc_Audience = [],
          rc_ExpiresAt = None, rc_NotBefore = None, rc_IssuedAt = None\<rparr>"
    by (simp add: demo_api_def Validate_def strip_bearer_id)
qed (auto simp: demo_api_def demo_req_def hdr_get_def ToLower_def to_lower_def)

end
