(* ===== verification/Blockcache.thy ===== *)
theory Blockcache
  imports Errorsx Langx
begin

text \<open>
  The block cache \<^verbatim>\<open>shallows/blockcache/blockcache.go\<close>: one logical file kept as a
  directory of block files named \<^verbatim>\<open>0\<close>, \<^verbatim>\<open>1\<close>, \<dots>, block \<open>k\<close> holding the bytes from
  \<open>k * BlockLength\<close> on, and the torrent storage of \<^verbatim>\<open>torrent.adapter.go\<close> over it.

  The disk is a map from path names to contents. A missing file is the only way
  an operating system call fails here; the error it gives is the one the callers
  tell apart (\<^verbatim>\<open>fs.ErrNotExist\<close>).
\<close>

type_synonym disk = "string \<rightharpoonup> bytes"
type_synonym read_result = "(bytes \<times> goerr option) outcome"

section \<open>The interface of positioned reads and writes\<close>

text \<open>
  What the caches above this layer rely on (\<^verbatim>\<open>io.ReaderAt\<close> and \<^verbatim>\<open>io.WriterAt\<close> of one
  store): \<open>view\<close> gives the byte a store holds at a position. A read succeeds exactly
  when every byte it asks for is held, and returns them; a write always stores
  its whole buffer and elsewhere at most fills a hole with a zero.
\<close>

definition in_range :: "int \<Rightarrow> nat \<Rightarrow> bool" where
  "in_range off n \<longleftrightarrow> 0 \<le> off \<and> off + int n < 2 ^ 63"

lemma in_range_nonneg: "in_range off n \<Longrightarrow> 0 \<le> off"
  and in_range_i64: "in_range off n \<Longrightarrow> k \<le> n \<Longrightarrow> i64 (off + int k) = off + int k"
  by (auto simp: in_range_def intro!: i64_id in_i64I)

locale random_access =
  fixes usable :: "'s \<Rightarrow> bool"
    and rd :: "'s \<Rightarrow> nat \<Rightarrow> int \<Rightarrow> read_result"
    and wr :: "'s \<Rightarrow> bytes \<Rightarrow> int \<Rightarrow> ('s \<times> nat \<times> goerr option) outcome"
    and view :: "'s \<Rightarrow> int \<Rightarrow> byte option"
  assumes read_iff: "usable s \<Longrightarrow> in_range off n \<Longrightarrow>
      rd s n off = Return (bs, None) \<longleftrightarrow>
      length bs = n \<and> (\<forall>j<n. view s (off + int j) = Some (bs ! j))"
    and write_total: "usable s \<Longrightarrow> in_range off (length p) \<Longrightarrow>
      \<exists>s'. wr s p off = Return (s', length p, None) \<and> usable s'"
    and write_inside: "usable s \<Longrightarrow> in_range off (length p) \<Longrightarrow>
      wr s p off = Return (s', k, e) \<Longrightarrow> j < length p \<Longrightarrow>
      view s' (off + int j) = Some (p ! j)"
    and write_outside: "usable s \<Longrightarrow> in_range off (length p) \<Longrightarrow>
      wr s p off = Return (s', k, e) \<Longrightarrow> 0 \<le> i \<Longrightarrow> i < off \<or> off + int (length p) \<le> i \<Longrightarrow>
      view s' i = view s i \<or> (view s i = None \<and> view s' i = Some 0)"
begin

lemma write_keeps:
  assumes "usable s" "in_range off (length p)" "wr s p off = Return (s', k, e)"
    and "0 \<le> i" "i < off \<or> off + int (length p) \<le> i" "view s i = Some b"
  shows "view s' i = Some b"
  using write_outside [OF assms(1-5)] assms(6) by auto

lemma read_back:
  assumes "usable s" "in_range off (length p)" "wr s p off = Return (s', k, e)"
  shows "rd s' (length p) off = Return (p, None)"
proof -
  obtain s'' where "wr s p off = Return (s'', length p, None)" and "usable s''"
    using write_total [OF assms(1,2)] by auto
  with assms(3) have "usable s'" by simp
  then show ?thesis
    using assms write_inside [OF assms] by (simp add: read_iff)
qed

lemma read_disjoint:
  assumes "usable s" "in_range off (length p)" "wr s p off = Return (s', k, e)"
    and "in_range o' n" "o' + int n \<le> off \<or> off + int (length p) \<le> o'"
    and "rd s n o' = Return (bs, None)"
  shows "rd s' n o' = Return (bs, None)"
proof -
  obtain s'' where "wr s p off = Return (s'', length p, None)" and "usable s''"
    using write_total [OF assms(1,2)] by auto
  with assms(3) have u': "usable s'" by simp
  have held: "length bs = n" "\<And>j. j < n \<Longrightarrow> view s (o' + int j) = Some (bs ! j)"
    using assms(1,4,6) by (simp_all add: read_iff)
  have "view s' (o' + int j) = Some (bs ! j)" if "j < n" for j
    using write_keeps [OF assms(1-3) _ _ held(2) [OF that]] that assms(4,5)
    by (auto simp: in_range_def)
  with held(1) u' assms(4) show ?thesis by (simp add: read_iff)
qed

text \<open>\<^verbatim>\<open>io.NewOffsetWriter\<close>: successive writes, each where the one before ended. A run of
  them stores the concatenation.\<close>

fun write_seq :: "'s \<Rightarrow> bytes list \<Rightarrow> int \<Rightarrow> ('s \<times> goerr option) outcome" where
  "write_seq s [] off = Return (s, None)"
| "write_seq s (p # ps) off =
     (case wr s p off of
        Panic \<Rightarrow> Panic
      | Return (s', n, Some e) \<Rightarrow> Return (s', Some e)
      | Return (s', n, None) \<Rightarrow> write_seq s' ps (off + int n))"

lemma write_seq_view:
  assumes "usable s" "in_range off (length (concat ps))"
  shows "\<exists>s'. write_seq s ps off = Return (s', None) \<and> usable s' \<and>
    (\<forall>j < length (concat ps). view s' (off + int j) = Some (concat ps ! j)) \<and>
    (\<forall>i b. 0 \<le> i \<longrightarrow> i < off \<longrightarrow> view s i = Some b \<longrightarrow> view s' i = Some b)"
  using assms
proof (induction ps arbitrary: s off)
  case Nil
  then show ?case by simp
next
  case (Cons p ps)
  have r: "in_range off (length p)" "in_range (off + int (length p)) (length (concat ps))"
    using Cons.prems(2) by (simp_all add: in_range_def)
  obtain s1 where s1: "wr s p off = Return (s1, length p, None)" "usable s1"
    using write_total [OF Cons.prems(1) r(1)] by auto
  obtain s' where s': "write_seq s1 ps (off + int (length p)) = Return (s', None)" "usable s'"
    "\<And>j. j < length (concat ps) \<Longrightarrow>
       view s' (off + int (length p) + int j) = Some (concat ps ! j)"
    "\<And>i b. 0 \<le> i \<Longrightarrow> i < off + int (length p) \<Longrightarrow> view s1 i = Some b \<Longrightarrow> view s' i = Some b"
    using Cons.IH [OF s1(2) r(2)] by auto
  have inside: "view s' (off + int j) = Some (concat (p # ps) ! j)"
    if "j < length (concat (p # ps))" for j
  proof (cases "j < length p")
    case True
    then have "view s1 (off + int j) = Some (p ! j)"
      by (rule write_inside [OF Cons.prems(1) r(1) s1(1)])
    with True r(1) show ?thesis
      by (simp add: s'(4) nth_append in_range_def)
  next
    case False
    with that s'(3) [of "j - length p"] show ?thesis
      by (simp add: nth_append algebra_simps of_nat_diff)
  qed
  have "view s' i = Some b" if "0 \<le> i" "i < off" "view s i = Some b" for i b
    using write_keeps [OF Cons.prems(1) r(1) s1(1) that(1) _ that(3)] that s'(4) by simp
  with inside s1 s'(1,2) show ?case by auto
qed

lemma write_seq_read:
  assumes "usable s" "in_range off (length (concat ps))"
  shows "\<exists>s'. write_seq s ps off = Return (s', None) \<and> usable s' \<and>
    rd s' (length (concat ps)) off = Return (concat ps, None)"
  using write_seq_view [OF assms] assms(2) by (auto simp: read_iff)

end

section \<open>The cache\<close>

record DirCache =
  root :: string
  BlockLength :: int

definition KiB :: int where "KiB = 2 ^ 10"
definition MiB :: int where "MiB = 2 ^ 20"
definition GiB :: int where "GiB = 2 ^ 30"
definition TiB :: int where "TiB = 2 ^ 40"
definition PiB :: int where "PiB = 2 ^ 50"
definition EiB :: int where "EiB = 2 ^ 60"

definition DefaultBlockLength :: int where
  "DefaultBlockLength = 32 * MiB"

type_synonym OptionDirCache = "DirCache \<Rightarrow> DirCache"

definition OptionDirCacheBlockLength :: "int \<Rightarrow> OptionDirCache" where
  "OptionDirCacheBlockLength n dc = dc\<lparr>BlockLength := n\<rparr>"

text \<open>\<^verbatim>\<open>NewDirectoryCache\<close> makes the directory (the result of \<^verbatim>\<open>os.MkdirAll\<close> is the first
  argument) and applies the options in order.\<close>

definition NewDirectoryCache ::
  "goerr option \<Rightarrow> string \<Rightarrow> OptionDirCache list \<Rightarrow> goerr + DirCache" where
  "NewDirectoryCache mkdir dir options =
     (case mkdir of
        Some e \<Rightarrow> Inl (WithStack (WithMessage e (''unable to ensure directory exists: '' @ dir)))
      | None \<Rightarrow> Inr (Clone \<lparr>root = dir, BlockLength = DefaultBlockLength\<rparr> options))"

text \<open>\<^verbatim>\<open>filepath.Join\<close> of a cleaned directory and a plain name.\<close>

definition path_join :: "string \<Rightarrow> string \<Rightarrow> string" where
  "path_join dir name =
     (if dir = '''' then name
      else if last dir = CHR ''/'' then dir @ name
      else dir @ ''/'' @ name)"

lemma path_join_inj [simp]: "path_join dir a = path_join dir b \<longleftrightarrow> a = b"
  by (simp add: path_join_def)

definition path :: "DirCache \<Rightarrow> int \<Rightarrow> string" where
  "path t off = path_join (root t) (format_int (go_quot off (BlockLength t)))"

definition offset :: "DirCache \<Rightarrow> int \<Rightarrow> int \<times> int" where
  "offset t off =
     (let pos = go_rem off (BlockLength t); max = BlockLength t - pos in (pos, max))"

text \<open>\<^verbatim>\<open>os.File.ReadAt\<close> and \<^verbatim>\<open>os.File.WriteAt\<close>.\<close>

definition os_read_at :: "string \<Rightarrow> bytes \<Rightarrow> nat \<Rightarrow> int \<Rightarrow> bytes \<times> goerr option" where
  "os_read_at name c n off =
     (if off < 0 then ([], Some (PathErr ''readat'' name (Fundamental ''negative offset'')))
      else let bs = file_read c (nat off) n
           in (bs, if length bs < n then Some (Sentinel EOF) else None))"

lemma os_read_at_full: "os_read_at name c n off = (bs, None) \<Longrightarrow> length bs = n \<and> 0 \<le> off"
  by (auto simp: os_read_at_def Let_def file_read_def split: if_splits)

definition os_write_at ::
  "string \<Rightarrow> bytes \<Rightarrow> bytes \<Rightarrow> int \<Rightarrow> bytes \<times> nat \<times> goerr option" where
  "os_write_at name c p off =
     (if off < 0 then (c, 0, Some (PathErr ''writeat'' name (Fundamental ''negative offset'')))
      else (file_write c (nat off) p, length p, None))"

text \<open>
  \<^verbatim>\<open>readchunk\<close>: a division by a zero block length and the slice \<^verbatim>\<open>p[:max]\<close> with a negative
  bound panic.
\<close>

definition readchunk :: "DirCache \<Rightarrow> disk \<Rightarrow> nat \<Rightarrow> int \<Rightarrow> read_result" where
  "readchunk t d len off =
     (if BlockLength t = 0 then Panic
      else case d (path t off) of
        None \<Rightarrow> Return ([],
          Wrap (Some (PathErr ''open'' (path t off) (Errno ENOENT)))
            (''unable to open for reading: offset('' @ format_int off @ '') n('' @
             format_int (int len) @ '')''))
      | Some dst \<Rightarrow>
          (let (start, max) = offset t off in
           if max < int len \<and> max < 0 then Panic
           else Return (os_read_at (path t off) dst
                  (if max < int len then nat max else len) start)))"

lemma readchunk_progress:
  assumes "readchunk t d len off = Return (bs, None)" "0 < len"
  shows "0 < length bs"
proof -
  let ?pos = "go_rem off (BlockLength t)"
  have bl: "BlockLength t \<noteq> 0"
    using assms(1) by (auto simp: readchunk_def)
  then have ne: "BlockLength t - ?pos \<noteq> 0"
    using abs_go_rem_less [of "BlockLength t" off] by linarith
  from assms ne bl show ?thesis
    by (auto simp: readchunk_def offset_def Let_def
        dest!: os_read_at_full split: option.splits if_splits)
qed

text \<open>\<^verbatim>\<open>ReadAt\<close>: read chunk after chunk; \<open>acc\<close> is the part of the buffer filled so far, so
  \<^verbatim>\<open>n\<close> is its length.\<close>

function read_loop :: "DirCache \<Rightarrow> disk \<Rightarrow> bytes \<Rightarrow> nat \<Rightarrow> int \<Rightarrow> read_result" where
  "read_loop t d acc len off =
     (if length acc < len then
        (case readchunk t d (len - length acc) (i64 (off + int (length acc))) of
           Panic \<Rightarrow> Panic
         | Return (bs, Some e) \<Rightarrow> Return (acc @ bs, Some e)
         | Return (bs, None) \<Rightarrow> read_loop t d (acc @ bs) len off)
      else Return (acc, None))"
  by pat_completeness auto
termination
  by (relation "measure (\<lambda>(t, d, acc, len, off). len - length acc)")
    (auto dest!: readchunk_progress intro!: diff_less_mono2)

declare read_loop.simps [simp del]

definition ReadAt :: "DirCache \<Rightarrow> disk \<Rightarrow> nat \<Rightarrow> int \<Rightarrow> read_result" where
  "ReadAt t d len off = read_loop t d [] len off"

text \<open>\<^verbatim>\<open>writechunk\<close> opens the block with \<^verbatim>\<open>O_CREATE\<close>, so the block exists afterwards even
  when nothing is written.\<close>

definition writechunk ::
  "DirCache \<Rightarrow> disk \<Rightarrow> bytes \<Rightarrow> int \<Rightarrow> (disk \<times> nat \<times> goerr option) outcome" where
  "writechunk t d p ioff =
     (if BlockLength t = 0 then Panic
      else
        let path' = path t ioff;
            c = (case d path' of None \<Rightarrow> [] | Some c \<Rightarrow> c);
            (start, max) = offset t ioff
        in if max < int (length p) \<and> max < 0 then Panic
           else
             let p' = (if max < int (length p) then take (nat max) p else p);
                 (c', n, err) = os_write_at path' c p' start
             in Return (d(path' \<mapsto> c'), n, err))"

lemma writechunk_progress:
  assumes "writechunk t d p off = Return (d', n, None)" "p \<noteq> []"
  shows "0 < n"
proof -
  let ?pos = "go_rem off (BlockLength t)"
  have bl: "BlockLength t \<noteq> 0"
    using assms(1) by (auto simp: writechunk_def)
  then have ne: "BlockLength t - ?pos \<noteq> 0"
    using abs_go_rem_less [of "BlockLength t" off] by linarith
  from assms ne bl show ?thesis
    by (auto simp: writechunk_def offset_def Let_def os_write_at_def split: if_splits)
qed

function write_loop ::
  "DirCache \<Rightarrow> disk \<Rightarrow> bytes \<Rightarrow> int \<Rightarrow> nat \<Rightarrow> (disk \<times> nat \<times> goerr option) outcome" where
  "write_loop t d p off n =
     (if n < length p then
        (case writechunk t d (drop n p) (i64 (off + int n)) of
           Panic \<Rightarrow> Panic
         | Return (d', k, Some e) \<Rightarrow> Return (d', n + k, Some e)
         | Return (d', k, None) \<Rightarrow> write_loop t d' p off (n + k))
      else Return (d, n, None))"
  by pat_completeness auto
termination
  by (relation "measure (\<lambda>(t, d, p, off, n). length p - n)")
    (auto dest!: writechunk_progress simp del: length_greater_0_conv)

declare write_loop.simps [simp del]

definition WriteAt ::
  "DirCache \<Rightarrow> disk \<Rightarrow> bytes \<Rightarrow> int \<Rightarrow> (disk \<times> nat \<times> goerr option) outcome" where
  "WriteAt t d p off = write_loop t d p off 0"

section \<open>The logical file a directory of blocks represents\<close>

definition cached_byte :: "DirCache \<Rightarrow> disk \<Rightarrow> int \<Rightarrow> byte option" where
  "cached_byte t d i =
     (case d (path t i) of
        None \<Rightarrow> None
      | Some c \<Rightarrow>
          (let pos = nat (i mod BlockLength t)
           in if pos < length c then Some (c ! pos) else None))"

definition usable_cache :: "DirCache \<Rightarrow> bool" where
  "usable_cache t \<longleftrightarrow> 0 < BlockLength t"

lemma path_eq_iff:
  assumes "usable_cache t" "0 \<le> i" "0 \<le> j"
  shows "path t i = path t j \<longleftrightarrow> i div BlockLength t = j div BlockLength t"
  using assms by (simp add: path_def usable_cache_def)

lemma offset_pos:
  "usable_cache t \<Longrightarrow> 0 \<le> off \<Longrightarrow>
   offset t off = (off mod BlockLength t, BlockLength t - off mod BlockLength t)"
  by (simp add: offset_def usable_cache_def Let_def)

lemma cached_byte_in_block:
  assumes "usable_cache t" "0 \<le> off" "int j < BlockLength t - off mod BlockLength t"
  shows "cached_byte t d (off + int j) =
    (case d (path t off) of
       None \<Rightarrow> None
     | Some c \<Rightarrow> (let pos = nat (off mod BlockLength t) + j
                in if pos < length c then Some (c ! pos) else None))"
proof -
  have "(off + int j) div BlockLength t = off div BlockLength t"
    and m: "(off + int j) mod BlockLength t = off mod BlockLength t + int j"
    using assms block_div_mod [of off "BlockLength t" "int j"] by (simp_all add: usable_cache_def)
  then have "path t (off + int j) = path t off"
    using assms by (simp add: path_eq_iff)
  moreover have "nat ((off + int j) mod BlockLength t) = nat (off mod BlockLength t) + j"
    using assms by (simp add: m nat_add_distrib usable_cache_def)
  ultimately show ?thesis by (simp add: cached_byte_def Let_def split: option.split)
qed

text \<open>The part of a request that one chunk serves.\<close>

definition chunk :: "DirCache \<Rightarrow> nat \<Rightarrow> int \<Rightarrow> nat" where
  "chunk t len off = min len (nat (BlockLength t - off mod BlockLength t))"

lemma chunk_le: "chunk t len off \<le> len"
  by (simp add: chunk_def)

lemma chunk_pos: "usable_cache t \<Longrightarrow> 0 < len \<Longrightarrow> 0 < chunk t len off"
  by (simp add: chunk_def usable_cache_def)

lemma chunk_inside:
  "usable_cache t \<Longrightarrow> j < chunk t len off \<Longrightarrow> int j < BlockLength t - off mod BlockLength t"
  by (simp add: chunk_def) linarith

lemma readchunk_eq:
  assumes "usable_cache t" "0 \<le> off"
  shows "readchunk t d len off =
    (case d (path t off) of
       None \<Rightarrow> Return ([],
          Wrap (Some (PathErr ''open'' (path t off) (Errno ENOENT)))
            (''unable to open for reading: offset('' @ format_int off @ '') n('' @
             format_int (int len) @ '')''))
     | Some c \<Rightarrow> Return (os_read_at (path t off) c (chunk t len off) (off mod BlockLength t)))"
proof -
  have "BlockLength t \<noteq> 0" "0 < BlockLength t - off mod BlockLength t"
    using assms by (simp_all add: usable_cache_def)
  then show ?thesis
    using assms(2) offset_pos [OF assms]
    by (auto simp: readchunk_def chunk_def min_def split: option.splits)
qed

lemma readchunk_iff:
  assumes u: "usable_cache t" "0 \<le> off" and "0 < len"
  shows "readchunk t d len off = Return (bs, None) \<longleftrightarrow>
    d (path t off) \<noteq> None \<and> length bs = chunk t len off \<and>
    (\<forall>j < chunk t len off. cached_byte t d (off + int j) = Some (bs ! j))"
proof (cases "d (path t off)")
  case None
  then show ?thesis
    using u by (simp add: readchunk_eq)
next
  case (Some c)
  let ?p = "nat (off mod BlockLength t)" and ?k = "chunk t len off"
  have view: "cached_byte t d (off + int j) =
      (if ?p + j < length c then Some (c ! (?p + j)) else None)" if "j < ?k" for j
    using that Some cached_byte_in_block [OF u chunk_inside [OF u(1) that]] by (simp add: Let_def)
  have ge: "0 \<le> off mod BlockLength t" using u by (simp add: usable_cache_def)
  show ?thesis
  proof (cases "?p + ?k \<le> length c")
    case True
    have len: "length (slice ?p ?k c) = ?k" using True by simp
    have "readchunk t d len off = Return (slice ?p ?k c, None)"
      using True u Some ge by (simp add: readchunk_eq os_read_at_def file_read_def)
    moreover have "bs = slice ?p ?k c \<longleftrightarrow>
        length bs = ?k \<and> (\<forall>j < ?k. cached_byte t d (off + int j) = Some (bs ! j))"
      using True len by (auto simp: view list_eq_iff_nth_eq)
    ultimately show ?thesis using Some by auto
  next
    case False
    then have "\<exists>j < ?k. cached_byte t d (off + int j) = None"
      using view chunk_pos [OF u(1) \<open>0 < len\<close>] by (intro exI [of _ "?k - 1"]) auto
    moreover have "readchunk t d len off \<noteq> Return (bs, None)"
    proof -
      have "0 < ?k" by (rule chunk_pos [OF u(1) \<open>0 < len\<close>])
      with False have "length c - ?p < ?k" by linarith
      then show ?thesis
        using u Some ge by (simp add: readchunk_eq os_read_at_def file_read_def)
    qed
    ultimately show ?thesis by fastforce
  qed
qed

lemma readchunk_returns:
  "usable_cache t \<Longrightarrow> 0 \<le> off \<Longrightarrow> \<exists>r. readchunk t d len off = Return r"
  by (auto simp: readchunk_eq split: option.splits)

lemma read_loop_iff:
  assumes "usable_cache t" "in_range off len" "length acc \<le> len"
  shows "read_loop t d acc len off = Return (bs, None) \<longleftrightarrow>
    length bs = len \<and> take (length acc) bs = acc \<and>
    (\<forall>j < len. length acc \<le> j \<longrightarrow> cached_byte t d (off + int j) = Some (bs ! j))"
  using assms
proof (induction t d acc len off rule: read_loop.induct)
  case (1 t d acc len off)
  let ?n = "length acc"
  show ?case
  proof (cases "?n < len")
    case False
    with "1.prems"(3) show ?thesis by (auto simp: read_loop.simps [of t d acc])
  next
    case True
    let ?off = "off + int ?n" and ?k = "chunk t (len - ?n) (off + int ?n)"
    have o: "i64 ?off = ?off" "0 \<le> ?off"
      using "1.prems"(2,3) in_range_i64 [of off len ?n] by (auto simp: in_range_def)
    have k: "?k \<le> len - ?n" by (rule chunk_le)
    obtain cs e where r: "readchunk t d (len - ?n) ?off = Return (cs, e)"
      using readchunk_returns [OF "1.prems"(1) o(2)] by fastforce
    show ?thesis
    proof (cases e)
      case (Some e')
      have "\<not> (\<forall>j < len. ?n \<le> j \<longrightarrow> cached_byte t d (off + int j) = Some (bs ! j))"
        if "length bs = len"
      proof
        assume all: "\<forall>j < len. ?n \<le> j \<longrightarrow> cached_byte t d (off + int j) = Some (bs ! j)"
        have "cached_byte t d (?off + int j) = Some (slice ?n ?k bs ! j)" if "j < ?k" for j
          using all [rule_format, of "?n + j"] that k \<open>length bs = len\<close> by (simp add: add.assoc)
        moreover have "d (path t ?off) \<noteq> None"
        proof -
          have "cached_byte t d (?off + int 0) \<noteq> None"
            using all True by auto
          then show ?thesis by (auto simp: cached_byte_def split: option.splits)
        qed
        ultimately have "readchunk t d (len - ?n) ?off = Return (slice ?n ?k bs, None)"
          using k that True by (subst readchunk_iff [OF "1.prems"(1) o(2)]) auto
        with r Some show False by simp
      qed
      with True r Some o show ?thesis
        by (subst read_loop.simps) auto
    next
      case None
      have c: "d (path t ?off) \<noteq> None" "length cs = ?k"
          "\<And>j. j < ?k \<Longrightarrow> cached_byte t d (?off + int j) = Some (cs ! j)"
        using r None True readchunk_iff [OF "1.prems"(1) o(2), of "len - ?n"] by simp_all
      have step: "read_loop t d acc len off = read_loop t d (acc @ cs) len off"
        using True r None o by (subst read_loop.simps) simp
      have IH: "read_loop t d (acc @ cs) len off = Return (bs, None) \<longleftrightarrow>
          length bs = len \<and> take (length (acc @ cs)) bs = acc @ cs \<and>
          (\<forall>j < len. length (acc @ cs) \<le> j \<longrightarrow> cached_byte t d (off + int j) = Some (bs ! j))"
        using "1.IH" [OF True, of "(cs, None)" cs None] "1.prems" True r None o k c(2) by simp
      have "take (?n + ?k) bs = acc @ cs \<longleftrightarrow> take ?n bs = acc \<and> slice ?n ?k bs = cs"
        if "length bs = len"
        using that True k c(2) by (auto simp: take_add slice_def append_eq_append_conv)
      moreover have "slice ?n ?k bs = cs \<longleftrightarrow>
          (\<forall>j < ?k. cached_byte t d (off + int (?n + j)) = Some (bs ! (?n + j)))"
        if "length bs = len"
        using that True k c(2,3) by (auto simp: list_eq_iff_nth_eq add.assoc)
      moreover have "(\<forall>j < len. ?n \<le> j \<longrightarrow> P j) \<longleftrightarrow>
          (\<forall>j < ?k. P (?n + j)) \<and> (\<forall>j < len. ?n + ?k \<le> j \<longrightarrow> P j)" for P
      proof safe
        fix j assume "\<forall>j < ?k. P (?n + j)" "\<forall>j < len. ?n + ?k \<le> j \<longrightarrow> P j" "j < len" "?n \<le> j"
        then show "P j"
          by (cases "j < ?n + ?k") (auto dest: spec [of _ "j - ?n"])
      qed (use k True in auto)
      ultimately show ?thesis
        using step IH c(2) by auto
    qed
  qed
qed

lemma ReadAt_iff:
  assumes "usable_cache t" "in_range off len"
  shows "ReadAt t d len off = Return (bs, None) \<longleftrightarrow>
    length bs = len \<and> (\<forall>j < len. cached_byte t d (off + int j) = Some (bs ! j))"
  using read_loop_iff [OF assms, of "[]"] by (simp add: ReadAt_def)


text \<open>A first block that is missing is the error of the whole read.\<close>

lemma ReadAt_absent:
  assumes "0 < BlockLength t" "0 \<le> off" "off < 2 ^ 63" "0 < len" "d (path t off) = None"
  shows "\<exists>m. ReadAt t d len off = Return ([], Some (WithStack (WithMessage
    (PathErr ''open'' (path t off) (Errno ENOENT)) m)))"
proof -
  have "i64 off = off"
    using assms by (intro i64_id in_i64I) simp_all
  then show ?thesis
    using assms by (subst ReadAt_def, subst read_loop.simps) (simp add: readchunk_def)
qed

section \<open>Writing\<close>

lemma writechunk_eq:
  assumes "usable_cache t" "0 \<le> off"
  shows "writechunk t d p off =
    Return (d(path t off \<mapsto>
        file_write (case d (path t off) of None \<Rightarrow> [] | Some c \<Rightarrow> c)
          (nat (off mod BlockLength t)) (take (chunk t (length p) off) p)),
      chunk t (length p) off, None)"
proof -
  have "BlockLength t \<noteq> 0" "0 < BlockLength t - off mod BlockLength t" "0 \<le> off mod BlockLength t"
    using assms by (simp_all add: usable_cache_def)
  moreover have "int (chunk t (length p) off) =
      (if BlockLength t - off mod BlockLength t < int (length p)
       then BlockLength t - off mod BlockLength t else int (length p))"
    using calculation by (auto simp: chunk_def min_def)
  ultimately show ?thesis
    using offset_pos [OF assms]
    by (auto simp: writechunk_def os_write_at_def Let_def chunk_def min_def)
qed

lemma nat_mod_eq_iff:
  "usable_cache t \<Longrightarrow> nat (a mod BlockLength t) = nat (b mod BlockLength t) \<longleftrightarrow>
   a mod BlockLength t = b mod BlockLength t"
  by (simp add: usable_cache_def eq_nat_nat_iff)

lemma cached_byte_writechunk_inside:
  assumes u: "usable_cache t" "0 \<le> off"
    and w: "writechunk t d p off = Return (d', n, e)"
    and j: "j < chunk t (length p) off"
  shows "cached_byte t d' (off + int j) = Some (p ! j)"
proof -
  let ?k = "chunk t (length p) off" and ?pos = "nat (off mod BlockLength t)"
  let ?c = "case d (path t off) of None \<Rightarrow> [] | Some c \<Rightarrow> c"
  have k: "?k \<le> length p" by (rule chunk_le)
  have d': "d' = d(path t off \<mapsto> file_write ?c ?pos (take ?k p))"
    using w u by (auto simp: writechunk_eq)
  have ne: "take ?k p \<noteq> []" using j k by auto
  have "cached_byte t d' (off + int j) =
      (if ?pos + j < length (file_write ?c ?pos (take ?k p))
       then Some (file_write ?c ?pos (take ?k p) ! (?pos + j)) else None)"
    by (simp add: cached_byte_in_block [OF u chunk_inside [OF u(1) j]] d' Let_def)
  also have "\<dots> = Some (p ! j)"
    using ne k j by (simp add: nth_file_write)
  finally show ?thesis .
qed

lemma cached_byte_writechunk_outside:
  assumes u: "usable_cache t" "0 \<le> off" "0 \<le> i"
    and w: "writechunk t d p off = Return (d', n, e)"
    and out: "i < off \<or> off + int (chunk t (length p) off) \<le> i"
  shows "cached_byte t d' i = cached_byte t d i \<or> (cached_byte t d i = None \<and> cached_byte t d' i = Some 0)"
proof (cases "path t i = path t off")
  case False
  then show ?thesis
    using w u by (auto simp: writechunk_eq cached_byte_def)
next
  case True
  let ?k = "chunk t (length p) off" and ?pos = "nat (off mod BlockLength t)"
    and ?i = "nat (i mod BlockLength t)"
  let ?c = "case d (path t off) of None \<Rightarrow> [] | Some c \<Rightarrow> c"
  have k: "?k \<le> length p" by (rule chunk_le)
  have d': "d' = d(path t off \<mapsto> file_write ?c ?pos (take ?k p))"
    using w u by (auto simp: writechunk_eq)
  have same: "i div BlockLength t = off div BlockLength t"
    using True u by (simp add: path_eq_iff)
  have diff: "i - off = i mod BlockLength t - off mod BlockLength t"
    using div_mult_mod_eq [of i "BlockLength t"] div_mult_mod_eq [of off "BlockLength t"]
    by (simp only: same)
  have "0 \<le> i mod BlockLength t" "0 \<le> off mod BlockLength t"
    using u by (simp_all add: usable_cache_def)
  then have out': "?i < ?pos \<or> ?pos + ?k \<le> ?i"
    using out diff by linarith
  have old: "cached_byte t d i = (if ?i < length ?c then Some (?c ! ?i) else None)"
    using True by (auto simp: cached_byte_def Let_def split: option.split)
  have new: "cached_byte t d' i = (if ?i < length (file_write ?c ?pos (take ?k p))
      then Some (file_write ?c ?pos (take ?k p) ! ?i) else None)"
    using True by (simp add: cached_byte_def d' Let_def)
  show ?thesis
  proof (cases "take ?k p = []")
    case True
    with old new show ?thesis by (simp only: True file_write_Nil) simp
  next
    case False
    then show ?thesis
      using old new out' k by (auto simp: nth_file_write)
  qed
qed

lemma write_loop_done: "length p \<le> n \<Longrightarrow> write_loop t d p off n = Return (d, n, None)"
  by (subst write_loop.simps) simp

lemma write_loop_total:
  assumes "usable_cache t" "in_range off (length p)" "n \<le> length p"
  shows "\<exists>d'. write_loop t d p off n = Return (d', length p, None)"
  using assms
proof (induction t d p off n rule: write_loop.induct)
  case (1 t d p off n)
  show ?case
  proof (cases "n < length p")
    case True
    have o: "i64 (off + int n) = off + int n" "0 \<le> off + int n"
      using "1.prems"(2,3) in_range_i64 [of off "length p" n] by (auto simp: in_range_def)
    then obtain d1 where w: "writechunk t d (drop n p) (i64 (off + int n)) =
        Return (d1, chunk t (length (drop n p)) (off + int n), None)"
      using "1.prems"(1) by (simp add: writechunk_eq)
    have "n + chunk t (length (drop n p)) (off + int n) \<le> length p"
      using chunk_le [of t "length (drop n p)" "off + int n"] True by simp
    with "1.IH" [OF True w refl refl refl] "1.prems" True w show ?thesis
      by (subst write_loop.simps) simp
  qed (use "1.prems" in \<open>auto simp: write_loop_done\<close>)
qed

lemma write_loop_contents:
  assumes "usable_cache t" "in_range off (length p)" "n \<le> length p"
    and "write_loop t d p off n = Return (d', k, e)"
  shows "(\<forall>j < length p. n \<le> j \<longrightarrow> cached_byte t d' (off + int j) = Some (p ! j)) \<and>
    (\<forall>i. 0 \<le> i \<longrightarrow> i < off + int n \<or> off + int (length p) \<le> i \<longrightarrow>
       cached_byte t d' i = cached_byte t d i \<or> (cached_byte t d i = None \<and> cached_byte t d' i = Some 0))"
  using assms
proof (induction t d p off n rule: write_loop.induct)
  case (1 t d p off n)
  show ?case
  proof (cases "n < length p")
    case False
    with "1.prems"(3) have "n = length p" by simp
    with "1.prems"(4) have "d' = d" by (simp add: write_loop_done)
    with \<open>n = length p\<close> show ?thesis by simp
  next
    case True
    let ?m = "chunk t (length (drop n p)) (off + int n)"
    have o: "i64 (off + int n) = off + int n" "0 \<le> off + int n"
      using "1.prems"(2,3) in_range_i64 [of off "length p" n] by (auto simp: in_range_def)
    then obtain d1 where w: "writechunk t d (drop n p) (i64 (off + int n)) = Return (d1, ?m, None)"
      using "1.prems"(1) by (simp add: writechunk_eq)
    note w' = w [unfolded o(1)]
    have le: "n + ?m \<le> length p"
      using chunk_le [of t "length (drop n p)" "off + int n"] True by simp
    have rest: "write_loop t d1 p off (n + ?m) = Return (d', k, e)"
      using "1.prems"(4) True w by (subst (asm) write_loop.simps) simp
    note IH = "1.IH" [OF True w refl refl refl "1.prems"(1,2) le rest]
    note tail = IH [THEN conjunct1, rule_format] and rest_out = IH [THEN conjunct2, rule_format]
    have first: "cached_byte t d1 (off + int j) = Some (p ! j)" if "n \<le> j" "j < n + ?m" for j
      using cached_byte_writechunk_inside [OF "1.prems"(1) o(2) w', of "j - n"] that True
      by (simp add: of_nat_diff add.assoc)
    have outside: "cached_byte t d1 i = cached_byte t d i \<or>
        (cached_byte t d i = None \<and> cached_byte t d1 i = Some 0)"
      if "0 \<le> i" "i < off + int n \<or> off + int n + int ?m \<le> i" for i
      using cached_byte_writechunk_outside [OF "1.prems"(1) o(2) that(1) w'] that(2) by simp
    have "cached_byte t d' (off + int j) = Some (p ! j)" if "j < length p" "n \<le> j" for j
    proof (cases "n + ?m \<le> j")
      case True
      with that tail show ?thesis by simp
    next
      case False
      have "0 \<le> off + int j" "off + int j < off + int (n + ?m)"
        using False o(2) that by linarith+
      then have "cached_byte t d' (off + int j) = cached_byte t d1 (off + int j) \<or>
          cached_byte t d1 (off + int j) = None"
        using rest_out [of "off + int j"] by auto
      with first [of j] False that show ?thesis by auto
    qed
    moreover have "cached_byte t d' i = cached_byte t d i \<or>
        (cached_byte t d i = None \<and> cached_byte t d' i = Some 0)"
      if "0 \<le> i" "i < off + int n \<or> off + int (length p) \<le> i" for i
    proof -
      have "i < off + int (n + ?m) \<or> off + int (length p) \<le> i"
        using that(2) by linarith
      then have "cached_byte t d' i = cached_byte t d1 i \<or>
          (cached_byte t d1 i = None \<and> cached_byte t d' i = Some 0)" by (rule rest_out [OF that(1)])
      moreover have "i < off + int n \<or> off + int n + int ?m \<le> i"
        using that(2) le by linarith
      ultimately show ?thesis using outside [OF that(1)] by auto
    qed
    ultimately show ?thesis by blast
  qed
qed

interpretation dc: random_access "\<lambda>_. usable_cache t" "ReadAt t" "WriteAt t" "cached_byte t" for t
proof
  show "ReadAt t d n off = Return (bs, None) \<longleftrightarrow>
      length bs = n \<and> (\<forall>j<n. cached_byte t d (off + int j) = Some (bs ! j))"
    if "usable_cache t" "in_range off n" for d off n bs
    using that by (rule ReadAt_iff)
  show "\<exists>d'. WriteAt t d p off = Return (d', length p, None) \<and> usable_cache t"
    if "usable_cache t" "in_range off (length p)" for d p off
    using write_loop_total [OF that, of 0] that by (auto simp: WriteAt_def)
  show "cached_byte t d' (off + int j) = Some (p ! j)"
    if "usable_cache t" "in_range off (length p)" "WriteAt t d p off = Return (d', k, e)"
      "j < length p" for d p off d' k e j
    using write_loop_contents [OF that(1,2) _ that(3) [unfolded WriteAt_def]] that(4) by simp
  show "cached_byte t d' i = cached_byte t d i \<or> (cached_byte t d i = None \<and> cached_byte t d' i = Some 0)"
    if "usable_cache t" "in_range off (length p)" "WriteAt t d p off = Return (d', k, e)"
      "0 \<le> i" "i < off \<or> off + int (length p) \<le> i" for d p off d' k e i
    using write_loop_contents [OF that(1,2) _ that(3) [unfolded WriteAt_def]] that(4,5)
    by (simp add: disj_imp)
qed


section \<open>Torrent storage over the cache\<close>

record TorrentCacheStorage =
  v_root :: string
  blength :: u64

type_synonym OptionTorrentCacheStorage = "TorrentCacheStorage \<Rightarrow> TorrentCacheStorage"

definition OptionTorrentCacheStorageBlockLength :: "u64 \<Rightarrow> OptionTorrentCacheStorage" where
  "OptionTorrentCacheStorageBlockLength n tcs = tcs\<lparr>blength := n\<rparr>"

definition NewTorrentFromVirtualFS ::
  "string \<Rightarrow> OptionTorrentCacheStorage list \<Rightarrow> TorrentCacheStorage" where
  "NewTorrentFromVirtualFS v options =
     Clone \<lparr>v_root = v, blength = word_of_int DefaultBlockLength\<rparr> options"

record fileTorrentImpl =
  closed :: bool
  impl_cache :: DirCache

text \<open>The directory of a torrent comes from the torrent library's
  \<^verbatim>\<open>storage.InfoHashPathMaker\<close>, the parameter \<open>path_maker\<close>; its \<^verbatim>\<open>storage.ErrClosed()\<close> is
  the parameter \<open>err_closed\<close>.\<close>

definition OpenTorrent ::
  "(string \<Rightarrow> 'hash \<Rightarrow> 'info \<Rightarrow> string) \<Rightarrow> (string \<Rightarrow> goerr option) \<Rightarrow>
   TorrentCacheStorage \<Rightarrow> 'info \<Rightarrow> 'hash \<Rightarrow> goerr + fileTorrentImpl" where
  "OpenTorrent path_maker mkdir t info infoHash =
     (let dir = path_maker (v_root t) infoHash info
      in case NewDirectoryCache (mkdir dir) dir
                [OptionDirCacheBlockLength (sint (blength t))] of
           Inl err \<Rightarrow> Inl err
         | Inr cache \<Rightarrow> Inr \<lparr>closed = False, impl_cache = cache\<rparr>)"

type_synonym torrent_store = "fileTorrentImpl \<times> disk"

definition impl_ReadAt :: "goerr \<Rightarrow> torrent_store \<Rightarrow> nat \<Rightarrow> int \<Rightarrow> read_result" where
  "impl_ReadAt err_closed = (\<lambda>(t, d) len off.
     if closed t then Return ([], Some err_closed) else ReadAt (impl_cache t) d len off)"

definition impl_WriteAt ::
  "goerr \<Rightarrow> torrent_store \<Rightarrow> bytes \<Rightarrow> int \<Rightarrow> (torrent_store \<times> nat \<times> goerr option) outcome" where
  "impl_WriteAt err_closed = (\<lambda>(t, d) p off.
     if closed t then Return ((t, d), 0, Some err_closed)
     else map_outcome_result (\<lambda>(d', n, err). ((t, d'), n, err)) (WriteAt (impl_cache t) d p off))"

definition impl_Close :: "torrent_store \<Rightarrow> torrent_store" where
  "impl_Close = (\<lambda>(t, d). (t\<lparr>closed := True\<rparr>, d))"

definition impl_usable :: "torrent_store \<Rightarrow> bool" where
  "impl_usable = (\<lambda>(t, d). \<not> closed t \<and> usable_cache (impl_cache t))"

definition impl_byte :: "torrent_store \<Rightarrow> int \<Rightarrow> byte option" where
  "impl_byte = (\<lambda>(t, d). cached_byte (impl_cache t) d)"

lemma impl_WriteAt_open:
  "\<not> closed t \<Longrightarrow> impl_WriteAt err (t, d) p off = Return ((t', d'), k, e) \<longleftrightarrow>
   t' = t \<and> WriteAt (impl_cache t) d p off = Return (d', k, e)"
  by (auto simp: impl_WriteAt_def map_outcome_result_eq_Return)

interpretation tor: random_access impl_usable "impl_ReadAt err" "impl_WriteAt err" impl_byte
  for err
proof
  fix s :: torrent_store and off :: int and n :: nat and bs :: bytes
  obtain t d where s: "s = (t, d)" by (cases s)
  assume "impl_usable s" "in_range off n"
  then show "impl_ReadAt err s n off = Return (bs, None) \<longleftrightarrow>
      length bs = n \<and> (\<forall>j<n. impl_byte s (off + int j) = Some (bs ! j))"
    by (simp add: s impl_usable_def impl_ReadAt_def impl_byte_def ReadAt_iff)
next
  fix s :: torrent_store and off :: int and p :: bytes
  obtain t d where s: "s = (t, d)" by (cases s)
  assume u: "impl_usable s" "in_range off (length p)"
  then obtain d' where "WriteAt (impl_cache t) d p off = Return (d', length p, None)"
    using dc.write_total [of "impl_cache t" off p d] by (auto simp: s impl_usable_def)
  with u show "\<exists>s'. impl_WriteAt err s p off = Return (s', length p, None) \<and> impl_usable s'"
    by (simp add: s impl_usable_def impl_WriteAt_def)
next
  fix s :: torrent_store and off :: int and p :: bytes and s' :: torrent_store and k :: nat and e :: "goerr option" and j :: nat
  obtain t d t' d' where s: "s = (t, d)" "s' = (t', d')" by (cases s, cases s')
  assume "impl_usable s" "in_range off (length p)" "impl_WriteAt err s p off = Return (s', k, e)"
    "j < length p"
  then show "impl_byte s' (off + int j) = Some (p ! j)"
    using dc.write_inside [of "impl_cache t" off p d d' k e j]
    by (auto simp: s impl_usable_def impl_byte_def impl_WriteAt_open)
next
  fix s :: torrent_store and off :: int and p :: bytes and s' :: torrent_store and k :: nat and e :: "goerr option" and i :: int
  obtain t d t' d' where s: "s = (t, d)" "s' = (t', d')" by (cases s, cases s')
  assume "impl_usable s" "in_range off (length p)" "impl_WriteAt err s p off = Return (s', k, e)"
    "0 \<le> i" "i < off \<or> off + int (length p) \<le> i"
  then show "impl_byte s' i = impl_byte s i \<or>
      (impl_byte s i = None \<and> impl_byte s' i = Some 0)"
    using dc.write_outside [of "impl_cache t" off p d d' k e i]
    by (auto simp: s impl_usable_def impl_byte_def impl_WriteAt_open)
qed


section \<open>Properties\<close>




lemma WriteAt_frame_example:
  "WriteAt \<lparr>root = ''c'', BlockLength = 2\<rparr> [''c/0'' \<mapsto> [7, 8], ''c/1'' \<mapsto> [9]] [5] 3 =
     Return ([''c/0'' \<mapsto> [7, 8], ''c/1'' \<mapsto> [9, 5]], 1, None)"
proof -
  let ?t = "\<lparr>root = ''c'', BlockLength = 2\<rparr>"
  have "path ?t 3 = ''c/1''" and "offset ?t 3 = (1, 1)" and "i64 3 = 3"
    by code_simp+
  then show ?thesis
    by (simp add: WriteAt_def write_loop.simps writechunk_def os_write_at_def file_write_def Let_def)
qed


text \<open>A read succeeds exactly when every byte of its range is held by the block files, and
  then returns those bytes; nothing is made up for a missing or short block.\<close>

theorem ReadAt_exact:
  assumes "0 < BlockLength t" and "0 \<le> off" and "off + int len < 2 ^ 63"
  shows "ReadAt t d len off = Return (bs, None) \<longleftrightarrow>
    length bs = len \<and> (\<forall>j < len. cached_byte t d (off + int j) = Some (bs ! j))"
  using assms by (intro ReadAt_iff) (simp_all add: usable_cache_def in_range_def)

theorem ReadAt_exact_witness:
  "ReadAt \<lparr>root = ''c'', BlockLength = 2\<rparr> [''c/0'' \<mapsto> [7, 8]] 3 0 \<noteq> Return ([7, 8, 0], None)"
proof -
  have "cached_byte \<lparr>root = ''c'', BlockLength = 2\<rparr> [''c/0'' \<mapsto> [7, 8]] (0 + int 2) = None"
    by code_simp
  with ReadAt_exact [of "\<lparr>root = ''c'', BlockLength = 2\<rparr>" 0 3 "[''c/0'' \<mapsto> [7, 8]]" "[7, 8, 0]"]
  show ?thesis by (auto dest: spec [of _ 2])
qed

text \<open>A read whose first block file is missing fails with an error that is
  \<^verbatim>\<open>fs.ErrNotExist\<close>, the one the callers take as a request to download the block.\<close>

theorem ReadAt_missing:
  assumes "0 < BlockLength t" and "0 \<le> off" and "off < 2 ^ 63" and "0 < len"
    and "d (path t off) = None"
  shows "\<exists>err. ReadAt t d len off = Return ([], err) \<and> std_is err (TSentinel ErrNotExist)"
  using ReadAt_absent [of t off len d] assms by auto

theorem ReadAt_missing_witness:
  "\<exists>err. ReadAt \<lparr>root = ''c'', BlockLength = 2\<rparr> [''c/0'' \<mapsto> [7, 8]] 3 5 = Return ([], err) \<and>
     std_is err (TSentinel ErrNotExist)"
proof (rule ReadAt_missing)
  show "[''c/0'' \<mapsto> [7, 8]] (path \<lparr>root = ''c'', BlockLength = 2\<rparr> 5) = None" by code_simp
qed simp_all

text \<open>Torrent storage keeps what is written to it until it is closed, and refuses every
  read and write from then on.\<close>

theorem torrent_store_until_closed:
  assumes "\<not> closed t" and "0 < BlockLength (impl_cache t)"
    and "0 \<le> off" and "off + int (length p) < 2 ^ 63"
  shows "\<exists>s. impl_WriteAt err (t, d) p off = Return (s, length p, None) \<and>
    impl_ReadAt err s (length p) off = Return (p, None) \<and>
    impl_ReadAt err (impl_Close s) (length p) off = Return ([], Some err) \<and>
    impl_WriteAt err (impl_Close s) p off = Return (impl_Close s, 0, Some err)"
proof -
  have u: "impl_usable (t, d)" "in_range off (length p)"
    using assms by (simp_all add: impl_usable_def usable_cache_def in_range_def)
  then obtain s where w: "impl_WriteAt err (t, d) p off = Return (s, length p, None)"
    using tor.write_total by blast
  have "impl_ReadAt err s (length p) off = Return (p, None)"
    by (rule tor.read_back [OF u w])
  with w show ?thesis
    by (auto simp: impl_ReadAt_def impl_WriteAt_def impl_Close_def split: prod.split)
qed

theorem torrent_store_until_closed_witness:
  "\<exists>s. impl_WriteAt (StringErr ''closed'')
     (\<lparr>closed = False, impl_cache = \<lparr>root = ''c'', BlockLength = 2\<rparr>\<rparr>, Map.empty) [1, 2, 3] 1 =
       Return (s, length [1, 2, 3 :: byte], None)"
proof -
  let ?t = "\<lparr>closed = False, impl_cache = \<lparr>root = ''c'', BlockLength = 2\<rparr>\<rparr>"
  have "\<not> closed ?t" "0 < BlockLength (impl_cache ?t)" "(0::int) \<le> 1"
      "1 + int (length [1, 2, 3 :: byte]) < 2 ^ 63"
    by simp_all
  from torrent_store_until_closed [OF this, where err = "StringErr ''closed''" and d = Map.empty]
  show ?thesis by (elim exE conjE) (rule exI)
qed

end
