(* ===== verification/Osfs.thy ===== *)
theory Osfs
  imports Blockcache Gostd
begin

text \<open>
  The file system of the host as the package \<^verbatim>\<open>os\<close> shows it, and the helpers of
  \<^verbatim>\<open>shallows/internal/fsx\<close> over it.

  A file system is a map from absolute paths, lists of components, to nodes; the root
  directory is there without an entry. A path is resolved component by component as the
  kernel does, symbolic links included, at most 40 of them. An operation may fail for a
  reason of its own, or because \<open>faults\<close> says that this call fails; what a failed call has
  done already is left out, except where the code makes several calls. A \<^verbatim>\<open>*LinkError\<close> is a
  \<open>PathErr\<close> on the new name. Handles are names: no file is renamed while it is written.
\<close>

section \<open>Nodes and paths\<close>

datatype node = Regular bytes | Directory | Link string

type_synonym nodes = "string list \<rightharpoonup> node"

record os =
  nodes_of :: nodes
  cwd :: "string list"
  calls :: nat

type_synonym faults = "nat \<Rightarrow> goerr option"

fun components_from :: "string \<Rightarrow> string \<Rightarrow> string list" where
  "components_from cur [] = (if cur = [] then [] else [cur])"
| "components_from cur (c # cs) =
     (if is_sep c then (if cur = [] then components_from [] cs else cur # components_from [] cs)
      else components_from (cur @ [c]) cs)"

definition components :: "string \<Rightarrow> string list" where
  "components p = components_from [] p"

text \<open>\<open>follow\<close> says whether a link in the last place is followed; the result need not exist when
  the directory it is in does.\<close>

function walk :: "nodes \<Rightarrow> bool \<Rightarrow> nat \<Rightarrow> string list \<Rightarrow> string list \<Rightarrow> errno + string list" where
  "walk ns follow n dir [] = Inr dir"
| "walk ns follow n dir (c # cs) =
     (if c = ''.'' then walk ns follow n dir cs
      else if c = ''..'' then walk ns follow n (butlast dir) cs
      else (case ns (dir @ [c]) of
          None \<Rightarrow> if cs = [] then Inr (dir @ [c]) else Inl ENOENT
        | Some (Regular _) \<Rightarrow> if cs = [] then Inr (dir @ [c]) else Inl EOTHER
        | Some Directory \<Rightarrow> walk ns follow n (dir @ [c]) cs
        | Some (Link target) \<Rightarrow>
            if cs = [] \<and> \<not> follow then Inr (dir @ [c])
            else if n = 0 then Inl EOTHER
            else walk ns follow (n - 1) (if HasPrefix target ''/'' then [] else dir)
                   (components target @ cs)))"
  by pat_completeness auto
termination
  by (relation "inv_image (less_than <*lex*> less_than) (\<lambda>(ns, follow, n, dir, cs). (n, length cs))") auto

definition max_links :: nat where "max_links = 40"

definition is_directory :: "nodes \<Rightarrow> string list \<Rightarrow> bool" where
  "is_directory ns p \<longleftrightarrow> p = [] \<or> ns p = Some Directory"

definition walk_from :: "nodes \<Rightarrow> bool \<Rightarrow> string list \<Rightarrow> string list \<Rightarrow> errno + string list" where
  "walk_from ns follow dir cs =
     (if is_directory ns dir then walk ns follow max_links dir cs else Inl ENOENT)"

text \<open>The directory a path starts from.\<close>

definition start_of :: "os \<Rightarrow> string \<Rightarrow> string list" where
  "start_of st p = (if HasPrefix p ''/'' then [] else cwd st)"

definition resolve :: "os \<Rightarrow> bool \<Rightarrow> string \<Rightarrow> errno + string list" where
  "resolve st follow p = walk_from (nodes_of st) follow (start_of st p) (components p)"

section \<open>Operations\<close>

definition syscall ::
  "faults \<Rightarrow> string \<Rightarrow> string \<Rightarrow> (os \<Rightarrow> nodes \<times> (errno + 'a)) \<Rightarrow> os \<Rightarrow> os \<times> (goerr + 'a)" where
  "syscall fault op p f st =
     (let st1 = st\<lparr>calls := Suc (calls st)\<rparr> in
      case fault (calls st) of
        Some e \<Rightarrow> (st1, Inl (PathErr op p e))
      | None \<Rightarrow>
          (case f st of
             (ns, Inl e) \<Rightarrow> (st1\<lparr>nodes_of := ns\<rparr>, Inl (PathErr op p (Errno e)))
           | (ns, Inr v) \<Rightarrow> (st1\<lparr>nodes_of := ns\<rparr>, Inr v)))"

definition os_Stat :: "faults \<Rightarrow> string \<Rightarrow> os \<Rightarrow> os \<times> (goerr + node)" where
  "os_Stat fault p = syscall fault ''stat'' p (\<lambda>st. (nodes_of st,
     case resolve st True p of
       Inl e \<Rightarrow> Inl e
     | Inr q \<Rightarrow> if q = [] then Inr Directory
                else (case nodes_of st q of None \<Rightarrow> Inl ENOENT | Some nd \<Rightarrow> Inr nd)))"

definition os_Remove :: "faults \<Rightarrow> string \<Rightarrow> os \<Rightarrow> os \<times> (goerr + unit)" where
  "os_Remove fault p = syscall fault ''remove'' p (\<lambda>st. let ns = nodes_of st in
     (case resolve st False p of
        Inl e \<Rightarrow> (ns, Inl e)
      | Inr q \<Rightarrow>
          (case ns q of
             None \<Rightarrow> (ns, Inl (if q = [] then EOTHER else ENOENT))
           | Some nd \<Rightarrow>
               if nd = Directory \<and> (\<exists>c. ns (q @ [c]) \<noteq> None) then (ns, Inl EOTHER)
               else (ns(q := None), Inr ()))))"

definition drop_tree :: "string list \<Rightarrow> nodes \<Rightarrow> nodes" where
  "drop_tree q ns = (\<lambda>p. if take (length q) p = q then None else ns p)"

definition os_RemoveAll :: "faults \<Rightarrow> string \<Rightarrow> os \<Rightarrow> os \<times> (goerr + unit)" where
  "os_RemoveAll fault p = syscall fault ''unlinkat'' p (\<lambda>st. let ns = nodes_of st in
     (case resolve st False p of
        Inl ENOENT \<Rightarrow> (ns, Inr ())
      | Inl e \<Rightarrow> (ns, Inl e)
      | Inr q \<Rightarrow> if q = [] then (ns, Inl EOTHER) else (drop_tree q ns, Inr ())))"

definition os_Readlink :: "faults \<Rightarrow> string \<Rightarrow> os \<Rightarrow> os \<times> (goerr + string)" where
  "os_Readlink fault p = syscall fault ''readlink'' p (\<lambda>st. (nodes_of st,
     case resolve st False p of
       Inl e \<Rightarrow> Inl e
     | Inr q \<Rightarrow> (case nodes_of st q of
           Some (Link target) \<Rightarrow> Inr target
         | None \<Rightarrow> Inl (if q = [] then EOTHER else ENOENT)
         | Some _ \<Rightarrow> Inl EOTHER)))"

definition create_node :: "bool \<Rightarrow> string \<Rightarrow> node \<Rightarrow> os \<Rightarrow> nodes \<times> (errno + unit)" where
  "create_node follow p nd st = (let ns = nodes_of st in
     (case resolve st follow p of
        Inl e \<Rightarrow> (ns, Inl e)
      | Inr q \<Rightarrow> if q = [] \<or> ns q \<noteq> None then (ns, Inl EEXIST) else (ns(q \<mapsto> nd), Inr ())))"

definition os_Symlink :: "faults \<Rightarrow> string \<Rightarrow> string \<Rightarrow> os \<Rightarrow> os \<times> (goerr + unit)" where
  "os_Symlink fault target p = syscall fault ''symlink'' p (create_node False p (Link target))"

text \<open>\<^verbatim>\<open>os.OpenFile\<close> with \<^verbatim>\<open>O_CREATE|O_EXCL\<close>.\<close>

definition os_CreateExcl :: "faults \<Rightarrow> string \<Rightarrow> os \<Rightarrow> os \<times> (goerr + unit)" where
  "os_CreateExcl fault p = syscall fault ''open'' p (create_node False p (Regular []))"

definition os_ReadFile :: "faults \<Rightarrow> string \<Rightarrow> os \<Rightarrow> os \<times> (goerr + bytes)" where
  "os_ReadFile fault p = syscall fault ''open'' p (\<lambda>st. (nodes_of st,
     case resolve st True p of
       Inl e \<Rightarrow> Inl e
     | Inr q \<Rightarrow> (case nodes_of st q of
           Some (Regular bs) \<Rightarrow> Inr bs
         | None \<Rightarrow> Inl (if q = [] then EOTHER else ENOENT)
         | Some _ \<Rightarrow> Inl EOTHER)))"

text \<open>Opening for writing with \<^verbatim>\<open>O_CREATE\<close> and writing: \<open>f\<close> maps the content before, empty for
  a new file, to the content after.\<close>

definition os_Write :: "faults \<Rightarrow> string \<Rightarrow> (bytes \<Rightarrow> bytes) \<Rightarrow> os \<Rightarrow> os \<times> (goerr + unit)" where
  "os_Write fault p f = syscall fault ''open'' p (\<lambda>st. let ns = nodes_of st in
     (case resolve st True p of
        Inl e \<Rightarrow> (ns, Inl e)
      | Inr q \<Rightarrow>
          if q = [] then (ns, Inl EOTHER)
          else (case ns q of
              None \<Rightarrow> (ns(q \<mapsto> Regular (f [])), Inr ())
            | Some (Regular bs) \<Rightarrow> (ns(q \<mapsto> Regular (f bs)), Inr ())
            | Some _ \<Rightarrow> (ns, Inl EOTHER))))"

definition os_WriteFile :: "faults \<Rightarrow> string \<Rightarrow> bytes \<Rightarrow> os \<Rightarrow> os \<times> (goerr + unit)" where
  "os_WriteFile fault p bs = os_Write fault p (\<lambda>_. bs)"

text \<open>\<^verbatim>\<open>os.Rename\<close>, which refuses a directory as the new name.\<close>

definition move_tree :: "string list \<Rightarrow> string list \<Rightarrow> nodes \<Rightarrow> nodes" where
  "move_tree a b ns =
     (\<lambda>p. if take (length b) p = b then ns (a @ drop (length b) p)
          else if take (length a) p = a then None else ns p)"

definition os_Rename :: "faults \<Rightarrow> string \<Rightarrow> string \<Rightarrow> os \<Rightarrow> os \<times> (goerr + unit)" where
  "os_Rename fault old new = syscall fault ''rename'' new (\<lambda>st. let ns = nodes_of st in
     (case resolve st False old of
        Inl e \<Rightarrow> (ns, Inl e)
      | Inr a \<Rightarrow>
          if ns a = None then (ns, Inl (if a = [] then EOTHER else ENOENT))
          else (case resolve st False new of
              Inl e \<Rightarrow> (ns, Inl e)
            | Inr b \<Rightarrow>
                if is_directory ns b then (ns, Inl EEXIST)
                else if a = b then (ns, Inr ())
                else if take (length a) b = a then (ns, Inl EOTHER)
                else if ns a = Some Directory \<and> ns b \<noteq> None then (ns, Inl EOTHER)
                else (move_tree a b ns, Inr ()))))"

text \<open>\<^verbatim>\<open>os.MkdirAll\<close>: the prefixes of the path from the shortest on, each a directory already or
  made one.\<close>

fun mkdir_prefixes :: "string list \<Rightarrow> string list \<Rightarrow> string list \<Rightarrow> nodes \<Rightarrow> nodes \<times> (errno + unit)" where
  "mkdir_prefixes start up [] ns = (ns, Inr ())"
| "mkdir_prefixes start up (c # cs) ns =
     (case walk_from ns True start (up @ [c]) of
        Inl e \<Rightarrow> (ns, Inl e)
      | Inr q \<Rightarrow>
          if is_directory ns q then mkdir_prefixes start (up @ [c]) cs ns
          else if ns q \<noteq> None then (ns, Inl EOTHER)
          else (case walk_from ns False start (up @ [c]) of
              Inl e \<Rightarrow> (ns, Inl e)
            | Inr q' \<Rightarrow>
                if q' = [] \<or> ns q' \<noteq> None then (ns, Inl EEXIST)
                else mkdir_prefixes start (up @ [c]) cs (ns(q' \<mapsto> Directory))))"

definition os_MkdirAll :: "faults \<Rightarrow> string \<Rightarrow> os \<Rightarrow> os \<times> (goerr + unit)" where
  "os_MkdirAll fault p = syscall fault ''mkdir'' p
     (\<lambda>st. mkdir_prefixes (start_of st p) [] (components p) (nodes_of st))"

section \<open>Package fsx\<close>

definition ErrIsNotExist :: "goerr option \<Rightarrow> goerr option" where
  "ErrIsNotExist err = (if std_is err (TSentinel ErrNotExist) then err else None)"

definition IgnoreIsNotExist :: "goerr option \<Rightarrow> goerr option" where
  "IgnoreIsNotExist err = (if std_is err (TSentinel ErrNotExist) then None else err)"

definition IgnoreIsExist :: "goerr option \<Rightarrow> goerr option" where
  "IgnoreIsExist err = (if std_is err (TSentinel ErrExist) then None else err)"

definition errored :: "goerr + 'a \<Rightarrow> goerr option" where
  "errored r = (case r of Inl e \<Rightarrow> Some e | Inr _ \<Rightarrow> None)"

text \<open>\<^verbatim>\<open>os.IsNotExist\<close> and \<^verbatim>\<open>os.IsExist\<close> look below a path error only.\<close>

fun underlying :: "goerr \<Rightarrow> goerr" where
  "underlying (PathErr op p e) = e"
| "underlying e = e"

definition os_IsNotExist :: "goerr option \<Rightarrow> bool" where
  "os_IsNotExist err =
     (case err of None \<Rightarrow> False | Some e \<Rightarrow> underlying e \<in> {Errno ENOENT, Sentinel ErrNotExist})"

definition os_IsExist :: "goerr option \<Rightarrow> bool" where
  "os_IsExist err =
     (case err of None \<Rightarrow> False | Some e \<Rightarrow> underlying e \<in> {Errno EEXIST, Sentinel ErrExist})"

definition AutoCached ::
  "faults \<Rightarrow> string \<Rightarrow> goerr + bytes \<Rightarrow> os \<Rightarrow> os \<times> (goerr + bytes)" where
  "AutoCached fault p gen st =
     (case os_ReadFile fault p st of
        (st1, Inr s) \<Rightarrow> (st1, Inr s)
      | (st1, Inl _) \<Rightarrow>
          (case gen of
             Inl err \<Rightarrow> (st1, Inl err)
           | Inr s \<Rightarrow>
               (case os_MkdirAll fault (path_clean (fst (path_split p))) st1 of
                  (st2, Inl err) \<Rightarrow> (st2, Inl err)
                | (st2, Inr _) \<Rightarrow>
                    (case os_WriteFile fault p s st2 of
                       (st3, Inl err) \<Rightarrow> (st3, Inl err)
                     | (st3, Inr _) \<Rightarrow> (st3, Inr s)))))"

text \<open>A failure other than a missing file leaves \<^verbatim>\<open>info\<close> nil, which \<^verbatim>\<open>IsDir\<close> is called on.\<close>

definition IsRegularFile :: "faults \<Rightarrow> string \<Rightarrow> os \<Rightarrow> (os \<times> bool) outcome" where
  "IsRegularFile fault p st =
     (case os_Stat fault p st of
        (st1, Inr nd) \<Rightarrow> Return (st1, nd \<noteq> Directory)
      | (st1, Inl e) \<Rightarrow> if os_IsNotExist (Some e) then Return (st1, False) else Panic)"

definition Exists :: "faults \<Rightarrow> string \<Rightarrow> os \<Rightarrow> os \<times> bool" where
  "Exists fault p st = (let (st1, r) = os_Stat fault p st in (st1, ErrIsNotExist (errored r) = None))"

definition is_symlink :: "node \<Rightarrow> bool" where
  "is_symlink nd = (case nd of Link t \<Rightarrow> True | _ \<Rightarrow> False)"

definition RemoveSymlink :: "faults \<Rightarrow> string \<Rightarrow> os \<Rightarrow> os \<times> goerr option" where
  "RemoveSymlink fault p st =
     (case os_Stat fault p st of
        (st1, Inl e) \<Rightarrow> (st1, if ErrIsNotExist (Some e) \<noteq> None then None else Some e)
      | (st1, Inr info) \<Rightarrow>
          if \<not> is_symlink info
          then (st1, Some (Fundamental (''unable to remove non-symlink file: '' @ p)))
          else (let (st2, r) = os_Remove fault p st1 in (st2, errored r)))"

text \<open>\<^verbatim>\<open>DirVirtual\<close>, a directory as a file system, is the path of its root.\<close>

definition Path_of :: "string \<Rightarrow> string list \<Rightarrow> string" where
  "Path_of dir rel = path_join_list [dir, path_join_list rel]"

definition dirvirt_Rename :: "faults \<Rightarrow> string \<Rightarrow> string \<Rightarrow> string \<Rightarrow> os \<Rightarrow> os \<times> (goerr + unit)" where
  "dirvirt_Rename fault dir old new = os_Rename fault old (path_join_list [dir, new])"

definition dirvirt_MkDirAll :: "faults \<Rightarrow> string \<Rightarrow> string \<Rightarrow> os \<Rightarrow> os \<times> (goerr + unit)" where
  "dirvirt_MkDirAll fault dir p = os_MkdirAll fault (path_join_list [dir, p])"

definition dirvirt_CreateExcl :: "faults \<Rightarrow> string \<Rightarrow> string \<Rightarrow> os \<Rightarrow> os \<times> (goerr + unit)" where
  "dirvirt_CreateExcl fault dir name = os_CreateExcl fault (path_join_list [dir, name])"

text \<open>\<^verbatim>\<open>Rename\<close> on a virtual file system that may not be able to.\<close>

definition fsx_Rename ::
  "(string \<Rightarrow> string \<Rightarrow> os \<Rightarrow> os \<times> (goerr + unit)) option \<Rightarrow> string \<Rightarrow> string \<Rightarrow> os \<Rightarrow> os \<times> (goerr + unit)" where
  "fsx_Rename renameable old new st =
     (case renameable of None \<Rightarrow> (st, Inl (Sentinel ErrUnsupported)) | Some f \<Rightarrow> f old new st)"

text \<open>\<^verbatim>\<open>os.Chmod\<close> on an existing path; the bits are not kept.\<close>

definition os_Chmod :: "faults \<Rightarrow> string \<Rightarrow> os \<Rightarrow> os \<times> (goerr + unit)" where
  "os_Chmod fault p = syscall fault ''chmod'' p (\<lambda>st. (nodes_of st,
     case resolve st True p of
       Inl e \<Rightarrow> Inl e
     | Inr q \<Rightarrow> if q \<noteq> [] \<and> nodes_of st q = None then Inl ENOENT else Inr ()))"

fun MkDirs :: "faults \<Rightarrow> string list \<Rightarrow> os \<Rightarrow> os \<times> goerr option" where
  "MkDirs fault [] st = (st, None)"
| "MkDirs fault (p # ps) st =
     (case os_MkdirAll fault p st of
        (st1, Inl err) \<Rightarrow> (st1, Wrap (Some err) (''unable to create directory: '' @ p))
      | (st1, Inr _) \<Rightarrow>
          (case os_Chmod fault p st1 of
             (st2, Inl err) \<Rightarrow> (st2, Wrap (Some err) (''unable to set directory mod: '' @ p))
           | (st2, Inr _) \<Rightarrow> MkDirs fault ps st2))"

definition AppendTo :: "faults \<Rightarrow> string \<Rightarrow> bytes \<Rightarrow> bytes list \<Rightarrow> os \<Rightarrow> os \<times> goerr option" where
  "AppendTo fault p block blocks st =
     (let (st1, r) = os_Write fault p (\<lambda>bs. bs @ fold (\<lambda>b acc. acc @ b) blocks block) st
      in (st1, errored r))"

subsection \<open>Temporary files\<close>

definition errPatternHasSeparator :: goerr where
  "errPatternHasSeparator = Fundamental ''pattern contains path separator''"

text \<open>The last wildcard: what is before the first one of the reversed pattern.\<close>

definition prefixAndSuffix :: "string \<Rightarrow> goerr + string \<times> string" where
  "prefixAndSuffix pattern =
     (if list_ex is_sep pattern then Inl errPatternHasSeparator
      else if CHR ''*'' \<in> set pattern then
        (let suffix = rev (takeWhile (\<lambda>c. c \<noteq> CHR ''*'') (rev pattern))
         in Inr (take (length pattern - length suffix - 1) pattern, suffix))
      else Inr (pattern, ''''))"

text \<open>The loop of \<^verbatim>\<open>CreateTemp\<close>; \<open>rnd k\<close> is the number the \<open>k\<close>-th try draws.\<close>

fun create_temp_loop ::
  "(string \<Rightarrow> os \<Rightarrow> os \<times> (goerr + unit)) \<Rightarrow> (nat \<Rightarrow> u32) \<Rightarrow> string \<Rightarrow> string \<Rightarrow> nat \<Rightarrow> nat \<Rightarrow> os \<Rightarrow>
   os \<times> (goerr + string)" where
  "create_temp_loop creat rnd prefix suffix try 0 st =
     (st, Inl (PathErr ''createtemp'' (prefix @ ''*'' @ suffix) (Sentinel ErrExist)))"
| "create_temp_loop creat rnd prefix suffix try (Suc left) st =
     (let name = prefix @ format_nat (unat (rnd try)) @ suffix in
      case creat name st of
        (st1, Inr _) \<Rightarrow> (st1, Inr name)
      | (st1, Inl err) \<Rightarrow>
          if os_IsExist (Some err)
          then create_temp_loop creat rnd prefix suffix (Suc try) left st1
          else (st1, Inl err))"

definition temp_tries :: nat where "temp_tries = 10000"

text \<open>The result is the name of the file, \<^verbatim>\<open>(*os.File).Name\<close>: the path it was opened with.\<close>

definition fsx_CreateTemp ::
  "faults \<Rightarrow> (nat \<Rightarrow> u32) \<Rightarrow> string \<Rightarrow> string \<Rightarrow> os \<Rightarrow> os \<times> (goerr + string)" where
  "fsx_CreateTemp fault rnd dir pattern st =
     (case prefixAndSuffix pattern of
        Inl err \<Rightarrow> (st, Inl (PathErr ''createtemp'' pattern err))
      | Inr (prefix, suffix) \<Rightarrow>
          (case create_temp_loop (dirvirt_CreateExcl fault dir) rnd prefix suffix 0 temp_tries st of
             (st1, Inl err) \<Rightarrow> (st1, Inl err)
           | (st1, Inr name) \<Rightarrow> (st1, Inr (path_join_list [dir, name]))))"

section \<open>The tree of the nodes\<close>

definition tree_ok :: "nodes \<Rightarrow> bool" where
  "tree_ok ns \<longleftrightarrow> ns [] = None \<and> (\<forall>p c. ns (p @ [c]) \<noteq> None \<longrightarrow> is_directory ns p)"

lemma tree_ok_parent: "tree_ok ns \<Longrightarrow> ns q \<noteq> None \<Longrightarrow> q \<noteq> [] \<and> is_directory ns (butlast q)"
  unfolding tree_ok_def by (metis append_butlast_last_id)

lemma tree_ok_butlast: "tree_ok ns \<Longrightarrow> is_directory ns q \<Longrightarrow> is_directory ns (butlast q)"
  using tree_ok_parent [of ns q] by (auto simp: is_directory_def)

lemma walk_ends:
  "tree_ok ns \<Longrightarrow> walk ns follow n dir cs = Inr q \<Longrightarrow> is_directory ns dir \<Longrightarrow>
    is_directory ns q \<or> (q \<noteq> [] \<and> is_directory ns (butlast q))"
proof (induction ns follow n dir cs rule: walk.induct)
  case (2 ns follow n dir c cs)
  show ?case
  proof (cases "c = ''.'' \<or> c = ''..''")
    case True
    with 2 tree_ok_butlast [OF "2.prems"(1,3)] show ?thesis
      by (cases "c = ''.''") simp_all
  next
    case False
    with 2 show ?thesis
      by (auto simp: is_directory_def split: option.splits node.splits if_splits)
  qed
qed simp

lemma walk_from_ends:
  "tree_ok ns \<Longrightarrow> walk_from ns follow dir cs = Inr q \<Longrightarrow>
   is_directory ns q \<or> (q \<noteq> [] \<and> is_directory ns (butlast q))"
  by (auto simp: walk_from_def split: if_splits dest: walk_ends)

lemma tree_ok_insert:
  assumes "tree_ok ns" "q \<noteq> []" "is_directory ns (butlast q)" "ns q = Some Directory \<longrightarrow> nd = Directory"
  shows "tree_ok (ns(q \<mapsto> nd))"
  using assms unfolding tree_ok_def is_directory_def by (auto simp: snoc_eq_iff_butlast)

lemma tree_ok_delete:
  assumes "tree_ok ns" "ns q = Some Directory \<longrightarrow> (\<forall>c. ns (q @ [c]) = None)"
  shows "tree_ok (ns(q := None))"
proof (cases "ns q = None")
  case False
  then have "ns (q @ [c]) = None" for c
    using assms tree_ok_parent [OF assms(1), of q] unfolding tree_ok_def is_directory_def by blast
  with assms(1) show ?thesis
    unfolding tree_ok_def is_directory_def by auto
qed (use assms(1) in \<open>simp add: fun_upd_idem\<close>)

lemma tree_ok_drop_tree: "tree_ok ns \<Longrightarrow> tree_ok (drop_tree q ns)"
  unfolding tree_ok_def is_directory_def drop_tree_def by auto

lemma under_snoc: "take (length q) (p @ [c]) = q \<longleftrightarrow> p @ [c] = q \<or> take (length q) p = q"
proof (cases "length q \<le> length p")
  case False
  then have "take (length q) (p @ [c]) = p @ [c]" "take (length q) p \<noteq> q"
    by (simp, auto dest!: arg_cong [where f = length])
  then show ?thesis by simp
qed (auto dest: arg_cong [where f = length])

lemma tree_ok_move_tree:
  assumes ok: "tree_ok ns" and a: "a \<noteq> []" and b: "b \<noteq> []" "is_directory ns (butlast b)"
    and ab: "take (length a) b \<noteq> a"
  shows "tree_ok (move_tree a b ns)"
proof -
  have "is_directory (move_tree a b ns) p" if c: "move_tree a b ns (p @ [c]) \<noteq> None" for p c
  proof (cases "take (length b) (p @ [c]) = b")
    case under: True
    then consider (at) "p @ [c] = b" | (below) "take (length b) p = b"
      using under_snoc by metis
    then show ?thesis
    proof cases
      case at
      with ab have "take (length a) p \<noteq> a" "take (length b) p \<noteq> b"
        using under_snoc [of a p c] by (auto dest: arg_cong [where f = length])
      with at b show ?thesis
        by (auto simp: is_directory_def move_tree_def snoc_eq_iff_butlast)
    next
      case below
      then have "length b \<le> length p" by (metis nat_le_linear take_all)
      with c under have "ns ((a @ drop (length b) p) @ [c]) \<noteq> None"
        by (auto simp: move_tree_def)
      with ok have "is_directory ns (a @ drop (length b) p)"
        unfolding tree_ok_def by blast
      with a below show ?thesis
        by (auto simp: is_directory_def move_tree_def)
    qed
  next
    case False
    with c have "take (length a) (p @ [c]) \<noteq> a" "ns (p @ [c]) \<noteq> None"
      by (auto simp: move_tree_def split: if_splits)
    with False ok show ?thesis
      by (auto simp: is_directory_def move_tree_def tree_ok_def under_snoc)
  qed
  moreover have "move_tree a b ns [] = None"
    using a b ok by (simp add: move_tree_def tree_ok_def)
  ultimately show ?thesis
    by (simp add: tree_ok_def)
qed

lemma syscall_tree_ok:
  assumes "\<And>st. tree_ok (nodes_of st) \<Longrightarrow> tree_ok (fst (f st))" "tree_ok (nodes_of st)"
  shows "tree_ok (nodes_of (fst (syscall fault op p f st)))"
  using assms(1) [OF assms(2)] assms(2)
  by (auto simp: syscall_def Let_def split: option.splits prod.splits sum.splits)

lemma new_node_tree_ok:
  "tree_ok ns \<Longrightarrow> walk_from ns follow dir cs = Inr q \<Longrightarrow> q \<noteq> [] \<Longrightarrow> ns q \<noteq> Some Directory \<Longrightarrow>
   tree_ok (ns(q \<mapsto> nd))"
  using walk_from_ends [of ns follow dir cs q]
  by (intro tree_ok_insert) (auto simp: is_directory_def [of ns q])

lemma fresh_node_tree_ok:
  "tree_ok ns \<Longrightarrow> walk_from ns follow dir cs = Inr q \<Longrightarrow> q \<noteq> [] \<Longrightarrow> ns q = None \<Longrightarrow> tree_ok (ns(q \<mapsto> nd))"
  "tree_ok ns \<Longrightarrow> walk_from ns follow dir cs = Inr q \<Longrightarrow> q \<noteq> [] \<Longrightarrow> ns q = Some (Regular bs) \<Longrightarrow>
   tree_ok (ns(q \<mapsto> nd))"
  by (simp_all add: new_node_tree_ok)

lemma create_node_tree_ok:
  "tree_ok (nodes_of st) \<Longrightarrow> tree_ok (fst (create_node follow p nd st))"
  by (auto simp: create_node_def Let_def resolve_def split: sum.splits intro: new_node_tree_ok)

lemma mkdir_prefixes_tree_ok:
  "tree_ok ns \<Longrightarrow> tree_ok (fst (mkdir_prefixes start up cs ns))"
proof (induction start up cs ns rule: mkdir_prefixes.induct)
  case (2 start up c cs ns)
  have "tree_ok (ns(q \<mapsto> Directory))"
    if "walk_from ns False start (up @ [c]) = Inr q" "q \<noteq> []" "ns q = None" for q
    using new_node_tree_ok [OF 2(3) that(1,2)] that(3) by simp
  with 2 show ?case
    by (auto simp: fun_upd_def split: sum.split)
qed simp

text \<open>The operations as data, to speak of a sequence of them.\<close>

datatype os_op =
    Remove_path string | RemoveAll_path string | Make_symlink string string | Create_excl string
  | Write_path string "bytes \<Rightarrow> bytes" | Rename_path string string | MkdirAll_path string
  | Stat_path string | ReadFile_path string | Readlink_path string | Chmod_path string

fun run_os :: "faults \<Rightarrow> os_op \<Rightarrow> os \<Rightarrow> os" where
  "run_os fault (Remove_path p) st = fst (os_Remove fault p st)"
| "run_os fault (RemoveAll_path p) st = fst (os_RemoveAll fault p st)"
| "run_os fault (Make_symlink t p) st = fst (os_Symlink fault t p st)"
| "run_os fault (Create_excl p) st = fst (os_CreateExcl fault p st)"
| "run_os fault (Write_path p f) st = fst (os_Write fault p f st)"
| "run_os fault (Rename_path a b) st = fst (os_Rename fault a b st)"
| "run_os fault (MkdirAll_path p) st = fst (os_MkdirAll fault p st)"
| "run_os fault (Stat_path p) st = fst (os_Stat fault p st)"
| "run_os fault (ReadFile_path p) st = fst (os_ReadFile fault p st)"
| "run_os fault (Readlink_path p) st = fst (os_Readlink fault p st)"
| "run_os fault (Chmod_path p) st = fst (os_Chmod fault p st)"

lemma os_Remove_tree_ok: "tree_ok (nodes_of st) \<Longrightarrow> tree_ok (nodes_of (fst (os_Remove fault p st)))"
  unfolding os_Remove_def
  by (rule syscall_tree_ok)
    (auto simp: Let_def resolve_def split: sum.splits option.splits intro: tree_ok_delete)

lemma os_Rename_tree_ok: "tree_ok (nodes_of st) \<Longrightarrow> tree_ok (nodes_of (fst (os_Rename fault a b st)))"
  unfolding os_Rename_def
proof (rule syscall_tree_ok)
  fix st :: os
  assume ok: "tree_ok (nodes_of st)"
  have "tree_ok (move_tree p q (nodes_of st))"
    if "resolve st False b = Inr q" "\<not> is_directory (nodes_of st) q" "nodes_of st p \<noteq> None"
      "take (length p) q \<noteq> p" for p q
    using tree_ok_parent [OF ok that(3)] walk_from_ends [OF ok, of False "start_of st b" "components b" q] that
    by (intro tree_ok_move_tree [OF ok]) (auto simp: resolve_def)
  then show "tree_ok (fst (let ns = nodes_of st in
     (case resolve st False a of
        Inl e \<Rightarrow> (ns, Inl e)
      | Inr a \<Rightarrow>
          if ns a = None then (ns, Inl (if a = [] then EOTHER else ENOENT))
          else (case resolve st False b of
              Inl e \<Rightarrow> (ns, Inl e)
            | Inr b \<Rightarrow>
                if is_directory ns b then (ns, Inl EEXIST)
                else if a = b then (ns, Inr ())
                else if take (length a) b = a then (ns, Inl EOTHER)
                else if ns a = Some Directory \<and> ns b \<noteq> None then (ns, Inl EOTHER)
                else (move_tree a b ns, Inr ())))))"
    using ok by (simp add: Let_def split: sum.split)
qed

lemma run_os_tree_ok: "tree_ok (nodes_of st) \<Longrightarrow> tree_ok (nodes_of (run_os fault op st))"
proof (cases op)
  case (Write_path p f)
  moreover assume "tree_ok (nodes_of st)"
  ultimately show ?thesis
    by (auto simp: os_Write_def Let_def resolve_def split: sum.splits option.splits node.splits
        intro!: syscall_tree_ok intro: fresh_node_tree_ok)
next
  case (RemoveAll_path p)
  moreover assume "tree_ok (nodes_of st)"
  ultimately show ?thesis
    by (auto simp: os_RemoveAll_def Let_def tree_ok_drop_tree split: sum.splits errno.splits
        intro!: syscall_tree_ok)
qed (simp_all add: os_Remove_tree_ok os_Rename_tree_ok os_Symlink_def os_CreateExcl_def os_MkdirAll_def
    os_Stat_def os_ReadFile_def os_Readlink_def os_Chmod_def syscall_tree_ok create_node_tree_ok
    mkdir_prefixes_tree_ok)

subsection \<open>What the helpers change\<close>

lemma resolve_calls [simp]: "resolve (st\<lparr>calls := k\<rparr>) follow p = resolve st follow p"
  by (simp add: resolve_def start_of_def)

lemma syscall_reads:
  assumes "\<And>st. fst (f st) = nodes_of st"
  shows "nodes_of (fst (syscall fault op p f st)) = nodes_of st"
    and "cwd (fst (syscall fault op p f st)) = cwd st"
  using assms [of st] by (auto simp: syscall_def Let_def split: option.splits prod.splits sum.splits)

lemma os_Stat_nodes [simp]:
  "nodes_of (fst (os_Stat fault p st)) = nodes_of st" "cwd (fst (os_Stat fault p st)) = cwd st"
  by (simp_all add: os_Stat_def syscall_reads)

lemma os_CreateExcl_cases:
  assumes "os_CreateExcl fault p st = (st1, r)"
  shows "cwd st1 = cwd st \<and> (case r of
      Inl e \<Rightarrow> nodes_of st1 = nodes_of st
    | Inr _ \<Rightarrow> \<exists>q. resolve st False p = Inr q \<and> q \<noteq> [] \<and> nodes_of st q = None \<and>
        nodes_of st1 = (nodes_of st)(q \<mapsto> Regular []))"
  using assms
  by (auto simp: os_CreateExcl_def syscall_def create_node_def Let_def
      split: option.splits sum.splits if_splits)

lemma create_temp_loop_cases:
  "create_temp_loop (dirvirt_CreateExcl fault dir) rnd prefix suffix k left st = (st1, r) \<Longrightarrow>
   cwd st1 = cwd st \<and> (case r of
      Inl e \<Rightarrow> nodes_of st1 = nodes_of st
    | Inr name \<Rightarrow> \<exists>q. resolve st False (path_join_list [dir, name]) = Inr q \<and> q \<noteq> [] \<and>
        nodes_of st q = None \<and> nodes_of st1 = (nodes_of st)(q \<mapsto> Regular []))"
proof (induction left arbitrary: k st)
  case (Suc left)
  let ?name = "prefix @ format_nat (unat (rnd k)) @ suffix"
  obtain st2 r2 where c: "dirvirt_CreateExcl fault dir ?name st = (st2, r2)"
    by fastforce
  note made = os_CreateExcl_cases [OF c [unfolded dirvirt_CreateExcl_def]]
  show ?case
  proof (cases r2)
    case (Inl e)
    with made have same: "nodes_of st2 = nodes_of st" "cwd st2 = cwd st" by simp_all
    then have "resolve st2 = resolve st"
      by (intro ext) (simp add: resolve_def start_of_def)
    with Suc.IH [of "Suc k" st2] Suc.prems Inl c same show ?thesis
      by (cases r) (auto simp: Let_def simp del: path_join_list.simps split: if_splits)
  next
    case (Inr u)
    with Suc.prems c made show ?thesis
      by (auto simp: Let_def simp del: path_join_list.simps)
  qed
qed auto

lemma CreateTemp_cases:
  assumes "fsx_CreateTemp fault rnd dir pattern st = (st1, r)"
  shows "cwd st1 = cwd st \<and> (case r of
      Inl e \<Rightarrow> nodes_of st1 = nodes_of st
    | Inr p \<Rightarrow> \<exists>q. resolve st False p = Inr q \<and> q \<noteq> [] \<and> nodes_of st q = None \<and>
        nodes_of st1 = (nodes_of st)(q \<mapsto> Regular []))"
  using assms create_temp_loop_cases [of fault dir rnd]
  by (fastforce simp: fsx_CreateTemp_def simp del: path_join_list.simps
      split: sum.splits prod.splits)

text \<open>\<^verbatim>\<open>os.Stat\<close> follows links, so what it returns is never one.\<close>

lemma walk_follow_not_link:
  "tree_ok ns \<Longrightarrow> walk ns True n dir cs = Inr q \<Longrightarrow> is_directory ns dir \<Longrightarrow> ns q \<noteq> Some (Link t)"
proof (induction ns True n dir cs rule: walk.induct)
  case (1 ns n dir)
  then show ?case by (auto simp: is_directory_def tree_ok_def)
next
  case (2 ns n dir c cs)
  with tree_ok_butlast [OF "2.prems"(1,3)] show ?case
    by (auto simp: is_directory_def split: option.splits node.splits if_splits)
qed

lemma os_Stat_not_link:
  assumes "tree_ok (nodes_of st)" "os_Stat fault p st = (st1, Inr nd)"
  shows "\<not> is_symlink nd"
  using assms walk_follow_not_link [OF assms(1)]
  by (fastforce simp: os_Stat_def syscall_def Let_def resolve_def walk_from_def is_symlink_def
      split: option.splits sum.splits if_splits node.splits)

lemma RemoveSymlink_keeps:
  assumes "tree_ok (nodes_of st)"
  shows "nodes_of (fst (RemoveSymlink fault p st)) = nodes_of st"
proof -
  obtain st1 r where stat: "os_Stat fault p st = (st1, r)"
    by fastforce
  moreover from this have "nodes_of st1 = nodes_of st"
    using os_Stat_nodes(1) [of fault p st] by simp
  ultimately show ?thesis
    using os_Stat_not_link [OF assms, of fault p] by (auto simp: RemoveSymlink_def split: sum.splits)
qed

section \<open>The block cache on the file system\<close>

text \<open>The disk a block cache reads, through whatever links lead to its blocks.\<close>

definition disk_of :: "os \<Rightarrow> disk" where
  "disk_of st p =
     (case resolve st True p of
        Inl e \<Rightarrow> None
      | Inr q \<Rightarrow> (case nodes_of st q of Some (Regular bs) \<Rightarrow> Some bs | _ \<Rightarrow> None))"

definition plain_name :: "string \<Rightarrow> bool" where
  "plain_name c \<longleftrightarrow> c \<noteq> '''' \<and> c \<noteq> ''.'' \<and> c \<noteq> ''..'' \<and> \<not> list_ex is_sep c"

lemma components_from_plain:
  "\<not> list_ex is_sep t \<Longrightarrow> components_from cur t = (if cur @ t = [] then [] else [cur @ t])"
  by (induction t arbitrary: cur) auto

lemma components_from_append:
  "components_from cur (s @ CHR ''/'' # t) = components_from cur s @ components_from [] t"
  by (induction cur s rule: components_from.induct) (auto simp: is_sep_def)

lemma components_plain [simp]: "plain_name c \<Longrightarrow> components c = [c]"
  by (simp add: components_def plain_name_def components_from_plain)

lemma components_append: "components (s @ CHR ''/'' # t) = components s @ components t"
  by (simp add: components_def components_from_append)

lemma components_path_join:
  assumes "plain_name c"
  shows "components (path_join d c) = components d @ [c]" "start_of st (path_join d c) = start_of st d"
proof -
  have "components (path_join d c) = components d @ [c] \<and> start_of st (path_join d c) = start_of st d"
  proof (cases "d = []")
    case True
    with assms show ?thesis
      by (cases c) (auto simp: path_join_def start_of_def HasPrefix_def plain_name_def is_sep_def components_def
        components_from_plain)
  next
    case False
    then obtain x xs where d: "d = x # xs" by (cases d) auto
    then have "start_of st (d @ e) = start_of st d" for e
      by (simp add: start_of_def HasPrefix_def)
    moreover have "components (d @ c) = components d @ [c]" if "last d = CHR ''/''"
    proof -
      from False that obtain b where b: "d = b @ [CHR ''/'']" by (metis append_butlast_last_id)
      show ?thesis
        using assms components_append [of b c] components_append [of b "[]"]
        by (simp add: b) (simp add: components_def)
    qed
    ultimately show ?thesis
      using False assms by (simp add: path_join_def components_append)
  qed
  then show "components (path_join d c) = components d @ [c]" "start_of st (path_join d c) = start_of st d"
    by simp_all
qed

lemma walk_through:
  "walk ns True n dir cs = Inr q \<Longrightarrow> is_directory ns q \<Longrightarrow> ds \<noteq> [] \<Longrightarrow>
   \<exists>m. walk ns follow n dir (cs @ ds) = walk ns follow m q ds"
proof (induction ns True n dir cs rule: walk.induct)
  case (2 ns n dir c cs)
  then show ?case
    by (auto simp: is_directory_def split: option.splits node.splits if_splits)
qed auto

lemma walk_plain:
  "plain_name c \<Longrightarrow> (\<And>t. ns (q @ [c]) \<noteq> Some (Link t)) \<Longrightarrow> walk ns follow n q [c] = Inr (q @ [c])"
  by (auto simp: plain_name_def split: option.splits node.splits)

lemma resolve_in_directory:
  assumes "resolve st True d = Inr q" "is_directory (nodes_of st) q" "plain_name c"
    and "\<And>t. nodes_of st (q @ [c]) \<noteq> Some (Link t)"
  shows "resolve st follow (path_join d c) = Inr (q @ [c])"
proof -
  from assms(1) have "is_directory (nodes_of st) (start_of st d)"
    and w: "walk (nodes_of st) True max_links (start_of st d) (components d) = Inr q"
    by (auto simp: resolve_def walk_from_def split: if_splits)
  moreover obtain m where "walk (nodes_of st) follow max_links (start_of st d) (components d @ [c]) =
      walk (nodes_of st) follow m q [c]"
    using walk_through [OF w assms(2)] by blast
  ultimately show ?thesis
    using walk_plain [of c "nodes_of st" q] assms(3,4)
    by (simp add: resolve_def walk_from_def components_path_join)
qed

text \<open>A directory of blocks has no link in it.\<close>

definition block_directory :: "os \<Rightarrow> string list \<Rightarrow> bool" where
  "block_directory st q \<longleftrightarrow> is_directory (nodes_of st) q \<and> (\<forall>c t. nodes_of st (q @ [c]) \<noteq> Some (Link t))"

lemma plain_block_name: "0 \<le> k \<Longrightarrow> plain_name (format_int k)"
proof -
  assume k: "0 \<le> k"
  have "format_nat (nat k) \<noteq> []"
    by (subst format_nat.simps) simp
  moreover have "\<not> is_sep c \<and> c \<noteq> CHR ''.''" if "c \<in> set (format_nat (nat k))" for c
  proof -
    from that format_nat_digits obtain d where "d < 10" "c = digit_char d" by blast
    then show ?thesis
      by (auto simp: digit_char_def is_sep_def dest!: arg_cong [where f = "of_char :: char \<Rightarrow> nat"])
  qed
  ultimately show ?thesis
    using k by (cases "format_nat (nat k)") (auto simp: plain_name_def format_int_def list_ex_iff)
qed

lemma disk_of_block:
  assumes "resolve st True d = Inr q" "block_directory st q" "0 \<le> k"
  shows "disk_of st (path_join d (format_int k)) =
    (case nodes_of st (q @ [format_int k]) of Some (Regular bs) \<Rightarrow> Some bs | _ \<Rightarrow> None)"
  using assms resolve_in_directory [OF assms(1) _ plain_block_name [OF assms(3)], of True]
  by (simp add: disk_of_def block_directory_def)

text \<open>Two names of one directory are two caches of the same bytes.\<close>

lemma cached_byte_same_directory:
  assumes "resolve st True d = Inr q" "resolve st True d' = Inr q" "block_directory st q" "0 < bl" "0 \<le> i"
  shows "cached_byte \<lparr>root = d, BlockLength = bl\<rparr> (disk_of st) i =
    cached_byte \<lparr>root = d', BlockLength = bl\<rparr> (disk_of st) i"
  using assms disk_of_block [OF assms(1,3)] disk_of_block [OF assms(2,3)]
  by (simp add: cached_byte_def path_def pos_imp_zdiv_nonneg_iff split: option.split)

section \<open>Names below a directory\<close>

text \<open>\<^verbatim>\<open>filepath.Join\<close> of a clean directory and a plain name.\<close>

lemma cut_slash: "cut ''/'' s = (if CHR ''/'' \<in> set s then
    Some (takeWhile (\<lambda>c. c \<noteq> CHR ''/'') s, tl (dropWhile (\<lambda>c. c \<noteq> CHR ''/'') s)) else None)"
  by (induction s) (auto simp: HasPrefix_def)

lemma split_components:
  "filter (\<lambda>c. c \<noteq> []) (split_str ''/'' s) = components s"
proof (induction s rule: length_induct)
  case (1 s)
  show ?case
  proof (cases "CHR ''/'' \<in> set s")
    case True
    then obtain a b where s: "s = a @ CHR ''/'' # b" "CHR ''/'' \<notin> set a"
      by (meson split_list_first)
    then have "split_str ''/'' s = a # split_str ''/'' b"
      by (subst split_str.simps) (simp add: cut_slash takeWhile_append dropWhile_append)
    moreover have "components s = components a @ components b"
      using s(1) components_append by simp
    moreover have "components a = (if a = [] then [] else [a])"
      using s(2) by (auto simp: components_def components_from_plain is_sep_def list_ex_iff)
    ultimately show ?thesis
      using 1 s(1) by simp
  next
    case False
    then have "components s = (if s = [] then [] else [s])"
      by (auto simp: components_def components_from_plain is_sep_def list_ex_iff)
    with False show ?thesis
      by (subst split_str.simps) (simp add: cut_slash)
  qed
qed

lemma clean_stack_filter: "clean_stack r st (filter (\<lambda>c. c \<noteq> []) cs) = clean_stack r st cs"
  by (induction r st cs rule: clean_stack.induct) (auto split: list.split)

lemma clean_stack_snoc:
  "plain_name c \<Longrightarrow> clean_stack r st (cs @ [c]) = clean_stack r st cs @ [c]"
  by (induction r st cs rule: clean_stack.induct) (auto simp: plain_name_def split: list.split)

lemma components_no_sep: "c \<in> set (components_from cur s) \<Longrightarrow> \<not> list_ex is_sep cur \<Longrightarrow> c \<noteq> [] \<and> \<not> list_ex is_sep c"
  by (induction cur s rule: components_from.induct) (auto split: if_splits)

lemma clean_stack_set: "set (clean_stack r st cs) \<subseteq> set st \<union> set cs \<union> {''..''}"
  by (induction r st cs rule: clean_stack.induct) (auto split: list.splits if_splits)

lemma join_str_snoc: "join_str sep (cs @ [c]) = (if cs = [] then c else join_str sep cs @ sep @ c)"
  by (induction sep cs rule: join_str.induct) auto

lemma last_join_str: "cs \<noteq> [] \<Longrightarrow> last cs \<noteq> [] \<Longrightarrow> last (join_str sep cs) = last (last cs)"
  by (cases cs rule: rev_cases) (auto simp: join_str_snoc)

definition clean_path :: "string \<Rightarrow> bool" where
  "clean_path d \<longleftrightarrow> path_clean d = d \<and> d \<noteq> ''.'' \<and> d \<noteq> ''''"

lemma path_clean_components:
  "path_clean p = (let rooted = HasPrefix p ''/'';
     out = (if rooted then ''/'' else []) @ join_str ''/'' (clean_stack rooted [] (components p))
   in if out = [] then ''.'' else out)"
  by (simp add: path_clean_def clean_stack_filter flip: split_components)

lemma path_clean_join:
  assumes "clean_path d" "plain_name c"
  shows "path_clean (d @ CHR ''/'' # c) = path_join d c"
proof -
  let ?r = "HasPrefix d ''/''"
  let ?S = "clean_stack ?r [] (components d)"
  from assms(1) have d: "d \<noteq> []" "path_clean d = d" "d \<noteq> ''.''" by (auto simp: clean_path_def)
  then have r: "HasPrefix (d @ e) ''/'' = ?r" for e
    by (cases d) (auto simp: HasPrefix_def)
  have comps: "components (d @ CHR ''/'' # c) = components d @ [c]"
    using assms(2) by (simp add: components_append)
  have dS: "(if ?r then ''/'' else []) @ join_str ''/'' ?S = d"
    using d by (auto simp: path_clean_components Let_def split: if_splits)
  have "c \<noteq> []" using assms(2) by (simp add: plain_name_def)
  then have j: "path_clean (d @ CHR ''/'' # c) = (if ?r then ''/'' else []) @ join_str ''/'' (?S @ [c])"
    unfolding path_clean_components comps r using assms(2)
    by (simp add: clean_stack_snoc Let_def join_str_snoc)
  show ?thesis
  proof (cases "?S = []")
    case True
    with dS d(1) have "d = ''/''" by (auto split: if_splits)
    with j True show ?thesis by (simp add: path_join_def HasPrefix_def)
  next
    case False
    have "last ?S \<in> set (components d) \<union> {''..''}"
      using clean_stack_set [of ?r "[]" "components d"] last_in_set [OF False] by auto
    then have l: "last ?S \<noteq> []" "\<not> list_ex is_sep (last ?S)"
      using components_no_sep [of "last ?S" "[]" d] by (auto simp: components_def is_sep_def)
    then have "last d \<noteq> CHR ''/''"
    proof -
      have "join_str ''/'' ?S \<noteq> []"
        using False l(1) by (cases ?S rule: rev_cases) (auto simp: join_str_snoc split: if_splits)
      then have "last d = last (last ?S)"
        using arg_cong [OF dS, of last] last_join_str [OF False l(1), of "''/''"]
        by (auto split: if_splits)
      moreover have "\<not> is_sep (last (last ?S))"
        using l last_in_set [OF l(1)] by (auto simp: list_ex_iff)
      ultimately show ?thesis by (simp add: is_sep_def)
    qed
    with j False dS d(1) show ?thesis
      by (simp add: path_join_def join_str_snoc)
  qed
qed

lemma path_clean_plain: "plain_name c \<Longrightarrow> path_clean c = c"
  by (cases c) (auto simp: path_clean_components plain_name_def HasPrefix_def is_sep_def)

lemma Path_of_plain:
  assumes "clean_path d" "plain_name c"
  shows "Path_of d [c] = path_join d c"
proof -
  have "d \<noteq> []" "c \<noteq> []"
    using assms by (simp_all add: clean_path_def plain_name_def)
  then show ?thesis
    by (simp add: Path_of_def path_clean_plain [OF assms(2)] path_clean_join [OF assms])
qed

lemma walk_mono: "walk ns follow n dir cs = Inr q \<Longrightarrow> n \<le> m \<Longrightarrow> walk ns follow m dir cs = Inr q"
proof (induction ns follow n dir cs arbitrary: m rule: walk.induct)
  case (2 ns follow n dir c cs)
  note same = 2(1) [where m = m, OF _ _ 2(6)] 2(2) [where m = m, OF _ _ _ 2(6)]
  show ?case
  proof (cases "c = ''.'' \<or> c = ''..''")
    case True
    with same 2(5) show ?thesis by (elim disjE) simp_all
  next
    case dots: False
    show ?thesis
    proof (cases "ns (dir @ [c])")
      case (Some nd)
      then show ?thesis
      proof (cases nd)
        case Directory
        with Some dots 2(3) [where m = m, OF _ _ _ _ _ 2(6)] 2(5) show ?thesis by simp
      next
        case (Link target)
        have "n - 1 \<le> m - 1" using 2(6) by simp
        with Some dots Link 2(4) [where m = "m - 1"] 2(5,6) show ?thesis
          by (auto split: if_splits)
      qed (use Some dots 2(5) in simp)
    qed (use dots 2(5) in simp)
  qed
qed simp

text \<open>\<open>dir_at st p q\<close>: the path \<open>p\<close> names the directory \<open>q\<close>, and no link is met on the way.\<close>

definition dir_at :: "os \<Rightarrow> string \<Rightarrow> string list \<Rightarrow> bool" where
  "dir_at st p q \<longleftrightarrow> is_directory (nodes_of st) (start_of st p) \<and> is_directory (nodes_of st) q \<and>
     walk (nodes_of st) True 0 (start_of st p) (components p) = Inr q"

lemma dir_at_resolve: "dir_at st p q \<Longrightarrow> resolve st True p = Inr q"
  by (auto simp: dir_at_def resolve_def walk_from_def intro: walk_mono)

lemma walk_directories:
  "walk ns True 0 dir cs = Inr q \<Longrightarrow> is_directory ns q \<Longrightarrow>
   (\<And>p. ns p = Some Directory \<Longrightarrow> ns' p = Some Directory) \<Longrightarrow> walk ns' True 0 dir cs = Inr q"
proof (induction ns True "0 :: nat" dir cs rule: walk.induct)
  case (2 ns dir c cs)
  show ?case
  proof (cases "c = ''.'' \<or> c = ''..''")
    case False
    with 2 have "ns (dir @ [c]) = Some Directory"
      by (auto simp: is_directory_def split: option.splits node.splits if_splits)
    with 2 False show ?thesis by auto
  qed (use 2 in \<open>auto split: if_splits\<close>)
qed simp

lemma dir_at_keeps:
  assumes "dir_at st p q" "cwd st' = cwd st"
    and "\<And>p. nodes_of st p = Some Directory \<Longrightarrow> nodes_of st' p = Some Directory"
  shows "dir_at st' p q"
  using assms walk_directories [of "nodes_of st" "start_of st p" "components p" q "nodes_of st'"]
  by (auto simp: dir_at_def start_of_def is_directory_def)

lemma walk_onward:
  "walk ns True 0 dir cs = Inr q \<Longrightarrow> is_directory ns q \<Longrightarrow> ds \<noteq> [] \<Longrightarrow>
   walk ns follow n dir (cs @ ds) = walk ns follow n q ds"
proof (induction ns True "0 :: nat" dir cs rule: walk.induct)
  case (2 ns dir c cs)
  then show ?case
    by (auto simp: is_directory_def split: option.splits node.splits if_splits)
qed simp

lemma resolve_below:
  assumes "dir_at st d q" "plain_name c"
  shows "resolve st follow (path_join d c) = walk (nodes_of st) follow max_links q [c]"
  using assms walk_onward [of "nodes_of st" "start_of st d" "components d" q "[c]"]
  by (auto simp: dir_at_def resolve_def walk_from_def components_path_join)

lemma resolve_entry:
  assumes "dir_at st d q" "plain_name c"
  shows "resolve st False (path_join d c) = Inr (q @ [c])"
  using assms(2) unfolding resolve_below [OF assms]
  by (auto simp: plain_name_def split: option.splits node.splits)

text \<open>A link to a directory leads there.\<close>

lemma resolve_link:
  assumes "dir_at st d q" "plain_name c" "nodes_of st (q @ [c]) = Some (Link target)"
    and "dir_at st target t" "HasPrefix target ''/''"
  shows "resolve st True (path_join d c) = Inr t"
proof -
  have "walk (nodes_of st) True 0 [] (components target) = Inr t"
    using assms(4,5) by (simp add: dir_at_def start_of_def)
  then have "walk (nodes_of st) True 39 [] (components target) = Inr t"
    by (rule walk_mono) simp
  then show ?thesis
    using assms(2,3,5) unfolding resolve_below [OF assms(1,2)]
    by (auto simp: plain_name_def max_links_def)
qed

lemma os_Remove_entry:
  assumes "dir_at st d q" "plain_name c" "nodes_of st (q @ [c]) \<noteq> Some Directory"
    and "os_Remove fault (path_join d c) st = (st', r)"
  shows "cwd st' = cwd st \<and> (nodes_of st' = nodes_of st \<or> nodes_of st' = (nodes_of st)(q @ [c] := None))"
  using assms(3,4) resolve_entry [OF assms(1,2)]
  by (auto simp: os_Remove_def syscall_def Let_def split: option.splits)

lemma os_RemoveAll_cases:
  assumes "os_RemoveAll fault p st = (st', r)"
  shows "cwd st' = cwd st \<and> (nodes_of st' = nodes_of st \<or>
    (\<exists>q. q \<noteq> [] \<and> resolve st False p = Inr q \<and> nodes_of st' = drop_tree q (nodes_of st)))"
  using assms
  by (auto simp: os_RemoveAll_def syscall_def Let_def split: option.splits sum.splits errno.splits if_splits)

lemma os_Symlink_entry:
  assumes "dir_at st d q" "plain_name c" "os_Symlink fault target (path_join d c) st = (st', Inr u)"
  shows "nodes_of st' = (nodes_of st)(q @ [c] \<mapsto> Link target) \<and> cwd st' = cwd st"
  using assms(3) resolve_entry [OF assms(1,2)]
  by (auto simp: os_Symlink_def syscall_def create_node_def Let_def split: option.splits sum.splits if_splits)

section \<open>Files under the names they are made with\<close>

text \<open>A file that is made or written is found under the name it was made with.\<close>

lemma walk_file:
  "walk ns follow n dir cs = Inr q \<Longrightarrow> ns q = None \<or> (\<exists>b. ns q = Some (Regular b)) \<Longrightarrow> (follow \<longrightarrow> follow') \<Longrightarrow>
   nd = Regular x \<or> nd = Directory \<Longrightarrow> walk (ns(q \<mapsto> nd)) follow' n dir cs = Inr q"
proof (induction ns follow n dir cs rule: walk.induct)
  case (2 ns follow n dir c cs)
  let ?ns = "ns(q \<mapsto> nd)"
  show ?case
  proof (cases "c = ''.'' \<or> c = ''..''")
    case True
    with "2.IH"(1,2) "2.prems" show ?thesis by (elim disjE) simp_all
  next
    case dots: False
    show ?thesis
    proof (cases "ns (dir @ [c])")
      case None
      with dots "2.prems" show ?thesis by (auto split: if_splits)
    next
      case (Some md)
      then show ?thesis
      proof (cases md)
        case (Regular b)
        with Some dots "2.prems" show ?thesis by (auto split: if_splits)
      next
        case Directory
        with Some dots "2.prems" have "?ns (dir @ [c]) = Some Directory" "walk ns follow n (dir @ [c]) cs = Inr q"
          by auto
        with "2.IH"(3) Some Directory dots "2.prems"(2-4) show ?thesis by simp
      next
        case (Link target)
        with Some "2.prems"(2) have l: "?ns (dir @ [c]) = Some (Link target)" by auto
        have go: "\<not> (cs = [] \<and> \<not> follow)" "n \<noteq> 0"
          "walk ns follow (n - 1) (if HasPrefix target ''/'' then [] else dir) (components target @ cs) = Inr q"
          using Some Link dots "2.prems"(1,2) by (auto split: if_splits)
        with "2.IH"(4) [OF _ _ Some Link] dots "2.prems"(2-4)
        have "walk ?ns follow' (n - 1) (if HasPrefix target ''/'' then [] else dir) (components target @ cs) = Inr q"
          by blast
        with l go(1,2) dots "2.prems"(3) show ?thesis by (auto simp del: fun_upd_apply)
      qed
    qed
  qed
qed simp

lemma resolve_file:
  assumes "resolve st follow p = Inr q" "nodes_of st q = None \<or> (\<exists>b. nodes_of st q = Some (Regular b))"
    and "follow \<longrightarrow> follow'" "nd = Regular x \<or> nd = Directory"
    and "nodes_of st' = (nodes_of st)(q \<mapsto> nd)" "cwd st' = cwd st"
  shows "resolve st' follow' p = Inr q"
  using assms walk_file [of "nodes_of st" follow max_links "start_of st p" "components p" q follow' nd x]
  by (auto simp: resolve_def walk_from_def is_directory_def start_of_def split: if_splits)

lemma os_WriteFile_entry:
  assumes "os_WriteFile fault p bs st = (st', Inr u)"
  shows "\<exists>q. resolve st True p = Inr q \<and> q \<noteq> [] \<and> (nodes_of st q = None \<or> (\<exists>b. nodes_of st q = Some (Regular b))) \<and>
    nodes_of st' = (nodes_of st)(q \<mapsto> Regular bs) \<and> cwd st' = cwd st"
  using assms
  by (auto simp: os_WriteFile_def os_Write_def syscall_def Let_def split: option.splits sum.splits if_splits node.splits)

lemma write_then_read:
  assumes "os_WriteFile fault p bs st = (st', Inr u)" "os_ReadFile fault' p st' = (st'', Inr c)"
  shows "c = bs"
proof -
  from os_WriteFile_entry [OF assms(1)] obtain q where q: "resolve st True p = Inr q" "q \<noteq> []"
    "nodes_of st q = None \<or> (\<exists>b. nodes_of st q = Some (Regular b))"
    "nodes_of st' = (nodes_of st)(q \<mapsto> Regular bs)" "cwd st' = cwd st" by blast
  from resolve_file [OF q(1,3) _ _ q(4,5), of True bs] have "resolve st' True p = Inr q" by simp
  with assms(2) q show ?thesis
    by (auto simp: os_ReadFile_def syscall_def Let_def split: option.splits sum.splits)
qed

text \<open>\<^verbatim>\<open>MkdirAll\<close> keeps what there is, and leaves a directory under the name it is given.\<close>

lemma mkdir_prefixes_keeps:
  "mkdir_prefixes start up cs ns = (ns', r) \<Longrightarrow> ns p = Some nd \<Longrightarrow> ns' p = Some nd"
proof (induction start up cs ns rule: mkdir_prefixes.induct)
  case (2 start up c cs ns)
  then show ?case by (fastforce simp: fun_upd_def split: sum.splits if_splits)
qed simp

lemma mkdir_prefixes_last:
  "mkdir_prefixes start up cs ns = (ns', Inr u) \<Longrightarrow> cs \<noteq> [] \<Longrightarrow>
   \<exists>q. walk_from ns' True start (up @ cs) = Inr q \<and> is_directory ns' q"
proof (induction start up cs ns rule: mkdir_prefixes.induct)
  case (2 start up c cs ns)
  obtain q where q: "walk_from ns True start (up @ [c]) = Inr q"
    using "2.prems"(1) by (auto split: sum.splits)
  show ?case
  proof (cases "is_directory ns q")
    case True
    with "2.prems" "2.IH"(1) [OF q True] q show ?thesis by (cases "cs = []") auto
  next
    case False
    with "2.prems"(1) q obtain q' where q': "walk_from ns False start (up @ [c]) = Inr q'" "q' \<noteq> []" "ns q' = None"
      "mkdir_prefixes start (up @ [c]) cs (ns(q' \<mapsto> Directory)) = (ns', Inr u)"
      by (auto split: sum.splits if_splits)
    show ?thesis
    proof (cases "cs = []")
      case True
      from q'(1) have "walk ns False max_links start (up @ [c]) = Inr q'" "is_directory ns start"
        by (auto simp: walk_from_def split: if_splits)
      with walk_file [of ns False max_links start "up @ [c]" q' True Directory] q'(3)
      have "walk_from (ns(q' \<mapsto> Directory)) True start (up @ [c]) = Inr q'"
        by (auto simp: walk_from_def is_directory_def)
      with q'(4) True show ?thesis by (auto simp: is_directory_def)
    next
      case more: False
      from q False q' have "ns q = None"
        using "2.prems"(1) by (auto split: sum.splits if_splits)
      with "2.IH"(2) [OF q False _ q'(1) _ q'(4) more] q'(2,3) show ?thesis by auto
    qed
  qed
qed simp

text \<open>So it fails where a file is in the way.\<close>

lemma MkdirAll_on_file:
  assumes "dir_at st d q" "plain_name c" "nodes_of st (q @ [c]) = Some (Regular bs)"
    and "os_MkdirAll fault (path_join d c) st = (st', r)"
  shows "\<exists>err. r = Inl err"
proof (rule ccontr)
  assume "\<not> ?thesis"
  then obtain u where r: "r = Inr u" by (cases r) auto
  note comps = components_path_join [OF assms(2)]
  from assms(4) r obtain ns' where mk: "mkdir_prefixes (start_of st d) [] (components d @ [c]) (nodes_of st) = (ns', Inr ())"
    by (auto simp: os_MkdirAll_def syscall_def Let_def comps split: option.splits sum.splits prod.splits)
  note keeps = mkdir_prefixes_keeps [OF mk]
  from mkdir_prefixes_last [OF mk] obtain q' where q': "walk_from ns' True (start_of st d) (components d @ [c]) = Inr q'"
    "is_directory ns' q'" by auto
  let ?st = "st\<lparr>nodes_of := ns'\<rparr>"
  have "dir_at ?st d q"
    using keeps by (intro dir_at_keeps [OF assms(1)]) auto
  from resolve_below [OF this assms(2), of True] keeps [OF assms(3)] assms(2)
  have "resolve ?st True (path_join d c) = Inr (q @ [c])"
    by (auto simp: plain_name_def)
  moreover have "start_of ?st (path_join d c) = start_of st d" "components (path_join d c) = components d @ [c]"
    using components_path_join [OF assms(2)] by (simp_all add: start_of_def)
  ultimately have "q' = q @ [c]"
    using q'(1) by (simp add: resolve_def)
  with q'(2) keeps [OF assms(3)] show False by (simp add: is_directory_def)
qed


text \<open>Renaming a file to a name in a directory puts it there, and the directory stays where it is.\<close>

lemma tree_ok_above:
  assumes "tree_ok ns" "ns p \<noteq> None" "take (length b) p = b" "p \<noteq> b"
  shows "is_directory ns b"
  using assms(2-)
proof (induction p rule: rev_induct)
  case (snoc c p)
  then have "take (length b) p = b"
    using under_snoc [of b p c] by blast
  moreover have "is_directory ns p"
    using assms(1) snoc.prems(1) by (auto simp: tree_ok_def)
  ultimately show ?case
    using snoc.IH by (cases "p = b") (auto simp: is_directory_def)
qed (auto simp: is_directory_def)

lemma os_Rename_file:
  assumes "os_Rename fault old new st = (st', Inr u)" "resolve st False old = Inr a"
    and "nodes_of st a = Some (Regular bs)" "resolve st False new = Inr b" "tree_ok (nodes_of st)"
  shows "nodes_of st' b = Some (Regular bs) \<and> cwd st' = cwd st \<and>
    (\<forall>p. nodes_of st p = Some Directory \<longrightarrow> nodes_of st' p = Some Directory)"
proof (cases "a = b")
  case True
  with assms show ?thesis
    by (auto simp: os_Rename_def syscall_def Let_def split: option.splits if_splits)
next
  case False
  let ?ns = "nodes_of st"
  from False assms(1-4) have b: "\<not> is_directory ?ns b" "nodes_of st' = move_tree a b ?ns" "cwd st' = cwd st"
    by (auto simp: os_Rename_def syscall_def Let_def split: option.splits if_splits)
  have a: "\<not> is_directory ?ns a"
    using assms(3,5) by (auto simp: is_directory_def tree_ok_def)
  have "move_tree a b ?ns p = Some Directory" if "?ns p = Some Directory" for p
  proof -
    have "take (length b) p \<noteq> b"
      using tree_ok_above [OF assms(5), of p b] that b(1) by (auto simp: is_directory_def)
    moreover have "take (length a) p \<noteq> a"
      using tree_ok_above [OF assms(5), of p a] that a assms(3) by (cases "p = a") (auto simp: is_directory_def)
    ultimately show ?thesis
      using that by (simp add: move_tree_def)
  qed
  moreover have "move_tree a b ?ns b = Some (Regular bs)"
    using assms(3) by (simp add: move_tree_def)
  ultimately show ?thesis
    using b by simp
qed

end
