(* ===== verification/Uuidx.thy ===== *)
theory Uuidx
  imports Langx
begin

text \<open>
  \<^verbatim>\<open>shallows/internal/uuidx\<close>: UUIDs as the list of their 16 bytes, the arithmetic on
  their leading 16 bits, and the segmenter that splits the UUID space for the sampling
  of the distributed hash table.
\<close>

type_synonym uuid = bytes

definition uuid_Nil :: uuid where "uuid_Nil = replicate 16 0"
definition uuid_Max :: uuid where "uuid_Max = replicate 16 0xff"

definition IsNil :: "uuid \<Rightarrow> bool" where
  "IsNil u \<longleftrightarrow> u = uuid_Nil"

text \<open>\<^verbatim>\<open>binary.BigEndian\<close> on a 16-bit and on a 64-bit word.\<close>

definition Uint16 :: "bytes \<Rightarrow> u16" where
  "Uint16 b = of_nat (256 * unat (b ! 0) + unat (b ! 1))"

definition put_u16 :: "u16 \<Rightarrow> bytes" where
  "put_u16 v = [of_nat (unat v div 256), of_nat (unat v mod 256)]"

definition PutUint16 :: "bytes \<Rightarrow> u16 \<Rightarrow> bytes" where
  "PutUint16 b v = put_u16 v @ drop 2 b"

fun put_be :: "nat \<Rightarrow> nat \<Rightarrow> bytes" where
  "put_be 0 v = []"
| "put_be (Suc n) v = put_be n (v div 256) @ [of_nat (v mod 256)]"

definition PutUint64 :: "bytes \<Rightarrow> u64 \<Rightarrow> bytes" where
  "PutUint64 b v = put_be 8 (unat v) @ drop 8 b"

section \<open>uuid.go\<close>

text \<open>The verb \<^verbatim>\<open>%012d\<close>; the argument is not negative.\<close>

definition WithSuffix :: "nat \<Rightarrow> string" where
  "WithSuffix e = ''00000000-0000-0000-0000-'' @
     replicate (12 - length (format_nat e)) (CHR ''0'') @ format_nat e"

definition WithTimestampPrefix :: "uuid \<Rightarrow> int \<Rightarrow> uuid" where
  "WithTimestampPrefix uid micros = PutUint64 uid (word_of_int micros)"

definition Advance16 :: "uuid \<Rightarrow> u16 \<Rightarrow> uuid" where
  "Advance16 u by' =
     (let v = Uint16 u in
      if 0xffff - v < by' then PutUint16 u 0xffff else PutUint16 u (v + by'))"

fun FirstNonNil :: "uuid list \<Rightarrow> uuid" where
  "FirstNonNil [] = uuid_Nil"
| "FirstNonNil (uid # uids) = (if \<not> IsNil uid then uid else FirstNonNil uids)"

definition HighN :: "uuid \<Rightarrow> int \<Rightarrow> bytes" where
  "HighN ubytes n =
     (if n \<le> 0 then [] else if n \<ge> int (length ubytes) then ubytes else take (nat n) ubytes)"

definition LowN :: "uuid \<Rightarrow> int \<Rightarrow> bytes" where
  "LowN ubytes n =
     (if n \<le> 0 then [] else if n \<ge> int (length ubytes) then [] @ ubytes else take (nat n) ubytes)"

section \<open>The segmenter\<close>

record uuid_range =
  Begin :: uuid
  End :: uuid

definition RangeEverything :: uuid_range where
  "RangeEverything = \<lparr>Begin = uuid_Nil, End = uuid_Max\<rparr>"

record Segmenter =
  seg_current :: uuid
  seg_next :: uuid

definition NewSegmenter :: Segmenter where
  "NewSegmenter = \<lparr>seg_current = uuid_Nil, seg_next = uuid_Nil\<rparr>"

definition segment_by :: u16 where "segment_by = 64"

definition Next :: "Segmenter \<Rightarrow> Segmenter \<times> bool" where
  "Next t =
     (let t = t\<lparr>seg_current := seg_next t\<rparr>;
          t = t\<lparr>seg_next := Advance16 (seg_next t) segment_by\<rparr>;
          future = Advance16 (seg_next t) segment_by;
          max = uuid_Max;
          done = (seg_next t \<noteq> max);
          t = (if seg_next t = future then t\<lparr>seg_next := max\<rparr> else t)
      in (t, done))"

definition Segmenter_Range :: "Segmenter \<Rightarrow> uuid_range" where
  "Segmenter_Range t = \<lparr>Begin = seg_current t, End = seg_next t\<rparr>"

text \<open>The loop \<^verbatim>\<open>for s.Next() { ... s.Range() }\<close> of the users of a segmenter, at most \<open>fuel\<close>
  times round.\<close>

fun segments :: "nat \<Rightarrow> Segmenter \<Rightarrow> uuid_range list option" where
  "segments 0 t = None"
| "segments (Suc fuel) t =
     (case Next t of
        (t', False) \<Rightarrow> Some []
      | (t', True) \<Rightarrow> map_option (\<lambda>rs. Segmenter_Range t' # rs) (segments fuel t'))"

section \<open>Lemmas\<close>

lemma Uint16_put [simp]: "Uint16 (put_u16 v @ xs) = v"
proof -
  have v: "unat v < 65536" using unsigned_less [of v, where ?'a = nat] by simp
  then have "unat v div 256 < 256" by linarith
  then have "unat (of_nat (unat v div 256) :: byte) = unat v div 256"
      "unat (of_nat (unat v mod 256) :: byte) = unat v mod 256"
    by (simp_all add: unat_of_nat)
  then show ?thesis
    by (simp add: Uint16_def put_u16_def)
qed

lemma put_u16_inj [simp]: "put_u16 v @ xs = put_u16 w @ ys \<longleftrightarrow> v = w \<and> xs = ys"
proof
  assume eq: "put_u16 v @ xs = put_u16 w @ ys"
  then have "v = w" by (metis Uint16_put)
  with eq show "v = w \<and> xs = ys" by simp
qed simp

lemma length_put_u16 [simp]: "length (put_u16 v) = 2"
  by (simp add: put_u16_def)

lemma length_PutUint16 [simp]: "2 \<le> length b \<Longrightarrow> length (PutUint16 b v) = length b"
  by (simp add: PutUint16_def)

lemma length_Advance16 [simp]: "length u = 16 \<Longrightarrow> length (Advance16 u n) = 16"
  by (simp add: Advance16_def Let_def)

text \<open>A UUID with the leading word \<open>v\<close> and zeros behind it.\<close>

definition led :: "u16 \<Rightarrow> uuid" where
  "led v = put_u16 v @ replicate 14 0"

lemma led_inj [simp]: "led v = led w \<longleftrightarrow> v = w"
  by (simp only: led_def put_u16_inj) simp

lemma led_0 [simp]: "led 0 = uuid_Nil"
  by code_simp

lemma led_ne_Max [simp]: "led v \<noteq> uuid_Max" "uuid_Max \<noteq> led v"
proof -
  have "led v ! 15 \<noteq> uuid_Max ! 15"
    by (simp add: led_def uuid_Max_def nth_append)
  then show "led v \<noteq> uuid_Max" "uuid_Max \<noteq> led v" by auto
qed

lemma Advance16_led:
  "Advance16 (led v) n = (if 0xffff - v < n then led 0xffff else led (v + n))"
  by (simp add: Advance16_def led_def PutUint16_def Let_def)

lemma Advance16_Max [simp]: "0 < n \<Longrightarrow> Advance16 uuid_Max n = uuid_Max"
proof -
  have "put_u16 0xffff = [0xff, 0xff]"
    by (simp add: put_u16_def)
  moreover have "uuid_Max = [0xff, 0xff] @ replicate 14 0xff"
    by (simp add: uuid_Max_def numeral_eq_Suc)
  ultimately have m: "uuid_Max = put_u16 0xffff @ replicate 14 0xff"
    by (simp only:)
  have "Uint16 uuid_Max = 0xffff" "drop 2 uuid_Max = replicate 14 0xff"
    by (simp_all only: m Uint16_put) simp
  then have "Advance16 uuid_Max n = put_u16 0xffff @ replicate 14 0xff" if "0 < n"
    using that by (simp only: Advance16_def Let_def PutUint16_def diff_self if_True)
  then show "0 < n \<Longrightarrow> Advance16 uuid_Max n = uuid_Max"
    by (simp only: m)
qed

lemma FirstNonNil_Nil_iff: "FirstNonNil uids = uuid_Nil \<longleftrightarrow> (\<forall>u \<in> set uids. u = uuid_Nil)"
  by (induction uids) (auto simp: IsNil_def)

text \<open>The boundaries of the segments.\<close>

definition boundary :: "nat \<Rightarrow> uuid" where
  "boundary k = (if k < 1024 then led (of_nat (64 * k)) else uuid_Max)"

definition at_boundary :: "nat \<Rightarrow> Segmenter \<Rightarrow> bool" where
  "at_boundary k t \<longleftrightarrow> seg_next t = boundary k"

lemma of_nat_u16: "n < 65536 \<Longrightarrow> unat (of_nat n :: u16) = n"
  by (simp add: unat_of_nat)

lemma room_u16:
  assumes "n \<le> 65535"
  shows "(0xffff - of_nat n :: u16) < 64 \<longleftrightarrow> 65471 < n"
proof -
  have "unat (0xffff - of_nat n :: u16) = 65535 - n"
    using assms of_nat_u16 [of n] by (subst unat_sub) (auto simp: word_le_nat_alt)
  then show ?thesis
    using assms by (auto simp: word_less_nat_alt)
qed

lemma Advance_boundary:
  "k < 1024 \<Longrightarrow> Advance16 (boundary k) 64 = (if k < 1023 then boundary (Suc k) else led 0xffff)"
proof -
  assume k: "k < 1024"
  have "(0xffff - of_nat (64 * k) :: u16) < 64 \<longleftrightarrow> \<not> k < 1023"
    using k by (subst room_u16) auto
  moreover have "of_nat (64 * k) + 64 = (of_nat (64 * Suc k) :: u16)"
    by simp
  ultimately show ?thesis
    using k by (simp only: boundary_def if_True Advance16_led) auto
qed

lemma Next_boundary:
  assumes "at_boundary k t" "k < 1024"
  shows "\<exists>t'. Next t = (t', True) \<and> at_boundary (Suc k) t' \<and> seg_current t' = boundary k"
proof -
  note n = assms(1) [unfolded at_boundary_def]
  have last: "Advance16 (led 0xffff) 64 = led 0xffff"
    by (simp add: Advance16_led)
  show ?thesis
  proof (cases "k < 1023")
    case True
    have "boundary (Suc k) = led (of_nat (64 * Suc k))" using True by (simp add: boundary_def)
    moreover have "Advance16 (boundary (Suc k)) 64 \<noteq> boundary (Suc k)"
    proof (cases "Suc k < 1023")
      case True
      have "(of_nat (64 * Suc (Suc k)) :: u16) \<noteq> of_nat (64 * Suc k)"
      proof
        assume "(of_nat (64 * Suc (Suc k)) :: u16) = of_nat (64 * Suc k)"
        then have "unat (of_nat (64 * Suc (Suc k)) :: u16) = unat (of_nat (64 * Suc k) :: u16)"
          by (simp only:)
        with True show False
          by (subst (asm) of_nat_u16, simp, subst (asm) of_nat_u16) auto
      qed
      with True have "boundary (Suc (Suc k)) \<noteq> boundary (Suc k)"
        by (simp only: boundary_def led_inj) simp
      with True show ?thesis by (simp add: Advance_boundary)
    next
      case False
      with \<open>k < 1023\<close> have "Suc k = 1023" by simp
      then show ?thesis by (simp add: Advance_boundary) (simp add: boundary_def)
    qed
    ultimately show ?thesis
      using True n by (simp add: Next_def Let_def segment_by_def Advance_boundary at_boundary_def)
  next
    case False
    then have "k = 1023" using assms(2) by simp
    then show ?thesis
      using n last
      by (simp add: Next_def Let_def segment_by_def Advance_boundary at_boundary_def)
        (simp add: boundary_def)
  qed
qed

lemma Next_last: "at_boundary 1024 t \<Longrightarrow> \<exists>t'. Next t = (t', False)"
  by (simp add: Next_def Let_def segment_by_def at_boundary_def boundary_def)

lemma segments_boundary:
  assumes "at_boundary k t" "k \<le> 1024" "1024 - k < fuel"
  shows "segments fuel t =
    Some (map (\<lambda>i. \<lparr>Begin = boundary i, End = boundary (Suc i)\<rparr>) [k..<1024])"
  using assms
proof (induction fuel arbitrary: k t)
  case (Suc fuel)
  show ?case
  proof (cases "k = 1024")
    case True
    then show ?thesis using Next_last [of t] Suc.prems by auto
  next
    case False
    then have k: "k < 1024" using Suc.prems by simp
    then obtain t' where t': "Next t = (t', True)" "at_boundary (Suc k) t'" "seg_current t' = boundary k"
      using Next_boundary Suc.prems by blast
    have "segments fuel t' =
        Some (map (\<lambda>i. \<lparr>Begin = boundary i, End = boundary (Suc i)\<rparr>) [Suc k..<1024])"
      using Suc.IH [OF t'(2)] k Suc.prems by simp
    moreover have "Segmenter_Range t' = \<lparr>Begin = boundary k, End = boundary (Suc k)\<rparr>"
      using t' by (simp add: Segmenter_Range_def at_boundary_def)
    ultimately show ?thesis
      using k t'(1) by (simp add: upt_conv_Cons)
  qed
qed simp

section \<open>Properties\<close>

text \<open>C35: iterating a fresh segmenter ends after exactly 1024 segments, which start at the nil
  UUID, end at the maximal one, and each of which begins where the one before ended; the
  interior boundaries are the multiples of 64 of the leading 16 bits.\<close>

theorem segmenter_covers:
  assumes "1025 \<le> fuel"
  shows "\<exists>rs. segments fuel NewSegmenter = Some rs \<and> length rs = 1024 \<and>
    Begin (hd rs) = uuid_Nil \<and> End (last rs) = uuid_Max \<and>
    (\<forall>i < 1023. End (rs ! i) = Begin (rs ! Suc i)) \<and>
    (\<forall>i < 1024. Begin (rs ! i) = put_u16 (of_nat (64 * i)) @ replicate 14 0)"
proof -
  have "at_boundary 0 NewSegmenter"
    by (simp add: at_boundary_def NewSegmenter_def boundary_def)
  from segments_boundary [OF this _ , of fuel] assms
  have s: "segments fuel NewSegmenter =
      Some (map (\<lambda>i. \<lparr>Begin = boundary i, End = boundary (Suc i)\<rparr>) [0..<1024])"
    by simp
  show ?thesis
    by (intro exI conjI, rule s)
      (simp_all add: hd_map last_map boundary_def led_def [symmetric] del: upt_rec_numeral)
qed

theorem segmenter_covers_witness:
  "\<exists>rs. segments 2000 NewSegmenter = Some rs \<and> length rs = 1024"
  using segmenter_covers [of 2000] by auto

text \<open>\<^verbatim>\<open>Advance16\<close> adds to the leading 16 bits, stops at their maximum instead of wrapping,
  and leaves the rest of the UUID alone.\<close>

theorem Advance16_saturates:
  assumes "length u = 16"
  shows "unat (Uint16 (Advance16 u n)) = min 65535 (unat (Uint16 u) + unat n) \<and>
    drop 2 (Advance16 u n) = drop 2 u"
proof -
  let ?v = "Uint16 u"
  have v: "unat ?v \<le> 65535" using unsigned_less [of ?v, where ?'a = nat] by simp
  have sub: "unat (0xffff - ?v) = 65535 - unat ?v"
    using v by (subst unat_sub) (auto simp: word_le_nat_alt)
  have lt: "0xffff - ?v < n \<longleftrightarrow> 65535 < unat ?v + unat n"
    using v by (auto simp: word_less_nat_alt sub)
  show ?thesis
  proof (cases "0xffff - ?v < n")
    case True
    then show ?thesis using lt by (simp add: Advance16_def Let_def PutUint16_def)
  next
    case False
    then have "unat (?v + n) = unat ?v + unat n"
      using lt by (simp add: unat_word_ariths)
    with False lt show ?thesis by (simp add: Advance16_def Let_def PutUint16_def)
  qed
qed

theorem Advance16_saturates_witness:
  "unat (Uint16 (Advance16 (led 0xfff0) 64)) = 65535"
  using Advance16_saturates [of "led 0xfff0" 64] by (simp add: led_def)

end
