(* ===== verification/Iox.thy ===== *)
theory Iox
  imports Blockcache Gostd
begin

text \<open>
  \<^verbatim>\<open>shallows/internal/iox\<close>: the small readers and writers the caches and the archive are
  composed of. An \<^verbatim>\<open>io.Writer\<close> is a function from its state and a buffer to the new
  state, the count and the error; an \<^verbatim>\<open>io.Reader\<close> is the list of bytes it still yields
  and the error after the last one (\<^verbatim>\<open>io.EOF\<close> for one that ends).
\<close>

type_synonym 's writer = "'s \<Rightarrow> bytes \<Rightarrow> 's \<times> nat \<times> goerr option"

record reader =
  pending :: bytes
  tail_err :: goerr

text \<open>\<^verbatim>\<open>io.ReadFull\<close>: a source that ends before the first byte gives its own error, one that
  ends later \<^verbatim>\<open>io.ErrUnexpectedEOF\<close> in place of \<^verbatim>\<open>io.EOF\<close>.\<close>

definition ReadFull :: "reader \<Rightarrow> nat \<Rightarrow> reader \<times> bytes \<times> goerr option" where
  "ReadFull r n =
     (let bs = take n (pending r); r' = r\<lparr>pending := drop n (pending r)\<rparr> in
      if length bs = n then (r', bs, None)
      else if bs \<noteq> [] \<and> errors_is (tail_err r) (TSentinel EOF)
      then (r', bs, Some (Sentinel ErrUnexpectedEOF))
      else (r', bs, Some (tail_err r)))"

text \<open>\<^verbatim>\<open>io.ReadAll\<close> does not report \<^verbatim>\<open>io.EOF\<close>.\<close>

definition ReadAll :: "reader \<Rightarrow> bytes \<times> goerr option" where
  "ReadAll r =
     (pending r, if tail_err r = Sentinel EOF then None else Some (tail_err r))"

text \<open>\<^verbatim>\<open>io.Copy\<close> of the chunks a source yields into a writer; the source's error comes after
  the last chunk.\<close>

definition short_write :: goerr where
  "short_write = Sentinel (NamedSentinel ''short write'')"

fun io_copy ::
  "('s \<Rightarrow> bytes \<Rightarrow> ('s \<times> nat \<times> goerr option) outcome) \<Rightarrow> 's \<Rightarrow> bytes list \<Rightarrow> goerr option \<Rightarrow>
   ('s \<times> goerr option) outcome" where
  "io_copy wr s [] rerr = Return (s, rerr)"
| "io_copy wr s (c # cs) rerr =
     (case wr s c of
        Panic \<Rightarrow> Panic
      | Return (s', n, Some e) \<Rightarrow> Return (s', Some e)
      | Return (s', n, None) \<Rightarrow>
          if n \<noteq> length c then Return (s', Some short_write)
          else io_copy wr s' cs rerr)"

text \<open>\<^verbatim>\<open>io.Copy\<close> from an \<^verbatim>\<open>io.SectionReader\<close> over a positioned reader: buffers of 32 KiB until
  the \<open>rem\<close> bytes of the section are read.\<close>

definition copy_buffer :: nat where "copy_buffer = 32768"

function section_read ::
  "('s \<Rightarrow> nat \<Rightarrow> int \<Rightarrow> read_result) \<Rightarrow> 's \<Rightarrow> int \<Rightarrow> nat \<Rightarrow> read_result" where
  "section_read rd s off rem =
     (if rem = 0 then Return ([], None)
      else
        let k = min copy_buffer rem in
        case rd s k off of
          Panic \<Rightarrow> Panic
        | Return (bs, Some e) \<Rightarrow> Return (bs, Some e)
        | Return (bs, None) \<Rightarrow>
            map_outcome_result (\<lambda>(rest, e). (bs @ rest, e))
              (section_read rd s (off + int k) (rem - k)))"
  by pat_completeness auto
termination
  by (relation "measure (\<lambda>(rd, s, off, rem). rem)") (auto simp: copy_buffer_def)

declare section_read.simps [simp del]

definition IgnoreEOF :: "goerr option \<Rightarrow> goerr option" where
  "IgnoreEOF err = (if \<not> std_is err (TSentinel EOF) then err else None)"

definition io_Error :: "int \<Rightarrow> goerr option \<Rightarrow> goerr option" where
  "io_Error n err = err"

definition errReader_Read :: "goerr \<Rightarrow> nat \<Rightarrow> bytes \<times> goerr option" where
  "errReader_Read t len = ([], Some t)"

definition Rewind ::
  "('s \<Rightarrow> int \<Rightarrow> int \<Rightarrow> 's \<times> int \<times> goerr option) \<Rightarrow> 's \<Rightarrow> 's \<times> goerr option" where
  "Rewind seek o' = (let (s, n, err) = seek o' 0 0 in (s, err))"

text \<open>The seeker, where the reader is one, rewinds the reader it returns.\<close>

definition io_String ::
  "(reader \<Rightarrow> int \<Rightarrow> int \<Rightarrow> reader \<times> int \<times> goerr option) option \<Rightarrow> reader \<Rightarrow> bytes \<times> goerr option" where
  "io_String seeker r =
     (case seeker of
        Some seek \<Rightarrow>
          (case Rewind seek r of
             (r', Some err) \<Rightarrow> ([], Some err)
           | (r', None) \<Rightarrow>
               (case ReadAll r' of (raw, Some err) \<Rightarrow> ([], Some err) | (raw, None) \<Rightarrow> (raw, None)))
      | None \<Rightarrow> (case ReadAll r of (raw, Some err) \<Rightarrow> ([], Some err) | (raw, None) \<Rightarrow> (raw, None)))"

text \<open>\<^verbatim>\<open>Copied\<close> counts the bytes written to it.\<close>

definition Copied_Write :: "u64 writer" where
  "Copied_Write result b = (result + of_nat (length b), length b, None)"

definition zero_Read :: "nat \<Rightarrow> bytes \<times> goerr option" where
  "zero_Read len = (replicate len 0, None)"

section \<open>SectionWriter\<close>

record SectionWriter =
  sec_off :: int
  sec_len :: int

definition NewSectionWriter :: "int \<Rightarrow> int \<Rightarrow> SectionWriter" where
  "NewSectionWriter off len = \<lparr>sec_off = off, sec_len = len\<rparr>"

text \<open>The slice \<^verbatim>\<open>b[:me.len-off]\<close> is within the buffer unless the subtraction wraps.\<close>

definition SectionWriter_WriteAt ::
  "('s \<Rightarrow> bytes \<Rightarrow> int \<Rightarrow> ('s \<times> nat \<times> goerr option) outcome) \<Rightarrow> SectionWriter \<Rightarrow>
   's \<Rightarrow> bytes \<Rightarrow> int \<Rightarrow> ('s \<times> nat \<times> goerr option) outcome" where
  "SectionWriter_WriteAt wr me s b off =
     (if off \<ge> sec_len me then Return (s, 0, Some (Sentinel EOF))
      else if i64 (off + int (length b)) > sec_len me then
        (let bound = i64 (sec_len me - off) in
         if bound < 0 \<or> int (length b) < bound then Panic
         else wr s (take (nat bound) b) (i64 (sec_off me + off)))
      else wr s b (i64 (sec_off me + off)))"

section \<open>Writers over writers\<close>

text \<open>\<^verbatim>\<open>TimeoutWriter\<close>: every write restarts the timer, which is the pair of the deadline
  and the clock; a write after the deadline finds its context cancelled.\<close>

record 's timeout_writer =
  tw_d :: int
  tw_deadline :: int
  tw_inner :: 's

definition NewTimeoutWriter :: "int \<Rightarrow> int \<Rightarrow> 's \<Rightarrow> 's timeout_writer" where
  "NewTimeoutWriter now d dst = \<lparr>tw_d = d, tw_deadline = now + d, tw_inner = dst\<rparr>"

definition TimeoutWriter_Write :: "'s writer \<Rightarrow> int \<Rightarrow> 's timeout_writer writer" where
  "TimeoutWriter_Write wr now t b =
     (let (s, n, err) = wr (tw_inner t) b
      in (t\<lparr>tw_deadline := now + tw_d t, tw_inner := s\<rparr>, n, err))"

text \<open>Closing runs every close function and reports the first error.\<close>

fun CompositeClose :: "goerr option \<Rightarrow> goerr option list \<Rightarrow> goerr option" where
  "CompositeClose err [] = err"
| "CompositeClose err (fn # closefn) = CompositeClose (Compact [err, fn]) closefn"

lemma CompositeClose_Compact: "CompositeClose err fns = Compact (err # fns)"
  by (induction err fns rule: CompositeClose.induct) auto

text \<open>\<^verbatim>\<open>io.OffsetWriter\<close>: a writer over a positioned one; the position moves by the count
  written.\<close>

record 's offset_writer =
  ow_store :: 's
  ow_off :: int

definition OffsetWriter_Write ::
  "('s \<Rightarrow> bytes \<Rightarrow> int \<Rightarrow> ('s \<times> nat \<times> goerr option) outcome) \<Rightarrow>
   's offset_writer \<Rightarrow> bytes \<Rightarrow> ('s offset_writer \<times> nat \<times> goerr option) outcome" where
  "OffsetWriter_Write wr o' p =
     (case wr (ow_store o') p (ow_off o') of
        Panic \<Rightarrow> Panic
      | Return (s, n, err) \<Rightarrow>
          Return (\<lparr>ow_store = s, ow_off = i64 (ow_off o' + int n)\<rparr>, n, err))"

section \<open>Lemmas\<close>

lemma ReadFull_None_iff:
  "snd (snd (ReadFull r n)) = None \<longleftrightarrow> n \<le> length (pending r)"
  by (auto simp: ReadFull_def Let_def)

lemma ReadFull_enough:
  "n \<le> length (pending r) \<Longrightarrow>
   ReadFull r n = (r\<lparr>pending := drop n (pending r)\<rparr>, take n (pending r), None)"
  by (simp add: ReadFull_def Let_def)

lemma IgnoreEOF_None [simp]: "IgnoreEOF None = None"
  by (simp add: IgnoreEOF_def)

text \<open>Successive writes of an offset writer are the locale's run of writes.\<close>

context random_access
begin

lemma section_read_iff:
  assumes "usable s" "in_range off n"
  shows "section_read rd s off n = Return (bs, None) \<longleftrightarrow>
    length bs = n \<and> (\<forall>j<n. view s (off + int j) = Some (bs ! j))"
  using assms(2)
proof (induction n arbitrary: off bs rule: less_induct)
  case (less n)
  show ?case
  proof (cases "n = 0")
    case True
    then show ?thesis by (auto simp: section_read.simps)
  next
    case False
    let ?k = "min copy_buffer n"
    have k: "0 < ?k" "?k \<le> n" using False by (auto simp: copy_buffer_def)
    have r: "in_range off ?k" "in_range (off + int ?k) (n - ?k)"
      using less.prems k by (auto simp: in_range_def of_nat_diff)
    note IH = less.IH [of "n - ?k" "off + int ?k", OF _ r(2)]
    have step: "section_read rd s off n = Return (bs, None) \<longleftrightarrow>
        (\<exists>a b. rd s ?k off = Return (a, None) \<and>
           section_read rd s (off + int ?k) (n - ?k) = Return (b, None) \<and> bs = a @ b)"
      using False
      by (subst section_read.simps)
        (auto simp: Let_def map_outcome_result_eq_Return split: outcome.splits option.splits)
    also have "\<dots> \<longleftrightarrow> (\<exists>a b. length a = ?k \<and> (\<forall>j<?k. view s (off + int j) = Some (a ! j)) \<and>
        length b = n - ?k \<and> (\<forall>j<n - ?k. view s (off + int ?k + int j) = Some (b ! j)) \<and> bs = a @ b)"
      using IH k False by (simp add: read_iff [OF assms(1) r(1)])
    also have "\<dots> \<longleftrightarrow> length bs = n \<and> (\<forall>j<n. view s (off + int j) = Some (bs ! j))"
      (is "?l \<longleftrightarrow> ?r")
    proof
      assume ?l
      then obtain a b where ab: "length a = ?k" "\<And>j. j < ?k \<Longrightarrow> view s (off + int j) = Some (a ! j)"
        "length b = n - ?k" "\<And>j. j < n - ?k \<Longrightarrow> view s (off + int ?k + int j) = Some (b ! j)"
        "bs = a @ b" by blast
      have "view s (off + int j) = Some (bs ! j)" if "j < n" for j
      proof (cases "j < ?k")
        case False
        then have "off + int j = off + int ?k + int (j - ?k)" by linarith
        moreover have "j - ?k < n - ?k" using that False by linarith
        ultimately show ?thesis
          using ab(4) [of "j - ?k"] False by (simp only: ab(5) nth_append ab(1) if_False)
      qed (simp only: ab nth_append if_True)
      with ab k show ?r by simp
    next
      assume r: ?r
      have "view s (off + int ?k + int j) = Some (drop ?k bs ! j)" if "j < n - ?k" for j
      proof -
        have "off + int ?k + int j = off + int (?k + j)" by simp
        then show ?thesis using r that k by (simp only: nth_drop)
      qed
      with r k show ?l
        by (intro exI [of _ "take ?k bs"] exI [of _ "drop ?k bs"]) auto
    qed
    finally show ?thesis .
  qed
qed

end

section \<open>Properties\<close>

text \<open>A section writer over the block cache never touches a byte outside of its section,
  and at most fills holes there with zeros: whatever the buffer and the offset inside the
  section, a held byte before or after the section keeps its value.\<close>

theorem SectionWriter_bounded:
  assumes "0 < BlockLength t" and "0 \<le> sec_off me" and "0 \<le> sec_len me"
    and "sec_off me + sec_len me < 2 ^ 63" and "0 \<le> off" and "length b < 2 ^ 62" and "off < 2 ^ 62"
    and "SectionWriter_WriteAt (WriteAt t) me d b off = Return (d', n, err)"
    and "0 \<le> i" and "i < sec_off me \<or> sec_off me + sec_len me \<le> i"
    and "cached_byte t d i = Some x"
  shows "cached_byte t d' i = Some x"
proof (cases "off \<ge> sec_len me")
  case True
  with assms show ?thesis by (simp add: SectionWriter_WriteAt_def)
next
  case False
  have u: "usable_cache t" using assms by (simp add: usable_cache_def)
  have o: "i64 (off + int (length b)) = off + int (length b)"
    and bound: "i64 (sec_len me - off) = sec_len me - off"
    and pos: "i64 (sec_off me + off) = sec_off me + off"
    using assms False by (auto intro!: i64_id in_i64I)
  obtain p where p: "WriteAt t d p (sec_off me + off) = Return (d', n, err)"
      "off + int (length p) \<le> sec_len me"
  proof (cases "off + int (length b) > sec_len me")
    case True
    then have "WriteAt t d (take (nat (sec_len me - off)) b) (sec_off me + off) = Return (d', n, err)"
      using assms(8) False by (simp add: SectionWriter_WriteAt_def o bound pos split: if_splits)
    then show thesis
      by (rule that) (use False in simp)
  next
    case nt: False
    then have "WriteAt t d b (sec_off me + off) = Return (d', n, err)"
      using assms(8) False by (simp add: SectionWriter_WriteAt_def o pos)
    then show thesis
      by (rule that) (use nt in simp)
  qed
  have r: "in_range (sec_off me + off) (length p)"
    using assms p(2) by (simp add: in_range_def)
  show ?thesis
    using dc.write_keeps [OF u r p(1) assms(9) _ assms(11)] assms(5,10) p(2) by linarith
qed

theorem SectionWriter_bounded_witness:
  "\<exists>d' n err. SectionWriter_WriteAt (WriteAt \<lparr>root = ''c'', BlockLength = 2\<rparr>)
       \<lparr>sec_off = 1, sec_len = 2\<rparr> [''c/0'' \<mapsto> [7, 8]] [5, 6, 9] 0 = Return (d', n, err) \<and>
     cached_byte \<lparr>root = ''c'', BlockLength = 2\<rparr> d' 0 = Some 7"
proof -
  let ?t = "\<lparr>root = ''c'', BlockLength = 2\<rparr>" and ?d = "[''c/0'' \<mapsto> [7, 8 :: byte]]"
  have "SectionWriter_WriteAt (WriteAt ?t) \<lparr>sec_off = 1, sec_len = 2\<rparr> ?d [5, 6, 9] 0 =
      WriteAt ?t ?d [5, 6] 1"
    by (simp add: SectionWriter_WriteAt_def i64_def numeral_2_eq_2)
  moreover obtain d' where "WriteAt ?t ?d [5, 6] 1 = Return (d', length [5, 6 :: byte], None)"
    using dc.write_total [of ?t 1 "[5, 6]" ?d] by (auto simp: usable_cache_def in_range_def)
  ultimately have w: "SectionWriter_WriteAt (WriteAt ?t) \<lparr>sec_off = 1, sec_len = 2\<rparr> ?d [5, 6, 9] 0 =
      Return (d', length [5, 6 :: byte], None)"
    by simp
  have "cached_byte ?t ?d 0 = Some 7" by code_simp
  from SectionWriter_bounded [OF _ _ _ _ _ _ _ w _ _ this] w show ?thesis by auto
qed

end
