(* ===== verification/Cryptox.thy ===== *)
theory Cryptox
  imports Iox
begin

text \<open>
  \<^verbatim>\<open>shallows/internal/cryptox/cryptox.go\<close>: the stream ciphers archived media is encrypted
  with. The third-party \<^verbatim>\<open>golang.org/x/crypto/chacha20\<close> is the parameter \<open>ks\<close>: the
  keystream byte of a key and a nonce at a stream position. Its documented behaviour is
  what the definitions use: \<^verbatim>\<open>XORKeyStream\<close> xors with the keystream from the current
  position on and moves past it, \<^verbatim>\<open>SetCounter(n)\<close> moves to position \<open>64 * n\<close>. The hash
  functions of the standard library are parameters as well.
\<close>

type_synonym keystream = "bytes \<Rightarrow> bytes \<Rightarrow> nat \<Rightarrow> byte"

definition KeySize :: nat where "KeySize = 32"
definition NonceSize :: nat where "NonceSize = 12"

record cipher =
  ckey :: bytes
  cnonce :: bytes
  cpos :: nat

definition xor_at :: "(nat \<Rightarrow> byte) \<Rightarrow> nat \<Rightarrow> bytes \<Rightarrow> bytes" where
  "xor_at s pos src = map (\<lambda>(i, b). b XOR s (pos + i)) (enumerate 0 src)"

definition XORKeyStream :: "keystream \<Rightarrow> cipher \<Rightarrow> bytes \<Rightarrow> cipher \<times> bytes" where
  "XORKeyStream ks c src =
     (c\<lparr>cpos := cpos c + length src\<rparr>, xor_at (ks (ckey c) (cnonce c)) (cpos c) src)"

definition SetCounter :: "u32 \<Rightarrow> cipher \<Rightarrow> cipher" where
  "SetCounter n c = c\<lparr>cpos := 64 * unat n\<rparr>"

text \<open>The key and the nonce come from the generator, in this order.\<close>

definition new_cipher :: "reader \<Rightarrow> reader \<times> (goerr + cipher)" where
  "new_cipher prng =
     (case ReadFull prng KeySize of
        (prng, key, Some err) \<Rightarrow> (prng, Inl err)
      | (prng, key, None) \<Rightarrow>
          (case ReadFull prng NonceSize of
             (prng, nonce, Some err) \<Rightarrow> (prng, Inl err)
           | (prng, nonce, None) \<Rightarrow> (prng, Inr \<lparr>ckey = key, cnonce = nonce, cpos = 0\<rparr>)))"

record 's stream_writer =
  sw_cipher :: cipher
  sw_dst :: 's

record stream_reader =
  sr_cipher :: cipher
  sr_src :: reader

definition NewReaderChaCha20 :: "reader \<Rightarrow> reader \<Rightarrow> goerr + stream_reader" where
  "NewReaderChaCha20 prng src =
     (case snd (new_cipher prng) of
        Inl err \<Rightarrow> Inl err
      | Inr s \<Rightarrow> Inr \<lparr>sr_cipher = s, sr_src = src\<rparr>)"

definition NewWriterChaCha20 :: "reader \<Rightarrow> 's \<Rightarrow> goerr + 's stream_writer" where
  "NewWriterChaCha20 prng dst =
     (case snd (new_cipher prng) of
        Inl err \<Rightarrow> Inl err
      | Inr s \<Rightarrow> Inr \<lparr>sw_cipher = s, sw_dst = dst\<rparr>)"

definition NewOffsetWriterChaCha20 :: "reader \<Rightarrow> 's \<Rightarrow> u32 \<Rightarrow> goerr + 's stream_writer" where
  "NewOffsetWriterChaCha20 prng dst off =
     (case snd (new_cipher prng) of
        Inl err \<Rightarrow> Inl err
      | Inr s \<Rightarrow> Inr \<lparr>sw_cipher = SetCounter (off div 64) s, sw_dst = dst\<rparr>)"

definition NewOffsetReaderChaCha20 :: "reader \<Rightarrow> reader \<Rightarrow> u32 \<Rightarrow> goerr + stream_reader" where
  "NewOffsetReaderChaCha20 prng src off =
     (case snd (new_cipher prng) of
        Inl err \<Rightarrow> Inl err
      | Inr s \<Rightarrow> Inr \<lparr>sr_cipher = SetCounter (off div 64) s, sr_src = src\<rparr>)"

text \<open>\<^verbatim>\<open>cipher.StreamReader\<close> and \<^verbatim>\<open>cipher.StreamWriter\<close> of the standard library; the writer's
  position moves even when the inner write is short.\<close>

definition StreamReader_ReadAll :: "keystream \<Rightarrow> stream_reader \<Rightarrow> bytes \<times> goerr option" where
  "StreamReader_ReadAll ks r =
     (let (src, err) = ReadAll (sr_src r) in (snd (XORKeyStream ks (sr_cipher r) src), err))"

definition StreamWriter_Write ::
  "keystream \<Rightarrow> ('s \<Rightarrow> bytes \<Rightarrow> ('s \<times> nat \<times> goerr option) outcome) \<Rightarrow>
   's stream_writer \<Rightarrow> bytes \<Rightarrow> ('s stream_writer \<times> nat \<times> goerr option) outcome" where
  "StreamWriter_Write ks wr w src =
     (let (c, out) = XORKeyStream ks (sw_cipher w) src in
      case wr (sw_dst w) out of
        Panic \<Rightarrow> Panic
      | Return (s, n, err) \<Rightarrow>
          Return (\<lparr>sw_cipher = c, sw_dst = s\<rparr>, n,
            if n \<noteq> length src \<and> err = None then Some short_write
            else err))"

section \<open>The generators\<close>

text \<open>\<^verbatim>\<open>NewChaCha8\<close>: the 32-byte seed is made of two digests; \<open>md5\<close> is a parameter. The first
  copy stops one byte short, so byte 15 stays zero.\<close>

definition chacha8_vector :: "(bytes \<Rightarrow> bytes) \<Rightarrow> bytes \<Rightarrow> bytes" where
  "chacha8_vector md5 source =
     (let v1 = md5 source; v2 = md5 (v1 @ source)
      in take 15 v1 @ [0] @ take 16 v2)"

record sha512csprng =
  prng_state :: bytes

definition NewPRNGSHA512 :: "(bytes \<Rightarrow> bytes) \<Rightarrow> bytes \<Rightarrow> sha512csprng" where
  "NewPRNGSHA512 sha512 seed = \<lparr>prng_state = sha512 seed\<rparr>"

text \<open>\<^verbatim>\<open>Read\<close> re-hashes its state for every 64 bytes it hands out; \<open>need\<close> is the loop variable
  \<^verbatim>\<open>i\<close>. With an empty digest it would not end, which the length of a digest rules out.\<close>

function csprng_loop ::
  "(bytes \<Rightarrow> bytes) \<Rightarrow> sha512csprng \<Rightarrow> nat \<Rightarrow> bytes \<Rightarrow> sha512csprng \<times> bytes" where
  "csprng_loop sha512 t need acc =
     (if need = 0 \<or> sha512 (prng_state t) = [] then (t, acc)
      else
        let t = t\<lparr>prng_state := sha512 (prng_state t)\<rparr>;
            random = (if need < length (prng_state t) then take need (prng_state t)
                      else prng_state t)
        in csprng_loop sha512 t (need - length (prng_state t)) (acc @ random))"
  by pat_completeness auto
termination by (relation "measure (\<lambda>(h, t, need, acc). need)") auto

declare csprng_loop.simps [simp del]

definition csprng_Read ::
  "(bytes \<Rightarrow> bytes) \<Rightarrow> sha512csprng \<Rightarrow> nat \<Rightarrow> sha512csprng \<times> bytes \<times> goerr option" where
  "csprng_Read sha512 t len = (let (t, out) = csprng_loop sha512 t len [] in (t, out, None))"

section \<open>Lemmas\<close>

lemma length_xor_at [simp]: "length (xor_at s pos src) = length src"
  by (simp add: xor_at_def)

lemma xor_at_nth [simp]: "i < length src \<Longrightarrow> xor_at s pos src ! i = src ! i XOR s (pos + i)"
  by (simp add: xor_at_def nth_enumerate_eq)

lemma xor_at_append: "xor_at s pos (a @ b) = xor_at s pos a @ xor_at s (pos + length a) b"
  by (rule nth_equalityI) (auto simp: nth_append)

lemma xor_at_invol [simp]: "xor_at s pos (xor_at s pos src) = src"
  by (rule nth_equalityI) (simp_all add: xor.assoc)

lemma xor_at_slice: "slice i n (xor_at s pos src) = xor_at s (pos + i) (slice i n src)"
  by (rule nth_equalityI) (auto simp: algebra_simps)

lemma xor_at_Nil [simp]: "xor_at s pos [] = []"
  by (simp add: xor_at_def)

lemma new_cipher_enough:
  "44 \<le> length (pending prng) \<Longrightarrow>
   new_cipher prng = (prng\<lparr>pending := drop 44 (pending prng)\<rparr>,
     Inr \<lparr>ckey = take 32 (pending prng), cnonce = slice 32 12 (pending prng), cpos = 0\<rparr>)"
  by (simp add: new_cipher_def KeySize_def NonceSize_def ReadFull_enough slice_def)

lemma new_cipher_short:
  "length (pending prng) < 44 \<Longrightarrow> \<exists>err. snd (new_cipher prng) = Inl err"
  by (auto simp: new_cipher_def KeySize_def NonceSize_def ReadFull_def Let_def
      split: prod.splits option.splits if_splits)

lemma XORKeyStream_append:
  "XORKeyStream ks c (a @ b) =
     (let (c1, x) = XORKeyStream ks c a; (c2, y) = XORKeyStream ks c1 b in (c2, x @ y))"
  by (simp add: XORKeyStream_def xor_at_append add.assoc)

text \<open>The position an offset cipher starts at is the offset when it is a multiple of the
  block size of the cipher.\<close>

lemma SetCounter_offset:
  "64 dvd unat (off :: u32) \<Longrightarrow> cpos (SetCounter (off div 64) c) = unat off"
  by (simp add: SetCounter_def unat_div)

lemma csprng_loop_length:
  assumes "\<And>x. length (sha512 x) = 64"
  shows "length (snd (csprng_loop sha512 t need acc)) = length acc + need"
  using assms
proof (induction sha512 t need acc rule: csprng_loop.induct)
  case (1 sha512 t need acc)
  show ?case
  proof (cases "need = 0")
    case False
    have "sha512 (prng_state t) \<noteq> []"
      using "1.prems" by (metis length_0_conv zero_neq_numeral)
    with False "1.IH" [OF _ refl refl] "1.prems" show ?thesis
      by (subst csprng_loop.simps) (simp add: Let_def)
  qed (simp add: csprng_loop.simps [of sha512 t])
qed

text \<open>Copying a ciphertext in any chunks through a decrypting writer over an offset writer
  stores the plain text at the offset and keeps what is held elsewhere.\<close>

context random_access
begin

lemma decrypt_copy:
  assumes "usable s" and "in_range off (length (concat cs))"
  shows "\<exists>w. io_copy (StreamWriter_Write ks (OffsetWriter_Write wr))
      \<lparr>sw_cipher = c, sw_dst = \<lparr>ow_store = s, ow_off = off\<rparr>\<rparr> cs rerr = Return (w, rerr) \<and>
    usable (ow_store (sw_dst w)) \<and>
    (\<forall>j < length (concat cs). view (ow_store (sw_dst w)) (off + int j) =
       Some (xor_at (ks (ckey c) (cnonce c)) (cpos c) (concat cs) ! j)) \<and>
    (\<forall>i b. 0 \<le> i \<longrightarrow> i < off \<or> off + int (length (concat cs)) \<le> i \<longrightarrow>
       view s i = Some b \<longrightarrow> view (ow_store (sw_dst w)) i = Some b)"
  using assms
proof (induction cs arbitrary: s off c)
  case Nil
  then show ?case by simp
next
  case (Cons x cs)
  let ?S = "ks (ckey c) (cnonce c)"
  let ?x = "xor_at ?S (cpos c) x"
  let ?c = "c\<lparr>cpos := cpos c + length x\<rparr>"
  have r: "in_range off (length ?x)" "in_range (off + int (length x)) (length (concat cs))"
    using Cons.prems(2) by (simp_all add: in_range_def)
  have o: "i64 (off + int (length x)) = off + int (length x)"
    using in_range_i64 [OF r(1)] by simp
  obtain s1 where s1: "wr s ?x off = Return (s1, length ?x, None)" "usable s1"
    using write_total [OF Cons.prems(1) r(1)] by auto
  obtain w where w: "io_copy (StreamWriter_Write ks (OffsetWriter_Write wr))
      \<lparr>sw_cipher = ?c, sw_dst = \<lparr>ow_store = s1, ow_off = off + int (length x)\<rparr>\<rparr> cs rerr =
        Return (w, rerr)"
    "usable (ow_store (sw_dst w))"
    "\<And>j. j < length (concat cs) \<Longrightarrow> view (ow_store (sw_dst w)) (off + int (length x) + int j) =
       Some (xor_at ?S (cpos c + length x) (concat cs) ! j)"
    "\<And>i b. 0 \<le> i \<Longrightarrow> i < off + int (length x) \<or>
       off + int (length x) + int (length (concat cs)) \<le> i \<Longrightarrow>
       view s1 i = Some b \<Longrightarrow> view (ow_store (sw_dst w)) i = Some b"
    using Cons.IH [OF s1(2) r(2), of ?c] by auto
  have step: "io_copy (StreamWriter_Write ks (OffsetWriter_Write wr))
      \<lparr>sw_cipher = c, sw_dst = \<lparr>ow_store = s, ow_off = off\<rparr>\<rparr> (x # cs) rerr = Return (w, rerr)"
    using w(1) s1(1) o by (simp add: StreamWriter_Write_def XORKeyStream_def OffsetWriter_Write_def)
  have inside: "view (ow_store (sw_dst w)) (off + int j) =
      Some (xor_at ?S (cpos c) (concat (x # cs)) ! j)" if "j < length (concat (x # cs))" for j
  proof (cases "j < length x")
    case True
    then have "view s1 (off + int j) = Some (?x ! j)"
      using write_inside [OF Cons.prems(1) r(1) s1(1)] by simp
    then have "view (ow_store (sw_dst w)) (off + int j) = Some (?x ! j)"
      using w(4) [of "off + int j"] True r(1) by (simp add: in_range_def)
    with True show ?thesis by (simp add: xor_at_append nth_append)
  next
    case False
    then have "off + int j = off + int (length x) + int (j - length x)" by simp
    moreover have "j - length x < length (concat cs)" using that False by simp
    ultimately have "view (ow_store (sw_dst w)) (off + int j) =
        Some (xor_at ?S (cpos c + length x) (concat cs) ! (j - length x))"
      using w(3) by (simp only:)
    with False show ?thesis by (simp add: xor_at_append nth_append)
  qed
  have outside: "view (ow_store (sw_dst w)) i = Some b"
    if "0 \<le> i" "i < off \<or> off + int (length (concat (x # cs))) \<le> i" "view s i = Some b" for i b
  proof (rule w(4) [OF that(1)])
    show "i < off + int (length x) \<or> off + int (length x) + int (length (concat cs)) \<le> i"
      using that(2) by auto
    show "view s1 i = Some b"
      using write_keeps [OF Cons.prems(1) r(1) s1(1) that(1) _ that(3)] that(2) by auto
  qed
  show ?case using step w(2) inside outside by blast
qed

end

section \<open>Properties\<close>

text \<open>C10: what \<^verbatim>\<open>NewReaderChaCha20\<close> encrypts, \<^verbatim>\<open>NewOffsetReaderChaCha20\<close> with the same
  generator decrypts from any offset that is a multiple of 64: the section of the
  ciphertext at the offset comes back as the section of the plain text.\<close>

theorem offset_decrypts_section:
  assumes "44 \<le> length (pending prng)" and "64 dvd unat off"
    and "NewReaderChaCha20 prng \<lparr>pending = plain, tail_err = Sentinel EOF\<rparr> = Inr enc"
    and "StreamReader_ReadAll ks enc = (secret, None)"
  shows "\<exists>dec. NewOffsetReaderChaCha20 prng
      \<lparr>pending = slice (unat off) n secret, tail_err = Sentinel EOF\<rparr> off = Inr dec \<and>
    StreamReader_ReadAll ks dec = (slice (unat off) n plain, None)"
proof -
  have secret: "secret = xor_at (ks (take 32 (pending prng)) (slice 32 12 (pending prng))) 0 plain"
    using assms(1,3,4)
    by (auto simp: NewReaderChaCha20_def new_cipher_enough StreamReader_ReadAll_def ReadAll_def
        XORKeyStream_def)
  show ?thesis
    using assms(1) SetCounter_offset [OF assms(2)]
    by (simp add: NewOffsetReaderChaCha20_def new_cipher_enough StreamReader_ReadAll_def ReadAll_def
        XORKeyStream_def secret xor_at_slice) (simp add: SetCounter_def)
qed

theorem offset_decrypts_section_witness:
  "\<exists>dec. NewOffsetReaderChaCha20 \<lparr>pending = replicate 44 0, tail_err = Sentinel EOF\<rparr>
      \<lparr>pending = slice 64 2 (xor_at of_nat 0 (replicate 66 7)), tail_err = Sentinel EOF\<rparr> 64 =
      Inr dec \<and>
    StreamReader_ReadAll (\<lambda>k n i. of_nat i) dec = (slice 64 2 (replicate 66 7), None)"
proof -
  let ?p = "\<lparr>pending = replicate 44 0, tail_err = Sentinel EOF\<rparr>"
  let ?src = "\<lparr>pending = replicate 66 7, tail_err = Sentinel EOF\<rparr>"
  let ?ks = "\<lambda>k n i. of_nat i :: byte"
  let ?enc = "\<lparr>sr_cipher = \<lparr>ckey = take 32 (replicate 44 0), cnonce = slice 32 12 (replicate 44 0),
    cpos = 0\<rparr>, sr_src = ?src\<rparr>"
  have "44 \<le> length (pending ?p)" by simp
  moreover have "64 dvd unat (64 :: u32)" by simp
  moreover have "NewReaderChaCha20 ?p ?src = Inr ?enc"
    by (simp add: NewReaderChaCha20_def new_cipher_enough)
  moreover have "StreamReader_ReadAll ?ks ?enc = (xor_at of_nat 0 (replicate 66 7), None)"
    by (simp add: StreamReader_ReadAll_def ReadAll_def XORKeyStream_def)
  ultimately show ?thesis
    using offset_decrypts_section [of ?p 64 "replicate 66 7" ?enc ?ks _ 2] by simp
qed

text \<open>The generator over SHA-512 always fills the whole buffer and never fails, for any
  hash with 64-byte digests.\<close>

theorem csprng_fills:
  assumes "\<forall>x. length (sha512 x) = 64"
  shows "\<exists>t' out. csprng_Read sha512 t len = (t', out, None) \<and> length out = len"
  using csprng_loop_length [of sha512 t len "[]"] assms
  by (auto simp: csprng_Read_def split: prod.split)

theorem csprng_fills_witness:
  "\<exists>t' out. csprng_Read (\<lambda>x. replicate 64 (of_nat (length x))) \<lparr>prng_state = []\<rparr> 100 =
     (t', out, None) \<and> length out = 100"
  by (rule csprng_fills) simp

end
