(* ===== verification/LibraryMeta.thy ===== *)
theory LibraryMeta
  imports Timex Uuidx Cryptox
begin

text \<open>
  The record of one piece of media, \<^verbatim>\<open>library.Metadata\<close> (generated from the table
  \<^verbatim>\<open>library_metadata\<close>), the options it is built with and the conditions the library
  selects rows by (\<^verbatim>\<open>shallows/library/metadata.go\<close>). A condition is the predicate its SQL
  text denotes; \<^verbatim>\<open>'infinity'\<close> is \<^verbatim>\<open>timex.Inf\<close>, which the driver stores as such.
\<close>

record Metadata =
  ArchiveID :: string
  AutoDescription :: string
  Bytes :: u64
  CreatedAt :: instant
  Description :: string
  DiskOffset :: u64
  DiskUsage :: u64
  EncryptionSeed :: string
  HiddenAt :: instant
  ID :: string
  Image :: string
  KnownMediaID :: string
  Mimetype :: string
  QuotaUsage :: u64
  TombstonedAt :: instant
  TorrentID :: string
  UpdatedAt :: instant

definition uuid_Nil_string :: string where
  "uuid_Nil_string = ''00000000-0000-0000-0000-000000000000''"

definition uuid_Max_string :: string where
  "uuid_Max_string = ''ffffffff-ffff-ffff-ffff-ffffffffffff''"

definition zero_metadata :: Metadata where
  "zero_metadata = \<lparr>ArchiveID = '''', AutoDescription = '''', Bytes = 0, CreatedAt = 0,
     Description = '''', DiskOffset = 0, DiskUsage = 0, EncryptionSeed = '''', HiddenAt = 0,
     ID = '''', Image = '''', KnownMediaID = '''', Mimetype = '''', QuotaUsage = 0,
     TombstonedAt = 0, TorrentID = '''', UpdatedAt = 0\<rparr>"

section \<open>Options\<close>

type_synonym MetadataOption = "Metadata \<Rightarrow> Metadata"

definition MetadataOptionDescription :: "string \<Rightarrow> MetadataOption" where
  "MetadataOptionDescription d m = m\<lparr>Description := d\<rparr>"

definition MetadataOptionKnownMediaID :: "string \<Rightarrow> MetadataOption" where
  "MetadataOptionKnownMediaID d m = m\<lparr>KnownMediaID := d\<rparr>"

definition MetadataOptionAutoDescription :: "string \<Rightarrow> MetadataOption" where
  "MetadataOptionAutoDescription d m = m\<lparr>AutoDescription := d\<rparr>"

definition MetadataOptionTorrentID :: "string \<Rightarrow> MetadataOption" where
  "MetadataOptionTorrentID d m = m\<lparr>TorrentID := d\<rparr>"

definition MetadataOptionEncryptionSeed :: "string \<Rightarrow> MetadataOption" where
  "MetadataOptionEncryptionSeed d m = m\<lparr>EncryptionSeed := d\<rparr>"

definition MetadataOptionArchivable :: "bool \<Rightarrow> MetadataOption" where
  "MetadataOptionArchivable b m = (if b then m\<lparr>ArchiveID := uuid_Max_string\<rparr> else m)"

definition MetadataOptionArchiveID :: "string \<Rightarrow> MetadataOption" where
  "MetadataOptionArchiveID d m = m\<lparr>ArchiveID := d\<rparr>"

definition MetadataOptionBytes :: "u64 \<Rightarrow> MetadataOption" where
  "MetadataOptionBytes d m = m\<lparr>Bytes := d\<rparr>"

definition MetadataOptionOffset :: "u64 \<Rightarrow> MetadataOption" where
  "MetadataOptionOffset d m = m\<lparr>DiskOffset := d\<rparr>"

definition MetadataOptionMimetype :: "string \<Rightarrow> MetadataOption" where
  "MetadataOptionMimetype s m = m\<lparr>Mimetype := s\<rparr>"

definition MetadataOptionCompose :: "MetadataOption list \<Rightarrow> MetadataOption" where
  "MetadataOptionCompose options m = fold (\<lambda>opt m. opt m) options m"

definition MetadataOptionJSONSafeEncode :: MetadataOption where
  "MetadataOptionJSONSafeEncode p =
     p\<lparr>CreatedAt := RFC3339NanoEncode (CreatedAt p),
       UpdatedAt := RFC3339NanoEncode (UpdatedAt p),
       HiddenAt := RFC3339NanoEncode (HiddenAt p),
       TombstonedAt := RFC3339NanoEncode (TombstonedAt p)\<rparr>"

definition MetadataOptionTestDefaults :: MetadataOption where
  "MetadataOptionTestDefaults p =
     p\<lparr>ID := uuid_Nil_string, ArchiveID := uuid_Nil_string, TorrentID := uuid_Nil_string,
       KnownMediaID := uuid_Nil_string, EncryptionSeed := uuid_Nil_string,
       Bytes := 16 * 1024, DiskOffset := 0\<rparr>"

text \<open>The random seed is the first argument.\<close>

definition NewMetadata :: "string \<Rightarrow> string \<Rightarrow> MetadataOption list \<Rightarrow> Metadata" where
  "NewMetadata seed ident options =
     Clone (zero_metadata\<lparr>ID := ident, TorrentID := uuid_Nil_string, ArchiveID := uuid_Nil_string,
       KnownMediaID := uuid_Nil_string, EncryptionSeed := seed\<rparr>) options"

section \<open>Conditions\<close>

fun char_less :: "string \<Rightarrow> string \<Rightarrow> bool" where
  "char_less [] b \<longleftrightarrow> b \<noteq> []"
| "char_less (x # a) [] \<longleftrightarrow> False"
| "char_less (x # a) (y # b) \<longleftrightarrow> (of_char x :: nat) < of_char y \<or> (x = y \<and> char_less a b)"

text \<open>\<^verbatim>\<open>squirrelx.In\<close> without values is no condition.\<close>

definition In_values :: "'a list \<Rightarrow> 'a \<Rightarrow> bool" where
  "In_values values v \<longleftrightarrow> values = [] \<or> v \<in> set values"

definition MetadataQueryMimetypes :: "string list \<Rightarrow> Metadata \<Rightarrow> bool" where
  "MetadataQueryMimetypes mimes m \<longleftrightarrow> In_values mimes (Mimetype m)"

text \<open>Identifiers of one spelling are compared as text, as the database compares their bytes.\<close>

definition MetadataQueryRandomAfter :: "string \<Rightarrow> Metadata \<Rightarrow> bool" where
  "MetadataQueryRandomAfter ident m \<longleftrightarrow> \<not> char_less (ID m) ident"

definition MetadataQueryRandomBefore :: "string \<Rightarrow> Metadata \<Rightarrow> bool" where
  "MetadataQueryRandomBefore ident m \<longleftrightarrow> char_less (ID m) ident"

definition MetadataQueryVisible :: "Metadata \<Rightarrow> bool" where
  "MetadataQueryVisible m \<longleftrightarrow> HiddenAt m = Inf"

definition MetadataQueryNotTombstoned :: "Metadata \<Rightarrow> bool" where
  "MetadataQueryNotTombstoned m \<longleftrightarrow> TombstonedAt m = Inf"

definition MetadataQueryByTorrentID :: "string \<Rightarrow> Metadata \<Rightarrow> bool" where
  "MetadataQueryByTorrentID tid m \<longleftrightarrow> TorrentID m = tid"

definition MetadataQueryHidden :: "instant \<Rightarrow> Metadata \<Rightarrow> bool" where
  "MetadataQueryHidden now m \<longleftrightarrow> HiddenAt m < now"

text \<open>The columns are of type \<^verbatim>\<open>UUID\<close>, so the case of a literal does not matter.\<close>

definition MetadataQueryArchived :: "Metadata \<Rightarrow> bool" where
  "MetadataQueryArchived m \<longleftrightarrow> ArchiveID m \<noteq> uuid_Nil_string \<and> ArchiveID m \<noteq> uuid_Max_string"

definition MetadataQueryArchivable :: "Metadata \<Rightarrow> bool" where
  "MetadataQueryArchivable m \<longleftrightarrow> ArchiveID m = uuid_Max_string"

definition MetadataQueryShared :: "Metadata \<Rightarrow> bool" where
  "MetadataQueryShared m \<longleftrightarrow> TorrentID m \<noteq> uuid_Nil_string \<and> ArchiveID m \<noteq> uuid_Max_string"

definition MetadataQueryNotIndexed :: "Metadata \<Rightarrow> bool" where
  "MetadataQueryNotIndexed m \<longleftrightarrow> AutoDescription m = ''''"

section \<open>The key of an archived piece of media\<close>

text \<open>\<^verbatim>\<open>MetadataChaCha8\<close>: \<^verbatim>\<open>uuid.FromStringOrNil\<close> of the UUID library, the digest and the
  generator of the standard library are parameters.\<close>

definition MetadataChaCha8 ::
  "(string \<Rightarrow> uuid) \<Rightarrow> (bytes \<Rightarrow> bytes) \<Rightarrow> (bytes \<Rightarrow> reader) \<Rightarrow> Metadata \<Rightarrow> reader" where
  "MetadataChaCha8 from_string md5 chacha8 md =
     chacha8 (chacha8_vector md5
       (FirstNonNil [from_string (EncryptionSeed md), from_string (ID md)]))"

section \<open>Lemmas\<close>

lemma archive_states:
  "MetadataQueryArchived m \<or> MetadataQueryArchivable m \<or> ArchiveID m = uuid_Nil_string"
  "\<not> (MetadataQueryArchived m \<and> MetadataQueryArchivable m)"
  by (auto simp: MetadataQueryArchived_def MetadataQueryArchivable_def)

lemma uuid_strings_ne [simp]: "uuid_Nil_string \<noteq> uuid_Max_string" "uuid_Max_string \<noteq> uuid_Nil_string"
  by (simp_all add: uuid_Nil_string_def uuid_Max_string_def)

end
