(* ===== verification/Tracking.thy ===== *)
theory Tracking
  imports Sqlx LibraryMeta
begin

text \<open>
  Torrents and the tables that track them: \<^verbatim>\<open>shallows/tracking\<close>.

  The names of the package that \<^verbatim>\<open>shallows/library\<close> has too carry a \<open>T\<close>, the fields of the
  records \<open>t_\<close>, \<open>u_\<close>, \<open>p_\<close> and \<open>f_\<close>. The generated queries of \<^verbatim>\<open>genieql.gen.go\<close> are statements on
  the tables of \<open>Sqlx\<close>, the columns set to \<^verbatim>\<open>DEFAULT\<close> take the defaults of the migrations under
  \<^verbatim>\<open>cmd/cmdmeta/.migrations\<close>. Infohashes are bytes, identifiers the text of a UUID. The
  digest \<^verbatim>\<open>md5\<close> followed by the text of a UUID is the parameter \<open>md5uuid\<close>, the transformer of
  \<^verbatim>\<open>golang.org/x/text\<close> the parameter \<open>transform\<close>.
\<close>

section \<open>Torrents\<close>

record TMetadata =
  t_Archivable :: bool
  t_AutoDescription :: string
  t_Bytes :: u64
  t_CreatedAt :: instant
  t_Description :: string
  t_Downloaded :: u64
  t_EncryptionSeed :: string
  t_HiddenAt :: instant
  t_ID :: string
  t_ImportedAt :: instant
  t_Infohash :: bytes
  t_InitiatedAt :: instant
  t_KnownMediaID :: string
  t_Mimetype :: string
  t_NextAnnounceAt :: instant
  t_PausedAt :: instant
  t_Peers :: u16
  t_Private :: bool
  t_Seeding :: bool
  t_TombstonedAt :: instant
  t_Tracker :: string
  t_UpdatedAt :: instant
  t_Uploaded :: u64
  t_VerifyAt :: instant

text \<open>The zero value of the struct; the zero \<^verbatim>\<open>time.Time\<close> is the first instant of the year 1.\<close>

definition zero_TMetadata :: TMetadata where
  "zero_TMetadata = \<lparr>t_Archivable = False, t_AutoDescription = '''', t_Bytes = 0, t_CreatedAt = 0,
     t_Description = '''', t_Downloaded = 0, t_EncryptionSeed = '''', t_HiddenAt = 0, t_ID = '''',
     t_ImportedAt = 0, t_Infohash = [], t_InitiatedAt = 0, t_KnownMediaID = '''',
     t_Mimetype = '''', t_NextAnnounceAt = 0, t_PausedAt = 0, t_Peers = 0, t_Private = False,
     t_Seeding = False, t_TombstonedAt = 0, t_Tracker = '''', t_UpdatedAt = 0, t_Uploaded = 0,
     t_VerifyAt = 0\<rparr>"

definition mime_Bittorrent :: string where
  "mime_Bittorrent = ''application/x-bittorrent''"

definition mime_RetrovibedMediaArchive :: string where
  "mime_RetrovibedMediaArchive = ''application/vnd.retrovibed.media.archive''"

subsection \<open>Valid UTF-8\<close>

text \<open>\<^verbatim>\<open>strings.ToValidUTF8\<close>. A string is its bytes; \<open>rune_width\<close> is the number of bytes of the
  rune a string starts with, 0 when it starts with none.\<close>

definition cont_byte :: "nat \<Rightarrow> nat \<Rightarrow> char \<Rightarrow> bool" where
  "cont_byte lo hi c \<longleftrightarrow> lo \<le> of_char c \<and> of_char c \<le> (hi :: nat)"

fun rune_width :: "string \<Rightarrow> nat" where
  "rune_width [] = 0"
| "rune_width (c # cs) =
     (let b = (of_char c :: nat);
          tail = (\<lambda>n. n \<le> length cs \<and> (\<forall>x \<in> set (take (n - 1) (drop 1 cs)). cont_byte 0x80 0xBF x))
      in if b < 0x80 then 1
      else if 0xC2 \<le> b \<and> b \<le> 0xDF then (if tail 1 \<and> cont_byte 0x80 0xBF (cs ! 0) then 2 else 0)
      else if 0xE0 \<le> b \<and> b \<le> 0xEF then
        (if tail 2 \<and> cont_byte (if b = 0xE0 then 0xA0 else 0x80) (if b = 0xED then 0x9F else 0xBF) (cs ! 0)
         then 3 else 0)
      else if 0xF0 \<le> b \<and> b \<le> 0xF4 then
        (if tail 3 \<and> cont_byte (if b = 0xF0 then 0x90 else 0x80) (if b = 0xF4 then 0x8F else 0xBF) (cs ! 0)
         then 4 else 0)
      else 0)"

lemma rune_width_le: "rune_width s \<le> length s"
  by (cases s) (auto simp: Let_def)

text \<open>A run of invalid bytes becomes one replacement.\<close>

function to_valid_utf8 :: "bool \<Rightarrow> string \<Rightarrow> string \<Rightarrow> string" where
  "to_valid_utf8 invalid replacement s =
     (case s of [] \<Rightarrow> []
      | c # cs \<Rightarrow>
          if rune_width s = 0
          then (if invalid then [] else replacement) @ to_valid_utf8 True replacement cs
          else take (rune_width s) s @ to_valid_utf8 False replacement (drop (rune_width s) s))"
  by pat_completeness auto
termination by (relation "measure (\<lambda>(i, r, s). length s)") auto

declare to_valid_utf8.simps [simp del]

definition ToValidUTF8 :: "string \<Rightarrow> string \<Rightarrow> string" where
  "ToValidUTF8 s replacement = to_valid_utf8 False replacement s"

text \<open>\<^verbatim>\<open>"\uFFFD"\<close>\<close>

definition replacement_char :: string where
  "replacement_char = [CHR 0xEF, CHR 0xBF, CHR 0xBD]"

subsection \<open>Descriptions and identifiers\<close>

definition NormalizedDescription :: "(string \<Rightarrow> goerr + string) \<Rightarrow> string \<Rightarrow> string" where
  "NormalizedDescription transform s =
     (case transform s of Inr text \<Rightarrow> CompactWhitespace text | Inl err \<Rightarrow> s)"

definition hex_digit :: "nat \<Rightarrow> char" where
  "hex_digit n = ''0123456789abcdef'' ! n"

definition hex_EncodeToString :: "bytes \<Rightarrow> string" where
  "hex_EncodeToString bs =
     concat (map (\<lambda>b. [hex_digit (unat b div 16), hex_digit (unat b mod 16)]) bs)"

definition DescriptionFromPath :: "(string \<Rightarrow> goerr + string) \<Rightarrow> TMetadata \<Rightarrow> string \<Rightarrow> string" where
  "DescriptionFromPath transform md path' =
     (let tmp = path_base path';
          tmp = (if hex_EncodeToString (t_Infohash md) = tmp then '''' else tmp)
      in NormalizedDescription transform (FirstNonBlank [tmp, t_Description md]))"

definition HashUID :: "(bytes \<Rightarrow> string) \<Rightarrow> bytes \<Rightarrow> string" where
  "HashUID md5uuid md = md5uuid md"

subsection \<open>Options\<close>

type_synonym TOption = "TMetadata \<Rightarrow> TMetadata"

text \<open>The fields of \<^verbatim>\<open>metainfo.Info\<close> and \<^verbatim>\<open>metainfo.Magnet\<close> the package reads.\<close>

record torrent_info =
  ti_Name :: string
  ti_TotalLength :: int
  ti_Private :: "bool option"

record magnet =
  mg_InfoHash :: bytes
  mg_DisplayName :: string

definition TMetadataOptionNoop :: TOption where
  "TMetadataOptionNoop m = m"

definition TMetadataOptionInitiate :: "instant \<Rightarrow> TOption" where
  "TMetadataOptionInitiate now md = md\<lparr>t_InitiatedAt := now\<rparr>"

definition TMetadataOptionFromInfo :: "torrent_info \<Rightarrow> TOption" where
  "TMetadataOptionFromInfo i m =
     m\<lparr>t_Description := ToValidUTF8 (ti_Name i) replacement_char,
       t_Bytes := word_of_int (ti_TotalLength i),
       t_Private := Autoderef False (ti_Private i)\<rparr>"

definition TMetadataOptionFromMagnet :: "magnet \<Rightarrow> TOption" where
  "TMetadataOptionFromMagnet i m =
     m\<lparr>t_Description := ToValidUTF8 (mg_DisplayName i) replacement_char\<rparr>"

definition TMetadataOptionMimetype :: "string \<Rightarrow> TOption" where
  "TMetadataOptionMimetype d m = m\<lparr>t_Mimetype := FirstNonBlank [d, mime_Bittorrent]\<rparr>"

definition TMetadataOptionDescription :: "string \<Rightarrow> TOption" where
  "TMetadataOptionDescription d m = m\<lparr>t_Description := d\<rparr>"

definition TMetadataOptionTrackers :: "string list \<Rightarrow> TOption" where
  "TMetadataOptionTrackers d m = m\<lparr>t_Tracker := FirstOrZero '''' d\<rparr>"

definition TMetadataOptionKnownMediaID :: "string \<Rightarrow> TOption" where
  "TMetadataOptionKnownMediaID d m = m\<lparr>t_KnownMediaID := d\<rparr>"

definition TMetadataOptionEntropySeed :: "(bytes \<Rightarrow> string) \<Rightarrow> bytes list \<Rightarrow> TOption" where
  "TMetadataOptionEntropySeed md5uuid d m = m\<lparr>t_EncryptionSeed := md5uuid (concat d)\<rparr>"

definition TMetadataOptionAutoArchive :: "bool \<Rightarrow> TOption" where
  "TMetadataOptionAutoArchive b m = m\<lparr>t_Archivable := b\<rparr>"

definition TMetadataOptionBytes :: "int \<Rightarrow> TOption" where
  "TMetadataOptionBytes b m = m\<lparr>t_Bytes := word_of_int b\<rparr>"

definition TMetadataOptionDownloaded :: "int \<Rightarrow> TOption" where
  "TMetadataOptionDownloaded b m = m\<lparr>t_Downloaded := word_of_int b\<rparr>"

definition TMetadataOptionAutoSeeding :: TOption where
  "TMetadataOptionAutoSeeding m = m\<lparr>t_Seeding := (t_Downloaded m = t_Bytes m)\<rparr>"

definition TMetadataOptionAutoDescription :: "(string \<Rightarrow> goerr + string) \<Rightarrow> TOption" where
  "TMetadataOptionAutoDescription transform m =
     m\<lparr>t_AutoDescription := NormalizedDescription transform (t_Description m)\<rparr>"

text \<open>The random seed is an argument.\<close>

definition NewTMetadata :: "(bytes \<Rightarrow> string) \<Rightarrow> string \<Rightarrow> bytes \<Rightarrow> TOption list \<Rightarrow> TMetadata" where
  "NewTMetadata md5uuid seed md options =
     Clone (zero_TMetadata\<lparr>t_ID := HashUID md5uuid md, t_Infohash := md, t_InitiatedAt := Inf,
       t_NextAnnounceAt := Inf, t_KnownMediaID := uuid_Max_string, t_EncryptionSeed := seed,
       t_Mimetype := mime_Bittorrent\<rparr>) options"

definition TMetadataOptionTestDefaults :: "(bytes \<Rightarrow> string) \<Rightarrow> string \<Rightarrow> bytes \<Rightarrow> TOption" where
  "TMetadataOptionTestDefaults md5uuid seed hash m = NewTMetadata md5uuid seed hash []"

subsection \<open>Conditions\<close>

definition TMetadataQueryNotInitiated :: "TMetadata \<Rightarrow> bool" where
  "TMetadataQueryNotInitiated m \<longleftrightarrow> t_InitiatedAt m = Inf"

definition TMetadataQueryInitiated :: "instant \<Rightarrow> TMetadata \<Rightarrow> bool" where
  "TMetadataQueryInitiated now m \<longleftrightarrow> t_InitiatedAt m < now"

definition TMetadataQueryIncomplete :: "TMetadata \<Rightarrow> bool" where
  "TMetadataQueryIncomplete m \<longleftrightarrow> t_Downloaded m < t_Bytes m"

definition TMetadataQueryCompleted :: "bool \<Rightarrow> TMetadata \<Rightarrow> bool" where
  "TMetadataQueryCompleted b m \<longleftrightarrow>
     (if b then t_Downloaded m \<ge> t_Bytes m else t_Downloaded m < t_Bytes m)"

definition TMetadataQueryNotPaused :: "TMetadata \<Rightarrow> bool" where
  "TMetadataQueryNotPaused m \<longleftrightarrow> t_PausedAt m = Inf"

definition TMetadataQueryNeedsVerification :: "instant \<Rightarrow> TMetadata \<Rightarrow> bool" where
  "TMetadataQueryNeedsVerification now m \<longleftrightarrow> t_VerifyAt m < now"

definition TMetadataQuerySeeding :: "TMetadata \<Rightarrow> bool" where
  "TMetadataQuerySeeding m \<longleftrightarrow> t_Seeding m"

definition TMetadataQueryHasTracker :: "TMetadata \<Rightarrow> bool" where
  "TMetadataQueryHasTracker m \<longleftrightarrow> t_Tracker m \<noteq> ''''"

definition TMetadataQueryNeedsAnnounce :: "instant \<Rightarrow> TMetadata \<Rightarrow> bool" where
  "TMetadataQueryNeedsAnnounce now m \<longleftrightarrow> t_NextAnnounceAt m < now"

definition TMetadataQueryAnnounceable :: "TMetadata \<Rightarrow> bool" where
  "TMetadataQueryAnnounceable m \<longleftrightarrow> t_NextAnnounceAt m < Inf"

definition TMetadataQueryNeedsKnownMediaID :: "TMetadata \<Rightarrow> bool" where
  "TMetadataQueryNeedsKnownMediaID m \<longleftrightarrow> t_KnownMediaID m = uuid_Max_string"

definition TMetadataQueryMetadataArchive :: "TMetadata \<Rightarrow> bool" where
  "TMetadataQueryMetadataArchive m \<longleftrightarrow> t_Mimetype m = mime_RetrovibedMediaArchive"

definition TMetadataQueryCreatedAfter :: "instant \<Rightarrow> instant \<Rightarrow> TMetadata \<Rightarrow> bool" where
  "TMetadataQueryCreatedAfter now ts m \<longleftrightarrow> ts \<le> t_CreatedAt m \<and> t_CreatedAt m \<le> now"

definition TMetadataQueryNotImported :: "TMetadata \<Rightarrow> bool" where
  "TMetadataQueryNotImported m \<longleftrightarrow> t_ImportedAt m = Inf"

section \<open>Rows\<close>

text \<open>The columns of a row as the driver scans them: \<open>None\<close> is NULL, identifiers are raw bytes,
  which \<^verbatim>\<open>uuid.FromBytes\<close> and \<^verbatim>\<open>String\<close> of the UUID library (the parameter \<open>uid\<close>) turn into
  text.\<close>

record torrent_columns =
  tc0 :: "bool option"
  tc1 :: "string option"
  tc2 :: "u64 option"
  tc3 :: "instant option"
  tc4 :: "string option"
  tc5 :: "u64 option"
  tc6 :: "bytes option"
  tc7 :: "instant option"
  tc8 :: "bytes option"
  tc9 :: "instant option"
  tc10 :: bytes
  tc11 :: "instant option"
  tc12 :: "bytes option"
  tc13 :: "string option"
  tc14 :: "instant option"
  tc15 :: "instant option"
  tc16 :: "32 word option"
  tc17 :: "bool option"
  tc18 :: "bool option"
  tc19 :: "instant option"
  tc20 :: "string option"
  tc21 :: "instant option"
  tc22 :: "u64 option"
  tc23 :: "instant option"

definition column :: "'a \<Rightarrow> 'a option \<Rightarrow> 'a" where
  "column old c = (case c of None \<Rightarrow> old | Some v \<Rightarrow> v)"

definition column_uid :: "(bytes \<Rightarrow> goerr + string) \<Rightarrow> string \<Rightarrow> bytes option \<Rightarrow> goerr + string" where
  "column_uid uid old c = (case c of None \<Rightarrow> Inr old | Some b \<Rightarrow> uid b)"

text \<open>\<^verbatim>\<open>Scan\<close> stops at the first identifier that is not 16 bytes, with the fields before it
  already set.\<close>

definition TMetadata_Scan ::
  "(bytes \<Rightarrow> goerr + string) \<Rightarrow> goerr + torrent_columns \<Rightarrow> TMetadata \<Rightarrow> TMetadata \<times> goerr option" where
  "TMetadata_Scan uid row i =
     (case row of
        Inl err \<Rightarrow> (i, Some err)
      | Inr c \<Rightarrow>
          let i = i\<lparr>t_Archivable := column (t_Archivable i) (tc0 c),
                t_AutoDescription := column (t_AutoDescription i) (tc1 c),
                t_Bytes := column (t_Bytes i) (tc2 c),
                t_CreatedAt := column (t_CreatedAt i) (tc3 c),
                t_Description := column (t_Description i) (tc4 c),
                t_Downloaded := column (t_Downloaded i) (tc5 c)\<rparr> in
          (case column_uid uid (t_EncryptionSeed i) (tc6 c) of
             Inl err \<Rightarrow> (i, Some err)
           | Inr seed \<Rightarrow>
               let i = i\<lparr>t_EncryptionSeed := seed, t_HiddenAt := column (t_HiddenAt i) (tc7 c)\<rparr> in
               (case column_uid uid (t_ID i) (tc8 c) of
                  Inl err \<Rightarrow> (i, Some err)
                | Inr ident \<Rightarrow>
                    let i = i\<lparr>t_ID := ident, t_ImportedAt := column (t_ImportedAt i) (tc9 c),
                          t_Infohash := tc10 c,
                          t_InitiatedAt := column (t_InitiatedAt i) (tc11 c)\<rparr> in
                    (case column_uid uid (t_KnownMediaID i) (tc12 c) of
                       Inl err \<Rightarrow> (i, Some err)
                     | Inr known \<Rightarrow>
                         (i\<lparr>t_KnownMediaID := known, t_Mimetype := column (t_Mimetype i) (tc13 c),
                            t_NextAnnounceAt := column (t_NextAnnounceAt i) (tc14 c),
                            t_PausedAt := column (t_PausedAt i) (tc15 c),
                            t_Peers := column (t_Peers i) (map_option ucast (tc16 c)),
                            t_Private := column (t_Private i) (tc17 c),
                            t_Seeding := column (t_Seeding i) (tc18 c),
                            t_TombstonedAt := column (t_TombstonedAt i) (tc19 c),
                            t_Tracker := column (t_Tracker i) (tc20 c),
                            t_UpdatedAt := column (t_UpdatedAt i) (tc21 c),
                            t_Uploaded := column (t_Uploaded i) (tc22 c),
                            t_VerifyAt := column (t_VerifyAt i) (tc23 c)\<rparr>, None)))))"

text \<open>The columns the database answers with for a stored row; \<open>raw\<close> is the bytes of an
  identifier.\<close>

definition torrent_returning :: "(string \<Rightarrow> bytes) \<Rightarrow> TMetadata \<Rightarrow> torrent_columns" where
  "torrent_returning raw m =
     \<lparr>tc0 = Some (t_Archivable m), tc1 = Some (t_AutoDescription m), tc2 = Some (t_Bytes m),
      tc3 = Some (t_CreatedAt m), tc4 = Some (t_Description m), tc5 = Some (t_Downloaded m),
      tc6 = Some (raw (t_EncryptionSeed m)), tc7 = Some (t_HiddenAt m),
      tc8 = Some (raw (t_ID m)), tc9 = Some (t_ImportedAt m), tc10 = t_Infohash m,
      tc11 = Some (t_InitiatedAt m), tc12 = Some (raw (t_KnownMediaID m)),
      tc13 = Some (t_Mimetype m), tc14 = Some (t_NextAnnounceAt m), tc15 = Some (t_PausedAt m),
      tc16 = Some (ucast (t_Peers m)), tc17 = Some (t_Private m), tc18 = Some (t_Seeding m),
      tc19 = Some (t_TombstonedAt m), tc20 = Some (t_Tracker m), tc21 = Some (t_UpdatedAt m),
      tc22 = Some (t_Uploaded m), tc23 = Some (t_VerifyAt m)\<rparr>"

section \<open>Statements on torrents\<close>

type_synonym torrents = "TMetadata list"
type_synonym torrent_query = "torrents \<Rightarrow> torrents \<times> (goerr + TMetadata)"

definition by_id :: "sqldb \<Rightarrow> string \<Rightarrow> (TMetadata \<Rightarrow> TMetadata) \<Rightarrow> torrent_query" where
  "by_id db ident f = update_where db (\<lambda>m. t_ID m = ident) (\<lambda>m. Inr (f m))"

definition TMetadataTombstoneByID :: "sqldb \<Rightarrow> string \<Rightarrow> torrent_query" where
  "TMetadataTombstoneByID db ident =
     by_id db ident (\<lambda>m. m\<lparr>t_TombstonedAt := sql_now db, t_InitiatedAt := Inf, t_Seeding := False\<rparr>)"

definition TMetadataDeleteByID :: "sqldb \<Rightarrow> string \<Rightarrow> torrent_query" where
  "TMetadataDeleteByID db ident = delete_where db (\<lambda>m. t_ID m = ident)"

definition TMetadataFindByID :: "sqldb \<Rightarrow> string \<Rightarrow> torrents \<Rightarrow> goerr + TMetadata" where
  "TMetadataFindByID db ident = find_where db (\<lambda>m. t_ID m = ident)"

definition TMetadataPausedByID :: "sqldb \<Rightarrow> string \<Rightarrow> torrent_query" where
  "TMetadataPausedByID db ident =
     by_id db ident (\<lambda>m. m\<lparr>t_PausedAt := sql_now db, t_InitiatedAt := Inf\<rparr>)"

definition TMetadataDownloadByID :: "sqldb \<Rightarrow> string \<Rightarrow> torrent_query" where
  "TMetadataDownloadByID db ident =
     by_id db ident (\<lambda>m. m\<lparr>t_PausedAt := Inf, t_InitiatedAt := sql_now db\<rparr>)"

definition TMetadataAutoDownloadByID :: "sqldb \<Rightarrow> string \<Rightarrow> torrent_query" where
  "TMetadataAutoDownloadByID db ident = by_id db ident (\<lambda>m. m\<lparr>t_InitiatedAt := sql_now db\<rparr>)"

definition TMetadataProgressByID :: "sqldb \<Rightarrow> string \<Rightarrow> u16 \<Rightarrow> u64 \<Rightarrow> torrent_query" where
  "TMetadataProgressByID db ident peers downloaded =
     by_id db ident (\<lambda>m. m\<lparr>t_UpdatedAt := sql_now db, t_Downloaded := downloaded, t_Peers := peers,
       t_Seeding := (t_Bytes m = downloaded)\<rparr>)"

definition TMetadataImportedByID :: "sqldb \<Rightarrow> string \<Rightarrow> torrent_query" where
  "TMetadataImportedByID db ident =
     by_id db ident (\<lambda>m. m\<lparr>t_UpdatedAt := sql_now db, t_ImportedAt := sql_now db\<rparr>)"

definition TMetadataVerifyByID :: "sqldb \<Rightarrow> string \<Rightarrow> u16 \<Rightarrow> u64 \<Rightarrow> torrent_query" where
  "TMetadataVerifyByID db ident peers downloaded =
     by_id db ident (\<lambda>m. m\<lparr>t_UpdatedAt := sql_now db, t_Downloaded := downloaded, t_Peers := peers,
       t_Seeding := (t_Bytes m = downloaded), t_VerifyAt := Inf\<rparr>)"

definition TMetadataCompleteByID :: "sqldb \<Rightarrow> string \<Rightarrow> u16 \<Rightarrow> u64 \<Rightarrow> u64 \<Rightarrow> torrent_query" where
  "TMetadataCompleteByID db ident peers downloaded uploaded =
     by_id db ident (\<lambda>m. m\<lparr>t_UpdatedAt := sql_now db, t_VerifyAt := sql_now db,
       t_Downloaded := downloaded, t_Uploaded := uploaded, t_Peers := peers,
       t_Seeding := (t_Bytes m = downloaded)\<rparr>)"

text \<open>The sum of two \<^verbatim>\<open>UBIGINT\<close> fails when it is out of their range.\<close>

definition sql_add :: "sqldb \<Rightarrow> u64 \<Rightarrow> u64 \<Rightarrow> goerr + u64" where
  "sql_add db a b = (if unat a + unat b < 2 ^ 64 then Inr (a + b) else Inl (sql_range db))"

definition TMetadataUploadedByID :: "sqldb \<Rightarrow> bytes \<Rightarrow> u64 \<Rightarrow> torrent_query" where
  "TMetadataUploadedByID db infohash uploaded =
     update_where db (\<lambda>m. t_Infohash m = infohash)
       (\<lambda>m. case sql_add db (t_Uploaded m) uploaded of
           Inl e \<Rightarrow> Inl e
         | Inr n \<Rightarrow> Inr (m\<lparr>t_UpdatedAt := sql_now db, t_Uploaded := n\<rparr>))"

definition TMetadataAnnounced :: "sqldb \<Rightarrow> string \<Rightarrow> instant \<Rightarrow> torrent_query" where
  "TMetadataAnnounced db ident nextts =
     by_id db ident (\<lambda>m. m\<lparr>t_UpdatedAt := sql_now db, t_NextAnnounceAt := nextts\<rparr>)"

definition TMetadataDisableAnnounced :: "sqldb \<Rightarrow> string \<Rightarrow> torrent_query" where
  "TMetadataDisableAnnounced db ident =
     by_id db ident (\<lambda>m. m\<lparr>t_UpdatedAt := sql_now db, t_NextAnnounceAt := Inf\<rparr>)"

definition TMetadataAssignKnownMediaID :: "sqldb \<Rightarrow> string \<Rightarrow> string \<Rightarrow> torrent_query" where
  "TMetadataAssignKnownMediaID db ident kid =
     by_id db ident (\<lambda>m. m\<lparr>t_UpdatedAt := sql_now db, t_KnownMediaID := kid\<rparr>)"

text \<open>The row an insert makes: the arguments of \<^verbatim>\<open>MetadataInsertWithDefaultsExplode\<close> in their
  columns and the defaults of the table in the others.\<close>

definition TMetadataInsert_row :: "sqldb \<Rightarrow> TMetadata \<Rightarrow> TMetadata" where
  "TMetadataInsert_row db a =
     \<lparr>t_Archivable = t_Archivable a, t_AutoDescription = t_AutoDescription a,
      t_Bytes = t_Bytes a, t_CreatedAt = sql_now db, t_Description = t_Description a,
      t_Downloaded = t_Downloaded a, t_EncryptionSeed = t_EncryptionSeed a, t_HiddenAt = Inf,
      t_ID = t_ID a, t_ImportedAt = Inf, t_Infohash = t_Infohash a, t_InitiatedAt = Inf,
      t_KnownMediaID = t_KnownMediaID a, t_Mimetype = t_Mimetype a, t_NextAnnounceAt = Inf,
      t_PausedAt = Inf, t_Peers = t_Peers a, t_Private = t_Private a, t_Seeding = t_Seeding a,
      t_TombstonedAt = t_TombstonedAt a, t_Tracker = t_Tracker a, t_UpdatedAt = sql_now db,
      t_Uploaded = t_Uploaded a, t_VerifyAt = Inf\<rparr>"

definition TMetadata_conflict :: "sqldb \<Rightarrow> TMetadata \<Rightarrow> TMetadata \<Rightarrow> goerr + TMetadata" where
  "TMetadata_conflict db old new =
     Inr (old\<lparr>t_UpdatedAt := sql_now db, t_Tracker := t_Tracker new\<rparr>)"

definition TMetadataInsertWithDefaults :: "sqldb \<Rightarrow> TMetadata \<Rightarrow> torrent_query" where
  "TMetadataInsertWithDefaults db a =
     upsert t_ID db (TMetadata_conflict db) (TMetadataInsert_row db a)"

subsection \<open>Batches\<close>

text \<open>\<^verbatim>\<open>NewMetadataBatchInsertWithDefaults\<close>: an iterator that inserts the rows it is given in
  statements of at most ten rows, without a conflict clause. A scanner holds the row \<^verbatim>\<open>Scan\<close>
  reads, the rows to come and what \<^verbatim>\<open>Close\<close> returns.\<close>

datatype scanner =
    ErrScanner goerr
  | RowsScanner "TMetadata option" "TMetadata list" "goerr option"

fun scanner_Next :: "scanner \<Rightarrow> scanner \<times> bool" where
  "scanner_Next (ErrScanner e) = (ErrScanner e, False)"
| "scanner_Next (RowsScanner cur [] c) = (RowsScanner None [] c, False)"
| "scanner_Next (RowsScanner cur (r # rs) c) = (RowsScanner (Some r) rs c, True)"

fun scanner_Scan :: "scanner \<Rightarrow> goerr + TMetadata" where
  "scanner_Scan (ErrScanner e) = Inl e"
| "scanner_Scan (RowsScanner (Some r) rs c) = Inr r"
| "scanner_Scan (RowsScanner None rs c) = Inl (Fundamental ''sql: Scan called without calling Next'')"

fun scanner_Err :: "scanner \<Rightarrow> goerr option" where
  "scanner_Err (ErrScanner e) = Some e"
| "scanner_Err (RowsScanner cur rs c) = None"

fun scanner_Close :: "scanner \<Rightarrow> goerr option" where
  "scanner_Close (ErrScanner e) = None"
| "scanner_Close (RowsScanner cur rs c) = c"

definition NewTMetadataScannerStatic :: "goerr option \<Rightarrow> goerr + TMetadata list \<Rightarrow> scanner" where
  "NewTMetadataScannerStatic c result =
     (case result of Inl e \<Rightarrow> ErrScanner e | Inr rows \<Rightarrow> RowsScanner None rows c)"

definition TMetadataBatch_row :: "sqldb \<Rightarrow> TMetadata \<Rightarrow> TMetadata" where
  "TMetadataBatch_row db p =
     p\<lparr>t_CreatedAt := sql_now db, t_Downloaded := 0, t_HiddenAt := Inf, t_InitiatedAt := Inf,
       t_NextAnnounceAt := Inf, t_PausedAt := Inf, t_UpdatedAt := sql_now db\<rparr>"

definition insert_rows ::
  "sqldb \<Rightarrow> TMetadata list \<Rightarrow> torrents \<Rightarrow> torrents \<times> (goerr + TMetadata list)" where
  "insert_rows db rows tbl =
     (case sql_err db of
        Some e \<Rightarrow> (tbl, Inl e)
      | None \<Rightarrow>
          if distinct (map t_ID (tbl @ rows)) then (tbl @ rows, Inr rows)
          else (tbl, Inl (sql_duplicate db)))"

record batch =
  b_remaining :: "TMetadata list"
  b_scanner :: "scanner option"

definition NewTMetadataBatchInsertWithDefaults :: "TMetadata list \<Rightarrow> batch" where
  "NewTMetadataBatchInsertWithDefaults p = \<lparr>b_remaining = p, b_scanner = None\<rparr>"

definition batch_Scan :: "batch \<Rightarrow> (goerr + TMetadata) outcome" where
  "batch_Scan b = (case b_scanner b of None \<Rightarrow> Panic | Some s \<Rightarrow> Return (scanner_Scan s))"

definition batch_Err :: "batch \<Rightarrow> goerr option" where
  "batch_Err b = (case b_scanner b of None \<Rightarrow> None | Some s \<Rightarrow> scanner_Err s)"

definition batch_Close :: "batch \<Rightarrow> goerr option" where
  "batch_Close b = (case b_scanner b of None \<Rightarrow> None | Some s \<Rightarrow> scanner_Close s)"

text \<open>\<open>c\<close> is what closing the new scanner returns.\<close>

definition advance ::
  "sqldb \<Rightarrow> goerr option \<Rightarrow> TMetadata list \<Rightarrow> torrents \<Rightarrow>
   torrents \<times> scanner option \<times> TMetadata list \<times> bool" where
  "advance db c p tbl =
     (if p = [] then (tbl, None, [], False)
      else if length p < 10 then
        (let (tbl', result) = insert_rows db (map (TMetadataBatch_row db) p) tbl
         in (tbl', Some (NewTMetadataScannerStatic c result), [], True))
      else
        (let (tbl', result) = insert_rows db (map (TMetadataBatch_row db) (take 10 p)) tbl
         in (tbl', Some (NewTMetadataScannerStatic c result), [], False)))"

definition batch_Next :: "sqldb \<Rightarrow> goerr option \<Rightarrow> batch \<Rightarrow> torrents \<Rightarrow> torrents \<times> batch \<times> bool" where
  "batch_Next db c b tbl =
     (let (b, more) = (case b_scanner b of None \<Rightarrow> (b, False)
             | Some s \<Rightarrow> (let (s', more) = scanner_Next s in (b\<lparr>b_scanner := Some s'\<rparr>, more))) in
      if more then (tbl, b, True)
      else if b_remaining b \<noteq> [] \<and> batch_Close b = None then
        (let (tbl', s, rest, advanced) = advance db c (b_remaining b) tbl in
         if \<not> advanced then (tbl', \<lparr>b_remaining = rest, b_scanner = s\<rparr>, False)
         else (case s of None \<Rightarrow> (tbl', \<lparr>b_remaining = rest, b_scanner = None\<rparr>, False)
           | Some s \<Rightarrow> (let (s', more) = scanner_Next s
               in (tbl', \<lparr>b_remaining = rest, b_scanner = Some s'\<rparr>, more))))
      else (tbl, b, False))"

text \<open>The loop of \<^verbatim>\<open>sqlx.Scan(...).Iter()\<close> over the iterator: the rows it yields and its cause,
  within a number of rounds.\<close>

fun batch_rows ::
  "nat \<Rightarrow> sqldb \<Rightarrow> goerr option \<Rightarrow> batch \<Rightarrow> torrents \<Rightarrow>
   (torrents \<times> TMetadata list \<times> goerr option) option" where
  "batch_rows 0 db c b tbl = None"
| "batch_rows (Suc n) db c b tbl =
     (case batch_Next db c b tbl of
        (tbl', b', False) \<Rightarrow> Some (tbl', [], batch_Err b')
      | (tbl', b', True) \<Rightarrow>
          (case batch_Scan b' of
             Panic \<Rightarrow> None
           | Return (Inl e) \<Rightarrow> Some (tbl', [], withStack (Some e))
           | Return (Inr r) \<Rightarrow>
               (case batch_rows n db c b' tbl' of
                  None \<Rightarrow> None
                | Some (tbl'', rs, err) \<Rightarrow> Some (tbl'', r # rs, err))))"

section \<open>Infohashes without metadata\<close>

record UnknownHash =
  u_Attempts :: u64
  u_CreatedAt :: instant
  u_ID :: string
  u_Infohash :: bytes
  u_NextCheck :: instant
  u_UpdatedAt :: instant

definition NewUnknownHash :: "(bytes \<Rightarrow> string) \<Rightarrow> bytes \<Rightarrow> (UnknownHash \<Rightarrow> UnknownHash) list \<Rightarrow> UnknownHash" where
  "NewUnknownHash md5uuid md options =
     Clone \<lparr>u_Attempts = 0, u_CreatedAt = 0, u_ID = HashUID md5uuid md, u_Infohash = md,
       u_NextCheck = 0, u_UpdatedAt = 0\<rparr> options"

definition UnknownHashQueryNeedsCheck :: "instant \<Rightarrow> UnknownHash \<Rightarrow> bool" where
  "UnknownHashQueryNeedsCheck now u \<longleftrightarrow> u_NextCheck u < now"

definition UnknownHash_row :: "sqldb \<Rightarrow> UnknownHash \<Rightarrow> UnknownHash" where
  "UnknownHash_row db a = a\<lparr>u_CreatedAt := sql_now db, u_UpdatedAt := sql_now db\<rparr>"

type_synonym unknown_query = "UnknownHash list \<Rightarrow> UnknownHash list \<times> (goerr + UnknownHash)"

definition UnknownHashInsertWithDefaults :: "sqldb \<Rightarrow> UnknownHash \<Rightarrow> unknown_query" where
  "UnknownHashInsertWithDefaults db a =
     upsert u_ID db (\<lambda>old new. Inr (old\<lparr>u_UpdatedAt := sql_now db\<rparr>)) (UnknownHash_row db a)"

text \<open>\<^verbatim>\<open>NOW()\<close> plus an interval of seconds: the microseconds of the interval are 64 bits, and so
  are those of the timestamp since the epoch.\<close>

definition sql_after :: "sqldb \<Rightarrow> int \<Rightarrow> goerr + instant" where
  "sql_after db seconds =
     (if in_i64 (seconds * 1000000) \<and>
         in_i64 ((sql_now db + seconds * Second - unix_to_internal * Second) div 1000)
      then Inr (sql_now db + seconds * Second) else Inl (sql_range db))"

text \<open>\<^verbatim>\<open>least(to_minutes(CAST(attempts AS INT) * 2), to_hours(24))\<close> in seconds; the cast and the
  product are 32 bits.\<close>

definition cooldown_seconds :: "sqldb \<Rightarrow> u64 \<Rightarrow> goerr + int" where
  "cooldown_seconds db attempts =
     (if 2 * uint attempts < 2 ^ 31 then Inr (min (2 * uint attempts * 60) (24 * 3600))
      else Inl (sql_range db))"

definition cooldown_conflict :: "sqldb \<Rightarrow> UnknownHash \<Rightarrow> UnknownHash \<Rightarrow> goerr + UnknownHash" where
  "cooldown_conflict db old new =
     (case sql_add db (u_Attempts new) 1 of
        Inl e \<Rightarrow> Inl e
      | Inr attempts \<Rightarrow>
          (case cooldown_seconds db (u_Attempts new) of
             Inl e \<Rightarrow> Inl e
           | Inr secs \<Rightarrow>
               (case sql_after db secs of
                  Inl e \<Rightarrow> Inl e
                | Inr t \<Rightarrow> Inr (old\<lparr>u_UpdatedAt := sql_now db, u_Attempts := attempts,
                                   u_NextCheck := t\<rparr>))))"

definition UnknownHashCooldown :: "sqldb \<Rightarrow> UnknownHash \<Rightarrow> unknown_query" where
  "UnknownHashCooldown db a = upsert u_ID db (cooldown_conflict db) (UnknownHash_row db a)"

definition UnknownHashDeleteByID :: "sqldb \<Rightarrow> string \<Rightarrow> unknown_query" where
  "UnknownHashDeleteByID db ident = delete_where db (\<lambda>u. u_ID u = ident)"

section \<open>Peers\<close>

record Peer =
  p_Bep51 :: bool
  p_Bep51Available :: u64
  p_Bep51TTL :: u16
  p_CreatedAt :: instant
  p_ID :: string
  p_IP :: string
  p_Network :: string
  p_NextCheck :: instant
  p_Peer :: bytes
  p_Port :: u16
  p_UpdatedAt :: instant

text \<open>What the package reads of \<^verbatim>\<open>krpc.NodeInfo\<close>.\<close>

record node_info =
  n_ID :: bytes
  n_Network :: string
  n_IP :: string
  n_Port :: u16

definition PeerOptionBEP51 :: "u64 \<Rightarrow> u16 \<Rightarrow> Peer \<Rightarrow> Peer" where
  "PeerOptionBEP51 available ttl p = p\<lparr>p_Bep51 := True, p_Bep51Available := available, p_Bep51TTL := ttl\<rparr>"

definition NewPeer :: "(bytes \<Rightarrow> string) \<Rightarrow> node_info \<Rightarrow> (Peer \<Rightarrow> Peer) list \<Rightarrow> Peer" where
  "NewPeer md5uuid md options =
     Clone \<lparr>p_Bep51 = False, p_Bep51Available = 0, p_Bep51TTL = 0, p_CreatedAt = 0,
       p_ID = md5uuid (n_ID md), p_IP = n_IP md, p_Network = n_Network md, p_NextCheck = 0,
       p_Peer = n_ID md, p_Port = n_Port md, p_UpdatedAt = 0\<rparr> options"

definition PeerQueryNeedsCheck :: "instant \<Rightarrow> Peer \<Rightarrow> bool" where
  "PeerQueryNeedsCheck now p \<longleftrightarrow> p_NextCheck p < now"

definition PeerQueryHasInfoHashes :: "Peer \<Rightarrow> bool" where
  "PeerQueryHasInfoHashes p \<longleftrightarrow> p_Bep51Available p > 0"

type_synonym peer_query = "Peer list \<Rightarrow> Peer list \<times> (goerr + Peer)"

definition Peer_row :: "sqldb \<Rightarrow> Peer \<Rightarrow> Peer" where
  "Peer_row db a = a\<lparr>p_CreatedAt := sql_now db, p_NextCheck := NegInf, p_UpdatedAt := sql_now db\<rparr>"

definition PeerInsertWithDefaults :: "sqldb \<Rightarrow> Peer \<Rightarrow> peer_query" where
  "PeerInsertWithDefaults db a =
     upsert p_ID db (\<lambda>old new. Inr (old\<lparr>p_UpdatedAt := sql_now db, p_IP := p_IP new,
       p_Port := p_Port new, p_Bep51Available := p_Bep51Available new\<rparr>)) (Peer_row db a)"

definition next_check_conflict :: "sqldb \<Rightarrow> Peer \<Rightarrow> Peer \<Rightarrow> goerr + Peer" where
  "next_check_conflict db old new =
     (case sql_after db (uint (p_Bep51TTL new)) of
        Inl e \<Rightarrow> Inl e
      | Inr t \<Rightarrow> Inr (old\<lparr>p_UpdatedAt := sql_now db, p_NextCheck := t\<rparr>))"

definition PeerMarkNextCheck :: "sqldb \<Rightarrow> Peer \<Rightarrow> peer_query" where
  "PeerMarkNextCheck db a = upsert p_ID db (next_check_conflict db) (Peer_row db a)"

section \<open>Feeds\<close>

definition string_bytes :: "string \<Rightarrow> bytes" where
  "string_bytes s = map (\<lambda>c. of_nat (of_char c)) s"

record RSS =
  f_Autoarchive :: bool
  f_Autodownload :: bool
  f_Contributing :: bool
  f_CreatedAt :: instant
  f_Description :: string
  f_DisabledAt :: instant
  f_EncryptionSeed :: string
  f_ID :: string
  f_LastBuiltAt :: instant
  f_NextCheck :: instant
  f_UpdatedAt :: instant
  f_URL :: string

definition zero_RSS :: RSS where
  "zero_RSS = \<lparr>f_Autoarchive = False, f_Autodownload = False, f_Contributing = False,
     f_CreatedAt = 0, f_Description = '''', f_DisabledAt = 0, f_EncryptionSeed = '''', f_ID = '''',
     f_LastBuiltAt = 0, f_NextCheck = 0, f_UpdatedAt = 0, f_URL = ''''\<rparr>"

text \<open>\<^verbatim>\<open>url.Parse\<close> is the parameter \<open>url_host\<close>: the host, or \<open>None\<close> for an error, where the
  \<^verbatim>\<open>*url.URL\<close> is nil and its field is read nevertheless. \<open>fresh\<close> is a random identifier.\<close>

definition RSSOptionDefaultEncryptionSeed ::
  "(bytes \<Rightarrow> string) \<Rightarrow> (string \<Rightarrow> string option) \<Rightarrow> string \<Rightarrow> RSS \<Rightarrow> RSS outcome" where
  "RSSOptionDefaultEncryptionSeed md5uuid url_host fresh r =
     (case url_host (f_URL r) of
        None \<Rightarrow> Panic
      | Some host \<Rightarrow>
          Return (r\<lparr>f_EncryptionSeed :=
            FirstNonBlank [f_EncryptionSeed r, md5uuid (string_bytes (DefaultIfBlank host fresh))]\<rparr>))"

definition RSSOptionDefaultFeeds :: "(bytes \<Rightarrow> string) \<Rightarrow> RSS \<Rightarrow> RSS \<Rightarrow> RSS" where
  "RSSOptionDefaultFeeds md5uuid m r = m\<lparr>f_ID := md5uuid (string_bytes (f_URL m))\<rparr>"

definition RSSOptionTestDefaults :: "(bytes \<Rightarrow> string) \<Rightarrow> string \<Rightarrow> RSS \<Rightarrow> RSS" where
  "RSSOptionTestDefaults md5uuid fresh p =
     p\<lparr>f_ID := DefaultIfBlank (md5uuid (string_bytes (f_URL p))) fresh, f_EncryptionSeed := ''''\<rparr>"

definition RSSOptionJSONSafeEncode :: "RSS \<Rightarrow> RSS" where
  "RSSOptionJSONSafeEncode p =
     p\<lparr>f_CreatedAt := RFC3339NanoEncode (f_CreatedAt p), f_UpdatedAt := RFC3339NanoEncode (f_UpdatedAt p),
       f_NextCheck := RFC3339NanoEncode (f_NextCheck p),
       f_LastBuiltAt := RFC3339NanoEncode (f_LastBuiltAt p)\<rparr>"

definition NewFeedRSS ::
  "(bytes \<Rightarrow> string) \<Rightarrow> (string \<Rightarrow> string option) \<Rightarrow> string \<Rightarrow>
   string \<Rightarrow> (RSS \<Rightarrow> RSS) list \<Rightarrow> RSS outcome" where
  "NewFeedRSS md5uuid url_host fresh ident options =
     RSSOptionDefaultEncryptionSeed md5uuid url_host fresh
       (Clone (zero_RSS\<lparr>f_ID := ident, f_LastBuiltAt := unix_to_internal * Second\<rparr>) [Compose options])"

definition RSSQueryNeedsCheck :: "instant \<Rightarrow> RSS \<Rightarrow> bool" where
  "RSSQueryNeedsCheck now r \<longleftrightarrow> f_NextCheck r < now"

type_synonym feed_query = "RSS list \<Rightarrow> RSS list \<times> (goerr + RSS)"

definition RSS_row :: "sqldb \<Rightarrow> RSS \<Rightarrow> RSS" where
  "RSS_row db a =
     a\<lparr>f_CreatedAt := sql_now db, f_DisabledAt := Inf, f_NextCheck := NegInf, f_UpdatedAt := sql_now db\<rparr>"

definition RSSInsertWithDefaults :: "sqldb \<Rightarrow> RSS \<Rightarrow> feed_query" where
  "RSSInsertWithDefaults db a =
     upsert f_ID db (\<lambda>old new. Inr (old\<lparr>f_UpdatedAt := sql_now db, f_Autodownload := f_Autodownload new,
       f_Autoarchive := f_Autoarchive new, f_URL := f_URL new, f_Description := f_Description new\<rparr>))
       (RSS_row db a)"

definition RSSInsertDefaultFeed :: "sqldb \<Rightarrow> RSS \<Rightarrow> feed_query" where
  "RSSInsertDefaultFeed db a =
     upsert f_ID db (\<lambda>old new. Inr (old\<lparr>f_UpdatedAt := sql_now db\<rparr>)) (RSS_row db a)"

definition RSSCooldownByID :: "sqldb \<Rightarrow> string \<Rightarrow> int \<Rightarrow> instant \<Rightarrow> feed_query" where
  "RSSCooldownByID db ident ttl lastbuild =
     update_where db (\<lambda>r. f_ID r = ident)
       (\<lambda>r. case sql_after db (ttl * 60) of
           Inl e \<Rightarrow> Inl e
         | Inr t \<Rightarrow> Inr (r\<lparr>f_UpdatedAt := sql_now db, f_NextCheck := t, f_LastBuiltAt := lastbuild\<rparr>))"

definition RSSDeleteByID :: "sqldb \<Rightarrow> string \<Rightarrow> feed_query" where
  "RSSDeleteByID db ident = delete_where db (\<lambda>r. f_ID r = ident)"

definition RSSFindByID :: "sqldb \<Rightarrow> string \<Rightarrow> RSS list \<Rightarrow> goerr + RSS" where
  "RSSFindByID db ident = find_where db (\<lambda>r. f_ID r = ident)"

section \<open>The conflict rules\<close>

text \<open>A row seeds only what is downloaded.\<close>

definition torrent_good :: "TMetadata \<Rightarrow> bool" where
  "torrent_good m \<longleftrightarrow> (t_Seeding m \<longrightarrow> t_Downloaded m = t_Bytes m)"

interpretation torrents: conflict_rule t_ID torrent_good "TMetadata_conflict db"
  by unfold_locales (auto simp: TMetadata_conflict_def torrent_good_def)

interpretation unknown: conflict_rule u_ID "\<lambda>_. True" "cooldown_conflict db"
  by unfold_locales (auto simp: cooldown_conflict_def split: sum.splits)

interpretation peers: conflict_rule p_ID "\<lambda>_. True" "next_check_conflict db"
  by unfold_locales (auto simp: next_check_conflict_def split: sum.splits)

section \<open>Lemmas\<close>

lemma Insert_row_good [simp]:
  "torrent_good (TMetadataInsert_row db a) = torrent_good a"
  "t_ID (TMetadataInsert_row db a) = t_ID a"
  by (simp_all add: torrent_good_def TMetadataInsert_row_def)

lemma by_id_ok:
  assumes "by_id db ident f tbl = (tbl', res)" "table_ok t_ID torrent_good tbl"
    and "\<And>m. torrent_good m \<Longrightarrow> t_ID (f m) = t_ID m \<and> torrent_good (f m)"
  shows "table_ok t_ID torrent_good tbl'"
  using update_where_ok [OF assms(1) [unfolded by_id_def] assms(2)] assms(3) by auto

lemma by_id_row:
  assumes "by_id db ident f tbl = (tbl', Inr m')" "\<And>m. t_ID (f m) = t_ID m"
  shows "\<exists>m. row_of t_ID tbl ident = Some m \<and> m' = f m \<and> row_of t_ID tbl' ident = Some (f m) \<and>
    (\<forall>k. k \<noteq> ident \<longrightarrow> row_of t_ID tbl' k = row_of t_ID tbl k)"
  using update_key_row_of [OF assms(1) [unfolded by_id_def]] assms(2) by fastforce

text \<open>The operations of the package on the table, and a run of them.\<close>

datatype torrent_op =
    Tombstone sqldb string
  | Delete_row sqldb string
  | Pause sqldb string
  | Download_row sqldb string
  | AutoDownload sqldb string
  | Progress sqldb string u16 u64
  | Imported sqldb string
  | Verified sqldb string u16 u64
  | Complete sqldb string u16 u64 u64
  | Uploaded sqldb bytes u64
  | Announced sqldb string instant
  | DisableAnnounced sqldb string
  | AssignKnown sqldb string string
  | Insert_torrent sqldb TMetadata
  | Insert_rows sqldb "TMetadata list"

fun run_op :: "torrent_op \<Rightarrow> torrents \<Rightarrow> torrents" where
  "run_op (Tombstone db i) tbl = fst (TMetadataTombstoneByID db i tbl)"
| "run_op (Delete_row db i) tbl = fst (TMetadataDeleteByID db i tbl)"
| "run_op (Pause db i) tbl = fst (TMetadataPausedByID db i tbl)"
| "run_op (Download_row db i) tbl = fst (TMetadataDownloadByID db i tbl)"
| "run_op (AutoDownload db i) tbl = fst (TMetadataAutoDownloadByID db i tbl)"
| "run_op (Progress db i p d) tbl = fst (TMetadataProgressByID db i p d tbl)"
| "run_op (Imported db i) tbl = fst (TMetadataImportedByID db i tbl)"
| "run_op (Verified db i p d) tbl = fst (TMetadataVerifyByID db i p d tbl)"
| "run_op (Complete db i p d u) tbl = fst (TMetadataCompleteByID db i p d u tbl)"
| "run_op (Uploaded db i u) tbl = fst (TMetadataUploadedByID db i u tbl)"
| "run_op (Announced db i t) tbl = fst (TMetadataAnnounced db i t tbl)"
| "run_op (DisableAnnounced db i) tbl = fst (TMetadataDisableAnnounced db i tbl)"
| "run_op (AssignKnown db i k) tbl = fst (TMetadataAssignKnownMediaID db i k tbl)"
| "run_op (Insert_torrent db a) tbl = fst (TMetadataInsertWithDefaults db a tbl)"
| "run_op (Insert_rows db rows) tbl = fst (insert_rows db (map (TMetadataBatch_row db) rows) tbl)"

text \<open>What a caller owes: the rows it inserts seed only what they say is downloaded, which the
  batch resets to nothing.\<close>

fun op_good :: "torrent_op \<Rightarrow> bool" where
  "op_good (Insert_torrent db a) = torrent_good a"
| "op_good (Insert_rows db rows) = (\<forall>a \<in> set rows. t_Seeding a \<longrightarrow> t_Bytes a = 0)"
| "op_good _ = True"

lemma Uploaded_ok:
  assumes "TMetadataUploadedByID db i u tbl = (tbl', res)" "table_ok t_ID torrent_good tbl"
  shows "table_ok t_ID torrent_good tbl'"
  by (rule update_where_ok [OF assms(1) [unfolded TMetadataUploadedByID_def] assms(2)])
    (auto simp: torrent_good_def split: sum.splits)

lemma insert_rows_ok:
  assumes "table_ok t_ID torrent_good tbl" "\<forall>a \<in> set rows. t_Seeding a \<longrightarrow> t_Bytes a = 0"
  shows "table_ok t_ID torrent_good (fst (insert_rows db (map (TMetadataBatch_row db) rows) tbl))"
  using assms
  by (auto simp: insert_rows_def table_ok_def torrent_good_def TMetadataBatch_row_def split: option.splits)

lemmas by_id_defs =
  TMetadataTombstoneByID_def TMetadataPausedByID_def TMetadataDownloadByID_def
  TMetadataAutoDownloadByID_def TMetadataProgressByID_def TMetadataImportedByID_def
  TMetadataVerifyByID_def TMetadataCompleteByID_def TMetadataAnnounced_def
  TMetadataDisableAnnounced_def TMetadataAssignKnownMediaID_def

lemma run_op_ok:
  assumes "table_ok t_ID torrent_good tbl" "op_good op"
  shows "table_ok t_ID torrent_good (run_op op tbl)"
proof -
  have ok: "table_ok t_ID torrent_good (fst (by_id db ident f tbl))"
    if "\<And>m. torrent_good m \<Longrightarrow> t_ID (f m) = t_ID m \<and> torrent_good (f m)" for db ident f
    using by_id_ok [OF _ assms(1) that] by (metis prod.collapse)
  show ?thesis
  proof (cases op)
    case (Delete_row db i)
    with delete_where_ok [OF _ assms(1)] show ?thesis
      by (simp add: TMetadataDeleteByID_def) (metis prod.collapse)
  next
    case (Uploaded db i u)
    with Uploaded_ok [OF _ assms(1)] show ?thesis by simp (metis prod.collapse)
  next
    case (Insert_torrent db a)
    with torrents.upsert_ok [OF _ assms(1)] assms(2) show ?thesis
      by (simp add: TMetadataInsertWithDefaults_def) (metis Insert_row_good(1) prod.collapse)
  next
    case (Insert_rows db rows)
    with insert_rows_ok [OF assms(1)] assms(2) show ?thesis by simp
  qed (simp_all add: by_id_defs, (rule ok, simp add: torrent_good_def)+)
qed

lemma run_ops_ok:
  "table_ok t_ID torrent_good tbl \<Longrightarrow> \<forall>op \<in> set ops. op_good op \<Longrightarrow>
   table_ok t_ID torrent_good (fold run_op ops tbl)"
  by (induction ops arbitrary: tbl) (simp_all add: run_op_ok)

lemma insert_row_of:
  assumes "TMetadataInsertWithDefaults db a tbl = (tbl', Inr m')"
  shows "row_of t_ID tbl' (t_ID a) = Some m' \<and>
    (\<forall>k. k \<noteq> t_ID a \<longrightarrow> row_of t_ID tbl' k = row_of t_ID tbl k) \<and>
    m' = (case row_of t_ID tbl (t_ID a) of
        None \<Rightarrow> TMetadataInsert_row db a
      | Some old \<Rightarrow> old\<lparr>t_UpdatedAt := sql_now db, t_Tracker := t_Tracker a\<rparr>)"
proof -
  have "t_Tracker (TMetadataInsert_row db a) = t_Tracker a"
    by (simp add: TMetadataInsert_row_def)
  with torrents.upsert_stored [OF assms [unfolded TMetadataInsertWithDefaults_def]] show ?thesis
    by (cases "row_of t_ID tbl (t_ID a)") (simp_all add: TMetadata_conflict_def)
qed

lemma batch_rows_rest:
  assumes "b_scanner b = Some (RowsScanner cur rs c)" "b_remaining b = []" "length rs < n"
  shows "batch_rows n db c' b tbl = Some (tbl, rs, None)"
  using assms
proof (induction n arbitrary: b cur rs)
  case (Suc n)
  show ?case
  proof (cases rs)
    case Nil
    with Suc.prems show ?thesis by (simp add: batch_Next_def batch_Err_def)
  next
    case (Cons r rs')
    with Suc.IH [of "b\<lparr>b_scanner := Some (RowsScanner (Some r) rs' c)\<rparr>" "Some r" rs'] Suc.prems
    show ?thesis by (simp add: batch_Next_def batch_Scan_def)
  qed
qed simp

lemma sql_after_near:
  assumes "0 \<le> secs" "secs \<le> 1000000000" "0 \<le> sql_now db" "sql_now db \<le> 100000000000 * Second"
  shows "sql_after db secs = Inr (sql_now db + secs * Second)"
proof -
  have "- 9223372036854775808 \<le> (sql_now db + secs * 1000000000 - 62135596800000000000) div 1000"
    "(sql_now db + secs * 1000000000 - 62135596800000000000) div 1000 \<le> 9223372036854775807"
    using assms by (simp_all add: Second_def)
  then show ?thesis
    using assms by (simp add: sql_after_def in_i64_def min_i64_def max_i64_def Second_def unix_to_internal_def)
qed

section \<open>Properties\<close>


definition demo_db :: sqldb where
  "demo_db = \<lparr>sql_err = None, sql_now = 70000000000 * Second, sql_range = Fundamental ''out of range'',
     sql_duplicate = Fundamental ''duplicate key'', sql_undefined = Fundamental ''binder error'',
     sql_uuid = Inr\<rparr>"

definition demo_md5 :: "bytes \<Rightarrow> string" where
  "demo_md5 bs = hex_EncodeToString bs"

definition demo_torrent :: "byte \<Rightarrow> TMetadata" where
  "demo_torrent b = NewTMetadata demo_md5 ''seed'' [b] [TMetadataOptionBytes 100]"

lemma demo_torrent_simps [simp]:
  "t_ID (demo_torrent b) = demo_md5 [b]" "\<not> t_Seeding (demo_torrent b)"
  "t_Bytes (demo_torrent b) = 100" "t_Downloaded (demo_torrent b) = 0"
  "t_InitiatedAt (demo_torrent b) = Inf" "t_TombstonedAt (demo_torrent b) = 0"
  by (simp_all add: demo_torrent_def NewTMetadata_def zero_TMetadata_def HashUID_def
      TMetadataOptionBytes_def)

definition demo_run_ops :: "torrent_op list" where
  "demo_run_ops = [Insert_torrent demo_db (demo_torrent 1), Insert_torrent demo_db (demo_torrent 1),
     Complete demo_db (demo_md5 [1]) 0 100 7]"


text \<open>Adding a torrent again does not restart it. Inserting a torrent whose identifier is in
  the table changes the tracker and the time of the update of its row and nothing else, in
  particular not its progress, its pause, its seeding or its tombstone; inserting a new one
  stores it neither initiated nor paused, with the tombstone of the record it is given, which
  for a torrent made by \<^verbatim>\<open>NewMetadata\<close> is the first instant of the year 1.\<close>

theorem insert_keeps_known:
  assumes "TMetadataInsertWithDefaults db a tbl = (tbl', Inr m)"
  shows "row_of t_ID tbl' (t_ID a) = Some m \<and>
    (\<forall>k. k \<noteq> t_ID a \<longrightarrow> row_of t_ID tbl' k = row_of t_ID tbl k) \<and>
    (\<forall>old. row_of t_ID tbl (t_ID a) = Some old \<longrightarrow>
       m = old\<lparr>t_UpdatedAt := sql_now db, t_Tracker := t_Tracker a\<rparr>) \<and>
    (row_of t_ID tbl (t_ID a) = None \<longrightarrow>
       t_InitiatedAt m = Inf \<and> t_PausedAt m = Inf \<and> t_NextAnnounceAt m = Inf \<and>
       t_VerifyAt m = Inf \<and> t_ImportedAt m = Inf \<and> t_TombstonedAt m = t_TombstonedAt a)"
  using insert_row_of [OF assms] by (auto simp: TMetadataInsert_row_def)

theorem insert_keeps_known_witness:
  "\<exists>tbl m. TMetadataInsertWithDefaults demo_db (demo_torrent 1) [] = (tbl, Inr m) \<and>
     t_InitiatedAt m = Inf \<and> t_TombstonedAt m = 0"
proof -
  have "TMetadataInsertWithDefaults demo_db (demo_torrent 1) [] =
      ([TMetadataInsert_row demo_db (demo_torrent 1)], Inr (TMetadataInsert_row demo_db (demo_torrent 1)))"
    by (simp add: TMetadataInsertWithDefaults_def upsert_def demo_db_def)
  from this insert_keeps_known [OF this] show ?thesis
    by (simp add: row_of_def)
qed

text \<open>Reading a row gives back what is stored. When the database answers with a stored row,
  \<^verbatim>\<open>Scan\<close> overwrites every field of the record it is given with the one of the row and reports
  no error, whatever the record held.\<close>

theorem Scan_returning:
  assumes "uid (raw (t_EncryptionSeed m)) = Inr (t_EncryptionSeed m)"
    and "uid (raw (t_ID m)) = Inr (t_ID m)" "uid (raw (t_KnownMediaID m)) = Inr (t_KnownMediaID m)"
  shows "TMetadata_Scan uid (Inr (torrent_returning raw m)) i = (m, None)"
proof -
  have "ucast (ucast (t_Peers m) :: 32 word) = t_Peers m"
    by (rule ucast_up_ucast_id) (simp add: is_up_def source_size_def target_size_def)
  then show ?thesis
    using assms
    by (simp add: TMetadata_Scan_def torrent_returning_def column_def column_uid_def Let_def)
qed

theorem Scan_returning_witness:
  "TMetadata_Scan (\<lambda>b. Inr (map (\<lambda>x. char_of (unat x)) b))
     (Inr (torrent_returning (map (\<lambda>c. of_nat (of_char c))) (demo_torrent 3))) zero_TMetadata =
   (demo_torrent 3, None)"
proof (rule Scan_returning)
  have "unat (of_nat (of_char c) :: byte) = of_char c" for c
    by (simp add: unat_of_nat)
  then have "map (\<lambda>x. char_of (unat (x :: byte))) (map (\<lambda>c. of_nat (of_char c)) s) = s" for s
    by (simp add: comp_def)
  then show "Inr (map (\<lambda>x. char_of (unat (x :: byte)))
        (map (\<lambda>c. of_nat (of_char c)) (t_EncryptionSeed (demo_torrent 3)))) =
      (Inr (t_EncryptionSeed (demo_torrent 3)) :: goerr + string)"
    and "Inr (map (\<lambda>x. char_of (unat (x :: byte)))
        (map (\<lambda>c. of_nat (of_char c)) (t_ID (demo_torrent 3)))) =
      (Inr (t_ID (demo_torrent 3)) :: goerr + string)"
    and "Inr (map (\<lambda>x. char_of (unat (x :: byte)))
        (map (\<lambda>c. of_nat (of_char c)) (t_KnownMediaID (demo_torrent 3)))) =
      (Inr (t_KnownMediaID (demo_torrent 3)) :: goerr + string)"
    by simp_all
qed

text \<open>A batch of ten or more torrents is lost. The iterator over a batch of one to nine new
  torrents stores and yields each of them; over a longer one it yields nothing and reports
  no error, having stored the first ten and dropped the others.\<close>

theorem batch_insert:
  assumes "sql_err db = None" "distinct (map t_ID (tbl @ map (TMetadataBatch_row db) rows))"
    and "rows \<noteq> []" "length rows < n"
  shows "batch_rows n db None (NewTMetadataBatchInsertWithDefaults rows) tbl =
    (if length rows < 10
     then Some (tbl @ map (TMetadataBatch_row db) rows, map (TMetadataBatch_row db) rows, None)
     else Some (tbl @ map (TMetadataBatch_row db) (take 10 rows), [], None))"
proof -
  obtain n' where n: "n = Suc n'"
    using assms(4) by (cases n) auto
  let ?new = "map (TMetadataBatch_row db)"
  have ins: "insert_rows db (?new (take k rows)) tbl =
      (tbl @ ?new (take k rows), Inr (?new (take k rows)))" for k
  proof -
    have "distinct (map t_ID (tbl @ ?new (take k rows)))"
      using assms(2) distinct_take [of "map (t_ID \<circ> TMetadataBatch_row db) rows" k]
      by (auto simp: take_map dest: in_set_takeD)
    with assms(1) show ?thesis
      by (simp add: insert_rows_def)
  qed
  show ?thesis
  proof (cases "length rows < 10")
    case True
    obtain r rs where rows: "rows = r # rs"
      using assms(3) by (cases rows) auto
    have "batch_rows n' db None \<lparr>b_remaining = [],
        b_scanner = Some (RowsScanner (Some (TMetadataBatch_row db r)) (?new rs) None)\<rparr> (tbl @ ?new rows) =
      Some (tbl @ ?new rows, ?new rs, None)"
      using assms(4) n rows by (intro batch_rows_rest) auto
    with True ins [of "length rows"] rows show ?thesis
      by (simp add: n batch_Next_def NewTMetadataBatchInsertWithDefaults_def advance_def
          NewTMetadataScannerStatic_def batch_Scan_def batch_Close_def)
  next
    case False
    with ins [of 10] assms(3) show ?thesis
      by (simp add: n batch_Next_def NewTMetadataBatchInsertWithDefaults_def advance_def
          NewTMetadataScannerStatic_def batch_Err_def batch_Close_def)
  qed
qed

theorem batch_insert_witness:
  "batch_rows 20 demo_db None
     (NewTMetadataBatchInsertWithDefaults (map (\<lambda>n. demo_torrent (of_nat n)) [0..<11])) [] =
   Some (map (\<lambda>n. TMetadataBatch_row demo_db (demo_torrent (of_nat n))) [0..<10], [], None)"
proof -
  have "t_ID (TMetadataBatch_row db a) = t_ID a" for db a
    by (simp add: TMetadataBatch_row_def)
  then have "distinct (map t_ID ([] @ map (TMetadataBatch_row demo_db)
      (map (\<lambda>n. demo_torrent (of_nat n)) [0..<11])))"
    by (simp add: upt_rec demo_md5_def hex_EncodeToString_def hex_digit_def)
  from batch_insert [OF _ this, of 20] show ?thesis
    by (simp add: demo_db_def upt_rec)
qed

text \<open>An infohash that cannot be resolved is retried after two minutes for each attempt, at
  most a day. The cooldown of a stored infohash adds one to the attempts of the record it is
  given and schedules it so, unless the product of its attempts leaves 32 bits.\<close>

theorem cooldown_schedule:
  assumes "sql_err db = None" "row_of u_ID tbl (u_ID a) = Some old"
    and "0 \<le> sql_now db" "sql_now db \<le> 100000000000 * Second"
    and "UnknownHashCooldown db a tbl = (tbl', res)"
  shows "if 2 * uint (u_Attempts a) < 2 ^ 31
    then res = Inr (old\<lparr>u_UpdatedAt := sql_now db, u_Attempts := u_Attempts a + 1,
           u_NextCheck := sql_now db + min (uint (u_Attempts a) * 2 * Minute) (24 * Hour)\<rparr>) \<and>
         (\<exists>u. res = Inr u \<and> row_of u_ID tbl' (u_ID a) = Some u)
    else res = Inl (sql_range db) \<and> tbl' = tbl"
proof -
  have up: "update_where db (\<lambda>r. u_ID r = u_ID a) (\<lambda>r. cooldown_conflict db r (UnknownHash_row db a)) tbl =
      (tbl', res)"
    using assms(1,2,5) row_of_None_iff [of u_ID tbl "u_ID a"]
    by (auto simp: UnknownHashCooldown_def upsert_def UnknownHash_row_def)
  have att: "u_Attempts (UnknownHash_row db a) = u_Attempts a"
    by (simp add: UnknownHash_row_def)
  show ?thesis
  proof (cases "2 * uint (u_Attempts a) < 2 ^ 31")
    case False
    have "cooldown_conflict db r (UnknownHash_row db a) = Inl (sql_range db)" for r
      using False by (auto simp: cooldown_conflict_def cooldown_seconds_def sql_add_def att split: sum.splits)
    from update_key_fails [OF assms(1,2) this] up False show ?thesis by simp
  next
    case True
    let ?secs = "min (2 * uint (u_Attempts a) * 60) (24 * 3600)"
    let ?f = "\<lambda>r. r\<lparr>u_UpdatedAt := sql_now db, u_Attempts := u_Attempts a + 1,
           u_NextCheck := sql_now db + min (uint (u_Attempts a) * 2 * Minute) (24 * Hour)\<rparr>"
    have "unat (u_Attempts a) < 2147483648"
    proof -
      have "2 * int (unat (u_Attempts a)) < 2147483648"
        using True unfolding uint_nat by simp
      then show ?thesis by linarith
    qed
    then have "unat (u_Attempts a) + unat (1 :: u64) < 2 ^ 64"
      by simp
    then have add: "sql_add db (u_Attempts a) 1 = Inr (u_Attempts a + 1)"
      by (simp add: sql_add_def)
    have secs: "0 \<le> ?secs" "?secs \<le> 1000000000"
      by (simp_all add: min_def)
    from sql_after_near [OF this assms(3,4)]
    have "sql_after db ?secs = Inr (sql_now db + ?secs * Second)" .
    moreover have "?secs * Second = min (uint (u_Attempts a) * 2 * Minute) (24 * Hour)"
      by (simp add: min_mult_distrib_right Minute_def Hour_def Second_def)
    ultimately have "cooldown_conflict db r (UnknownHash_row db a) = Inr (?f r)" for r
      using True by (simp add: cooldown_conflict_def cooldown_seconds_def att add)
    from update_key_result [OF assms(1,2), where g = ?f, OF this] up have res: "res = Inr (?f old)"
      by simp
    from unknown.upsert_stored [OF assms(5) [unfolded UnknownHashCooldown_def res]]
    have "row_of u_ID tbl' (u_ID a) = Some (?f old)"
      by (simp add: UnknownHash_row_def)
    with res True show ?thesis by simp
  qed
qed

definition demo_unknown :: UnknownHash where
  "demo_unknown = \<lparr>u_Attempts = 3, u_CreatedAt = 0, u_ID = ''a'', u_Infohash = [1], u_NextCheck = 0,
     u_UpdatedAt = 0\<rparr>"

theorem cooldown_schedule_witness:
  "snd (UnknownHashCooldown demo_db demo_unknown [demo_unknown]) =
     Inr (demo_unknown\<lparr>u_UpdatedAt := sql_now demo_db, u_Attempts := 4,
       u_NextCheck := sql_now demo_db + 6 * Minute\<rparr>)"
  using cooldown_schedule [of demo_db "[demo_unknown]" demo_unknown demo_unknown]
  by (cases "UnknownHashCooldown demo_db demo_unknown [demo_unknown]")
    (simp add: demo_db_def demo_unknown_def row_of_def Second_def Minute_def Hour_def)

end
