(* ===== verification/Librarydb.thy ===== *)
theory Librarydb
  imports Tracking
begin

text \<open>
  The tables of the library, \<^verbatim>\<open>library_metadata\<close> and \<^verbatim>\<open>library_known_media\<close>, and the statements
  on them: the queries of \<^verbatim>\<open>shallows/library/genieql.gen.go\<close>.

  A statement is named as its function, with an \<open>L\<close> where \<^verbatim>\<open>shallows/tracking\<close> has one of the same
  name. The columns set to \<^verbatim>\<open>DEFAULT\<close> take the defaults of the migrations under
  \<^verbatim>\<open>cmd/cmdmeta/.migrations\<close>. An identifier that a statement is given is cast by the database; the
  rows the code inserts have identifiers in the spelling of the database.
\<close>

section \<open>Media\<close>

type_synonym media_rows = "Metadata list"
type_synonym media_query = "media_rows \<Rightarrow> media_rows \<times> (goerr + Metadata)"

definition media_by_id :: "sqldb \<Rightarrow> string \<Rightarrow> (Metadata \<Rightarrow> Metadata) \<Rightarrow> media_query" where
  "media_by_id db ident f =
     uuid_arg db ident (\<lambda>u. update_where db (\<lambda>m. ID m = u) (\<lambda>m. Inr (f m)))"

definition LMetadataUpdateAutodescriptionByID :: "sqldb \<Rightarrow> string \<Rightarrow> string \<Rightarrow> media_query" where
  "LMetadataUpdateAutodescriptionByID db ident d =
     media_by_id db ident (\<lambda>m. m\<lparr>UpdatedAt := sql_now db, AutoDescription := d\<rparr>)"

definition LMetadataUpdateDescriptionByID :: "sqldb \<Rightarrow> string \<Rightarrow> string \<Rightarrow> media_query" where
  "LMetadataUpdateDescriptionByID db ident d =
     media_by_id db ident (\<lambda>m. m\<lparr>UpdatedAt := sql_now db, Description := d\<rparr>)"

definition LMetadataTombstoneByID :: "sqldb \<Rightarrow> string \<Rightarrow> media_query" where
  "LMetadataTombstoneByID db ident = media_by_id db ident (\<lambda>m. m\<lparr>TombstonedAt := sql_now db\<rparr>)"

definition LMetadataArchivedByID :: "sqldb \<Rightarrow> string \<Rightarrow> string \<Rightarrow> u64 \<Rightarrow> media_query" where
  "LMetadataArchivedByID db ident aid quota =
     uuid_arg db aid (\<lambda>a. media_by_id db ident (\<lambda>m. m\<lparr>ArchiveID := a, QuotaUsage := quota\<rparr>))"

definition LMetadataUpdate :: "sqldb \<Rightarrow> string \<Rightarrow> Metadata \<Rightarrow> media_query" where
  "LMetadataUpdate db ident md =
     uuid_arg db (ArchiveID md) (\<lambda>a. uuid_arg db (KnownMediaID md) (\<lambda>k.
       media_by_id db ident (\<lambda>m. m\<lparr>Description := Description md, KnownMediaID := k, ArchiveID := a\<rparr>)))"

text \<open>The table has no column \<^verbatim>\<open>initiated_at\<close>, which this statement assigns.\<close>

definition LMetadataHideByID :: "sqldb \<Rightarrow> string \<Rightarrow> media_query" where
  "LMetadataHideByID db ident tbl = (tbl, Inl (sql_undefined db))"

definition LMetadataDeleteByID :: "sqldb \<Rightarrow> string \<Rightarrow> media_query" where
  "LMetadataDeleteByID db ident = uuid_arg db ident (\<lambda>u. delete_where db (\<lambda>m. ID m = u))"

definition LMetadataFindByID :: "sqldb \<Rightarrow> string \<Rightarrow> media_rows \<Rightarrow> goerr + Metadata" where
  "LMetadataFindByID db ident tbl =
     (case sql_uuid db ident of Inl e \<Rightarrow> Inl e | Inr u \<Rightarrow> find_where db (\<lambda>m. ID m = u) tbl)"

definition LMetadataFindByDescription :: "sqldb \<Rightarrow> string \<Rightarrow> media_rows \<Rightarrow> goerr + Metadata" where
  "LMetadataFindByDescription db d = find_where db (\<lambda>m. Description m = d)"

text \<open>Statements on several rows. \<^verbatim>\<open>AssociateTorrent\<close> reads the first of those it changed.\<close>

definition LMetadataTombstoneByTorrentID :: "sqldb \<Rightarrow> string \<Rightarrow> media_rows \<Rightarrow> media_rows \<times> Metadata result_set" where
  "LMetadataTombstoneByTorrentID db tid =
     update_all db (\<lambda>m. TorrentID m = tid) (\<lambda>m. m\<lparr>TombstonedAt := sql_now db\<rparr>)"

definition LMetadataAssociateTorrent :: "sqldb \<Rightarrow> string \<Rightarrow> string \<Rightarrow> media_query" where
  "LMetadataAssociateTorrent db d tid =
     update_where db (\<lambda>m. Description m = d \<and> TorrentID m = uuid_Nil_string)
       (\<lambda>m. Inr (m\<lparr>TorrentID := tid\<rparr>))"

text \<open>The joins with the torrents, whose identifiers are unique.\<close>

definition transfers :: "instant \<Rightarrow> torrents \<Rightarrow> Metadata \<Rightarrow> bool" where
  "transfers ts torrents m \<longleftrightarrow>
     (case row_of t_ID torrents (TorrentID m) of
        None \<Rightarrow> False
      | Some t \<Rightarrow> ts \<le> t_UpdatedAt t \<and> KnownMediaID m = uuid_Max_string \<and>
          t_KnownMediaID t \<notin> {uuid_Max_string, uuid_Nil_string})"

definition known_from_torrent :: "sqldb \<Rightarrow> torrents \<Rightarrow> Metadata \<Rightarrow> Metadata" where
  "known_from_torrent db torrents m =
     (case row_of t_ID torrents (TorrentID m) of
        None \<Rightarrow> m
      | Some t \<Rightarrow> m\<lparr>UpdatedAt := sql_now db, KnownMediaID := t_KnownMediaID t\<rparr>)"

definition LMetadataTransferKnownMediaIDFromTorrent ::
  "sqldb \<Rightarrow> instant \<Rightarrow> torrents \<Rightarrow> media_rows \<Rightarrow> media_rows \<times> Metadata result_set" where
  "LMetadataTransferKnownMediaIDFromTorrent db ts torrents =
     update_all db (transfers ts torrents) (known_from_torrent db torrents)"

definition LMetadataSyncKnownMediaIDFromTorrent ::
  "sqldb \<Rightarrow> string \<Rightarrow> torrents \<Rightarrow> media_rows \<Rightarrow> media_rows \<times> Metadata result_set" where
  "LMetadataSyncKnownMediaIDFromTorrent db tid torrents tbl =
     (case sql_uuid db tid of
        Inl e \<Rightarrow> (tbl, \<lparr>rs_rows = [], rs_err = Some e\<rparr>)
      | Inr u \<Rightarrow> update_all db (\<lambda>m. TorrentID m = u \<and> row_of t_ID torrents u \<noteq> None)
          (known_from_torrent db torrents) tbl)"

definition retrievable :: "torrents \<Rightarrow> bytes \<Rightarrow> u64 \<Rightarrow> Metadata \<Rightarrow> bool" where
  "retrievable torrents infohash off m \<longleftrightarrow>
     (case row_of t_ID torrents (TorrentID m) of
        None \<Rightarrow> False
      | Some t \<Rightarrow> t_Infohash t = infohash \<and> DiskOffset m \<le> off \<and> off \<le> Bytes m \<and>
          ArchiveID m \<notin> {uuid_Max_string, uuid_Nil_string})"

definition LMetadataForTorrentArchiveRetrieval ::
  "sqldb \<Rightarrow> bytes \<Rightarrow> u64 \<Rightarrow> torrents \<Rightarrow> media_rows \<Rightarrow> Metadata result_set" where
  "LMetadataForTorrentArchiveRetrieval db infohash off torrents =
     select_where db (retrievable torrents infohash off)"

text \<open>The row an insert makes, and what a conflict assigns.\<close>

definition LMetadataInsert_row :: "sqldb \<Rightarrow> Metadata \<Rightarrow> Metadata" where
  "LMetadataInsert_row db a =
     a\<lparr>CreatedAt := sql_now db, HiddenAt := Inf, TombstonedAt := Inf, UpdatedAt := sql_now db\<rparr>"

definition LMetadata_conflict :: "sqldb \<Rightarrow> Metadata \<Rightarrow> Metadata \<Rightarrow> goerr + Metadata" where
  "LMetadata_conflict db old new =
     Inr (old\<lparr>UpdatedAt := sql_now db,
       ArchiveID := if ArchiveID old \<in> {uuid_Max_string, uuid_Nil_string} then ArchiveID new
                    else ArchiveID old\<rparr>)"

definition LMetadataInsertWithDefaults :: "sqldb \<Rightarrow> Metadata \<Rightarrow> media_query" where
  "LMetadataInsertWithDefaults db a =
     upsert ID db (LMetadata_conflict db) (LMetadataInsert_row db a)"

section \<open>Known media\<close>

record Known =
  k_Adult :: bool
  k_AutoDescription :: string
  k_BackdropPath :: string
  k_CreatedAt :: instant
  k_Duplicates :: int
  k_ID :: string
  k_Md5 :: string
  k_Md5Lower :: u64
  k_OriginalLanguage :: string
  k_OriginalTitle :: string
  k_Overview :: string
  k_Popularity :: real
  k_PosterPath :: string
  k_Released :: instant
  k_Source :: string
  k_Title :: string
  k_UID :: string

type_synonym known_query = "Known list \<Rightarrow> Known list \<times> (goerr + Known)"

text \<open>\<^verbatim>\<open>duplicates\<close> is a \<^verbatim>\<open>BIGINT\<close>, its sum fails out of the range of the type.\<close>

definition Known_conflict :: "sqldb \<Rightarrow> Known \<Rightarrow> Known \<Rightarrow> goerr + Known" where
  "Known_conflict db old new =
     (if in_i64 (k_Duplicates old + 1) then
        Inr (old\<lparr>k_Title := k_Title new, k_OriginalLanguage := k_OriginalLanguage new,
          k_OriginalTitle := k_OriginalTitle new, k_Popularity := k_Popularity new,
          k_Overview := k_Overview new, k_Source := k_Source new, k_PosterPath := k_PosterPath new,
          k_BackdropPath := k_BackdropPath new, k_Duplicates := k_Duplicates old + 1\<rparr>)
      else Inl (sql_range db))"

text \<open>The column \<^verbatim>\<open>md5\<close> is unique too: a new row with the digest of another one is refused.\<close>

definition KnownInsertWithDefaults :: "sqldb \<Rightarrow> Known \<Rightarrow> known_query" where
  "KnownInsertWithDefaults db a tbl =
     (if sql_err db = None \<and> k_UID a \<notin> set (map k_UID tbl) \<and> k_Md5 a \<in> set (map k_Md5 tbl)
      then (tbl, Inl (sql_duplicate db))
      else upsert k_UID db (Known_conflict db) (a\<lparr>k_CreatedAt := sql_now db\<rparr>) tbl)"

definition KnownFindByID :: "sqldb \<Rightarrow> string \<Rightarrow> Known list \<Rightarrow> goerr + Known" where
  "KnownFindByID db ident tbl =
     (case sql_uuid db ident of Inl e \<Rightarrow> Inl e | Inr u \<Rightarrow> find_where db (\<lambda>k. k_UID k = u) tbl)"

text \<open>\<^verbatim>\<open>ORDER BY created_at DESC LIMIT 1\<close>: the first of the latest rows.\<close>

definition latest :: "Known list \<Rightarrow> Known list" where
  "latest tbl = filter (\<lambda>k. \<forall>j \<in> set tbl. k_CreatedAt j \<le> k_CreatedAt k) tbl"

definition KnownFindByLastCreated :: "sqldb \<Rightarrow> Known list \<Rightarrow> goerr + Known" where
  "KnownFindByLastCreated db tbl =
     (case sql_err db of Some e \<Rightarrow> Inl e | None \<Rightarrow> query_row (latest tbl))"

text \<open>\<open>similarity\<close> is the mean of the two similarities of the database on a title and the terms.\<close>

definition candidates :: "(string \<Rightarrow> string \<Rightarrow> real) \<Rightarrow> string \<Rightarrow> real \<Rightarrow> Known list \<Rightarrow> Known list" where
  "candidates similarity terms cutoff tbl =
     filter (\<lambda>k. \<not> k_Adult k \<and> cutoff < similarity (k_Title k) terms) tbl"

definition KnownBestMatch ::
  "sqldb \<Rightarrow> (string \<Rightarrow> string \<Rightarrow> real) \<Rightarrow> string \<Rightarrow> real \<Rightarrow> Known list \<Rightarrow> goerr + Known" where
  "KnownBestMatch db similarity terms cutoff tbl =
     (case sql_err db of
        Some e \<Rightarrow> Inl e
      | None \<Rightarrow>
          let cs = candidates similarity terms cutoff tbl in
          query_row (filter (\<lambda>k. \<forall>j \<in> set cs. similarity (k_Title j) terms \<le> similarity (k_Title k) terms) cs))"

definition KnownQueryExplicit :: "bool \<Rightarrow> Known \<Rightarrow> bool" where
  "KnownQueryExplicit b k \<longleftrightarrow> k_Adult k = b"

section \<open>Identifiers of imported media\<close>

text \<open>The verb \<^verbatim>\<open>%0kx\<close> on a number of at most \<open>k\<close> digits.\<close>

fun hex_fixed :: "nat \<Rightarrow> nat \<Rightarrow> string" where
  "hex_fixed 0 v = []"
| "hex_fixed (Suc k) v = hex_fixed k (v div 16) @ [hex_digit (v mod 16)]"

text \<open>\<^verbatim>\<open>Sum\<close> appends the digest of nothing, the offset basis of FNV, to the prefix. The operators
  \<^verbatim>\<open>&\<close> and \<^verbatim>\<open>>>\<close> have one precedence and associate to the left.\<close>

definition fnv32_empty :: bytes where "fnv32_empty = [0x81, 0x1c, 0x9d, 0xc5]"

definition KnownImportedUintID :: "string \<Rightarrow> u64 \<Rightarrow> string" where
  "KnownImportedUintID prefix i =
     (let l = i AND 0x0000FFFFFFFFFFFF;
          h = drop_bit 56 (i AND 0xFFFF000000000000)
      in hex_EncodeToString (take 4 (string_bytes prefix @ fnv32_empty)) @ ''-0000-0000-'' @
         hex_fixed 4 (unat h) @ ''-'' @ hex_fixed 12 (unat l))"

definition Unknown :: "Known \<Rightarrow> Known" where
  "Unknown zero = zero\<lparr>k_UID := uuid_Nil_string\<rparr>"

definition KnownOptionTestDefaults :: "string \<Rightarrow> string \<Rightarrow> Known \<Rightarrow> Known" where
  "KnownOptionTestDefaults uid md5 t = t\<lparr>k_UID := uid, k_Md5 := md5, k_Adult := False\<rparr>"

definition KnownOptionRandomID :: "string \<Rightarrow> Known \<Rightarrow> Known" where
  "KnownOptionRandomID fresh_id t = t\<lparr>k_ID := fresh_id\<rparr>"

section \<open>Lemmas\<close>

interpretation media: conflict_rule ID "\<lambda>_. True" "LMetadata_conflict db"
  by unfold_locales (auto simp: LMetadata_conflict_def)

interpretation known: conflict_rule k_UID "\<lambda>_. True" "Known_conflict db"
  by unfold_locales (auto simp: Known_conflict_def split: if_splits)

lemma media_by_id_stored:
  assumes "media_by_id db ident f tbl = (tbl', Inr m')" "\<And>m. ID (f m) = ID m"
  shows "\<exists>u m. sql_uuid db ident = Inr u \<and> row_of ID tbl u = Some m \<and> m' = f m \<and>
    row_of ID tbl' u = Some m' \<and> (\<forall>k. k \<noteq> u \<longrightarrow> row_of ID tbl' k = row_of ID tbl k)"
proof -
  from assms(1) obtain u where u: "sql_uuid db ident = Inr u"
    and q: "update_where db (\<lambda>m. ID m = u) (\<lambda>m. Inr (f m)) tbl = (tbl', Inr m')"
    by (auto simp: media_by_id_def uuid_arg_def split: sum.splits)
  from update_key_row_of [OF q] assms(2) u show ?thesis
    by auto
qed

lemma hex_digit_inj: "a < 16 \<Longrightarrow> b < 16 \<Longrightarrow> hex_digit a = hex_digit b \<Longrightarrow> a = b"
  using nth_eq_iff_index_eq [of "''0123456789abcdef''" a b] by (simp add: hex_digit_def)

lemma hex_fixed_inj:
  "v < 16 ^ k \<Longrightarrow> w < 16 ^ k \<Longrightarrow> hex_fixed k v = hex_fixed k w \<Longrightarrow> v = w"
proof (induction k arbitrary: v w)
  case (Suc k)
  then have "hex_digit (v mod 16) = hex_digit (w mod 16)" "hex_fixed k (v div 16) = hex_fixed k (w div 16)"
    by simp_all
  moreover have "v div 16 < 16 ^ k" "w div 16 < 16 ^ k"
    using Suc.prems by (auto intro!: less_mult_imp_div_less simp: mult.commute)
  ultimately have "v div 16 = w div 16" "v mod 16 = w mod 16"
    using Suc.IH hex_digit_inj [of "v mod 16" "w mod 16"] by auto
  then show ?case by (metis div_mult_mod_eq)
qed simp

lemma bit_word_eq_iff_64: "a = b \<longleftrightarrow> (\<forall>n < 64. bit a n = bit b n)" for a b :: u64
  by (simp add: bit_eq_iff)

lemma length_hex_fixed [simp]: "length (hex_fixed k v) = k"
  by (induction k arbitrary: v) auto

lemma media_insert_row:
  assumes "LMetadataInsertWithDefaults db a tbl = (tbl', Inr m)"
  shows "row_of ID tbl' (ID a) = Some m \<and> ID m = ID a"
proof -
  have "row_of ID tbl' (ID a) = Some m"
    using media.upsert_stored [OF assms [unfolded LMetadataInsertWithDefaults_def]]
    by (auto simp: LMetadataInsert_row_def LMetadata_conflict_def split: option.splits)
  then show ?thesis using row_of_Some by metis
qed

section \<open>Properties\<close>

text \<open>What an insert of media that is in the library already keeps. The stored row takes the
  archive identifier of the new one when it has none yet and keeps the rest, its description, its
  offset and its torrent, and a row that was deleted stays deleted.\<close>

theorem library_reinsert:
  assumes "LMetadataInsertWithDefaults db a tbl = (tbl', Inr m')"
    and "row_of ID tbl (ID a) = Some old"
  shows "row_of ID tbl' (ID a) = Some m' \<and>
    m' = old\<lparr>UpdatedAt := sql_now db,
           ArchiveID := if MetadataQueryArchived old then ArchiveID old else ArchiveID a\<rparr> \<and>
    (MetadataQueryNotTombstoned m' \<longleftrightarrow> MetadataQueryNotTombstoned old) \<and>
    (\<forall>k. k \<noteq> ID a \<longrightarrow> row_of ID tbl' k = row_of ID tbl k)"
proof -
  have key: "ID (LMetadataInsert_row db a) = ID a" "ArchiveID (LMetadataInsert_row db a) = ArchiveID a"
    by (simp_all add: LMetadataInsert_row_def)
  from media.upsert_stored [OF assms(1) [unfolded LMetadataInsertWithDefaults_def]] assms(2) key
  show ?thesis
    by (auto simp: LMetadata_conflict_def MetadataQueryArchived_def MetadataQueryNotTombstoned_def)
qed

theorem library_reinsert_witness:
  "\<exists>tbl' m'. LMetadataInsertWithDefaults demo_db (zero_metadata\<lparr>ID := ''a'', ArchiveID := uuid_Max_string\<rparr>)
      [zero_metadata\<lparr>ID := ''a'', ArchiveID := uuid_Nil_string, TombstonedAt := 5\<rparr>] = (tbl', Inr m') \<and>
    ArchiveID m' = uuid_Max_string \<and> TombstonedAt m' = 5"
proof -
  let ?a = "zero_metadata\<lparr>ID := ''a'', ArchiveID := uuid_Max_string\<rparr>"
  let ?old = "zero_metadata\<lparr>ID := ''a'', ArchiveID := uuid_Nil_string, TombstonedAt := 5\<rparr>"
  obtain tbl' m' where ins: "LMetadataInsertWithDefaults demo_db ?a [?old] = (tbl', Inr m')"
    by (simp add: LMetadataInsertWithDefaults_def upsert_def LMetadataInsert_row_def update_where_def
        LMetadata_conflict_def query_row_def demo_db_def)
  with library_reinsert [OF ins, of ?old] show ?thesis
    by (simp add: row_of_def MetadataQueryArchived_def)
qed

text \<open>The identifiers made of the numbers of an import collide. With one prefix, two numbers
  get the same identifier exactly when they agree outside of the bits 48 to 55, which the
  precedence of the operators drops.\<close>

theorem KnownImportedUintID_collides:
  "KnownImportedUintID prefix a = KnownImportedUintID prefix b \<longleftrightarrow>
     a AND 0xFF00FFFFFFFFFFFF = b AND 0xFF00FFFFFFFFFFFF"
proof -
  let ?l = "\<lambda>i :: u64. i AND 0x0000FFFFFFFFFFFF" and ?h = "\<lambda>i :: u64. drop_bit 56 (i AND 0xFFFF000000000000)"
  have l: "unat (?l i) < 16 ^ 12" for i
  proof -
    have "?l i \<le> 0x0000FFFFFFFFFFFF" by (rule word_and_le1)
    then show ?thesis by (simp add: word_le_nat_alt)
  qed
  have h: "unat (?h i) < 16 ^ 4" for i
  proof -
    have "?h i = ?h i AND 0xFF" by (intro bit_word_eqI) (auto simp: bit_simps)
    also have "\<dots> \<le> 0xFF" by (rule word_and_le1)
    finally show ?thesis by (simp add: word_le_nat_alt)
  qed
  have "KnownImportedUintID prefix a = KnownImportedUintID prefix b \<longleftrightarrow>
      hex_fixed 4 (unat (?h a)) = hex_fixed 4 (unat (?h b)) \<and>
      hex_fixed 12 (unat (?l a)) = hex_fixed 12 (unat (?l b))"
    by (auto simp: KnownImportedUintID_def Let_def simp del: hex_fixed.simps)
  also have "\<dots> \<longleftrightarrow> ?h a = ?h b \<and> ?l a = ?l b"
    using hex_fixed_inj [OF h h] hex_fixed_inj [OF l l] by (auto simp: word_unat_eq_iff)
  also have "\<dots> \<longleftrightarrow> a AND 0xFF00FFFFFFFFFFFF = b AND 0xFF00FFFFFFFFFFFF"
  proof -
    have masks: "(0x0000FFFFFFFFFFFF :: u64) = mask 48" "(0xFFFF000000000000 :: u64) = push_bit 48 (mask 16)"
      "(0xFF00FFFFFFFFFFFF :: u64) = mask 48 OR push_bit 56 (mask 8)"
      by (simp_all add: mask_eq_exp_minus_1 push_bit_eq_mult)
    have h: "?h a = ?h b \<longleftrightarrow> (\<forall>n < 64. 56 \<le> n \<longrightarrow> bit a n = bit b n)"
    proof
      assume eq: "?h a = ?h b"
      show "\<forall>n < 64. 56 \<le> n \<longrightarrow> bit a n = bit b n"
      proof (intro allI impI)
        fix n :: nat
        assume n: "n < 64" "56 \<le> n"
        then have small: "n - 48 < 16" "n - 48 < 64" by auto
        from eq have "bit (?h a) (n - 56) = bit (?h b) (n - 56)" by simp
        with n small show "bit a n = bit b n" unfolding masks by (simp add: bit_simps)
      qed
    qed (unfold masks, auto simp: bit_eq_iff bit_simps)
    have l: "?l a = ?l b \<longleftrightarrow> (\<forall>n < 64. n < 48 \<longrightarrow> bit a n = bit b n)"
      unfolding masks by (auto simp: bit_eq_iff bit_simps)
    have m: "bit (0xFF00FFFFFFFFFFFF :: u64) n \<longleftrightarrow> n < 48 \<or> 56 \<le> n" if "n < 64" for n
      unfolding masks using that by (auto simp: bit_simps)
    have "a AND 0xFF00FFFFFFFFFFFF = b AND 0xFF00FFFFFFFFFFFF \<longleftrightarrow>
        (\<forall>n < 64. n < 48 \<or> 56 \<le> n \<longrightarrow> bit a n = bit b n)"
      unfolding bit_word_eq_iff_64 bit_and_iff using m by blast
    then show ?thesis
      unfolding h l by auto
  qed
  finally show ?thesis .
qed

end
