(* ===== verification/Asynccompute.thy ===== *)
theory Asynccompute
  imports Errorsx Langx "HOL-Library.Multiset"
begin

text \<open>
  The package \<^verbatim>\<open>shallows/internal/asynccompute\<close>: a pool of workers over a channel, which the
  importers run their jobs on.

  A pool is a state machine. A step is one action of one goroutine: a caller's send, a
  worker's receive, the end of a job, the report of its result, the close of the channel and
  the end of a worker. Jobs are values of any type; \<open>async w r\<close> says that running \<open>w\<close> can
  have the result \<open>r\<close>. The last two fields of a pool are not in the program: they record
  the jobs accepted and the reports in the order they were made.
\<close>

section \<open>The pool\<close>

datatype 'w worker = Waiting | Working 'w | Reporting 'w "goerr option" | Stopped

record 'w Pool =
  workers :: nat
  backlog :: nat
  queued :: "'w list"
  routines :: "'w worker list"
  failed :: "goerr option option"
  channel_closed :: bool
  accepted :: "'w list"
  reports :: "('w \<times> goerr option) list"

type_synonym 'w Option = "'w Pool \<Rightarrow> 'w Pool"

definition Backlog :: "u16 \<Rightarrow> 'w Option" where
  "Backlog n p = p\<lparr>backlog := unat n\<rparr>"

definition Workers :: "u16 \<Rightarrow> 'w Option" where
  "Workers n p = p\<lparr>workers := unat n\<rparr>"

fun Compose_options :: "'w Option list \<Rightarrow> 'w Option" where
  "Compose_options [] p = p"
| "Compose_options (opt # options) p = Compose_options options (opt p)"

definition init_pool :: "'w Pool \<Rightarrow> 'w Pool" where
  "init_pool p = p\<lparr>routines := replicate (workers p) Waiting\<rparr>"

definition New_pool :: "nat \<Rightarrow> 'w Option list \<Rightarrow> 'w Pool" where
  "New_pool numcpu options =
     init_pool (Clone \<lparr>workers = numcpu, backlog = numcpu, queued = [], routines = [],
       failed = None, channel_closed = False, accepted = [], reports = []\<rparr> options)"

text \<open>\<^verbatim>\<open>CompareAndSwap(nil, &cause)\<close>: the first report is stored, whether it is an error or not.\<close>

definition compare_and_swap :: "goerr option option \<Rightarrow> goerr option \<Rightarrow> goerr option option" where
  "compare_and_swap old cause = (if old = None then Some cause else old)"

inductive pool_step :: "('w \<Rightarrow> goerr option \<Rightarrow> bool) \<Rightarrow> 'w Pool \<Rightarrow> 'w Pool \<Rightarrow> bool"
  for async where
  send: "\<not> channel_closed p \<Longrightarrow> length (queued p) < backlog p \<Longrightarrow>
    pool_step async p (p\<lparr>queued := queued p @ [w], accepted := accepted p @ [w]\<rparr>)"
| handoff: "\<not> channel_closed p \<Longrightarrow> queued p = [] \<Longrightarrow> i < length (routines p) \<Longrightarrow>
    routines p ! i = Waiting \<Longrightarrow>
    pool_step async p (p\<lparr>routines := (routines p)[i := Working w], accepted := accepted p @ [w]\<rparr>)"
| receive: "queued p = w # q \<Longrightarrow> i < length (routines p) \<Longrightarrow> routines p ! i = Waiting \<Longrightarrow>
    pool_step async p (p\<lparr>queued := q, routines := (routines p)[i := Working w]\<rparr>)"
| work: "i < length (routines p) \<Longrightarrow> routines p ! i = Working w \<Longrightarrow> async w cause \<Longrightarrow>
    pool_step async p (p\<lparr>routines := (routines p)[i := Reporting w cause]\<rparr>)"
| report: "i < length (routines p) \<Longrightarrow> routines p ! i = Reporting w cause \<Longrightarrow>
    pool_step async p (p\<lparr>routines := (routines p)[i := Waiting],
      failed := compare_and_swap (failed p) cause, reports := reports p @ [(w, cause)]\<rparr>)"
| close: "\<not> channel_closed p \<Longrightarrow> pool_step async p (p\<lparr>channel_closed := True\<rparr>)"
| stop: "channel_closed p \<Longrightarrow> queued p = [] \<Longrightarrow> i < length (routines p) \<Longrightarrow>
    routines p ! i = Waiting \<Longrightarrow>
    pool_step async p (p\<lparr>routines := (routines p)[i := Stopped]\<rparr>)"

inductive pool_reachable :: "('w \<Rightarrow> goerr option \<Rightarrow> bool) \<Rightarrow> 'w Pool \<Rightarrow> 'w Pool \<Rightarrow> bool"
  for async p0 where
  start: "pool_reachable async p0 p0"
| step: "pool_reachable async p0 p \<Longrightarrow> pool_step async p p' \<Longrightarrow> pool_reachable async p0 p'"

text \<open>\<^verbatim>\<open>Close\<close> returns once every worker is done.\<close>

definition drained :: "'w Pool \<Rightarrow> bool" where
  "drained p \<longleftrightarrow> channel_closed p \<and> (\<forall>r \<in> set (routines p). r = Stopped)"

definition Close :: "'w Pool \<Rightarrow> goerr option option" where
  "Close p = (if drained p then Some (case failed p of None \<Rightarrow> None | Some cause \<Rightarrow> cause) else None)"

text \<open>What ends a \<^verbatim>\<open>Run\<close>: the channel accepts the job, its context ends, or the channel is
  closed and the send panics. The \<^verbatim>\<open>select\<close> takes any of the cases that are ready.\<close>

inductive Run :: "'w Pool \<Rightarrow> goerr option \<Rightarrow> goerr option outcome \<Rightarrow> bool" where
  run_sent: "\<not> channel_closed p \<Longrightarrow>
    length (queued p) < backlog p \<or> (queued p = [] \<and> Waiting \<in> set (routines p)) \<Longrightarrow>
    Run p ctx (Return None)"
| run_cancelled: "ctx = Some cause \<Longrightarrow> Run p ctx (Return (Some cause))"
| run_panics: "channel_closed p \<Longrightarrow> Run p ctx Panic"

text \<open>\<^verbatim>\<open>contextx.IgnoreCancelled\<close>, and \<^verbatim>\<open>Shutdown\<close>: the context derived for the wait ends with the
  result of \<^verbatim>\<open>Close\<close>, with \<^verbatim>\<open>context.Canceled\<close> where that is nil, or with the cause of the
  outer context.\<close>

definition IgnoreCancelled :: "goerr option \<Rightarrow> goerr option" where
  "IgnoreCancelled err = (if std_is err (TSentinel Canceled) then None else err)"

datatype shutdown_end = PoolClosed "goerr option" | ContextDone goerr

definition Shutdown :: "shutdown_end \<Rightarrow> goerr option" where
  "Shutdown e = IgnoreCancelled
     (case e of PoolClosed None \<Rightarrow> Some (Sentinel Canceled)
      | PoolClosed (Some err) \<Rightarrow> Some err
      | ContextDone cause \<Rightarrow> Some cause)"

section \<open>The invariant\<close>

inductive_cases stepE: "pool_step async p p'"

fun jobs_of :: "'w worker \<Rightarrow> 'w multiset" where
  "jobs_of Waiting = {#}"
| "jobs_of (Working w) = {#w#}"
| "jobs_of (Reporting w cause) = {#w#}"
| "jobs_of Stopped = {#}"

definition in_flight :: "'w worker list \<Rightarrow> 'w multiset" where
  "in_flight rs = sum_list (map jobs_of rs)"

lemma sum_list_update_add:
  fixes f :: "'a \<Rightarrow> 'b :: comm_monoid_add"
  shows "i < length xs \<Longrightarrow>
    sum_list (map f (xs[i := y])) + f (xs ! i) = sum_list (map f xs) + f y"
proof (induction xs arbitrary: i)
  case (Cons x xs)
  show ?case
  proof (cases i)
    case 0
    then show ?thesis by (simp add: ac_simps)
  next
    case (Suc j)
    have "f x + (sum_list (map f (xs[j := y])) + f (xs ! j)) =
        f x + (sum_list (map f xs) + f y)"
      using Cons.IH [of j] Cons.prems Suc by simp
    with Suc show ?thesis by (simp add: ac_simps)
  qed
qed simp

lemma in_flight_update:
  "i < length rs \<Longrightarrow> in_flight (rs[i := r]) + jobs_of (rs ! i) = in_flight rs + jobs_of r"
  by (simp add: in_flight_def sum_list_update_add)

lemma in_flight_none: "\<forall>r \<in> set rs. jobs_of r = {#} \<Longrightarrow> in_flight rs = {#}"
  unfolding in_flight_def by (induction rs) simp_all

definition first_report :: "'w Pool \<Rightarrow> goerr option option" where
  "first_report p = (case reports p of [] \<Rightarrow> None | (w, cause) # rs \<Rightarrow> Some cause)"

definition pool_inv :: "('w \<Rightarrow> goerr option \<Rightarrow> bool) \<Rightarrow> 'w Pool \<Rightarrow> bool" where
  "pool_inv async p \<longleftrightarrow>
     mset (accepted p) = mset (queued p) + in_flight (routines p) + mset (map fst (reports p)) \<and>
     failed p = first_report p \<and>
     (Stopped \<in> set (routines p) \<longrightarrow> channel_closed p \<and> queued p = []) \<and>
     (\<forall>w cause. Reporting w cause \<in> set (routines p) \<longrightarrow> async w cause) \<and>
     (\<forall>(w, cause) \<in> set (reports p). async w cause)"

lemma set_list_updateD: "x \<in> set (xs[i := y]) \<Longrightarrow> x = y \<or> x \<in> set xs"
  using set_update_subset_insert [of xs i y] by auto

lemma first_report_snoc:
  "failed p = first_report p \<Longrightarrow>
   compare_and_swap (failed p) cause =
     first_report (p\<lparr>routines := rs, failed := f, reports := reports p @ [(w, cause)]\<rparr>)"
  by (auto simp: first_report_def compare_and_swap_def split: list.splits)

lemma pool_inv_step:
  assumes "pool_step async p p'" "pool_inv async p"
  shows "pool_inv async p'"
  using assms
proof (cases rule: pool_step.cases)
  case (handoff i w)
  with assms(2) in_flight_update [of i "routines p" "Working w"] show ?thesis
    by (auto simp: pool_inv_def first_report_def dest!: set_list_updateD)
next
  case (receive w q i)
  with assms(2) in_flight_update [of i "routines p" "Working w"] show ?thesis
    by (auto simp: pool_inv_def first_report_def dest!: set_list_updateD)
next
  case (work i w cause)
  with assms(2) in_flight_update [of i "routines p" "Reporting w cause"] show ?thesis
    by (auto simp: pool_inv_def first_report_def dest!: set_list_updateD)
next
  case (report i w cause)
  have fl: "in_flight (routines p) = in_flight ((routines p)[i := Waiting]) + {#w#}"
    using report in_flight_update [of i "routines p" Waiting] by simp
  have "Reporting w cause \<in> set (routines p)"
    using report by (metis nth_mem)
  with report(1-3) assms(2) fl first_report_snoc [of p cause] show ?thesis
    by (auto simp: pool_inv_def dest!: set_list_updateD)
next
  case (stop i)
  with assms(2) in_flight_update [of i "routines p" Stopped] show ?thesis
    by (auto simp: pool_inv_def first_report_def dest!: set_list_updateD)
qed (auto simp: pool_inv_def first_report_def)

text \<open>A pool as \<^verbatim>\<open>New\<close> makes it.\<close>

definition fresh :: "'w Pool \<Rightarrow> bool" where
  "fresh p \<longleftrightarrow> queued p = [] \<and> routines p = replicate (workers p) Waiting \<and> failed p = None \<and>
     \<not> channel_closed p \<and> accepted p = [] \<and> reports p = []"

lemma fresh_inv: "fresh p \<Longrightarrow> pool_inv async p"
  by (auto simp: fresh_def pool_inv_def first_report_def intro!: in_flight_none)

lemma pool_reachable_inv: "pool_reachable async p0 p \<Longrightarrow> fresh p0 \<Longrightarrow> pool_inv async p"
  by (induction rule: pool_reachable.induct) (auto intro: fresh_inv pool_inv_step)

lemma pool_reachable_length:
  "pool_reachable async p0 p \<Longrightarrow> length (routines p) = length (routines p0)"
  by (induction rule: pool_reachable.induct) (auto elim!: pool_step.cases)

section \<open>Termination of Close\<close>

fun weight :: "'w worker \<Rightarrow> nat" where
  "weight Stopped = 0"
| "weight Waiting = 1"
| "weight (Reporting w cause) = 2"
| "weight (Working w) = 3"

definition remaining :: "'w Pool \<Rightarrow> nat" where
  "remaining p = 3 * length (queued p) + sum_list (map weight (routines p))"

lemma weight_update:
  "i < length rs \<Longrightarrow>
   sum_list (map weight (rs[i := r])) + weight (rs ! i) = sum_list (map weight rs) + weight r"
  by (rule sum_list_update_add)

lemma closed_step:
  assumes "pool_step async p p'" "channel_closed p"
  shows "remaining p' < remaining p \<and> channel_closed p'"
  using assms
proof (cases rule: pool_step.cases)
  case (receive w q i)
  with weight_update [of i "routines p" "Working w"] assms(2) show ?thesis
    by (simp add: remaining_def)
next
  case (work i w cause)
  with weight_update [of i "routines p" "Reporting w cause"] assms(2) show ?thesis
    by (simp add: remaining_def)
next
  case (report i w cause)
  with weight_update [of i "routines p" Waiting] assms(2) show ?thesis
    by (simp add: remaining_def)
next
  case (stop i)
  with weight_update [of i "routines p" Stopped] assms(2) show ?thesis
    by (simp add: remaining_def)
qed auto

lemma closed_progress:
  assumes "channel_closed p" "\<not> drained p" "\<forall>w. \<exists>cause. async w cause"
  shows "\<exists>p'. pool_step async p p'"
proof -
  obtain r where "r \<in> set (routines p)" "r \<noteq> Stopped"
    using assms(1,2) by (auto simp: drained_def)
  then obtain i where i: "i < length (routines p)" "routines p ! i \<noteq> Stopped"
    by (metis in_set_conv_nth)
  show ?thesis
  proof (cases "routines p ! i")
    case Waiting
    with i(1) assms(1) show ?thesis
      by (cases "queued p") (blast intro: pool_step.intros)+
  next
    case (Working w)
    with i(1) assms(3) [rule_format, of w] show ?thesis
      by (blast intro: pool_step.work)
  next
    case (Reporting w cause)
    with i(1) show ?thesis
      by (blast intro: pool_step.report)
  qed (use i(2) in simp)
qed

lemma closed_finishes:
  assumes "channel_closed p" "\<forall>w. \<exists>cause. async w cause"
  shows "\<exists>p'. (pool_step async)\<^sup>*\<^sup>* p p' \<and> drained p'"
  using assms(1)
proof (induction "remaining p" arbitrary: p rule: less_induct)
  case less
  show ?case
  proof (cases "drained p")
    case False
    then obtain p1 where p1: "pool_step async p p1"
      using closed_progress [OF less.prems _ assms(2)] by blast
    with closed_step [OF p1 less.prems] less.hyps obtain p' where
      "(pool_step async)\<^sup>*\<^sup>* p1 p'" "drained p'" by blast
    with p1 show ?thesis
      by (meson converse_rtranclp_into_rtranclp)
  qed blast
qed

lemma closed_bounded:
  "(pool_step async ^^ n) p p' \<Longrightarrow> channel_closed p \<Longrightarrow> n + remaining p' \<le> remaining p"
proof (induction n arbitrary: p')
  case (Suc n)
  then obtain q where q: "(pool_step async ^^ n) p q" "pool_step async q p'"
    by auto
  have "(pool_step async)\<^sup>*\<^sup>* p q"
    using q(1) by (rule relpowp_imp_rtranclp)
  then have "channel_closed q"
    using Suc.prems(2) by (induction rule: rtranclp_induct) (auto dest: closed_step)
  with Suc.IH [OF q(1) Suc.prems(2)] closed_step [OF q(2)] show ?case by simp
qed simp

lemma fresh_New_pool: "fresh (New_pool n [Workers k, Backlog m])"
  by (simp add: fresh_def New_pool_def init_pool_def Workers_def Backlog_def)

section \<open>Properties\<close>

text \<open>A pool loses no job and runs none twice, but forgets all errors except the one of the
  first report. When \<^verbatim>\<open>Close\<close> returns on a pool with a worker, the jobs reported are exactly
  the jobs accepted, each with a result its run can have, and what \<^verbatim>\<open>Close\<close> returns is the
  result of the job reported first: nil, when that one succeeded, whatever failed later.\<close>

theorem Close_exactly_once:
  assumes "pool_reachable async p0 p" "fresh p0" "0 < workers p0" "Close p = Some err"
  shows "mset (map fst (reports p)) = mset (accepted p) \<and>
    (\<forall>(w, cause) \<in> set (reports p). async w cause) \<and>
    err = (case reports p of [] \<Rightarrow> None | (w, cause) # rs \<Rightarrow> cause)"
proof -
  have inv: "pool_inv async p"
    using assms(1,2) by (rule pool_reachable_inv)
  have d: "drained p" and err: "err = (case failed p of None \<Rightarrow> None | Some cause \<Rightarrow> cause)"
    using assms(4) by (auto simp: Close_def split: if_splits)
  have "length (routines p) = workers p0"
    using pool_reachable_length [OF assms(1)] assms(2) by (simp add: fresh_def)
  with assms(3) d have "Stopped \<in> set (routines p)"
    unfolding drained_def by (metis length_pos_if_in_set length_greater_0_conv list.set_sel(1))
  with inv have "queued p = []"
    by (simp add: pool_inv_def)
  moreover have "in_flight (routines p) = {#}"
    using d by (intro in_flight_none) (auto simp: drained_def)
  ultimately show ?thesis
    using inv err by (auto simp: pool_inv_def first_report_def split: list.splits)
qed

definition demo_async :: "nat \<Rightarrow> goerr option \<Rightarrow> bool" where
  "demo_async w cause \<longleftrightarrow> cause = (if w = 10 then None else Some (StringErr ''failed''))"

lemma demo_run:
  "pool_reachable demo_async (New_pool 4 [Workers 1, Backlog 2])
     \<lparr>workers = 1, backlog = 2, queued = [], routines = [Stopped], failed = Some None,
      channel_closed = True, accepted = [10, 20],
      reports = [(10, None), (20, Some (StringErr ''failed''))]\<rparr>"
proof -
  let ?P = "\<lambda>q rs f c a r. \<lparr>workers = 1, backlog = 2, queued = q, routines = rs, failed = f,
      channel_closed = c, accepted = a, reports = r\<rparr>"
  let ?R = "\<lambda>q rs f c a r. pool_reachable demo_async (New_pool 4 [Workers 1, Backlog 2]) (?P q rs f c a r)"
  let ?e = "Some (StringErr ''failed'')"
  have "?R [] [Waiting] None False [] []"
    using pool_reachable.start [of demo_async "New_pool 4 [Workers 1, Backlog 2]"]
    by (simp add: New_pool_def init_pool_def Workers_def Backlog_def)
  then have "?R [10] [Waiting] None False [10] []"
    by (rule pool_reachable.step) (use pool_step.send [where p = "?P [] [Waiting] None False [] []" and w = 10 and async = demo_async] in simp)
  then have "?R [10, 20] [Waiting] None False [10, 20] []"
    by (rule pool_reachable.step) (use pool_step.send [where p = "?P [10] [Waiting] None False [10] []" and w = 20 and async = demo_async] in simp)
  then have "?R [10, 20] [Waiting] None True [10, 20] []"
    by (rule pool_reachable.step) (use pool_step.close [where p = "?P [10, 20] [Waiting] None False [10, 20] []" and async = demo_async] in simp)
  then have "?R [20] [Working 10] None True [10, 20] []"
    by (rule pool_reachable.step)
      (use pool_step.receive [where p = "?P [10, 20] [Waiting] None True [10, 20] []" and w = 10 and q = "[20]" and i = 0 and async = demo_async] in simp)
  then have "?R [20] [Reporting 10 None] None True [10, 20] []"
    by (rule pool_reachable.step)
      (use pool_step.work [where i = 0 and p = "?P [20] [Working 10] None True [10, 20] []" and w = 10 and async = demo_async and cause = None]
        in \<open>simp add: demo_async_def\<close>)
  then have "?R [20] [Waiting] (Some None) True [10, 20] [(10, None)]"
    by (rule pool_reachable.step)
      (use pool_step.report [where i = 0 and p = "?P [20] [Reporting 10 None] None True [10, 20] []" and w = 10 and cause = None and async = demo_async]
        in \<open>simp add: compare_and_swap_def\<close>)
  then have "?R [] [Working 20] (Some None) True [10, 20] [(10, None)]"
    by (rule pool_reachable.step)
      (use pool_step.receive [where p = "?P [20] [Waiting] (Some None) True [10, 20] [(10, None)]" and w = 20 and q = "[]" and i = 0 and async = demo_async] in simp)
  then have "?R [] [Reporting 20 ?e] (Some None) True [10, 20] [(10, None)]"
    by (rule pool_reachable.step)
      (use pool_step.work [where i = 0 and p = "?P [] [Working 20] (Some None) True [10, 20] [(10, None)]" and w = 20 and async = demo_async and cause = "?e"]
        in \<open>simp add: demo_async_def\<close>)
  then have "?R [] [Waiting] (Some None) True [10, 20] [(10, None), (20, ?e)]"
    by (rule pool_reachable.step)
      (use pool_step.report [where i = 0 and p = "?P [] [Reporting 20 ?e] (Some None) True [10, 20] [(10, None)]" and w = 20 and cause = "?e" and async = demo_async]
        in \<open>simp add: compare_and_swap_def\<close>)
  then show ?thesis
    by (rule pool_reachable.step)
      (use pool_step.stop [where p = "?P [] [Waiting] (Some None) True [10, 20] [(10, None), (20, ?e)]" and i = 0 and async = demo_async] in simp)
qed

theorem Close_exactly_once_witness:
  "\<exists>p. pool_reachable demo_async (New_pool 4 [Workers 1, Backlog 2]) p \<and> Close p = Some None \<and>
     mset (map fst (reports p)) = {#10, 20#} \<and> (20, Some (StringErr ''failed'')) \<in> set (reports p)"
proof -
  let ?p = "\<lparr>workers = 1, backlog = 2, queued = [], routines = [Stopped], failed = Some None,
      channel_closed = True, accepted = [10, 20],
      reports = [(10, None), (20, Some (StringErr ''failed''))]\<rparr> :: nat Pool"
  have "Close ?p = Some None"
    by (simp add: Close_def drained_def)
  with Close_exactly_once [OF demo_run fresh_New_pool _ this]
  have "mset (map fst (reports ?p)) = {#10, 20#}"
    by (simp add: New_pool_def init_pool_def Workers_def Backlog_def)
  with demo_run \<open>Close ?p = Some None\<close> show ?thesis
    by (intro exI [of _ ?p]) simp
qed

text \<open>C37: closing a pool terminates. Once the channel is closed, and provided every job can end,
  no schedule of the workers takes more than three steps for every job queued and every
  worker, and some schedule drains the pool, so that \<^verbatim>\<open>Close\<close> returns.\<close>

theorem Close_terminates:
  assumes "channel_closed p" "\<forall>w. \<exists>cause. async w cause"
  shows "(\<forall>n p'. (pool_step async ^^ n) p p' \<longrightarrow>
      n \<le> 3 * (length (queued p) + length (routines p))) \<and>
    (\<exists>p' err. (pool_step async)\<^sup>*\<^sup>* p p' \<and> Close p' = Some err)"
proof
  have "sum_list (map weight rs) \<le> 3 * length rs" for rs :: "'a worker list"
  proof (induction rs)
    case (Cons r rs)
    then show ?case by (cases r) simp_all
  qed simp
  then have "remaining p \<le> 3 * (length (queued p) + length (routines p))"
    by (simp add: remaining_def add_mult_distrib2)
  then show "\<forall>n p'. (pool_step async ^^ n) p p' \<longrightarrow>
      n \<le> 3 * (length (queued p) + length (routines p))"
    using closed_bounded [OF _ assms(1)] by fastforce
  show "\<exists>p' err. (pool_step async)\<^sup>*\<^sup>* p p' \<and> Close p' = Some err"
    using closed_finishes [OF assms] by (auto simp: Close_def)
qed

theorem Close_terminates_witness:
  "\<exists>p' err. (pool_step demo_async)\<^sup>*\<^sup>*
     ((New_pool 4 [Workers 2])\<lparr>queued := [1, 2, 3], channel_closed := True\<rparr>) p' \<and> Close p' = Some err"
  by (rule Close_terminates [THEN conjunct2]) (simp_all add: demo_async_def)

end
