(* ===== verification/Importx.thy ===== *)
theory Importx
  imports Osfs Librarydb Asynccompute
begin

text \<open>
  Files on their way into the library: \<^verbatim>\<open>shallows/library/import.filesystem.go\<close>,
  \<^verbatim>\<open>shallows/tracking/import.filesystem.go\<close> and the end of a download in
  \<^verbatim>\<open>shallows/tracking/metadata.go\<close>.

  The state is a \<open>depot\<close>: the file system, the tables of the media and of the torrents and the
  number of statements run so far. The tree files are read from is an \<open>import_root\<close>, read as it
  was at the start. The digest with the rendering as a \<^verbatim>\<open>UUID\<close>, the detection of media types, the
  decoders and the torrent client are parameters. An import runs its jobs one after the other,
  in the order of the paths, once the traversal is over: a schedule of the pool of
  \<open>Asynccompute\<close> with one worker.
\<close>

section \<open>Files read\<close>

text \<open>What is read of a file: its bytes, and the error that ends the reading if it is not
  \<^verbatim>\<open>io.EOF\<close>. A file of a torrent knows its offset.\<close>

record source_file =
  sf_bytes :: bytes
  sf_err :: "goerr option"
  sf_offset :: "u64 option"

record import_root =
  ir_stat :: "string \<Rightarrow> goerr + bool"
  ir_open :: "string \<Rightarrow> goerr + source_file"
  ir_sub :: "string \<Rightarrow> goerr option"
  ir_walk :: "string \<Rightarrow> string list \<times> goerr option"

record Transfered =
  tx_Path :: string
  tx_Mimetype :: string
  tx_MD5 :: bytes
  tx_Offset :: u64
  tx_Bytes :: u64

type_synonym detector = "bytes \<times> goerr option \<Rightarrow> goerr + string"
type_synonym 's import_op = "import_root \<Rightarrow> string \<Rightarrow> 's \<Rightarrow> 's \<times> (goerr + Transfered)"

definition TransferedFromPath :: "detector \<Rightarrow> import_root \<Rightarrow> string \<Rightarrow> goerr + Transfered" where
  "TransferedFromPath detect r p =
     (case ir_open r p of
        Inl err \<Rightarrow> Inl err
      | Inr src \<Rightarrow>
          (case detect (sf_bytes src, sf_err src) of
             Inl err \<Rightarrow> Inl err
           | Inr mime \<Rightarrow> Inr \<lparr>tx_Path = p, tx_Mimetype = mime, tx_MD5 = [], tx_Offset = 0, tx_Bytes = 0\<rparr>))"

definition ImportFileDryRun :: "detector \<Rightarrow> 's import_op" where
  "ImportFileDryRun detect r p st = (st, TransferedFromPath detect r p)"

text \<open>The copy into the digest: the bytes of the file and their number, or the error of the
  reader.\<close>

definition digest_file :: "detector \<Rightarrow> import_root \<Rightarrow> string \<Rightarrow> goerr + Transfered" where
  "digest_file detect r p =
     (case TransferedFromPath detect r p of
        Inl err \<Rightarrow> Inl err
      | Inr tx \<Rightarrow>
          (case ir_open r p of
             Inl err \<Rightarrow> Inl err
           | Inr src \<Rightarrow>
               (case sf_err src of
                  Some err \<Rightarrow> Inl err
                | None \<Rightarrow> Inr (tx\<lparr>tx_MD5 := sf_bytes src, tx_Bytes := of_nat (length (sf_bytes src)),
                    tx_Offset := case sf_offset src of None \<Rightarrow> tx_Offset tx | Some off \<Rightarrow> off\<rparr>))))"

text \<open>The link \<open>dst\<close> is replaced by one to \<open>target\<close>.\<close>

definition replace_link :: "faults \<Rightarrow> string \<Rightarrow> string \<Rightarrow> os \<Rightarrow> os \<times> (goerr + unit)" where
  "replace_link fault target dst st =
     (let (st1, r1) = os_Remove fault dst st in
      case IgnoreIsNotExist (errored r1) of
        Some err \<Rightarrow> (st1, Inl (WithStack (WithMessage err ''unable to ensure symlink destination is available'')))
      | None \<Rightarrow>
          (case os_Symlink fault target dst st1 of
             (st2, Inl err) \<Rightarrow> (st2, Inl (WithStack (WithMessage err
               (''unable to symlink to original location: '' @ target @ '' -> '' @ dst))))
           | (st2, Inr _) \<Rightarrow> (st2, Inr ())))"

definition ImportSymlinkFile ::
  "faults \<Rightarrow> detector \<Rightarrow> (bytes \<Rightarrow> string) \<Rightarrow> string \<Rightarrow> string \<Rightarrow> os import_op" where
  "ImportSymlinkFile fault detect md5uuid srcdir dir r p st =
     (case digest_file detect r p of
        Inl err \<Rightarrow> (st, Inl err)
      | Inr tx \<Rightarrow>
          (case replace_link fault (Path_of srcdir [tx_Path tx]) (Path_of dir [md5uuid (tx_MD5 tx)]) st of
             (st1, Inl err) \<Rightarrow> (st1, Inl err)
           | (st1, Inr _) \<Rightarrow> (st1, Inr (tx\<lparr>tx_Offset := 0\<rparr>))))"

text \<open>\<^verbatim>\<open>os.CreateTemp\<close>, with the name of the file as result.\<close>

definition os_CreateTemp ::
  "faults \<Rightarrow> (nat \<Rightarrow> u32) \<Rightarrow> string \<Rightarrow> string \<Rightarrow> string \<Rightarrow> os \<Rightarrow> os \<times> (goerr + string)" where
  "os_CreateTemp fault rnd dir prefix suffix st =
     (case create_temp_loop (\<lambda>name. os_CreateExcl fault (path_join dir name)) rnd prefix suffix 0 temp_tries st of
        (st1, Inl err) \<Rightarrow> (st1, Inl err)
      | (st1, Inr name) \<Rightarrow> (st1, Inr (path_join dir name)))"

text \<open>The body between the creation of the temporary file and the deferred removal of its name.\<close>

definition copy_into ::
  "faults \<Rightarrow> (bytes \<Rightarrow> string) \<Rightarrow> string \<Rightarrow> Transfered \<Rightarrow> source_file \<Rightarrow> string \<Rightarrow> os \<Rightarrow> os \<times> (goerr + Transfered)" where
  "copy_into fault md5uuid dir tx src tmp st =
     (case os_WriteFile fault tmp (sf_bytes src) st of
        (st1, Inl err) \<Rightarrow> (st1, Inl err)
      | (st1, Inr _) \<Rightarrow>
          (case sf_err src of
             Some err \<Rightarrow> (st1, Inl err)
           | None \<Rightarrow>
               let tx = tx\<lparr>tx_MD5 := sf_bytes src, tx_Bytes := of_nat (length (sf_bytes src))\<rparr>;
                   dst = Path_of dir [md5uuid (tx_MD5 tx)];
                   (st2, r2) = os_Remove fault dst st1 in
               (case IgnoreIsNotExist (errored r2) of
                  Some err \<Rightarrow> (st2, Inl (WithStack (WithMessage err ''unable to ensure destination is available'')))
                | None \<Rightarrow>
                    (case os_Rename fault tmp dst st2 of
                       (st3, Inl err) \<Rightarrow> (st3, Inl (WithStack (WithMessage err ''unable to symlink to original location'')))
                     | (st3, Inr _) \<Rightarrow> (st3, Inr tx)))))"

definition ImportCopyFile ::
  "faults \<Rightarrow> (nat \<Rightarrow> u32) \<Rightarrow> detector \<Rightarrow> (bytes \<Rightarrow> string) \<Rightarrow> string \<Rightarrow> os import_op" where
  "ImportCopyFile fault rnd detect md5uuid dir r p st =
     (case TransferedFromPath detect r p of
        Inl err \<Rightarrow> (st, Inl err)
      | Inr tx \<Rightarrow>
          (case ir_open r p of
             Inl err \<Rightarrow> (st, Inl err)
           | Inr src \<Rightarrow>
               (case os_CreateTemp fault rnd (Path_of dir []) ''importing.'' ''.bin'' st of
                  (st1, Inl err) \<Rightarrow> (st1, Inl err)
                | (st1, Inr tmp) \<Rightarrow>
                    let (st2, res) = copy_into fault md5uuid dir tx src tmp st1
                    in (fst (os_Remove fault tmp st2), res))))"

section \<open>The importer\<close>

text \<open>The jobs of the paths, and the error the traversal ends with. A path that cannot be looked
  at ends it; the error of a walk is overwritten by a later one.\<close>

fun import_paths :: "import_root \<Rightarrow> string list \<Rightarrow> goerr option \<Rightarrow> string list \<times> goerr option" where
  "import_paths r [] err = ([], err)"
| "import_paths r (p # ps) err =
     (case ir_stat r p of
        Inl cause \<Rightarrow>
          ([], Wrap (Some cause) ((if errors_is cause (TSentinel ErrNotExist) then ''ignoring '' else ''failed '') @ p))
      | Inr False \<Rightarrow> (let (jobs, e) = import_paths r ps err in (p # jobs, e))
      | Inr True \<Rightarrow>
          (case ir_sub r p of
             Some cause \<Rightarrow> ([], Wrap (Some cause) (''failed '' @ p))
           | None \<Rightarrow>
               let (found, cause) = ir_walk r p;
                   err = (case cause of None \<Rightarrow> err
                          | Some c \<Rightarrow> Wrap (Some c) ''filesystem traversal failed'');
                   (jobs, e) = import_paths r ps err
               in (map (\<lambda>f. path_join_list [p, f]) (filter (\<lambda>f. f \<noteq> ''.'') found) @ jobs, e)))"

text \<open>A job: nothing for a directory. The second component is what the pool is told, the third the
  error of the operation.\<close>

definition import_job ::
  "'s import_op \<Rightarrow> import_root \<Rightarrow> string \<Rightarrow> 's \<Rightarrow> 's \<times> goerr option \<times> goerr option \<times> Transfered option" where
  "import_job op r p st =
     (case ir_stat r p of
        Inl err \<Rightarrow> (st, Some err, None, None)
      | Inr True \<Rightarrow> (st, None, None, None)
      | Inr False \<Rightarrow>
          (case op r p st of
             (st1, Inl cause) \<Rightarrow> (st1, Some cause, Some cause, None)
           | (st1, Inr tx) \<Rightarrow> (st1, None, None, Some tx)))"

fun import_jobs ::
  "'s import_op \<Rightarrow> import_root \<Rightarrow> string list \<Rightarrow> goerr option \<Rightarrow> goerr option option \<Rightarrow> 's \<Rightarrow>
   's \<times> goerr option \<times> goerr option option \<times> Transfered list" where
  "import_jobs op r [] err first st = (st, err, first, [])"
| "import_jobs op r (p # ps) err first st =
     (let (st1, report, cause, out) = import_job op r p st;
          (st2, err2, first2, txs) =
            import_jobs op r ps (Compact [err, cause]) (compare_and_swap first report) st1
      in (st2, err2, first2, case out of None \<Rightarrow> txs | Some tx \<Rightarrow> tx # txs))"

text \<open>What the iterator yields: the transfers, and at last the error if there is one.\<close>

definition Import ::
  "'s import_op \<Rightarrow> import_root \<Rightarrow> string list \<Rightarrow> 's \<Rightarrow> 's \<times> Transfered list \<times> goerr option" where
  "Import op r paths st =
     (let (jobs, err) = import_paths r paths None;
          (st1, err1, first, txs) = import_jobs op r jobs err None st
      in (st1, txs, Compact [err1, Shutdown (PoolClosed (case first of None \<Rightarrow> None | Some c \<Rightarrow> c))]))"

definition ImportFilesystem ::
  "'s import_op \<Rightarrow> import_root \<Rightarrow> string list \<Rightarrow> 's \<Rightarrow> 's \<times> Transfered list \<times> goerr option" where
  "ImportFilesystem op r paths st = Import op r paths st"

section \<open>Torrents into the library\<close>

record depot =
  dp_os :: os
  dp_media :: media_rows
  dp_torrents :: torrents
  dp_stmts :: nat

type_synonym dp_database = "nat \<Rightarrow> sqldb"

definition on_os :: "(os \<Rightarrow> os \<times> 'a) \<Rightarrow> depot \<Rightarrow> depot \<times> 'a" where
  "on_os f st = (let (o1, r) = f (dp_os st) in (st\<lparr>dp_os := o1\<rparr>, r))"

definition on_media :: "dp_database \<Rightarrow> (sqldb \<Rightarrow> media_rows \<Rightarrow> media_rows \<times> 'a) \<Rightarrow> depot \<Rightarrow> depot \<times> 'a" where
  "on_media db q st =
     (let (tbl, res) = q (db (dp_stmts st)) (dp_media st)
      in (st\<lparr>dp_stmts := Suc (dp_stmts st), dp_media := tbl\<rparr>, res))"

definition on_tracked :: "dp_database \<Rightarrow> (sqldb \<Rightarrow> torrents \<Rightarrow> torrents \<times> 'a) \<Rightarrow> depot \<Rightarrow> depot \<times> 'a" where
  "on_tracked db q st =
     (let (tbl, res) = q (db (dp_stmts st)) (dp_torrents st)
      in (st\<lparr>dp_stmts := Suc (dp_stmts st), dp_torrents := tbl\<rparr>, res))"

text \<open>The mutex of \<^verbatim>\<open>ImportSymlink\<close> makes the replacement of the link one step.\<close>

definition ImportSymlink ::
  "faults \<Rightarrow> detector \<Rightarrow> (bytes \<Rightarrow> string) \<Rightarrow> string \<Rightarrow> string \<Rightarrow> string \<Rightarrow> os import_op" where
  "ImportSymlink fault detect md5uuid ident srcdir dir r p st =
     (case digest_file detect r p of
        Inl err \<Rightarrow> (st, Inl err)
      | Inr tx \<Rightarrow>
          (case replace_link fault (Path_of srcdir [ident]) (Path_of dir [md5uuid (tx_MD5 tx)]) st of
             (st1, Inl err) \<Rightarrow> (st1, Inl err)
           | (st1, Inr _) \<Rightarrow> (st1, Inr tx)))"

text \<open>\<^verbatim>\<open>torrent.NewFromMetaInfoReader\<close> with the bytes of the info, and the decoder of the info with
  the paths of its files.\<close>

record torrent_file =
  tf_ID :: bytes
  tf_Info :: "goerr + torrent_info \<times> string list list"

record import_env =
  ie_fault :: faults
  ie_random :: "nat \<Rightarrow> u32"
  ie_db :: dp_database
  ie_detect :: detector
  ie_md5uuid :: "bytes \<Rightarrow> string"
  ie_seed :: string
  ie_transform :: "string \<Rightarrow> goerr + string"
  ie_metainfo :: "bytes \<times> goerr option \<Rightarrow> goerr + torrent_file"
  ie_glob :: "os \<Rightarrow> string \<Rightarrow> string \<Rightarrow> goerr + string list"

text \<open>The loop over the files of the info.\<close>

fun associate_files ::
  "import_env \<Rightarrow> string \<Rightarrow> string \<Rightarrow> string \<Rightarrow> string \<Rightarrow> string list list \<Rightarrow> depot \<Rightarrow> depot \<times> goerr option" where
  "associate_files e mdir tdir uid tid [] st = (st, None)"
| "associate_files e mdir tdir uid tid (f # fs) st =
     (case on_media (ie_db e) (\<lambda>d. LMetadataAssociateTorrent d (LastOrZero '''' f) tid) st of
        (st1, Inl err) \<Rightarrow>
          if IgnoreNoRows (Some err) \<noteq> None
          then (st1, Wrap (Some err) ''unable to retrieve metadata'')
          else associate_files e mdir tdir uid tid fs st1
      | (st1, Inr lmd) \<Rightarrow>
          let dstp = Path_of tdir [uid, path_join_list f];
              (st2, r2) = on_os (os_MkdirAll (ie_fault e) (path_clean (fst (path_split dstp)))) st1 in
          (case r2 of
             Inl err \<Rightarrow> (st2, Wrap (Some err) ''unable to create torrent file'')
           | Inr _ \<Rightarrow>
               (case on_os (RemoveSymlink (ie_fault e) dstp) st2 of
                  (st3, Some err) \<Rightarrow> (st3, withStack (Some err))
                | (st3, None) \<Rightarrow>
                    (case on_os (os_Symlink (ie_fault e) (Path_of mdir [ID lmd]) dstp) st3 of
                       (st4, Inl err) \<Rightarrow> (st4, Wrap (Some err) ''unable to associate torrent file with library'')
                     | (st4, Inr _) \<Rightarrow> associate_files e mdir tdir uid tid fs st4))))"

text \<open>What follows the creation of the temporary file; \<open>uid\<close> is the text of the infohash.\<close>

definition import_torrent_file ::
  "import_env \<Rightarrow> string \<Rightarrow> string \<Rightarrow> Transfered \<Rightarrow> torrent_file \<Rightarrow> source_file \<Rightarrow> string \<Rightarrow> depot \<Rightarrow>
   depot \<times> (goerr + Transfered)" where
  "import_torrent_file e mdir tdir tx md src tmp st =
     (case on_os (os_WriteFile (ie_fault e) tmp (sf_bytes src)) st of
        (st1, Inl err) \<Rightarrow> (st1, Inl err)
      | (st1, Inr _) \<Rightarrow>
          (case (sf_err src, tf_Info md) of
             (Some err, _) \<Rightarrow> (st1, Inl err)
           | (None, Inl err) \<Rightarrow> (st1, Inl (WithStack (WithMessage err ''unable to extract info'')))
           | (None, Inr (info, files)) \<Rightarrow>
               let tx = tx\<lparr>tx_MD5 := sf_bytes src, tx_Bytes := of_nat (length (sf_bytes src))\<rparr>;
                   uid = hex_EncodeToString (tf_ID md) in
               (case on_tracked (ie_db e) (\<lambda>d. TMetadataInsertWithDefaults d
                       (NewTMetadata (ie_md5uuid e) (ie_seed e) (tf_ID md)
                         [TMetadataOptionFromInfo info, TMetadataOptionAutoDescription (ie_transform e)])) st1 of
                  (st2, Inl err) \<Rightarrow> (st2, Inl (WithStack (WithMessage err ''unable to insert metadata'')))
                | (st2, Inr tmd) \<Rightarrow>
                    (case associate_files e mdir tdir uid (t_ID tmd) files st2 of
                       (st3, Some err) \<Rightarrow> (st3, Inl err)
                     | (st3, None) \<Rightarrow>
                         (case on_os (os_Rename (ie_fault e) tmp (Path_of tdir [uid @ ''.torrent''])) st3 of
                            (st4, Inl err) \<Rightarrow> (st4, Inl (WithStack (WithMessage err ''unable to symlink to original location'')))
                          | (st4, Inr _) \<Rightarrow>
                              (case on_tracked (ie_db e) (\<lambda>d. TMetadataDownloadByID d (t_ID tmd)) st4 of
                                 (st5, Inl err) \<Rightarrow> (st5, Inl (WithStack (WithMessage err ''unable to mark torrent for downloading'')))
                               | (st5, Inr _) \<Rightarrow> (st5, Inr tx)))))))"

definition ImportTorrent :: "import_env \<Rightarrow> string \<Rightarrow> string \<Rightarrow> depot import_op" where
  "ImportTorrent e mdir tdir r p st =
     (case TransferedFromPath (ie_detect e) r p of
        Inl err \<Rightarrow> (st, Inl err)
      | Inr tx \<Rightarrow>
          (case ir_open r (tx_Path tx) of
             Inl err \<Rightarrow> (st, Inl err)
           | Inr mdsrc \<Rightarrow>
               (case ie_metainfo e (sf_bytes mdsrc, sf_err mdsrc) of
                  Inl err \<Rightarrow> (st, Inl err)
                | Inr md \<Rightarrow>
                    (case ir_open r p of
                       Inl err \<Rightarrow> (st, Inl err)
                     | Inr src \<Rightarrow>
                         (case on_os (os_CreateTemp (ie_fault e) (ie_random e) (Path_of tdir []) ''importing.'' ''.bin'') st of
                            (st1, Inl err) \<Rightarrow> (st1, Inl err)
                          | (st1, Inr tmp) \<Rightarrow>
                              let (st2, res) = import_torrent_file e mdir tdir tx md src tmp st1
                              in (fst (on_os (os_Remove (ie_fault e) tmp) st2), res))))))"

section \<open>The end of a download\<close>

text \<open>\<^verbatim>\<open>for tx, cause := range\<close>: the record of each file, then the error of the import.\<close>

definition media_of_tx :: "import_env \<Rightarrow> TMetadata \<Rightarrow> Transfered \<Rightarrow> Metadata" where
  "media_of_tx e md tx =
     (let d = DescriptionFromPath (ie_transform e) md (tx_Path tx) in
      NewMetadata (ie_seed e) (ie_md5uuid e (tx_MD5 tx))
        [MetadataOptionDescription d, MetadataOptionAutoDescription (NormalizedDescription (ie_transform e) d),
         MetadataOptionBytes (tx_Bytes tx), MetadataOptionOffset (tx_Offset tx), MetadataOptionTorrentID (t_ID md),
         MetadataOptionKnownMediaID (t_KnownMediaID md), MetadataOptionMimetype (tx_Mimetype tx),
         MetadataOptionEncryptionSeed (t_EncryptionSeed md), MetadataOptionArchivable (t_Archivable md)])"

fun record_media :: "import_env \<Rightarrow> TMetadata \<Rightarrow> Transfered list \<Rightarrow> depot \<Rightarrow> depot \<times> goerr option" where
  "record_media e md [] st = (st, None)"
| "record_media e md (tx # txs) st =
     (case on_media (ie_db e) (\<lambda>d. LMetadataInsertWithDefaults d (media_of_tx e md tx)) st of
        (st1, Inl err) \<Rightarrow> (st1, Wrap (Some err) ''unable to record library metadata'')
      | (st1, Inr _) \<Rightarrow> record_media e md txs st1)"

text \<open>\<open>transfer\<close> is \<^verbatim>\<open>torrent.DownloadInto\<close>, which stores the blocks and returns the bytes downloaded;
  \<open>files\<close> the file system of the torrent over its cache and \<open>written\<close> the bytes uploaded so far.\<close>

definition DownloadInto ::
  "import_env \<Rightarrow> string \<Rightarrow> (os \<Rightarrow> os \<times> (goerr + int)) \<Rightarrow> (os \<Rightarrow> import_root) \<Rightarrow> u64 \<Rightarrow> TMetadata \<Rightarrow> depot \<Rightarrow>
   depot \<times> goerr option" where
  "DownloadInto e dir transfer files written md st =
     (let mediadir = Path_of dir [''media''];
          torrentdir = Path_of dir [''torrent''];
          ident = hex_EncodeToString (t_Infohash md);
          croot = Path_of torrentdir [ident];
          (st1, made) = on_os (os_MkdirAll (ie_fault e) croot) st in
      case NewDirectoryCache (errored made) croot [] of
        Inl err \<Rightarrow> (st1, Some err)
      | Inr bcache \<Rightarrow>
          (case on_os transfer st1 of
             (st2, Inl err) \<Rightarrow> (st2, Wrap (Some err) ''download failed'')
           | (st2, Inr downloaded) \<Rightarrow>
               let op = ImportSymlink (ie_fault e) (ie_detect e) (ie_md5uuid e) ident torrentdir mediadir;
                   (st3, txs, cause) = on_os (ImportFilesystem op (files (dp_os st2)) [''.'']) st2 in
               (case record_media e md txs st3 of
                  (st4, Some err) \<Rightarrow> (st4, Some err)
                | (st4, None) \<Rightarrow>
                    if cause \<noteq> None then (st4, Wrap cause ''failed to transfer files into library'')
                    else
                      (case on_tracked (ie_db e)
                              (\<lambda>d. TMetadataCompleteByID d (t_ID md) 0 (word_of_int downloaded) written) st4 of
                         (st5, Inl err) \<Rightarrow> (st5, Wrap (Some err) ''progress update failed'')
                       | (st5, Inr _) \<Rightarrow> (st5, None)))))"

definition Download ::
  "import_env \<Rightarrow> string \<Rightarrow> (os \<Rightarrow> os \<times> (goerr + int)) \<Rightarrow> (os \<Rightarrow> import_root) \<Rightarrow> u64 \<Rightarrow> TMetadata \<Rightarrow> depot \<Rightarrow>
   depot \<times> goerr option" where
  "Download e dir transfer files written md st = DownloadInto e dir transfer files written md st"

section \<open>Progress\<close>

text \<open>What the loop of \<^verbatim>\<open>DownloadProgress\<close> receives: a tick with the result of \<^verbatim>\<open>Tune\<close>, or a piece
  with the answer of the limiter; the bytes completed and the peers are those of the moment. It
  ends with its context.\<close>

datatype progress_event =
    StatsTick "goerr option" u64 int
  | PieceDone bool u64 int

definition record_progress :: "dp_database \<Rightarrow> u64 \<Rightarrow> int \<Rightarrow> depot \<times> TMetadata \<Rightarrow> depot \<times> TMetadata" where
  "record_progress db current peers = (\<lambda>(st, md).
     (case on_tracked db (\<lambda>d. TMetadataProgressByID d (t_ID md) (word_of_int peers) current) st of
        (st1, Inl err) \<Rightarrow> (st1, md)
      | (st1, Inr md') \<Rightarrow> (st1, md')))"

definition progress_step :: "dp_database \<Rightarrow> progress_event \<Rightarrow> depot \<times> TMetadata \<Rightarrow> depot \<times> TMetadata" where
  "progress_step db ev s =
     (case ev of
        StatsTick tuned current peers \<Rightarrow>
          if tuned \<noteq> None then s
          else if t_Downloaded (snd s) = current then s
          else record_progress db current peers s
      | PieceDone allowed current peers \<Rightarrow>
          if \<not> allowed then s
          else if t_Downloaded (snd s) = current then s
          else record_progress db current peers s)"

text \<open>\<open>tuned\<close> is the error of the subscription.\<close>

definition DownloadProgress ::
  "dp_database \<Rightarrow> goerr option \<Rightarrow> progress_event list \<Rightarrow> TMetadata \<Rightarrow> depot \<Rightarrow> depot \<times> TMetadata" where
  "DownloadProgress db tuned events md st =
     (if tuned \<noteq> None then (st, md) else fold (progress_step db) events (st, md))"

section \<open>Deletion\<close>

fun remove_media :: "faults \<Rightarrow> string \<Rightarrow> Metadata list \<Rightarrow> os \<Rightarrow> os \<times> goerr option" where
  "remove_media fault mediadir [] st = (st, None)"
| "remove_media fault mediadir (lmd # rest) st =
     (case os_RemoveAll fault (Path_of mediadir [ID lmd]) st of
        (st1, Inl err) \<Rightarrow> (st1, Some err)
      | (st1, Inr _) \<Rightarrow> remove_media fault mediadir rest st1)"

text \<open>The matches are names in the directory of the torrents and are removed as they are.\<close>

fun remove_matches :: "faults \<Rightarrow> string list \<Rightarrow> os \<Rightarrow> os \<times> goerr option" where
  "remove_matches fault [] st = (st, None)"
| "remove_matches fault (m # ms) st =
     (case os_RemoveAll fault m st of
        (st1, Inl err) \<Rightarrow> (st1, Some err)
      | (st1, Inr _) \<Rightarrow> remove_matches fault ms st1)"

definition Delete :: "import_env \<Rightarrow> string \<Rightarrow> TMetadata \<Rightarrow> depot \<Rightarrow> depot \<times> TMetadata \<times> goerr option" where
  "Delete e dir md st =
     (let mediadir = Path_of dir [''media''];
          torrentdir = Path_of dir [''torrent''];
          (st1, rs) = on_media (ie_db e) (\<lambda>d. LMetadataTombstoneByTorrentID d (t_ID md)) st in
      case Discard rs of
        Some err \<Rightarrow> (st1, md, Some err)
      | None \<Rightarrow>
          (case on_tracked (ie_db e) (\<lambda>d. TMetadataTombstoneByID d (t_ID md)) st1 of
             (st2, Inl err) \<Rightarrow> (st2, md, Some err)
           | (st2, Inr md) \<Rightarrow>
               let (st3, rows) = on_media (ie_db e)
                     (\<lambda>d tbl. (tbl, select_where d (MetadataQueryByTorrentID (t_ID md)) tbl)) st2 in
               (case on_os (remove_media (ie_fault e) mediadir (scanned (rs_rows rows))) st3 of
                  (st4, Some err) \<Rightarrow> (st4, md, Some err)
                | (st4, None) \<Rightarrow>
                    (case ie_glob e (dp_os st4) torrentdir (hex_EncodeToString (t_Infohash md)) of
                       Inl err \<Rightarrow> (st4, md, Some err)
                     | Inr matches \<Rightarrow>
                         let (st5, err) = on_os (remove_matches (ie_fault e) matches) st4
                         in (st5, md, err)))))"

section \<open>Lemmas\<close>

lemma digest_file_read:
  "digest_file detect r p = Inr tx \<Longrightarrow> \<exists>src. ir_open r p = Inr src \<and> sf_err src = None \<and> tx_MD5 tx = sf_bytes src \<and>
     tx_Bytes tx = of_nat (length (sf_bytes src)) \<and> tx_Path tx = p \<and>
     tx_Offset tx = (case sf_offset src of None \<Rightarrow> 0 | Some off \<Rightarrow> off)"
  by (auto simp: digest_file_def TransferedFromPath_def split: sum.splits option.splits)

lemma replace_link_entry:
  assumes "dir_at st d q" "plain_name c" "nodes_of st (q @ [c]) \<noteq> Some Directory"
    and "replace_link fault target (path_join d c) st = (st', Inr u)"
  shows "nodes_of st' = (nodes_of st)(q @ [c] \<mapsto> Link target) \<and> cwd st' = cwd st"
proof -
  obtain st1 r1 where rem: "os_Remove fault (path_join d c) st = (st1, r1)"
    by fastforce
  from os_Remove_entry [OF assms(1-3) rem]
  have one: "cwd st1 = cwd st" "nodes_of st1 = nodes_of st \<or> nodes_of st1 = (nodes_of st)(q @ [c] := None)"
    by auto
  from assms(4) rem have "os_Symlink fault target (path_join d c) st1 = (st', Inr ())"
    by (auto simp: replace_link_def Let_def split: option.splits sum.splits prod.splits)
  moreover have "dir_at st1 d q"
    using assms(3) one by (intro dir_at_keeps [OF assms(1)]) auto
  ultimately show ?thesis
    using os_Symlink_entry [of st1 d q c fault target st' "()"] assms(2) one by auto
qed

lemma ImportSymlink_link:
  assumes "ImportSymlink fault detect md5uuid ident srcdir dir r p st = (st', Inr tx)"
    and "dir_at st dir q" "clean_path dir" "plain_name (md5uuid (tx_MD5 tx))"
    and "nodes_of st (q @ [md5uuid (tx_MD5 tx)]) \<noteq> Some Directory"
  shows "digest_file detect r p = Inr tx \<and> cwd st' = cwd st \<and>
    nodes_of st' = (nodes_of st)(q @ [md5uuid (tx_MD5 tx)] \<mapsto> Link (Path_of srcdir [ident]))"
proof -
  from assms(1) have "digest_file detect r p = Inr tx"
    and "replace_link fault (Path_of srcdir [ident]) (Path_of dir [md5uuid (tx_MD5 tx)]) st = (st', Inr ())"
    by (auto simp: ImportSymlink_def split: sum.splits prod.splits)
  with replace_link_entry [OF assms(2,4,5)] Path_of_plain [OF assms(3,4)] show ?thesis
    by simp
qed

lemma block_directory_keeps:
  assumes "block_directory st t" "nodes_of st' = (nodes_of st)(q @ [c] \<mapsto> nd)" "q \<noteq> t"
    and "nodes_of st (q @ [c]) \<noteq> Some Directory"
  shows "block_directory st' t"
  using assms by (auto simp: block_directory_def is_directory_def)

section \<open>Properties\<close>

text \<open>C12: media imported from a torrent is read through its link. When a file that the store of the
  torrent serves at its offset is imported, the cache of the media, whose directory is the link,
  returns the bytes of the file at the offset of the transfer.\<close>

theorem imported_media_readable:
  assumes "ImportSymlink fault detect md5uuid ident srcdir dir r p st = (st', Inr tx)"
    and "dir_at st dir q" "clean_path dir" "plain_name (md5uuid (tx_MD5 tx))"
    and "nodes_of st (q @ [md5uuid (tx_MD5 tx)]) \<noteq> Some Directory"
    and "dir_at st (Path_of srcdir [ident]) t" "HasPrefix (Path_of srcdir [ident]) ''/''"
    and "block_directory st t" "q \<noteq> t"
    and "in_range (uint (tx_Offset tx)) (length (tx_MD5 tx))"
    and "ReadAt \<lparr>root = Path_of srcdir [ident], BlockLength = DefaultBlockLength\<rparr> (disk_of st)
           (length (tx_MD5 tx)) (uint (tx_Offset tx)) = Return (tx_MD5 tx, None)"
  shows "ReadAt \<lparr>root = Path_of dir [md5uuid (tx_MD5 tx)], BlockLength = DefaultBlockLength\<rparr> (disk_of st')
      (length (tx_MD5 tx)) (uint (tx_Offset tx)) = Return (tx_MD5 tx, None)"
proof -
  let ?c = "md5uuid (tx_MD5 tx)" and ?src = "Path_of srcdir [ident]"
  let ?blocks = "\<lambda>d. \<lparr>root = d, BlockLength = DefaultBlockLength\<rparr>"
  note link = ImportSymlink_link [OF assms(1-5)]
  have bl: "0 < DefaultBlockLength" by (simp add: DefaultBlockLength_def MiB_def)
  have keep: "dir_at st' d x" if "dir_at st d x" for d x
    using that link assms(5) by (intro dir_at_keeps [OF that]) auto
  have names: "resolve st' True (Path_of dir [?c]) = Inr t" "resolve st' True ?src = Inr t"
    using resolve_link [OF keep [OF assms(2)] assms(4) _ keep [OF assms(6)] assms(7)] link
      Path_of_plain [OF assms(3,4)] dir_at_resolve [OF keep [OF assms(6)]] by simp_all
  have blocks: "block_directory st' t"
    using block_directory_keeps [OF assms(8) _ assms(9) assms(5)] link by blast
  have same: "disk_of st' (path_join ?src (format_int k)) = disk_of st (path_join ?src (format_int k))" if "0 \<le> k" for k
    using disk_of_block [OF names(2) blocks that] disk_of_block [OF dir_at_resolve [OF assms(6)] assms(8) that]
      link assms(9) by auto
  have "cached_byte (?blocks (Path_of dir [?c])) (disk_of st') i = cached_byte (?blocks ?src) (disk_of st) i"
    if "0 \<le> i" for i
    using cached_byte_same_directory [OF names blocks bl that] same [of "i div DefaultBlockLength"] that bl
    by (simp add: cached_byte_def path_def pos_imp_zdiv_nonneg_iff split: option.split)
  moreover have "0 \<le> uint (tx_Offset tx) + int j" for j
    by (simp add: add_nonneg_nonneg)
  moreover have "usable_cache (?blocks d)" for d
    using bl by (simp add: usable_cache_def)
  ultimately show ?thesis
    using assms(11) dc.read_iff [OF _ assms(10)] by simp
qed

text \<open>A host with one torrent, whose only block holds two bytes, and an empty directory for the media.\<close>

definition demo_os :: os where
  "demo_os = \<lparr>nodes_of = [[''t''] \<mapsto> Directory, [''t'', ''h''] \<mapsto> Directory, [''m''] \<mapsto> Directory,
     [''t'', ''h'', ''0''] \<mapsto> Regular [7, 8]], cwd = [], calls = 0\<rparr>"

definition demo_root :: import_root where
  "demo_root = \<lparr>ir_stat = (\<lambda>p. Inr False), ir_open = (\<lambda>p. Inr \<lparr>sf_bytes = [7, 8], sf_err = None, sf_offset = Some 0\<rparr>),
     ir_sub = (\<lambda>p. None), ir_walk = (\<lambda>p. ([], None))\<rparr>"

lemma demo_block: "ReadAt \<lparr>root = ''/t/h'', BlockLength = DefaultBlockLength\<rparr> (disk_of demo_os) 2 0 = Return ([7, 8], None)"
  by code_simp

lemma demo_block_directory: "block_directory demo_os [''t'', ''h'']"
  by (auto simp: block_directory_def is_directory_def demo_os_def)

lemma demo_free_name:
  "resolve demo_os False ''/m/u'' = Inr [''m'', ''u'']" "nodes_of demo_os [''m'', ''u''] = None"
  by code_simp+

theorem imported_media_readable_witness:
  "\<exists>st' tx. ImportSymlink (\<lambda>_. None) (\<lambda>_. Inr ''video/mp4'') (\<lambda>_. ''u'') ''h'' ''/t'' ''/m'' demo_root ''f'' demo_os = (st', Inr tx) \<and>
     ReadAt \<lparr>root = ''/m/u'', BlockLength = DefaultBlockLength\<rparr> (disk_of st') 2 0 = Return ([7, 8], None)"
proof -
  let ?i = "ImportSymlink (\<lambda>_. None) (\<lambda>_. Inr ''video/mp4'') (\<lambda>_. ''u'') ''h'' ''/t'' ''/m'' demo_root ''f'' demo_os"
  let ?tx = "\<lparr>tx_Path = ''f'', tx_Mimetype = ''video/mp4'', tx_MD5 = [7, 8], tx_Offset = 0, tx_Bytes = 2\<rparr>"
  have names: "Path_of ''/t'' [''h''] = ''/t/h''" "Path_of ''/m'' [''u''] = ''/m/u''"
    by code_simp+
  have digest: "digest_file (\<lambda>_. Inr ''video/mp4'') demo_root ''f'' = Inr ?tx"
    by code_simp
  have "snd ?i = Inr ?tx"
    using demo_free_name by (simp add: ImportSymlink_def digest names replace_link_def os_Remove_def os_Symlink_def create_node_def
      syscall_def errored_def IgnoreIsNotExist_def std_is_def Let_def)
  then have run: "?i = (fst ?i, Inr ?tx)"
    by (simp add: prod_eq_iff)
  have "ReadAt \<lparr>root = Path_of ''/m'' [''u''], BlockLength = DefaultBlockLength\<rparr> (disk_of (fst ?i)) (length (tx_MD5 ?tx))
      (uint (tx_Offset ?tx)) = Return (tx_MD5 ?tx, None)"
  proof (rule imported_media_readable [OF run, where q = "[''m'']" and t = "[''t'', ''h'']"])
    show "dir_at demo_os ''/m'' [''m'']" "dir_at demo_os (Path_of ''/t'' [''h'']) [''t'', ''h'']"
      by code_simp+
    show "clean_path ''/m''" by code_simp
    show "plain_name ''u''" by code_simp
    show "nodes_of demo_os ([''m''] @ [''u'']) \<noteq> Some Directory" by code_simp
    show "HasPrefix (Path_of ''/t'' [''h'']) ''/''" by code_simp
    show "in_range (uint (tx_Offset ?tx)) (length (tx_MD5 ?tx))" by (simp add: in_range_def)
    show "block_directory demo_os [''t'', ''h'']" by (rule demo_block_directory)
    show "ReadAt \<lparr>root = Path_of ''/t'' [''h''], BlockLength = DefaultBlockLength\<rparr> (disk_of demo_os) (length (tx_MD5 ?tx))
      (uint (tx_Offset ?tx)) = Return (tx_MD5 ?tx, None)"
      using demo_block by (simp add: names numeral_2_eq_2)
  qed (simp_all)
  with run show ?thesis
    by (intro exI [of _ "fst ?i"] exI [of _ ?tx]) (simp add: names numeral_2_eq_2)
qed

end
