(* ===== verification/Mediaapi.thy ===== *)
theory Mediaapi
  imports Metaapi Importx
begin

text \<open>
  The services over the library, \<^verbatim>\<open>shallows/media\<close>: media (\<^verbatim>\<open>http.library.go\<close>), known media
  (\<^verbatim>\<open>http.known.go\<close>) and feeds (\<^verbatim>\<open>http.rss.feeds.go\<close>), with the messages they answer with.

  A handler acts on the state of its service, here a \<open>depot\<close>, the rows of the known media or
  those of the feeds. The decoders of forms and bodies, the encoder of answers, the rendering of
  an instant, the parser of search expressions and the order of \<^verbatim>\<open>ORDER BY\<close> are parameters. As in
  \<open>Metaapi\<close>, \<^verbatim>\<open>Bind\<close> is a function on the path below the router, and buffers and deadlines are
  left out.
\<close>

section \<open>Messages\<close>

record Media =
  m_Id :: string
  m_Description :: string
  m_Mimetype :: string
  m_Image :: string
  m_ArchiveId :: string
  m_TorrentId :: string
  m_CreatedAt :: string
  m_UpdatedAt :: string
  m_KnownMediaId :: string
  m_EncryptionSeed :: string

definition zero_Media :: Media where
  "zero_Media = \<lparr>m_Id = '''', m_Description = '''', m_Mimetype = '''', m_Image = '''', m_ArchiveId = '''',
     m_TorrentId = '''', m_CreatedAt = '''', m_UpdatedAt = '''', m_KnownMediaId = '''', m_EncryptionSeed = ''''\<rparr>"

record Download_msg =
  d_Media :: "Media option"
  d_Bytes :: u64
  d_Downloaded :: u64
  d_InitiatedAt :: string
  d_PausedAt :: string
  d_Peers :: u32
  d_Distributing :: bool
  d_Path :: string

definition zero_Download :: Download_msg where
  "zero_Download = \<lparr>d_Media = None, d_Bytes = 0, d_Downloaded = 0, d_InitiatedAt = '''', d_PausedAt = '''',
     d_Peers = 0, d_Distributing = False, d_Path = ''''\<rparr>"

record Published =
  pb_Id :: string
  pb_Description :: string
  pb_Mimetype :: string
  pb_Bytes :: u64
  pb_Entropy :: string

text \<open>The rating is a \<^verbatim>\<open>float32\<close>; its rounding is left out.\<close>

record Known_msg =
  kn_Id :: string
  kn_Rating :: real
  kn_Adult :: bool
  kn_Description :: string
  kn_Summary :: string
  kn_Image :: string

record Feed =
  fd_Id :: string
  fd_CreatedAt :: string
  fd_UpdatedAt :: string
  fd_NextCheck :: string
  fd_Description :: string
  fd_Url :: string
  fd_Autodownload :: bool
  fd_Autoarchive :: bool
  fd_Contributing :: bool
  fd_DisabledAt :: string
  fd_TtlMinimum :: u64
  fd_EncryptionSeed :: string

definition zero_Feed :: Feed where
  "zero_Feed = \<lparr>fd_Id = '''', fd_CreatedAt = '''', fd_UpdatedAt = '''', fd_NextCheck = '''', fd_Description = '''',
     fd_Url = '''', fd_Autodownload = False, fd_Autoarchive = False, fd_Contributing = False, fd_DisabledAt = '''',
     fd_TtlMinimum = 0, fd_EncryptionSeed = ''''\<rparr>"

text \<open>The requests of the searches; a field the handlers do not read is left out.\<close>

record search_request =
  q_Query :: string
  q_Offset :: u64
  q_Limit :: u64

record MediaSearchRequest = search_request +
  q_Mimetypes :: "string list"

record DownloadSearchRequest = search_request +
  q_Completed :: bool

section \<open>From rows to messages\<close>

definition mime_Binary :: string where
  "mime_Binary = ''application/octet-stream''"

definition MediaOptionFromLibraryMetadata :: "(instant \<Rightarrow> string) \<Rightarrow> Metadata \<Rightarrow> Media \<Rightarrow> Media" where
  "MediaOptionFromLibraryMetadata etime cc c =
     c\<lparr>m_Id := ID cc, m_Description := Description cc, m_Mimetype := Mimetype cc, m_TorrentId := TorrentID cc,
       m_ArchiveId := ArchiveID cc, m_KnownMediaId := KnownMediaID cc, m_CreatedAt := etime (CreatedAt cc),
       m_UpdatedAt := etime (UpdatedAt cc), m_Mimetype := FirstNonBlank [Mimetype cc, mime_Binary],
       m_EncryptionSeed := EncryptionSeed cc\<rparr>"

definition MediaOptionFromTorrentMetadata :: "(instant \<Rightarrow> string) \<Rightarrow> TMetadata \<Rightarrow> Media \<Rightarrow> Media" where
  "MediaOptionFromTorrentMetadata etime cc c =
     c\<lparr>m_Id := t_ID cc, m_TorrentId := t_ID cc, m_Description := t_Description cc,
       m_KnownMediaId := t_KnownMediaID cc, m_CreatedAt := etime (t_CreatedAt cc), m_UpdatedAt := etime (t_UpdatedAt cc),
       m_Mimetype := FirstNonBlank [t_Mimetype cc, mime_Bittorrent], m_EncryptionSeed := t_EncryptionSeed cc\<rparr>"

definition DownloadOptionFromTorrentMetadata ::
  "(instant \<Rightarrow> string) \<Rightarrow> TMetadata \<Rightarrow> Download_msg \<Rightarrow> Download_msg" where
  "DownloadOptionFromTorrentMetadata etime cc c =
     c\<lparr>d_Media := Some (Clone zero_Media [MediaOptionFromTorrentMetadata etime cc]), d_Bytes := t_Bytes cc,
       d_Downloaded := t_Downloaded cc, d_Peers := ucast (t_Peers cc), d_PausedAt := etime (t_PausedAt cc),
       d_Distributing := t_Seeding cc, d_Path := hex_EncodeToString (t_Infohash cc)\<rparr>"

definition PublishedOptionFromTorrentMetadata :: "TMetadata \<Rightarrow> Published \<Rightarrow> Published" where
  "PublishedOptionFromTorrentMetadata cc c =
     c\<lparr>pb_Id := hex_EncodeToString (t_Infohash cc), pb_Description := t_Description cc, pb_Mimetype := t_Mimetype cc,
       pb_Bytes := t_Bytes cc, pb_Entropy := t_EncryptionSeed cc\<rparr>"

definition KnownOptionFromLibraryKnown :: "Known \<Rightarrow> Known_msg \<Rightarrow> Known_msg" where
  "KnownOptionFromLibraryKnown cc c =
     c\<lparr>kn_Id := k_UID cc, kn_Image := FirstNonBlank [k_PosterPath cc, k_BackdropPath cc], kn_Rating := k_Popularity cc,
       kn_Description := k_Title cc, kn_Summary := k_Overview cc, kn_Adult := k_Adult cc\<rparr>"

definition FeedOptionFromTorrentRSS :: "(instant \<Rightarrow> string) \<Rightarrow> RSS \<Rightarrow> Feed \<Rightarrow> Feed" where
  "FeedOptionFromTorrentRSS etime cc c =
     c\<lparr>fd_Id := f_ID cc, fd_Description := f_Description cc, fd_Url := f_URL cc, fd_Autodownload := f_Autodownload cc,
       fd_Autoarchive := f_Autoarchive cc, fd_Contributing := f_Contributing cc,
       fd_EncryptionSeed := f_EncryptionSeed cc, fd_CreatedAt := etime (f_CreatedAt cc),
       fd_UpdatedAt := etime (f_UpdatedAt cc), fd_NextCheck := etime (f_NextCheck cc)\<rparr>"

text \<open>A request to create a feed may have none.\<close>

definition NewTrackingFeedRSSFromFeedRSS :: "Feed \<Rightarrow> RSS \<Rightarrow> RSS" where
  "NewTrackingFeedRSSFromFeedRSS fd t =
     t\<lparr>f_Description := fd_Description fd, f_URL := fd_Url fd, f_Autodownload := fd_Autodownload fd,
       f_Autoarchive := fd_Autoarchive fd, f_Contributing := fd_Contributing fd,
       f_EncryptionSeed := fd_EncryptionSeed fd\<rparr>"

text \<open>\<^verbatim>\<open>timex.JSONSafeEncodeOption\<close> visits the fields that are times.\<close>

definition TMetadata_JSONSafeEncode :: "TMetadata \<Rightarrow> TMetadata" where
  "TMetadata_JSONSafeEncode m =
     m\<lparr>t_CreatedAt := RFC3339NanoEncode (t_CreatedAt m), t_HiddenAt := RFC3339NanoEncode (t_HiddenAt m),
       t_ImportedAt := RFC3339NanoEncode (t_ImportedAt m), t_InitiatedAt := RFC3339NanoEncode (t_InitiatedAt m),
       t_NextAnnounceAt := RFC3339NanoEncode (t_NextAnnounceAt m), t_PausedAt := RFC3339NanoEncode (t_PausedAt m),
       t_TombstonedAt := RFC3339NanoEncode (t_TombstonedAt m), t_UpdatedAt := RFC3339NanoEncode (t_UpdatedAt m),
       t_VerifyAt := RFC3339NanoEncode (t_VerifyAt m)\<rparr>"

definition Known_JSONSafeEncode :: "Known \<Rightarrow> Known" where
  "Known_JSONSafeEncode k =
     k\<lparr>k_CreatedAt := RFC3339NanoEncode (k_CreatedAt k), k_Released := RFC3339NanoEncode (k_Released k)\<rparr>"

datatype answer =
    MediaDeleteResponse Media
  | MediaUpdateResponse Media
  | MediaUploadResponse Media
  | MediaFindResponse Media
  | MediaSearchResponse MediaSearchRequest "Media list"
  | KnownSearchResponse search_request "Known_msg list"
  | KnownLookupResponse Known_msg
  | FeedSearchResponse search_request "Feed list"
  | FeedCreateResponse Feed
  | FeedDeleteResponse Feed
  | MagnetCreateResponse Download_msg
  | PublishedUploadResponse Published
  | DownloadPauseResponse Download_msg
  | DownloadDeleteResponse Download_msg
  | DownloadBeginResponse Download_msg
  | DownloadMetadataResponse Download_msg
  | DownloadSearchResponse DownloadSearchRequest "Download_msg list"
  | MetadataSyncResponse Media

section \<open>Handlers\<close>

record api =
  ap_parse :: "RegisteredClaims jwt_parse"
  ap_algos :: "string list"
  ap_secret :: bytes
  ap_malformed :: "request \<Rightarrow> bool"
  ap_encode :: "answer \<Rightarrow> goerr + string"
  ap_time :: "instant \<Rightarrow> string"

type_synonym 's media_handler = "('s, unit) handler"

definition authenticated :: "api \<Rightarrow> 's media_handler \<Rightarrow> 's media_handler" where
  "authenticated a = AuthenticateWithToken (ap_parse a) (ap_algos a) (ap_secret a)"

definition with_form :: "api \<Rightarrow> 's media_handler \<Rightarrow> 's media_handler" where
  "with_form a h st ctx w r = ParseForm (ap_malformed a r) h st ctx w r"

definition respond :: "api \<Rightarrow> 's \<Rightarrow> response_writer \<Rightarrow> answer \<Rightarrow> ('s \<times> response_writer) outcome" where
  "respond a st w x = Return (st, fst (WriteJSON (ap_encode a) w x))"

definition refuse :: "'s \<Rightarrow> response_writer \<Rightarrow> int \<Rightarrow> ('s \<times> response_writer) outcome" where
  "refuse st w code = Return (st, fst (WriteEmptyJSON w code))"

text \<open>The status for the error of a row: the handlers tell a missing one from the others.\<close>

definition row_status :: "goerr \<Rightarrow> int" where
  "row_status err = (if is_ErrNoRows (Some err) \<noteq> None then 404 else 500)"

text \<open>\<^verbatim>\<open>lucenex.Query\<close>, with the parser of the expressions and the rendering as SQL as \<open>parse\<close>. An
  expression that does not parse is the error of the query.\<close>

definition lucene_Query :: "(string \<Rightarrow> goerr + ('r \<Rightarrow> bool)) \<Rightarrow> string \<Rightarrow> goerr + ('r \<Rightarrow> bool)" where
  "lucene_Query parse s = (if Blank s then Inr (\<lambda>_. True) else parse s)"

text \<open>The rows of a page: those that match both conditions, in the order \<open>order\<close>.\<close>

definition search_page ::
  "sqldb \<Rightarrow> ('r \<Rightarrow> bool) \<Rightarrow> goerr + ('r \<Rightarrow> bool) \<Rightarrow> ('r list \<Rightarrow> 'r list) \<Rightarrow> u64 \<Rightarrow> u64 \<Rightarrow> 'r list \<Rightarrow> 'r result_set" where
  "search_page db p query order number limit tbl =
     (case query of
        Inl err \<Rightarrow> \<lparr>rs_rows = [], rs_err = Some err\<rparr>
      | Inr match \<Rightarrow> select_page db (\<lambda>r. p r \<and> match r) order (number * limit) limit tbl)"

text \<open>\<^verbatim>\<open>Iter\<close> with a body that appends, and \<^verbatim>\<open>Err\<close>.\<close>

definition collect_rows :: "'r result_set \<Rightarrow> goerr + 'r list" where
  "collect_rows rs =
     (case ScanInto rs [] of (rows, None) \<Rightarrow> Inr rows | (rows, Some err) \<Rightarrow> Inl err)"

text \<open>The first segment of a path with a fixed rest.\<close>

definition path_id_of :: "string \<Rightarrow> string \<Rightarrow> string option" where
  "path_id_of rest p = (if HasSuffix p rest then path_id (TrimSuffix p rest) else None)"

section \<open>The library\<close>

text \<open>A part of a form: the bytes read before the error of its reader, the name and the type it
  comes with.\<close>

record upload_file =
  uf_bytes :: bytes
  uf_err :: "goerr option"
  uf_Filename :: string
  uf_ContentType :: string

record library_env =
  le_api :: api
  le_env :: import_env
  le_dir :: string
  le_update :: "bytes \<Rightarrow> goerr + Media option"
  le_content :: "request \<Rightarrow> goerr + upload_file"
  le_draw :: string
  le_decode :: "request \<Rightarrow> MediaSearchRequest \<Rightarrow> goerr + MediaSearchRequest"
  le_match :: "string \<Rightarrow> goerr + (Metadata \<Rightarrow> bool)"
  le_order :: "string \<Rightarrow> Metadata list \<Rightarrow> Metadata list"
  le_files :: "depot media_handler"

definition media_message :: "library_env \<Rightarrow> Metadata \<Rightarrow> Media" where
  "media_message e md = Clone zero_Media [MediaOptionFromLibraryMetadata (ap_time (le_api e)) md]"

definition library_delete :: "library_env \<Rightarrow> string \<Rightarrow> depot media_handler" where
  "library_delete e ident st ctx w r =
     (case on_media (ie_db (le_env e)) (\<lambda>d. LMetadataTombstoneByID d ident) st of
        (st1, Inl err) \<Rightarrow> refuse st1 w (row_status err)
      | (st1, Inr md) \<Rightarrow>
          respond (le_api e) st1 w (MediaDeleteResponse (media_message e (Clone md [MetadataOptionJSONSafeEncode]))))"

text \<open>A body without media dereferences nil.\<close>

definition library_patch :: "library_env \<Rightarrow> string \<Rightarrow> depot media_handler" where
  "library_patch e ident st ctx w r =
     (case le_update e (rBody r) of
        Inl err \<Rightarrow> refuse st w 400
      | Inr None \<Rightarrow> Panic
      | Inr (Some req) \<Rightarrow>
          let md = Clone zero_metadata [MetadataOptionDescription (m_Description req),
                MetadataOptionKnownMediaID (m_KnownMediaId req), MetadataOptionArchiveID (m_ArchiveId req)] in
          (case on_media (ie_db (le_env e)) (\<lambda>d. LMetadataUpdate d ident md) st of
             (st1, Inl err) \<Rightarrow> refuse st1 w (row_status err)
           | (st1, Inr md) \<Rightarrow>
               respond (le_api e) st1 w (MediaUpdateResponse (media_message e (Clone md [MetadataOptionJSONSafeEncode])))))"

text \<open>What follows the creation of the temporary file: the status of a failure, or the row.\<close>

definition library_receive :: "library_env \<Rightarrow> upload_file \<Rightarrow> string \<Rightarrow> depot \<Rightarrow> depot \<times> (int + Metadata)" where
  "library_receive e f tmp st =
     (let i = le_env e in
      case on_os (os_WriteFile (ie_fault i) tmp (uf_bytes f)) st of
        (st1, Inl err) \<Rightarrow> (st1, Inl 500)
      | (st1, Inr _) \<Rightarrow>
          if uf_err f \<noteq> None then (st1, Inl 500)
          else
            let lmd = NewMetadata (ie_seed i) (ie_md5uuid i (uf_bytes f))
                  [MetadataOptionBytes (of_nat (length (uf_bytes f))), MetadataOptionDescription (uf_Filename f),
                   MetadataOptionMimetype (uf_ContentType f)] in
            (case on_media (ie_db i) (\<lambda>d. LMetadataInsertWithDefaults d lmd) st1 of
               (st2, Inl err) \<Rightarrow> (st2, Inl 500)
             | (st2, Inr lmd) \<Rightarrow>
                 (case on_os (fsx_Rename (Some (dirvirt_Rename (ie_fault i) (le_dir e))) tmp (ID lmd)) st2 of
                    (st3, Inl err) \<Rightarrow> (st3, Inl 500)
                  | (st3, Inr _) \<Rightarrow> (st3, Inr lmd))))"

definition library_upload :: "library_env \<Rightarrow> depot media_handler" where
  "library_upload e st ctx w r =
     (let i = le_env e in
      case le_content e r of
        Inl err \<Rightarrow> refuse st w 400
      | Inr f \<Rightarrow>
          (case on_os (fsx_CreateTemp (ie_fault i) (ie_random i) (le_dir e) ''retrovibed.upload.*'') st of
             (st1, Inl err) \<Rightarrow> refuse st1 w 500
           | (st1, Inr tmp) \<Rightarrow>
               (case library_receive e f tmp st1 of
                  (st2, Inl code) \<Rightarrow> refuse (fst (on_os (os_Remove (ie_fault i) tmp) st2)) w code
                | (st2, Inr lmd) \<Rightarrow> respond (le_api e) st2 w (MediaUploadResponse (media_message e lmd)))))"

text \<open>The conditions the listings share.\<close>

definition library_listed :: "string list \<Rightarrow> Metadata \<Rightarrow> bool" where
  "library_listed mimes m \<longleftrightarrow>
     MetadataQueryVisible m \<and> MetadataQueryNotTombstoned m \<and> MetadataQueryMimetypes mimes m"

text \<open>A select reads the table; one without \<^verbatim>\<open>ORDER BY\<close> in the order of the rows.\<close>

definition select_media :: "dp_database \<Rightarrow> (sqldb \<Rightarrow> media_rows \<Rightarrow> 'a) \<Rightarrow> depot \<Rightarrow> depot \<times> 'a" where
  "select_media db q = on_media db (\<lambda>d tbl. (tbl, q d tbl))"

definition random_pick :: "library_env \<Rightarrow> MediaSearchRequest \<Rightarrow> depot \<Rightarrow> depot \<times> (goerr + Metadata)" where
  "random_pick e req st =
     (let page = (\<lambda>p d. select_page d (\<lambda>m. library_listed (q_Mimetypes req) m \<and> p (le_draw e) m) (\<lambda>x. x) 0 (q_Limit req)) in
      case select_media (ie_db (le_env e)) (page MetadataQueryRandomAfter) st of
        (st1, rs1) \<Rightarrow>
          (case ScanOne rs1 of
             Inr m \<Rightarrow> (st1, Inr m)
           | Inl _ \<Rightarrow>
               (case select_media (ie_db (le_env e)) (page MetadataQueryRandomBefore) st1 of
                  (st2, rs2) \<Rightarrow> (st2, ScanOne rs2))))"

definition library_random :: "library_env \<Rightarrow> depot media_handler" where
  "library_random e st ctx w r =
     (case le_decode e r \<lparr>q_Query = '''', q_Offset = 0, q_Limit = 1, q_Mimetypes = []\<rparr> of
        Inl err \<Rightarrow> refuse st w 400
      | Inr req \<Rightarrow>
          (case random_pick e (req\<lparr>q_Limit := min_from (q_Limit req) [1]\<rparr>) st of
             (st1, Inl err) \<Rightarrow> refuse st1 w (if Is (Some err) [TSentinel ErrNoRows] then 404 else 500)
           | (st1, Inr md) \<Rightarrow>
               respond (le_api e) st1 w (MediaFindResponse (media_message e (Clone md [MetadataOptionJSONSafeEncode])))))"

definition library_ordering :: "MediaSearchRequest \<Rightarrow> string" where
  "library_ordering next =
     (if Present (q_Query next) then ''description ASC'' else ''created_at DESC, description ASC'')"

definition library_page :: "library_env \<Rightarrow> MediaSearchRequest \<Rightarrow> sqldb \<Rightarrow> media_rows \<Rightarrow> Metadata result_set" where
  "library_page e next d =
     search_page d (library_listed (q_Mimetypes next)) (lucene_Query (le_match e) (q_Query next))
       (le_order e (library_ordering next)) (q_Offset next) (q_Limit next)"

definition library_search :: "library_env \<Rightarrow> depot media_handler" where
  "library_search e st ctx w r =
     (case le_decode e r \<lparr>q_Query = '''', q_Offset = 0, q_Limit = 100, q_Mimetypes = []\<rparr> of
        Inl err \<Rightarrow> refuse st w 400
      | Inr req \<Rightarrow>
          let next = req\<lparr>q_Limit := min_from (q_Limit req) [100]\<rparr>;
              (st1, rs) = select_media (ie_db (le_env e)) (library_page e next) st in
          (case collect_rows rs of
             Inl err \<Rightarrow> refuse st1 w 500
           | Inr rows \<Rightarrow>
               respond (le_api e) st1 w (MediaSearchResponse next
                 (map (\<lambda>v. media_message e (Clone v [MetadataOptionJSONSafeEncode])) rows))))"

definition library_Serve :: "library_env \<Rightarrow> depot media_handler" where
  "library_Serve e st ctx w r =
     (let a = le_api e; guarded = (\<lambda>h. with_form a (authenticated a h) st ctx w r) in
      if rPath r = ''/'' then
        (if rMethod r = ''GET'' then guarded (library_search e)
         else if rMethod r = ''POST'' then guarded (library_upload e)
         else Return (st, WriteHeader 405 w))
      else if rPath r = ''/random'' \<and> rMethod r = ''GET'' then guarded (library_random e)
      else (case (path_id_of ''/metadatasync'' (rPath r), path_id (rPath r)) of
          (Some ident, _) \<Rightarrow>
            if rMethod r = ''POST'' then guarded (library_patch e ident) else Return (st, WriteHeader 405 w)
        | (None, Some ident) \<Rightarrow>
            if rMethod r = ''POST'' then guarded (library_patch e ident)
            else if rMethod r = ''DELETE'' then guarded (library_delete e ident)
            else if rMethod r = ''GET'' then authenticated a (le_files e) st ctx w r
            else Return (st, WriteHeader 405 w)
        | (None, None) \<Rightarrow> Return (st, WriteHeader 404 w)))"

section \<open>Known media\<close>

record known_env =
  ke_api :: api
  ke_db :: sqldb
  ke_decode :: "request \<Rightarrow> search_request \<Rightarrow> goerr + search_request"
  ke_match :: "string \<Rightarrow> goerr + (Known \<Rightarrow> bool)"
  ke_order :: "string \<Rightarrow> Known list \<Rightarrow> Known list"

definition known_message :: "Known \<Rightarrow> Known_msg" where
  "known_message k =
     Clone \<lparr>kn_Id = '''', kn_Rating = 0, kn_Adult = False, kn_Description = '''', kn_Summary = '''', kn_Image = ''''\<rparr>
       [KnownOptionFromLibraryKnown (Clone k [Known_JSONSafeEncode])]"

definition known_page :: "known_env \<Rightarrow> search_request \<Rightarrow> Known list \<Rightarrow> Known result_set" where
  "known_page e next =
     search_page (ke_db e) (KnownQueryExplicit False) (lucene_Query (ke_match e) (q_Query next))
       (ke_order e ''title DESC'') (q_Offset next) (q_Limit next)"

definition known_search :: "known_env \<Rightarrow> Known list media_handler" where
  "known_search e st ctx w r =
     (case ke_decode e r \<lparr>q_Query = '''', q_Offset = 0, q_Limit = 100\<rparr> of
        Inl err \<Rightarrow> refuse st w 400
      | Inr req \<Rightarrow>
          let next = req\<lparr>q_Limit := min_from (q_Limit req) [100]\<rparr> in
          (case collect_rows (known_page e next st) of
             Inl err \<Rightarrow> refuse st w 500
           | Inr rows \<Rightarrow> respond (ke_api e) st w (KnownSearchResponse next (map known_message rows))))"

definition known_find :: "known_env \<Rightarrow> string \<Rightarrow> Known list media_handler" where
  "known_find e ident st ctx w r =
     (case KnownFindByID (ke_db e) ident st of
        Inl err \<Rightarrow> refuse st w (row_status err)
      | Inr k \<Rightarrow> respond (ke_api e) st w (KnownLookupResponse (known_message k)))"

definition known_Serve :: "known_env \<Rightarrow> Known list media_handler" where
  "known_Serve e st ctx w r =
     (if rPath r = ''/'' then
        (if rMethod r = ''GET'' then with_form (ke_api e) (authenticated (ke_api e) (known_search e)) st ctx w r
         else Return (st, WriteHeader 405 w))
      else (case path_id (rPath r) of
          None \<Rightarrow> Return (st, WriteHeader 404 w)
        | Some ident \<Rightarrow>
            if rMethod r = ''GET'' then authenticated (ke_api e) (known_find e ident) st ctx w r
            else Return (st, WriteHeader 405 w)))"

section \<open>Feeds\<close>

text \<open>No route of the feeds asks for a token: the middleware is commented out. The parameters of
  \<^verbatim>\<open>NewFeedRSS\<close> are those of \<open>Tracking\<close>.\<close>

record feeds_env =
  fe_api :: api
  fe_db :: sqldb
  fe_decode :: "request \<Rightarrow> search_request \<Rightarrow> goerr + search_request"
  fe_body :: "bytes \<Rightarrow> goerr + Feed option"
  fe_order :: "string \<Rightarrow> RSS list \<Rightarrow> RSS list"
  fe_md5uuid :: "bytes \<Rightarrow> string"
  fe_url_host :: "string \<Rightarrow> string option"
  fe_fresh :: string

definition feed_message :: "feeds_env \<Rightarrow> RSS \<Rightarrow> Feed" where
  "feed_message e fd = Clone zero_Feed
     [FeedOptionFromTorrentRSS (ap_time (fe_api e)) (Clone fd [RSSOptionJSONSafeEncode])]"

text \<open>\<^verbatim>\<open>RSSQuerySearch\<close> is a condition that always holds: the query is ignored.\<close>

definition RSSQuerySearch :: "string \<Rightarrow> RSS \<Rightarrow> bool" where
  "RSSQuerySearch q = (\<lambda>_. True)"

definition feeds_search :: "feeds_env \<Rightarrow> RSS list media_handler" where
  "feeds_search e st ctx w r =
     (case fe_decode e r \<lparr>q_Query = '''', q_Offset = 0, q_Limit = 100\<rparr> of
        Inl err \<Rightarrow> refuse st w 400
      | Inr req \<Rightarrow>
          let next = req\<lparr>q_Limit := min_from (q_Limit req) [100]\<rparr> in
          (case collect_rows (search_page (fe_db e) (RSSQuerySearch (q_Query next)) (Inr (\<lambda>_. True))
                  (fe_order e ''created_at DESC'') (q_Offset next) (q_Limit next) st) of
             Inl err \<Rightarrow> refuse st w 500
           | Inr rows \<Rightarrow> respond (fe_api e) st w (FeedSearchResponse next (map (feed_message e) rows))))"

definition feeds_create :: "feeds_env \<Rightarrow> RSS list media_handler" where
  "feeds_create e st ctx w r =
     (case fe_body e (rBody r) of
        Inl err \<Rightarrow> refuse st w 400
      | Inr None \<Rightarrow> Panic
      | Inr (Some req) \<Rightarrow>
          bind_outcome (NewFeedRSS (fe_md5uuid e) (fe_url_host e) (fe_fresh e)
              (DefaultIfBlank (fd_Id req) (fe_md5uuid e (string_bytes (fd_Url req))))
              [NewTrackingFeedRSSFromFeedRSS req]) (\<lambda>fd.
            (case RSSInsertWithDefaults (fe_db e) fd st of
               (st1, Inl err) \<Rightarrow> refuse st1 w 500
             | (st1, Inr fd) \<Rightarrow> respond (fe_api e) st1 w (FeedCreateResponse (feed_message e fd)))))"

text \<open>The feed that is deleted is the one of the body, not the one of the path.\<close>

definition feeds_delete :: "feeds_env \<Rightarrow> RSS list media_handler" where
  "feeds_delete e st ctx w r =
     (case fe_body e (rBody r) of
        Inl err \<Rightarrow> refuse st w 400
      | Inr None \<Rightarrow> Panic
      | Inr (Some req) \<Rightarrow>
          (case RSSDeleteByID (fe_db e) (fd_Id req) st of
             (st1, Inl err) \<Rightarrow> refuse st1 w 500
           | (st1, Inr fd) \<Rightarrow> respond (fe_api e) st1 w (FeedDeleteResponse (feed_message e fd))))"

definition feeds_Serve :: "feeds_env \<Rightarrow> RSS list media_handler" where
  "feeds_Serve e st ctx w r =
     (let form = (\<lambda>h. with_form (fe_api e) h st ctx w r) in
      if rPath r = ''/'' then
        (if rMethod r = ''GET'' then form (feeds_search e)
         else if rMethod r = ''POST'' then form (feeds_create e)
         else Return (st, WriteHeader 405 w))
      else (case path_id (rPath r) of
          None \<Rightarrow> Return (st, WriteHeader 404 w)
        | Some ident \<Rightarrow>
            if rMethod r = ''DELETE'' then form (feeds_delete e) else Return (st, WriteHeader 405 w)))"

section \<open>Lemmas\<close>

lemma iter_rows_all: "iter_rows (\<lambda>d v. (d @ [v], True)) d (map Inr xs) err = (d @ xs, err)"
  by (induction xs arbitrary: d) simp_all

lemma collect_select_page:
  "sql_err db = None \<Longrightarrow> collect_rows (select_page db p order skip limit tbl) =
     Inr (take (unat limit) (drop (unat skip) (order (filter p tbl))))"
  by (simp add: collect_rows_def ScanInto_def Iter_def select_page_def iter_rows_all)

lemma collect_rows_mem:
  "collect_rows rs = Inr rows \<Longrightarrow> m \<in> set rows \<Longrightarrow> Inr m \<in> set (rs_rows rs)"
proof -
  assume a: "collect_rows rs = Inr rows" "m \<in> set rows"
  then have "rows = scanned (rs_rows rs)"
    using ScanInto_eq [of rs "[]"] by (auto simp: collect_rows_def split: prod.splits option.splits)
  moreover have "m \<in> set (scanned xs) \<Longrightarrow> Inr m \<in> set xs" for xs :: "(goerr + 'a) list"
    by (induction xs rule: scanned.induct) auto
  ultimately show ?thesis using a(2) by blast
qed

lemma authenticated_cases:
  assumes "authenticated a h st ctx w r = Return (st', w')"
  obtains (accepted) c where "Validate (ap_parse a) (ap_algos a) ''*jwt.RegisteredClaims'' (ap_secret a) (Bearer r) = Inr c"
      "h st ctx w r = Return (st', w')"
  | (rejected) err where "Validate (ap_parse a) (ap_algos a) ''*jwt.RegisteredClaims'' (ap_secret a) (Bearer r) = Inl err"
      "st' = st" "w' = Unauthorized w"
  using assms that by (auto simp: authenticated_def AuthenticateWithToken_def split: sum.splits)

text \<open>The rows of the media after a request: identifiers stay unique, and what is deleted stays so.\<close>

definition tombstoned :: "string \<Rightarrow> media_rows \<Rightarrow> bool" where
  "tombstoned u tbl \<longleftrightarrow> (\<exists>m. row_of ID tbl u = Some m \<and> \<not> MetadataQueryNotTombstoned m)"

definition keeps_tombs :: "media_rows \<Rightarrow> media_rows \<Rightarrow> bool" where
  "keeps_tombs tbl tbl' \<longleftrightarrow> (distinct (map ID tbl) \<longrightarrow> distinct (map ID tbl')) \<and>
     (\<forall>u. tombstoned u tbl \<longrightarrow> tombstoned u tbl')"

lemma keeps_tombs_refl [intro, simp]: "keeps_tombs tbl tbl"
  by (simp add: keeps_tombs_def)

lemma keeps_tombs_trans [trans]: "keeps_tombs a b \<Longrightarrow> keeps_tombs b c \<Longrightarrow> keeps_tombs a c"
  by (simp add: keeps_tombs_def)

lemma map_keeps_tombs:
  assumes "\<And>m. ID (f m) = ID m" "\<And>m. MetadataQueryNotTombstoned (f m) \<Longrightarrow> MetadataQueryNotTombstoned m"
  shows "keeps_tombs tbl (map f tbl)"
proof -
  have "ID \<circ> f = ID" by (rule ext) (simp add: assms(1))
  then have "map ID (map f tbl) = map ID tbl" by simp
  moreover have "row_of ID (map f tbl) u = map_option f (row_of ID tbl u)" for u
    using assms(1) by (intro row_of_map) simp
  ultimately show ?thesis
    using assms(2) by (auto simp: keeps_tombs_def tombstoned_def simp del: map_map list.map_comp)
qed

lemma media_by_id_keeps_tombs:
  assumes "media_by_id db ident f tbl = (tbl', res)"
    and "\<And>m. ID (f m) = ID m" "\<And>m. MetadataQueryNotTombstoned (f m) \<Longrightarrow> MetadataQueryNotTombstoned m"
  shows "keeps_tombs tbl tbl'"
proof (cases "\<exists>u. sql_uuid db ident = Inr u \<and> sql_err db = None")
  case True
  then obtain u where "tbl' = map (\<lambda>m. if ID m = u then f m else m) tbl"
    using assms(1) by (auto simp: media_by_id_def uuid_arg_def update_where_all update_all_def split: sum.splits)
  then show ?thesis
    using assms(2,3) by (auto intro!: map_keeps_tombs split: if_splits)
next
  case False
  then have "tbl' = tbl"
    using assms(1) by (auto simp: media_by_id_def uuid_arg_def update_where_def split: sum.splits option.splits)
  then show ?thesis by simp
qed

lemma insert_keeps_tombs:
  assumes "LMetadataInsertWithDefaults db a tbl = (tbl', res)"
  shows "keeps_tombs tbl tbl'"
proof (cases "sql_err db = None")
  case True
  let ?n = "LMetadataInsert_row db a"
  define g where "g = (\<lambda>m. projr (LMetadata_conflict db m ?n))"
  have g: "LMetadata_conflict db m ?n = Inr (g m)" "ID (g m) = ID m" "TombstonedAt (g m) = TombstonedAt m" for m
    by (simp_all add: g_def LMetadata_conflict_def)
  note def = assms [unfolded LMetadataInsertWithDefaults_def upsert_def g(1) update_where_all]
  show ?thesis
  proof (cases "ID ?n \<in> set (map ID tbl)")
    case known: True
    then have "tbl' = map (\<lambda>m. if ID m = ID ?n then g m else m) tbl"
      using def True by (simp add: update_all_def)
    then show ?thesis
      using g by (auto intro!: map_keeps_tombs simp: MetadataQueryNotTombstoned_def split: if_splits)
  next
    case False
    with def True have "tbl' = tbl @ [LMetadataInsert_row db a]" by simp
    with False show ?thesis
      by (auto simp: keeps_tombs_def tombstoned_def row_of_append)
  qed
qed (use assms in \<open>auto simp: LMetadataInsertWithDefaults_def upsert_def\<close>)

lemma on_media_keeps_tombs:
  assumes "on_media db q st = (st', res)"
    and "\<And>d tbl tbl' res. q d tbl = (tbl', res) \<Longrightarrow> keeps_tombs tbl tbl'"
  shows "keeps_tombs (dp_media st) (dp_media st')"
  using assms by (auto simp: on_media_def split: prod.splits)

lemma on_os_media: "on_os f st = (st', res) \<Longrightarrow> dp_media st' = dp_media st"
  by (auto simp: on_os_def split: prod.splits)

lemma select_media_same: "select_media db q st = (st', res) \<Longrightarrow> dp_media st' = dp_media st"
  by (auto simp: select_media_def on_media_def)

lemma Return_eqD: "Return a = Return b \<Longrightarrow> a = b"
  by simp

lemma respond_Return: "respond a st w x = Return (st', w') \<longleftrightarrow> st' = st \<and> w' = fst (WriteJSON (ap_encode a) w x)"
  by (auto simp: respond_def)

lemma refuse_Return: "refuse st w code = Return (st', w') \<longleftrightarrow> st' = st \<and> w' = fst (WriteEmptyJSON w code)"
  by (auto simp: refuse_def)

lemmas answers = respond_Return refuse_Return

lemma tombstone_keeps_tombs:
  assumes "sql_now d < Inf" "LMetadataTombstoneByID d ident tbl = (tbl', res)"
  shows "keeps_tombs tbl tbl'"
  using assms(1) by (intro media_by_id_keeps_tombs [OF assms(2) [unfolded LMetadataTombstoneByID_def]])
    (auto simp: MetadataQueryNotTombstoned_def)

lemma update_keeps_tombs:
  assumes "LMetadataUpdate d ident md tbl = (tbl', res)"
  shows "keeps_tombs tbl tbl'"
proof (cases "sql_uuid d (ArchiveID md)")
  case (Inr a)
  show ?thesis
  proof (cases "sql_uuid d (KnownMediaID md)")
    case k: (Inr k)
    with Inr assms have "media_by_id d ident (\<lambda>m. m\<lparr>Description := Description md, KnownMediaID := k, ArchiveID := a\<rparr>) tbl = (tbl', res)"
      by (simp add: LMetadataUpdate_def uuid_arg_def)
    then show ?thesis
      by (rule media_by_id_keeps_tombs) (auto simp: MetadataQueryNotTombstoned_def)
  qed (use assms Inr in \<open>auto simp: LMetadataUpdate_def uuid_arg_def\<close>)
qed (use assms in \<open>auto simp: LMetadataUpdate_def uuid_arg_def\<close>)

lemma delete_keeps_tombs:
  assumes "library_delete e ident st ctx w r = Return (st', w')" "\<And>k. sql_now (ie_db (le_env e) k) < Inf"
  shows "keeps_tombs (dp_media st) (dp_media st')"
proof -
  from assms(1) obtain res where "on_media (ie_db (le_env e)) (\<lambda>d. LMetadataTombstoneByID d ident) st = (st', res)"
    by (auto simp: library_delete_def answers split: prod.splits sum.splits)
  then show ?thesis
    using tombstone_keeps_tombs assms(2) by (force simp: on_media_def split: prod.splits)
qed

lemma patch_keeps_tombs:
  assumes "library_patch e ident st ctx w r = Return (st', w')"
  shows "keeps_tombs (dp_media st) (dp_media st')"
  using assms update_keeps_tombs
  by (auto simp: library_patch_def answers Let_def on_media_def split: prod.splits sum.splits option.splits)

lemma receive_keeps_tombs:
  assumes "library_receive e f tmp st = (st', res)"
  shows "keeps_tombs (dp_media st) (dp_media st')"
  using assms insert_keeps_tombs
  by (auto simp: library_receive_def Let_def on_media_def on_os_def split: prod.splits sum.splits if_splits)

lemma upload_keeps_tombs:
  assumes "library_upload e st ctx w r = Return (st', w')"
  shows "keeps_tombs (dp_media st) (dp_media st')"
proof (cases "le_content e r")
  case (Inr f)
  let ?i = "le_env e"
  obtain st1 res1 where temp: "on_os (fsx_CreateTemp (ie_fault ?i) (ie_random ?i) (le_dir e) ''retrovibed.upload.*'') st = (st1, res1)"
    by fastforce
  have same: "dp_media st1 = dp_media st" by (rule on_os_media [OF temp])
  show ?thesis
  proof (cases res1)
    case (Inl err)
    with assms Inr temp same show ?thesis by (simp add: library_upload_def answers)
  next
    case tmp: (Inr tmp)
    obtain st2 res2 where rec: "library_receive e f tmp st1 = (st2, res2)" by fastforce
    have "dp_media (fst (on_os g st2)) = dp_media st2" for g :: "os \<Rightarrow> os \<times> (goerr + unit)"
      by (simp add: on_os_def split: prod.splits)
    then have "dp_media st' = dp_media st2"
      using assms Inr temp tmp rec by (auto simp: library_upload_def answers split: sum.splits)
    with receive_keeps_tombs [OF rec] same show ?thesis by simp
  qed
qed (use assms in \<open>simp add: library_upload_def answers\<close>)

lemma search_same:
  "library_search e st ctx w r = Return (st', w') \<Longrightarrow> dp_media st' = dp_media st"
  by (auto simp: library_search_def answers Let_def split: prod.splits sum.splits dest: select_media_same)

lemma pick_same: "random_pick e req st = (st', res) \<Longrightarrow> dp_media st' = dp_media st"
  by (auto simp: random_pick_def Let_def split: prod.splits sum.splits dest!: select_media_same)

lemma random_same:
  "library_random e st ctx w r = Return (st', w') \<Longrightarrow> dp_media st' = dp_media st"
  by (auto simp: library_random_def answers split: prod.splits sum.splits dest: pick_same)

lemma with_form_keeps:
  assumes "with_form a h st ctx w r = Return (st', w')"
    and "h st ctx w r = Return (st', w') \<Longrightarrow> keeps_tombs (f st) (f st')"
  shows "keeps_tombs (f st) (f st')"
  using assms by (auto simp: with_form_def ParseForm_def split: if_splits)

lemma authenticated_keeps:
  assumes "authenticated a h st ctx w r = Return (st', w')"
    and "h st ctx w r = Return (st', w') \<Longrightarrow> keeps_tombs (f st) (f st')"
  shows "keeps_tombs (f st) (f st')"
  using assms by (auto elim!: authenticated_cases)

lemma Serve_keeps_tombs:
  assumes "library_Serve e st ctx w r = Return (st', w')"
    and "\<And>k. sql_now (ie_db (le_env e) k) < Inf"
    and "\<And>st w st' w'. le_files e st ctx w r = Return (st', w') \<Longrightarrow> dp_media st' = dp_media st"
  shows "keeps_tombs (dp_media st) (dp_media st')"
proof -
  note handlers = delete_keeps_tombs [OF _ assms(2)] patch_keeps_tombs upload_keeps_tombs
  have files: "keeps_tombs (dp_media st) (dp_media st')" if "le_files e st ctx w r = Return (st', w')"
    using assms(3) [OF that] by simp
  have reads: "keeps_tombs (dp_media st) (dp_media st')"
    if "library_search e st ctx w r = Return (st', w') \<or> library_random e st ctx w r = Return (st', w')"
    using that search_same random_same by fastforce
  show ?thesis
    using assms(1) handlers files reads unfolding library_Serve_def Let_def
    by (auto split: if_splits option.splits elim!: with_form_keeps [where f = dp_media] authenticated_keeps [where f = dp_media])
qed

text \<open>A sequence of requests; \<^verbatim>\<open>net/http\<close> recovers a handler that panics, which the handlers here do
  before they change anything.\<close>

fun library_run :: "(library_env \<times> request) list \<Rightarrow> depot \<Rightarrow> depot" where
  "library_run [] st = st"
| "library_run ((e, r) # reqs) st =
     library_run reqs (case library_Serve e st () fresh_response r of Panic \<Rightarrow> st | Return (st', w) \<Rightarrow> st')"

definition library_env_ok :: "library_env \<Rightarrow> bool" where
  "library_env_ok e \<longleftrightarrow> (\<forall>k. sql_now (ie_db (le_env e) k) < Inf) \<and>
     (\<forall>st w r st' w'. le_files e st () w r = Return (st', w') \<longrightarrow> dp_media st' = dp_media st) \<and>
     (\<forall>clause rows. set (le_order e clause rows) \<subseteq> set rows)"

lemma env_ok_Serve:
  assumes "library_env_ok e" "library_Serve e st () w r = Return (st', w')"
  shows "keeps_tombs (dp_media st) (dp_media st')"
  using assms(2)
proof (rule Serve_keeps_tombs)
  show "sql_now (ie_db (le_env e) k) < Inf" for k
    using assms(1) by (simp add: library_env_ok_def)
  show "dp_media st' = dp_media st" if "le_files e st () w r = Return (st', w')" for st w st' w'
    using assms(1) that unfolding library_env_ok_def by blast
qed

lemma run_keeps_tombs:
  "\<forall>(e, r) \<in> set reqs. library_env_ok e \<Longrightarrow> keeps_tombs (dp_media st) (dp_media (library_run reqs st))"
proof (induction reqs arbitrary: st)
  case (Cons call reqs)
  obtain e r where call: "call = (e, r)" by force
  let ?st = "case library_Serve e st () fresh_response r of Panic \<Rightarrow> st | Return (st', w) \<Rightarrow> st'"
  have "keeps_tombs (dp_media st) (dp_media ?st)"
  proof (cases "library_Serve e st () fresh_response r")
    case (Return x)
    moreover obtain st' w' where "x = (st', w')" by force
    moreover have "library_env_ok e" using Cons.prems call by simp
    ultimately show ?thesis
      using env_ok_Serve [of e st fresh_response r st' w'] by simp
  qed simp
  also have "keeps_tombs (dp_media ?st) (dp_media (library_run reqs ?st))"
    using Cons by auto
  finally show ?case by (simp add: call)
qed simp

lemma collect_page_rows:
  assumes "collect_rows (library_page e next d tbl) = Inr rows" "m \<in> set rows"
    and "\<And>clause rows. set (le_order e clause rows) \<subseteq> set rows"
  shows "m \<in> set tbl \<and> library_listed (q_Mimetypes next) m"
proof -
  from collect_rows_mem [OF assms(1,2)] obtain match where
    "m \<in> set (take (unat (q_Limit next)) (drop (unat (q_Offset next * q_Limit next))
      (le_order e (library_ordering next) (filter (\<lambda>r. library_listed (q_Mimetypes next) r \<and> match r) tbl))))"
    by (auto simp: library_page_def search_page_def select_page_def split: sum.splits option.splits)
  then have "m \<in> set (le_order e (library_ordering next) (filter (\<lambda>r. library_listed (q_Mimetypes next) r \<and> match r) tbl))"
    by (meson in_set_dropD in_set_takeD)
  with assms(3) have "m \<in> set (filter (\<lambda>r. library_listed (q_Mimetypes next) r \<and> match r) tbl)"
    by blast
  then show ?thesis by simp
qed

section \<open>Properties\<close>

text \<open>C14: deleted media never comes back. Once the row of a piece of media has a tombstone, no
  sequence of requests to the service, an upload of the same content included, lists it
  again, on any page of any search.\<close>

theorem deleted_media_stays_hidden:
  assumes "tombstoned u (dp_media st)" "distinct (map ID (dp_media st))"
    and "\<forall>(e, r) \<in> set reqs. library_env_ok e" "library_env_ok e"
    and "collect_rows (library_page e next d (dp_media (library_run reqs st))) = Inr rows"
  shows "u \<notin> ID ` set rows"
proof
  let ?tbl = "dp_media (library_run reqs st)"
  assume "u \<in> ID ` set rows"
  then obtain m where m: "m \<in> set rows" "ID m = u" by auto
  from collect_page_rows [OF assms(5) m(1)] assms(4)
  have listed: "m \<in> set ?tbl" "MetadataQueryNotTombstoned m"
    by (auto simp: library_env_ok_def library_listed_def)
  from run_keeps_tombs [OF assms(3), of st] assms(1,2)
  have ok: "distinct (map ID ?tbl)" "tombstoned u ?tbl"
    by (auto simp: keeps_tombs_def)
  from ok(2) obtain m' where m': "row_of ID ?tbl u = Some m'" "\<not> MetadataQueryNotTombstoned m'"
    by (auto simp: tombstoned_def)
  with row_of_Some [OF m'(1)] listed m(2) ok(1) have "m' = m"
    by (auto simp: distinct_map inj_on_def)
  with m' listed show False by simp
qed


text \<open>A service for one request, and the rows the witnesses use.\<close>

definition demo_media_api :: api where
  "demo_media_api = \<lparr>ap_parse = (\<lambda>_ _ s. if s = ''token'' then Inr (undefined, True) else Inl (Fundamental ''invalid'')),
     ap_algos = [''HS512''], ap_secret = [], ap_malformed = (\<lambda>_. False), ap_encode = (\<lambda>_. Inr ''{}''),
     ap_time = (\<lambda>_. ''t'')\<rparr>"

definition demo_ie :: import_env where
  "demo_ie = \<lparr>ie_fault = (\<lambda>_. None), ie_random = (\<lambda>k. of_nat k), ie_db = (\<lambda>_. demo_db),
     ie_detect = (\<lambda>_. Inr ''video/mp4''), ie_md5uuid = (\<lambda>_. ''a''), ie_seed = ''seed'', ie_transform = Inr,
     ie_metainfo = (\<lambda>_. Inl (Fundamental ''no torrent'')), ie_glob = (\<lambda>_ _ _. Inr [])\<rparr>"

definition demo_library :: library_env where
  "demo_library = \<lparr>le_api = demo_media_api, le_env = demo_ie, le_dir = ''/m'', le_update = (\<lambda>_. Inl (Fundamental ''eof'')),
     le_content = (\<lambda>_. Inr \<lparr>uf_bytes = [7, 8], uf_err = None, uf_Filename = ''f'', uf_ContentType = ''video/mp4''\<rparr>),
     le_draw = ''b'', le_decode = (\<lambda>r d. Inr d), le_match = (\<lambda>s. Inr (\<lambda>_. True)), le_order = (\<lambda>_ rows. rows),
     le_files = (\<lambda>st ctx w r. Return (st, w))\<rparr>"

definition demo_media :: "string \<Rightarrow> instant \<Rightarrow> Metadata" where
  "demo_media i t = zero_metadata\<lparr>ID := i, HiddenAt := Inf, TombstonedAt := t\<rparr>"

definition demo_depot :: "media_rows \<Rightarrow> depot" where
  "demo_depot rows = \<lparr>dp_os = demo_os, dp_media = rows, dp_torrents = [], dp_stmts = 0\<rparr>"

definition demo_search :: MediaSearchRequest where
  "demo_search = \<lparr>q_Query = '''', q_Offset = 0, q_Limit = 2, q_Mimetypes = []\<rparr>"

lemma demo_library_simps [simp]:
  "le_api demo_library = demo_media_api" "le_env demo_library = demo_ie" "le_order demo_library clause rows = rows"
  "le_files demo_library st ctx w r = Return (st, w)" "ie_db demo_ie k = demo_db" "sql_err demo_db = None"
  "le_decode demo_library r d = Inr d" "le_draw demo_library = ''b''"
  by (simp_all add: demo_library_def demo_ie_def demo_db_def)

lemma demo_library_ok: "library_env_ok demo_library"
  by (auto simp: library_env_ok_def demo_db_def Inf_eq Second_def max_i64_def)

lemma demo_query: "lucene_Query (le_match demo_library) (q_Query demo_search) = Inr (\<lambda>_. True)"
  by (simp add: lucene_Query_def demo_search_def Blank_def TrimSpace_def)

lemma demo_page_rows:
  "collect_rows (library_page demo_library (demo_search\<lparr>q_Offset := k\<rparr>) demo_db tbl) =
     Inr (take 2 (drop (unat (k * 2)) (filter (library_listed []) tbl)))"
  using demo_query
  by (simp add: library_page_def search_page_def collect_select_page) (simp add: demo_search_def)

theorem deleted_media_stays_hidden_witness:
  "\<exists>rows. collect_rows (library_page demo_library demo_search demo_db (dp_media (library_run
      [(demo_library, post_abc\<lparr>rHeader := (\<lambda>_. [''Bearer token''])\<rparr>)]
      (demo_depot [demo_media ''a'' 5, demo_media ''b'' Inf])))) = Inr rows \<and> ''a'' \<notin> ID ` set rows"
proof -
  let ?st = "demo_depot [demo_media ''a'' 5, demo_media ''b'' Inf]"
  let ?reqs = "[(demo_library, post_abc\<lparr>rHeader := (\<lambda>_. [''Bearer token''])\<rparr>)]"
  obtain rows where rows: "collect_rows (library_page demo_library demo_search demo_db (dp_media (library_run ?reqs ?st))) = Inr rows"
    using demo_query by (simp add: library_page_def search_page_def collect_select_page)
  have "tombstoned ''a'' (dp_media ?st)"
    by (simp add: tombstoned_def demo_depot_def row_of_def demo_media_def MetadataQueryNotTombstoned_def Inf_eq
        max_i64_def Second_def)
  moreover have "distinct (map ID (dp_media ?st))"
    by (simp add: demo_depot_def demo_media_def)
  ultimately have "''a'' \<notin> ID ` set rows"
    using demo_library_ok by (intro deleted_media_stays_hidden [OF _ _ _ _ rows]) auto
  with rows show ?thesis by blast
qed

definition demo_rows :: media_rows where
  "demo_rows = [demo_media ''a'' Inf, demo_media ''b'' 5, demo_media ''c'' Inf, demo_media ''d'' Inf]"

lemma demo_rows_listed:
  "filter (library_listed []) demo_rows = [demo_media ''a'' Inf, demo_media ''c'' Inf, demo_media ''d'' Inf]"
  by (simp add: demo_rows_def library_listed_def demo_media_def MetadataQueryVisible_def MetadataQueryNotTombstoned_def
      MetadataQueryMimetypes_def In_values_def Inf_eq max_i64_def Second_def)


text \<open>A random piece of media is found exactly when there is a visible one of the types asked
  for, and is such a one. A limit of 0 finds nothing.\<close>

theorem random_finds_visible:
  assumes "le_decode e r \<lparr>q_Query = '''', q_Offset = 0, q_Limit = 1, q_Mimetypes = []\<rparr> = Inr req"
    and "\<And>k. sql_err (ie_db (le_env e) k) = None"
  shows "\<exists>st'. dp_media st' = dp_media st \<and>
    (if 0 < q_Limit req \<and> (\<exists>m \<in> set (dp_media st). library_listed (q_Mimetypes req) m)
     then \<exists>m \<in> set (dp_media st). library_listed (q_Mimetypes req) m \<and>
       library_random e st () w r =
         respond (le_api e) st' w (MediaFindResponse (media_message e (MetadataOptionJSONSafeEncode m)))
     else library_random e st () w r = refuse st' w 404)"
proof -
  let ?l = "min_from (q_Limit req) [1]"
  have l: "unat ?l = (if 0 < q_Limit req then 1 else 0)"
    by (auto simp: word_gt_0 word_less_nat_alt unat_eq_zero word_le_nat_alt split: if_splits)
  have one: "ScanOne (select_page d p (\<lambda>x. x) 0 ?l tbl) =
      (case (if 0 < q_Limit req then filter p tbl else []) of [] \<Rightarrow> Inl (Sentinel ErrNoRows) | m # ms \<Rightarrow> Inr m)"
    if "sql_err d = None" for d :: sqldb and p :: "Metadata \<Rightarrow> bool" and tbl
    using that by (auto simp: ScanOne_def Iter_def select_page_def l word_gt_0 split: list.split)
  define listed where "listed = library_listed (q_Mimetypes req)"
  define drawn where "drawn = (\<lambda>p. filter (\<lambda>m. listed m \<and> p (le_draw e) m) (dp_media st))"
  define found where "found = (if 0 < q_Limit req then drawn MetadataQueryRandomAfter @ drawn MetadataQueryRandomBefore else [])"
  have pick: "\<exists>st'. dp_media st' = dp_media st \<and> random_pick e (req\<lparr>q_Limit := ?l\<rparr>) st =
      (st', case found of [] \<Rightarrow> Inl (Sentinel ErrNoRows) | m # ms \<Rightarrow> Inr m)"
    by (auto simp: random_pick_def select_media_def on_media_def one assms(2) found_def drawn_def listed_def
        simp del: min_from.simps split: list.splits sum.splits)
  have set: "set found = (if 0 < q_Limit req then {m \<in> set (dp_media st). listed m} else {})"
    by (auto simp: found_def drawn_def MetadataQueryRandomAfter_def MetadataQueryRandomBefore_def)
  obtain st' where st': "dp_media st' = dp_media st" "random_pick e (req\<lparr>q_Limit := ?l\<rparr>) st =
      (st', case found of [] \<Rightarrow> Inl (Sentinel ErrNoRows) | m # ms \<Rightarrow> Inr m)"
    using pick by blast
  show ?thesis
  proof (cases found)
    case Nil
    have "library_random e st () w r = refuse st' w 404"
      using st'(2) Nil assms(1) by (simp add: library_random_def del: min_from.simps)
    with set Nil st'(1) show ?thesis by (auto simp: listed_def)
  next
    case (Cons m ms)
    have "library_random e st () w r = respond (le_api e) st' w (MediaFindResponse (media_message e (MetadataOptionJSONSafeEncode m)))"
      using st'(2) Cons assms(1) by (simp add: library_random_def del: min_from.simps)
    moreover have "m \<in> set found" using Cons by simp
    ultimately show ?thesis using set st'(1) by (auto simp: listed_def split: if_splits)
  qed
qed

definition demo_get :: request where
  "demo_get = post_abc\<lparr>rMethod := ''GET'', rPath := ''/random''\<rparr>"

theorem random_finds_visible_witness:
  "\<exists>st'. dp_media st' = demo_rows \<and> (\<exists>m \<in> set demo_rows. library_listed [] m \<and>
     library_random demo_library (demo_depot demo_rows) () fresh_response demo_get =
       respond demo_media_api st' fresh_response (MediaFindResponse (media_message demo_library (MetadataOptionJSONSafeEncode m))))"
proof -
  let ?req = "\<lparr>q_Query = '''', q_Offset = 0, q_Limit = 1, q_Mimetypes = []\<rparr> :: MediaSearchRequest"
  have some: "\<exists>m \<in> set demo_rows. library_listed [] m"
    using demo_rows_listed by (metis (no_types, lifting) filter_empty_conv list.distinct(1))
  show ?thesis
    using random_finds_visible [of demo_library demo_get ?req "demo_depot demo_rows" fresh_response] some
    by (simp add: demo_depot_def)
qed

text \<open>A request without a valid token changes nothing in the library, whatever its path, method
  and body, and is answered with an error.\<close>

theorem library_Serve_guarded:
  assumes "Validate (ap_parse (le_api e)) (ap_algos (le_api e)) ''*jwt.RegisteredClaims'' (ap_secret (le_api e))
      (Bearer r) = Inl err"
    and "library_Serve e st () w r = Return (st', w')" "wSent w = None"
  shows "st' = st \<and> (\<exists>code h. wSent w' = Some (code, h) \<and> code \<in> {400, 401, 404, 405})"
proof -
  have auth: "authenticated (le_api e) h st () w r = Return (st, Unauthorized w)" for h :: "depot media_handler"
    using assms(1) by (simp add: authenticated_def AuthenticateWithToken_def)
  show ?thesis
    using assms(2,3) unfolding library_Serve_def Let_def
    by (auto simp: with_form_def ParseForm_def auth Unauthorized_def WriteHeader_def resp_Write_def Header_Set_def
        split: if_splits option.splits)
qed

lemma demo_paths: "path_id_of ''/metadatasync'' ''/a'' = None" "path_id ''/a'' = Some ''a''"
  by code_simp+

theorem library_Serve_guarded_witness:
  "\<exists>w'. library_Serve demo_library (demo_depot demo_rows) () fresh_response (demo_get\<lparr>rMethod := ''DELETE'', rPath := ''/a''\<rparr>) =
     Return (demo_depot demo_rows, w') \<and> (\<exists>code h. wSent w' = Some (code, h) \<and> code \<in> {400, 401, 404, 405})"
proof -
  let ?r = "demo_get\<lparr>rMethod := ''DELETE'', rPath := ''/a''\<rparr>"
  have bearer: "Bearer ?r = ''''"
    by (simp add: Bearer_def demo_get_def post_abc_def hdr_get_def ToLower_def)
  have bad: "Validate (ap_parse demo_media_api) (ap_algos demo_media_api) ''*jwt.RegisteredClaims'' (ap_secret demo_media_api) (Bearer ?r) =
      Inl (WithStack (WithMessage (Fundamental ''invalid'') (''unable to parse jwt token: '' @ ''*jwt.RegisteredClaims'')))"
    unfolding bearer by (simp add: Validate_def demo_media_api_def strip_bearer.simps)
  obtain st' w' where run: "library_Serve demo_library (demo_depot demo_rows) () fresh_response ?r = Return (st', w')"
    using bad demo_paths by (simp add: library_Serve_def with_form_def ParseForm_def authenticated_def AuthenticateWithToken_def
        demo_get_def demo_media_api_def)
  have "st' = demo_depot demo_rows \<and> (\<exists>code h. wSent w' = Some (code, h) \<and> code \<in> {400, 401, 404, 405})"
    using bad by (intro library_Serve_guarded [OF _ run]) (simp_all add: fresh_response_def)
  with run show ?thesis by blast
qed

text \<open>Anyone can delete any feed. A request to delete needs no token, and what it deletes is
  the feed its body names; the feed of its path stays.\<close>

theorem feeds_delete_body:
  assumes "rMethod r = ''DELETE''" "rPath r = CHR ''/'' # ident" "ident \<noteq> ''''" "CHR ''/'' \<notin> set ident"
    and "\<not> ap_malformed (fe_api e) r" "fe_body e (rBody r) = Inr (Some req)" "sql_err (fe_db e) = None"
    and "row_of f_ID st (fd_Id req) \<noteq> None"
  shows "\<exists>st' w'. feeds_Serve e st () w r = Return (st', w') \<and> row_of f_ID st' (fd_Id req) = None \<and>
    (\<forall>k. k \<noteq> fd_Id req \<longrightarrow> row_of f_ID st' k = row_of f_ID st k)"
proof -
  let ?st = "filter (\<lambda>f. f_ID f \<noteq> fd_Id req) st"
  obtain fd where del: "RSSDeleteByID (fe_db e) (fd_Id req) st = (?st, Inr fd)"
    using assms(7,8) by (auto simp: RSSDeleteByID_def delete_where_def query_row_def row_of_filter split: list.splits)
  have "path_id (rPath r) = Some ident" "rPath r \<noteq> ''/''"
    using assms(2-4) by (auto simp: path_id_def)
  then have "feeds_Serve e st () w r = respond (fe_api e) ?st w (FeedDeleteResponse (feed_message e fd))"
    using assms(1,5,6) del by (simp add: feeds_Serve_def with_form_def ParseForm_def feeds_delete_def)
  moreover have "row_of f_ID ?st k = (if k = fd_Id req then None else row_of f_ID st k)" for k
    unfolding row_of_def by (induction st) auto
  ultimately show ?thesis by (auto simp: answers)
qed

definition demo_feeds :: feeds_env where
  "demo_feeds = \<lparr>fe_api = demo_media_api, fe_db = demo_db, fe_decode = (\<lambda>r d. Inr d),
     fe_body = (\<lambda>_. Inr (Some (zero_Feed\<lparr>fd_Id := ''y''\<rparr>))), fe_order = (\<lambda>_ rows. rows), fe_md5uuid = (\<lambda>_. ''a''),
     fe_url_host = (\<lambda>_. None), fe_fresh = ''f''\<rparr>"

theorem feeds_delete_body_witness:
  "\<exists>st' w'. feeds_Serve demo_feeds [zero_RSS\<lparr>f_ID := ''x''\<rparr>, zero_RSS\<lparr>f_ID := ''y''\<rparr>] () fresh_response
      (post_abc\<lparr>rMethod := ''DELETE'', rPath := ''/x''\<rparr>) = Return (st', w') \<and>
    row_of f_ID st' ''y'' = None \<and> row_of f_ID st' ''x'' = Some (zero_RSS\<lparr>f_ID := ''x''\<rparr>)"
proof -
  have r: "row_of f_ID [zero_RSS\<lparr>f_ID := ''x''\<rparr>, zero_RSS\<lparr>f_ID := ''y''\<rparr>] k =
      (if k = ''x'' then Some (zero_RSS\<lparr>f_ID := ''x''\<rparr>) else if k = ''y'' then Some (zero_RSS\<lparr>f_ID := ''y''\<rparr>) else None)" for k
    by (simp add: row_of_def)
  show ?thesis
    using feeds_delete_body [of "post_abc\<lparr>rMethod := ''DELETE'', rPath := ''/x''\<rparr>" "''x''" demo_feeds
        "zero_Feed\<lparr>fd_Id := ''y''\<rparr>" "[zero_RSS\<lparr>f_ID := ''x''\<rparr>, zero_RSS\<lparr>f_ID := ''y''\<rparr>]" fresh_response]
    by (auto simp: demo_feeds_def demo_media_api_def r)
qed

end
