(* ===== verification/Netip.thy ===== *)
theory Netip
  imports Gostd
begin

text \<open>
  The parts of Go's standard library that the configuration parsers of the program rely on:
  \<^verbatim>\<open>strconv.Atoi\<close> and \<^verbatim>\<open>ParseUint\<close> in base 10, \<^verbatim>\<open>encoding/base64\<close>'s standard encoding, and
  the addresses and prefixes of \<^verbatim>\<open>net/netip\<close>.

  An address is its 4 or 16 bytes and its zone; a prefix is an address and a number of
  bits. A parser that fails returns \<open>None\<close>: the program only passes the error on.
\<close>

unbundle bit_operations_syntax

section \<open>Package strconv\<close>

definition is_digit :: "char \<Rightarrow> bool" where
  "is_digit c \<longleftrightarrow> 48 \<le> (of_char c :: nat) \<and> (of_char c :: nat) \<le> 57"

definition all_digits :: "string \<Rightarrow> bool" where
  "all_digits s \<longleftrightarrow> s \<noteq> [] \<and> (\<forall>c \<in> set s. is_digit c)"

definition ParseUint :: "nat \<Rightarrow> string \<Rightarrow> nat option" where
  "ParseUint bitSize s =
     (if all_digits s \<and> parse_digits 0 s < 2 ^ bitSize then Some (parse_digits 0 s) else None)"

definition Atoi :: "string \<Rightarrow> int option" where
  "Atoi s =
     (let neg = (s \<noteq> [] \<and> hd s = CHR ''-'');
          ds = (if s \<noteq> [] \<and> (hd s = CHR ''-'' \<or> hd s = CHR ''+'') then tl s else s);
          n = (if neg then - int (parse_digits 0 ds) else int (parse_digits 0 ds))
      in if all_digits ds \<and> in_i64 n then Some n else None)"

lemma format_nat_all_digits [simp]: "all_digits (format_nat n)"
proof -
  have "is_digit c" if "c \<in> set (format_nat n)" for c
    using that format_nat_digits [of n] by (auto simp: is_digit_def digit_char_def)
  moreover have "format_nat n \<noteq> []"
    by (subst format_nat.simps) simp
  ultimately show ?thesis by (simp add: all_digits_def)
qed

lemma format_nat_hd: "is_digit (hd (format_nat n))"
  using format_nat_all_digits [of n] unfolding all_digits_def by (meson hd_in_set)

lemma Atoi_format: "n < 2 ^ 63 \<Longrightarrow> Atoi (format_nat n) = Some (int n)"
proof -
  assume n: "n < 2 ^ 63"
  have "hd (format_nat n) \<noteq> CHR ''-''" "hd (format_nat n) \<noteq> CHR ''+''"
    using format_nat_hd [of n] by (auto simp: is_digit_def)
  moreover have "in_i64 (int n)"
    using n by (auto intro!: in_i64I simp: zless_nat_eq_int_zless)
  ultimately show ?thesis
    by (simp add: Atoi_def parse_format_nat Let_def)
qed

section \<open>Package base64\<close>

definition b64_value :: "char \<Rightarrow> nat option" where
  "b64_value c =
     (let n = (of_char c :: nat) in
      if 65 \<le> n \<and> n \<le> 90 then Some (n - 65)
      else if 97 \<le> n \<and> n \<le> 122 then Some (n - 71)
      else if 48 \<le> n \<and> n \<le> 57 then Some (n + 4)
      else if c = CHR ''+'' then Some 62
      else if c = CHR ''/'' then Some 63
      else None)"

text \<open>\<^verbatim>\<open>StdEncoding.DecodeString\<close> after its removal of line breaks: quadruples of the
  alphabet, the last one padded; the bits beyond the last byte are ignored.\<close>

fun b64_quads :: "string \<Rightarrow> bytes option" where
  "b64_quads [] = Some []"
| "b64_quads (a # b # c # d # cs) =
     (case (b64_value a, b64_value b) of
        (Some x, Some y) \<Rightarrow>
          if c = CHR ''='' then
            (if d = CHR ''='' \<and> cs = [] then Some [of_nat (x * 4 + y div 16)] else None)
          else (case b64_value c of
             None \<Rightarrow> None
           | Some z \<Rightarrow>
               if d = CHR ''='' then
                 (if cs = [] then
                    Some [of_nat (x * 4 + y div 16), of_nat ((y mod 16) * 16 + z div 4)]
                  else None)
               else (case (b64_value d, b64_quads cs) of
                  (Some w, Some rest) \<Rightarrow>
                    Some (of_nat (x * 4 + y div 16) # of_nat ((y mod 16) * 16 + z div 4) #
                      of_nat ((z mod 4) * 64 + w) # rest)
                | _ \<Rightarrow> None))
      | _ \<Rightarrow> None)"
| "b64_quads _ = None"

definition b64_decode :: "string \<Rightarrow> bytes option" where
  "b64_decode s = b64_quads (filter (\<lambda>c. c \<noteq> CHR 0x0A \<and> c \<noteq> CHR 0x0D) s)"

section \<open>Package netip\<close>

record Addr =
  addr_bytes :: bytes
  zone :: string

record Prefix =
  pfx_addr :: Addr
  bits :: int

definition BitLen :: "Addr \<Rightarrow> int" where
  "BitLen a = int (8 * length (addr_bytes a))"

definition Is6 :: "Addr \<Rightarrow> bool" where
  "Is6 a \<longleftrightarrow> length (addr_bytes a) = 16"

text \<open>\<^verbatim>\<open>PrefixFrom\<close> drops the zone and marks a bad number of bits with -1.\<close>

definition PrefixFrom :: "Addr \<Rightarrow> int \<Rightarrow> Prefix" where
  "PrefixFrom a n =
     \<lparr>pfx_addr = a\<lparr>zone := []\<rparr>, bits = (if 0 \<le> n \<and> n \<le> BitLen a then n else -1)\<rparr>"

fun mask_bytes :: "nat \<Rightarrow> bytes \<Rightarrow> bytes" where
  "mask_bytes n [] = []"
| "mask_bytes n (b # bs) =
     (if 8 \<le> n then b else b AND NOT (mask (8 - n))) # mask_bytes (n - 8) bs"

definition Masked :: "Prefix \<Rightarrow> Prefix" where
  "Masked p = p\<lparr>pfx_addr := (pfx_addr p)\<lparr>addr_bytes :=
     mask_bytes (nat (bits p)) (addr_bytes (pfx_addr p))\<rparr>\<rparr>"

definition parse_octet :: "string \<Rightarrow> byte option" where
  "parse_octet s =
     (if all_digits s \<and> (length s = 1 \<or> hd s \<noteq> CHR ''0'') \<and> parse_digits 0 s \<le> 255
      then Some (of_nat (parse_digits 0 s)) else None)"

definition parseIPv4 :: "string \<Rightarrow> bytes option" where
  "parseIPv4 s =
     (case map parse_octet (split_str ''.'' s) of
        [Some a, Some b, Some c, Some d] \<Rightarrow> Some [a, b, c, d]
      | _ \<Rightarrow> None)"

definition hex_value :: "char \<Rightarrow> nat option" where
  "hex_value c =
     (let n = (of_char c :: nat) in
      if 48 \<le> n \<and> n \<le> 57 then Some (n - 48)
      else if 97 \<le> n \<and> n \<le> 102 then Some (n - 87)
      else if 65 \<le> n \<and> n \<le> 70 then Some (n - 55)
      else None)"

definition hex_group :: "string \<Rightarrow> nat" where
  "hex_group s = foldl (\<lambda>acc c. 16 * acc + the (hex_value c)) 0 s"

text \<open>The loop of \<^verbatim>\<open>parseIPv6\<close> over the groups: the bytes read so far, the position of the
  ellipsis. It consumes a character or more in each turn.\<close>

function v6_groups :: "bytes \<Rightarrow> nat option \<Rightarrow> string \<Rightarrow> (bytes \<times> nat option \<times> string) option" where
  "v6_groups ip ell s =
     (if 16 \<le> length ip then Some (ip, ell, s)
      else
        let h = takeWhile (\<lambda>c. hex_value c \<noteq> None) s; r = dropWhile (\<lambda>c. hex_value c \<noteq> None) s;
            ip' = ip @ [of_nat (hex_group h div 256), of_nat (hex_group h)] in
        if h = [] \<or> 4 < length h then None
        else if r \<noteq> [] \<and> hd r = CHR ''.'' then
          (if (ell = None \<and> length ip \<noteq> 12) \<or> 16 < length ip + 4 then None
           else (case parseIPv4 s of None \<Rightarrow> None | Some q \<Rightarrow> Some (ip @ q, ell, [])))
        else if r = [] then Some (ip', ell, [])
        else if hd r \<noteq> CHR '':'' \<or> length r = 1 then None
        else if r ! 1 = CHR '':'' then
          (if ell \<noteq> None then None
           else if length r = 2 then Some (ip', Some (length ip'), [])
           else v6_groups ip' (Some (length ip')) (drop 2 r))
        else v6_groups ip' ell (tl r))"
  by pat_completeness auto
termination
  by (relation "measure (\<lambda>(ip, ell, s). 16 - length ip)") auto

declare v6_groups.simps [simp del]

definition parseIPv6 :: "string \<Rightarrow> Addr option" where
  "parseIPv6 s0 =
     (let (s, zn) = (case cut ''%'' s0 of None \<Rightarrow> (s0, None) | Some (a, z) \<Rightarrow> (a, Some z));
          z = (case zn of None \<Rightarrow> [] | Some z \<Rightarrow> z) in
      if zn = Some [] then None
      else if s = ''::'' then Some \<lparr>addr_bytes = replicate 16 0, zone = z\<rparr>
      else
        (case (if HasPrefix s ''::'' then v6_groups [] (Some 0) (drop 2 s)
               else v6_groups [] None s) of
           None \<Rightarrow> None
         | Some (ip, ell, rest) \<Rightarrow>
             if rest \<noteq> [] then None
             else (case ell of
                None \<Rightarrow> if length ip < 16 then None else Some \<lparr>addr_bytes = ip, zone = z\<rparr>
              | Some e \<Rightarrow>
                  if length ip < 16
                  then Some \<lparr>addr_bytes = take e ip @ replicate (16 - length ip) 0 @ drop e ip,
                             zone = z\<rparr>
                  else None)))"

definition ParseAddr :: "string \<Rightarrow> Addr option" where
  "ParseAddr s =
     (case dropWhile (\<lambda>c. c \<noteq> CHR ''.'' \<and> c \<noteq> CHR '':'' \<and> c \<noteq> CHR ''%'') s of
        [] \<Rightarrow> None
      | c # cs \<Rightarrow>
          if c = CHR ''.'' then
            (case parseIPv4 s of None \<Rightarrow> None | Some b \<Rightarrow> Some \<lparr>addr_bytes = b, zone = []\<rparr>)
          else if c = CHR '':'' then parseIPv6 s
          else None)"

definition LastIndexByte :: "string \<Rightarrow> char \<Rightarrow> nat option" where
  "LastIndexByte s c =
     (if c \<in> set s then Some (length s - 1 - length (takeWhile (\<lambda>x. x \<noteq> c) (rev s))) else None)"

definition IndexByte :: "string \<Rightarrow> char \<Rightarrow> nat option" where
  "IndexByte s c = (if c \<in> set s then Some (length (takeWhile (\<lambda>x. x \<noteq> c) s)) else None)"

definition ParsePrefix :: "string \<Rightarrow> Prefix option" where
  "ParsePrefix s =
     (case LastIndexByte s (CHR ''/'') of
        None \<Rightarrow> None
      | Some i \<Rightarrow>
          (case ParseAddr (take i s) of
             None \<Rightarrow> None
           | Some ip \<Rightarrow>
               if Is6 ip \<and> zone ip \<noteq> [] then None
               else
                 let bitsStr = drop (i + 1) s in
                 if 1 < length bitsStr \<and> (hd bitsStr = CHR ''0'' \<or> \<not> is_digit (hd bitsStr))
                 then None
                 else (case Atoi bitsStr of
                    None \<Rightarrow> None
                  | Some n \<Rightarrow>
                      if n < 0 \<or> BitLen ip < n then None else Some (PrefixFrom ip n))))"

section \<open>Well-formed addresses\<close>

definition addr_wf :: "Addr \<Rightarrow> bool" where
  "addr_wf a \<longleftrightarrow> length (addr_bytes a) = 4 \<or> length (addr_bytes a) = 16"

definition prefix_wf :: "Prefix \<Rightarrow> bool" where
  "prefix_wf p \<longleftrightarrow> addr_wf (pfx_addr p) \<and> 0 \<le> bits p \<and> bits p \<le> BitLen (pfx_addr p)"

lemma parseIPv4_length: "parseIPv4 s = Some b \<Longrightarrow> length b = 4"
  by (auto simp: parseIPv4_def split: list.splits option.splits)

lemma v6_groups_wf:
  assumes "v6_groups ip ell s = Some (ip', ell', rest)"
    and "length ip \<le> 16" "even (length ip)"
  shows "length ip' \<le> 16"
  using assms
proof (induction "16 - length ip" arbitrary: ip ell s rule: less_induct)
  case less
  show ?case
  proof (cases "16 \<le> length ip")
    case True
    with less.prems show ?thesis by (subst (asm) v6_groups.simps) simp
  next
    case False
    have IH: "length ip' \<le> 16"
      if "v6_groups ip2 ell2 s2 = Some (ip', ell', rest)" "length ip2 = length ip + 2" for ip2 ell2 s2
    proof (rule less.hyps [OF _ that(1)])
      show "length ip2 \<le> 16" "even (length ip2)"
        using that(2) False less.prems(3) by (simp_all, presburger)
      show "16 - length ip2 < 16 - length ip"
        using that(2) False by simp
    qed
    have "length ip + 2 \<le> 16"
      using False less.prems(3) by presburger
    with False less.prems(1) show ?thesis
      by (subst (asm) v6_groups.simps)
        (auto simp: Let_def split: if_splits option.splits dest!: parseIPv4_length dest: IH)
  qed
qed

lemma parseIPv6_wf: "parseIPv6 s = Some a \<Longrightarrow> length (addr_bytes a) = 16"
  by (auto simp: parseIPv6_def Let_def split: prod.splits option.splits if_splits
      dest!: v6_groups_wf)

lemma ParseAddr_wf: "ParseAddr s = Some a \<Longrightarrow> addr_wf a"
  by (auto simp: ParseAddr_def addr_wf_def split: list.splits if_splits option.splits
      dest: parseIPv4_length parseIPv6_wf)

lemma prefix_wf_PrefixFrom: "addr_wf a \<Longrightarrow> 0 \<le> n \<Longrightarrow> n \<le> BitLen a \<Longrightarrow> prefix_wf (PrefixFrom a n)"
  by (simp add: prefix_wf_def PrefixFrom_def addr_wf_def BitLen_def)

lemma ParsePrefix_wf: "ParsePrefix s = Some p \<Longrightarrow> prefix_wf p"
  by (auto simp: ParsePrefix_def Let_def split: option.splits if_splits
      intro!: prefix_wf_PrefixFrom dest: ParseAddr_wf)

lemma BitLen_pos [simp]: "0 \<le> BitLen a"
  by (simp add: BitLen_def)

end
