(* ===== verification/Scanx.thy ===== *)
theory Scanx
  imports Librarydb Netip
begin

text \<open>
  Between the rows of the database and the records of the program: the scanners and the argument
  lists \<^verbatim>\<open>genieql\<close> generates (\<^verbatim>\<open>shallows/tracking/genieql.gen.go\<close>, \<^verbatim>\<open>shallows/library/genieql.gen.go\<close>)
  and \<^verbatim>\<open>shallows/internal/ducktype\<close>.

  A value of the driver is a \<open>driver_value\<close>, a destination of \<^verbatim>\<open>Scan\<close> a \<open>dest\<close>. A scanner is given by
  its columns: the name, the kind of the destination and the assignment to the field. The three
  scanners of a table share its columns. What \<^verbatim>\<open>database/sql\<close> makes of a value of another
  kind than the column has, how it wraps the error of a column, and the UUID library are parameters.
\<close>

section \<open>Values and destinations\<close>

datatype driver_value =
    DNil | DBool bool | DInt64 int | DUint64 u64 | DFloat64 real | DBytes bytes | DString string | DTime instant

datatype kind = KBool | KString | KUuid | KUint64 | KTime | KInt32 | KInt64 | KFloat64 | KBytes

text \<open>\<open>None\<close> is a destination that is not valid.\<close>

datatype dest =
    NullBool "bool option" | NullString "string option" | NullUint64 "u64 option" | NullTime "instant option"
  | NullInt32 "32 word option" | NullInt64 "int option" | NullFloat64 "real option" | NullBytes bytes

record conversions =
  cv_uuid :: "bytes \<Rightarrow> goerr + string"
  cv_other :: "kind \<Rightarrow> driver_value \<Rightarrow> goerr + dest"
  cv_column :: "nat \<Rightarrow> goerr \<Rightarrow> goerr"

definition zero_dest :: "kind \<Rightarrow> dest" where
  "zero_dest k =
     (case k of
        KBool \<Rightarrow> NullBool None | KString \<Rightarrow> NullString None | KUuid \<Rightarrow> NullString None | KUint64 \<Rightarrow> NullUint64 None
      | KTime \<Rightarrow> NullTime None | KInt32 \<Rightarrow> NullInt32 None | KInt64 \<Rightarrow> NullInt64 None
      | KFloat64 \<Rightarrow> NullFloat64 None | KBytes \<Rightarrow> NullBytes [])"

definition bytes_string :: "bytes \<Rightarrow> string" where
  "bytes_string b = map (\<lambda>x. char_of (unat x)) b"

subsection \<open>\<^verbatim>\<open>ducktype.NullUint64\<close>\<close>

text \<open>The negative numbers are refused; a number with a fraction is truncated. The texts of the
  errors leave out the value.\<close>

definition parse_uint64 :: "string \<Rightarrow> goerr + u64 option" where
  "parse_uint64 s =
     (case ParseUint 64 s of
        None \<Rightarrow> Inl (Fundamental ''nulluint64: failed to parse as uint64'')
      | Some n \<Rightarrow> Inr (Some (of_nat n)))"

definition NullUint64_Scan :: "driver_value \<Rightarrow> goerr + u64 option" where
  "NullUint64_Scan v =
     (case v of
        DNil \<Rightarrow> Inr None
      | DUint64 w \<Rightarrow> Inr (Some w)
      | DInt64 i \<Rightarrow>
          if i < 0 then Inl (Fundamental ''nulluint64: cannot scan negative int64 into uint64'')
          else Inr (Some (word_of_int i))
      | DFloat64 x \<Rightarrow>
          if x < 0 then Inl (Fundamental ''nulluint64: cannot scan negative float64 into uint64'')
          else Inr (Some (word_of_int \<lfloor>x\<rfloor>))
      | DBytes b \<Rightarrow> parse_uint64 (bytes_string b)
      | DString s \<Rightarrow> parse_uint64 s
      | _ \<Rightarrow> Inl (Fundamental ''nulluint64: cannot scan into NullUint64''))"

definition NullUint64_Value :: "u64 option \<Rightarrow> driver_value" where
  "NullUint64_Value n = (case n of None \<Rightarrow> DNil | Some v \<Rightarrow> DString (format_nat (unat v)))"

subsection \<open>\<^verbatim>\<open>Rows.Scan\<close>\<close>

definition convert :: "conversions \<Rightarrow> kind \<Rightarrow> driver_value \<Rightarrow> goerr + dest" where
  "convert cv k v =
     (case k of
        KUint64 \<Rightarrow> map_sum (\<lambda>e. e) NullUint64 (NullUint64_Scan v)
      | _ \<Rightarrow> (case v of
            DNil \<Rightarrow> Inr (zero_dest k)
          | DBool b \<Rightarrow> (case k of KBool \<Rightarrow> Inr (NullBool (Some b)) | _ \<Rightarrow> cv_other cv k v)
          | DInt64 i \<Rightarrow>
              (case k of
                 KInt64 \<Rightarrow> Inr (NullInt64 (Some i))
               | KInt32 \<Rightarrow> if - (2 ^ 31) \<le> i \<and> i < 2 ^ 31 then Inr (NullInt32 (Some (word_of_int i))) else cv_other cv k v
               | _ \<Rightarrow> cv_other cv k v)
          | DFloat64 x \<Rightarrow> (case k of KFloat64 \<Rightarrow> Inr (NullFloat64 (Some x)) | _ \<Rightarrow> cv_other cv k v)
          | DBytes b \<Rightarrow>
              (case k of
                 KBytes \<Rightarrow> Inr (NullBytes b)
               | KString \<Rightarrow> Inr (NullString (Some (bytes_string b)))
               | KUuid \<Rightarrow> Inr (NullString (Some (bytes_string b)))
               | _ \<Rightarrow> cv_other cv k v)
          | DString s \<Rightarrow>
              (case k of
                 KString \<Rightarrow> Inr (NullString (Some s))
               | KUuid \<Rightarrow> Inr (NullString (Some s))
               | _ \<Rightarrow> cv_other cv k v)
          | DTime t \<Rightarrow> (case k of KTime \<Rightarrow> Inr (NullTime (Some t)) | _ \<Rightarrow> cv_other cv k v)
          | _ \<Rightarrow> cv_other cv k v))"

fun convert_all :: "conversions \<Rightarrow> nat \<Rightarrow> kind list \<Rightarrow> driver_value list \<Rightarrow> goerr + dest list" where
  "convert_all cv n (k # ks) (v # vs) =
     (case convert cv k v of
        Inl e \<Rightarrow> Inl (cv_column cv n e)
      | Inr d \<Rightarrow> (case convert_all cv (Suc n) ks vs of Inl e \<Rightarrow> Inl e | Inr ds \<Rightarrow> Inr (d # ds)))"
| "convert_all cv n ks vs = Inr []"

definition rows_Scan :: "conversions \<Rightarrow> kind list \<Rightarrow> driver_value list \<Rightarrow> goerr + dest list" where
  "rows_Scan cv ks vs =
     (if length ks \<noteq> length vs
      then Inl (Fundamental (''sql: expected '' @ format_nat (length vs) @ '' destination arguments in Scan, not '' @
             format_nat (length ks)))
      else convert_all cv 0 ks vs)"

section \<open>Scanners\<close>

datatype 'r column =
  Column (column_name: string) (column_kind: kind) (column_set: "dest \<Rightarrow> 'r \<Rightarrow> goerr + 'r")

text \<open>The assignments: a field keeps its value when the destination is not valid.\<close>

definition col_bool :: "string \<Rightarrow> (bool \<Rightarrow> 'r \<Rightarrow> 'r) \<Rightarrow> 'r column" where
  "col_bool n f = Column n KBool (\<lambda>d r. Inr (case d of NullBool (Some v) \<Rightarrow> f v r | _ \<Rightarrow> r))"

definition col_string :: "string \<Rightarrow> (string \<Rightarrow> 'r \<Rightarrow> 'r) \<Rightarrow> 'r column" where
  "col_string n f = Column n KString (\<lambda>d r. Inr (case d of NullString (Some v) \<Rightarrow> f v r | _ \<Rightarrow> r))"

definition col_uint64 :: "string \<Rightarrow> (u64 \<Rightarrow> 'r \<Rightarrow> 'r) \<Rightarrow> 'r column" where
  "col_uint64 n f = Column n KUint64 (\<lambda>d r. Inr (case d of NullUint64 (Some v) \<Rightarrow> f v r | _ \<Rightarrow> r))"

definition col_time :: "string \<Rightarrow> (instant \<Rightarrow> 'r \<Rightarrow> 'r) \<Rightarrow> 'r column" where
  "col_time n f = Column n KTime (\<lambda>d r. Inr (case d of NullTime (Some v) \<Rightarrow> f v r | _ \<Rightarrow> r))"

definition col_int32 :: "string \<Rightarrow> (32 word \<Rightarrow> 'r \<Rightarrow> 'r) \<Rightarrow> 'r column" where
  "col_int32 n f = Column n KInt32 (\<lambda>d r. Inr (case d of NullInt32 (Some v) \<Rightarrow> f v r | _ \<Rightarrow> r))"

definition col_int64 :: "string \<Rightarrow> (int \<Rightarrow> 'r \<Rightarrow> 'r) \<Rightarrow> 'r column" where
  "col_int64 n f = Column n KInt64 (\<lambda>d r. Inr (case d of NullInt64 (Some v) \<Rightarrow> f v r | _ \<Rightarrow> r))"

definition col_float64 :: "string \<Rightarrow> (real \<Rightarrow> 'r \<Rightarrow> 'r) \<Rightarrow> 'r column" where
  "col_float64 n f = Column n KFloat64 (\<lambda>d r. Inr (case d of NullFloat64 (Some v) \<Rightarrow> f v r | _ \<Rightarrow> r))"

text \<open>Bytes have no flag: NULL empties the field.\<close>

definition col_bytes :: "string \<Rightarrow> (bytes \<Rightarrow> 'r \<Rightarrow> 'r) \<Rightarrow> 'r column" where
  "col_bytes n f = Column n KBytes (\<lambda>d r. Inr (case d of NullBytes v \<Rightarrow> f v r | _ \<Rightarrow> r))"

definition col_uuid :: "(bytes \<Rightarrow> goerr + string) \<Rightarrow> string \<Rightarrow> (string \<Rightarrow> 'r \<Rightarrow> 'r) \<Rightarrow> 'r column" where
  "col_uuid uid n f = Column n KUuid (\<lambda>d r.
     case d of NullString (Some s) \<Rightarrow> (case uid (string_bytes s) of Inl e \<Rightarrow> Inl e | Inr u \<Rightarrow> Inr (f u r)) | _ \<Rightarrow> Inr r)"

text \<open>The assignments in the order of the columns, up to the first that fails.\<close>

fun assign_all :: "((dest \<Rightarrow> 'r \<Rightarrow> goerr + 'r) \<times> dest) list \<Rightarrow> 'r \<Rightarrow> 'r \<times> goerr option" where
  "assign_all [] r = (r, None)"
| "assign_all ((f, d) # fs) r = (case f d r of Inl e \<Rightarrow> (r, Some e) | Inr r' \<Rightarrow> assign_all fs r')"

definition finish_Scan :: "goerr option \<Rightarrow> 'r \<times> goerr option \<Rightarrow> 'r \<times> goerr option" where
  "finish_Scan after res = (case res of (r, Some e) \<Rightarrow> (r, Some e) | (r, None) \<Rightarrow> (r, after))"

text \<open>\<open>after\<close> is the error of the rows.\<close>

definition static_Scan ::
  "conversions \<Rightarrow> 'r column list \<Rightarrow> driver_value list \<Rightarrow> goerr option \<Rightarrow> 'r \<Rightarrow> 'r \<times> goerr option" where
  "static_Scan cv cols vs after r =
     (case rows_Scan cv (map column_kind cols) vs of
        Inl e \<Rightarrow> (r, Some e)
      | Inr ds \<Rightarrow> finish_Scan after (assign_all (zip (map column_set cols) ds) r))"

text \<open>\<open>err\<close> is the error \<^verbatim>\<open>Err\<close> was called with, \<open>row\<close> the row or the error of the query.\<close>

definition row_Scan ::
  "conversions \<Rightarrow> 'r column list \<Rightarrow> goerr option \<Rightarrow> goerr + driver_value list \<Rightarrow> 'r \<Rightarrow> 'r \<times> goerr option" where
  "row_Scan cv cols err row r =
     (case err of
        Some e \<Rightarrow> (r, Some e)
      | None \<Rightarrow> (case row of Inl e \<Rightarrow> (r, Some e) | Inr vs \<Rightarrow> static_Scan cv cols vs None r))"

text \<open>The destinations of a row in whatever order its columns have: each name has one, and an unknown
  column is scanned into bytes that are ignored.\<close>

definition column_of :: "'r column list \<Rightarrow> string \<Rightarrow> 'r column option" where
  "column_of cols n = List.find (\<lambda>c. column_name c = n) cols"

fun dynamic_dests ::
  "conversions \<Rightarrow> 'r column list \<Rightarrow> nat \<Rightarrow> (string \<times> driver_value) list \<Rightarrow> (string \<Rightarrow> dest) \<Rightarrow> goerr + (string \<Rightarrow> dest)" where
  "dynamic_dests cv cols i [] env = Inr env"
| "dynamic_dests cv cols i ((n, v) # row) env =
     (case column_of cols n of
        None \<Rightarrow> dynamic_dests cv cols (Suc i) row env
      | Some c \<Rightarrow>
          (case convert cv (column_kind c) v of
             Inl e \<Rightarrow> Inl (cv_column cv i e)
           | Inr d \<Rightarrow> dynamic_dests cv cols (Suc i) row (env(n := d))))"

definition dynamic_Scan ::
  "conversions \<Rightarrow> 'r column list \<Rightarrow> goerr + string list \<Rightarrow> driver_value list \<Rightarrow> goerr option \<Rightarrow> 'r \<Rightarrow> 'r \<times> goerr option" where
  "dynamic_Scan cv cols names vs after r =
     (case names of
        Inl e \<Rightarrow> (r, Some e)
      | Inr ns \<Rightarrow>
     (case dynamic_dests cv cols 0 (zip ns vs)
             (\<lambda>n. case column_of cols n of None \<Rightarrow> NullBytes [] | Some c \<Rightarrow> zero_dest (column_kind c)) of
        Inl e \<Rightarrow> (r, Some e)
      | Inr env \<Rightarrow>
          finish_Scan after (assign_all (concat (map (\<lambda>n.
             case column_of cols n of None \<Rightarrow> [] | Some c \<Rightarrow> [(column_set c, env n)]) ns)) r)))"

section \<open>Inserted rows\<close>

text \<open>\<^verbatim>\<open>Value\<close> of an argument.\<close>

definition dest_Value :: "dest \<Rightarrow> driver_value" where
  "dest_Value d =
     (case d of
        NullBool (Some b) \<Rightarrow> DBool b
      | NullString (Some s) \<Rightarrow> DString s
      | NullUint64 n \<Rightarrow> NullUint64_Value n
      | NullTime (Some t) \<Rightarrow> DTime t
      | NullInt32 (Some i) \<Rightarrow> DInt64 (sint i)
      | NullInt64 (Some i) \<Rightarrow> DInt64 i
      | NullFloat64 (Some x) \<Rightarrow> DFloat64 x
      | NullBytes b \<Rightarrow> DBytes b
      | _ \<Rightarrow> DNil)"

text \<open>What a column of the database answers for a value it was given: identifiers are kept as 16
  bytes, \<open>raw\<close>, and unsigned numbers as numbers.\<close>

definition stored :: "(string \<Rightarrow> bytes) \<Rightarrow> kind \<Rightarrow> driver_value \<Rightarrow> driver_value" where
  "stored raw k v =
     (case v of
        DString s \<Rightarrow>
          (case k of
             KUuid \<Rightarrow> DBytes (raw s)
           | KUint64 \<Rightarrow> (case ParseUint 64 s of None \<Rightarrow> DNil | Some n \<Rightarrow> DUint64 (of_nat n))
           | _ \<Rightarrow> v)
      | _ \<Rightarrow> v)"

text \<open>The list of values of an insert: \<^verbatim>\<open>DEFAULT\<close> or the number of an argument.\<close>

fun list_items :: "string \<Rightarrow> string \<Rightarrow> string list" where
  "list_items item [] = [item]"
| "list_items item (c # cs) = (if c = CHR '','' then item # list_items [] cs else list_items (item @ [c]) cs)"

definition placeholder :: "string \<Rightarrow> nat option" where
  "placeholder item = (if hd item = CHR ''$'' then Some (parse_digits 0 (tl item)) else None)"

definition placeholders :: "string \<Rightarrow> nat option list" where
  "placeholders text = map placeholder (list_items [] text)"

definition inserted ::
  "(string \<Rightarrow> bytes) \<Rightarrow> (string \<Rightarrow> driver_value) \<Rightarrow> 'r column list \<Rightarrow> string \<Rightarrow> dest list \<Rightarrow> driver_value list" where
  "inserted raw defaults cols text args =
     map (\<lambda>(c, p). case p of
            None \<Rightarrow> defaults (column_name c)
          | Some k \<Rightarrow> stored raw (column_kind c) (dest_Value (args ! (k - 1))))
       (zip cols (placeholders text))"

section \<open>Tables\<close>

definition TMetadata_columns :: "(bytes \<Rightarrow> goerr + string) \<Rightarrow> TMetadata column list" where
  "TMetadata_columns uid =
     [col_bool ''archivable'' (\<lambda>v r. r\<lparr>t_Archivable := v\<rparr>),
      col_string ''auto_description'' (\<lambda>v r. r\<lparr>t_AutoDescription := v\<rparr>),
      col_uint64 ''bytes'' (\<lambda>v r. r\<lparr>t_Bytes := v\<rparr>),
      col_time ''created_at'' (\<lambda>v r. r\<lparr>t_CreatedAt := v\<rparr>),
      col_string ''description'' (\<lambda>v r. r\<lparr>t_Description := v\<rparr>),
      col_uint64 ''downloaded'' (\<lambda>v r. r\<lparr>t_Downloaded := v\<rparr>),
      col_uuid uid ''encryption_seed'' (\<lambda>v r. r\<lparr>t_EncryptionSeed := v\<rparr>),
      col_time ''hidden_at'' (\<lambda>v r. r\<lparr>t_HiddenAt := v\<rparr>),
      col_uuid uid ''id'' (\<lambda>v r. r\<lparr>t_ID := v\<rparr>),
      col_time ''imported_at'' (\<lambda>v r. r\<lparr>t_ImportedAt := v\<rparr>),
      col_bytes ''infohash'' (\<lambda>v r. r\<lparr>t_Infohash := v\<rparr>),
      col_time ''initiated_at'' (\<lambda>v r. r\<lparr>t_InitiatedAt := v\<rparr>),
      col_uuid uid ''known_media_id'' (\<lambda>v r. r\<lparr>t_KnownMediaID := v\<rparr>),
      col_string ''mimetype'' (\<lambda>v r. r\<lparr>t_Mimetype := v\<rparr>),
      col_time ''next_announce_at'' (\<lambda>v r. r\<lparr>t_NextAnnounceAt := v\<rparr>),
      col_time ''paused_at'' (\<lambda>v r. r\<lparr>t_PausedAt := v\<rparr>),
      col_int32 ''peers'' (\<lambda>v r. r\<lparr>t_Peers := ucast v\<rparr>),
      col_bool ''private'' (\<lambda>v r. r\<lparr>t_Private := v\<rparr>),
      col_bool ''seeding'' (\<lambda>v r. r\<lparr>t_Seeding := v\<rparr>),
      col_time ''tombstoned_at'' (\<lambda>v r. r\<lparr>t_TombstonedAt := v\<rparr>),
      col_string ''tracker'' (\<lambda>v r. r\<lparr>t_Tracker := v\<rparr>),
      col_time ''updated_at'' (\<lambda>v r. r\<lparr>t_UpdatedAt := v\<rparr>),
      col_uint64 ''uploaded'' (\<lambda>v r. r\<lparr>t_Uploaded := v\<rparr>),
      col_time ''verify_at'' (\<lambda>v r. r\<lparr>t_VerifyAt := v\<rparr>)]"

definition TMetadataScannerStatic_Scan where
  "TMetadataScannerStatic_Scan cv = static_Scan cv (TMetadata_columns (cv_uuid cv))"

definition TMetadataScannerStaticRow_Scan where
  "TMetadataScannerStaticRow_Scan cv = row_Scan cv (TMetadata_columns (cv_uuid cv))"

definition TMetadataScannerDynamic_Scan where
  "TMetadataScannerDynamic_Scan cv = dynamic_Scan cv (TMetadata_columns (cv_uuid cv))"

definition RSS_columns :: "(bytes \<Rightarrow> goerr + string) \<Rightarrow> RSS column list" where
  "RSS_columns uid =
     [col_bool ''autoarchive'' (\<lambda>v r. r\<lparr>f_Autoarchive := v\<rparr>),
      col_bool ''autodownload'' (\<lambda>v r. r\<lparr>f_Autodownload := v\<rparr>),
      col_bool ''contributing'' (\<lambda>v r. r\<lparr>f_Contributing := v\<rparr>),
      col_time ''created_at'' (\<lambda>v r. r\<lparr>f_CreatedAt := v\<rparr>),
      col_string ''description'' (\<lambda>v r. r\<lparr>f_Description := v\<rparr>),
      col_time ''disabled_at'' (\<lambda>v r. r\<lparr>f_DisabledAt := v\<rparr>),
      col_uuid uid ''encryption_seed'' (\<lambda>v r. r\<lparr>f_EncryptionSeed := v\<rparr>),
      col_uuid uid ''id'' (\<lambda>v r. r\<lparr>f_ID := v\<rparr>),
      col_time ''last_built_at'' (\<lambda>v r. r\<lparr>f_LastBuiltAt := v\<rparr>),
      col_time ''next_check'' (\<lambda>v r. r\<lparr>f_NextCheck := v\<rparr>),
      col_time ''updated_at'' (\<lambda>v r. r\<lparr>f_UpdatedAt := v\<rparr>),
      col_string ''url'' (\<lambda>v r. r\<lparr>f_URL := v\<rparr>)]"

definition RSSScannerStatic_Scan where
  "RSSScannerStatic_Scan cv = static_Scan cv (RSS_columns (cv_uuid cv))"

definition RSSScannerStaticRow_Scan where
  "RSSScannerStaticRow_Scan cv = row_Scan cv (RSS_columns (cv_uuid cv))"

definition RSSScannerDynamic_Scan where
  "RSSScannerDynamic_Scan cv = dynamic_Scan cv (RSS_columns (cv_uuid cv))"

definition UnknownHash_columns :: "(bytes \<Rightarrow> goerr + string) \<Rightarrow> UnknownHash column list" where
  "UnknownHash_columns uid =
     [col_uint64 ''attempts'' (\<lambda>v r. r\<lparr>u_Attempts := v\<rparr>),
      col_time ''created_at'' (\<lambda>v r. r\<lparr>u_CreatedAt := v\<rparr>),
      col_uuid uid ''id'' (\<lambda>v r. r\<lparr>u_ID := v\<rparr>),
      col_bytes ''infohash'' (\<lambda>v r. r\<lparr>u_Infohash := v\<rparr>),
      col_time ''next_check'' (\<lambda>v r. r\<lparr>u_NextCheck := v\<rparr>),
      col_time ''updated_at'' (\<lambda>v r. r\<lparr>u_UpdatedAt := v\<rparr>)]"

definition UnknownHashScannerStatic_Scan where
  "UnknownHashScannerStatic_Scan cv = static_Scan cv (UnknownHash_columns (cv_uuid cv))"

definition UnknownHashScannerStaticRow_Scan where
  "UnknownHashScannerStaticRow_Scan cv = row_Scan cv (UnknownHash_columns (cv_uuid cv))"

definition UnknownHashScannerDynamic_Scan where
  "UnknownHashScannerDynamic_Scan cv = dynamic_Scan cv (UnknownHash_columns (cv_uuid cv))"

definition Peer_columns :: "(bytes \<Rightarrow> goerr + string) \<Rightarrow> Peer column list" where
  "Peer_columns uid =
     [col_bool ''bep51'' (\<lambda>v r. r\<lparr>p_Bep51 := v\<rparr>),
      col_uint64 ''bep51_available'' (\<lambda>v r. r\<lparr>p_Bep51Available := v\<rparr>),
      col_int32 ''bep51_ttl'' (\<lambda>v r. r\<lparr>p_Bep51TTL := ucast v\<rparr>),
      col_time ''created_at'' (\<lambda>v r. r\<lparr>p_CreatedAt := v\<rparr>),
      col_uuid uid ''id'' (\<lambda>v r. r\<lparr>p_ID := v\<rparr>),
      col_string ''ip'' (\<lambda>v r. r\<lparr>p_IP := v\<rparr>),
      col_string ''network'' (\<lambda>v r. r\<lparr>p_Network := v\<rparr>),
      col_time ''next_check'' (\<lambda>v r. r\<lparr>p_NextCheck := v\<rparr>),
      col_bytes ''peer'' (\<lambda>v r. r\<lparr>p_Peer := v\<rparr>),
      col_int32 ''port'' (\<lambda>v r. r\<lparr>p_Port := ucast v\<rparr>),
      col_time ''updated_at'' (\<lambda>v r. r\<lparr>p_UpdatedAt := v\<rparr>)]"

definition PeerScannerStatic_Scan where
  "PeerScannerStatic_Scan cv = static_Scan cv (Peer_columns (cv_uuid cv))"

definition PeerScannerStaticRow_Scan where
  "PeerScannerStaticRow_Scan cv = row_Scan cv (Peer_columns (cv_uuid cv))"

definition PeerScannerDynamic_Scan where
  "PeerScannerDynamic_Scan cv = dynamic_Scan cv (Peer_columns (cv_uuid cv))"

definition Metadata_columns :: "(bytes \<Rightarrow> goerr + string) \<Rightarrow> Metadata column list" where
  "Metadata_columns uid =
     [col_uuid uid ''archive_id'' (\<lambda>v r. r\<lparr>ArchiveID := v\<rparr>),
      col_string ''auto_description'' (\<lambda>v r. r\<lparr>AutoDescription := v\<rparr>),
      col_uint64 ''bytes'' (\<lambda>v r. r\<lparr>Bytes := v\<rparr>),
      col_time ''created_at'' (\<lambda>v r. r\<lparr>CreatedAt := v\<rparr>),
      col_string ''description'' (\<lambda>v r. r\<lparr>Description := v\<rparr>),
      col_uint64 ''disk_offset'' (\<lambda>v r. r\<lparr>DiskOffset := v\<rparr>),
      col_uint64 ''disk_usage'' (\<lambda>v r. r\<lparr>DiskUsage := v\<rparr>),
      col_uuid uid ''encryption_seed'' (\<lambda>v r. r\<lparr>EncryptionSeed := v\<rparr>),
      col_time ''hidden_at'' (\<lambda>v r. r\<lparr>HiddenAt := v\<rparr>),
      col_uuid uid ''id'' (\<lambda>v r. r\<lparr>ID := v\<rparr>),
      col_string ''image'' (\<lambda>v r. r\<lparr>Image := v\<rparr>),
      col_uuid uid ''known_media_id'' (\<lambda>v r. r\<lparr>KnownMediaID := v\<rparr>),
      col_string ''mimetype'' (\<lambda>v r. r\<lparr>Mimetype := v\<rparr>),
      col_uint64 ''quota_usage'' (\<lambda>v r. r\<lparr>QuotaUsage := v\<rparr>),
      col_time ''tombstoned_at'' (\<lambda>v r. r\<lparr>TombstonedAt := v\<rparr>),
      col_uuid uid ''torrent_id'' (\<lambda>v r. r\<lparr>TorrentID := v\<rparr>),
      col_time ''updated_at'' (\<lambda>v r. r\<lparr>UpdatedAt := v\<rparr>)]"

definition MetadataScannerStatic_Scan where
  "MetadataScannerStatic_Scan cv = static_Scan cv (Metadata_columns (cv_uuid cv))"

definition MetadataScannerStaticRow_Scan where
  "MetadataScannerStaticRow_Scan cv = row_Scan cv (Metadata_columns (cv_uuid cv))"

definition MetadataScannerDynamic_Scan where
  "MetadataScannerDynamic_Scan cv = dynamic_Scan cv (Metadata_columns (cv_uuid cv))"

definition Known_columns :: "(bytes \<Rightarrow> goerr + string) \<Rightarrow> Known column list" where
  "Known_columns uid =
     [col_bool ''adult'' (\<lambda>v r. r\<lparr>k_Adult := v\<rparr>),
      col_string ''auto_description'' (\<lambda>v r. r\<lparr>k_AutoDescription := v\<rparr>),
      col_string ''backdrop_path'' (\<lambda>v r. r\<lparr>k_BackdropPath := v\<rparr>),
      col_time ''created_at'' (\<lambda>v r. r\<lparr>k_CreatedAt := v\<rparr>),
      col_int64 ''duplicates'' (\<lambda>v r. r\<lparr>k_Duplicates := v\<rparr>),
      col_string ''id'' (\<lambda>v r. r\<lparr>k_ID := v\<rparr>),
      col_uuid uid ''md5'' (\<lambda>v r. r\<lparr>k_Md5 := v\<rparr>),
      col_uint64 ''md5_lower'' (\<lambda>v r. r\<lparr>k_Md5Lower := v\<rparr>),
      col_string ''original_language'' (\<lambda>v r. r\<lparr>k_OriginalLanguage := v\<rparr>),
      col_string ''original_title'' (\<lambda>v r. r\<lparr>k_OriginalTitle := v\<rparr>),
      col_string ''overview'' (\<lambda>v r. r\<lparr>k_Overview := v\<rparr>),
      col_float64 ''popularity'' (\<lambda>v r. r\<lparr>k_Popularity := v\<rparr>),
      col_string ''poster_path'' (\<lambda>v r. r\<lparr>k_PosterPath := v\<rparr>),
      col_time ''released'' (\<lambda>v r. r\<lparr>k_Released := v\<rparr>),
      col_string ''source'' (\<lambda>v r. r\<lparr>k_Source := v\<rparr>),
      col_string ''title'' (\<lambda>v r. r\<lparr>k_Title := v\<rparr>),
      col_uuid uid ''uid'' (\<lambda>v r. r\<lparr>k_UID := v\<rparr>)]"

definition KnownScannerStatic_Scan where
  "KnownScannerStatic_Scan cv = static_Scan cv (Known_columns (cv_uuid cv))"

definition KnownScannerStaticRow_Scan where
  "KnownScannerStaticRow_Scan cv = row_Scan cv (Known_columns (cv_uuid cv))"

definition KnownScannerDynamic_Scan where
  "KnownScannerDynamic_Scan cv = dynamic_Scan cv (Known_columns (cv_uuid cv))"

definition TMetadataInsertWithDefaultsStaticColumns :: string where
  "TMetadataInsertWithDefaultsStaticColumns = ''$1,$2,$3,DEFAULT,$4,$5,$6,DEFAULT,$7,DEFAULT,$8,DEFAULT,$9,$10,DEFAULT,DEFAULT,$11,$12,$13,$14,$15,DEFAULT,$16,DEFAULT''"

definition TMetadataInsertWithDefaultsExplode :: "TMetadata \<Rightarrow> dest list" where
  "TMetadataInsertWithDefaultsExplode a =
     [NullBool (Some (t_Archivable a)),
      NullString (Some (t_AutoDescription a)),
      NullUint64 (Some (t_Bytes a)),
      NullString (Some (t_Description a)),
      NullUint64 (Some (t_Downloaded a)),
      NullString (Some (t_EncryptionSeed a)),
      NullString (Some (t_ID a)),
      NullBytes (t_Infohash a),
      NullString (Some (t_KnownMediaID a)),
      NullString (Some (t_Mimetype a)),
      NullInt32 (Some (ucast (t_Peers a))),
      NullBool (Some (t_Private a)),
      NullBool (Some (t_Seeding a)),
      NullTime (Some (t_TombstonedAt a)),
      NullString (Some (t_Tracker a)),
      NullUint64 (Some (t_Uploaded a))]"

definition RSSInsertWithDefaultsStaticColumns :: string where
  "RSSInsertWithDefaultsStaticColumns = ''$1,$2,$3,DEFAULT,$4,DEFAULT,$5,$6,$7,DEFAULT,DEFAULT,$8''"

definition RSSInsertWithDefaultsExplode :: "RSS \<Rightarrow> dest list" where
  "RSSInsertWithDefaultsExplode a =
     [NullBool (Some (f_Autoarchive a)),
      NullBool (Some (f_Autodownload a)),
      NullBool (Some (f_Contributing a)),
      NullString (Some (f_Description a)),
      NullString (Some (f_EncryptionSeed a)),
      NullString (Some (f_ID a)),
      NullTime (Some (f_LastBuiltAt a)),
      NullString (Some (f_URL a))]"

definition RSSInsertDefaultFeedStaticColumns :: string where
  "RSSInsertDefaultFeedStaticColumns = ''$1,$2,$3,DEFAULT,$4,DEFAULT,$5,$6,$7,DEFAULT,DEFAULT,$8''"

definition RSSInsertDefaultFeedExplode :: "RSS \<Rightarrow> dest list" where
  "RSSInsertDefaultFeedExplode a =
     [NullBool (Some (f_Autoarchive a)),
      NullBool (Some (f_Autodownload a)),
      NullBool (Some (f_Contributing a)),
      NullString (Some (f_Description a)),
      NullString (Some (f_EncryptionSeed a)),
      NullString (Some (f_ID a)),
      NullTime (Some (f_LastBuiltAt a)),
      NullString (Some (f_URL a))]"

definition UnknownHashInsertWithDefaultsStaticColumns :: string where
  "UnknownHashInsertWithDefaultsStaticColumns = ''$1,DEFAULT,$2,$3,$4,DEFAULT''"

definition UnknownHashInsertWithDefaultsExplode :: "UnknownHash \<Rightarrow> dest list" where
  "UnknownHashInsertWithDefaultsExplode a =
     [NullUint64 (Some (u_Attempts a)),
      NullString (Some (u_ID a)),
      NullBytes (u_Infohash a),
      NullTime (Some (u_NextCheck a))]"

definition UnknownHashCooldownStaticColumns :: string where
  "UnknownHashCooldownStaticColumns = ''$1,DEFAULT,$2,$3,$4,DEFAULT''"

definition UnknownHashCooldownExplode :: "UnknownHash \<Rightarrow> dest list" where
  "UnknownHashCooldownExplode a =
     [NullUint64 (Some (u_Attempts a)),
      NullString (Some (u_ID a)),
      NullBytes (u_Infohash a),
      NullTime (Some (u_NextCheck a))]"

definition PeerInsertWithDefaultsStaticColumns :: string where
  "PeerInsertWithDefaultsStaticColumns = ''$1,$2,$3,DEFAULT,$4,$5,$6,DEFAULT,$7,$8,DEFAULT''"

definition PeerInsertWithDefaultsExplode :: "Peer \<Rightarrow> dest list" where
  "PeerInsertWithDefaultsExplode a =
     [NullBool (Some (p_Bep51 a)),
      NullUint64 (Some (p_Bep51Available a)),
      NullInt32 (Some (ucast (p_Bep51TTL a))),
      NullString (Some (p_ID a)),
      NullString (Some (p_IP a)),
      NullString (Some (p_Network a)),
      NullBytes (p_Peer a),
      NullInt32 (Some (ucast (p_Port a)))]"

definition PeerMarkNextCheckStaticColumns :: string where
  "PeerMarkNextCheckStaticColumns = ''$1,$2,$3,DEFAULT,$4,$5,$6,DEFAULT,$7,$8,DEFAULT''"

definition PeerMarkNextCheckExplode :: "Peer \<Rightarrow> dest list" where
  "PeerMarkNextCheckExplode a =
     [NullBool (Some (p_Bep51 a)),
      NullUint64 (Some (p_Bep51Available a)),
      NullInt32 (Some (ucast (p_Bep51TTL a))),
      NullString (Some (p_ID a)),
      NullString (Some (p_IP a)),
      NullString (Some (p_Network a)),
      NullBytes (p_Peer a),
      NullInt32 (Some (ucast (p_Port a)))]"

definition LMetadataInsertWithDefaultsStaticColumns :: string where
  "LMetadataInsertWithDefaultsStaticColumns = ''$1,$2,$3,DEFAULT,$4,$5,$6,$7,DEFAULT,$8,$9,$10,$11,$12,DEFAULT,$13,DEFAULT''"

definition LMetadataInsertWithDefaultsExplode :: "Metadata \<Rightarrow> dest list" where
  "LMetadataInsertWithDefaultsExplode a =
     [NullString (Some (ArchiveID a)),
      NullString (Some (AutoDescription a)),
      NullUint64 (Some (Bytes a)),
      NullString (Some (Description a)),
      NullUint64 (Some (DiskOffset a)),
      NullUint64 (Some (DiskUsage a)),
      NullString (Some (EncryptionSeed a)),
      NullString (Some (ID a)),
      NullString (Some (Image a)),
      NullString (Some (KnownMediaID a)),
      NullString (Some (Mimetype a)),
      NullUint64 (Some (QuotaUsage a)),
      NullString (Some (TorrentID a))]"

definition KnownInsertWithDefaultsStaticColumns :: string where
  "KnownInsertWithDefaultsStaticColumns = ''$1,$2,$3,DEFAULT,$4,$5,$6,$7,$8,$9,$10,$11,$12,$13,$14,$15,$16''"

definition KnownInsertWithDefaultsExplode :: "Known \<Rightarrow> dest list" where
  "KnownInsertWithDefaultsExplode a =
     [NullBool (Some (k_Adult a)),
      NullString (Some (k_AutoDescription a)),
      NullString (Some (k_BackdropPath a)),
      NullInt64 (Some (k_Duplicates a)),
      NullString (Some (k_ID a)),
      NullString (Some (k_Md5 a)),
      NullUint64 (Some (k_Md5Lower a)),
      NullString (Some (k_OriginalLanguage a)),
      NullString (Some (k_OriginalTitle a)),
      NullString (Some (k_Overview a)),
      NullFloat64 (Some (k_Popularity a)),
      NullString (Some (k_PosterPath a)),
      NullTime (Some (k_Released a)),
      NullString (Some (k_Source a)),
      NullString (Some (k_Title a)),
      NullString (Some (k_UID a))]"

text \<open>The relevance of a match, a number instead of a record.\<close>

definition Scored_columns :: "real column list" where
  "Scored_columns = [col_float64 ''relevance'' (\<lambda>v _. v)]"

definition ScoredScannerStatic_Scan where
  "ScoredScannerStatic_Scan cv = static_Scan cv Scored_columns"

definition ScoredScannerStaticRow_Scan where
  "ScoredScannerStaticRow_Scan cv = row_Scan cv Scored_columns"

definition ScoredScannerDynamic_Scan where
  "ScoredScannerDynamic_Scan cv = dynamic_Scan cv Scored_columns"

section \<open>Lemmas\<close>

lemma bytes_string_bytes [simp]: "string_bytes (bytes_string b) = b"
proof -
  have "of_nat (of_char (char_of (unat x) :: char)) = x" for x :: byte
  proof -
    have "unat x < 256" using unsigned_less [of x] by simp
    then show ?thesis by simp
  qed
  then show ?thesis by (induction b) (simp_all add: bytes_string_def string_bytes_def)
qed

lemma ParseUint_format [simp]: "n < 2 ^ k \<Longrightarrow> ParseUint k (format_nat n) = Some n"
  by (simp add: ParseUint_def parse_format_nat)

lemma ParseUint_word [simp]: "ParseUint 64 (format_nat (unat v)) = Some (unat v)" for v :: u64
proof (rule ParseUint_format)
  show "unat v < 2 ^ 64" using unsigned_less [of v] by simp
qed

lemma int32_range [simp]: "- (2 ^ 31) \<le> sint x" "sint x < 2 ^ 31" for x :: "32 word"
  using sint_greater_eq [of x] sint_less [of x] by simp_all

lemma ucast_u16_int32 [simp]: "ucast (ucast p :: 32 word) = p" for p :: u16
  by (intro bit_word_eqI) (auto simp: bit_simps)

lemma convert_simps [simp]:
  "convert cv KBool (DBool b) = Inr (NullBool (Some b))"
  "convert cv KString (DString s) = Inr (NullString (Some s))"
  "convert cv KUuid (DBytes bs) = Inr (NullString (Some (bytes_string bs)))"
  "convert cv KUint64 (DUint64 w) = Inr (NullUint64 (Some w))"
  "convert cv KTime (DTime t) = Inr (NullTime (Some t))"
  "convert cv KInt32 (DInt64 (sint x)) = Inr (NullInt32 (Some x))"
  "convert cv KInt64 (DInt64 i) = Inr (NullInt64 (Some i))"
  "convert cv KFloat64 (DFloat64 y) = Inr (NullFloat64 (Some y))"
  "convert cv KBytes (DBytes bs) = Inr (NullBytes bs)"
  using int32_range [of x] by (simp_all add: convert_def NullUint64_Scan_def)

lemma stored_simps [simp]:
  "stored raw k (DBool b) = DBool b" "stored raw k (DTime t) = DTime t" "stored raw k (DInt64 i) = DInt64 i"
  "stored raw k (DBytes bs) = DBytes bs" "stored raw k (DFloat64 y) = DFloat64 y"
  "stored raw KString (DString s) = DString s" "stored raw KUuid (DString s) = DBytes (raw s)"
  "stored raw KUint64 (NullUint64_Value (Some w)) = DUint64 w"
  by (simp_all add: stored_def NullUint64_Value_def)

lemmas col_defs = col_bool_def col_string_def col_uint64_def col_time_def col_int32_def col_int64_def
  col_float64_def col_bytes_def col_uuid_def

lemmas scan_eval = static_Scan_def rows_Scan_def finish_Scan_def

subsection \<open>Columns in any place\<close>

definition succeeded :: "goerr + 'a \<Rightarrow> 'a option" where
  "succeeded x = (case x of Inl _ \<Rightarrow> None | Inr v \<Rightarrow> Some v)"

lemma succeeded_simps [simp]: "succeeded (Inl e) = None" "succeeded (Inr v) = Some v"
  by (simp_all add: succeeded_def)

lemma dynamic_dests_known:
  "succeeded (dynamic_dests cv cols i row env) =
   succeeded (dynamic_dests cv cols j (filter (\<lambda>(n, v). column_of cols n \<noteq> None) row) env)"
proof (induction row arbitrary: i j env)
  case (Cons p row)
  then show ?case by (cases p) (auto split: option.split sum.split)
qed simp

lemma dynamic_dests_columns:
  assumes "length cs = length vs" "\<forall>c \<in> set cs. column_of cols (column_name c) = Some c" "distinct (map column_name cs)"
  shows "succeeded (dynamic_dests cv cols i (zip (map column_name cs) vs) env) =
    map_option (\<lambda>ds n. case map_of (zip (map column_name cs) ds) n of None \<Rightarrow> env n | Some d \<Rightarrow> d)
      (succeeded (convert_all cv j (map column_kind cs) vs))"
  using assms
proof (induction cs vs arbitrary: i j env rule: list_induct2)
  case (Cons c cs v vs)
  show ?case
  proof (cases "convert cv (column_kind c) v")
    case (Inr d)
    with Cons.prems Cons.IH [of "Suc i" "env(column_name c := d)" "Suc j"]
    have "succeeded (dynamic_dests cv cols i (zip (map column_name (c # cs)) (v # vs)) env) =
      map_option (\<lambda>ds n. case map_of (zip (map column_name cs) ds) n of None \<Rightarrow> (env(column_name c := d)) n | Some d \<Rightarrow> d)
        (succeeded (convert_all cv (Suc j) (map column_kind cs) vs))"
      by (simp add: fun_upd_def)
    also have "\<dots> = map_option (\<lambda>ds n. case map_of (zip (map column_name (c # cs)) ds) n of None \<Rightarrow> env n | Some d \<Rightarrow> d)
        (succeeded (convert_all cv j (map column_kind (c # cs)) (v # vs)))"
    proof (cases "convert_all cv (Suc j) (map column_kind cs) vs")
      case more: (Inr ds)
      have "column_name c \<notin> set (map column_name cs)" using Cons.prems(2) by simp
      then have "map_of (zip (map column_name cs) ds) (column_name c) = None"
        by (metis in_set_zipE map_of_SomeD not_None_eq)
      with more Inr show ?thesis by (auto simp: fun_eq_iff split: option.split)
    qed (use Inr in simp)
    finally show ?thesis .
  qed (use Cons.prems in simp)
qed simp

lemma convert_all_length: "convert_all cv i ks vs = Inr ds \<Longrightarrow> length ks = length vs \<Longrightarrow> length ds = length ks"
  by (induction cv i ks vs arbitrary: ds rule: convert_all.induct) (auto split: sum.splits)

lemma assign_known:
  assumes "filter (\<lambda>n. column_of cols n \<noteq> None) ns = map column_name cs" "\<forall>c \<in> set cs. column_of cols (column_name c) = Some c"
  shows "concat (map (\<lambda>n. case column_of cols n of None \<Rightarrow> [] | Some c \<Rightarrow> [(column_set c, env n)]) ns) =
    map (\<lambda>c. (column_set c, env (column_name c))) cs"
proof -
  have "concat (map (\<lambda>n. case column_of cols n of None \<Rightarrow> [] | Some c \<Rightarrow> [(column_set c, env n)]) ns) =
      concat (map (\<lambda>n. case column_of cols n of None \<Rightarrow> [] | Some c \<Rightarrow> [(column_set c, env n)])
        (filter (\<lambda>n. column_of cols n \<noteq> None) ns))"
    by (induction ns) auto
  also have "\<dots> = concat (map (\<lambda>c. [(column_set c, env (column_name c))]) cs)"
    unfolding assms(1) map_map using assms(2) by (intro arg_cong [where f = concat] map_cong) auto
  finally show ?thesis by simp
qed

lemma column_of_distinct: "distinct (map column_name cols) \<Longrightarrow> c \<in> set cols \<Longrightarrow> column_of cols (column_name c) = Some c"
  unfolding column_of_def by (induction cols) (auto simp: image_iff)

text \<open>When the known columns of a row come in the order of the static scanner, the dynamic one does the
  same, whatever other columns the row has. An error names the place of its column, which may differ.\<close>

lemma dynamic_static:
  assumes "distinct (map column_name cols)" "length ns = length vs" "length ws = length cols"
    and "filter (\<lambda>(n, v). column_of cols n \<noteq> None) (zip ns vs) = zip (map column_name cols) ws"
  shows "dynamic_Scan cv cols (Inr ns) vs after r = static_Scan cv cols ws after r \<or>
    (\<exists>e e'. dynamic_Scan cv cols (Inr ns) vs after r = (r, Some e) \<and> static_Scan cv cols ws after r = (r, Some e'))"
proof -
  let ?env = "\<lambda>n. case column_of cols n of None \<Rightarrow> NullBytes [] | Some c \<Rightarrow> zero_dest (column_kind c)"
  have known: "\<forall>c \<in> set cols. column_of cols (column_name c) = Some c"
    using column_of_distinct [OF assms(1)] by blast
  have names: "filter (\<lambda>n. column_of cols n \<noteq> None) ns = map column_name cols"
  proof -
    have "filter p (map fst row) = map fst (filter (\<lambda>(n, v). p n) row)" for p :: "string \<Rightarrow> bool" and row :: "(string \<times> driver_value) list"
      by (induction row) auto
    from this [of "\<lambda>n. column_of cols n \<noteq> None" "zip ns vs"]
    show ?thesis using assms(2-4) by simp
  qed
  have dests: "succeeded (dynamic_dests cv cols 0 (zip ns vs) ?env) =
      map_option (\<lambda>ds n. case map_of (zip (map column_name cols) ds) n of None \<Rightarrow> ?env n | Some d \<Rightarrow> d)
        (succeeded (convert_all cv 0 (map column_kind cols) ws))"
    unfolding dynamic_dests_known [of cv cols 0 "zip ns vs" ?env 0] assms(4)
    using dynamic_dests_columns [OF assms(3) [symmetric] known assms(1)] by blast
  show ?thesis
  proof (cases "convert_all cv 0 (map column_kind cols) ws")
    case (Inl e)
    with dests obtain e' where "dynamic_dests cv cols 0 (zip ns vs) ?env = Inl e'"
      by (cases "dynamic_dests cv cols 0 (zip ns vs) ?env") auto
    with Inl assms(3) show ?thesis by (simp add: dynamic_Scan_def static_Scan_def rows_Scan_def)
  next
    case (Inr ds)
    let ?env' = "\<lambda>n. case map_of (zip (map column_name cols) ds) n of None \<Rightarrow> ?env n | Some d \<Rightarrow> d"
    from Inr dests have env: "dynamic_dests cv cols 0 (zip ns vs) ?env = Inr ?env'"
      by (cases "dynamic_dests cv cols 0 (zip ns vs) ?env") auto
    have len: "length ds = length cols"
      using convert_all_length [OF Inr] assms(3) by simp
    have "map (\<lambda>c. (column_set c, ?env' (column_name c))) cols = zip (map column_set cols) ds"
    proof (rule nth_equalityI)
      fix k assume k: "k < length (map (\<lambda>c. (column_set c, ?env' (column_name c))) cols)"
      then have "map_of (zip (map column_name cols) ds) (map column_name cols ! k) = Some (ds ! k)"
        using len by (intro map_of_zip_nth assms(1)) auto
      with k len show "map (\<lambda>c. (column_set c, ?env' (column_name c))) cols ! k = zip (map column_set cols) ds ! k"
        by simp
    qed (simp add: len)
    with env Inr assign_known [OF names known, of ?env'] assms(3) show ?thesis
      by (simp add: dynamic_Scan_def static_Scan_def rows_Scan_def)
  qed
qed

section \<open>Properties\<close>

text \<open>Every unsigned 64 bit number survives its way into the database and back, the high bit included,
  which \<^verbatim>\<open>database/sql\<close> refuses; a negative number never becomes one.\<close>

theorem NullUint64_round:
  "NullUint64_Scan (NullUint64_Value n) = Inr n \<and>
   (case NullUint64_Scan (DInt64 i) of Inl e \<Rightarrow> i < 0 | Inr w \<Rightarrow> 0 \<le> i \<and> w = Some (word_of_int i))"
  by (cases n) (auto simp: NullUint64_Scan_def NullUint64_Value_def parse_uint64_def)

text \<open>The defaults of the columns the inserts leave out, as the migrations of the schema give them.\<close>

definition schema_default :: "sqldb \<Rightarrow> string \<Rightarrow> driver_value" where
  "schema_default db n =
     DTime (if n \<in> {''created_at'', ''updated_at''} then sql_now db else if n = ''next_check'' then NegInf else Inf)"

lemma TMetadataInsertWithDefaults_placeholders:
  "placeholders TMetadataInsertWithDefaultsStaticColumns =
     [Some 1, Some 2, Some 3, None, Some 4, Some 5, Some 6, None, Some 7, None, Some 8, None, Some 9, Some 10, None,
      None, Some 11, Some 12, Some 13, Some 14, Some 15, None, Some 16, None]"
  by (simp add: placeholders_def placeholder_def TMetadataInsertWithDefaultsStaticColumns_def)


lemma RSSInsertWithDefaults_placeholders:
  "placeholders RSSInsertWithDefaultsStaticColumns =
     [Some 1, Some 2, Some 3, None, Some 4, None, Some 5, Some 6, Some 7, None, None, Some 8]"
  by (simp add: placeholders_def placeholder_def RSSInsertWithDefaultsStaticColumns_def)

lemma RSSInsertWithDefaults_refines:
  assumes "\<forall>s \<in> {f_EncryptionSeed a, f_ID a}. cv_uuid cv (raw s) = Inr s"
  shows "RSSScannerStatic_Scan cv (inserted raw (schema_default db) (RSS_columns (cv_uuid cv))
      RSSInsertWithDefaultsStaticColumns (RSSInsertWithDefaultsExplode a)) None i = (RSS_row db a, None)"
proof -
  have vs: "inserted raw (schema_default db) (RSS_columns (cv_uuid cv))
      RSSInsertWithDefaultsStaticColumns (RSSInsertWithDefaultsExplode a) =
     [DBool (f_Autoarchive a), DBool (f_Autodownload a), DBool (f_Contributing a), DTime (sql_now db),
      DString (f_Description a), DTime Inf, DBytes (raw (f_EncryptionSeed a)), DBytes (raw (f_ID a)),
      DTime (f_LastBuiltAt a), DTime NegInf, DTime (sql_now db), DString (f_URL a)]"
    unfolding inserted_def RSSInsertWithDefaults_placeholders RSS_columns_def col_defs
    by (simp add: RSSInsertWithDefaultsExplode_def dest_Value_def schema_default_def)
  show ?thesis
    unfolding RSSScannerStatic_Scan_def vs unfolding RSS_columns_def
    using assms by (simp add: scan_eval col_defs RSS_row_def)
qed

lemma UnknownHashInsertWithDefaults_placeholders:
  "placeholders UnknownHashInsertWithDefaultsStaticColumns =
     [Some 1, None, Some 2, Some 3, Some 4, None]"
  by (simp add: placeholders_def placeholder_def UnknownHashInsertWithDefaultsStaticColumns_def)

lemma UnknownHashInsertWithDefaults_refines:
  assumes "\<forall>s \<in> {u_ID a}. cv_uuid cv (raw s) = Inr s"
  shows "UnknownHashScannerStatic_Scan cv (inserted raw (schema_default db) (UnknownHash_columns (cv_uuid cv))
      UnknownHashInsertWithDefaultsStaticColumns (UnknownHashInsertWithDefaultsExplode a)) None i = (UnknownHash_row db a, None)"
proof -
  have vs: "inserted raw (schema_default db) (UnknownHash_columns (cv_uuid cv))
      UnknownHashInsertWithDefaultsStaticColumns (UnknownHashInsertWithDefaultsExplode a) =
     [DUint64 (u_Attempts a), DTime (sql_now db), DBytes (raw (u_ID a)), DBytes (u_Infohash a), DTime (u_NextCheck a),
      DTime (sql_now db)]"
    unfolding inserted_def UnknownHashInsertWithDefaults_placeholders UnknownHash_columns_def col_defs
    by (simp add: UnknownHashInsertWithDefaultsExplode_def dest_Value_def schema_default_def)
  show ?thesis
    unfolding UnknownHashScannerStatic_Scan_def vs unfolding UnknownHash_columns_def
    using assms by (simp add: scan_eval col_defs UnknownHash_row_def)
qed

lemma PeerInsertWithDefaults_placeholders:
  "placeholders PeerInsertWithDefaultsStaticColumns =
     [Some 1, Some 2, Some 3, None, Some 4, Some 5, Some 6, None, Some 7, Some 8, None]"
  by (simp add: placeholders_def placeholder_def PeerInsertWithDefaultsStaticColumns_def)

lemma PeerInsertWithDefaults_refines:
  assumes "\<forall>s \<in> {p_ID a}. cv_uuid cv (raw s) = Inr s"
  shows "PeerScannerStatic_Scan cv (inserted raw (schema_default db) (Peer_columns (cv_uuid cv))
      PeerInsertWithDefaultsStaticColumns (PeerInsertWithDefaultsExplode a)) None i = (Peer_row db a, None)"
proof -
  have vs: "inserted raw (schema_default db) (Peer_columns (cv_uuid cv))
      PeerInsertWithDefaultsStaticColumns (PeerInsertWithDefaultsExplode a) =
     [DBool (p_Bep51 a), DUint64 (p_Bep51Available a), DInt64 (sint (ucast (p_Bep51TTL a) :: 32 word)),
      DTime (sql_now db), DBytes (raw (p_ID a)), DString (p_IP a), DString (p_Network a), DTime NegInf,
      DBytes (p_Peer a), DInt64 (sint (ucast (p_Port a) :: 32 word)), DTime (sql_now db)]"
    unfolding inserted_def PeerInsertWithDefaults_placeholders Peer_columns_def col_defs
    by (simp add: PeerInsertWithDefaultsExplode_def dest_Value_def schema_default_def)
  show ?thesis
    unfolding PeerScannerStatic_Scan_def vs unfolding Peer_columns_def
    using assms by (simp add: scan_eval col_defs Peer_row_def)
qed

lemma LMetadataInsertWithDefaults_placeholders:
  "placeholders LMetadataInsertWithDefaultsStaticColumns =
     [Some 1, Some 2, Some 3, None, Some 4, Some 5, Some 6, Some 7, None, Some 8, Some 9, Some 10, Some 11, Some 12,
      None, Some 13, None]"
  by (simp add: placeholders_def placeholder_def LMetadataInsertWithDefaultsStaticColumns_def)

lemma LMetadataInsertWithDefaults_refines:
  assumes "\<forall>s \<in> {ArchiveID a, EncryptionSeed a, ID a, KnownMediaID a, TorrentID a}. cv_uuid cv (raw s) = Inr s"
  shows "MetadataScannerStatic_Scan cv (inserted raw (schema_default db) (Metadata_columns (cv_uuid cv))
      LMetadataInsertWithDefaultsStaticColumns (LMetadataInsertWithDefaultsExplode a)) None i = (LMetadataInsert_row db a, None)"
proof -
  have vs: "inserted raw (schema_default db) (Metadata_columns (cv_uuid cv))
      LMetadataInsertWithDefaultsStaticColumns (LMetadataInsertWithDefaultsExplode a) =
     [DBytes (raw (ArchiveID a)), DString (AutoDescription a), DUint64 (Bytes a), DTime (sql_now db),
      DString (Description a), DUint64 (DiskOffset a), DUint64 (DiskUsage a), DBytes (raw (EncryptionSeed a)),
      DTime Inf, DBytes (raw (ID a)), DString (Image a), DBytes (raw (KnownMediaID a)), DString (Mimetype a),
      DUint64 (QuotaUsage a), DTime Inf, DBytes (raw (TorrentID a)), DTime (sql_now db)]"
    unfolding inserted_def LMetadataInsertWithDefaults_placeholders Metadata_columns_def col_defs
    by (simp add: LMetadataInsertWithDefaultsExplode_def dest_Value_def schema_default_def)
  show ?thesis
    unfolding MetadataScannerStatic_Scan_def vs unfolding Metadata_columns_def
    using assms by (simp add: scan_eval col_defs LMetadataInsert_row_def)
qed

lemma KnownInsertWithDefaults_placeholders:
  "placeholders KnownInsertWithDefaultsStaticColumns =
     [Some 1, Some 2, Some 3, None, Some 4, Some 5, Some 6, Some 7, Some 8, Some 9, Some 10, Some 11, Some 12, Some 13,
      Some 14, Some 15, Some 16]"
  by (simp add: placeholders_def placeholder_def KnownInsertWithDefaultsStaticColumns_def)

lemma KnownInsertWithDefaults_refines:
  assumes "\<forall>s \<in> {k_Md5 a, k_UID a}. cv_uuid cv (raw s) = Inr s"
  shows "KnownScannerStatic_Scan cv (inserted raw (schema_default db) (Known_columns (cv_uuid cv))
      KnownInsertWithDefaultsStaticColumns (KnownInsertWithDefaultsExplode a)) None i = (a\<lparr>k_CreatedAt := sql_now db\<rparr>, None)"
proof -
  have vs: "inserted raw (schema_default db) (Known_columns (cv_uuid cv))
      KnownInsertWithDefaultsStaticColumns (KnownInsertWithDefaultsExplode a) =
     [DBool (k_Adult a), DString (k_AutoDescription a), DString (k_BackdropPath a), DTime (sql_now db),
      DInt64 (k_Duplicates a), DString (k_ID a), DBytes (raw (k_Md5 a)), DUint64 (k_Md5Lower a),
      DString (k_OriginalLanguage a), DString (k_OriginalTitle a), DString (k_Overview a), DFloat64 (k_Popularity a),
      DString (k_PosterPath a), DTime (k_Released a), DString (k_Source a), DString (k_Title a),
      DBytes (raw (k_UID a))]"
    unfolding inserted_def KnownInsertWithDefaults_placeholders Known_columns_def col_defs
    by (simp add: KnownInsertWithDefaultsExplode_def dest_Value_def schema_default_def)
  show ?thesis
    unfolding KnownScannerStatic_Scan_def vs unfolding Known_columns_def
    using assms by (simp add: scan_eval col_defs)
qed

definition demo_conversions :: conversions where
  "demo_conversions = \<lparr>cv_uuid = (\<lambda>_. Inr ''a''), cv_other = (\<lambda>_ _. Inl (Fundamental ''unsupported'')), cv_column = (\<lambda>_ e. e)\<rparr>"




end
