(* ===== verification/Sshx.thy ===== *)
theory Sshx
  imports Osfs Netip
begin

text \<open>
  Keys: \<^verbatim>\<open>shallows/internal/sshx\<close>, with the encodings of \<^verbatim>\<open>encoding/base64\<close> for texts in addresses.

  A public key is the bytes \<^verbatim>\<open>Marshal\<close> makes of it, a signer what the library makes of a private key. The
  library for keys, the digest of a key as the text of a \<^verbatim>\<open>UUID\<close> and the formats of files are parameters;
  the files are those of \<open>Osfs\<close>.
\<close>

section \<open>Package base64: the alphabet of addresses\<close>

definition url_char :: "char \<Rightarrow> char" where
  "url_char c = (if c = CHR ''-'' then CHR ''+'' else if c = CHR ''_'' then CHR ''/'' else c)"

text \<open>\<^verbatim>\<open>URLEncoding.DecodeString\<close> is the standard encoding but for two characters.\<close>

definition b64_url_decode :: "string \<Rightarrow> bytes option" where
  "b64_url_decode s =
     (if CHR ''+'' \<in> set s \<or> CHR ''/'' \<in> set s then None else b64_decode (map url_char s))"

text \<open>\<^verbatim>\<open>RawURLEncoding.DecodeString\<close> has no padding.\<close>

definition b64_raw_url_decode :: "string \<Rightarrow> bytes option" where
  "b64_raw_url_decode s =
     (let t = filter (\<lambda>c. c \<noteq> CHR 0x0A \<and> c \<noteq> CHR 0x0D) s in
      if CHR ''='' \<in> set t then None
      else b64_url_decode (t @ replicate ((4 - length t mod 4) mod 4) (CHR ''='')))"

definition b64_url_char :: "nat \<Rightarrow> char" where
  "b64_url_char n =
     (if n < 26 then char_of (65 + n) else if n < 52 then char_of (71 + n)
      else if n < 62 then char_of (n - 4) else if n = 62 then CHR ''-'' else CHR ''_'')"

fun b64_raw_url_encode :: "bytes \<Rightarrow> string" where
  "b64_raw_url_encode [] = []"
| "b64_raw_url_encode [a] = [b64_url_char (unat a div 4), b64_url_char (unat a mod 4 * 16)]"
| "b64_raw_url_encode [a, b] =
     [b64_url_char (unat a div 4), b64_url_char (unat a mod 4 * 16 + unat b div 16), b64_url_char (unat b mod 16 * 4)]"
| "b64_raw_url_encode (a # b # c # bs) =
     b64_url_char (unat a div 4) # b64_url_char (unat a mod 4 * 16 + unat b div 16) #
     b64_url_char (unat b mod 16 * 4 + unat c div 64) # b64_url_char (unat c mod 64) # b64_raw_url_encode bs"

section \<open>Public keys\<close>

type_synonym pubkey = bytes

definition EncodeBase64PublicKey :: "pubkey \<Rightarrow> string" where
  "EncodeBase64PublicKey pub = b64_raw_url_encode pub"

definition DecodeBase64PublicKey :: "(bytes \<Rightarrow> goerr + pubkey) \<Rightarrow> string \<Rightarrow> goerr + pubkey" where
  "DecodeBase64PublicKey parse_key s =
     (case b64_raw_url_decode s of
        None \<Rightarrow> Inl (StringErr ''illegal base64 data'')
      | Some encoded \<Rightarrow> parse_key encoded)"

definition FingerprintMD5 :: "(bytes \<Rightarrow> string) \<Rightarrow> pubkey \<Rightarrow> string" where
  "FingerprintMD5 md5uuid pub = md5uuid pub"

text \<open>The keys of a file, handed to a loop body that says whether it wants more. The library returns
  the rest of the file, also with an error, and the loop goes on with it: \<open>None\<close> is a loop that does not end.\<close>

record Parsed =
  ps_PublicKey :: pubkey
  ps_Comment :: string
  ps_Options :: "string list"

partial_function (option) ParseAuthorizedKeys ::
  "(bytes \<Rightarrow> bytes \<times> (goerr + Parsed)) \<Rightarrow> ('s \<Rightarrow> Parsed \<Rightarrow> 's \<times> bool) \<Rightarrow> 's \<Rightarrow> bytes \<Rightarrow> 's option" where
  "ParseAuthorizedKeys parse body s encoded =
     (if encoded = [] then Some s
      else (case parse encoded of
          (rest, Inl err) \<Rightarrow> ParseAuthorizedKeys parse body s rest
        | (rest, Inr p) \<Rightarrow>
            (case body s p of (s', go) \<Rightarrow>
               if go then ParseAuthorizedKeys parse body s' rest else Some s')))"

section \<open>Private keys\<close>

record 'signer key_library =
  kl_generate :: "goerr + bytes \<times> bytes"
  kl_public :: "bytes \<Rightarrow> goerr + pubkey"
  kl_pkcs8 :: "bytes \<Rightarrow> goerr + bytes"
  kl_pem :: "string \<Rightarrow> bytes \<Rightarrow> bytes"
  kl_authorized :: "pubkey \<Rightarrow> bytes"
  kl_parse_private :: "bytes \<Rightarrow> goerr + 'signer"
  kl_public_of :: "'signer \<Rightarrow> pubkey"

definition KeyGen_Generate :: "'signer key_library \<Rightarrow> goerr + bytes \<times> bytes" where
  "KeyGen_Generate l =
     (case kl_generate l of
        Inl err \<Rightarrow> Inl err
      | Inr (pub, priv) \<Rightarrow>
          (case kl_public l pub of
             Inl err \<Rightarrow> Inl err
           | Inr pubkey \<Rightarrow>
               (case kl_pkcs8 l priv of
                  Inl err \<Rightarrow> Inl err
                | Inr mpriv \<Rightarrow> Inr (kl_pem l ''PRIVATE KEY'' mpriv, kl_authorized l pubkey))))"

definition loadcached :: "'signer key_library \<Rightarrow> faults \<Rightarrow> string \<Rightarrow> os \<Rightarrow> os \<times> (goerr + 'signer)" where
  "loadcached l fault keyfile st =
     (case os_ReadFile fault keyfile st of
        (st1, Inl err) \<Rightarrow> (st1, Inl err)
      | (st1, Inr privencoded) \<Rightarrow> (st1, kl_parse_private l privencoded))"

text \<open>\<open>generated\<close> is what the generator answers.\<close>

definition SignerFromGenerator :: "'signer key_library \<Rightarrow> goerr + bytes \<times> bytes \<Rightarrow> goerr + 'signer" where
  "SignerFromGenerator l generated =
     (case generated of Inl err \<Rightarrow> Inl err | Inr (privencoded, _) \<Rightarrow> kl_parse_private l privencoded)"

definition ssh_AutoCached ::
  "'signer key_library \<Rightarrow> faults \<Rightarrow> goerr + bytes \<times> bytes \<Rightarrow> string \<Rightarrow> os \<Rightarrow> os \<times> (goerr + 'signer)" where
  "ssh_AutoCached l fault generated keyfile st =
     (case loadcached l fault keyfile st of
        (st1, Inr s) \<Rightarrow> (st1, Inr s)
      | (st1, Inl _) \<Rightarrow>
          (case generated of
             Inl err \<Rightarrow> (st1, Inl err)
           | Inr (privencoded, pubencoded) \<Rightarrow>
               (case kl_parse_private l privencoded of
                  Inl err \<Rightarrow> (st1, Inl err)
                | Inr s \<Rightarrow>
                    (case os_WriteFile fault keyfile privencoded st1 of
                       (st2, Inl err) \<Rightarrow> (st2, Inl err)
                     | (st2, Inr _) \<Rightarrow>
                         (case os_WriteFile fault (keyfile @ ''.pub'') pubencoded st2 of
                            (st3, Inl err) \<Rightarrow> (st3, Inl err)
                          | (st3, Inr _) \<Rightarrow> (st3, Inr s))))))"

definition EnsurePublicKey :: "'signer key_library \<Rightarrow> faults \<Rightarrow> 'signer \<Rightarrow> string \<Rightarrow> os \<Rightarrow> os \<times> (goerr + unit)" where
  "EnsurePublicKey l fault s keyfile st = os_WriteFile fault (keyfile @ ''.pub'') (kl_authorized l (kl_public_of l s)) st"

section \<open>Lemmas\<close>

subsection \<open>The encoding of keys\<close>

lemma b64_value_url: "n < 64 \<Longrightarrow> b64_value (url_char (b64_url_char n)) = Some n"
  by (auto simp: b64_url_char_def b64_value_def url_char_def Let_def dest!: arg_cong [where f = "of_char :: char \<Rightarrow> nat"])

lemma b64_url_char_plain:
  assumes "n < 64"
  shows "b64_url_char n \<noteq> CHR ''+''" "b64_url_char n \<noteq> CHR ''/''" "b64_url_char n \<noteq> CHR ''=''"
    "b64_url_char n \<noteq> CHR 0x0A" "b64_url_char n \<noteq> CHR 0x0D" "url_char (b64_url_char n) \<noteq> CHR ''=''"
  using assms
  by (auto simp: b64_url_char_def url_char_def dest!: arg_cong [where f = "of_char :: char \<Rightarrow> nat"])

lemma unat_byte: "unat (a :: byte) < 256"
  using unsigned_less [of a] by simp

lemma sextets:
  "unat (a :: byte) div 4 < 64" "unat a mod 4 * 16 < 64" "unat a mod 4 * 16 + unat b div 16 < 64"
  "unat b mod 16 * 4 < 64" "unat b mod 16 * 4 + unat c div 64 < 64" "unat c mod 64 < 64"
  for b c :: byte
proof -
  have "unat a < 256" "unat b < 256" "unat c < 256" "unat a mod 4 < 4" "unat b mod 16 < 16"
    by (simp_all add: unat_byte)
  then show "unat a div 4 < 64" "unat a mod 4 * 16 < 64" "unat a mod 4 * 16 + unat b div 16 < 64"
    "unat b mod 16 * 4 < 64" "unat b mod 16 * 4 + unat c div 64 < 64" "unat c mod 64 < 64"
    by linarith+
qed

lemma octets:
  "unat (a :: byte) div 4 * 4 + (unat a mod 4 * 16 + unat b div 16) div 16 = unat a"
  "(unat a mod 4 * 16 + unat b div 16) mod 16 * 16 + (unat b mod 16 * 4 + unat c div 64) div 4 = unat b"
  "(unat b mod 16 * 4 + unat c div 64) mod 4 * 64 + unat c mod 64 = unat c"
  for b c :: byte
proof -
  have "unat b div 16 < 16" "unat c div 64 < 4"
    using unat_byte [of b] unat_byte [of c] by auto
  then have "(unat a mod 4 * 16 + unat b div 16) div 16 = unat a mod 4"
    "(unat a mod 4 * 16 + unat b div 16) mod 16 = unat b div 16"
    "(unat b mod 16 * 4 + unat c div 64) div 4 = unat b mod 16"
    "(unat b mod 16 * 4 + unat c div 64) mod 4 = unat c div 64"
    by simp_all
  then show "unat a div 4 * 4 + (unat a mod 4 * 16 + unat b div 16) div 16 = unat a"
    "(unat a mod 4 * 16 + unat b div 16) mod 16 * 16 + (unat b mod 16 * 4 + unat c div 64) div 4 = unat b"
    "(unat b mod 16 * 4 + unat c div 64) mod 4 * 64 + unat c mod 64 = unat c"
    by simp_all
qed

definition padded :: "string \<Rightarrow> string" where
  "padded t = t @ replicate ((4 - length t mod 4) mod 4) (CHR ''='')"

lemma padded_quad [simp]: "padded (w # x # y # z # t) = w # x # y # z # padded t"
proof -
  have "length (w # x # y # z # t) mod 4 = length t mod 4" by simp
  then show ?thesis unfolding padded_def by (simp only: append_Cons)
qed

lemma replicate_upto: "replicate 2 c = [c, c]" "replicate (Suc 0) c = [c]"
  by (simp_all add: numeral_2_eq_2)

lemma padded_short: "padded [] = []" "padded [x, y] = [x, y, CHR ''='', CHR ''='']" "padded [x, y, z] = [x, y, z, CHR ''='']"
  by (simp_all add: padded_def replicate_upto del: replicate.simps)

lemma b64_quads_padded: "b64_quads (map url_char (padded (b64_raw_url_encode bs))) = Some bs"
proof (induction bs rule: b64_raw_url_encode.induct)
  case (2 a)
  have "unat a div 4 * 4 + unat a mod 4 = unat a" by simp
  then show ?case
    by (simp add: sextets padded_short b64_value_url url_char_def [of "CHR ''=''"])
next
  case (3 a b)
  show ?case
    using octets(1) [of a b] octets(2) [of a b 0]
    by (simp add: sextets padded_short b64_value_url b64_url_char_plain url_char_def [of "CHR ''=''"])
next
  case (4 a b c bs)
  then show ?case
    using octets(1) [of a b] octets(2) [of a b c] octets(3) [of b c]
    by (simp add: sextets b64_value_url b64_url_char_plain)
qed (simp add: padded_short)

lemma encode_plain:
  "c \<in> set (b64_raw_url_encode bs) \<Longrightarrow> c \<notin> {CHR ''+'', CHR ''/'', CHR ''='', CHR 0x0A, CHR 0x0D}"
  by (induction bs rule: b64_raw_url_encode.induct) (auto simp: b64_url_char_plain sextets)

text \<open>The decoder of the address alphabet undoes the encoder.\<close>

lemma no_breaks: "CHR 0x0A \<notin> set t \<Longrightarrow> CHR 0x0D \<notin> set t \<Longrightarrow> filter (\<lambda>c. c \<noteq> CHR 0x0A \<and> c \<noteq> CHR 0x0D) t = t"
  by (rule filter_True) metis

lemma url_char_breaks: "url_char c = CHR 0x0A \<longleftrightarrow> c = CHR 0x0A" "url_char c = CHR 0x0D \<longleftrightarrow> c = CHR 0x0D"
  by (simp_all add: url_char_def)

lemma b64_raw_url_round: "b64_raw_url_decode (b64_raw_url_encode bs) = Some bs"
proof -
  let ?t = "b64_raw_url_encode bs"
  have plain: "CHR ''+'' \<notin> set ?t" "CHR ''/'' \<notin> set ?t" "CHR ''='' \<notin> set ?t" "CHR 0x0A \<notin> set ?t" "CHR 0x0D \<notin> set ?t"
    using encode_plain by blast+
  then have "b64_raw_url_decode ?t = b64_url_decode (padded ?t)"
    by (simp add: b64_raw_url_decode_def Let_def no_breaks padded_def)
  also have "\<dots> = b64_decode (map url_char (padded ?t))"
  proof -
    have "CHR ''+'' \<notin> set (padded ?t)" "CHR ''/'' \<notin> set (padded ?t)"
      using plain by (auto simp: padded_def)
    then show ?thesis by (simp add: b64_url_decode_def)
  qed
  also have "\<dots> = b64_quads (map url_char (padded ?t))"
  proof -
    have pads: "set (padded ?t) \<subseteq> insert (CHR ''='') (set ?t)"
      by (auto simp: padded_def)
    have "x \<noteq> CHR 0x0A \<and> x \<noteq> CHR 0x0D" if x: "x \<in> set (map url_char (padded ?t))" for x
    proof -
      from x obtain c where c: "x = url_char c" "c \<in> insert (CHR ''='') (set ?t)"
        using pads by auto
      then have "c \<noteq> CHR 0x0A" "c \<noteq> CHR 0x0D" using plain by auto
      with c(1) show ?thesis by (simp add: url_char_breaks)
    qed
    then have "CHR 0x0A \<notin> set (map url_char (padded ?t))" "CHR 0x0D \<notin> set (map url_char (padded ?t))" by blast+
    then show ?thesis by (simp add: b64_decode_def no_breaks)
  qed
  also have "\<dots> = Some bs" by (rule b64_quads_padded)
  finally show ?thesis .
qed

subsection \<open>The loop over a file of keys\<close>

lemmas ParseAuthorizedKeys_step = ParseAuthorizedKeys.simps

text \<open>The loop ends when every call consumes something.\<close>

lemma ParseAuthorizedKeys_ends:
  assumes "\<And>bs. bs \<noteq> [] \<Longrightarrow> length (fst (parse bs)) < length bs"
  shows "\<exists>s'. ParseAuthorizedKeys parse body s encoded = Some s'"
proof (induction "length encoded" arbitrary: encoded s rule: less_induct)
  case less
  show ?case
  proof (cases "encoded = []")
    case False
    obtain rest r where p: "parse encoded = (rest, r)" by fastforce
    then have "length rest < length encoded" using assms [OF False] by simp
    then have "\<exists>s''. ParseAuthorizedKeys parse body s' rest = Some s''" for s' using less by blast
    with False p show ?thesis
      by (subst ParseAuthorizedKeys_step) (auto split: sum.split prod.split)
  qed (simp add: ParseAuthorizedKeys_step)
qed

subsection \<open>The cached key\<close>

lemma ssh_AutoCached_stored:
  assumes "ssh_AutoCached l fault generated keyfile st = (st', Inr s)" "loadcached l fault keyfile st = (st1, Inl err)"
  shows "\<exists>privencoded pubencoded st2. generated = Inr (privencoded, pubencoded) \<and> kl_parse_private l privencoded = Inr s \<and>
    os_WriteFile fault keyfile privencoded st1 = (st2, Inr ()) \<and>
    os_WriteFile fault (keyfile @ ''.pub'') pubencoded st2 = (st', Inr ())"
  using assms
  by (auto simp: ssh_AutoCached_def split: sum.splits prod.splits)

text \<open>Writing a file leaves every path that resolves where it leads.\<close>

lemma walk_other_file:
  "walk ns follow n dir cs = Inr q \<Longrightarrow> ns p = None \<or> (\<exists>b. ns p = Some (Regular b)) \<Longrightarrow>
   walk (ns(p \<mapsto> Regular x)) follow n dir cs = Inr q"
proof (induction ns follow n dir cs rule: walk.induct)
  case (2 ns follow n dir c cs)
  show ?case
  proof (cases "c = ''.'' \<or> c = ''..''")
    case True
    with "2.IH"(1,2) "2.prems" show ?thesis by (elim disjE) simp_all
  next
    case dots: False
    show ?thesis
    proof (cases "ns (dir @ [c])")
      case None
      with dots "2.prems" show ?thesis by (auto split: if_splits)
    next
      case (Some md)
      then show ?thesis
      proof (cases md)
        case (Regular b)
        with Some dots "2.prems" show ?thesis by (auto split: if_splits)
      next
        case Directory
        with Some dots "2.prems" have "dir @ [c] \<noteq> p" "walk ns follow n (dir @ [c]) cs = Inr q" by auto
        with "2.IH"(3) Some Directory dots "2.prems"(2) show ?thesis by simp
      next
        case (Link target)
        with Some "2.prems"(2) have l: "dir @ [c] \<noteq> p" by auto
        show ?thesis
        proof (cases "cs = [] \<and> \<not> follow")
          case True
          with Some Link dots l "2.prems"(1) show ?thesis by simp
        next
          case False
          with Some Link dots "2.prems"(1) have go: "n \<noteq> 0"
            "walk ns follow (n - 1) (if HasPrefix target ''/'' then [] else dir) (components target @ cs) = Inr q"
            by (auto split: if_splits)
          with "2.IH"(4) [OF _ _ Some Link False] dots "2.prems"(2)
          have "walk (ns(p \<mapsto> Regular x)) follow (n - 1) (if HasPrefix target ''/'' then [] else dir) (components target @ cs) = Inr q"
            by blast
          with l go(1) False dots Some Link show ?thesis by (auto simp: fun_upd_def)
        qed
      qed
    qed
  qed
qed simp

lemma resolve_other_file:
  assumes "resolve st follow p = Inr q" "nodes_of st k = None \<or> (\<exists>b. nodes_of st k = Some (Regular b))"
    and "nodes_of st' = (nodes_of st)(k \<mapsto> Regular x)" "cwd st' = cwd st"
  shows "resolve st' follow p = Inr q"
  using assms walk_other_file [of "nodes_of st" follow max_links "start_of st p" "components p" q k x]
  by (auto simp: resolve_def walk_from_def is_directory_def start_of_def split: if_splits)

lemma os_ReadFile_entry:
  assumes "os_ReadFile fault p st = (st', Inr c)"
  shows "\<exists>q. resolve st True p = Inr q \<and> nodes_of st q = Some (Regular c) \<and> nodes_of st' = nodes_of st \<and> cwd st' = cwd st"
  using assms
  by (auto simp: os_ReadFile_def syscall_def Let_def split: option.splits sum.splits if_splits node.splits)

lemma loadcached_nodes:
  "loadcached l fault f st = (st', r) \<Longrightarrow> nodes_of st' = nodes_of st \<and> cwd st' = cwd st"
  by (auto simp: loadcached_def os_ReadFile_def syscall_def Let_def split: option.splits sum.splits prod.splits if_splits)

section \<open>Properties\<close>

text \<open>The text of a public key that is stored with an identity gives the key back, and different keys
  have different texts.\<close>

theorem key_text_round:
  assumes "parse_key pub = Inr pub"
  shows "DecodeBase64PublicKey parse_key (EncodeBase64PublicKey pub) = Inr pub \<and>
    (EncodeBase64PublicKey pub = EncodeBase64PublicKey other \<longleftrightarrow> pub = other)"
proof -
  have "b64_raw_url_encode pub = b64_raw_url_encode other \<longleftrightarrow> pub = other"
    by (metis b64_raw_url_round option.inject)
  with assms show ?thesis
    by (simp only: DecodeBase64PublicKey_def EncodeBase64PublicKey_def b64_raw_url_round option.case)
qed

theorem key_text_round_witness:
  "DecodeBase64PublicKey Inr (EncodeBase64PublicKey [251, 255, 1]) = Inr [251, 255, 1] \<and>
   EncodeBase64PublicKey [251, 255, 1] = ''-_8B''"
proof -
  have "EncodeBase64PublicKey [251, 255, 1] = ''-_8B''" by code_simp
  with key_text_round [of Inr "[251, 255, 1]" "[]"] show ?thesis by simp
qed

text \<open>The identity of a host is stable. Once \<^verbatim>\<open>AutoCached\<close> has answered with a signer, a later call that can
  read the file answers with the same signer whatever the generator would make, if the file of the
  public key is another file.\<close>

theorem AutoCached_same_signer:
  assumes "ssh_AutoCached l fault generated keyfile st = (st', Inr s)"
    and "os_ReadFile fault' keyfile st' = (st2, Inr c)"
    and "resolve st' True (keyfile @ ''.pub'') \<noteq> resolve st' True keyfile"
  shows "ssh_AutoCached l fault' generated' keyfile st' = (st2, Inr s)"
proof -
  obtain st1 r where load: "loadcached l fault keyfile st = (st1, r)" by fastforce
  from os_ReadFile_entry [OF assms(2)] obtain q where q: "resolve st' True keyfile = Inr q"
    "nodes_of st' q = Some (Regular c)" by blast
  have "kl_parse_private l c = Inr s"
  proof (cases r)
    case (Inr s1)
    with load assms(1) have "st' = st1" "s1 = s" by (auto simp: ssh_AutoCached_def)
    with load Inr obtain c1 where c1: "os_ReadFile fault keyfile st = (st', Inr c1)" "kl_parse_private l c1 = Inr s"
      by (auto simp: loadcached_def split: sum.splits prod.splits)
    from os_ReadFile_entry [OF c1(1)] obtain q1 where q1: "resolve st True keyfile = Inr q1"
      "nodes_of st q1 = Some (Regular c1)" "nodes_of st' = nodes_of st" "cwd st' = cwd st" by blast
    then have "resolve st' True keyfile = Inr q1" by (simp add: resolve_def start_of_def split: if_splits)
    with q q1 c1(2) show ?thesis by simp
  next
    case (Inl err)
    from ssh_AutoCached_stored [OF assms(1) load [unfolded Inl]]
    obtain priv pub st3 where made: "kl_parse_private l priv = Inr s"
      "os_WriteFile fault keyfile priv st1 = (st3, Inr ())" "os_WriteFile fault (keyfile @ ''.pub'') pub st3 = (st', Inr ())"
      by blast
    from os_WriteFile_entry [OF made(2)] obtain a where a: "resolve st1 True keyfile = Inr a"
      "nodes_of st1 a = None \<or> (\<exists>b. nodes_of st1 a = Some (Regular b))" "nodes_of st3 = (nodes_of st1)(a \<mapsto> Regular priv)"
      "cwd st3 = cwd st1" by blast
    from os_WriteFile_entry [OF made(3)] obtain b where b: "resolve st3 True (keyfile @ ''.pub'') = Inr b"
      "nodes_of st3 b = None \<or> (\<exists>x. nodes_of st3 b = Some (Regular x))" "nodes_of st' = (nodes_of st3)(b \<mapsto> Regular pub)"
      "cwd st' = cwd st3" by blast
    have "resolve st3 True keyfile = Inr a"
      by (rule resolve_other_file [OF a])
    from resolve_other_file [OF this b(2-4)] have "resolve st' True keyfile = Inr a" .
    moreover have "resolve st' True (keyfile @ ''.pub'') = Inr b"
      by (rule resolve_other_file [OF b])
    ultimately have "q = a" "a \<noteq> b" using q(1) assms(3) by auto
    with q(2) a(3) b(3) made(1) show ?thesis by simp
  qed
  with assms(2) show ?thesis by (simp add: ssh_AutoCached_def loadcached_def)
qed

definition demo_keys :: "bytes key_library" where
  "demo_keys = \<lparr>kl_generate = Inr ([1], [2]), kl_public = Inr, kl_pkcs8 = Inr, kl_pem = (\<lambda>_ b. b), kl_authorized = (\<lambda>b. b),
     kl_parse_private = Inr, kl_public_of = (\<lambda>s. s)\<rparr>"

theorem AutoCached_same_signer_witness:
  "\<exists>st'. ssh_AutoCached demo_keys (\<lambda>_. None) (KeyGen_Generate demo_keys) ''k'' \<lparr>nodes_of = Map.empty, cwd = [], calls = 0\<rparr> =
      (st', Inr [2]) \<and>
    ssh_AutoCached demo_keys (\<lambda>_. None) (Inr ([9], [9])) ''k'' st' = (st'\<lparr>calls := Suc (calls st')\<rparr>, Inr [2])"
proof -
  let ?st = "\<lparr>nodes_of = Map.empty, cwd = [], calls = 0\<rparr>"
  let ?st' = "\<lparr>nodes_of = [[''k''] \<mapsto> Regular [2], [''k.pub''] \<mapsto> Regular [1]], cwd = [], calls = 3\<rparr>"
  note eval = resolve_def walk_from_def is_directory_def start_of_def HasPrefix_def components_def max_links_def
    os_ReadFile_def os_WriteFile_def os_Write_def syscall_def demo_keys_def is_sep_def
  have first: "ssh_AutoCached demo_keys (\<lambda>_. None) (KeyGen_Generate demo_keys) ''k'' ?st = (?st', Inr [2])"
    by (simp add: ssh_AutoCached_def loadcached_def KeyGen_Generate_def eval)
  have "os_ReadFile (\<lambda>_. None) ''k'' ?st' = (?st'\<lparr>calls := Suc (calls ?st')\<rparr>, Inr [2])"
    "resolve ?st' True (''k'' @ ''.pub'') \<noteq> resolve ?st' True ''k''"
    by (simp_all add: eval)
  from AutoCached_same_signer [OF first this, of "Inr ([9], [9])"] first show ?thesis by blast
qed

end
