(* ===== verification/Metadb.thy ===== *)
theory Metadb
  imports Scanx Metaapi Sshx
begin

text \<open>
  The tables of accounts: \<^verbatim>\<open>shallows/meta\<close> and \<^verbatim>\<open>shallows/meta/identityssh\<close>, that is the daemons, the
  profiles, the permissions, the tokens that are consumed and the public keys of the profiles, with the
  records, the scanners and the arguments \<^verbatim>\<open>genieql\<close> generates and the import of public keys.

  A table is the list of its rows, as in \<open>Sqlx\<close>. The host name of a daemon and the profile of a permission are
  unique by the migrations. \<open>Metaapi\<close> sees the permissions as a map from the profile; \<open>authz_map\<close> is that
  view, and the statements of both agree. A public key is the bytes \<^verbatim>\<open>Marshal\<close> makes of it; the library for
  keys, the digest and the identifiers the database draws are parameters.
\<close>

section \<open>Records\<close>

record Daemon =
  dm_CreatedAt :: instant
  dm_Description :: string
  dm_Hostname :: string
  dm_ID :: string
  dm_UpdatedAt :: instant

record Profile =
  pf_CreatedAt :: instant
  pf_Description :: string
  pf_DisabledAt :: instant
  pf_DisabledManuallyAt :: instant
  pf_DisabledPendingApprovalAt :: instant
  pf_ID :: string
  pf_SessionWatermark :: string
  pf_UpdatedAt :: instant

record ConsumedToken =
  ct_CreatedAt :: instant
  ct_ID :: string
  ct_Token :: string
  ct_TombstonedAt :: instant

record Identity =
  is_CreatedAt :: instant
  is_DisabledAt :: instant
  is_ID :: string
  is_ProfileID :: string
  is_PublicKey :: string
  is_UpdatedAt :: instant

definition zero_Daemon :: Daemon where
  "zero_Daemon = \<lparr>dm_CreatedAt = 0, dm_Description = [], dm_Hostname = [], dm_ID = [], dm_UpdatedAt = 0\<rparr>"

definition zero_Profile :: Profile where
  "zero_Profile = \<lparr>pf_CreatedAt = 0, pf_Description = [], pf_DisabledAt = 0, pf_DisabledManuallyAt = 0,
     pf_DisabledPendingApprovalAt = 0, pf_ID = [], pf_SessionWatermark = [], pf_UpdatedAt = 0\<rparr>"

definition zero_Identity :: Identity where
  "zero_Identity = \<lparr>is_CreatedAt = 0, is_DisabledAt = 0, is_ID = [], is_ProfileID = [], is_PublicKey = [],
     is_UpdatedAt = 0\<rparr>"

subsection \<open>Options\<close>

text \<open>\<open>md5uuid\<close> is \<^verbatim>\<open>md5x.String\<close>.\<close>

definition DaemonOptionMaybeID :: "(bytes \<Rightarrow> string) \<Rightarrow> Daemon \<Rightarrow> Daemon" where
  "DaemonOptionMaybeID md5uuid v = v\<lparr>dm_ID := FirstNonBlank [dm_ID v, md5uuid (string_bytes (dm_Hostname v))]\<rparr>"

definition DaemonOptionEnsureDescription :: "Daemon \<Rightarrow> Daemon" where
  "DaemonOptionEnsureDescription v = v\<lparr>dm_Description := FirstNonBlank [dm_Description v, dm_Hostname v, dm_ID v]\<rparr>"

text \<open>The host has a name, or there is an error and the name is empty; \<open>max_uuid\<close> is the text of the
  largest \<^verbatim>\<open>UUID\<close>. The clock is read twice.\<close>

definition DaemonFromHost :: "string \<Rightarrow> string \<Rightarrow> instant \<Rightarrow> instant \<Rightarrow> Daemon" where
  "DaemonFromHost max_uuid hostname created updated =
     \<lparr>dm_CreatedAt = created, dm_Description = [], dm_Hostname = FirstNonBlank [hostname, ''localhost''],
      dm_ID = max_uuid, dm_UpdatedAt = updated\<rparr>"

definition ProfileOptionTestDefaults :: "Profile \<Rightarrow> Profile" where
  "ProfileOptionTestDefaults p =
     p\<lparr>pf_DisabledAt := Inf, pf_DisabledManuallyAt := Inf, pf_DisabledPendingApprovalAt := Inf\<rparr>"

text \<open>An instant does not keep its zone.\<close>

definition ProfileOptionTimezoneUTC :: "Profile \<Rightarrow> Profile" where
  "ProfileOptionTimezoneUTC p = p"

definition ProfileOptionJSONSafeEncode :: "Profile \<Rightarrow> Profile" where
  "ProfileOptionJSONSafeEncode p =
     p\<lparr>pf_CreatedAt := RFC3339NanoEncode (pf_CreatedAt p), pf_UpdatedAt := RFC3339NanoEncode (pf_UpdatedAt p),
       pf_DisabledAt := RFC3339NanoEncode (pf_DisabledAt p),
       pf_DisabledManuallyAt := RFC3339NanoEncode (pf_DisabledManuallyAt p),
       pf_DisabledPendingApprovalAt := RFC3339NanoEncode (pf_DisabledPendingApprovalAt p)\<rparr>"

definition ProfileOptionJSONSafeDecode :: "Profile \<Rightarrow> Profile" where
  "ProfileOptionJSONSafeDecode p =
     p\<lparr>pf_CreatedAt := RFC3339NanoDecode (pf_CreatedAt p), pf_UpdatedAt := RFC3339NanoDecode (pf_UpdatedAt p),
       pf_DisabledAt := RFC3339NanoDecode (pf_DisabledAt p),
       pf_DisabledManuallyAt := RFC3339NanoDecode (pf_DisabledManuallyAt p),
       pf_DisabledPendingApprovalAt := RFC3339NanoDecode (pf_DisabledPendingApprovalAt p)\<rparr>"

definition Daemon_JSONSafeEncode :: "Daemon \<Rightarrow> Daemon" where
  "Daemon_JSONSafeEncode v =
     v\<lparr>dm_CreatedAt := RFC3339NanoEncode (dm_CreatedAt v), dm_UpdatedAt := RFC3339NanoEncode (dm_UpdatedAt v)\<rparr>"

definition Daemon_JSONSafeDecode :: "Daemon \<Rightarrow> Daemon" where
  "Daemon_JSONSafeDecode v =
     v\<lparr>dm_CreatedAt := RFC3339NanoDecode (dm_CreatedAt v), dm_UpdatedAt := RFC3339NanoDecode (dm_UpdatedAt v)\<rparr>"

definition AuthzOptionAdmin :: "Authz \<Rightarrow> Authz" where
  "AuthzOptionAdmin v = v\<lparr>az_Usermanagement := True\<rparr>"

definition AuthzOptionProfileID :: "string \<Rightarrow> Authz \<Rightarrow> Authz" where
  "AuthzOptionProfileID pid a = a\<lparr>az_ProfileID := pid\<rparr>"

definition ConsumedTokenString :: "(bytes \<Rightarrow> string) \<Rightarrow> string \<Rightarrow> instant \<Rightarrow> ConsumedToken" where
  "ConsumedTokenString md5uuid raw tombstone =
     \<lparr>ct_CreatedAt = 0, ct_ID = md5uuid (string_bytes raw), ct_Token = raw, ct_TombstonedAt = tombstone\<rparr>"

text \<open>Claims without an expiration dereference nil. A date of the claims counts from 1970.\<close>

definition claims_instant :: "int \<Rightarrow> instant" where
  "claims_instant t = t + unix_to_internal * Second"

definition ConsumedTokenFromJWTClaims :: "(bytes \<Rightarrow> string) \<Rightarrow> string \<Rightarrow> RegisteredClaims \<Rightarrow> ConsumedToken outcome" where
  "ConsumedTokenFromJWTClaims md5uuid raw c =
     (case rc_ExpiresAt c of
        None \<Rightarrow> Panic
      | Some t \<Rightarrow> Return \<lparr>ct_CreatedAt = 0, ct_ID = md5uuid (string_bytes raw), ct_Token = raw,
          ct_TombstonedAt = claims_instant t + Minute\<rparr>)"

section \<open>Statements\<close>

text \<open>A conflict on another column than the one of \<^verbatim>\<open>ON CONFLICT\<close> is an error of the statement, and so is every
  conflict of an insert without that clause.\<close>

definition clashes :: "('r \<Rightarrow> 'u) list \<Rightarrow> 'r \<Rightarrow> 'r list \<Rightarrow> bool" where
  "clashes uniques new tbl = list_ex (\<lambda>r. list_ex (\<lambda>u. u r = u new) uniques) tbl"

definition insert_unique :: "('r \<Rightarrow> 'u) list \<Rightarrow> sqldb \<Rightarrow> 'r \<Rightarrow> 'r list \<Rightarrow> 'r list \<times> (goerr + 'r)" where
  "insert_unique uniques db new tbl =
     (case sql_err db of
        Some e \<Rightarrow> (tbl, Inl e)
      | None \<Rightarrow> if clashes uniques new tbl then (tbl, Inl (sql_duplicate db)) else (tbl @ [new], Inr new))"

definition upsert_unique ::
  "('r \<Rightarrow> 'k) \<Rightarrow> ('r \<Rightarrow> 'u) list \<Rightarrow> sqldb \<Rightarrow> ('r \<Rightarrow> 'r \<Rightarrow> goerr + 'r) \<Rightarrow> 'r \<Rightarrow> 'r list \<Rightarrow> 'r list \<times> (goerr + 'r)" where
  "upsert_unique key uniques db conflict new tbl =
     (if key new \<in> set (map key tbl) then upsert key db conflict new tbl
      else insert_unique uniques db new tbl)"

text \<open>A condition on a column of type \<^verbatim>\<open>UUID\<close>.\<close>

definition find_uuid :: "sqldb \<Rightarrow> string \<Rightarrow> ('r \<Rightarrow> string) \<Rightarrow> 'r list \<Rightarrow> goerr + 'r" where
  "find_uuid db s key tbl = (case sql_uuid db s of Inl e \<Rightarrow> Inl e | Inr u \<Rightarrow> find_where db (\<lambda>r. key r = u) tbl)"

subsection \<open>Daemons\<close>

type_synonym daemon_query = "Daemon list \<Rightarrow> Daemon list \<times> (goerr + Daemon)"

definition Daemon_row :: "sqldb \<Rightarrow> Daemon \<Rightarrow> Daemon" where
  "Daemon_row db a = a\<lparr>dm_CreatedAt := sql_now db, dm_UpdatedAt := sql_now db\<rparr>"

definition Daemon_conflict :: "sqldb \<Rightarrow> Daemon \<Rightarrow> Daemon \<Rightarrow> goerr + Daemon" where
  "Daemon_conflict db old new = Inr (old\<lparr>dm_UpdatedAt := sql_now db\<rparr>)"

definition DaemonInsertWithDefaults :: "sqldb \<Rightarrow> Daemon \<Rightarrow> daemon_query" where
  "DaemonInsertWithDefaults db a =
     uuid_arg db (dm_ID a) (\<lambda>u. upsert_unique dm_ID [dm_Hostname] db (Daemon_conflict db) (Daemon_row db (a\<lparr>dm_ID := u\<rparr>)))"

definition DaemonTouch :: "sqldb \<Rightarrow> string \<Rightarrow> daemon_query" where
  "DaemonTouch db ident =
     uuid_arg db ident (\<lambda>u. update_where db (\<lambda>r. dm_ID r = u) (\<lambda>r. Inr (r\<lparr>dm_UpdatedAt := sql_now db\<rparr>)))"

definition DaemonDeleteByID :: "sqldb \<Rightarrow> string \<Rightarrow> daemon_query" where
  "DaemonDeleteByID db ident = uuid_arg db ident (\<lambda>u. delete_where db (\<lambda>r. dm_ID r = u))"

text \<open>Among rows with the same instant the database answers with any; the model takes the first.\<close>

definition newest :: "('r \<Rightarrow> instant) \<Rightarrow> 'r list \<Rightarrow> 'r list" where
  "newest t rows = filter (\<lambda>r. list_all (\<lambda>s. t s \<le> t r) rows) rows"

definition DaemonFindByLatestUpdated :: "sqldb \<Rightarrow> Daemon list \<Rightarrow> goerr + Daemon" where
  "DaemonFindByLatestUpdated db tbl =
     (case sql_err db of Some e \<Rightarrow> Inl e | None \<Rightarrow> query_row (newest dm_UpdatedAt tbl))"

subsection \<open>Profiles\<close>

type_synonym profile_query = "Profile list \<Rightarrow> Profile list \<times> (goerr + Profile)"

definition Profile_row :: "sqldb \<Rightarrow> string \<Rightarrow> string \<Rightarrow> Profile \<Rightarrow> Profile" where
  "Profile_row db ident watermark a =
     a\<lparr>pf_CreatedAt := sql_now db, pf_DisabledAt := Inf, pf_DisabledManuallyAt := Inf,
       pf_DisabledPendingApprovalAt := NegInf, pf_ID := ident, pf_SessionWatermark := watermark,
       pf_UpdatedAt := sql_now db\<rparr>"

definition Profile_conflict :: "sqldb \<Rightarrow> Profile \<Rightarrow> Profile \<Rightarrow> goerr + Profile" where
  "Profile_conflict db old new = Inr (old\<lparr>pf_UpdatedAt := sql_now db\<rparr>)"

definition ProfileInsertWithDefaults :: "sqldb \<Rightarrow> string \<Rightarrow> string \<Rightarrow> Profile \<Rightarrow> profile_query" where
  "ProfileInsertWithDefaults db ident watermark a =
     upsert pf_ID db (Profile_conflict db) (Profile_row db ident watermark a)"

definition ProfileInsertWithID :: "sqldb \<Rightarrow> string \<Rightarrow> Profile \<Rightarrow> profile_query" where
  "ProfileInsertWithID db watermark a =
     uuid_arg db (pf_ID a) (\<lambda>u. upsert pf_ID db (Profile_conflict db) (Profile_row db u watermark a))"

definition ProfileFindByID :: "sqldb \<Rightarrow> string \<Rightarrow> Profile list \<Rightarrow> goerr + Profile" where
  "ProfileFindByID db ident tbl = find_uuid db ident pf_ID tbl"

subsection \<open>Consumed tokens\<close>

type_synonym token_query = "ConsumedToken list \<Rightarrow> ConsumedToken list \<times> (goerr + ConsumedToken)"

definition ConsumedToken_row :: "sqldb \<Rightarrow> ConsumedToken \<Rightarrow> ConsumedToken" where
  "ConsumedToken_row db a = a\<lparr>ct_CreatedAt := sql_now db\<rparr>"

definition ConsumedTokenInsertWithDefaults :: "sqldb \<Rightarrow> ConsumedToken \<Rightarrow> token_query" where
  "ConsumedTokenInsertWithDefaults db a =
     uuid_arg db (ct_ID a) (\<lambda>u. insert_unique [ct_ID] db (ConsumedToken_row db (a\<lparr>ct_ID := u\<rparr>)))"

definition ConsumedTokenFindByCreatedAt :: "sqldb \<Rightarrow> instant \<Rightarrow> ConsumedToken list \<Rightarrow> goerr + ConsumedToken" where
  "ConsumedTokenFindByCreatedAt db c = find_where db (\<lambda>r. ct_CreatedAt r = c)"

definition ConsumedTokenFindByID :: "sqldb \<Rightarrow> string \<Rightarrow> ConsumedToken list \<Rightarrow> goerr + ConsumedToken" where
  "ConsumedTokenFindByID db c = find_uuid db c ct_ID"

definition ConsumedTokenFindByToken :: "sqldb \<Rightarrow> string \<Rightarrow> ConsumedToken list \<Rightarrow> goerr + ConsumedToken" where
  "ConsumedTokenFindByToken db c = find_where db (\<lambda>r. ct_Token r = c)"

definition ConsumedTokenFindByTombstonedAt :: "sqldb \<Rightarrow> instant \<Rightarrow> ConsumedToken list \<Rightarrow> goerr + ConsumedToken" where
  "ConsumedTokenFindByTombstonedAt db c = find_where db (\<lambda>r. ct_TombstonedAt r = c)"

subsection \<open>Permissions\<close>

type_synonym authz_query = "Authz list \<Rightarrow> Authz list \<times> (goerr + Authz)"

definition AuthzFindByCreatedAt :: "sqldb \<Rightarrow> instant \<Rightarrow> Authz list \<Rightarrow> goerr + Authz" where
  "AuthzFindByCreatedAt db c = find_where db (\<lambda>r. az_CreatedAt r = c)"

definition AuthzFindByID :: "sqldb \<Rightarrow> string \<Rightarrow> Authz list \<Rightarrow> goerr + Authz" where
  "AuthzFindByID db c = find_uuid db c az_ID"

definition AuthzFindByUpdatedAt :: "sqldb \<Rightarrow> instant \<Rightarrow> Authz list \<Rightarrow> goerr + Authz" where
  "AuthzFindByUpdatedAt db c = find_where db (\<lambda>r. az_UpdatedAt r = c)"

definition AuthzFindByUsermanagement :: "sqldb \<Rightarrow> bool \<Rightarrow> Authz list \<Rightarrow> goerr + Authz" where
  "AuthzFindByUsermanagement db c = find_where db (\<lambda>r. az_Usermanagement r = c)"

definition rows_AuthzFindByProfileID :: "sqldb \<Rightarrow> string \<Rightarrow> Authz list \<Rightarrow> goerr + Authz" where
  "rows_AuthzFindByProfileID db c = find_uuid db c az_ProfileID"

text \<open>\<open>ident\<close> is the identifier the database draws.\<close>

definition AuthzInsertWithDefaults :: "sqldb \<Rightarrow> string \<Rightarrow> Authz \<Rightarrow> authz_query" where
  "AuthzInsertWithDefaults db ident a =
     uuid_arg db (az_ProfileID a) (\<lambda>p. insert_unique [az_ID, az_ProfileID] db
       (a\<lparr>az_CreatedAt := sql_now db, az_ID := ident, az_ProfileID := p\<rparr>))"

definition AuthzInsertWithIDDefaults :: "sqldb \<Rightarrow> Authz \<Rightarrow> authz_query" where
  "AuthzInsertWithIDDefaults db a =
     uuid_arg db (az_ID a) (\<lambda>u. uuid_arg db (az_ProfileID a) (\<lambda>p.
       upsert_unique az_ID [az_ProfileID] db (\<lambda>old new. Inr (old\<lparr>az_UpdatedAt := sql_now db\<rparr>))
         (a\<lparr>az_CreatedAt := sql_now db, az_ID := u, az_ProfileID := p\<rparr>)))"

definition rows_AuthzUpsertWithDefaults :: "sqldb \<Rightarrow> string \<Rightarrow> Authz \<Rightarrow> authz_query" where
  "rows_AuthzUpsertWithDefaults db ident a =
     uuid_arg db (az_ProfileID a) (\<lambda>p.
       upsert_unique az_ProfileID [az_ID] db
         (\<lambda>old new. Inr (old\<lparr>az_Usermanagement := az_Usermanagement new, az_UpdatedAt := sql_now db\<rparr>))
         (a\<lparr>az_CreatedAt := sql_now db, az_ID := ident, az_ProfileID := p, az_UpdatedAt := sql_now db\<rparr>))"

definition rows_AuthzDeleteByProfileID :: "sqldb \<Rightarrow> string \<Rightarrow> authz_query" where
  "rows_AuthzDeleteByProfileID db pid = uuid_arg db pid (\<lambda>u. delete_where db (\<lambda>r. az_ProfileID r = u))"

subsection \<open>Public keys\<close>

type_synonym identity_query = "Identity list \<Rightarrow> Identity list \<times> (goerr + Identity)"

definition Identity_row :: "sqldb \<Rightarrow> Identity \<Rightarrow> Identity" where
  "Identity_row db a = a\<lparr>is_CreatedAt := sql_now db, is_UpdatedAt := sql_now db\<rparr>"

definition Identity_conflict :: "sqldb \<Rightarrow> Identity \<Rightarrow> Identity \<Rightarrow> goerr + Identity" where
  "Identity_conflict db old new = Inr (old\<lparr>is_UpdatedAt := sql_now db, is_ProfileID := is_ProfileID new\<rparr>)"

definition Identity_zero_conflict :: "sqldb \<Rightarrow> Identity \<Rightarrow> Identity \<Rightarrow> goerr + Identity" where
  "Identity_zero_conflict db old new = Inr (old\<lparr>is_UpdatedAt := sql_now db\<rparr>)"

definition insert_identity ::
  "(Identity \<Rightarrow> Identity \<Rightarrow> goerr + Identity) \<Rightarrow> sqldb \<Rightarrow> Identity \<Rightarrow> identity_query" where
  "insert_identity conflict db a =
     uuid_arg db (is_ID a) (\<lambda>u. uuid_arg db (is_ProfileID a) (\<lambda>p.
       upsert is_ID db conflict (Identity_row db (a\<lparr>is_ID := u, is_ProfileID := p\<rparr>))))"

definition IdentityInsertWithDefaults :: "sqldb \<Rightarrow> Identity \<Rightarrow> identity_query" where
  "IdentityInsertWithDefaults db = insert_identity (Identity_conflict db) db"

definition IdentityInsertZeroWithDefaults :: "sqldb \<Rightarrow> Identity \<Rightarrow> identity_query" where
  "IdentityInsertZeroWithDefaults db = insert_identity (Identity_zero_conflict db) db"

definition IdentityFindByCreatedAt :: "sqldb \<Rightarrow> instant \<Rightarrow> Identity list \<Rightarrow> goerr + Identity" where
  "IdentityFindByCreatedAt db c = find_where db (\<lambda>r. is_CreatedAt r = c)"

definition IdentityFindByDisabledAt :: "sqldb \<Rightarrow> instant \<Rightarrow> Identity list \<Rightarrow> goerr + Identity" where
  "IdentityFindByDisabledAt db c = find_where db (\<lambda>r. is_DisabledAt r = c)"

definition IdentityFindByID :: "sqldb \<Rightarrow> string \<Rightarrow> Identity list \<Rightarrow> goerr + Identity" where
  "IdentityFindByID db c = find_uuid db c is_ID"

definition IdentityFindByProfileID :: "sqldb \<Rightarrow> string \<Rightarrow> Identity list \<Rightarrow> goerr + Identity" where
  "IdentityFindByProfileID db c = find_uuid db c is_ProfileID"

definition IdentityFindByPublicKey :: "sqldb \<Rightarrow> string \<Rightarrow> Identity list \<Rightarrow> goerr + Identity" where
  "IdentityFindByPublicKey db c = find_where db (\<lambda>r. is_PublicKey r = c)"

definition IdentityFindByUpdatedAt :: "sqldb \<Rightarrow> instant \<Rightarrow> Identity list \<Rightarrow> goerr + Identity" where
  "IdentityFindByUpdatedAt db c = find_where db (\<lambda>r. is_UpdatedAt r = c)"

section \<open>Scanners and arguments\<close>

definition Daemon_columns :: "(bytes \<Rightarrow> goerr + string) \<Rightarrow> Daemon column list" where
  "Daemon_columns uid =
     [col_time ''created_at'' (\<lambda>v r. r\<lparr>dm_CreatedAt := v\<rparr>),
      col_string ''description'' (\<lambda>v r. r\<lparr>dm_Description := v\<rparr>),
      col_string ''hostname'' (\<lambda>v r. r\<lparr>dm_Hostname := v\<rparr>),
      col_uuid uid ''id'' (\<lambda>v r. r\<lparr>dm_ID := v\<rparr>),
      col_time ''updated_at'' (\<lambda>v r. r\<lparr>dm_UpdatedAt := v\<rparr>)]"

definition DaemonScannerStatic_Scan where
  "DaemonScannerStatic_Scan cv = static_Scan cv (Daemon_columns (cv_uuid cv))"

definition DaemonScannerStaticRow_Scan where
  "DaemonScannerStaticRow_Scan cv = row_Scan cv (Daemon_columns (cv_uuid cv))"

definition DaemonScannerDynamic_Scan where
  "DaemonScannerDynamic_Scan cv = dynamic_Scan cv (Daemon_columns (cv_uuid cv))"

definition ConsumedToken_columns :: "(bytes \<Rightarrow> goerr + string) \<Rightarrow> ConsumedToken column list" where
  "ConsumedToken_columns uid =
     [col_time ''created_at'' (\<lambda>v r. r\<lparr>ct_CreatedAt := v\<rparr>),
      col_uuid uid ''id'' (\<lambda>v r. r\<lparr>ct_ID := v\<rparr>),
      col_string ''token'' (\<lambda>v r. r\<lparr>ct_Token := v\<rparr>),
      col_time ''tombstoned_at'' (\<lambda>v r. r\<lparr>ct_TombstonedAt := v\<rparr>)]"

definition ConsumedTokenScannerStatic_Scan where
  "ConsumedTokenScannerStatic_Scan cv = static_Scan cv (ConsumedToken_columns (cv_uuid cv))"

definition ConsumedTokenScannerStaticRow_Scan where
  "ConsumedTokenScannerStaticRow_Scan cv = row_Scan cv (ConsumedToken_columns (cv_uuid cv))"

definition ConsumedTokenScannerDynamic_Scan where
  "ConsumedTokenScannerDynamic_Scan cv = dynamic_Scan cv (ConsumedToken_columns (cv_uuid cv))"

definition Authz_columns :: "(bytes \<Rightarrow> goerr + string) \<Rightarrow> Authz column list" where
  "Authz_columns uid =
     [col_time ''created_at'' (\<lambda>v r. r\<lparr>az_CreatedAt := v\<rparr>),
      col_uuid uid ''id'' (\<lambda>v r. r\<lparr>az_ID := v\<rparr>),
      col_uuid uid ''profile_id'' (\<lambda>v r. r\<lparr>az_ProfileID := v\<rparr>),
      col_time ''updated_at'' (\<lambda>v r. r\<lparr>az_UpdatedAt := v\<rparr>),
      col_bool ''usermanagement'' (\<lambda>v r. r\<lparr>az_Usermanagement := v\<rparr>)]"

definition AuthzScannerStatic_Scan where
  "AuthzScannerStatic_Scan cv = static_Scan cv (Authz_columns (cv_uuid cv))"

definition AuthzScannerStaticRow_Scan where
  "AuthzScannerStaticRow_Scan cv = row_Scan cv (Authz_columns (cv_uuid cv))"

definition AuthzScannerDynamic_Scan where
  "AuthzScannerDynamic_Scan cv = dynamic_Scan cv (Authz_columns (cv_uuid cv))"

definition Profile_columns :: "(bytes \<Rightarrow> goerr + string) \<Rightarrow> Profile column list" where
  "Profile_columns uid =
     [col_time ''created_at'' (\<lambda>v r. r\<lparr>pf_CreatedAt := v\<rparr>),
      col_string ''description'' (\<lambda>v r. r\<lparr>pf_Description := v\<rparr>),
      col_time ''disabled_at'' (\<lambda>v r. r\<lparr>pf_DisabledAt := v\<rparr>),
      col_time ''disabled_manually_at'' (\<lambda>v r. r\<lparr>pf_DisabledManuallyAt := v\<rparr>),
      col_time ''disabled_pending_approval_at'' (\<lambda>v r. r\<lparr>pf_DisabledPendingApprovalAt := v\<rparr>),
      col_uuid uid ''id'' (\<lambda>v r. r\<lparr>pf_ID := v\<rparr>),
      col_uuid uid ''session_watermark'' (\<lambda>v r. r\<lparr>pf_SessionWatermark := v\<rparr>),
      col_time ''updated_at'' (\<lambda>v r. r\<lparr>pf_UpdatedAt := v\<rparr>)]"

definition ProfileScannerStatic_Scan where
  "ProfileScannerStatic_Scan cv = static_Scan cv (Profile_columns (cv_uuid cv))"

definition ProfileScannerStaticRow_Scan where
  "ProfileScannerStaticRow_Scan cv = row_Scan cv (Profile_columns (cv_uuid cv))"

definition ProfileScannerDynamic_Scan where
  "ProfileScannerDynamic_Scan cv = dynamic_Scan cv (Profile_columns (cv_uuid cv))"

definition Identity_columns :: "(bytes \<Rightarrow> goerr + string) \<Rightarrow> Identity column list" where
  "Identity_columns uid =
     [col_time ''created_at'' (\<lambda>v r. r\<lparr>is_CreatedAt := v\<rparr>),
      col_time ''disabled_at'' (\<lambda>v r. r\<lparr>is_DisabledAt := v\<rparr>),
      col_uuid uid ''id'' (\<lambda>v r. r\<lparr>is_ID := v\<rparr>),
      col_uuid uid ''profile_id'' (\<lambda>v r. r\<lparr>is_ProfileID := v\<rparr>),
      col_string ''public_key'' (\<lambda>v r. r\<lparr>is_PublicKey := v\<rparr>),
      col_time ''updated_at'' (\<lambda>v r. r\<lparr>is_UpdatedAt := v\<rparr>)]"

definition IdentityScannerStatic_Scan where
  "IdentityScannerStatic_Scan cv = static_Scan cv (Identity_columns (cv_uuid cv))"

definition IdentityScannerStaticRow_Scan where
  "IdentityScannerStaticRow_Scan cv = row_Scan cv (Identity_columns (cv_uuid cv))"

definition IdentityScannerDynamic_Scan where
  "IdentityScannerDynamic_Scan cv = dynamic_Scan cv (Identity_columns (cv_uuid cv))"

definition ProfileInsertWithDefaultsStaticColumns :: string where
  "ProfileInsertWithDefaultsStaticColumns = ''DEFAULT,$1,DEFAULT,DEFAULT,DEFAULT,DEFAULT,DEFAULT,DEFAULT''"

definition ProfileInsertWithDefaultsExplode :: "Profile \<Rightarrow> dest list" where
  "ProfileInsertWithDefaultsExplode a =
     [NullString (Some (pf_Description a))]"

definition ProfileInsertWithIDStaticColumns :: string where
  "ProfileInsertWithIDStaticColumns = ''DEFAULT,$1,DEFAULT,DEFAULT,DEFAULT,$2,DEFAULT,DEFAULT''"

definition ProfileInsertWithIDExplode :: "Profile \<Rightarrow> dest list" where
  "ProfileInsertWithIDExplode a =
     [NullString (Some (pf_Description a)),
      NullString (Some (pf_ID a))]"

definition DaemonInsertWithDefaultsStaticColumns :: string where
  "DaemonInsertWithDefaultsStaticColumns = ''DEFAULT,$1,$2,$3,DEFAULT''"

definition DaemonInsertWithDefaultsExplode :: "Daemon \<Rightarrow> dest list" where
  "DaemonInsertWithDefaultsExplode a =
     [NullString (Some (dm_Description a)),
      NullString (Some (dm_Hostname a)),
      NullString (Some (dm_ID a))]"

definition ConsumedTokenInsertWithDefaultsStaticColumns :: string where
  "ConsumedTokenInsertWithDefaultsStaticColumns = ''DEFAULT,$1,$2,$3''"

definition ConsumedTokenInsertWithDefaultsExplode :: "ConsumedToken \<Rightarrow> dest list" where
  "ConsumedTokenInsertWithDefaultsExplode a =
     [NullString (Some (ct_ID a)),
      NullString (Some (ct_Token a)),
      NullTime (Some (ct_TombstonedAt a))]"

definition AuthzInsertWithDefaultsStaticColumns :: string where
  "AuthzInsertWithDefaultsStaticColumns = ''DEFAULT,DEFAULT,$1,$2,$3''"

definition AuthzInsertWithDefaultsExplode :: "Authz \<Rightarrow> dest list" where
  "AuthzInsertWithDefaultsExplode a =
     [NullString (Some (az_ProfileID a)),
      NullTime (Some (az_UpdatedAt a)),
      NullBool (Some (az_Usermanagement a))]"

definition AuthzInsertWithIDDefaultsStaticColumns :: string where
  "AuthzInsertWithIDDefaultsStaticColumns = ''DEFAULT,$1,$2,$3,$4''"

definition AuthzInsertWithIDDefaultsExplode :: "Authz \<Rightarrow> dest list" where
  "AuthzInsertWithIDDefaultsExplode a =
     [NullString (Some (az_ID a)),
      NullString (Some (az_ProfileID a)),
      NullTime (Some (az_UpdatedAt a)),
      NullBool (Some (az_Usermanagement a))]"

definition AuthzUpsertWithDefaultsStaticColumns :: string where
  "AuthzUpsertWithDefaultsStaticColumns = ''DEFAULT,DEFAULT,$1,DEFAULT,$2''"

definition AuthzUpsertWithDefaultsExplode :: "Authz \<Rightarrow> dest list" where
  "AuthzUpsertWithDefaultsExplode a =
     [NullString (Some (az_ProfileID a)),
      NullBool (Some (az_Usermanagement a))]"

definition IdentityInsertWithDefaultsStaticColumns :: string where
  "IdentityInsertWithDefaultsStaticColumns = ''DEFAULT,$1,$2,$3,$4,DEFAULT''"

definition IdentityInsertWithDefaultsExplode :: "Identity \<Rightarrow> dest list" where
  "IdentityInsertWithDefaultsExplode a =
     [NullTime (Some (is_DisabledAt a)),
      NullString (Some (is_ID a)),
      NullString (Some (is_ProfileID a)),
      NullString (Some (is_PublicKey a))]"

definition IdentityInsertZeroWithDefaultsStaticColumns :: string where
  "IdentityInsertZeroWithDefaultsStaticColumns = ''DEFAULT,$1,$2,$3,$4,DEFAULT''"

definition IdentityInsertZeroWithDefaultsExplode :: "Identity \<Rightarrow> dest list" where
  "IdentityInsertZeroWithDefaultsExplode a =
     [NullTime (Some (is_DisabledAt a)),
      NullString (Some (is_ID a)),
      NullString (Some (is_ProfileID a)),
      NullString (Some (is_PublicKey a))]"

section \<open>The accounts\<close>

text \<open>The tables with the number of the statements so far: \<open>ky_db\<close> is what the database does with the
  statement of a number, \<open>ky_draw\<close> the identifier it draws for it.\<close>

record accounts =
  ac_daemons :: "Daemon list"
  ac_profiles :: "Profile list"
  ac_tokens :: "ConsumedToken list"
  ac_authz :: "Authz list"
  ac_identities :: "Identity list"
  ac_stmts :: nat

definition on_profiles :: "(nat \<Rightarrow> sqldb) \<Rightarrow> (sqldb \<Rightarrow> Profile list \<Rightarrow> Profile list \<times> 'a) \<Rightarrow> accounts \<Rightarrow> accounts \<times> 'a" where
  "on_profiles db q st =
     (let (tbl, res) = q (db (ac_stmts st)) (ac_profiles st)
      in (st\<lparr>ac_stmts := Suc (ac_stmts st), ac_profiles := tbl\<rparr>, res))"

definition on_tokens ::
  "(nat \<Rightarrow> sqldb) \<Rightarrow> (sqldb \<Rightarrow> ConsumedToken list \<Rightarrow> ConsumedToken list \<times> 'a) \<Rightarrow> accounts \<Rightarrow> accounts \<times> 'a" where
  "on_tokens db q st =
     (let (tbl, res) = q (db (ac_stmts st)) (ac_tokens st)
      in (st\<lparr>ac_stmts := Suc (ac_stmts st), ac_tokens := tbl\<rparr>, res))"

definition on_authz :: "(nat \<Rightarrow> sqldb) \<Rightarrow> (sqldb \<Rightarrow> Authz list \<Rightarrow> Authz list \<times> 'a) \<Rightarrow> accounts \<Rightarrow> accounts \<times> 'a" where
  "on_authz db q st =
     (let (tbl, res) = q (db (ac_stmts st)) (ac_authz st)
      in (st\<lparr>ac_stmts := Suc (ac_stmts st), ac_authz := tbl\<rparr>, res))"

definition on_identities ::
  "(nat \<Rightarrow> sqldb) \<Rightarrow> (sqldb \<Rightarrow> Identity list \<Rightarrow> Identity list \<times> 'a) \<Rightarrow> accounts \<Rightarrow> accounts \<times> 'a" where
  "on_identities db q st =
     (let (tbl, res) = q (db (ac_stmts st)) (ac_identities st)
      in (st\<lparr>ac_stmts := Suc (ac_stmts st), ac_identities := tbl\<rparr>, res))"

section \<open>The import of public keys\<close>

record key_env =
  ky_md5uuid :: "bytes \<Rightarrow> string"
  ky_db :: "nat \<Rightarrow> sqldb"
  ky_draw :: "nat \<Rightarrow> string"

definition ImportParsed :: "key_env \<Rightarrow> Parsed \<Rightarrow> accounts \<Rightarrow> accounts \<times> goerr option" where
  "ImportParsed e parsed st =
     (let fp = FingerprintMD5 (ky_md5uuid e) (ps_PublicKey parsed) in
      case on_profiles (ky_db e) (\<lambda>d. ProfileInsertWithID d (ky_draw e (ac_stmts st))
          (zero_Profile\<lparr>pf_ID := fp, pf_Description := ps_Comment parsed\<rparr>)) st of
        (st1, Inl err) \<Rightarrow> (st1, Wrap (Some err) ''unable to create profile'')
      | (st1, Inr p) \<Rightarrow>
          (case on_authz (ky_db e) (\<lambda>d. AuthzInsertWithIDDefaults d
              (Clone (zero_Authz\<lparr>az_ID := fp, az_ProfileID := pf_ID p\<rparr>) [AuthzOptionAdmin])) st1 of
             (st2, Inl err) \<Rightarrow> (st2, Wrap (Some err) ''unable to setup authorizations'')
           | (st2, Inr a) \<Rightarrow>
               (case on_identities (ky_db e) (\<lambda>d. IdentityInsertWithDefaults d
                   (zero_Identity\<lparr>is_ID := fp, is_PublicKey := EncodeBase64PublicKey (ps_PublicKey parsed),
                     is_ProfileID := pf_ID p\<rparr>)) st2 of
                  (st3, Inl err) \<Rightarrow> (st3, Wrap (Some err) ''unable create ssh identity'')
                | (st3, Inr iden) \<Rightarrow> (st3, None))))"

definition ImportPublicKey :: "key_env \<Rightarrow> pubkey \<Rightarrow> accounts \<Rightarrow> accounts \<times> goerr option" where
  "ImportPublicKey e pub = ImportParsed e \<lparr>ps_PublicKey = pub, ps_Comment = [], ps_Options = []\<rparr>"

definition ImportAuthorizedKeys ::
  "key_env \<Rightarrow> (bytes \<Rightarrow> bytes \<times> (goerr + Parsed)) \<Rightarrow> bytes \<Rightarrow> accounts \<Rightarrow> (accounts \<times> goerr option) option" where
  "ImportAuthorizedKeys e parse encoded st =
     ParseAuthorizedKeys parse (\<lambda>(s, _) p. case ImportParsed e p s of (s', err) \<Rightarrow> ((s', err), err = None))
       (st, None) encoded"

section \<open>Lemmas\<close>

subsection \<open>Unique columns\<close>

definition unique_ok :: "('r \<Rightarrow> 'u) list \<Rightarrow> 'r list \<Rightarrow> bool" where
  "unique_ok uniques tbl \<longleftrightarrow> list_all (\<lambda>u. distinct (map u tbl)) uniques"

lemma clashes_iff: "clashes uniques new tbl \<longleftrightarrow> (\<exists>u \<in> set uniques. u new \<in> set (map u tbl))"
  unfolding clashes_def list_ex_iff by (auto simp: image_iff) metis+

lemma insert_unique_ok:
  assumes "insert_unique uniques db new tbl = (tbl', res)" "unique_ok uniques tbl"
  shows "unique_ok uniques tbl'"
  using assms
  by (auto simp: insert_unique_def unique_ok_def list_all_iff clashes_iff split: option.splits if_splits)

lemma delete_where_unique:
  "delete_where db p tbl = (tbl', res) \<Longrightarrow> unique_ok uniques tbl \<Longrightarrow> unique_ok uniques tbl'"
  by (auto simp: delete_where_def unique_ok_def list_all_iff distinct_map_filter split: option.splits)

lemma update_where_unique:
  assumes "update_where db p f tbl = (tbl', res)" "unique_ok uniques tbl"
    and "\<And>r r' u. f r = Inr r' \<Longrightarrow> u \<in> set uniques \<Longrightarrow> u r' = u r"
  shows "unique_ok uniques tbl'"
proof -
  have "map u tbl' = map u tbl" if "u \<in> set uniques" for u
    using update_where_keys [OF assms(1), of u] assms(3) that by blast
  with assms(2) show ?thesis by (simp add: unique_ok_def list_all_iff)
qed

text \<open>Statements whose assignments cannot fail answer with a row.\<close>

lemma upsert_total:
  assumes "sql_err db = None" "\<And>old. conflict old new = Inr (g old)"
  shows "\<exists>tbl' r. upsert key db conflict new tbl = (tbl', Inr r)"
proof (cases "row_of key tbl (key new)")
  case None
  with assms(1) show ?thesis by (simp add: upsert_def row_of_None_iff)
next
  case (Some old)
  then have "key new \<in> set (map key tbl)" using row_of_None_iff [of key tbl "key new"] by auto
  with assms(1) have "upsert key db conflict new tbl = update_where db (\<lambda>r. key r = key new) (\<lambda>r. conflict r new) tbl"
    by (simp add: upsert_def)
  with update_key_result [of db key tbl "key new" old "\<lambda>r. conflict r new" g, OF assms(1) Some assms(2)] show ?thesis
    by (metis prod.collapse)
qed

lemma upsert_unique_total:
  assumes "sql_err db = None" "\<And>old. conflict old new = Inr (g old)"
    and "row_of key tbl (key new) = None \<Longrightarrow> \<not> clashes uniques new tbl"
  shows "\<exists>tbl' r. upsert_unique key uniques db conflict new tbl = (tbl', Inr r)"
  using assms(1,3) upsert_total [of db conflict new g, OF assms(1,2)]
  by (auto simp: upsert_unique_def insert_unique_def row_of_None_iff)

text \<open>The contract of an insert into a table with several unique columns.\<close>

locale unique_rule = conflict_rule key "\<lambda>_. True" conflict
  for key :: "'r \<Rightarrow> string" and conflict :: "'r \<Rightarrow> 'r \<Rightarrow> goerr + 'r" +
  fixes uniques :: "('r \<Rightarrow> string) list"
  assumes conflict_unique: "conflict old new = Inr r \<Longrightarrow> u \<in> set uniques \<Longrightarrow> u r = u old"
begin

lemma upsert_unique_ok:
  assumes "upsert_unique key uniques db conflict new tbl = (tbl', res)" "unique_ok (key # uniques) tbl"
  shows "unique_ok (key # uniques) tbl'"
proof (cases "key new \<in> set (map key tbl)")
  case True
  with assms(1) have "upsert key db conflict new tbl = (tbl', res)"
    by (simp add: upsert_unique_def)
  then consider "tbl' = tbl" | "update_where db (\<lambda>r. key r = key new) (\<lambda>r. conflict r new) tbl = (tbl', res)"
    using True by (auto simp: upsert_def split: option.splits)
  then show ?thesis
  proof cases
    case 2
    show ?thesis
      by (rule update_where_unique [OF 2 assms(2)]) (auto dest: conflict_key conflict_unique)
  qed (use assms in simp)
next
  case False
  with assms(1) have ins: "insert_unique uniques db new tbl = (tbl', res)"
    by (auto simp: upsert_unique_def)
  with False have "distinct (map key tbl')"
    using assms(2) by (auto simp: insert_unique_def unique_ok_def split: option.splits if_splits)
  moreover have "unique_ok uniques tbl'"
    using insert_unique_ok [OF ins] assms(2) by (simp add: unique_ok_def)
  ultimately show ?thesis by (simp add: unique_ok_def)
qed

lemma upsert_unique_known:
  assumes "row_of key tbl (key new) = Some old"
  shows "upsert_unique key uniques db conflict new tbl = upsert key db conflict new tbl"
proof -
  have "key new \<in> set (map key tbl)" using assms row_of_None_iff [of key tbl "key new"] by auto
  then show ?thesis by (simp add: upsert_unique_def)
qed

lemma upsert_unique_stored:
  assumes "upsert_unique key uniques db conflict new tbl = (tbl', Inr r')"
  shows "row_of key tbl' (key new) = Some r' \<and>
    (\<forall>k. k \<noteq> key new \<longrightarrow> row_of key tbl' k = row_of key tbl k) \<and>
    (case row_of key tbl (key new) of None \<Rightarrow> r' = new | Some old \<Rightarrow> conflict old new = Inr r')"
proof (cases "row_of key tbl (key new)")
  case None
  with assms have "tbl' = tbl @ [new]" "r' = new"
    by (auto simp: upsert_unique_def insert_unique_def row_of_None_iff split: option.splits if_splits)
  with None show ?thesis
    by (simp add: row_of_append split: option.splits)
next
  case (Some old)
  with assms have "upsert key db conflict new tbl = (tbl', Inr r')"
    by (simp add: upsert_unique_known)
  from upsert_stored [OF this] Some show ?thesis by simp
qed

end

interpretation daemons: unique_rule dm_ID "Daemon_conflict db" "[dm_Hostname]"
  by unfold_locales (auto simp: Daemon_conflict_def)

interpretation permissions: unique_rule az_ID "\<lambda>old new. Inr (old\<lparr>az_UpdatedAt := sql_now db\<rparr>)" "[az_ProfileID]"
  by unfold_locales auto

interpretation grants: unique_rule az_ProfileID
  "\<lambda>old new. Inr (old\<lparr>az_Usermanagement := az_Usermanagement new, az_UpdatedAt := sql_now db\<rparr>)" "[az_ID]"
  by unfold_locales auto

interpretation profiles: conflict_rule pf_ID "\<lambda>_. True" "Profile_conflict db"
  by unfold_locales (auto simp: Profile_conflict_def)

interpretation identities: conflict_rule is_ID "\<lambda>_. True" "Identity_conflict db"
  by unfold_locales (auto simp: Identity_conflict_def)

interpretation zero_identities: conflict_rule is_ID "\<lambda>_. True" "Identity_zero_conflict db"
  by unfold_locales (auto simp: Identity_zero_conflict_def)

subsection \<open>The permissions as a map\<close>

definition authz_map :: "Authz list \<Rightarrow> authz_table" where
  "authz_map tbl = row_of az_ProfileID tbl"

definition authz_db :: "api_env \<Rightarrow> sqldb \<Rightarrow> bool" where
  "authz_db e db \<longleftrightarrow> sql_err db = db_err e \<and> sql_now db = now e"

lemma authz_map_delete:
  assumes "delete_where db (\<lambda>r. az_ProfileID r = pid) tbl = (tbl', Inr a)"
  shows "authz_map tbl' = (authz_map tbl)(pid := None) \<and> authz_map tbl pid = Some a"
proof -
  from assms have tbl': "tbl' = filter (\<lambda>r. az_ProfileID r \<noteq> pid) tbl"
    and a: "query_row (filter (\<lambda>r. az_ProfileID r = pid) tbl) = Inr a"
    by (auto simp: delete_where_def split: option.splits)
  have "find (\<lambda>r. az_ProfileID r = k) (filter (\<lambda>r. az_ProfileID r \<noteq> pid) xs) =
      (if k = pid then None else find (\<lambda>r. az_ProfileID r = k) xs)" for k and xs :: "Authz list"
    by (induction xs) auto
  then have "authz_map tbl' = (authz_map tbl)(pid := None)"
    by (auto simp: authz_map_def row_of_def tbl')
  with a show ?thesis
    by (auto simp: authz_map_def row_of_filter query_row_def split: list.splits)
qed

subsection \<open>The rows an import leaves\<close>

text \<open>The cast keeps the fingerprint when it is the text of a \<^verbatim>\<open>UUID\<close>.\<close>

definition casts_to :: "key_env \<Rightarrow> string \<Rightarrow> bool" where
  "casts_to e u \<longleftrightarrow> (\<forall>n. sql_uuid (ky_db e n) u = Inr u)"

lemma ImportParsed_rows:
  assumes "ImportParsed e parsed st = (st', None)" "casts_to e (FingerprintMD5 (ky_md5uuid e) (ps_PublicKey parsed))"
  defines "fp \<equiv> FingerprintMD5 (ky_md5uuid e) (ps_PublicKey parsed)"
  shows "\<exists>p a i. row_of pf_ID (ac_profiles st') fp = Some p \<and> row_of is_ID (ac_identities st') fp = Some i \<and>
    is_ProfileID i = fp \<and> row_of az_ID (ac_authz st') fp = Some a \<and>
    (row_of is_ID (ac_identities st) fp = None \<longrightarrow> is_PublicKey i = EncodeBase64PublicKey (ps_PublicKey parsed)) \<and>
    (row_of az_ID (ac_authz st) fp = None \<longrightarrow>
       ac_authz st' = ac_authz st @ [a] \<and> az_ProfileID a = fp \<and> az_Usermanagement a)"
proof -
  have cast: "sql_uuid (ky_db e n) fp = Inr fp" for n using assms(2) by (simp add: casts_to_def fp_def)
  note def = assms(1) [unfolded ImportParsed_def Let_def fp_def [symmetric]]
  let ?pf = "zero_Profile\<lparr>pf_ID := fp, pf_Description := ps_Comment parsed\<rparr>"
  obtain st1 x1 where one: "on_profiles (ky_db e) (\<lambda>d. ProfileInsertWithID d (ky_draw e (ac_stmts st)) ?pf) st = (st1, x1)"
    by fastforce
  from def one obtain p where x1: "x1 = Inr p" by (cases x1) (auto simp: Wrap_def)
  let ?az = "\<lambda>p. Clone (zero_Authz\<lparr>az_ID := fp, az_ProfileID := pf_ID p\<rparr>) [AuthzOptionAdmin]"
  obtain st2 x2 where two: "on_authz (ky_db e) (\<lambda>d. AuthzInsertWithIDDefaults d (?az p)) st1 = (st2, x2)"
    by fastforce
  from def one x1 two obtain a where x2: "x2 = Inr a" by (cases x2) (auto simp: Wrap_def)
  let ?is = "zero_Identity\<lparr>is_ID := fp, is_PublicKey := EncodeBase64PublicKey (ps_PublicKey parsed), is_ProfileID := pf_ID p\<rparr>"
  obtain st3 x3 where three: "on_identities (ky_db e) (\<lambda>d. IdentityInsertWithDefaults d ?is) st2 = (st3, x3)"
    by fastforce
  from def one x1 two x2 three obtain i where x3: "x3 = Inr i" "st' = st3" by (cases x3) (auto simp: Wrap_def)
  from one x1 cast obtain tbl1 where t1: "upsert pf_ID (ky_db e (ac_stmts st)) (Profile_conflict (ky_db e (ac_stmts st)))
      (Profile_row (ky_db e (ac_stmts st)) fp (ky_draw e (ac_stmts st)) ?pf) (ac_profiles st) = (tbl1, Inr p)"
    "st1 = st\<lparr>ac_stmts := Suc (ac_stmts st), ac_profiles := tbl1\<rparr>"
    by (auto simp: on_profiles_def ProfileInsertWithID_def uuid_arg_def Let_def split: prod.splits)
  from profiles.upsert_stored [OF t1(1)] have p: "row_of pf_ID tbl1 fp = Some p" "pf_ID p = fp"
    using row_of_Some [of pf_ID tbl1 fp p] by (auto simp: Profile_row_def)
  let ?d2 = "ky_db e (Suc (ac_stmts st))"
  let ?new = "zero_Authz\<lparr>az_CreatedAt := sql_now ?d2, az_ID := fp, az_ProfileID := fp, az_Usermanagement := True\<rparr>"
  from two x2 cast p(2) t1(2) obtain tbl2 where t2: "upsert_unique az_ID [az_ProfileID] ?d2
      (\<lambda>old new. Inr (old\<lparr>az_UpdatedAt := sql_now ?d2\<rparr>)) ?new (ac_authz st) = (tbl2, Inr a)"
    "st2 = st1\<lparr>ac_stmts := Suc (ac_stmts st1), ac_authz := tbl2\<rparr>"
    by (auto simp: on_authz_def AuthzInsertWithIDDefaults_def uuid_arg_def Let_def AuthzOptionAdmin_def zero_Authz_def
        split: prod.splits)
  from permissions.upsert_unique_stored [OF t2(1)] have a: "row_of az_ID tbl2 fp = Some a" by simp
  have fresh: "tbl2 = ac_authz st @ [a] \<and> az_ProfileID a = fp \<and> az_Usermanagement a"
    if "row_of az_ID (ac_authz st) fp = None"
    using t2(1) that
    by (auto simp: upsert_unique_def insert_unique_def row_of_None_iff split: option.splits if_splits)
  let ?d3 = "ky_db e (Suc (Suc (ac_stmts st)))"
  from three x3 cast p(2) t1(2) t2(2) obtain tbl3 where t3: "upsert is_ID ?d3 (Identity_conflict ?d3)
      (Identity_row ?d3 (?is\<lparr>is_ID := fp, is_ProfileID := fp\<rparr>)) (ac_identities st) = (tbl3, Inr i)"
    "st3 = st2\<lparr>ac_stmts := Suc (ac_stmts st2), ac_identities := tbl3\<rparr>"
    by (auto simp: on_identities_def IdentityInsertWithDefaults_def insert_identity_def uuid_arg_def Let_def split: prod.splits)
  from identities.upsert_stored [OF t3(1)] have i: "row_of is_ID tbl3 fp = Some i" "is_ProfileID i = fp"
    "row_of is_ID (ac_identities st) fp = None \<longrightarrow> is_PublicKey i = EncodeBase64PublicKey (ps_PublicKey parsed)"
    by (auto simp: Identity_row_def Identity_conflict_def split: option.splits)
  from p a i fresh t1(2) t2(2) t3(2) x3(2) show ?thesis by auto
qed

subsection \<open>Inserting and scanning\<close>

text \<open>The text of an insert and its arguments make the row of the model, as in \<open>Scanx\<close>.\<close>

lemma DaemonInsertWithDefaults_placeholders:
  "placeholders DaemonInsertWithDefaultsStaticColumns = [None, Some 1, Some 2, Some 3, None]"
  by (simp add: placeholders_def placeholder_def DaemonInsertWithDefaultsStaticColumns_def)

lemma DaemonInsertWithDefaults_refines:
  assumes "\<forall>s \<in> {dm_ID a}. cv_uuid cv (raw s) = Inr s"
  shows "DaemonScannerStatic_Scan cv (inserted raw (schema_default db) (Daemon_columns (cv_uuid cv))
      DaemonInsertWithDefaultsStaticColumns (DaemonInsertWithDefaultsExplode a)) None i = (Daemon_row db a, None)"
proof -
  have vs: "inserted raw (schema_default db) (Daemon_columns (cv_uuid cv))
      DaemonInsertWithDefaultsStaticColumns (DaemonInsertWithDefaultsExplode a) =
     [DTime (sql_now db), DString (dm_Description a), DString (dm_Hostname a), DBytes (raw (dm_ID a)),
      DTime (sql_now db)]"
    unfolding inserted_def DaemonInsertWithDefaults_placeholders Daemon_columns_def col_defs
    by (simp add: DaemonInsertWithDefaultsExplode_def dest_Value_def schema_default_def)
  show ?thesis
    unfolding DaemonScannerStatic_Scan_def vs unfolding Daemon_columns_def
    using assms by (simp add: scan_eval col_defs Daemon_row_def)
qed

lemma ConsumedTokenInsertWithDefaults_placeholders:
  "placeholders ConsumedTokenInsertWithDefaultsStaticColumns = [None, Some 1, Some 2, Some 3]"
  by (simp add: placeholders_def placeholder_def ConsumedTokenInsertWithDefaultsStaticColumns_def)

lemma ConsumedTokenInsertWithDefaults_refines:
  assumes "\<forall>s \<in> {ct_ID a}. cv_uuid cv (raw s) = Inr s"
  shows "ConsumedTokenScannerStatic_Scan cv (inserted raw (schema_default db) (ConsumedToken_columns (cv_uuid cv))
      ConsumedTokenInsertWithDefaultsStaticColumns (ConsumedTokenInsertWithDefaultsExplode a)) None i = (ConsumedToken_row db a, None)"
proof -
  have vs: "inserted raw (schema_default db) (ConsumedToken_columns (cv_uuid cv))
      ConsumedTokenInsertWithDefaultsStaticColumns (ConsumedTokenInsertWithDefaultsExplode a) =
     [DTime (sql_now db), DBytes (raw (ct_ID a)), DString (ct_Token a), DTime (ct_TombstonedAt a)]"
    unfolding inserted_def ConsumedTokenInsertWithDefaults_placeholders ConsumedToken_columns_def col_defs
    by (simp add: ConsumedTokenInsertWithDefaultsExplode_def dest_Value_def schema_default_def)
  show ?thesis
    unfolding ConsumedTokenScannerStatic_Scan_def vs unfolding ConsumedToken_columns_def
    using assms by (simp add: scan_eval col_defs ConsumedToken_row_def)
qed

lemma AuthzInsertWithIDDefaults_placeholders:
  "placeholders AuthzInsertWithIDDefaultsStaticColumns = [None, Some 1, Some 2, Some 3, Some 4]"
  by (simp add: placeholders_def placeholder_def AuthzInsertWithIDDefaultsStaticColumns_def)

lemma AuthzInsertWithIDDefaults_refines:
  assumes "\<forall>s \<in> {az_ID a, az_ProfileID a}. cv_uuid cv (raw s) = Inr s"
  shows "AuthzScannerStatic_Scan cv (inserted raw (schema_default db) (Authz_columns (cv_uuid cv))
      AuthzInsertWithIDDefaultsStaticColumns (AuthzInsertWithIDDefaultsExplode a)) None i = (a\<lparr>az_CreatedAt := sql_now db\<rparr>, None)"
proof -
  have vs: "inserted raw (schema_default db) (Authz_columns (cv_uuid cv))
      AuthzInsertWithIDDefaultsStaticColumns (AuthzInsertWithIDDefaultsExplode a) =
     [DTime (sql_now db), DBytes (raw (az_ID a)), DBytes (raw (az_ProfileID a)), DTime (az_UpdatedAt a),
      DBool (az_Usermanagement a)]"
    unfolding inserted_def AuthzInsertWithIDDefaults_placeholders Authz_columns_def col_defs
    by (simp add: AuthzInsertWithIDDefaultsExplode_def dest_Value_def schema_default_def)
  show ?thesis
    unfolding AuthzScannerStatic_Scan_def vs unfolding Authz_columns_def
    using assms by (simp add: scan_eval col_defs )
qed

lemma IdentityInsertWithDefaults_placeholders:
  "placeholders IdentityInsertWithDefaultsStaticColumns = [None, Some 1, Some 2, Some 3, Some 4, None]"
  by (simp add: placeholders_def placeholder_def IdentityInsertWithDefaultsStaticColumns_def)

lemma IdentityInsertWithDefaults_refines:
  assumes "\<forall>s \<in> {is_ID a, is_ProfileID a}. cv_uuid cv (raw s) = Inr s"
  shows "IdentityScannerStatic_Scan cv (inserted raw (schema_default db) (Identity_columns (cv_uuid cv))
      IdentityInsertWithDefaultsStaticColumns (IdentityInsertWithDefaultsExplode a)) None i = (Identity_row db a, None)"
proof -
  have vs: "inserted raw (schema_default db) (Identity_columns (cv_uuid cv))
      IdentityInsertWithDefaultsStaticColumns (IdentityInsertWithDefaultsExplode a) =
     [DTime (sql_now db), DTime (is_DisabledAt a), DBytes (raw (is_ID a)), DBytes (raw (is_ProfileID a)),
      DString (is_PublicKey a), DTime (sql_now db)]"
    unfolding inserted_def IdentityInsertWithDefaults_placeholders Identity_columns_def col_defs
    by (simp add: IdentityInsertWithDefaultsExplode_def dest_Value_def schema_default_def)
  show ?thesis
    unfolding IdentityScannerStatic_Scan_def vs unfolding Identity_columns_def
    using assms by (simp add: scan_eval col_defs Identity_row_def)
qed

subsection \<open>Every statement keeps the unique columns\<close>

datatype account_op =
    InsertDaemon Daemon | TouchDaemon string | DeleteDaemon string
  | InsertProfile string string Profile | InsertProfileID string Profile
  | ConsumeToken ConsumedToken
  | InsertAuthz string Authz | InsertAuthzID Authz | UpsertAuthz string Authz | DeleteAuthz string
  | InsertIdentity Identity | InsertIdentityZero Identity

fun run_account :: "sqldb \<Rightarrow> account_op \<Rightarrow> accounts \<Rightarrow> accounts" where
  "run_account db (InsertDaemon a) st = st\<lparr>ac_daemons := fst (DaemonInsertWithDefaults db a (ac_daemons st))\<rparr>"
| "run_account db (TouchDaemon i) st = st\<lparr>ac_daemons := fst (DaemonTouch db i (ac_daemons st))\<rparr>"
| "run_account db (DeleteDaemon i) st = st\<lparr>ac_daemons := fst (DaemonDeleteByID db i (ac_daemons st))\<rparr>"
| "run_account db (InsertProfile i w a) st = st\<lparr>ac_profiles := fst (ProfileInsertWithDefaults db i w a (ac_profiles st))\<rparr>"
| "run_account db (InsertProfileID w a) st = st\<lparr>ac_profiles := fst (ProfileInsertWithID db w a (ac_profiles st))\<rparr>"
| "run_account db (ConsumeToken a) st = st\<lparr>ac_tokens := fst (ConsumedTokenInsertWithDefaults db a (ac_tokens st))\<rparr>"
| "run_account db (InsertAuthz i a) st = st\<lparr>ac_authz := fst (AuthzInsertWithDefaults db i a (ac_authz st))\<rparr>"
| "run_account db (InsertAuthzID a) st = st\<lparr>ac_authz := fst (AuthzInsertWithIDDefaults db a (ac_authz st))\<rparr>"
| "run_account db (UpsertAuthz i a) st = st\<lparr>ac_authz := fst (rows_AuthzUpsertWithDefaults db i a (ac_authz st))\<rparr>"
| "run_account db (DeleteAuthz p) st = st\<lparr>ac_authz := fst (rows_AuthzDeleteByProfileID db p (ac_authz st))\<rparr>"
| "run_account db (InsertIdentity a) st = st\<lparr>ac_identities := fst (IdentityInsertWithDefaults db a (ac_identities st))\<rparr>"
| "run_account db (InsertIdentityZero a) st = st\<lparr>ac_identities := fst (IdentityInsertZeroWithDefaults db a (ac_identities st))\<rparr>"

definition accounts_ok :: "accounts \<Rightarrow> bool" where
  "accounts_ok st \<longleftrightarrow> unique_ok [dm_ID, dm_Hostname] (ac_daemons st) \<and> unique_ok [pf_ID] (ac_profiles st) \<and>
     unique_ok [ct_ID] (ac_tokens st) \<and> unique_ok [az_ID, az_ProfileID] (ac_authz st) \<and> unique_ok [is_ID] (ac_identities st)"

lemma uuid_arg_ok:
  "(\<And>u. unique_ok us (fst (k u tbl))) \<Longrightarrow> unique_ok us tbl \<Longrightarrow> unique_ok us (fst (uuid_arg db s k tbl))"
  by (simp add: uuid_arg_def split: sum.split)

lemma unique_ok_swap: "unique_ok [u, v] tbl \<longleftrightarrow> unique_ok [v, u] tbl"
  by (auto simp: unique_ok_def)

lemma table_ok_unique: "table_ok key (\<lambda>_. True) tbl \<longleftrightarrow> unique_ok [key] tbl"
  by (simp add: table_ok_def unique_ok_def)

lemmas account_statements = DaemonInsertWithDefaults_def DaemonDeleteByID_def ProfileInsertWithDefaults_def
  ProfileInsertWithID_def ConsumedTokenInsertWithDefaults_def AuthzInsertWithDefaults_def AuthzInsertWithIDDefaults_def
  rows_AuthzDeleteByProfileID_def IdentityInsertWithDefaults_def
  IdentityInsertZeroWithDefaults_def insert_identity_def

lemmas statement_ok = daemons.upsert_unique_ok [OF surjective_pairing] permissions.upsert_unique_ok [OF surjective_pairing]
  insert_unique_ok [OF surjective_pairing] delete_where_unique [OF surjective_pairing]
  profiles.upsert_ok [OF surjective_pairing, unfolded table_ok_unique, OF _ TrueI]
  identities.upsert_ok [OF surjective_pairing, unfolded table_ok_unique, OF _ TrueI]
  zero_identities.upsert_ok [OF surjective_pairing, unfolded table_ok_unique, OF _ TrueI]

lemma grants_ok: "unique_ok [az_ID, az_ProfileID] tbl \<Longrightarrow> unique_ok [az_ID, az_ProfileID] (fst (rows_AuthzUpsertWithDefaults db i a tbl))"
  unfolding rows_AuthzUpsertWithDefaults_def unique_ok_swap [of az_ID]
  by (intro uuid_arg_ok grants.upsert_unique_ok [OF surjective_pairing])

lemma touch_ok: "unique_ok [dm_ID, dm_Hostname] tbl \<Longrightarrow> unique_ok [dm_ID, dm_Hostname] (fst (DaemonTouch db i tbl))"
  unfolding DaemonTouch_def
  by (intro uuid_arg_ok update_where_unique [OF surjective_pairing]) auto

lemma run_account_ok: "accounts_ok st \<Longrightarrow> accounts_ok (run_account db op st)"
  by (cases op) (simp_all add: accounts_ok_def grants_ok touch_ok account_statements uuid_arg_ok statement_ok)

section \<open>Properties\<close>


definition plain_db :: sqldb where
  "plain_db = \<lparr>sql_err = None, sql_now = 7, sql_range = Fundamental ''range'', sql_duplicate = Fundamental ''duplicate key'',
     sql_undefined = Fundamental ''undefined'', sql_uuid = Inr\<rparr>"

definition plain_api :: api_env where
  "plain_api = \<lparr>parse_registered = (\<lambda>_ _ s. Inr (\<lparr>rc_ID = [], rc_Issuer = [], rc_Subject = s, rc_Audience = [],
       rc_ExpiresAt = None, rc_NotBefore = None, rc_IssuedAt = None\<rparr>, True)),
     parse_token = (\<lambda>_ _ _. Inl (Fundamental ''invalid'')), sign = (\<lambda>_ _. Inr ''t''), algos = [], jwtsecret = [],
     encode = (\<lambda>_. Inr []), decode_grant = (\<lambda>_. Inr None), now = 7, fresh_uuid = ''f'', row_uuid = ''r'', db_err = None,
     form_malformed = False\<rparr>"


text \<open>C19: the owner of an imported key manages users. The first import of a key makes an identity whose text gives the key back,
  and the token the service of permissions then issues to its profile, which is the fingerprint, grants
  user management.\<close>

theorem imported_key_manages:
  assumes "ImportParsed e parsed st = (st', None)" "casts_to e fp"
    and "fp = FingerprintMD5 (ky_md5uuid e) (ps_PublicKey parsed)"
    and "row_of az_ID (ac_authz st) fp = None" "row_of az_ProfileID (ac_authz st) fp = None"
    and "row_of is_ID (ac_identities st) fp = None" "parse_key (ps_PublicKey parsed) = Inr (ps_PublicKey parsed)"
    and "db_err ae = None" "IssuerSubjectID (parse_registered ae) (algos ae) (jwtsecret ae) r = Inr (issuer, fp)"
    and "sign ae (jwtsecret ae) (issued ae fp True) = Inr bearer"
  shows "(\<exists>i. row_of is_ID (ac_identities st') fp = Some i \<and> is_ProfileID i = fp \<and>
      DecodeBase64PublicKey parse_key (is_PublicKey i) = Inr (ps_PublicKey parsed)) \<and>
    authz ae (authz_map (ac_authz st')) ctx w r =
      Return (authz_map (ac_authz st'), fst (WriteJSON (encode ae) w (AuthzResponse bearer (issued ae fp True))))"
proof -
  from ImportParsed_rows [OF assms(1) assms(2) [unfolded assms(3)]] assms(3,4,6) obtain i a where
    i: "row_of is_ID (ac_identities st') fp = Some i" "is_ProfileID i = fp"
    "is_PublicKey i = EncodeBase64PublicKey (ps_PublicKey parsed)"
    and a: "ac_authz st' = ac_authz st @ [a]" "az_ProfileID a = fp" "az_Usermanagement a" by auto
  have "authz_map (ac_authz st') fp = Some a"
    using a assms(5) by (simp add: authz_map_def row_of_append)
  with a(3) assms(8-10) have "authz ae (authz_map (ac_authz st')) ctx w r =
      Return (authz_map (ac_authz st'), fst (WriteJSON (encode ae) w (AuthzResponse bearer (issued ae fp True))))"
    by (simp add: authz_def AuthzFindByProfileID_def found_or_zero_def authz_claims_eq)
  moreover have "DecodeBase64PublicKey parse_key (is_PublicKey i) = Inr (ps_PublicKey parsed)"
    using assms(7) i(3) by (simp add: DecodeBase64PublicKey_def EncodeBase64PublicKey_def b64_raw_url_round)
  ultimately show ?thesis using i by blast
qed

text \<open>A permission that is revoked and granted again ends the imports of the key. The grant draws a new identifier,
  the import inserts under the fingerprint, and the profile is unique: every later import of the
  key fails, and with it the start of the daemon, which imports its own key.\<close>

theorem regranted_import_fails:
  assumes "ImportParsed e parsed st = (st1, None)" "casts_to e fp" "casts_to e2 fp" "ky_md5uuid e2 = ky_md5uuid e"
    and "fp = FingerprintMD5 (ky_md5uuid e) (ps_PublicKey parsed)" "row_of az_ID (ac_authz st) fp = None"
    and "rows_AuthzDeleteByProfileID d1 fp (ac_authz st1) = (tbl1, Inr revoked)" "sql_uuid d1 fp = Inr fp"
    and "rows_AuthzUpsertWithDefaults d2 ident (zero_Authz\<lparr>az_ProfileID := fp, az_Usermanagement := um\<rparr>) tbl1 = (tbl2, Inr granted)"
    and "sql_uuid d2 fp = Inr fp" "ident \<noteq> fp" "\<And>n. sql_err (ky_db e2 n) = None"
  shows "snd (ImportParsed e2 parsed (st1\<lparr>ac_authz := tbl2\<rparr>)) =
    Wrap (Some (sql_duplicate (ky_db e2 (Suc (ac_stmts st1))))) ''unable to setup authorizations''"
proof -
  from ImportParsed_rows [OF assms(1) assms(2) [unfolded assms(5)]] assms(5,6) obtain a where
    a: "ac_authz st1 = ac_authz st @ [a]" "az_ProfileID a = fp" by auto
  have tbl1: "tbl1 = filter (\<lambda>r. az_ProfileID r \<noteq> fp) (ac_authz st1)"
    using assms(7,8) by (auto simp: rows_AuthzDeleteByProfileID_def uuid_arg_def delete_where_def split: option.splits)
  then have "row_of az_ProfileID tbl1 fp = None" by (auto simp: row_of_None_iff)
  with assms(9,10) have tbl2: "tbl2 = tbl1 @ [granted]" "az_ProfileID granted = fp" "az_ID granted = ident"
    by (auto simp: rows_AuthzUpsertWithDefaults_def uuid_arg_def upsert_unique_def insert_unique_def row_of_None_iff
        split: option.splits if_splits)
  have gone: "fp \<notin> set (map az_ID tbl2)"
    using assms(6,11) a tbl1 tbl2 by (auto simp: row_of_None_iff)
  let ?st = "st1\<lparr>ac_authz := tbl2\<rparr>" and ?d = "ky_db e2 (ac_stmts st1)"
  let ?pf = "zero_Profile\<lparr>pf_ID := fp, pf_Description := ps_Comment parsed\<rparr>"
  obtain tbl p where up: "upsert pf_ID ?d (Profile_conflict ?d) (Profile_row ?d fp (ky_draw e2 (ac_stmts st1)) ?pf)
      (ac_profiles st1) = (tbl, Inr p)"
    using upsert_total [of ?d "Profile_conflict ?d" _ "\<lambda>old. old\<lparr>pf_UpdatedAt := sql_now ?d\<rparr>", OF assms(12)]
    by (metis Profile_conflict_def)
  from profiles.upsert_stored [OF up] have p: "pf_ID p = fp"
    using row_of_Some [of pf_ID tbl fp p] by (auto simp: Profile_row_def)
  have one: "on_profiles (ky_db e2) (\<lambda>d. ProfileInsertWithID d (ky_draw e2 (ac_stmts ?st)) ?pf) ?st =
      (?st\<lparr>ac_stmts := Suc (ac_stmts st1), ac_profiles := tbl\<rparr>, Inr p)"
    using up assms(3) by (simp add: on_profiles_def ProfileInsertWithID_def uuid_arg_def casts_to_def)
  have "AuthzInsertWithIDDefaults (ky_db e2 (Suc (ac_stmts st1)))
      (Clone (zero_Authz\<lparr>az_ID := fp, az_ProfileID := pf_ID p\<rparr>) [AuthzOptionAdmin]) tbl2 =
      (tbl2, Inl (sql_duplicate (ky_db e2 (Suc (ac_stmts st1)))))"
    using gone tbl2 p assms(3,12)
    by (simp add: AuthzInsertWithIDDefaults_def uuid_arg_def casts_to_def AuthzOptionAdmin_def upsert_unique_def
        insert_unique_def clashes_iff)
  with one assms(4,5) show ?thesis
    by (simp add: ImportParsed_def on_authz_def Let_def)
qed


definition no_accounts :: accounts where
  "no_accounts = \<lparr>ac_daemons = [], ac_profiles = [], ac_tokens = [], ac_authz = [], ac_identities = [], ac_stmts = 0\<rparr>"


definition plain_keys :: key_env where
  "plain_keys = \<lparr>ky_md5uuid = (\<lambda>_. ''k''), ky_db = (\<lambda>_. plain_db), ky_draw = (\<lambda>_. ''w'')\<rparr>"

definition one_key :: Parsed where
  "one_key = \<lparr>ps_PublicKey = [1], ps_Comment = [], ps_Options = []\<rparr>"

definition key_request :: request where
  "key_request = \<lparr>rMethod = ''GET'', rHost = [], rPath = ''/'', rQuery = [], rHeader = (\<lambda>_. [''k'']), rBody = [], rTLS = False\<rparr>"

lemmas import_eval = ImportParsed_def on_profiles_def on_authz_def on_identities_def ProfileInsertWithID_def
  AuthzInsertWithIDDefaults_def IdentityInsertWithDefaults_def insert_identity_def uuid_arg_def upsert_unique_def upsert_def
  insert_unique_def clashes_def plain_db_def plain_keys_def one_key_def no_accounts_def FingerprintMD5_def zero_Authz_def
  AuthzOptionAdmin_def Profile_row_def Identity_row_def zero_Profile_def zero_Identity_def

lemma first_import: "\<exists>st'. ImportParsed plain_keys one_key no_accounts = (st', None) \<and>
    ac_authz st' = [\<lparr>az_CreatedAt = 7, az_ID = ''k'', az_ProfileID = ''k'', az_UpdatedAt = 0, az_Usermanagement = True\<rparr>]"
  by (simp add: import_eval Let_def)

theorem imported_key_manages_witness:
  "\<exists>st' w. ImportParsed plain_keys one_key no_accounts = (st', None) \<and>
    authz plain_api (authz_map (ac_authz st')) None fresh_response key_request = Return (authz_map (ac_authz st'), w)"
proof -
  obtain st' where st': "ImportParsed plain_keys one_key no_accounts = (st', None)" using first_import by blast
  have "strip_bearer ''k'' = ''k''" by (rule strip_bearer_id) simp
  then have "IssuerSubjectID (parse_registered plain_api) (algos plain_api) (jwtsecret plain_api) key_request = Inr ([], ''k'')"
    by (simp add: IssuerSubjectID_def BearerFromHTTPContext_def Validate_def plain_api_def key_request_def hdr_get_def Let_def)
  note session = this
  have "casts_to plain_keys ''k''" "''k'' = FingerprintMD5 (ky_md5uuid plain_keys) (ps_PublicKey one_key)"
    "row_of az_ID (ac_authz no_accounts) ''k'' = None" "row_of az_ProfileID (ac_authz no_accounts) ''k'' = None"
    "row_of is_ID (ac_identities no_accounts) ''k'' = None" "(Inr :: bytes \<Rightarrow> goerr + bytes) (ps_PublicKey one_key) = Inr (ps_PublicKey one_key)"
    "db_err plain_api = None" "sign plain_api (jwtsecret plain_api) (issued plain_api ''k'' True) = Inr ''t''"
    by (simp_all add: casts_to_def plain_keys_def plain_db_def FingerprintMD5_def no_accounts_def row_of_def plain_api_def)
  from imported_key_manages [where parse_key = Inr, OF st' this(1-7) session this(8)] st' show ?thesis by blast
qed

theorem regranted_import_fails_witness:
  "\<exists>st1 tbl1 revoked tbl2 granted. ImportParsed plain_keys one_key no_accounts = (st1, None) \<and>
    rows_AuthzDeleteByProfileID plain_db ''k'' (ac_authz st1) = (tbl1, Inr revoked) \<and>
    rows_AuthzUpsertWithDefaults plain_db ''r'' (zero_Authz\<lparr>az_ProfileID := ''k'', az_Usermanagement := True\<rparr>) tbl1 = (tbl2, Inr granted) \<and>
    snd (ImportParsed plain_keys one_key (st1\<lparr>ac_authz := tbl2\<rparr>)) \<noteq> None"
proof -
  obtain st' where st': "ImportParsed plain_keys one_key no_accounts = (st', None)"
    "ac_authz st' = [\<lparr>az_CreatedAt = 7, az_ID = ''k'', az_ProfileID = ''k'', az_UpdatedAt = 0, az_Usermanagement = True\<rparr>]"
    using first_import by blast
  then obtain revoked where del: "rows_AuthzDeleteByProfileID plain_db ''k'' (ac_authz st') = ([], Inr revoked)"
    by (simp add: rows_AuthzDeleteByProfileID_def uuid_arg_def plain_db_def delete_where_def query_row_def)
  obtain tbl2 granted where up: "rows_AuthzUpsertWithDefaults plain_db ''r''
      (zero_Authz\<lparr>az_ProfileID := ''k'', az_Usermanagement := True\<rparr>) [] = (tbl2, Inr granted)"
    by (simp add: rows_AuthzUpsertWithDefaults_def uuid_arg_def plain_db_def upsert_unique_def insert_unique_def clashes_def)
  have cast: "casts_to plain_keys ''k''" by (simp add: casts_to_def plain_keys_def plain_db_def)
  from regranted_import_fails [OF st'(1) cast cast refl _ _ del _ up]
  have "snd (ImportParsed plain_keys one_key (st'\<lparr>ac_authz := tbl2\<rparr>)) =
      Wrap (Some (sql_duplicate (ky_db plain_keys (Suc (ac_stmts st'))))) ''unable to setup authorizations''"
    by (simp add: plain_keys_def plain_db_def FingerprintMD5_def no_accounts_def row_of_def)
  with st' del up show ?thesis by (auto simp: Wrap_def)
qed

end
