(* ===== verification/Accountsapi.thy ===== *)
theory Accountsapi
  imports Mediaapi Metadb
begin

text \<open>
  The services over daemons and profiles: \<^verbatim>\<open>shallows/metaapi/http.daemons.go\<close> and
  \<^verbatim>\<open>http.usermanagement.go\<close> with the conversions of \<^verbatim>\<open>daemon.go\<close> and \<^verbatim>\<open>profile.go\<close>.

  The state are the tables of \<open>Metadb\<close>. A message is the record of its fields; a field that is empty is left out of
  the JSON the conversions go through, so the field of the row keeps its zero value. The decoders of forms,
  bodies and times and the order of a select without \<^verbatim>\<open>ORDER BY\<close> are parameters.
\<close>

section \<open>Messages\<close>

record Daemon_msg =
  dg_Id :: string
  dg_CreatedAt :: string
  dg_UpdatedAt :: string
  dg_Description :: string
  dg_Hostname :: string

record Profile_msg =
  pg_Id :: string
  pg_AccountId :: string
  pg_SessionWatermark :: string
  pg_CreatedAt :: string
  pg_UpdatedAt :: string
  pg_DisabledAt :: string
  pg_DisabledManuallyAt :: string
  pg_DisabledPendingApprovalAt :: string
  pg_Display :: string
  pg_Email :: string

datatype account_answer =
    DaemonSearchResponse search_request "Daemon_msg list"
  | DaemonCreateResponse Daemon_msg
  | DaemonLookupResponse Daemon_msg
  | DaemonDeleteResponse Daemon_msg
  | ProfileSearchResponse search_request "Profile_msg list"
  | ProfileLookupResponse Profile_msg

record accounts_env =
  ae_parse :: "RegisteredClaims jwt_parse"
  ae_algos :: "string list"
  ae_secret :: bytes
  ae_malformed :: "request \<Rightarrow> bool"
  ae_encode :: "account_answer \<Rightarrow> goerr + string"
  ae_time :: "instant \<Rightarrow> string"
  ae_parse_time :: "string \<Rightarrow> goerr + instant"
  ae_body :: "bytes \<Rightarrow> goerr + Daemon_msg option"
  ae_decode :: "request \<Rightarrow> search_request \<Rightarrow> goerr + search_request"
  ae_md5uuid :: "bytes \<Rightarrow> string"
  ae_db :: "nat \<Rightarrow> sqldb"
  ae_daemon_order :: "Daemon list \<Rightarrow> Daemon list"
  ae_profile_order :: "Profile list \<Rightarrow> Profile list"

type_synonym accounts_handler = "(accounts, unit) handler"

text \<open>The times of a row that is encoded are in the range of RFC 3339, so no conversion of a row fails.\<close>

definition NewDaemonFromMetaDaemon :: "accounts_env \<Rightarrow> Daemon \<Rightarrow> Daemon_msg" where
  "NewDaemonFromMetaDaemon e mp =
     (let v = Clone mp [Daemon_JSONSafeEncode] in
      \<lparr>dg_Id = dm_ID v, dg_CreatedAt = ae_time e (dm_CreatedAt v), dg_UpdatedAt = ae_time e (dm_UpdatedAt v),
       dg_Description = dm_Description v, dg_Hostname = dm_Hostname v\<rparr>)"

definition json_time :: "accounts_env \<Rightarrow> string \<Rightarrow> goerr + instant" where
  "json_time e s = (if s = [] then Inr 0 else ae_parse_time e s)"

text \<open>A message that is missing is \<^verbatim>\<open>null\<close> and leaves the zero value.\<close>

definition NewMetadaemonFromDaemon :: "accounts_env \<Rightarrow> Daemon_msg option \<Rightarrow> (Daemon \<Rightarrow> Daemon) list \<Rightarrow> goerr + Daemon" where
  "NewMetadaemonFromDaemon e v options =
     (case v of
        None \<Rightarrow> Inr (Clone zero_Daemon options)
      | Some d \<Rightarrow>
          (case (json_time e (dg_CreatedAt d), json_time e (dg_UpdatedAt d)) of
             (Inl err, _) \<Rightarrow> Inl err
           | (_, Inl err) \<Rightarrow> Inl err
           | (Inr c, Inr u) \<Rightarrow>
               Inr (Clone \<lparr>dm_CreatedAt = c, dm_Description = dg_Description d, dm_Hostname = dg_Hostname d, dm_ID = dg_Id d,
                 dm_UpdatedAt = u\<rparr> options)))"

text \<open>The description of a profile has no field in the message: it is dropped.\<close>

definition NewProfileFromMetaProfile :: "accounts_env \<Rightarrow> Profile \<Rightarrow> Profile_msg" where
  "NewProfileFromMetaProfile e mp =
     (let p = Clone mp [ProfileOptionJSONSafeEncode, ProfileOptionTimezoneUTC] in
      \<lparr>pg_Id = pf_ID p, pg_AccountId = [], pg_SessionWatermark = pf_SessionWatermark p,
       pg_CreatedAt = ae_time e (pf_CreatedAt p), pg_UpdatedAt = ae_time e (pf_UpdatedAt p),
       pg_DisabledAt = ae_time e (pf_DisabledAt p), pg_DisabledManuallyAt = ae_time e (pf_DisabledManuallyAt p),
       pg_DisabledPendingApprovalAt = ae_time e (pf_DisabledPendingApprovalAt p), pg_Display = [], pg_Email = []\<rparr>)"

section \<open>Handlers\<close>

definition on_daemons ::
  "(nat \<Rightarrow> sqldb) \<Rightarrow> (sqldb \<Rightarrow> Daemon list \<Rightarrow> Daemon list \<times> 'a) \<Rightarrow> accounts \<Rightarrow> accounts \<times> 'a" where
  "on_daemons db q st =
     (let (tbl, res) = q (db (ac_stmts st)) (ac_daemons st)
      in (st\<lparr>ac_stmts := Suc (ac_stmts st), ac_daemons := tbl\<rparr>, res))"

definition reply :: "accounts_env \<Rightarrow> accounts \<Rightarrow> response_writer \<Rightarrow> account_answer \<Rightarrow> (accounts \<times> response_writer) outcome" where
  "reply e st w x = Return (st, fst (WriteJSON (ae_encode e) w x))"

definition with_token :: "accounts_env \<Rightarrow> accounts_handler \<Rightarrow> accounts_handler" where
  "with_token e = AuthenticateWithToken (ae_parse e) (ae_algos e) (ae_secret e)"

definition parsed_form :: "accounts_env \<Rightarrow> accounts_handler \<Rightarrow> accounts_handler" where
  "parsed_form e h st ctx w r = ParseForm (ae_malformed e r) h st ctx w r"

text \<open>The messages of the rows of a scanner, or its error.\<close>

definition messages :: "('r \<Rightarrow> 'm) \<Rightarrow> 'r result_set \<Rightarrow> goerr + 'm list" where
  "messages f rs =
     (case ScanEach rs (\<lambda>items v. (items @ [f v], None)) [] of
        (items, None) \<Rightarrow> Inr items
      | (items, Some err) \<Rightarrow> Inl err)"

definition page_of :: "u64 \<Rightarrow> search_request \<Rightarrow> search_request" where
  "page_of limit req = req\<lparr>q_Limit := min_from (q_Limit req) [limit]\<rparr>"

definition daemons_page :: "accounts_env \<Rightarrow> search_request \<Rightarrow> sqldb \<Rightarrow> Daemon list \<Rightarrow> Daemon result_set" where
  "daemons_page e req db = select_page db (\<lambda>_. True) (ae_daemon_order e) (q_Offset req * q_Limit req) (q_Limit req)"

definition daemons_search :: "accounts_env \<Rightarrow> accounts_handler" where
  "daemons_search e st ctx w r =
     (case ae_decode e r \<lparr>q_Query = [], q_Offset = 0, q_Limit = 128\<rparr> of
        Inl err \<Rightarrow> refuse st w 400
      | Inr req \<Rightarrow>
          let next = page_of 128 req in
          (case on_daemons (ae_db e) (\<lambda>d tbl. (tbl, messages (NewDaemonFromMetaDaemon e) (daemons_page e next d tbl))) st of
             (st1, Inl err) \<Rightarrow> refuse st1 w 500
           | (st1, Inr items) \<Rightarrow> reply e st1 w (DaemonSearchResponse (next\<lparr>q_Offset := q_Offset next + 1\<rparr>) items)))"

definition daemons_create :: "accounts_env \<Rightarrow> accounts_handler" where
  "daemons_create e st ctx w r =
     (case ae_body e (rBody r) of
        Inl err \<Rightarrow> refuse st w 400
      | Inr msg \<Rightarrow>
          (case NewMetadaemonFromDaemon e msg
              [DaemonOptionMaybeID (ae_md5uuid e), DaemonOptionEnsureDescription, Daemon_JSONSafeDecode] of
             Inl err \<Rightarrow> refuse st w 400
           | Inr v \<Rightarrow>
               (case on_daemons (ae_db e) (\<lambda>d. DaemonInsertWithDefaults d v) st of
                  (st1, Inl err) \<Rightarrow> refuse st1 w 500
                | (st1, Inr v) \<Rightarrow> reply e st1 w (DaemonCreateResponse (NewDaemonFromMetaDaemon e v)))))"

definition daemons_latest :: "accounts_env \<Rightarrow> accounts_handler" where
  "daemons_latest e st ctx w r =
     (case on_daemons (ae_db e) (\<lambda>d tbl. (tbl, DaemonFindByLatestUpdated d tbl)) st of
        (st1, Inl err) \<Rightarrow> refuse st1 w (row_status err)
      | (st1, Inr v) \<Rightarrow> reply e st1 w (DaemonLookupResponse (NewDaemonFromMetaDaemon e v)))"

definition daemons_touch :: "accounts_env \<Rightarrow> string \<Rightarrow> accounts_handler" where
  "daemons_touch e ident st ctx w r =
     (case on_daemons (ae_db e) (\<lambda>d. DaemonTouch d ident) st of
        (st1, Inl err) \<Rightarrow> refuse st1 w (row_status err)
      | (st1, Inr v) \<Rightarrow> reply e st1 w (DaemonLookupResponse (NewDaemonFromMetaDaemon e v)))"

definition daemons_delete :: "accounts_env \<Rightarrow> string \<Rightarrow> accounts_handler" where
  "daemons_delete e ident st ctx w r =
     (case on_daemons (ae_db e) (\<lambda>d. DaemonDeleteByID d ident) st of
        (st1, Inl err) \<Rightarrow> refuse st1 w 500
      | (st1, Inr v) \<Rightarrow> reply e st1 w (DaemonDeleteResponse (NewDaemonFromMetaDaemon e v)))"

definition daemons_Serve :: "accounts_env \<Rightarrow> accounts_handler" where
  "daemons_Serve e st ctx w r =
     (if rPath r = ''/latest'' \<and> rMethod r = ''GET'' then with_token e (daemons_latest e) st ctx w r
      else if rPath r = ''/'' then
        (if rMethod r = ''GET'' then parsed_form e (with_token e (daemons_search e)) st ctx w r
         else if rMethod r = ''POST'' then with_token e (daemons_create e) st ctx w r
         else Return (st, WriteHeader 405 w))
      else (case path_id (rPath r) of
          None \<Rightarrow> Return (st, WriteHeader 404 w)
        | Some ident \<Rightarrow>
            if rMethod r = ''PUT'' then with_token e (daemons_touch e ident) st ctx w r
            else if rMethod r = ''DELETE'' then with_token e (daemons_delete e ident) st ctx w r
            else Return (st, WriteHeader 405 w)))"

definition profiles_search :: "accounts_env \<Rightarrow> accounts_handler" where
  "profiles_search e st ctx w r =
     (case ae_decode e r \<lparr>q_Query = [], q_Offset = 0, q_Limit = 100\<rparr> of
        Inl err \<Rightarrow> refuse st w 400
      | Inr req \<Rightarrow>
          let next = page_of 100 req in
          (case on_profiles (ae_db e) (\<lambda>d tbl. (tbl, messages (NewProfileFromMetaProfile e)
              (select_page d (\<lambda>_. True) (ae_profile_order e) (q_Offset next * q_Limit next) (q_Limit next) tbl))) st of
             (st1, Inl err) \<Rightarrow> refuse st1 w 500
           | (st1, Inr items) \<Rightarrow> reply e st1 w (ProfileSearchResponse (next\<lparr>q_Offset := q_Offset next + 1\<rparr>) items)))"

definition profiles_find :: "accounts_env \<Rightarrow> string \<Rightarrow> accounts_handler" where
  "profiles_find e ident st ctx w r =
     (case on_profiles (ae_db e) (\<lambda>d tbl. (tbl, ProfileFindByID d ident tbl)) st of
        (st1, Inl err) \<Rightarrow> refuse st1 w 404
      | (st1, Inr p) \<Rightarrow> reply e st1 w (ProfileLookupResponse (NewProfileFromMetaProfile e p)))"

definition profiles_Serve :: "accounts_env \<Rightarrow> accounts_handler" where
  "profiles_Serve e st ctx w r =
     (if rPath r = ''/'' then
        (if rMethod r = ''GET'' then parsed_form e (with_token e (profiles_search e)) st ctx w r
         else Return (st, WriteHeader 405 w))
      else (case path_id (rPath r) of
          None \<Rightarrow> Return (st, WriteHeader 404 w)
        | Some ident \<Rightarrow>
            if rMethod r = ''GET'' then parsed_form e (with_token e (profiles_find e ident)) st ctx w r
            else Return (st, WriteHeader 405 w)))"

section \<open>Lemmas\<close>

lemma each_rows_collect: "each_rows (\<lambda>items v. (items @ [f v], None)) items (map Inr xs) None = (items @ map f xs, None)"
  by (induction xs arbitrary: items) simp_all

lemma messages_page:
  "sql_err d = None \<Longrightarrow>
   messages f (select_page d p order skip limit tbl) = Inr (map f (take (unat limit) (drop (unat skip) (order (filter p tbl)))))"
  by (simp add: messages_def ScanEach_def select_page_def each_rows_collect)

text \<open>The row with the strictly latest time is the one found.\<close>

lemma newest_single:
  assumes "r \<in> set rows" "\<And>s. s \<in> set rows \<Longrightarrow> s = r \<or> t s < t r"
  shows "newest t rows \<noteq> [] \<and> set (newest t rows) = {r}"
proof -
  have "set (newest t rows) = {r}"
    using assms unfolding newest_def list_all_iff by (fastforce simp: not_le)
  then show ?thesis by force
qed

lemma query_row_single: "rows \<noteq> [] \<Longrightarrow> set rows = {r} \<Longrightarrow> query_row rows = Inr r"
  by (cases rows) (auto simp: query_row_def)

lemma touch_row:
  assumes "sql_err d = None" "sql_uuid d ident = Inr u" "r \<in> set tbl" "dm_ID r = u" "unique_ok [dm_ID, dm_Hostname] tbl"
  shows "DaemonTouch d ident tbl =
    (map (\<lambda>s. if dm_ID s = u then s\<lparr>dm_UpdatedAt := sql_now d\<rparr> else s) tbl, Inr (r\<lparr>dm_UpdatedAt := sql_now d\<rparr>))"
proof -
  have "inj_on dm_ID (set tbl)" using assms(5) by (simp add: unique_ok_def distinct_map)
  then have "set (filter (\<lambda>s. dm_ID s = u) tbl) = {r}"
    using assms(3,4) by (auto dest: inj_onD)
  moreover from this have "filter (\<lambda>s. dm_ID s = u) tbl \<noteq> []" by force
  ultimately have "query_row (map (\<lambda>s. s\<lparr>dm_UpdatedAt := sql_now d\<rparr>) (filter (\<lambda>s. dm_ID s = u) tbl)) =
      Inr (r\<lparr>dm_UpdatedAt := sql_now d\<rparr>)"
    by (intro query_row_single) auto
  then show ?thesis
    using assms(1,2) by (simp add: DaemonTouch_def uuid_arg_def update_where_all update_all_def)
qed

lemma with_token_valid:
  "Validate (ae_parse e) (ae_algos e) ''*jwt.RegisteredClaims'' (ae_secret e) (Bearer r) = Inr b \<Longrightarrow>
   with_token e h st ctx w r = h st ctx w r"
  by (simp add: with_token_def AuthenticateWithToken_def)

lemma with_token_refused:
  "Validate (ae_parse e) (ae_algos e) ''*jwt.RegisteredClaims'' (ae_secret e) (Bearer r) = Inl err \<Longrightarrow>
   with_token e h st ctx w r = Return (st, Unauthorized w)"
  by (simp add: with_token_def AuthenticateWithToken_def)

section \<open>Properties\<close>

text \<open>A request without a valid token changes none of the tables of the accounts, whatever its path, method
  and body, and is answered with an error, by the service of daemons and by the service of profiles.\<close>

theorem accounts_Serve_guarded:
  assumes "Validate (ae_parse e) (ae_algos e) ''*jwt.RegisteredClaims'' (ae_secret e) (Bearer r) = Inl err"
    and "serve = daemons_Serve e \<or> serve = profiles_Serve e" "serve st () w r = Return (st', w')" "wSent w = None"
  shows "st' = st \<and> (\<exists>code h. wSent w' = Some (code, h) \<and> code \<in> {400, 401, 404, 405})"
  using assms(2-4) unfolding daemons_Serve_def profiles_Serve_def
  by (auto simp: parsed_form_def ParseForm_def with_token_refused [OF assms(1)] Unauthorized_def WriteHeader_def resp_Write_def
      Header_Set_def split: if_splits option.splits)

text \<open>Touching a daemon makes it the latest. After a request with a valid token has touched a known daemon, while the
  clock of the database is past the time of every other row, the request for the latest daemon is answered with that one.\<close>

theorem touched_daemon_latest:
  assumes "\<And>r. r \<in> {put, get} \<Longrightarrow> Validate (ae_parse e) (ae_algos e) ''*jwt.RegisteredClaims'' (ae_secret e) (Bearer r) = Inr tok"
    and "rMethod put = ''PUT''" "rPath put = CHR ''/'' # ident" "ident \<noteq> []" "CHR ''/'' \<notin> set ident" "ident \<noteq> ''latest''"
    and "rMethod get = ''GET''" "rPath get = ''/latest''"
    and "\<And>k. sql_err (ae_db e k) = None" "sql_uuid (ae_db e (ac_stmts st)) ident = Inr u"
    and "accounts_ok st" "d \<in> set (ac_daemons st)" "dm_ID d = u"
    and "\<And>s. s \<in> set (ac_daemons st) \<Longrightarrow> dm_UpdatedAt s < sql_now (ae_db e (ac_stmts st))"
  shows "\<exists>st1 w1 st2. daemons_Serve e st () w put = Return (st1, w1) \<and>
    daemons_Serve e st1 () w' get = Return (st2, fst (WriteJSON (ae_encode e) w' (DaemonLookupResponse
      (NewDaemonFromMetaDaemon e (d\<lparr>dm_UpdatedAt := sql_now (ae_db e (ac_stmts st))\<rparr>)))))"
proof -
  let ?db = "ae_db e (ac_stmts st)"
  let ?d = "d\<lparr>dm_UpdatedAt := sql_now ?db\<rparr>"
  let ?rows = "map (\<lambda>s. if dm_ID s = u then s\<lparr>dm_UpdatedAt := sql_now ?db\<rparr> else s) (ac_daemons st)"
  let ?st1 = "st\<lparr>ac_stmts := Suc (ac_stmts st), ac_daemons := ?rows\<rparr>"
  have ok: "unique_ok [dm_ID, dm_Hostname] (ac_daemons st)" using assms(11) by (simp add: accounts_ok_def)
  then have inj: "inj_on dm_ID (set (ac_daemons st))" by (simp add: unique_ok_def distinct_map)
  have "path_id (rPath put) = Some ident" "rPath put \<noteq> ''/latest''" "rPath put \<noteq> ''/''"
    using assms(3-6) by (auto simp: path_id_def)
  then have one: "daemons_Serve e st () w put = reply e ?st1 w (DaemonLookupResponse (NewDaemonFromMetaDaemon e ?d))"
    using touch_row [OF assms(9,10,12,13) ok] assms(2)
    by (simp add: daemons_Serve_def with_token_valid [OF assms(1)] daemons_touch_def on_daemons_def)
  have "newest dm_UpdatedAt ?rows \<noteq> [] \<and> set (newest dm_UpdatedAt ?rows) = {?d}"
    using assms(12-14) inj by (intro newest_single) (auto dest: inj_onD)
  then have "DaemonFindByLatestUpdated (ae_db e (Suc (ac_stmts st))) ?rows = Inr ?d"
    using assms(9) by (simp add: DaemonFindByLatestUpdated_def query_row_single)
  then show ?thesis
    using one assms(7,8) by (simp add: daemons_Serve_def with_token_valid [OF assms(1)] daemons_latest_def on_daemons_def reply_def)
qed

text \<open>Following the offsets of the answers, the pages of the search for daemons hold every daemon once. The order of
  the select, which has no \<^verbatim>\<open>ORDER BY\<close>, only has to be the same for every page.\<close>

theorem daemon_pages_complete:
  assumes "sql_err d = None" "\<And>rows. mset (ae_daemon_order e rows) = mset rows"
    and "0 < q_Limit req" "n * unat (q_Limit req) < 2 ^ 64" "length tbl \<le> n * unat (q_Limit req)"
    and "\<And>k. k < n \<Longrightarrow>
      messages (NewDaemonFromMetaDaemon e) (daemons_page e (req\<lparr>q_Offset := of_nat k\<rparr>) d tbl) = Inr (pages k)"
  shows "mset (concat (map pages [0..<n])) = mset (map (NewDaemonFromMetaDaemon e) tbl)"
proof -
  let ?l = "unat (q_Limit req)" and ?all = "map (NewDaemonFromMetaDaemon e) (ae_daemon_order e tbl)"
  have page: "pages k = take ?l (drop (k * ?l) ?all)" if "k < n" for k
    using assms(6) [OF that] assms(1) page_offset [OF assms(3,4) that]
    by (simp add: daemons_page_def messages_page take_map drop_map)
  have "length ?all \<le> n * ?l" using assms(5) mset_eq_length [OF assms(2)] by simp
  with page have "concat (map pages [0..<n]) = ?all" by (rule concat_pages)
  then show ?thesis using assms(2) by simp
qed

text \<open>Making a daemon again keeps what is known of it. A daemon whose identifier is known is only touched: the row, and
  so the answer, keeps the name of the host and the description it has. An unknown identifier for a host that
  is known fails and changes no daemon.\<close>

theorem recreated_daemon:
  assumes "ae_body e (rBody r) = Inr msg" "NewMetadaemonFromDaemon e msg
      [DaemonOptionMaybeID (ae_md5uuid e), DaemonOptionEnsureDescription, Daemon_JSONSafeDecode] = Inr v"
    and "sql_err (ae_db e (ac_stmts st)) = None" "sql_uuid (ae_db e (ac_stmts st)) (dm_ID v) = Inr u" "accounts_ok st"
    and "d \<in> set (ac_daemons st)" "dm_ID d = u \<or> dm_Hostname d = dm_Hostname v \<and> u \<notin> dm_ID ` set (ac_daemons st)"
  shows "\<exists>st'. daemons_create e st () w r = (if dm_ID d = u
      then reply e st' w (DaemonCreateResponse (NewDaemonFromMetaDaemon e (d\<lparr>dm_UpdatedAt := sql_now (ae_db e (ac_stmts st))\<rparr>)))
      else refuse st' w 500) \<and>
    ac_daemons st' = map (\<lambda>s. if dm_ID s = u then s\<lparr>dm_UpdatedAt := sql_now (ae_db e (ac_stmts st))\<rparr> else s) (ac_daemons st)"
proof -
  let ?db = "ae_db e (ac_stmts st)" and ?tbl = "ac_daemons st"
  let ?new = "Daemon_row ?db (v\<lparr>dm_ID := u\<rparr>)"
  have ok: "unique_ok [dm_ID, dm_Hostname] ?tbl" using assms(5) by (simp add: accounts_ok_def)
  have ins: "DaemonInsertWithDefaults ?db v ?tbl =
      upsert_unique dm_ID [dm_Hostname] ?db (Daemon_conflict ?db) ?new ?tbl"
    using assms(4) by (simp add: DaemonInsertWithDefaults_def uuid_arg_def)
  show ?thesis
  proof (cases "dm_ID d = u")
    case True
    then have known: "u \<in> set (map dm_ID ?tbl)" using assms(6) by force
    then have "DaemonInsertWithDefaults ?db v ?tbl = DaemonTouch ?db (dm_ID v) ?tbl"
      using assms(3,4) unfolding ins by (simp add: upsert_unique_def upsert_def Daemon_row_def Daemon_conflict_def DaemonTouch_def uuid_arg_def)
    with True show ?thesis
      using assms(1,2) touch_row [OF assms(3,4,6) True ok]
      by (intro exI [where x = "fst (on_daemons (ae_db e) (\<lambda>d. DaemonInsertWithDefaults d v) st)"])
        (simp add: daemons_create_def on_daemons_def)
  next
    case False
    then have "clashes [dm_Hostname] ?new ?tbl" "u \<notin> dm_ID ` set ?tbl"
      using assms(6,7) by (auto simp: clashes_iff Daemon_row_def) (metis image_eqI)
    then show ?thesis using False assms(1-3)
      by (intro exI [where x = "st\<lparr>ac_stmts := Suc (ac_stmts st)\<rparr>"])
        (auto simp: daemons_create_def on_daemons_def ins upsert_unique_def insert_unique_def Daemon_row_def intro!: map_idI [symmetric])
  qed
qed

text \<open>A service for one request, and the daemons the witnesses use.\<close>

definition demo_account_service :: "string list \<Rightarrow> accounts_env" where
  "demo_account_service tokens = \<lparr>ae_parse = (\<lambda>_ _ s. if s \<in> set tokens then Inr (undefined, True) else Inl (Fundamental ''invalid'')),
     ae_algos = [''HS512''], ae_secret = [], ae_malformed = (\<lambda>_. False), ae_encode = (\<lambda>_. Inr ''{}''), ae_time = (\<lambda>_. ''t''),
     ae_parse_time = (\<lambda>_. Inr 0), ae_body = (\<lambda>_. Inr (Some \<lparr>dg_Id = ''c'', dg_CreatedAt = [], dg_UpdatedAt = [],
       dg_Description = ''new'', dg_Hostname = ''h''\<rparr>)), ae_decode = (\<lambda>_ req. Inr req), ae_md5uuid = (\<lambda>_. ''m''),
     ae_db = (\<lambda>_. plain_db), ae_daemon_order = (\<lambda>rows. rows), ae_profile_order = (\<lambda>rows. rows)\<rparr>"

definition two_daemons :: accounts where
  "two_daemons = no_accounts\<lparr>ac_daemons := [zero_Daemon\<lparr>dm_ID := ''a'', dm_Hostname := ''h''\<rparr>,
     zero_Daemon\<lparr>dm_ID := ''b'', dm_Hostname := ''i'', dm_UpdatedAt := 3\<rparr>]\<rparr>"

lemma two_daemons_ok: "accounts_ok two_daemons"
  by (simp add: accounts_ok_def two_daemons_def no_accounts_def unique_ok_def zero_Daemon_def)

lemma no_bearer: "rHeader r = (\<lambda>_. []) \<Longrightarrow> Bearer r = ''''"
  by (simp add: Bearer_def hdr_get_def ToLower_def)

lemma demo_valid: "rHeader r = (\<lambda>_. []) \<Longrightarrow>
    Validate (ae_parse (demo_account_service [''''])) (ae_algos (demo_account_service [''''])) ''*jwt.RegisteredClaims''
      (ae_secret (demo_account_service [''''])) (Bearer r) = Inr undefined"
  by (simp add: no_bearer Validate_def demo_account_service_def strip_bearer.simps)

theorem accounts_Serve_guarded_witness:
  "\<exists>w'. daemons_Serve (demo_account_service []) two_daemons () fresh_response (post_abc\<lparr>rMethod := ''DELETE'', rPath := ''/a''\<rparr>) =
     Return (two_daemons, w') \<and> (\<exists>code h. wSent w' = Some (code, h) \<and> code \<in> {400, 401, 404, 405})"
proof -
  let ?r = "post_abc\<lparr>rMethod := ''DELETE'', rPath := ''/a''\<rparr>" and ?e = "demo_account_service []"
  have "\<exists>err. Validate (ae_parse ?e) (ae_algos ?e) ''*jwt.RegisteredClaims'' (ae_secret ?e) (Bearer ?r) = Inl err"
    by (simp add: no_bearer post_abc_def Validate_def demo_account_service_def)
  then obtain err where bad: "Validate (ae_parse ?e) (ae_algos ?e) ''*jwt.RegisteredClaims'' (ae_secret ?e) (Bearer ?r) = Inl err"
    by blast
  obtain st' w' where run: "daemons_Serve ?e two_daemons () fresh_response ?r = Return (st', w')"
    using with_token_refused [OF bad] by (simp add: daemons_Serve_def path_id_def post_abc_def)
  then have "st' = two_daemons \<and> (\<exists>code h. wSent w' = Some (code, h) \<and> code \<in> {400, 401, 404, 405})"
    using accounts_Serve_guarded [OF bad, of "daemons_Serve ?e"] by (simp add: fresh_response_def)
  with run show ?thesis by blast
qed

theorem touched_daemon_latest_witness:
  "\<exists>st1 w1 st2. daemons_Serve (demo_account_service ['''']) two_daemons () fresh_response
      (post_abc\<lparr>rMethod := ''PUT'', rPath := ''/a''\<rparr>) = Return (st1, w1) \<and>
    daemons_Serve (demo_account_service ['''']) st1 () fresh_response (post_abc\<lparr>rMethod := ''GET'', rPath := ''/latest''\<rparr>) =
      Return (st2, fst (WriteJSON (\<lambda>_. Inr ''{}'') fresh_response (DaemonLookupResponse
        (NewDaemonFromMetaDaemon (demo_account_service ['''']) (zero_Daemon\<lparr>dm_ID := ''a'', dm_Hostname := ''h'', dm_UpdatedAt := 7\<rparr>)))))"
proof -
  let ?put = "post_abc\<lparr>rMethod := ''PUT'', rPath := ''/a''\<rparr>" and ?get = "post_abc\<lparr>rMethod := ''GET'', rPath := ''/latest''\<rparr>"
  have d: "ae_db (demo_account_service ts) = (\<lambda>_. plain_db)" "ae_encode (demo_account_service ts) = (\<lambda>_. Inr ''{}'')" "sql_now plain_db = 7" for ts
    by (simp_all add: demo_account_service_def plain_db_def)
  show ?thesis
    by (rule touched_daemon_latest [where e = "demo_account_service ['''']" and put = ?put and get = ?get and tok = undefined
        and ident = "''a''" and u = "''a''" and d = "zero_Daemon\<lparr>dm_ID := ''a'', dm_Hostname := ''h''\<rparr>" and st = two_daemons
        and w = fresh_response and w' = fresh_response, unfolded d])
      (insert two_daemons_ok, auto simp: plain_db_def two_daemons_def zero_Daemon_def demo_valid post_abc_def)
qed

definition daemon_request :: search_request where
  "daemon_request = \<lparr>q_Query = [], q_Offset = 0, q_Limit = 1\<rparr>"

theorem daemon_pages_complete_witness:
  "mset (concat (map (\<lambda>k. projr (messages (NewDaemonFromMetaDaemon (demo_account_service []))
      (daemons_page (demo_account_service []) (daemon_request\<lparr>q_Offset := of_nat k\<rparr>) plain_db (ac_daemons two_daemons)))) [0..<2])) =
   mset (map (NewDaemonFromMetaDaemon (demo_account_service [])) (ac_daemons two_daemons))"
  by (rule daemon_pages_complete [where e = "demo_account_service []" and d = plain_db and req = daemon_request and n = 2])
    (simp_all add: plain_db_def demo_account_service_def daemon_request_def two_daemons_def daemons_page_def messages_page)

theorem recreated_daemon_witness:
  "\<exists>st'. daemons_create (demo_account_service []) two_daemons () fresh_response post_abc = refuse st' fresh_response 500 \<and>
    ac_daemons st' = ac_daemons two_daemons"
proof -
  let ?v = "\<lparr>dm_CreatedAt = RFC3339NanoDecode 0, dm_Description = ''new'', dm_Hostname = ''h'', dm_ID = ''c'',
    dm_UpdatedAt = RFC3339NanoDecode 0\<rparr>"
  have "TrimSpace ''new'' \<noteq> []" "TrimSpace ''c'' \<noteq> []" by code_simp+
  then show ?thesis
    using recreated_daemon [of "demo_account_service []" post_abc "Some \<lparr>dg_Id = ''c'', dg_CreatedAt = [], dg_UpdatedAt = [],
       dg_Description = ''new'', dg_Hostname = ''h''\<rparr>" ?v two_daemons "''c''" "zero_Daemon\<lparr>dm_ID := ''a'', dm_Hostname := ''h''\<rparr>"
       fresh_response] two_daemons_ok
    by (simp add: demo_account_service_def plain_db_def two_daemons_def zero_Daemon_def NewMetadaemonFromDaemon_def json_time_def
        DaemonOptionMaybeID_def DaemonOptionEnsureDescription_def Daemon_JSONSafeDecode_def)
qed

end
