(* ===== verification/Vfs.thy ===== *)
theory Vfs
  imports Blockcache Gostd
begin

text \<open>
  \<^verbatim>\<open>shallows/blockcache/filesystem.go\<close>: files over a cache, their directories, and the
  filesystem of the files of one torrent.

  A \<open>File\<close> is the struct with the value of its atomic index; the operations that move
  the index return the file updated. The cache is a type parameter: a \<^verbatim>\<open>DirCache\<close>, or
  the store of another component, with its \<^verbatim>\<open>ReadAt\<close> and \<^verbatim>\<open>WriteAt\<close> as arguments of
  the operations. The prefix tree of \<^verbatim>\<open>github.com/porfirion/trie\<close> is a parameter, its
  \<^verbatim>\<open>Get\<close> and \<^verbatim>\<open>Put\<close> as functions.
\<close>

section \<open>Files\<close>

definition ModeDir :: u32 where "ModeDir = 0x80000000"
definition ModeType :: u32 where "ModeType = 0x8f280000"

record 'c File =
  fcache :: 'c
  Path :: string
  Offset :: u64
  Length :: u64
  fmode :: u32
  index :: u64
  ts :: int

type_synonym 'c FileOption = "'c File \<Rightarrow> 'c File"

definition WithInitialOffset :: "u64 \<Rightarrow> 'c FileOption" where
  "WithInitialOffset val f = f\<lparr>Offset := val\<rparr>"

definition WithInitialIndex :: "u64 \<Rightarrow> 'c FileOption" where
  "WithInitialIndex val f = f\<lparr>index := val\<rparr>"

definition WithReset :: "u64 \<Rightarrow> 'c FileOption" where
  "WithReset val f = f\<lparr>index := val\<rparr>"

definition NewFile ::
  "'c \<Rightarrow> int \<Rightarrow> string \<Rightarrow> u64 \<Rightarrow> u32 \<Rightarrow> 'c FileOption list \<Rightarrow> 'c File" where
  "NewFile dca t pth len md opts =
     Clone \<lparr>fcache = dca, Path = pth, Offset = 0, Length = len, fmode = md,
            index = 0, ts = t\<rparr> opts"

definition File_Clone :: "'c File \<Rightarrow> 'c File" where
  "File_Clone t = Clone t [WithReset 0]"

definition IsDir :: "'c File \<Rightarrow> bool" where
  "IsDir t \<longleftrightarrow> fmode t AND ModeDir \<noteq> 0"

definition Name :: "'c File \<Rightarrow> string" where
  "Name t = path_base (Path t)"

definition FileType :: "'c File \<Rightarrow> u32" where
  "FileType t = fmode t AND ModeType"

text \<open>\<^verbatim>\<open>Info\<close> embeds the file.\<close>

definition Info_Size :: "'c File \<Rightarrow> int" where
  "Info_Size t = sint (Length t)"

definition File_ReadAt ::
  "('c \<Rightarrow> 's \<Rightarrow> nat \<Rightarrow> int \<Rightarrow> read_result) \<Rightarrow> 'c File \<Rightarrow> 's \<Rightarrow> nat \<Rightarrow> int \<Rightarrow> read_result" where
  "File_ReadAt rd t s len off = rd (fcache t) s len (i64 (sint (Offset t) + off))"

definition File_Read ::
  "('c \<Rightarrow> 's \<Rightarrow> nat \<Rightarrow> int \<Rightarrow> read_result) \<Rightarrow> 'c File \<Rightarrow> 's \<Rightarrow> nat \<Rightarrow>
   ('c File \<times> bytes \<times> goerr option) outcome" where
  "File_Read rd t s len =
     (case File_ReadAt rd t s len (sint (index t)) of
        Panic \<Rightarrow> Panic
      | Return (bs, err) \<Rightarrow>
          Return (t\<lparr>index := index t + of_nat (length bs)\<rparr>, bs, err))"

definition File_WriteAt ::
  "('c \<Rightarrow> 's \<Rightarrow> bytes \<Rightarrow> int \<Rightarrow> ('s \<times> nat \<times> goerr option) outcome) \<Rightarrow>
   'c File \<Rightarrow> 's \<Rightarrow> bytes \<Rightarrow> int \<Rightarrow> ('s \<times> nat \<times> goerr option) outcome" where
  "File_WriteAt wr t s p off = wr (fcache t) s p off"

definition File_Write ::
  "('c \<Rightarrow> 's \<Rightarrow> bytes \<Rightarrow> int \<Rightarrow> ('s \<times> nat \<times> goerr option) outcome) \<Rightarrow>
   'c File \<Rightarrow> 's \<Rightarrow> bytes \<Rightarrow> ('c File \<times> 's \<times> nat \<times> goerr option) outcome" where
  "File_Write wr t s p =
     (case File_WriteAt wr t s p (sint (index t)) of
        Panic \<Rightarrow> Panic
      | Return (s', n, err) \<Rightarrow> Return (t\<lparr>index := index t + of_nat n\<rparr>, s', n, err))"

definition SeekStart :: int where "SeekStart = 0"
definition SeekCurrent :: int where "SeekCurrent = 1"
definition SeekEnd :: int where "SeekEnd = 2"

definition seek_err :: "int \<Rightarrow> goerr" where
  "seek_err res = Fundamental (''file: seek to negative index: '' @ format_int res)"

definition Seek :: "'c File \<Rightarrow> int \<Rightarrow> int \<Rightarrow> 'c File \<times> int \<times> goerr option" where
  "Seek t off whence =
     (if whence = SeekStart then
        (if off < 0 then (t, 0, Some (seek_err off))
         else (t\<lparr>index := word_of_int off\<rparr>, off, None))
      else if whence = SeekEnd then
        (let res = i64 (sint (Length t) + off) in
         if res < 0 then (t, 0, Some (seek_err res))
         else (t\<lparr>index := word_of_int res\<rparr>, res, None))
      else
        (let cur = index t; res = i64 (sint cur + off) in
         if res < 0 then (t, 0, Some (seek_err res))
         else (t\<lparr>index := word_of_int res\<rparr>, res, None)))"

section \<open>Directories\<close>

datatype 'c dirent = FileEnt "'c File" | DirEnt "'c File" "'c dirent list"

record 'c Dir =
  dfile :: "'c File"
  ent :: "'c dirent list"

definition as_entry :: "'c Dir \<Rightarrow> 'c dirent" where
  "as_entry d = DirEnt (dfile d) (ent d)"

fun entry_name :: "'c dirent \<Rightarrow> string" where
  "entry_name (FileEnt f) = Name f"
| "entry_name (DirEnt f es) = Name f"

definition NewDirEntry ::
  "'c \<Rightarrow> int \<Rightarrow> string \<Rightarrow> u32 \<Rightarrow> 'c FileOption list \<Rightarrow> 'c Dir" where
  "NewDirEntry nilcache t pth md opts =
     \<lparr>dfile = NewFile nilcache t pth 0 (md OR ModeDir) opts, ent = []\<rparr>"

text \<open>A slice expression with a lower bound above the upper one panics.\<close>

definition ReadDir :: "'c Dir \<Rightarrow> int \<Rightarrow> ('c dirent list \<times> goerr option) outcome" where
  "ReadDir t n =
     (if n \<le> 0 then Return (ent t, None)
      else if length (ent t) = 0 then Return ([], Some (Sentinel EOF))
      else
        let i = index (dfile t);
            m = min (i64 (int (length (ent t)) - sint i)) n
        in if m = 0 then Return ([], Some (Sentinel EOF))
           else if m < 0 \<or> m < uint i then Panic
           else Return (slice (unat i) (nat m - unat i) (ent t), None))"

section \<open>The filesystem\<close>

record ('c, 'tree) FS =
  tree :: 'tree
  mapped :: "string \<rightharpoonup> 'c File"
  dcache :: DirCache

datatype 'c opened = OpenFile "'c File" | OpenDir "'c Dir"

definition FS_Open ::
  "('tree \<Rightarrow> string \<Rightarrow> 'c Dir option) \<Rightarrow> ('c, 'tree) FS \<Rightarrow> string \<Rightarrow> goerr + 'c opened" where
  "FS_Open get t name =
     (let rooted = ''./'' @ name in
      case mapped t rooted of
        Some f \<Rightarrow> Inr (OpenFile (File_Clone f))
      | None \<Rightarrow> (case get (tree t) rooted of
          Some v \<Rightarrow> Inr (OpenDir v)
        | None \<Rightarrow> (case get (tree t) name of
            Some v \<Rightarrow> Inr (OpenDir v)
          | None \<Rightarrow> Inl (Sentinel ErrNotExist))))"

definition FS_Stat ::
  "('tree \<Rightarrow> string \<Rightarrow> 'c Dir option) \<Rightarrow> ('c, 'tree) FS \<Rightarrow> string \<Rightarrow> goerr + 'c File" where
  "FS_Stat get t name =
     (let rooted = ''./'' @ name in
      case mapped t rooted of
        Some f \<Rightarrow> Inr (File_Clone f)
      | None \<Rightarrow> (case get (tree t) rooted of
          Some v \<Rightarrow> Inr (File_Clone (dfile v))
        | None \<Rightarrow> (case get (tree t) name of
            Some v \<Rightarrow> Inr (File_Clone (dfile v))
          | None \<Rightarrow> Inl (Sentinel ErrNotExist))))"

text \<open>
  The inner loop of \<^verbatim>\<open>NewFS\<close>: the ancestors of one file, from the innermost out. The new
  directory object is stored first and its entries are completed from the one it
  replaces afterwards, so the tree ends with the completed object; an object that is
  already an entry of an outer directory is not touched.
\<close>

function put_parents ::
  "('tree \<Rightarrow> string \<Rightarrow> 'c Dir option) \<Rightarrow> ('tree \<Rightarrow> string \<Rightarrow> 'c Dir \<Rightarrow> 'tree) \<Rightarrow> 'c \<Rightarrow> int \<Rightarrow>
   'tree \<Rightarrow> string \<Rightarrow> 'c dirent \<Rightarrow> 'tree" where
  "put_parents get put nilcache t fstree pth prev =
     (let d = fst (path_split pth) in
      if Present d then
        let d' = TrimSuffix d ''/'';
            n = NewDirEntry nilcache t d' 0x1c0 [];
            n = n\<lparr>ent := ent n @ [prev]\<rparr>;
            n = (case get fstree d' of
                   Some old \<Rightarrow> if IsDir (dfile old) then n\<lparr>ent := ent old @ ent n\<rparr> else n
                 | None \<Rightarrow> n)
        in put_parents get put nilcache t (put fstree d' n) d' (as_entry n)
      else fstree)"
  by pat_completeness auto
termination
  by (relation "measure (\<lambda>(get, put, nilcache, t, fstree, pth, prev). length pth)")
    (auto intro!: TrimSuffix_slash_length simp: Present_def TrimSpace_def)

declare put_parents.simps [simp del]

definition relocate :: "DirCache \<Rightarrow> 'c File \<Rightarrow> 'c File" where
  "relocate dc fn = fn\<lparr>Path := replace_first (Path fn) (path_base (root dc)) ''.''\<rparr>"

fun fs_loop ::
  "('tree \<Rightarrow> string \<Rightarrow> 'c Dir option) \<Rightarrow> ('tree \<Rightarrow> string \<Rightarrow> 'c Dir \<Rightarrow> 'tree) \<Rightarrow> 'c \<Rightarrow> DirCache \<Rightarrow>
   'c File list \<Rightarrow> 'tree \<times> (string \<rightharpoonup> 'c File) \<Rightarrow> 'tree \<times> (string \<rightharpoonup> 'c File)" where
  "fs_loop get put nilcache dc [] (fstree, contents) = (fstree, contents)"
| "fs_loop get put nilcache dc (fn # fns) (fstree, contents) =
     (let fn = relocate dc fn
      in fs_loop get put nilcache dc fns
           (put_parents get put nilcache (ts fn) fstree (Path fn) (FileEnt fn),
            contents(Path fn \<mapsto> fn)))"

definition NewFS ::
  "'tree \<Rightarrow> ('tree \<Rightarrow> string \<Rightarrow> 'c Dir option) \<Rightarrow> ('tree \<Rightarrow> string \<Rightarrow> 'c Dir \<Rightarrow> 'tree) \<Rightarrow> 'c \<Rightarrow>
   DirCache \<Rightarrow> 'c File list \<Rightarrow> ('c, 'tree) FS" where
  "NewFS nil get put nilcache dc fns =
     (let (fstree, contents) = fs_loop get put nilcache dc fns (nil, Map.empty)
      in \<lparr>tree = fstree, mapped = contents, dcache = dc\<rparr>)"

text \<open>The files of a torrent, as \<^verbatim>\<open>metainfo.Files\<close> yields them: pth, length and offset.\<close>

definition TorrentFilesystem ::
  "'tree \<Rightarrow> ('tree \<Rightarrow> string \<Rightarrow> DirCache option Dir option) \<Rightarrow>
   ('tree \<Rightarrow> string \<Rightarrow> DirCache option Dir \<Rightarrow> 'tree) \<Rightarrow> DirCache \<Rightarrow> int \<Rightarrow>
   (string \<times> u64 \<times> u64) list \<Rightarrow> (DirCache option, 'tree) FS" where
  "TorrentFilesystem nil get put d now files =
     (let prefix = path_base (root d)
      in NewFS nil get put None d
           (map (\<lambda>(p, len, off). NewFile (Some d) now (path_join_list [prefix, p]) len 0x180
                  [WithInitialOffset off]) files))"


section \<open>Files: lemmas\<close>

text \<open>Where a \<open>Seek\<close> leads.\<close>

definition seek_target :: "'c File \<Rightarrow> int \<Rightarrow> int \<Rightarrow> int" where
  "seek_target f off whence =
     (if whence = SeekStart then off
      else i64 ((if whence = SeekEnd then sint (Length f) else sint (index f)) + off))"

lemma Seek_target:
  "Seek f off whence =
     (let r = seek_target f off whence in
      if r < 0 then (f, 0, Some (seek_err r)) else (f\<lparr>index := word_of_int r\<rparr>, r, None))"
  by (simp add: Seek_def seek_target_def Let_def)

lemma in_i64_seek_target: "in_i64 off \<Longrightarrow> in_i64 (seek_target f off whence)"
  by (simp add: seek_target_def)

lemma sint_index_add:
  assumes "0 \<le> sint (x :: u64)" "sint x + int n < 2 ^ 63"
  shows "sint (x + of_nat n) = sint x + int n"
proof -
  have "x + of_nat n = word_of_int (sint x + int n)"
    by simp
  moreover have "sint (word_of_int (sint x + int n) :: u64) = sint x + int n"
    using assms by (intro sint_word_of_i64 in_i64I) simp_all
  ultimately show ?thesis by (simp only:)
qed

text \<open>Reads of a file over a directory cache, one after another.\<close>

fun read_seq ::
  "('c \<Rightarrow> 's \<Rightarrow> nat \<Rightarrow> int \<Rightarrow> read_result) \<Rightarrow> 'c File \<Rightarrow> 's \<Rightarrow> nat list \<Rightarrow>
   ('c File \<times> bytes \<times> goerr option) outcome" where
  "read_seq rd f s [] = Return (f, [], None)"
| "read_seq rd f s (n # ns) =
     (case File_Read rd f s n of
        Panic \<Rightarrow> Panic
      | Return (f', bs, Some e) \<Rightarrow> Return (f', bs, Some e)
      | Return (f', bs, None) \<Rightarrow>
          map_outcome_result (\<lambda>(f'', bs', e). (f'', bs @ bs', e)) (read_seq rd f' s ns))"

section \<open>Filesystem: lemmas\<close>

definition trie_laws ::
  "('tree \<Rightarrow> string \<Rightarrow> 'v option) \<Rightarrow> ('tree \<Rightarrow> string \<Rightarrow> 'v \<Rightarrow> 'tree) \<Rightarrow> bool" where
  "trie_laws get put \<longleftrightarrow>
     (\<forall>t k v k'. get (put t k v) k' = (if k' = k then Some v else get t k'))"

lemma trie_get_put: "trie_laws get put \<Longrightarrow> get (put t k v) k' = (if k' = k then Some v else get t k')"
  by (simp add: trie_laws_def)

fun entry_path :: "'c dirent \<Rightarrow> string" where
  "entry_path (FileEnt f) = Path f"
| "entry_path (DirEnt f es) = Path f"

text \<open>The links from a path to its directory, from that to the directory above, and so on.\<close>

function links :: "string \<Rightarrow> (string \<times> string) list" where
  "links p =
     (let d = fst (path_split p) in
      if Present d then (p, TrimSuffix d ''/'') # links (TrimSuffix d ''/'') else [])"
  by pat_completeness auto
termination
  by (relation "measure length")
    (auto intro!: TrimSuffix_slash_length simp: Present_def TrimSpace_def)

declare links.simps [simp del]

definition linked :: "('tree \<Rightarrow> string \<Rightarrow> 'c Dir option) \<Rightarrow> 'tree \<Rightarrow> string \<times> string \<Rightarrow> bool" where
  "linked get t l \<longleftrightarrow>
     (\<exists>v. get t (snd l) = Some v \<and> fst l \<in> entry_path ` set (ent v))"

definition dirs_only :: "('tree \<Rightarrow> string \<Rightarrow> 'c Dir option) \<Rightarrow> 'tree \<Rightarrow> bool" where
  "dirs_only get t \<longleftrightarrow> (\<forall>k v. get t k = Some v \<longrightarrow> IsDir (dfile v))"

lemma IsDir_NewDirEntry [simp]: "IsDir (dfile (NewDirEntry c t p m []))"
proof -
  have "bit ((m OR ModeDir) AND ModeDir) 31"
    by (simp add: bit_and_iff bit_or_iff ModeDir_def bit_simps)
  then have "(m OR ModeDir) AND ModeDir \<noteq> 0"
    by (metis bit_0_eq bot_apply bot_bool_def)
  then show ?thesis by (simp add: IsDir_def NewDirEntry_def NewFile_def)
qed

lemma Path_NewDirEntry [simp]: "Path (dfile (NewDirEntry c t p m [])) = p"
  by (simp add: NewDirEntry_def NewFile_def)

lemma put_parents_step:
  assumes laws: "trie_laws get put" and inv: "dirs_only get t"
    and d: "Present (fst (path_split p))"
  obtains n where
    "put_parents get put c tm t p prev =
       put_parents get put c tm (put t (TrimSuffix (fst (path_split p)) ''/'') n)
         (TrimSuffix (fst (path_split p)) ''/'') (as_entry n)"
    "Path (dfile n) = TrimSuffix (fst (path_split p)) ''/''"
    "prev \<in> set (ent n)" "IsDir (dfile n)"
    "\<And>old. get t (TrimSuffix (fst (path_split p)) ''/'') = Some old \<Longrightarrow>
        set (ent old) \<subseteq> set (ent n)"
proof -
  let ?d = "TrimSuffix (fst (path_split p)) ''/''"
  let ?n = "NewDirEntry c tm ?d 0x1c0 []"
  let ?n = "?n\<lparr>ent := ent ?n @ [prev]\<rparr>"
  let ?n = "case get t ?d of None \<Rightarrow> ?n
    | Some old \<Rightarrow> if IsDir (dfile old) then ?n\<lparr>ent := ent old @ ent ?n\<rparr> else ?n"
  show thesis
  proof (rule that [of ?n])
    show "put_parents get put c tm t p prev =
        put_parents get put c tm (put t ?d ?n) ?d (as_entry ?n)"
      using d by (subst put_parents.simps) (simp only: Let_def if_True)
  qed (use inv in \<open>auto simp: dirs_only_def split: option.splits\<close>)
qed

lemma put_parents_links:
  assumes "trie_laws get put" "dirs_only get t" "entry_path prev = p"
  shows "dirs_only get (put_parents get put c tm t p prev) \<and>
    (\<forall>l. linked get t l \<or> l \<in> set (links p) \<longrightarrow>
       linked get (put_parents get put c tm t p prev) l)"
  using assms(2,3)
proof (induction p arbitrary: t prev rule: measure_induct_rule [of length])
  case (less p)
  let ?d = "TrimSuffix (fst (path_split p)) ''/''"
  show ?case
  proof (cases "Present (fst (path_split p))")
    case False
    then show ?thesis
      using less.prems by (simp add: put_parents.simps [of get put c tm t p] links.simps [of p])
  next
    case True
    obtain n where n: "put_parents get put c tm t p prev =
          put_parents get put c tm (put t ?d n) ?d (as_entry n)"
        "Path (dfile n) = ?d" "prev \<in> set (ent n)" "IsDir (dfile n)"
        "\<And>old. get t ?d = Some old \<Longrightarrow> set (ent old) \<subseteq> set (ent n)"
      using put_parents_step [OF assms(1) less.prems(1) True] by blast
    have inv: "dirs_only get (put t ?d n)"
      using assms(1) less.prems(1) n(4) by (simp add: dirs_only_def trie_get_put)
    have keep: "linked get (put t ?d n) l" if "linked get t l" for l
      using that n(5) assms(1) by (fastforce simp: linked_def trie_get_put)
    have new: "linked get (put t ?d n) (p, ?d)"
      using n(3) less.prems(2) assms(1) by (auto simp: linked_def trie_get_put)
    have shorter: "length ?d < length p"
      using True by (auto intro!: TrimSuffix_slash_length simp: Present_def TrimSpace_def)
    have "entry_path (as_entry n) = ?d"
      using n(2) by (simp add: as_entry_def)
    from less.IH [OF shorter inv this] show ?thesis
      using keep new True by (auto simp: n(1) links.simps [of p] Let_def)
  qed
qed

lemma fs_loop_links:
  assumes "trie_laws get put" "dirs_only get t"
    and "fs_loop get put c dc fns (t, m) = (t', m')"
  shows "(\<forall>l. linked get t l \<longrightarrow> linked get t' l) \<and>
    (\<forall>fn \<in> set fns. \<forall>l \<in> set (links (Path (relocate dc fn))). linked get t' l)"
  using assms(2,3)
proof (induction fns arbitrary: t m)
  case (Cons fn fns)
  let ?fn = "relocate dc fn"
  let ?t = "put_parents get put c (ts ?fn) t (Path ?fn) (FileEnt ?fn)"
  have "fs_loop get put c dc fns (?t, m(Path ?fn \<mapsto> ?fn)) = (t', m')"
    using Cons.prems(2) by (simp add: Let_def)
  moreover have pl: "dirs_only get ?t \<and>
      (\<forall>l. linked get t l \<or> l \<in> set (links (Path ?fn)) \<longrightarrow> linked get ?t l)"
    by (rule put_parents_links [OF assms(1) Cons.prems(1)]) simp
  moreover from pl have step: "\<And>l. linked get t l \<Longrightarrow> linked get ?t l"
      "\<And>l. l \<in> set (links (Path ?fn)) \<Longrightarrow> linked get ?t l"
    by blast+
  ultimately have IH: "(\<forall>l. linked get ?t l \<longrightarrow> linked get t' l) \<and>
      (\<forall>fn \<in> set fns. \<forall>l \<in> set (links (Path (relocate dc fn))). linked get t' l)"
    using Cons.IH by blast
  show ?case
    using IH step by (metis set_ConsD)
qed simp

lemma fs_loop_mapped:
  assumes "fs_loop get put c dc fns (t, m) = (t', m')"
    and "distinct (map (Path \<circ> relocate dc) fns)"
  shows "(\<forall>fn \<in> set fns. m' (Path (relocate dc fn)) = Some (relocate dc fn)) \<and>
    (\<forall>k. k \<notin> (Path \<circ> relocate dc) ` set fns \<longrightarrow> m' k = m k)"
  using assms
proof (induction fns arbitrary: t m)
  case (Cons fn fns)
  let ?fn = "relocate dc fn"
  have "fs_loop get put c dc fns
      (put_parents get put c (ts ?fn) t (Path ?fn) (FileEnt ?fn), m(Path ?fn \<mapsto> ?fn)) = (t', m')"
    using Cons.prems(1) by (simp add: Let_def)
  from Cons.IH [OF this] Cons.prems(2) show ?case by auto
qed simp

section \<open>Properties\<close>

text \<open>Reading a file over a directory cache with \<^verbatim>\<open>Read\<close> after \<^verbatim>\<open>Read\<close> returns
  consecutive bytes of the file: a run of successful reads of \<open>n1\<close>, \<open>n2\<close>, \<dots> bytes leaves
  the index advanced by their sum and its buffers joined are what the cache holds from
  the file's offset plus the index on.\<close>

theorem read_seq_contents:
  assumes "usable_cache (fcache f)"
    and "0 \<le> sint (Offset f)" "0 \<le> sint (index f)"
    and "sint (Offset f) + sint (index f) + int (sum_list ns) < 2 ^ 63"
    and "read_seq ReadAt f d ns = Return (f', bs, None)"
  shows "f' = f\<lparr>index := index f + of_nat (sum_list ns)\<rparr> \<and> length bs = sum_list ns \<and>
    (\<forall>j < length bs.
       cached_byte (fcache f) d (sint (Offset f) + sint (index f) + int j) = Some (bs ! j))"
  using assms
proof (induction ns arbitrary: f bs)
  case Nil
  then show ?case by simp
next
  case (Cons n ns)
  let ?p = "sint (Offset f) + sint (index f)" and ?f1 = "f\<lparr>index := index f + of_nat n\<rparr>"
  have p: "i64 ?p = ?p" and r: "in_range ?p n"
    using Cons.prems by (auto simp: in_range_def intro!: i64_id in_i64I)
  obtain f1 b1 b2 where
    rd: "File_Read ReadAt f d n = Return (f1, b1, None)"
      "read_seq ReadAt f1 d ns = Return (f', b2, None)" "bs = b1 @ b2"
    using Cons.prems(5)
    by (auto split: outcome.splits prod.splits option.splits simp: map_outcome_result_eq_Return)
  have "ReadAt (fcache f) d n ?p = Return (b1, None)"
    using rd(1) p by (auto simp: File_Read_def File_ReadAt_def split: outcome.splits prod.splits)
  then have b1: "length b1 = n"
      "\<And>j. j < n \<Longrightarrow> cached_byte (fcache f) d (?p + int j) = Some (b1 ! j)"
    using ReadAt_iff [OF Cons.prems(1) r] by auto
  have f1: "f1 = ?f1"
    using rd(1) b1(1) by (auto simp: File_Read_def split: outcome.splits prod.splits)
  have ix: "sint (index ?f1) = sint (index f) + int n"
    using Cons.prems(2-4) by (simp add: sint_index_add)
  have IH: "f' = ?f1\<lparr>index := index ?f1 + of_nat (sum_list ns)\<rparr> \<and> length b2 = sum_list ns \<and>
      (\<forall>j < length b2. cached_byte (fcache ?f1) d
         (sint (Offset ?f1) + sint (index ?f1) + int j) = Some (b2 ! j))"
    using Cons.IH [of ?f1 b2] Cons.prems rd(2) f1 ix by simp
  have "cached_byte (fcache f) d (?p + int j) = Some (bs ! j)" if "j < length bs" for j
  proof (cases "j < n")
    case False
    then have "j - n < length b2"
      using that rd(3) b1(1) by simp
    with IH have "cached_byte (fcache ?f1) d
        (sint (Offset ?f1) + sint (index ?f1) + int (j - n)) = Some (b2 ! (j - n))"
      by blast
    moreover have "sint (Offset ?f1) + sint (index ?f1) + int (j - n) = ?p + int j"
      using False ix by simp
    moreover have "fcache ?f1 = fcache f" "bs ! j = b2 ! (j - n)"
      using False rd(3) b1(1) by (simp_all add: nth_append)
    ultimately show ?thesis by (simp only:)
  qed (use b1 rd(3) in \<open>simp add: nth_append\<close>)
  with IH rd(3) b1(1) show ?case by (simp add: algebra_simps)
qed

lemma read_seq_contents_example:
  "read_seq ReadAt
     (NewFile \<lparr>root = ''r'', BlockLength = 2\<rparr> 0 ''f'' 3 0x180 [WithInitialOffset 1])
     [''r/0'' \<mapsto> [7, 8], ''r/1'' \<mapsto> [9, 10]] [1, 2] =
   Return (NewFile \<lparr>root = ''r'', BlockLength = 2\<rparr> 0 ''f'' 3 0x180
     [WithInitialOffset 1, WithInitialIndex 3], [8, 9, 10], None)"
  by code_simp

theorem read_seq_contents_witness:
  "cached_byte \<lparr>root = ''r'', BlockLength = 2\<rparr>
     [''r/0'' \<mapsto> [7, 8], ''r/1'' \<mapsto> [9, 10]] 3 = Some 10"
  using read_seq_contents [OF _ _ _ _ read_seq_contents_example] 
  by (auto simp: NewFile_def WithInitialOffset_def WithInitialIndex_def usable_cache_def dest: spec [of _ 2])

text \<open>\<^verbatim>\<open>Seek\<close> either moves the index to the position it returns, which is the offset
  itself, or the offset from the end or from the index, in 64-bit arithmetic, and is not
  negative; or it leaves the file as it was and returns an error, exactly when that
  position is negative.\<close>

theorem Seek_moves:
  assumes "in_i64 off" and "Seek f off whence = (f', r, err)"
  shows "if seek_target f off whence < 0 then f' = f \<and> r = 0 \<and> err \<noteq> None
    else err = None \<and> r = seek_target f off whence \<and> sint (index f') = r \<and>
      f' = f\<lparr>index := index f'\<rparr>"
  using assms in_i64_seek_target [OF assms(1), of f whence]
  by (auto simp: Seek_target Let_def sint_word_of_i64 split: if_splits)

theorem Seek_moves_witness:
  "sint (index (fst (Seek (NewFile () 0 ''f'' 10 0x180 []) (- 4) SeekEnd))) = 6"
proof -
  have "in_i64 (- 4)" by code_simp
  moreover have eq: "Seek (NewFile () 0 ''f'' 10 0x180 []) (- 4) SeekEnd =
      (NewFile () 0 ''f'' 10 0x180 [WithInitialIndex 6], 6, None)" by code_simp
  ultimately show ?thesis
    using Seek_moves [OF _ eq] by (simp split: if_splits)
qed

text \<open>Every file handed to \<^verbatim>\<open>NewFS\<close> opens under its path relative to the root, as a
  copy whose index is 0, provided the relocated paths are distinct.\<close>

theorem NewFS_opens:
  assumes "distinct (map (Path \<circ> relocate dc) fns)" and "fn \<in> set fns"
    and "Path (relocate dc fn) = ''./'' @ name"
  shows "FS_Open get (NewFS nil get put c dc fns) name =
    Inr (OpenFile ((relocate dc fn)\<lparr>index := 0\<rparr>))"
proof -
  obtain t m where l: "fs_loop get put c dc fns (nil, Map.empty) = (t, m)" by fastforce
  have "m (''./'' @ name) = Some (relocate dc fn)"
    using fs_loop_mapped [OF l assms(1)] assms(2,3) by metis
  then show ?thesis
    by (simp add: FS_Open_def NewFS_def l File_Clone_def WithReset_def)
qed

definition two_files :: "unit File list" where
  "two_files = [NewFile () 0 ''h/a/x'' 3 0x180 [], NewFile () 0 ''h/a/y'' 4 0x180 [WithInitialOffset 3]]"

definition map_FS :: "unit File list \<Rightarrow> (unit, string \<rightharpoonup> unit Dir) FS" where
  "map_FS = NewFS Map.empty (\<lambda>t. t) (\<lambda>t k v. t(k \<mapsto> v)) () \<lparr>root = ''t/h'', BlockLength = 1\<rparr>"

theorem NewFS_opens_witness:
  "FS_Open (\<lambda>t. t) (map_FS two_files) ''a/y'' =
   Inr (OpenFile (NewFile () 0 ''./a/y'' 4 0x180 [WithInitialOffset 3]))"
proof -
  let ?dc = "\<lparr>root = ''t/h'', BlockLength = 1\<rparr>"
  have "distinct (map (Path \<circ> relocate ?dc) two_files)" by code_simp
  moreover have "Path (relocate ?dc (two_files ! 1)) = ''./'' @ ''a/y''" by code_simp
  moreover have "two_files ! 1 \<in> set two_files" by (simp add: two_files_def)
  moreover have "(relocate ?dc (two_files ! 1))\<lparr>index := 0\<rparr> =
      NewFile () 0 ''./a/y'' 4 0x180 [WithInitialOffset 3]" by code_simp
  ultimately show ?thesis
    unfolding map_FS_def using NewFS_opens [of ?dc two_files "two_files ! 1" "''a/y''"] by simp
qed

text \<open>In the tree \<^verbatim>\<open>NewFS\<close> builds every file is an entry of its directory, that
  directory an entry of the one above, and so on to the outermost, provided the prefix
  tree returns what was last put under a key.\<close>

theorem NewFS_reachable:
  assumes "trie_laws get put" and "\<forall>k. get nil k = None"
    and "fn \<in> set fns" and "l \<in> set (links (Path (relocate dc fn)))"
  shows "linked get (tree (NewFS nil get put c dc fns)) l"
proof -
  obtain t m where l: "fs_loop get put c dc fns (nil, Map.empty) = (t, m)" by fastforce
  have "dirs_only get nil" using assms(2) by (simp add: dirs_only_def)
  from fs_loop_links [OF assms(1) this l] assms(3,4) show ?thesis
    by (simp add: NewFS_def l)
qed

theorem NewFS_reachable_witness:
  "linked (\<lambda>t. t) (tree (map_FS two_files)) (''./a/y'', ''./a'')"
proof -
  let ?dc = "\<lparr>root = ''t/h'', BlockLength = 1\<rparr>"
  have "(''./a/y'', ''./a'') \<in> set (links (Path (relocate ?dc (two_files ! 1))))" by code_simp
  moreover have "two_files ! 1 \<in> set two_files" by (simp add: two_files_def)
  ultimately show ?thesis
    unfolding map_FS_def
    using NewFS_reachable [of "\<lambda>t. t" "\<lambda>t k v. t(k \<mapsto> v)" Map.empty "two_files ! 1" two_files]
    by (simp add: trie_laws_def)
qed

text \<open>A directory that holds two files is listed twice in the directory above it.\<close>

theorem root_lists_directory_twice:
  "map_option (map entry_name \<circ> ent) (tree (map_FS two_files) ''.'') = Some [''a'', ''a'']"
  by code_simp

text \<open>\<^verbatim>\<open>ReadDir\<close> with a positive count gives the first entries of a directory on every
  call; it does not advance, so the end of the directory is never reported.\<close>

theorem ReadDir_first:
  assumes "0 < n" and "ent t \<noteq> []" and "index (dfile t) = 0" and "int (length (ent t)) < 2 ^ 63"
  shows "ReadDir t n = Return (take (nat n) (ent t), None)"
proof -
  have "i64 (int (length (ent t))) = int (length (ent t))"
    using assms(4) by (intro i64_id in_i64I) simp_all
  then show ?thesis
    using assms by (auto simp: ReadDir_def Let_def slice_def min_def)
qed

theorem ReadDir_first_witness:
  "ReadDir \<lparr>dfile = NewFile () 0 ''.'' 0 ModeDir [], ent = map FileEnt two_files\<rparr> 1 =
   Return ([FileEnt (two_files ! 0)], None)"
  using ReadDir_first [of 1 "\<lparr>dfile = NewFile () 0 ''.'' 0 ModeDir [], ent = map FileEnt two_files\<rparr>"]
  by (simp add: two_files_def NewFile_def)

end
