(* ===== verification/Deeppool.thy ===== *)
theory Deeppool
  imports Httpx Iox
begin

text \<open>
  The client of the archive service, \<^verbatim>\<open>shallows/deeppool/deeppool.go\<close>. The HTTP client is
  the function \<open>do\<close> from a request to its result, \<^verbatim>\<open>http.NewRequestWithContext\<close> the
  function \<open>newreq\<close> from the URL to its error; the body of a response is the chunks it
  yields and the error after them.
\<close>

definition plain_request :: "string \<Rightarrow> string \<Rightarrow> request" where
  "plain_request meth url = \<lparr>rMethod = meth, rHost = url, rPath = '''', rQuery = '''',
     rHeader = (\<lambda>_. []), rBody = [], rTLS = True\<rparr>"

text \<open>What a \<^verbatim>\<open>Download\<close> copies into its writer: an error before the copy, or a body.\<close>

type_synonym body = "bytes list \<times> goerr option"
type_synonym downloader = "string \<Rightarrow> u64 \<Rightarrow> u64 \<Rightarrow> (goerr + body) outcome"

definition Ranger_fetch ::
  "(string \<Rightarrow> goerr option) \<Rightarrow> (request \<Rightarrow> result) \<Rightarrow> string \<Rightarrow> downloader" where
  "Ranger_fetch newreq do endpoint ident start e =
     (let url = ''https://'' @ endpoint @ ''/m/'' @ ident @ ''/download'' in
      case newreq url of
        Some err \<Rightarrow> Return (Inl err)
      | None \<Rightarrow>
          (let req = RangeHeaders (plain_request ''GET'' url) start (e - 1) in
           case AsError (do req) of
             Panic \<Rightarrow> Panic
           | Return (None, err) \<Rightarrow> Panic
           | Return (Some resp, err) \<Rightarrow>
               (let err = (if CheckStatusCode (StatusCode resp) [403, 401]
                           then map_option NewUnrecoverable err else err) in
                case err of
                  Some e \<Rightarrow> Return (Inl e)
                | None \<Rightarrow> Return (Inr (rsChunks resp, rsErr resp)))))"

definition download ::
  "downloader \<Rightarrow> string \<Rightarrow> u64 \<Rightarrow> u64 \<Rightarrow>
   ('s \<Rightarrow> bytes \<Rightarrow> ('s \<times> nat \<times> goerr option) outcome) \<Rightarrow> 's \<Rightarrow> ('s \<times> goerr option) outcome" where
  "download dl ident start e wr into =
     (case dl ident start e of
        Panic \<Rightarrow> Panic
      | Return (Inl err) \<Rightarrow> Return (into, Some err)
      | Return (Inr (chunks, rerr)) \<Rightarrow> io_copy wr into chunks rerr)"

definition Ranger_Download ::
  "(string \<Rightarrow> goerr option) \<Rightarrow> (request \<Rightarrow> result) \<Rightarrow> string \<Rightarrow> string \<Rightarrow> u64 \<Rightarrow> u64 \<Rightarrow>
   ('s \<Rightarrow> bytes \<Rightarrow> ('s \<times> nat \<times> goerr option) outcome) \<Rightarrow> 's \<Rightarrow> ('s \<times> goerr option) outcome" where
  "Ranger_Download newreq do endpoint ident start e wr into =
     download (Ranger_fetch newreq do endpoint) ident start e wr into"

definition Retrieval_Download ::
  "(request \<Rightarrow> result) \<Rightarrow> string \<Rightarrow> string \<Rightarrow>
   ('s \<Rightarrow> bytes \<Rightarrow> ('s \<times> nat \<times> goerr option) outcome) \<Rightarrow> 's \<Rightarrow> ('s \<times> goerr option) outcome" where
  "Retrieval_Download do endpoint ident wr into =
     (case AsError (do (plain_request ''GET''
              (''https://'' @ endpoint @ ''/m/'' @ ident @ ''/download''))) of
        Panic \<Rightarrow> Panic
      | Return (r, Some err) \<Rightarrow> Return (into, Some err)
      | Return (None, None) \<Rightarrow> Panic
      | Return (Some resp, None) \<Rightarrow> io_copy wr into (rsChunks resp) (rsErr resp))"

text \<open>\<^verbatim>\<open>Upload\<close>: ask where to, then post the encrypted media there as the part of a form; the
  form is kept as its content, and \<open>decode\<close> reads the service's answer.\<close>

record Media =
  Media_Id :: string
  Media_Usage :: u64

definition Upload ::
  "(string \<Rightarrow> goerr option) \<Rightarrow> (request \<Rightarrow> result) \<Rightarrow> (response \<Rightarrow> goerr + Media) \<Rightarrow> string \<Rightarrow>
   string \<Rightarrow> bytes \<times> goerr option \<Rightarrow> (goerr + Media) outcome" where
  "Upload newreq do decode endpoint mimetype r =
     (let dst = ''https://'' @ endpoint @ ''/m/'' in
      case newreq dst of
        Some err \<Rightarrow> Return (Inl err)
      | None \<Rightarrow>
          (case AsError (do (plain_request ''ENDPOINT'' dst)) of
             Panic \<Rightarrow> Panic
           | Return (r1, Some err) \<Rightarrow> Return (Inl err)
           | Return (None, None) \<Rightarrow> Panic
           | Return (Some resp, None) \<Rightarrow>
               (let dst = (case GetRedirect resp of (uri, True) \<Rightarrow> uri | (uri, False) \<Rightarrow> dst) in
                case snd r of
                  Some lerr \<Rightarrow> Return (Inl (WithStack (WithMessage lerr ''unable to copy archive'')))
                | None \<Rightarrow>
                    (case AsError (do ((plain_request ''POST'' dst)\<lparr>rBody := fst r\<rparr>)) of
                       Panic \<Rightarrow> Panic
                     | Return (r2, Some err) \<Rightarrow> Return (Inl err)
                     | Return (None, None) \<Rightarrow> Panic
                     | Return (Some resp, None) \<Rightarrow> Return (decode resp)))))"

section \<open>Properties\<close>

text \<open>A range download whose response is 401 or 403 fails with an error that is
  unrecoverable, one with another error status with an error that is not, and neither
  writes a byte; a response without an error status is copied.\<close>

theorem Ranger_Download_status:
  assumes "newreq (''https://'' @ endpoint @ ''/m/'' @ ident @ ''/download'') = None"
    and "do (RangeHeaders (plain_request ''GET'' (''https://'' @ endpoint @ ''/m/'' @ ident @ ''/download''))
           start (e - 1)) = (Some resp, None)"
  shows "if StatusCode resp \<ge> 400
    then \<exists>err. Ranger_Download newreq do endpoint ident start e wr into = Return (into, Some err) \<and>
      (errors_is err TUnrecoverable \<longleftrightarrow> StatusCode resp \<in> {401, 403})
    else Ranger_Download newreq do endpoint ident start e wr into =
      io_copy wr into (rsChunks resp) (rsErr resp)"
  using assms
  by (auto simp: Ranger_Download_def download_def Ranger_fetch_def AsError_def NewUnrecoverable_def Let_def)

definition denied :: response where
  "denied = \<lparr>StatusCode = 403, Status = ''403 Forbidden'', rsHeader = (\<lambda>_. []), rsChunks = [],
     rsErr = None\<rparr>"

theorem Ranger_Download_status_witness:
  "\<exists>err. Ranger_Download (\<lambda>_. None) (\<lambda>_. (Some denied, None)) ''h'' ''x'' 0 64
      (\<lambda>s b. Return (s @ b, length b, None)) [] = Return ([], Some err) \<and>
    errors_is err TUnrecoverable"
  using Ranger_Download_status [of "\<lambda>_. None" "''h''" "''x''" "\<lambda>_. (Some denied, None)" 0 64 denied
      "\<lambda>s b. Return (s @ b, length b, None)" "[]"]
  by (simp add: denied_def)

text \<open>A range download whose transport fails without a response dereferences the missing
  response and panics instead of returning the transport's error.\<close>

theorem Ranger_Download_transport_error:
  assumes "newreq (''https://'' @ endpoint @ ''/m/'' @ ident @ ''/download'') = None"
    and "do (RangeHeaders (plain_request ''GET'' (''https://'' @ endpoint @ ''/m/'' @ ident @ ''/download''))
           start (e - 1)) = (None, Some err)"
  shows "Ranger_Download newreq do endpoint ident start e wr into = Panic"
  using assms
  by (simp add: Ranger_Download_def download_def Ranger_fetch_def AsError_def Let_def)

theorem Ranger_Download_transport_error_witness:
  "Ranger_Download (\<lambda>_. None) (\<lambda>_. (None, Some (Sentinel DeadlineExceeded))) ''h'' ''x'' 0 64
      (\<lambda>s b. Return (s @ b, length b, None)) [] = Panic"
  by (rule Ranger_Download_transport_error) simp_all

end
