(* ===== verification/LibraryCache.thy ===== *)
theory LibraryCache
  imports Vfs LibraryMeta Deeppool
begin

text \<open>
  The caches that download what is missing on disk from the archive:
  \<^verbatim>\<open>shallows/library/deeppool.torrent.cache.go\<close> for the blocks of a torrent,
  \<^verbatim>\<open>deeppool.reader.at.cache.go\<close> for a piece of media, and \<^verbatim>\<open>blockcache.vfs.go\<close>, which serves
  the latter as files.

  The store below is a parameter with its positioned read and write, the contract
  \<open>random_access\<close> of \<^verbatim>\<open>Blockcache\<close>; the archive service is a \<open>downloader\<close>, the cipher a
  \<open>keystream\<close>, and the generator of a piece of media the function \<open>prng_of\<close>
  (\<^verbatim>\<open>MetadataChaCha8\<close> with its libraries).
\<close>

section \<open>Block ranges\<close>

definition calculateBlockRange :: "u64 \<Rightarrow> u64 \<Rightarrow> u64 \<Rightarrow> (u64 \<times> u64) outcome" where
  "calculateBlockRange blocklength off len =
     (if blocklength = 0 then Panic
      else
        let doffset = (off div blocklength) * blocklength;
            e = min (doffset + blocklength) len;
            dlength = e - doffset
        in Return (doffset, dlength))"

text \<open>The body both \<^verbatim>\<open>downloadChunk\<close> methods share once the range is known: download the range
  through a decrypting writer into the store at its offset. The timeout writer in between
  only cancels the download, which is an error of the downloader.\<close>

definition download_decrypting ::
  "keystream \<Rightarrow> ('s \<Rightarrow> bytes \<Rightarrow> int \<Rightarrow> ('s \<times> nat \<times> goerr option) outcome) \<Rightarrow> downloader \<Rightarrow>
   reader \<Rightarrow> string \<Rightarrow> u64 \<Rightarrow> u64 \<Rightarrow> 's \<Rightarrow> ('s \<times> goerr option) outcome" where
  "download_decrypting ks wr dl prng ident doffset dlength s =
     (case NewOffsetWriterChaCha20 prng \<lparr>ow_store = s, ow_off = sint doffset\<rparr> (ucast doffset) of
        Inl err \<Rightarrow> Return (s, Some err)
      | Inr w \<Rightarrow>
          map_outcome_result (\<lambda>(w', err). (ow_store (sw_dst w'), err))
            (download dl ident doffset (doffset + dlength)
               (StreamWriter_Write ks (OffsetWriter_Write wr)) w))"

section \<open>The fallback of a torrent\<close>

definition ErrCacheUnrecoverable :: goerr where
  "ErrCacheUnrecoverable = StringErr ''cache layer blocked due to previous error''"

definition NewTorrentStorage_ok :: "u64 \<Rightarrow> bool outcome" where
  "NewTorrentStorage_ok bsize = (if bsize mod 64 \<noteq> 0 then Panic else Return True)"

record 's fallback =
  cacheblocked :: bool
  fb_impl :: 's
  fb_blocklength :: u64

definition fallback_downloadChunk ::
  "keystream \<Rightarrow> ('s \<Rightarrow> bytes \<Rightarrow> int \<Rightarrow> ('s \<times> nat \<times> goerr option) outcome) \<Rightarrow> downloader \<Rightarrow>
   's fallback \<Rightarrow> reader \<Rightarrow> string \<Rightarrow> u64 \<Rightarrow> u64 \<Rightarrow> ('s fallback \<times> goerr option) outcome" where
  "fallback_downloadChunk ks wr dl t prng ident off len =
     (case calculateBlockRange (fb_blocklength t) off len of
        Panic \<Rightarrow> Panic
      | Return (doffset, dlength) \<Rightarrow>
          map_outcome_result (\<lambda>(s, err). (t\<lparr>fb_impl := s\<rparr>, err))
            (download_decrypting ks wr dl prng ident doffset dlength (fb_impl t)))"

text \<open>The loop over the rows of the query; a download that fails ends it.\<close>

fun fallback_rows ::
  "keystream \<Rightarrow> ('s \<Rightarrow> bytes \<Rightarrow> int \<Rightarrow> ('s \<times> nat \<times> goerr option) outcome) \<Rightarrow> downloader \<Rightarrow>
   (Metadata \<Rightarrow> reader) \<Rightarrow> 's fallback \<Rightarrow> u64 \<Rightarrow> Metadata list \<Rightarrow>
   ('s fallback \<times> goerr option) outcome" where
  "fallback_rows ks wr dl prng_of t off [] = Return (t, None)"
| "fallback_rows ks wr dl prng_of t off (v # rows) =
     (if ArchiveID v = uuid_Nil_string \<or> ArchiveID v = uuid_Max_string
      then fallback_rows ks wr dl prng_of t off rows
      else
        case fallback_downloadChunk ks wr dl t (prng_of v) (ArchiveID v) off (Bytes v) of
          Panic \<Rightarrow> Panic
        | Return (t', Some cerr) \<Rightarrow>
            Return (if as_unrecoverable cerr \<noteq> None then t'\<lparr>cacheblocked := True\<rparr> else t', Some cerr)
        | Return (t', None) \<Rightarrow> fallback_rows ks wr dl prng_of t' off rows)"

text \<open>\<^verbatim>\<open>ReadAt\<close>; \<open>rows\<close> and \<open>qerr\<close> are what the query for the media of the torrent yields.
  The two reads under the lock and before it see the same store: the lock serialises the
  downloads of the cache and the model runs one call at a time.\<close>

definition fallback_ReadAt ::
  "keystream \<Rightarrow> ('s \<Rightarrow> nat \<Rightarrow> int \<Rightarrow> read_result) \<Rightarrow>
   ('s \<Rightarrow> bytes \<Rightarrow> int \<Rightarrow> ('s \<times> nat \<times> goerr option) outcome) \<Rightarrow> downloader \<Rightarrow>
   (Metadata \<Rightarrow> reader) \<Rightarrow> Metadata list \<Rightarrow> goerr option \<Rightarrow> 's fallback \<Rightarrow> nat \<Rightarrow> int \<Rightarrow>
   ('s fallback \<times> bytes \<times> goerr option) outcome" where
  "fallback_ReadAt ks rd wr dl prng_of rows qerr t len off =
     (case rd (fb_impl t) len off of
        Panic \<Rightarrow> Panic
      | Return (bs, None) \<Rightarrow> Return (t, bs, None)
      | Return (bs, Some err) \<Rightarrow>
          if Ignore (Some err) [TSentinel ErrNotExist] \<noteq> None then Return (t, bs, Some err)
          else if cacheblocked t then Return (t, bs, Some (NewUnrecoverable ErrCacheUnrecoverable))
          else
            (case rd (fb_impl t) len off of
               Panic \<Rightarrow> Panic
             | Return (bs, None) \<Rightarrow> Return (t, bs, None)
             | Return (bs, Some err) \<Rightarrow>
                 (case fallback_rows ks wr dl prng_of t (word_of_int off) rows of
                    Panic \<Rightarrow> Panic
                  | Return (t', Some cerr) \<Rightarrow> Return (t', bs, Some cerr)
                  | Return (t', None) \<Rightarrow>
                      if qerr \<noteq> None then Return (t', bs, Some err)
                      else map_outcome_result (\<lambda>(bs, err). (t', bs, err)) (rd (fb_impl t') len off))))"

section \<open>The cache of one piece of media\<close>

definition deeppool_range :: "u64 \<Rightarrow> u64 \<Rightarrow> u64 \<times> u64" where
  "deeppool_range off len =
     (let B = word_of_int DefaultBlockLength;
          doffset = (off div B) * B;
          dlength = min (doffset + B) len mod B
      in (doffset, if dlength = 0 then B else dlength))"

definition deeppool_downloadChunk ::
  "keystream \<Rightarrow> ('s \<Rightarrow> bytes \<Rightarrow> int \<Rightarrow> ('s \<times> nat \<times> goerr option) outcome) \<Rightarrow> downloader \<Rightarrow>
   's \<Rightarrow> reader \<Rightarrow> string \<Rightarrow> u64 \<Rightarrow> u64 \<Rightarrow> ('s \<times> goerr option) outcome" where
  "deeppool_downloadChunk ks wr dl s prng ident off len =
     (let (doffset, dlength) = deeppool_range off len
      in download_decrypting ks wr dl prng ident doffset dlength s)"

definition deeppool_ReadAt ::
  "keystream \<Rightarrow> ('s \<Rightarrow> nat \<Rightarrow> int \<Rightarrow> read_result) \<Rightarrow>
   ('s \<Rightarrow> bytes \<Rightarrow> int \<Rightarrow> ('s \<times> nat \<times> goerr option) outcome) \<Rightarrow> downloader \<Rightarrow>
   (Metadata \<Rightarrow> reader) \<Rightarrow> Metadata \<Rightarrow> 's \<Rightarrow> nat \<Rightarrow> int \<Rightarrow> ('s \<times> bytes \<times> goerr option) outcome" where
  "deeppool_ReadAt ks rd wr dl prng_of md s len off =
     (case rd s len off of
        Panic \<Rightarrow> Panic
      | Return (bs, None) \<Rightarrow> Return (s, bs, None)
      | Return (bs, Some err) \<Rightarrow>
          if Ignore (Some err) [TSentinel ErrNotExist] \<noteq> None then Return (s, bs, Some err)
          else
            (case rd s len off of
               Panic \<Rightarrow> Panic
             | Return (bs, None) \<Rightarrow> Return (s, bs, None)
             | Return (bs, Some err) \<Rightarrow>
                 (case deeppool_downloadChunk ks wr dl s (prng_of md) (ArchiveID md)
                         (DiskOffset md + word_of_int off) (DiskOffset md + Bytes md) of
                    Panic \<Rightarrow> Panic
                  | Return (s', Some cerr) \<Rightarrow> Return (s', bs, Some err)
                  | Return (s', None) \<Rightarrow>
                      map_outcome_result (\<lambda>(bs, err). (s', bs, err)) (rd s' len off))))"

text \<open>\<^verbatim>\<open>vstoragefs.Open\<close>: the file of a piece of media over its cache directory. The lookup and
  the directory are arguments.\<close>

definition vstoragefs_Open ::
  "(string \<Rightarrow> goerr + Metadata) \<Rightarrow> (string \<Rightarrow> string) \<Rightarrow> (string \<Rightarrow> goerr option) \<Rightarrow> string \<Rightarrow>
   goerr + (Metadata \<times> DirCache) File" where
  "vstoragefs_Open metadata vpath mkdir name =
     (case metadata name of
        Inl err \<Rightarrow> Inl err
      | Inr md \<Rightarrow>
          (case NewDirectoryCache (mkdir (vpath (ID md))) (vpath (ID md)) [] of
             Inl err \<Rightarrow> Inl err
           | Inr dc \<Rightarrow> Inr (NewFile (md, dc) (CreatedAt md) (ID md) (Bytes md) 0x180
                         [WithInitialOffset (DiskOffset md)])))"

text \<open>Reading such a file: \<^verbatim>\<open>File.ReadAt\<close> adds the offset of the file and calls the cache.\<close>

definition vfs_ReadAt ::
  "keystream \<Rightarrow> ('s \<Rightarrow> nat \<Rightarrow> int \<Rightarrow> read_result) \<Rightarrow>
   ('s \<Rightarrow> bytes \<Rightarrow> int \<Rightarrow> ('s \<times> nat \<times> goerr option) outcome) \<Rightarrow> downloader \<Rightarrow>
   (Metadata \<Rightarrow> reader) \<Rightarrow> (Metadata \<times> DirCache) File \<Rightarrow> 's \<Rightarrow> nat \<Rightarrow> int \<Rightarrow>
   ('s \<times> bytes \<times> goerr option) outcome" where
  "vfs_ReadAt ks rd wr dl prng_of f s len off =
     deeppool_ReadAt ks rd wr dl prng_of (fst (fcache f)) s len (i64 (sint (Offset f) + off))"

section \<open>Lemmas\<close>

lemma unat_block_start:
  "unat ((off div b) * b) = unat off div unat b * unat b" for off b :: u64
proof -
  have "unat off div unat b * unat b < 2 ^ 64"
    by (rule le_less_trans [OF div_times_less_eq_dividend])
      (use unsigned_less [of off, where ?'a = nat] in simp)
  then have "unat (off div b) * unat b < 2 ^ 64"
    by (simp only: unat_div)
  then show ?thesis
    by (subst unat_word_ariths(2)) (simp add: unat_div)
qed

lemma calculateBlockRange_nat:
  assumes "0 < unat b" "unat off < unat len" "unat len + unat b < 2 ^ 64"
  shows "calculateBlockRange b off len = Return (d, n) \<longleftrightarrow>
    unat d = unat off div unat b * unat b \<and> unat n = min (unat d + unat b) (unat len) - unat d"
    (is "?l \<longleftrightarrow> ?r")
proof -
  let ?d = "(off div b) * b"
  have d: "unat ?d = unat off div unat b * unat b" by (rule unat_block_start)
  have le: "unat ?d \<le> unat off" by (simp add: d)
  have e: "unat (min (?d + b) len) = min (unat ?d + unat b) (unat len)"
  proof -
    have "unat (?d + b) = unat ?d + unat b"
      using le assms by (simp add: unat_word_ariths)
    then show ?thesis by (auto simp: min_def word_le_nat_alt)
  qed
  have n: "unat (min (?d + b) len - ?d) = min (unat ?d + unat b) (unat len) - unat ?d"
    using le assms e by (subst unat_sub) (auto simp: word_le_nat_alt)
  have "b \<noteq> 0" using assms(1) by auto
  then have "?l \<longleftrightarrow> d = ?d \<and> n = min (?d + b) len - ?d"
    by (auto simp: calculateBlockRange_def Let_def)
  also have "\<dots> \<longleftrightarrow> ?r"
    by (auto simp only: word_unat_eq_iff d n)
  finally show ?thesis .
qed


text \<open>The ciphertext of a piece of media: what \<^verbatim>\<open>NewReaderChaCha20\<close> yields for it.\<close>

definition encrypted :: "keystream \<Rightarrow> reader \<Rightarrow> bytes \<Rightarrow> bytes" where
  "encrypted ks prng plain =
     xor_at (ks (take 32 (pending prng)) (slice 32 12 (pending prng))) 0 plain"

lemma encrypted_reader:
  "44 \<le> length (pending prng) \<Longrightarrow>
   \<exists>enc. NewReaderChaCha20 prng \<lparr>pending = plain, tail_err = Sentinel EOF\<rparr> = Inr enc \<and>
     StreamReader_ReadAll ks enc = (encrypted ks prng plain, None)"
  by (simp add: NewReaderChaCha20_def new_cipher_enough StreamReader_ReadAll_def ReadAll_def
      XORKeyStream_def encrypted_def)

context random_access
begin

text \<open>A range of the ciphertext that starts at a multiple of the cipher's block, downloaded in
  any chunks, ends up decrypted in the store.\<close>

lemma download_decrypting_stores:
  assumes "usable s" and "44 \<le> length (pending prng)"
    and "64 dvd unat d" and "unat d < 2 ^ 32" and "unat d + unat n \<le> length plain" and "length plain < 2 ^ 63"
    and "dl ident d (d + n) = Return (Inr (chunks, None))"
    and "concat chunks = slice (unat d) (unat n) (encrypted ks prng plain)"
  shows "\<exists>s'. download_decrypting ks wr dl prng ident d n s = Return (s', None) \<and> usable s' \<and>
    (\<forall>j < unat n. view s' (int (unat d) + int j) = Some (plain ! (unat d + j))) \<and>
    (\<forall>i b. 0 \<le> i \<longrightarrow> i < int (unat d) \<or> int (unat d) + int (unat n) \<le> i \<longrightarrow>
       view s i = Some b \<longrightarrow> view s' i = Some b)"
proof -
  let ?key = "take 32 (pending prng)" and ?nonce = "slice 32 12 (pending prng)"
  let ?c = "SetCounter (ucast d div 64) \<lparr>ckey = ?key, cnonce = ?nonce, cpos = 0\<rparr>"
  have len: "length (concat chunks) = unat n"
    using assms(5,8) by (simp add: encrypted_def)
  have sd: "sint d = int (unat d)"
  proof -
    have "int (unat d) < int (2 ^ 32)"
      using assms(4) by (simp only: of_nat_less_iff)
    then have "uint d < 2 ^ 63" by simp
    then show ?thesis using sint_uint_small by simp
  qed
  have u32: "unat (ucast d :: u32) = unat d"
    using assms(4) by (simp add: unsigned_ucast_eq take_bit_nat_eq_self)
  have pos: "cpos ?c = unat d"
    using SetCounter_offset [of "ucast d"] assms(3) u32 by simp
  have r: "in_range (int (unat d)) (length (concat chunks))"
  proof -
    have "unat d + unat n < 2 ^ 63" using assms(5,6) by linarith
    then show ?thesis
      using of_nat_less_iff [of "unat d + unat n" "2 ^ 63", where ?'a = int]
      unfolding in_range_def len by simp
  qed
  have start: "NewOffsetWriterChaCha20 prng \<lparr>ow_store = s, ow_off = sint d\<rparr> (ucast d) =
      Inr \<lparr>sw_cipher = ?c, sw_dst = \<lparr>ow_store = s, ow_off = int (unat d)\<rparr>\<rparr>"
    using assms(2) by (simp add: NewOffsetWriterChaCha20_def new_cipher_enough sd)
  obtain w where w: "io_copy (StreamWriter_Write ks (OffsetWriter_Write wr))
      \<lparr>sw_cipher = ?c, sw_dst = \<lparr>ow_store = s, ow_off = int (unat d)\<rparr>\<rparr> chunks None = Return (w, None)"
    "usable (ow_store (sw_dst w))"
    "\<And>j. j < unat n \<Longrightarrow> view (ow_store (sw_dst w)) (int (unat d) + int j) =
       Some (xor_at (ks (ckey ?c) (cnonce ?c)) (cpos ?c) (concat chunks) ! j)"
    "\<And>i b. 0 \<le> i \<Longrightarrow> i < int (unat d) \<or> int (unat d) + int (unat n) \<le> i \<Longrightarrow>
       view s i = Some b \<Longrightarrow> view (ow_store (sw_dst w)) i = Some b"
    using decrypt_copy [OF assms(1) r, of ks ?c None] unfolding len by blast
  have "xor_at (ks (ckey ?c) (cnonce ?c)) (cpos ?c) (concat chunks) = slice (unat d) (unat n) plain"
    unfolding pos assms(8) by (simp add: encrypted_def xor_at_slice SetCounter_def)
  with w(3) assms(5) have inside: "view (ow_store (sw_dst w)) (int (unat d) + int j) =
      Some (plain ! (unat d + j))" if "j < unat n" for j
    using that by simp
  have "download_decrypting ks wr dl prng ident d n s = Return (ow_store (sw_dst w), None)"
    using start w(1) assms(7) by (simp add: download_decrypting_def download_def)
  with w(2,4) inside show ?thesis by blast
qed


lemma fallback_downloads:
  assumes "usable (fb_impl t)" and "\<not> cacheblocked t" and "0 < unat (fb_blocklength t)"
    and "64 dvd unat (fb_blocklength t)"
    and "ArchiveID md \<noteq> uuid_Nil_string" "ArchiveID md \<noteq> uuid_Max_string"
    and "44 \<le> length (pending (prng_of md))"
    and "unat (Bytes md) = length plain" "length plain + unat (fb_blocklength t) < 2 ^ 63"
    and d: "d = off div unat (fb_blocklength t) * unat (fb_blocklength t)" "d < 2 ^ 32"
    and n: "n = min (unat (fb_blocklength t)) (length plain - d)"
    and "dl (ArchiveID md) (of_nat d) (of_nat d + of_nat n) = Return (Inr (chunks, None))"
    and "concat chunks = slice d n (encrypted ks (prng_of md) plain)"
    and "0 < len" "off + len \<le> d + n"
    and "rd (fb_impl t) len (int off) = Return (bs, Some err)" "errors_is err (TSentinel ErrNotExist)"
  shows "\<exists>t'. fallback_ReadAt ks rd wr dl prng_of [md] None t len (int off) =
      Return (t', slice off len plain, None) \<and>
    usable (fb_impl t') \<and> \<not> cacheblocked t' \<and> fb_blocklength t' = fb_blocklength t \<and>
    (\<forall>i b. 0 \<le> i \<longrightarrow> i < int d \<or> int d + int n \<le> i \<longrightarrow>
       view (fb_impl t) i = Some b \<longrightarrow> view (fb_impl t') i = Some b)"
proof -
  let ?b = "fb_blocklength t" and ?o = "word_of_int (int off) :: u64"
  have le: "d \<le> off" unfolding d(1) by simp
  have off: "off < length plain" using assms(15,16) n le by auto
  then have "off < 2 ^ 64" using assms(9) by simp
  then have o: "unat ?o = off" by (simp add: unat_of_nat)
  have dn: "unat (of_nat d :: u64) = d" "unat (of_nat n :: u64) = n"
    using d(2) n assms(9) by (auto simp: unat_of_nat)
  have "64 dvd d" "d + n \<le> length plain" "length plain < 2 ^ 63"
  proof -
    show "64 dvd d" using assms(4) by (simp add: d(1))
    show "d + n \<le> length plain" using n off le by linarith
    show "length plain < 2 ^ 63" using assms(9) by linarith
  qed
  note stored = download_decrypting_stores [of "fb_impl t" "prng_of md" "of_nat d" "of_nat n" plain dl
      "ArchiveID md" chunks ks, unfolded dn, OF assms(1,7) this(1) d(2) this(2,3) assms(13,14)]
  have "calculateBlockRange ?b ?o (Bytes md) = Return (of_nat d, of_nat n)"
  proof (subst calculateBlockRange_nat)
    show "unat ?o < unat (Bytes md)" "0 < unat ?b" using off o assms(3,8) by simp_all
    show "unat (Bytes md) + unat ?b < 2 ^ 64" using assms(8,9) by simp
    show "unat (of_nat d :: u64) = unat ?o div unat ?b * unat ?b \<and>
        unat (of_nat n :: u64) = min (unat (of_nat d :: u64) + unat ?b) (unat (Bytes md)) - unat (of_nat d :: u64)"
      using d n dn o assms(8) off le by (auto simp: min_def)
  qed
  moreover obtain s' where s': "download_decrypting ks wr dl (prng_of md) (ArchiveID md)
        (of_nat d) (of_nat n) (fb_impl t) = Return (s', None)" "usable s'"
      "\<And>j. j < n \<Longrightarrow> view s' (int d + int j) = Some (plain ! (d + j))"
      "\<And>i b. 0 \<le> i \<Longrightarrow> i < int d \<or> int d + int n \<le> i \<Longrightarrow> view (fb_impl t) i = Some b \<Longrightarrow> view s' i = Some b"
    using stored by blast
  ultimately have rows: "fallback_rows ks wr dl prng_of t ?o [md] = Return (t\<lparr>fb_impl := s'\<rparr>, None)"
    using assms(5,6) by (simp add: fallback_downloadChunk_def)
  have "view s' (int off + int j) = Some (slice off len plain ! j)" if "j < len" for j
  proof -
    have "off + j - d < n" "off + j < length plain" using that assms(16) le off n by linarith+
    then have "view s' (int d + int (off + j - d)) = Some (plain ! (d + (off + j - d)))"
      by (intro s'(3))
    with le \<open>off + j < length plain\<close> that show ?thesis by (simp add: of_nat_diff)
  qed
  moreover have "off + len \<le> length plain" using assms(16) n le off by linarith
  then have "in_range (int off) len" "length (slice off len plain) = len"
    using assms(9) by (auto simp: in_range_def)
  ultimately have "rd s' len (int off) = Return (slice off len plain, None)"
    using s'(2) by (simp add: read_iff)
  with rows assms(2,17,18) have "fallback_ReadAt ks rd wr dl prng_of [md] None t len (int off) =
      Return (t\<lparr>fb_impl := s'\<rparr>, slice off len plain, None)"
    by (simp add: fallback_ReadAt_def)
  with s'(2,4) assms(2) show ?thesis by fastforce
qed

end


section \<open>Properties\<close>

text \<open>C3: for an offset inside the media \<^verbatim>\<open>calculateBlockRange\<close> gives the block that contains
  it: a range that starts at a multiple of the block length, contains the offset, is not
  longer than a block and does not pass the end of the media.\<close>

theorem calculateBlockRange_contains:
  assumes "0 < blocklength" and "off < len" and "unat len + unat blocklength < 2 ^ 64"
  shows "\<exists>d n. calculateBlockRange blocklength off len = Return (d, n) \<and>
    unat blocklength dvd unat d \<and> unat d \<le> unat off \<and> unat off < unat d + unat n \<and>
    unat n \<le> unat blocklength \<and> unat d + unat n \<le> unat len"
proof -
  have b: "0 < unat blocklength" using assms(1) by (simp add: word_less_nat_alt)
  let ?d = "unat off div unat blocklength * unat blocklength"
  have lt: "unat off < unat len" using assms(2) by (simp add: word_less_nat_alt)
  have mod: "unat off = ?d + unat off mod unat blocklength" "unat off mod unat blocklength < unat blocklength"
    using b by simp_all
  obtain d n where r: "calculateBlockRange blocklength off len = Return (d, n)"
  proof -
    have "blocklength \<noteq> 0" using b by auto
    then show thesis using that by (simp add: calculateBlockRange_def Let_def)
  qed
  have dn: "unat d = ?d" "unat n = min (unat d + unat blocklength) (unat len) - unat d"
    using calculateBlockRange_nat [OF b lt assms(3), THEN iffD1, OF r] by simp_all
  have "unat blocklength dvd unat d" by (simp add: dn(1))
  moreover have "unat d \<le> unat off" "unat off < unat d + unat n" "unat n \<le> unat blocklength"
      "unat d + unat n \<le> unat len"
    using dn mod lt by linarith+
  ultimately show ?thesis using r by blast
qed

theorem calculateBlockRange_contains_witness:
  "\<exists>d n. calculateBlockRange 64 130 150 = Return (d, n) \<and> unat d \<le> 130 \<and> 130 < unat d + unat n"
  using calculateBlockRange_contains [of 64 130 150] by auto

lemma rest_of_block:
  fixes B d e :: u64
  assumes "unat B dvd unat d" "unat d < unat e" "unat e \<le> unat d + unat B" "0 < unat B"
  shows "e - d = (if e mod B = 0 then B else e mod B)"
proof -
  have n: "unat (e - d) = unat e - unat d"
    using assms(2) by (subst unat_sub) (auto simp: word_le_nat_alt)
  obtain k where k: "unat d = unat B * k" using assms(1) by blast
  have m: "unat (e mod B) = (unat e - unat d) mod unat B"
    using assms(2) k by (simp add: unat_mod) (metis le_add_diff_inverse less_imp_le mod_mult_self4)
  show ?thesis
  proof (cases "unat e = unat d + unat B")
    case True
    then have "unat (e mod B) = 0" using m by simp
    then have "e mod B = 0" by (simp only: unat_eq_0)
    moreover have "unat (e - d) = unat B" using n True by simp
    ultimately show ?thesis by (simp add: word_unat_eq_iff)
  next
    case False
    then have "unat (e mod B) = unat (e - d)" "unat (e - d) \<noteq> 0"
      using m n assms(2,3) by simp_all
    then show ?thesis by (auto simp: word_unat_eq_iff)
  qed
qed

text \<open>The range \<^verbatim>\<open>DeeppoolReaderAtCache\<close> computes with its remainder is the one of
  \<^verbatim>\<open>calculateBlockRange\<close>, for every offset inside the media.\<close>

theorem deeppool_range_eq:
  assumes "off < len" and "unat len < 2 ^ 63"
  shows "calculateBlockRange (word_of_int DefaultBlockLength) off len = Return (deeppool_range off len)"
proof -
  let ?B = "33554432 :: u64"
  have B: "word_of_int DefaultBlockLength = ?B"
    by (simp add: DefaultBlockLength_def MiB_def)
  let ?d = "off div ?B * ?B" and ?e = "min (off div ?B * ?B + ?B) len"
  have d: "unat ?d = unat off div 33554432 * 33554432"
    using unat_block_start [of off ?B] by simp
  have lt: "unat off < unat len" using assms(1) by (simp add: word_less_nat_alt)
  have dB: "unat (?d + ?B) = unat ?d + 33554432"
    using d lt assms(2) by (simp add: unat_word_ariths)
  have e: "unat ?e = min (unat ?d + 33554432) (unat len)"
    using dB by (auto simp: min_def word_le_nat_alt)
  have le: "unat ?d \<le> unat off" "unat off < unat ?d + 33554432" using d by linarith+
  have "unat ?e \<le> unat ?d + unat ?B" "unat ?d < unat ?e"
    using e le lt by simp_all
  moreover have "unat ?B dvd unat ?d" using d by simp
  ultimately have "?e - ?d = (if ?e mod ?B = 0 then ?B else ?e mod ?B)"
    by (intro rest_of_block) simp_all
  then show ?thesis
    by (simp add: calculateBlockRange_def deeppool_range_def B Let_def)
qed

theorem deeppool_range_eq_witness:
  "calculateBlockRange (word_of_int DefaultBlockLength) 40000000 50000000 = Return (33554432, 16445568)"
  using deeppool_range_eq [of 40000000 50000000]
  by (simp add: deeppool_range_def DefaultBlockLength_def MiB_def Let_def)


text \<open>A read of a torrent that the local store can serve is served from it alone: it
  returns the bytes held, contacts nothing and changes nothing. So is every read once the
  cache is blocked, and one that misses is then refused with an unrecoverable error.\<close>

theorem fallback_local_or_blocked:
  assumes "impl_ReadAt closed_err (fb_impl t) len off = Return (bs, err)"
    and "err = None \<or> cacheblocked t"
  shows "\<exists>err'. fallback_ReadAt ks (impl_ReadAt closed_err) (impl_WriteAt closed_err) dl prng_of rows qerr t len off =
      Return (t, bs, err') \<and>
    (err' = None \<longleftrightarrow> err = None) \<and>
    (std_is err (TSentinel ErrNotExist) \<longrightarrow> std_is err' TUnrecoverable)"
  using assms
  by (auto simp: fallback_ReadAt_def NewUnrecoverable_def split: option.splits)

definition small_store :: torrent_store where
  "small_store = (\<lparr>closed = False, impl_cache = \<lparr>root = ''c'', BlockLength = 64\<rparr>\<rparr>, Map.empty)"

lemma small_store_usable: "impl_usable small_store"
  by (simp add: small_store_def impl_usable_def usable_cache_def)

lemma small_store_misses:
  "\<exists>err. impl_ReadAt closed_err small_store 10 70 = Return ([], Some err) \<and>
     errors_is err (TSentinel ErrNotExist)"
proof -
  let ?t = "\<lparr>root = ''c'', BlockLength = 64\<rparr>"
  obtain m where "ReadAt ?t Map.empty 10 70 = Return ([], Some (WithStack (WithMessage
      (PathErr ''open'' (path ?t 70) (Errno ENOENT)) m)))"
    using ReadAt_absent [of ?t 70 10 Map.empty] by auto
  then show ?thesis
    by (simp add: small_store_def impl_ReadAt_def)
qed

theorem fallback_local_or_blocked_witness:
  "\<exists>err'. fallback_ReadAt (\<lambda>k n i. 0) (impl_ReadAt ErrCacheUnrecoverable) (impl_WriteAt ErrCacheUnrecoverable)
      (\<lambda>ident d e. Panic) (\<lambda>md. \<lparr>pending = [], tail_err = Sentinel EOF\<rparr>) [] None
      \<lparr>cacheblocked = True, fb_impl = small_store, fb_blocklength = 64\<rparr> 10 70 =
    Return (\<lparr>cacheblocked = True, fb_impl = small_store, fb_blocklength = 64\<rparr>, [], err') \<and>
    std_is err' TUnrecoverable"
proof -
  obtain err where "impl_ReadAt ErrCacheUnrecoverable small_store 10 70 = Return ([], Some err)"
      "errors_is err (TSentinel ErrNotExist)"
    using small_store_misses by blast
  with fallback_local_or_blocked [of ErrCacheUnrecoverable
      "\<lparr>cacheblocked = True, fb_impl = small_store, fb_blocklength = 64\<rparr>" 10 70 "[]" "Some err"
      "\<lambda>k n i. 0" "\<lambda>ident d e. Panic" "\<lambda>md. \<lparr>pending = [], tail_err = Sentinel EOF\<rparr>" "[]" None]
  show ?thesis by auto
qed

text \<open>A download that fails with an unrecoverable error blocks the cache for good: the read
  returns that error, and from then on a read never changes the state of the cache,
  whatever the archive would answer.\<close>

theorem unrecoverable_blocks:
  assumes "impl_ReadAt closed_err (fb_impl t) len off = Return (bs, Some miss)"
    and "errors_is miss (TSentinel ErrNotExist)" and "\<not> cacheblocked t"
    and "MetadataQueryArchived md"
    and "calculateBlockRange (fb_blocklength t) (word_of_int off) (Bytes md) = Return (d, n)"
    and "44 \<le> length (pending (prng_of md))"
    and "dl (ArchiveID md) d (d + n) = Return (Inl err)" and "errors_is err TUnrecoverable"
  shows "\<exists>t'. fallback_ReadAt ks (impl_ReadAt closed_err) (impl_WriteAt closed_err) dl prng_of [md] None t len off =
      Return (t', bs, Some err) \<and> cacheblocked t' \<and>
    (\<forall>dl' rows len' off' r.
       fallback_ReadAt ks (impl_ReadAt closed_err) (impl_WriteAt closed_err) dl' prng_of rows None t' len' off' =
         Return r \<longrightarrow> fst r = t')"
proof -
  have chunk: "fallback_downloadChunk ks (impl_WriteAt closed_err) dl t (prng_of md) (ArchiveID md)
      (word_of_int off) (Bytes md) = Return (t, Some err)"
    using assms(5-7)
    by (simp add: fallback_downloadChunk_def download_decrypting_def NewOffsetWriterChaCha20_def
        new_cipher_enough download_def)
  have blocks: "as_unrecoverable err \<noteq> None"
    using as_unrecoverable_iff [of err] assms(8) by blast
  let ?t = "t\<lparr>cacheblocked := True\<rparr>"
  have "fallback_ReadAt ks (impl_ReadAt closed_err) (impl_WriteAt closed_err) dl prng_of [md] None t len off =
      Return (?t, bs, Some err)"
    using assms(1-4) chunk blocks
    by (simp add: fallback_ReadAt_def MetadataQueryArchived_def)
  moreover have "fst r = ?t"
    if "fallback_ReadAt ks (impl_ReadAt closed_err) (impl_WriteAt closed_err) dl' prng_of rows None ?t len' off' = Return r"
    for dl' rows len' off' r
    using that by (auto simp: fallback_ReadAt_def split: outcome.splits option.splits if_splits)
  ultimately show ?thesis by (intro exI [of _ ?t]) auto
qed

definition demo_md :: Metadata where
  "demo_md = zero_metadata\<lparr>ArchiveID := ''a'', ID := ''m'', Bytes := 100\<rparr>"

definition demo_prng :: "Metadata \<Rightarrow> reader" where
  "demo_prng md = \<lparr>pending = replicate 44 0, tail_err = Sentinel EOF\<rparr>"

definition demo_ks :: keystream where
  "demo_ks k n i = of_nat i"

lemma demo_range: "calculateBlockRange 64 70 100 = Return (64, 36)"
  by (simp add: calculateBlockRange_def Let_def)

theorem unrecoverable_blocks_witness:
  "\<exists>t'. fallback_ReadAt demo_ks (impl_ReadAt ErrCacheUnrecoverable) (impl_WriteAt ErrCacheUnrecoverable)
      (\<lambda>ident d e. Return (Inl (NewUnrecoverable (New ''403'')))) demo_prng [demo_md] None
      \<lparr>cacheblocked = False, fb_impl = small_store, fb_blocklength = 64\<rparr> 10 70 =
    Return (t', [], Some (NewUnrecoverable (New ''403''))) \<and> cacheblocked t'"
proof -
  let ?t = "\<lparr>cacheblocked = False, fb_impl = small_store, fb_blocklength = 64\<rparr>"
  obtain miss where m: "impl_ReadAt ErrCacheUnrecoverable (fb_impl ?t) 10 70 = Return ([], Some miss)"
      "errors_is miss (TSentinel ErrNotExist)"
    using small_store_misses by auto
  have "calculateBlockRange (fb_blocklength ?t) (word_of_int 70) (Bytes demo_md) = Return (64, 36)"
    using demo_range by (simp add: demo_md_def)
  moreover have "MetadataQueryArchived demo_md"
    by (simp add: MetadataQueryArchived_def demo_md_def uuid_Nil_string_def uuid_Max_string_def)
  ultimately show ?thesis
    using unrecoverable_blocks [OF m, of demo_md 64 36 demo_prng
        "\<lambda>ident d e. Return (Inl (NewUnrecoverable (New ''403'')))" "NewUnrecoverable (New ''403'')" demo_ks]
    by (auto simp: demo_prng_def NewUnrecoverable_def)
qed





end
