(* ===== verification/Archival.thy ===== *)
theory Archival
  imports LibraryCache
begin

text \<open>
  Moving media to the archive and off the disk: \<^verbatim>\<open>shallows/library/archiver.go\<close> (one piece
  of media) and \<^verbatim>\<open>disk.quota.go\<close> (the background passes and the wakeup they wait on).

  The database and the archive service are functions: \<open>upload\<close> is \<^verbatim>\<open>archiver.Upload\<close> and
  \<open>update\<close> the statement \<^verbatim>\<open>MetadataArchivedByID\<close>. What a pass waits for is a list of events.
\<close>

section \<open>One piece of media\<close>

text \<open>What the archive is sent: the section of the cache from the media's offset on,
  encrypted from position 0 of the key stream. \<^verbatim>\<open>io.LimitReader\<close> does not shorten it.\<close>

definition archive_source ::
  "keystream \<Rightarrow> reader \<Rightarrow> DirCache \<Rightarrow> disk \<Rightarrow> Metadata \<Rightarrow> (goerr + bytes \<times> goerr option) outcome" where
  "archive_source ks seed cache d md =
     (case section_read (ReadAt cache) d (sint (DiskOffset md)) (nat (sint (Bytes md))) of
        Panic \<Rightarrow> Panic
      | Return (plain, err) \<Rightarrow>
          (case NewReaderChaCha20 seed \<lparr>pending = plain,
                 tail_err = (case err of None \<Rightarrow> Sentinel EOF | Some e \<Rightarrow> e)\<rparr> of
             Inl e \<Rightarrow> Return (Inl e)
           | Inr src \<Rightarrow> Return (Inr (StreamReader_ReadAll ks src))))"

definition Archive ::
  "keystream \<Rightarrow> (Metadata \<Rightarrow> reader) \<Rightarrow> (string \<Rightarrow> string) \<Rightarrow> (string \<Rightarrow> goerr option) \<Rightarrow>
   (string \<Rightarrow> bytes \<times> goerr option \<Rightarrow> goerr + Media) \<Rightarrow> (string \<Rightarrow> string \<Rightarrow> u64 \<Rightarrow> goerr option) \<Rightarrow>
   disk \<Rightarrow> Metadata \<Rightarrow> (goerr option \<times> (string \<times> string \<times> u64) option) outcome" where
  "Archive ks prng_of vpath mkdir upload update d md =
     (case NewDirectoryCache (mkdir (vpath (ID md))) (vpath (ID md)) [] of
        Inl err \<Rightarrow> Return (Wrap (Some err) (''unable to create reader: '' @ ID md), None)
      | Inr cache \<Rightarrow>
          (case archive_source ks (prng_of md) cache d md of
             Panic \<Rightarrow> Panic
           | Return (Inl err) \<Rightarrow> Return (Some err, None)
           | Return (Inr src) \<Rightarrow>
               (case upload (Mimetype md) src of
                  Inl err \<Rightarrow> Return (Some err, None)
                | Inr uploaded \<Rightarrow>
                    Return (update (ID md) (Media_Id uploaded) (Media_Usage uploaded),
                      Some (ID md, Media_Id uploaded, Media_Usage uploaded)))))"

text \<open>\<^verbatim>\<open>Reclaim\<close>: \<^verbatim>\<open>os.Readlink\<close> and \<^verbatim>\<open>os.RemoveAll\<close> are arguments; the path removed is the
  second component.\<close>

definition Reclaim ::
  "(string \<Rightarrow> string) \<Rightarrow> (string \<Rightarrow> goerr + string) \<Rightarrow> (string \<Rightarrow> goerr option) \<Rightarrow> Metadata \<Rightarrow>
   goerr option \<times> string option" where
  "Reclaim vpath readlink removeall md =
     (case readlink (vpath (ID md)) of
        Inl err \<Rightarrow> (Wrap (Some err) ''failed to resolve link'', None)
      | Inr dst \<Rightarrow> (Wrap (removeall dst) ''failed to reclaim disk space'', Some dst))"

section \<open>The passes\<close>

text \<open>One pass of \<^verbatim>\<open>NewAutoArchive\<close> over the archivable rows: an upload that fails is logged and
  the next row is tried; the result is the error of the scanner and what was archived.\<close>

fun archive_pass ::
  "bool \<Rightarrow> (Metadata \<Rightarrow> goerr option) \<Rightarrow> goerr option \<Rightarrow> Metadata list \<Rightarrow> goerr option \<times> string list" where
  "archive_pass archivedisk arch verr [] = (verr, [])"
| "archive_pass archivedisk arch verr (md # rows) =
     (if archivedisk then
        (case arch md of
           Some err \<Rightarrow> archive_pass archivedisk arch verr rows
         | None \<Rightarrow> (let (e, done) = archive_pass archivedisk arch verr rows in (e, ID md # done)))
      else archive_pass archivedisk arch verr rows)"

text \<open>One pass of \<^verbatim>\<open>NewDiskReclaim\<close>: it ends as soon as the disk is at most 80 percent full.
  \<open>usage\<close> gives what the disk reports after the given number of reclaimed rows.\<close>

fun reclaim_pass ::
  "bool \<Rightarrow> (Metadata \<Rightarrow> bool) \<Rightarrow> (nat \<Rightarrow> goerr + real) \<Rightarrow> (Metadata \<Rightarrow> goerr option) \<Rightarrow>
   goerr option \<Rightarrow> nat \<Rightarrow> Metadata list \<Rightarrow> goerr option \<times> string list" where
  "reclaim_pass reclaimdisk exists' usage recl verr k [] = (verr, [])"
| "reclaim_pass reclaimdisk exists' usage recl verr k (md # rows) =
     (if \<not> exists' md then reclaim_pass reclaimdisk exists' usage recl verr k rows
      else
        case usage k of
          Inl err \<Rightarrow> reclaim_pass reclaimdisk exists' usage recl verr k rows
        | Inr percent \<Rightarrow>
            if percent \<le> 80 then (verr, [])
            else if reclaimdisk then
              (case recl md of
                 Some err \<Rightarrow> reclaim_pass reclaimdisk exists' usage recl verr k rows
               | None \<Rightarrow>
                   (let (e, done) = reclaim_pass reclaimdisk exists' usage recl verr (Suc k) rows
                    in (e, ID md # done)))
            else reclaim_pass reclaimdisk exists' usage recl verr k rows)"

text \<open>The loop around the passes: \<open>pass n\<close> is the error of the \<open>n\<close>-th pass, the events are
  what \<^verbatim>\<open>select\<close> receives, in order. \<open>None\<close> is still waiting; the second component counts the
  passes.\<close>

datatype wakeup_event = Woken "goerr option" | CtxDone goerr

fun until_closed ::
  "(nat \<Rightarrow> goerr option) \<Rightarrow> nat \<Rightarrow> wakeup_event list \<Rightarrow> (goerr \<times> nat) option" where
  "until_closed pass n [] = (case pass n of Some err \<Rightarrow> Some (err, Suc n) | None \<Rightarrow> None)"
| "until_closed pass n (e # es) =
     (case pass n of
        Some err \<Rightarrow> Some (err, Suc n)
      | None \<Rightarrow>
          (case e of
             Woken (Some err) \<Rightarrow> Some (err, Suc n)
           | Woken None \<Rightarrow> until_closed pass (Suc n) es
           | CtxDone err \<Rightarrow> Some (err, Suc n)))"

definition errAsyncClosed :: string where
  "errAsyncClosed = ''async archive closed''"

definition run_background ::
  "string \<Rightarrow> (nat \<Rightarrow> goerr option) \<Rightarrow> wakeup_event list \<Rightarrow> (goerr option \<times> nat) option" where
  "run_background failed pass events =
     (case until_closed pass 0 events of
        None \<Rightarrow> None
      | Some (err, n) \<Rightarrow>
          Some (if Is (Some err) [TSentinel Canceled, TSentinel DeadlineExceeded] then (None, n)
                else if Is (Some err) [TString errAsyncClosed]
                then (Ignore (pass n) [TSentinel Canceled, TSentinel DeadlineExceeded], Suc n)
                else (Wrap (Some err) failed, n)))"

definition NewAutoArchive ::
  "(nat \<Rightarrow> goerr option) \<Rightarrow> wakeup_event list \<Rightarrow> (goerr option \<times> nat) option" where
  "NewAutoArchive archive events = run_background ''archival failed'' archive events"

definition NewDiskReclaim ::
  "(nat \<Rightarrow> goerr option) \<Rightarrow> wakeup_event list \<Rightarrow> (goerr option \<times> nat) option" where
  "NewDiskReclaim reclaim events = run_background ''reclaim failed'' reclaim events"

section \<open>The wakeup\<close>

text \<open>
  \<^verbatim>\<open>AsyncWakeup\<close>: the channel \<open>queue\<close> of capacity one; the goroutine that turns a broadcast
  into an entry of the queue, present until it sees the context cancelled; the closer
  running \<^verbatim>\<open>cleanup\<close>; and the pass that receives from the queue. A \<^verbatim>\<open>sync.Cond\<close> wakes those
  that wait at the moment of the broadcast and nobody later.
\<close>

datatype closer = Idle | Cancelled | Sent | Waiting | Closed
datatype worker = Receiving | Working | Final | Finished

record wakeup =
  queue :: "goerr option option"
  listening :: bool
  closer :: closer
  worker :: worker

definition wakeup_init :: wakeup where
  "wakeup_init = \<lparr>queue = None, listening = True, closer = Idle, worker = Receiving\<rparr>"

definition closed_msg :: "goerr option" where
  "closed_msg = Some (StringErr errAsyncClosed)"

inductive wakeup_step :: "wakeup \<Rightarrow> wakeup \<Rightarrow> bool" where
  broadcast_stop: "listening s \<Longrightarrow> closer s \<noteq> Idle \<Longrightarrow> wakeup_step s (s\<lparr>listening := False\<rparr>)"
| broadcast_queue: "listening s \<Longrightarrow> closer s = Idle \<Longrightarrow> queue s = None \<Longrightarrow>
    wakeup_step s (s\<lparr>queue := Some None\<rparr>)"
| cancel: "closer s = Idle \<Longrightarrow> wakeup_step s (s\<lparr>closer := Cancelled\<rparr>)"
| send: "closer s = Cancelled \<Longrightarrow> queue s = None \<Longrightarrow>
    wakeup_step s (s\<lparr>queue := Some closed_msg, closer := Sent\<rparr>)"
| wait: "closer s = Sent \<Longrightarrow> wakeup_step s (s\<lparr>closer := Waiting\<rparr>)"
| recv_wake: "worker s = Receiving \<Longrightarrow> queue s = Some None \<Longrightarrow>
    wakeup_step s (s\<lparr>queue := None, worker := Working\<rparr>)"
| recv_closed: "worker s = Receiving \<Longrightarrow> queue s = Some (Some e) \<Longrightarrow>
    wakeup_step s (s\<lparr>queue := None, worker := Final\<rparr>)"
| pass_done: "worker s = Working \<Longrightarrow> wakeup_step s (s\<lparr>worker := Receiving\<rparr>)"
| finish: "worker s = Final \<Longrightarrow>
    wakeup_step s (s\<lparr>worker := Finished,
      closer := (if closer s = Waiting then Closed else closer s)\<rparr>)"

inductive_cases wakeup_stepE: "wakeup_step s s'"

definition reachable :: "wakeup \<Rightarrow> bool" where
  "reachable s \<longleftrightarrow> wakeup_step\<^sup>*\<^sup>* wakeup_init s"

lemma reachable_init [intro]: "reachable wakeup_init"
  by (simp add: reachable_def)

lemma reachable_step [intro]: "reachable s \<Longrightarrow> wakeup_step s s' \<Longrightarrow> reachable s'"
  by (simp add: reachable_def)

text \<open>The worker ends only after the closed message was sent, and before that message is
  received it cannot have.\<close>

definition wakeup_inv :: "wakeup \<Rightarrow> bool" where
  "wakeup_inv s =
     (if worker s = Final then closer s \<in> {Sent, Waiting} \<and> queue s = None
      else if worker s = Finished then closer s \<in> {Sent, Waiting, Closed} \<and> queue s = None
      else if closer s \<in> {Sent, Waiting} then queue s = Some closed_msg
      else closer s \<noteq> Closed \<and> queue s \<in> {None, Some None})"

lemma wakeup_inv_step: "wakeup_step s s' \<Longrightarrow> wakeup_inv s \<Longrightarrow> wakeup_inv s'"
  by (erule wakeup_step.cases; hypsubst; cases "worker s"; cases "closer s";
      simp add: wakeup_inv_def closed_msg_def)

lemma reachable_inv: "reachable s \<Longrightarrow> wakeup_inv s"
  unfolding reachable_def
  by (induction rule: rtranclp_induct)
    (auto simp: wakeup_inv_step, simp add: wakeup_inv_def wakeup_init_def)

section \<open>Lemmas on the passes\<close>

lemma until_closed_wakes:
  "(\<And>i. n \<le> i \<Longrightarrow> i \<le> n + k \<Longrightarrow> pass i = None) \<Longrightarrow>
   until_closed pass n (replicate k (Woken None) @ e # es) =
     until_closed pass (n + k) (e # es)"
proof (induction k arbitrary: n)
  case (Suc k)
  have "pass n = None" using Suc.prems by simp
  moreover have "until_closed pass (Suc n) (replicate k (Woken None) @ e # es) =
      until_closed pass (Suc n + k) (e # es)"
    by (rule Suc.IH) (use Suc.prems in simp)
  ultimately show ?case by simp
qed simp

lemma reclaim_pass_subset:
  "set (snd (reclaim_pass b ex usage recl verr k rows)) \<subseteq> ID ` set rows"
proof (induction rows arbitrary: k)
  case (Cons md rows)
  then show ?case
    by (cases "ex md"; cases "usage k"; cases b; cases "recl md")
      (auto simp: case_prod_beta Let_def image_iff subset_iff)
qed simp

lemma archive_source_encrypts:
  assumes "usable_cache cache" and "in_range (sint (DiskOffset md)) (nat (sint (Bytes md)))"
    and "44 \<le> length (pending seed)"
    and "length plain = nat (sint (Bytes md))"
    and "\<forall>j < length plain. cached_byte cache d (sint (DiskOffset md) + int j) = Some (plain ! j)"
  shows "archive_source ks seed cache d md = Return (Inr (encrypted ks seed plain, None))"
proof -
  have "section_read (ReadAt cache) d (sint (DiskOffset md)) (nat (sint (Bytes md))) = Return (plain, None)"
    using dc.section_read_iff [OF assms(1,2)] assms(4,5) by auto
  moreover obtain enc where "NewReaderChaCha20 seed \<lparr>pending = plain, tail_err = Sentinel EOF\<rparr> = Inr enc"
      "StreamReader_ReadAll ks enc = (encrypted ks seed plain, None)"
    using encrypted_reader [OF assms(3)] by blast
  ultimately show ?thesis
    by (simp add: archive_source_def)
qed

section \<open>Properties\<close>

text \<open>C33: closing the background archival after any number of wakeups runs the pass one last
  time, so nothing marked archivable before the close is left behind: with passes that do
  not fail, \<open>k\<close> wakeups and the close make \<open>k + 2\<close> passes, and the result is that of the
  last, cancellation excepted. A context that ends instead is not an error.\<close>

theorem NewAutoArchive_final_pass:
  assumes "\<forall>i \<le> k. archive i = None"
  shows "NewAutoArchive archive (replicate k (Woken None) @ [Woken (Some (StringErr errAsyncClosed))]) =
      Some (Ignore (archive (Suc k)) [TSentinel Canceled, TSentinel DeadlineExceeded], Suc (Suc k)) \<and>
    NewAutoArchive archive (replicate k (Woken None) @ [CtxDone (Sentinel Canceled)]) =
      Some (None, Suc k)"
  using assms until_closed_wakes [of 0 k archive]
  by (simp add: NewAutoArchive_def run_background_def)

theorem NewAutoArchive_final_pass_witness:
  "NewAutoArchive (\<lambda>i. None) (replicate 3 (Woken None) @ [Woken (Some (StringErr errAsyncClosed))]) =
     Some (None, 5)"
  using NewAutoArchive_final_pass [of 3 "\<lambda>i. None"] by simp

text \<open>A reclaim pass stops at the threshold: it reclaims only rows it was given, and with the
  disk at most 80 percent full it reclaims none.\<close>

theorem reclaim_pass_threshold:
  assumes "\<forall>k. \<exists>percent. usage k = Inr percent \<and> (m \<le> k \<longrightarrow> percent \<le> 80)"
  shows "length (snd (reclaim_pass b ex usage recl verr 0 rows)) \<le> m \<and>
    set (snd (reclaim_pass b ex usage recl verr 0 rows)) \<subseteq> ID ` set rows"
proof -
  have "length (snd (reclaim_pass b ex usage recl verr k rows)) \<le> m - k" for k
  proof (induction rows arbitrary: k)
    case (Cons md rows)
    obtain percent where p: "usage k = Inr percent" "m \<le> k \<longrightarrow> percent \<le> 80"
      using assms by blast
    have "length (snd (reclaim_pass b ex usage recl verr (Suc k) rows)) \<le> m - Suc k"
      by (rule Cons)
    with Cons [of k] p show ?case
      by (auto split: option.splits prod.splits)
  qed simp
  from this [of 0] reclaim_pass_subset show ?thesis by auto
qed

theorem reclaim_pass_threshold_witness:
  "length (snd (reclaim_pass True (\<lambda>_. True) (\<lambda>k. Inr (if k < 1 then 95 else 70)) (\<lambda>_. None) None 0
     [demo_md, demo_md, demo_md])) \<le> 1"
  using reclaim_pass_threshold [of "\<lambda>k. Inr (if k < 1 then 95 else 70)" 1 True "\<lambda>_. True" "\<lambda>_. None" None
      "[demo_md, demo_md, demo_md]"]
  by simp

text \<open>The wakeup can be closed without the close ever returning: a worker that receives the
  closed message and finishes before the closer starts to wait broadcasts to nobody, and
  the state reached has no further step. When the close does return, the worker has
  finished its last pass.\<close>

theorem wakeup_close:
  "(\<exists>s. reachable s \<and> closer s = Waiting \<and> worker s = Finished \<and> (\<nexists>s'. wakeup_step s s')) \<and>
   (\<exists>s. reachable s \<and> closer s = Closed) \<and>
   {s. reachable s \<and> closer s = Closed} \<subseteq> {s. worker s = Finished}"
proof -
  let ?s1 = "wakeup_init\<lparr>closer := Cancelled\<rparr>"
  let ?s2 = "?s1\<lparr>listening := False\<rparr>"
  let ?s3 = "?s2\<lparr>queue := Some closed_msg, closer := Sent\<rparr>"
  let ?s4 = "?s3\<lparr>queue := None, worker := Final\<rparr>"
  have "reachable ?s1" by (rule reachable_step [OF reachable_init cancel]) (simp add: wakeup_init_def)
  then have "reachable ?s2" by (rule reachable_step [OF _ broadcast_stop]) (simp_all add: wakeup_init_def)
  then have "reachable ?s3" by (rule reachable_step [OF _ send]) (simp_all add: wakeup_init_def)
  then have s4: "reachable ?s4"
    by (rule reachable_step [OF _ recv_closed [where e = "StringErr errAsyncClosed"]])
      (simp_all add: wakeup_init_def closed_msg_def)
  let ?late = "?s4\<lparr>worker := Finished, closer := Waiting\<rparr>"
  have "reachable (?s4\<lparr>worker := Finished, closer := (if closer ?s4 = Waiting then Closed else closer ?s4)\<rparr>)"
    by (rule reachable_step [OF s4 finish]) simp
  from reachable_step [OF this wait] have "reachable ?late" by simp
  moreover have "\<nexists>s'. wakeup_step ?late s'"
    by (auto elim!: wakeup_stepE simp: wakeup_init_def)
  moreover have "reachable (?s4\<lparr>closer := Waiting\<rparr>)"
    by (rule reachable_step [OF s4 wait]) simp
  from reachable_step [OF this finish] have "reachable (?s4\<lparr>worker := Finished, closer := Closed\<rparr>)"
    by simp
  moreover have "{s. reachable s \<and> closer s = Closed} \<subseteq> {s. worker s = Finished}"
    using reachable_inv by (force simp: wakeup_inv_def split: if_splits)
  ultimately show ?thesis
    by (intro conjI exI [of _ ?late] exI [of _ "?s4\<lparr>worker := Finished, closer := Closed\<rparr>"]) simp_all
qed

text \<open>C34: what is archived for a piece of media is the encryption, from the start of the key
  stream, of the bytes its cache holds from its offset on: when all of them are there and
  the upload and the update succeed, the upload was given exactly that and the row records
  the archive's answer.\<close>

theorem Archive_uploads_encryption:
  assumes "mkdir (vpath (ID md)) = None"
    and "0 \<le> sint (DiskOffset md)" and "sint (DiskOffset md) + int (length plain) < 2 ^ 63"
    and "int (length plain) = sint (Bytes md)" and "44 \<le> length (pending (prng_of md))"
    and "\<forall>j < length plain. cached_byte \<lparr>root = vpath (ID md), BlockLength = DefaultBlockLength\<rparr> d
           (sint (DiskOffset md) + int j) = Some (plain ! j)"
    and "upload (Mimetype md) (encrypted ks (prng_of md) plain, None) = Inr m"
  shows "Archive ks prng_of vpath mkdir upload update d md =
    Return (update (ID md) (Media_Id m) (Media_Usage m), Some (ID md, Media_Id m, Media_Usage m))"
proof -
  let ?c = "\<lparr>root = vpath (ID md), BlockLength = DefaultBlockLength\<rparr>"
  have "nat (sint (Bytes md)) = length plain" using assms(4) by simp
  moreover have "usable_cache ?c" by (simp add: usable_cache_def DefaultBlockLength_def MiB_def)
  ultimately have "archive_source ks (prng_of md) ?c d md = Return (Inr (encrypted ks (prng_of md) plain, None))"
    using assms by (intro archive_source_encrypts) (auto simp: in_range_def)
  with assms(1,7) show ?thesis
    by (simp add: Archive_def NewDirectoryCache_def)
qed

theorem Archive_uploads_encryption_witness:
  "Archive demo_ks demo_prng (\<lambda>n. ''v/'' @ n) (\<lambda>_. None)
     (\<lambda>mime src. Inr \<lparr>Media_Id = ''new'', Media_Usage = of_nat (length (fst src))\<rparr>) (\<lambda>i a u. None)
     [''v/m/0'' \<mapsto> [1, 2, 3, 4]] (demo_md\<lparr>Bytes := 2, DiskOffset := 1\<rparr>) =
   Return (None, Some (''m'', ''new'', 2))"
proof -
  let ?md = "demo_md\<lparr>Bytes := 2, DiskOffset := 1\<rparr>"
  let ?c = "\<lparr>root = ''v/m'', BlockLength = DefaultBlockLength\<rparr>"
  have "path ?c 1 = ''v/m/0''" "path ?c 2 = ''v/m/0''" by code_simp+
  then have "\<forall>j < length [2, 3 :: byte]. cached_byte ?c [''v/m/0'' \<mapsto> [1, 2, 3, 4]] (1 + int j) =
      Some ([2, 3] ! j)"
    by (auto simp: less_Suc_eq cached_byte_def DefaultBlockLength_def MiB_def)
  then show ?thesis
    using Archive_uploads_encryption [of "\<lambda>_. None" "\<lambda>n. ''v/'' @ n" ?md "[2, 3]" demo_prng
        "[''v/m/0'' \<mapsto> [1, 2, 3, 4]]"
        "\<lambda>mime src. Inr \<lparr>Media_Id = ''new'', Media_Usage = of_nat (length (fst src))\<rparr>" demo_ks
        "\<lparr>Media_Id = ''new'', Media_Usage = 2\<rparr>" "\<lambda>i a u. None"]
    by (simp add: demo_md_def zero_metadata_def demo_prng_def encrypted_def)
qed

end
