(* ===== verification/Backoffx.thy ===== *)
theory Backoffx
  imports Timex
begin

text \<open>
  \<^verbatim>\<open>shallows/internal/backoffx/backoff.go\<close>: how long to wait before a retry. A strategy
  maps the number of an attempt to a duration; indexing an empty list of delays, a
  negative index and \<^verbatim>\<open>rand.Intn\<close> of a number that is not positive panic.
\<close>

type_synonym strategy = "int \<Rightarrow> duration outcome"
type_synonym strategy_option = "strategy \<Rightarrow> strategy"

definition Maximum :: "duration \<Rightarrow> strategy_option" where
  "Maximum d s attempt =
     map_outcome_result (\<lambda>x. if x < d then x else d) (s attempt)"

definition Minimum :: "duration \<Rightarrow> strategy_option" where
  "Minimum d s attempt =
     map_outcome_result (\<lambda>x. if x > d then x else d) (s attempt)"

text \<open>\<^verbatim>\<open>Jitter\<close>: \<open>frame x\<close> is the floating-point product \<^verbatim>\<open>int(math.Floor(float64(x) * multiplier))\<close>
  and \<open>intn\<close> the generator.\<close>

definition Jitter :: "(duration \<Rightarrow> int) \<Rightarrow> (int \<Rightarrow> int) \<Rightarrow> strategy_option" where
  "Jitter frame intn s attempt =
     (case s attempt of
        Panic \<Rightarrow> Panic
      | Return x \<Rightarrow>
          if x = max_i64 then Return x
          else if frame x \<le> 0 then Panic
          else Return (DurationMax [x, i64 (x + intn (frame x))]))"

fun New_strategy :: "strategy \<Rightarrow> strategy_option list \<Rightarrow> strategy" where
  "New_strategy s [] = s"
| "New_strategy s (opt # options) = New_strategy (opt s) options"

definition Constant :: "duration \<Rightarrow> strategy" where
  "Constant d attempt = Return d"

text \<open>\<^verbatim>\<open>1 << uint64(attempt)\<close> as a duration: a shift by 64 or more, or by a negative number
  converted to \<^verbatim>\<open>uint64\<close>, gives zero.\<close>

definition shift_one :: "int \<Rightarrow> int" where
  "shift_one attempt = (if 0 \<le> attempt \<and> attempt < 64 then i64 (2 ^ nat attempt) else 0)"

text \<open>\<^verbatim>\<open>bits.Mul64\<close>.\<close>

definition Mul64 :: "u64 \<Rightarrow> u64 \<Rightarrow> u64 \<times> u64" where
  "Mul64 a b =
     (of_nat (unat a * unat b div 2 ^ 64), of_nat (unat a * unat b mod 2 ^ 64))"

definition top_bit :: u64 where "top_bit = push_bit 63 1"

definition exponential_Backoff :: "duration \<Rightarrow> strategy" where
  "exponential_Backoff scale attempt =
     (let e = shift_one attempt in
      if e \<le> 0 then Return max_i64
      else
        let (hi, lo) = Mul64 (word_of_int e) (word_of_int scale) in
        if hi \<noteq> 0 \<or> lo AND top_bit = top_bit then Return max_i64
        else Return (sint lo))"

definition Exponential :: "duration \<Rightarrow> strategy outcome" where
  "Exponential scale = (if scale = 0 then Panic else Return (exponential_Backoff scale))"

definition explicit_Backoff :: "duration list \<Rightarrow> strategy" where
  "explicit_Backoff delays attempt =
     (if delays = [] then Panic
      else let i = go_rem attempt (int (length delays)) in
        if i < 0 then Panic else Return (delays ! nat i))"

text \<open>The first delays \<^verbatim>\<open>Iter\<close> yields.\<close>

fun Iter_prefix :: "strategy \<Rightarrow> nat \<Rightarrow> nat \<Rightarrow> (int \<times> duration outcome) list" where
  "Iter_prefix d i 0 = []"
| "Iter_prefix d i (Suc n) = (int i, d (int i)) # Iter_prefix d (Suc i) n"

section \<open>Hashed delays\<close>

text \<open>\<open>md5\<close> is the digest of the standard library; the first eight bytes, little endian.\<close>

definition le_u64 :: "bytes \<Rightarrow> u64" where
  "le_u64 b = of_nat (\<Sum>i<8. unat (b ! i) * 256 ^ i)"

definition DynamicHashWindow :: "(string \<Rightarrow> bytes) \<Rightarrow> string \<Rightarrow> u64 \<Rightarrow> u64 outcome" where
  "DynamicHashWindow md5 i n = (if n = 0 then Panic else Return (le_u64 (md5 i) mod n))"

definition DynamicHashDuration :: "(string \<Rightarrow> bytes) \<Rightarrow> duration \<Rightarrow> string \<Rightarrow> duration outcome" where
  "DynamicHashDuration md5 window i =
     (if window = 0 then Return 0
      else map_outcome_result sint (DynamicHashWindow md5 i (word_of_int window)))"

definition DynamicHashHour :: "(string \<Rightarrow> bytes) \<Rightarrow> string \<Rightarrow> duration outcome" where
  "DynamicHashHour md5 i = DynamicHashDuration md5 (60 * Minute) i"

definition DynamicHash45m :: "(string \<Rightarrow> bytes) \<Rightarrow> string \<Rightarrow> duration outcome" where
  "DynamicHash45m md5 i = DynamicHashDuration md5 (45 * Minute) i"

definition DynamicHash15m :: "(string \<Rightarrow> bytes) \<Rightarrow> string \<Rightarrow> duration outcome" where
  "DynamicHash15m md5 i = DynamicHashDuration md5 (15 * Minute) i"

definition DynamicHash5m :: "(string \<Rightarrow> bytes) \<Rightarrow> string \<Rightarrow> duration outcome" where
  "DynamicHash5m md5 i = DynamicHashDuration md5 (5 * Minute) i"

definition DynamicHash1m :: "(string \<Rightarrow> bytes) \<Rightarrow> string \<Rightarrow> duration outcome" where
  "DynamicHash1m md5 i = DynamicHashDuration md5 Minute i"

definition DynamicHashDay :: "(string \<Rightarrow> bytes) \<Rightarrow> string \<Rightarrow> int outcome" where
  "DynamicHashDay md5 i = map_outcome_result uint (DynamicHashWindow md5 i 7)"

section \<open>Lemmas\<close>

lemma shift_one_eq:
  "shift_one a = (if 0 \<le> a \<and> a < 63 then 2 ^ nat a else if a = 63 then min_i64 else 0)"
proof -
  consider "a < 0 \<or> 64 \<le> a" | "a = 63" | "0 \<le> a" "a < 63" by linarith
  then show ?thesis
  proof cases
    case 2
    then show ?thesis by (simp add: shift_one_def i64_def min_i64_def)
  next
    case 3
    then have "(2::int) ^ nat a < 2 ^ 63" by (intro power_strict_increasing) auto
    with 3 show ?thesis
      by (auto simp: shift_one_def intro!: i64_id in_i64I intro: order_trans [of _ 0])
  qed (auto simp: shift_one_def)
qed

lemma bit_top_bit: "bit top_bit n \<longleftrightarrow> n = 63"
proof -
  have "bit top_bit n \<longleftrightarrow> 63 \<le> n \<and> n < 64 \<and> bit (1 :: u64) (n - 63)"
    unfolding top_bit_def by (subst bit_push_bit_iff) auto
  then show ?thesis by (auto simp: bit_1_iff)
qed

lemma and_top_bit: "(w :: u64) AND top_bit = top_bit \<longleftrightarrow> 2 ^ 63 \<le> unat w"
proof -
  have "w AND top_bit = top_bit \<longleftrightarrow> bit w 63"
  proof
    assume "w AND top_bit = top_bit"
    then have "bit (w AND top_bit) 63 = bit top_bit 63" by simp
    then show "bit w 63" by (simp add: bit_and_iff bit_top_bit)
  next
    assume "bit w 63"
    then show "w AND top_bit = top_bit"
      by (intro bit_word_eqI) (auto simp: bit_and_iff bit_top_bit)
  qed
  also have "\<dots> \<longleftrightarrow> odd (unat w div 2 ^ 63)"
  proof -
    have "bit w 63 \<longleftrightarrow> bit (unat w) 63" by (simp add: bit_unsigned_iff)
    then show ?thesis by (simp add: bit_iff_odd)
  qed
  also have "\<dots> \<longleftrightarrow> 2 ^ 63 \<le> unat w"
  proof -
    have "unat w < 2 ^ 64" using unsigned_less [of w, where ?'a = nat] by simp
    then have "unat w div 2 ^ 63 < 2" by (simp add: less_mult_imp_div_less)
    then have "odd (unat w div 2 ^ 63) \<longleftrightarrow> unat w div 2 ^ 63 = 1"
      by (auto dest!: less_2_cases)
    also have "\<dots> \<longleftrightarrow> 2 ^ 63 \<le> unat w"
      using \<open>unat w < 2 ^ 64\<close> by (auto simp: div_nat_eqI)
    finally show ?thesis .
  qed
  finally show ?thesis .
qed

text \<open>The overflow tests of \<^verbatim>\<open>exponential\<close> are exact.\<close>

lemma checked_product:
  assumes "unat x = m" "unat y = n"
  shows "(let (hi, lo) = Mul64 x y in
      if hi \<noteq> 0 \<or> lo AND top_bit = top_bit then Return max_i64 else Return (sint lo)) =
    Return (if m * n < 2 ^ 63 then int (m * n) else max_i64)"
proof -
  let ?p = "m * n"
  have "m < 2 ^ 64" "n < 2 ^ 64"
    using assms unsigned_less [of x, where ?'a = nat] unsigned_less [of y, where ?'a = nat] by auto
  then have "?p < 2 ^ 64 * 2 ^ 64"
    by (intro mult_strict_mono) auto
  then have "?p div 2 ^ 64 < 2 ^ 64" by (simp add: less_mult_imp_div_less)
  then have "(of_nat (?p div 2 ^ 64) :: u64) = 0 \<longleftrightarrow> ?p div 2 ^ 64 = 0"
    by (auto simp: word_of_nat_eq_0_iff dest: dvd_imp_le)
  then have hi: "(of_nat (?p div 2 ^ 64) :: u64) = 0 \<longleftrightarrow> ?p < 2 ^ 64"
    by (simp add: div_eq_0_iff)
  have lo: "unat (of_nat (?p mod 2 ^ 64) :: u64) = ?p mod 2 ^ 64"
    by (simp add: unat_of_nat)
  have eq: "(let (hi, lo) = Mul64 x y in
      if hi \<noteq> 0 \<or> lo AND top_bit = top_bit then Return max_i64 else Return (sint lo)) =
    (if 2 ^ 64 \<le> ?p \<or> 2 ^ 63 \<le> ?p mod 2 ^ 64 then Return max_i64
     else Return (sint (of_nat (?p mod 2 ^ 64) :: u64)))"
    by (simp only: Mul64_def assms Let_def split and_top_bit hi lo not_less)
  show ?thesis
  proof (cases "?p < 2 ^ 63")
    case True
    then have "?p mod 2 ^ 64 = ?p" "?p < 2 ^ 64" by simp_all
    moreover have "sint (of_nat ?p :: u64) = int ?p"
    proof -
      have "word_of_nat ?p = (word_of_int (int ?p) :: u64)" by simp
      moreover have "sint (word_of_int (int ?p) :: u64) = int ?p"
        using True by (intro sint_word_of_i64 in_i64I) (simp_all add: of_nat_less_numeral_power_cancel_iff
            flip: of_nat_mult)
      ultimately show ?thesis by (simp only:)
    qed
    ultimately show ?thesis
      using True unfolding eq by simp
  next
    case False
    then show ?thesis unfolding eq by auto
  qed
qed

lemma exponential_exact:
  assumes "0 < scale" "scale \<le> max_i64"
  shows "exponential_Backoff scale a =
    Return (if 0 \<le> a \<and> a < 63 \<and> scale * 2 ^ nat a \<le> max_i64 then scale * 2 ^ nat a else max_i64)"
proof (cases "0 \<le> a \<and> a < 63")
  case False
  then show ?thesis
    by (auto simp: exponential_Backoff_def shift_one_eq min_i64_def Let_def)
next
  case True
  let ?e = "(2::nat) ^ nat a" and ?s = "nat scale"
  have "?e < 2 ^ 64" by (rule power_strict_increasing) (use True in linarith, simp)
  then have e: "unat (word_of_int (2 ^ nat a) :: u64) = ?e"
  proof -
    have "(word_of_int (2 ^ nat a) :: u64) = of_nat ?e" by simp
    then show ?thesis
      by (simp only:) (subst unat_of_nat, use \<open>?e < 2 ^ 64\<close> in simp)
  qed
  have s: "unat (word_of_int scale :: u64) = ?s"
    using assms by (simp add: unsigned_of_int take_bit_int_eq_self max_i64_def)
  have p: "int (?e * ?s) = scale * 2 ^ nat a" using assms by simp
  have pos: "\<not> (2::int) ^ nat a \<le> 0" by (simp add: not_le)
  have "exponential_Backoff scale a =
      Return (if ?e * ?s < 2 ^ 63 then int (?e * ?s) else max_i64)"
    unfolding exponential_Backoff_def shift_one_eq if_P [OF True] Let_def if_not_P [OF pos]
    by (rule checked_product [OF e s, unfolded Let_def])
  moreover have "scale * 2 ^ nat a \<le> max_i64 \<longleftrightarrow> ?e * ?s < 2 ^ 63"
  proof -
    have "int k \<le> 2 ^ 63 - 1 \<longleftrightarrow> k < 2 ^ 63" for k :: nat
      using of_nat_less_iff [of k "2 ^ 63", where ?'a = int] by simp presburger
    then show ?thesis by (simp only: p [symmetric] max_i64_def)
  qed
  ultimately show ?thesis
    using True p by simp
qed

lemma Maximum_Return: "Maximum d s a = Return y \<Longrightarrow> y \<le> d"
  by (auto simp: Maximum_def map_outcome_result_eq_Return split: if_splits)

lemma Minimum_Return: "Minimum d s a = Return y \<Longrightarrow> d \<le> y"
  by (auto simp: Minimum_def map_outcome_result_eq_Return split: if_splits)

lemma New_strategy_append: "New_strategy s (xs @ ys) = New_strategy (New_strategy s xs) ys"
  by (induction s xs rule: New_strategy.induct) simp_all

section \<open>Properties\<close>



text \<open>A strategy bounded by a minimum and then by a maximum that is not below it, as the
  daemons build theirs, only returns delays between the two; bounded in the other order as well.\<close>

theorem bounded_strategy:
  assumes "lo \<le> hi" and "opts = [Minimum lo, Maximum hi] \<or> opts = [Maximum hi, Minimum lo]"
    and "New_strategy s opts a = Return d"
  shows "lo \<le> d \<and> d \<le> hi"
  using assms by (auto simp: Maximum_def Minimum_def map_outcome_result_eq_Return split: if_splits)

theorem bounded_strategy_witness:
  "Minute \<le> Minute \<and>
   New_strategy (exponential_Backoff Second) [Minimum Second, Maximum Minute] 40 = Return Minute"
proof -
  have "New_strategy (exponential_Backoff Second) [Minimum Second, Maximum Minute] 40 = Return Minute"
    by (simp add: exponential_exact Maximum_def Minimum_def Second_def Minute_def max_i64_def)
  moreover from this bounded_strategy [OF _ disjI1 [OF refl] this] have "Minute \<le> Minute"
    by (simp add: Minute_def Second_def)
  ultimately show ?thesis by blast
qed

text \<open>A hashed delay lies in its window: for a positive window that fits a duration the
  result is at least zero and below it, whatever the digest.\<close>

theorem DynamicHashDuration_in_window:
  assumes "0 < window" and "window \<le> max_i64"
  shows "\<exists>d. DynamicHashDuration md5 window i = Return d \<and> 0 \<le> d \<and> d < window"
proof -
  let ?w = "word_of_int window :: u64" and ?h = "le_u64 (md5 i)"
  have w: "uint ?w = window"
    using assms by (simp add: unsigned_of_int take_bit_int_eq_self max_i64_def)
  then have "?w \<noteq> 0" using assms(1) by auto
  have "uint (?h mod ?w) = uint ?h mod window"
    by (simp add: uint_mod_distrib w)
  then have u: "0 \<le> uint (?h mod ?w)" "uint (?h mod ?w) < window"
    using assms(1) by simp_all
  then have "sint (?h mod ?w) = uint (?h mod ?w)"
    using assms(2) by (intro sint_uint_small) (simp add: max_i64_def)
  with u \<open>?w \<noteq> 0\<close> assms(1) show ?thesis
    by (simp add: DynamicHashDuration_def DynamicHashWindow_def)
qed

theorem DynamicHashDuration_in_window_witness:
  "\<exists>d. DynamicHashDuration (\<lambda>s. replicate 16 (of_nat (length s))) (15 * Minute) ''id'' = Return d \<and>
     0 \<le> d \<and> d < 15 * Minute"
  by (rule DynamicHashDuration_in_window) (simp_all add: Minute_def Second_def max_i64_def)

end
