(* ===== verification/Sshoauth.thy ===== *)
theory Sshoauth
  imports Mediaapi Metadb Backoffx
begin

text \<open>
  The login with a public key: \<^verbatim>\<open>shallows/metaapi/http.oauth2.ssh.go\<close>, with the rate limit of
  \<^verbatim>\<open>shallows/internal/httpx\<close>.

  \<^verbatim>\<open>/auth\<close> exchanges a public key for a code, \<^verbatim>\<open>/token\<close> a code, a signature or a refresh token for an access
  token. The libraries for keys, signatures and tokens, the decoders of forms, the clock and the fresh
  identifiers are the record \<open>ssh_oauth\<close>. \<open>so_peek\<close> is what the token library leaves in the claims it is
  given whatever it thinks of the token. Readings of the clock and identifiers are numbered within a request.
  Every failure is answered with a bad request.
\<close>

section \<open>The rate limit\<close>

definition limit_Backoff :: strategy where
  "limit_Backoff = New_strategy (exponential_Backoff (32 * Millisecond)) [Maximum (2 * Second)]"

text \<open>\<open>allow\<close> is the verdict of the limiter; the attempts that are refused are counted.\<close>

definition RouteRateLimited :: "bool \<Rightarrow> ('s, 'x) handler \<Rightarrow> (int \<times> 's, 'x) handler" where
  "RouteRateLimited allow original = (\<lambda>(attempts, s) ctx w r.
     if allow then bind_outcome (original s ctx w r) (\<lambda>(s', w'). Return ((0, s'), w'))
     else let nattempt = i64 (attempts + 1) in
       bind_outcome (limit_Backoff nattempt) (\<lambda>d.
         Return ((nattempt, s), WriteHeader 429
           (w\<lparr>wHeader := hdr_add (wHeader w) ''Retry-After'' (format_int (go_quot d Second))\<rparr>))))"

section \<open>The service\<close>

record token_form =
  tf_GrantType :: string
  tf_Username :: string
  tf_Password :: string
  tf_Code :: string

datatype oauth_answer =
    AuthJSON string string
  | TokenJSON string string string "32 word"

record 'sig ssh_oauth =
  so_keys :: key_env
  so_secret :: bytes
  so_algos :: "string list"
  so_parse :: "RegisteredClaims jwt_parse"
  so_peek :: "string \<Rightarrow> RegisteredClaims"
  so_sign :: "bytes \<Rightarrow> RegisteredClaims \<Rightarrow> goerr + string"
  so_fresh :: "nat \<Rightarrow> string"
  so_clock :: "nat \<Rightarrow> int"
  so_parse_key :: "bytes \<Rightarrow> goerr + pubkey"
  so_signature :: "bytes \<Rightarrow> goerr + 'sig"
  so_verify :: "pubkey \<Rightarrow> bytes \<Rightarrow> 'sig \<Rightarrow> goerr option"
  so_uuid_bytes :: "string \<Rightarrow> bytes"
  so_is_nil :: "string \<Rightarrow> bool"
  so_state :: "bytes \<Rightarrow> goerr + bytes"
  so_auth_form :: "request \<Rightarrow> goerr + string"
  so_token_form :: "request \<Rightarrow> goerr + token_form"
  so_form_value :: "request \<Rightarrow> string \<Rightarrow> string"
  so_encode :: "oauth_answer \<Rightarrow> goerr + string"
  so_malformed :: "request \<Rightarrow> bool"
  so_allow :: "request \<Rightarrow> bool"

type_synonym oauth_handler = "(accounts, unit) handler"

text \<open>\<^verbatim>\<open>http.Request.BasicAuth\<close>.\<close>

definition BasicAuth :: "request \<Rightarrow> (string \<times> string) option" where
  "BasicAuth r =
     (let auth = hdr_get (rHeader r) ''Authorization'' in
      if length auth < 6 \<or> ToLower (take 6 auth) \<noteq> ''basic '' then None
      else (case b64_decode (drop 6 auth) of
          None \<Rightarrow> None
        | Some c \<Rightarrow> cut '':'' (bytes_string c)))"

text \<open>The key a code is signed with: the digest of the public key and the secret of the service.\<close>

definition code_key :: "'sig ssh_oauth \<Rightarrow> Identity \<Rightarrow> bytes" where
  "code_key e iden =
     (let md5uuid = ky_md5uuid (so_keys e) in
      string_bytes (md5uuid (string_bytes (is_PublicKey iden @ md5uuid (so_secret e)))))"

definition so_db :: "'sig ssh_oauth \<Rightarrow> nat \<Rightarrow> sqldb" where
  "so_db e = ky_db (so_keys e)"

definition answer_with :: "'sig ssh_oauth \<Rightarrow> response_writer \<Rightarrow> oauth_answer \<Rightarrow> response_writer" where
  "answer_with e w x = fst (WriteJSON (so_encode e) w x)"

definition ssh_auth :: "'sig ssh_oauth \<Rightarrow> oauth_handler" where
  "ssh_auth e st ctx w r =
     (case so_auth_form e r of
        Inl err \<Rightarrow> refuse st w 400
      | Inr state \<Rightarrow>
     (case b64_url_decode state of
        None \<Rightarrow> refuse st w 400
      | Some decoded \<Rightarrow>
     (case so_state e decoded of
        Inl err \<Rightarrow> refuse st w 400
      | Inr pkey \<Rightarrow>
     (case so_parse_key e pkey of
        Inl err \<Rightarrow> refuse st w 400
      | Inr pub \<Rightarrow>
          let md5uuid = ky_md5uuid (so_keys e) in
          (case on_identities (so_db e) (\<lambda>d. IdentityInsertZeroWithDefaults d
              (zero_Identity\<lparr>is_ID := FingerprintMD5 md5uuid pub, is_PublicKey := EncodeBase64PublicKey pub,
                is_ProfileID := uuid_Nil_string\<rparr>)) st of
             (st1, Inl err) \<Rightarrow> refuse st1 w 400
           | (st1, Inr iden) \<Rightarrow>
               bind_outcome (NewJWTClaims (so_fresh e 0) (so_clock e 0) (is_ID iden)
                   [ClaimsOptionExpiration 60000000000, ClaimsOptionIssuer (is_ID iden)]) (\<lambda>claims.
                 (case rc_ExpiresAt claims of
                    None \<Rightarrow> Panic
                  | Some expires \<Rightarrow>
                 (case on_tokens (so_db e) (\<lambda>d. ConsumedTokenInsertWithDefaults d
                     (ConsumedTokenString md5uuid state (claims_instant expires))) st1 of
                    (st2, Inl err) \<Rightarrow> refuse st2 w 400
                  | (st2, Inr consumed) \<Rightarrow>
                      (case so_sign e (code_key e iden) claims of
                         Inl err \<Rightarrow> refuse st2 w 400
                       | Inr code \<Rightarrow> Return (st2, answer_with e w (AuthJSON code state)))))))))))"

subsection \<open>The grants\<close>

definition find_identity :: "'sig ssh_oauth \<Rightarrow> string \<Rightarrow> accounts \<Rightarrow> accounts \<times> (goerr + Identity)" where
  "find_identity e ident st = on_identities (so_db e) (\<lambda>d tbl. (tbl, IdentityFindByID d ident tbl)) st"

text \<open>The signature is over the bytes of the \<^verbatim>\<open>UUID\<close> the client sends as the password of its header.\<close>

definition password_grant :: "'sig ssh_oauth \<Rightarrow> token_form \<Rightarrow> request \<Rightarrow> accounts \<Rightarrow> accounts \<times> Identity option" where
  "password_grant e msg r st =
     (case BasicAuth r of
        None \<Rightarrow> (st, None)
      | Some (_, password) \<Rightarrow>
          (case find_identity e (ky_md5uuid (so_keys e) (string_bytes (tf_Username msg))) st of
             (st1, Inl err) \<Rightarrow> (st1, None)
           | (st1, Inr iden) \<Rightarrow>
               (case DecodeBase64PublicKey (so_parse_key e) (is_PublicKey iden) of
                  Inl err \<Rightarrow> (st1, None)
                | Inr pkey \<Rightarrow>
                    (case b64_raw_url_decode (tf_Password msg) of
                       None \<Rightarrow> (st1, None)
                     | Some rawsignature \<Rightarrow>
                         (case so_signature e rawsignature of
                            Inl err \<Rightarrow> (st1, None)
                          | Inr sig \<Rightarrow>
                              (case so_verify e pkey (so_uuid_bytes e password) sig of
                                 Some err \<Rightarrow> (st1, None)
                               | None \<Rightarrow> (st1, Some iden)))))))"

text \<open>The code is read once for its subject, the verdict ignored, and once with the key of the identity.\<close>

definition code_grant :: "'sig ssh_oauth \<Rightarrow> token_form \<Rightarrow> accounts \<Rightarrow> accounts \<times> Identity option" where
  "code_grant e msg st =
     (case find_identity e (rc_Subject (so_peek e (tf_Code msg))) st of
        (st1, Inl err) \<Rightarrow> (st1, None)
      | (st1, Inr iden) \<Rightarrow>
          (case Validate (so_parse e) (so_algos e) ''*jwt.RegisteredClaims'' (code_key e iden) (tf_Code msg) of
             Inl err \<Rightarrow> (st1, None)
           | Inr claims \<Rightarrow> (st1, Some iden)))"

definition refresh_grant :: "'sig ssh_oauth \<Rightarrow> request \<Rightarrow> accounts \<Rightarrow> accounts \<times> Identity option" where
  "refresh_grant e r st =
     (case Validate (so_parse e) (so_algos e) ''*jwt.RegisteredClaims'' (so_secret e) (so_form_value e r ''refresh_token'') of
        Inl err \<Rightarrow> (st, None)
      | Inr claims \<Rightarrow>
          (case find_identity e (LastOrZero [] (rc_Audience claims)) st of
             (st1, Inl err) \<Rightarrow> (st1, None)
           | (st1, Inr iden) \<Rightarrow> (st1, Some iden)))"

definition granted_identity :: "'sig ssh_oauth \<Rightarrow> token_form \<Rightarrow> request \<Rightarrow> accounts \<Rightarrow> accounts \<times> Identity option" where
  "granted_identity e msg r st =
     (if tf_GrantType msg = ''password'' then password_grant e msg r st
      else if tf_GrantType msg = ''authorization_code'' then code_grant e msg st
      else if tf_GrantType msg = ''refresh_token'' then refresh_grant e r st
      else (st, None))"

subsection \<open>The tokens\<close>

definition refresh_claims :: "'sig ssh_oauth \<Rightarrow> Profile \<Rightarrow> Identity \<Rightarrow> RegisteredClaims outcome" where
  "refresh_claims e p iden = NewJWTClaims (so_fresh e 0) (so_clock e 0) (pf_ID p)
     [ClaimsOptionAuthnRefreshExpiration, ClaimsOptionIssuer (is_ID iden)]"

definition access_claims :: "'sig ssh_oauth \<Rightarrow> Profile \<Rightarrow> Identity \<Rightarrow> RegisteredClaims outcome" where
  "access_claims e p iden = NewJWTClaims (so_fresh e 1) (so_clock e 1) (pf_ID p)
     [ClaimsOptionAuthnExpiration, ClaimsOptionIssuer (is_ID iden)]"

definition issue_tokens :: "'sig ssh_oauth \<Rightarrow> Profile \<Rightarrow> Identity \<Rightarrow> oauth_handler" where
  "issue_tokens e p iden st ctx w r =
     bind_outcome
       (if so_form_value e r ''access_type'' = ''offline''
        then bind_outcome (refresh_claims e p iden) (\<lambda>claims. Return (so_sign e (so_secret e) claims))
        else Return (Inr []))
       (\<lambda>refreshed.
         (case refreshed of
            Inl err \<Rightarrow> refuse st w 400
          | Inr rst \<Rightarrow>
              bind_outcome (access_claims e p iden) (\<lambda>aclaims.
                (case so_sign e (so_secret e) aclaims of
                   Inl err \<Rightarrow> refuse st w 400
                 | Inr ast \<Rightarrow>
                     (case rc_ExpiresAt aclaims of
                        None \<Rightarrow> Panic
                      | Some expires \<Rightarrow>
                          Return (st, answer_with e w (TokenJSON ast ''BEARER'' rst
                            (word_of_int (go_quot (expires - so_clock e 2) 1000000000)))))))))"

definition ssh_token :: "'sig ssh_oauth \<Rightarrow> oauth_handler" where
  "ssh_token e st ctx w r =
     (case so_token_form e r of
        Inl err \<Rightarrow> refuse st w 400
      | Inr msg \<Rightarrow>
          (case granted_identity e msg r st of
             (st1, None) \<Rightarrow> refuse st1 w 400
           | (st1, Some iden) \<Rightarrow>
               if so_is_nil e (is_ProfileID iden) then refuse st1 w 400
               else (case on_profiles (so_db e) (\<lambda>d tbl. (tbl, ProfileFindByID d (is_ProfileID iden) tbl)) st1 of
                  (st2, Inl err) \<Rightarrow> refuse st2 w 400
                | (st2, Inr p) \<Rightarrow> issue_tokens e p iden st2 ctx w r)))"

subsection \<open>The routes\<close>

text \<open>The counters of the two limits and the accounts. The router redirects a path with a slash at its end.\<close>

record oauth_state =
  os_auth_attempts :: int
  os_token_attempts :: int
  os_accounts :: accounts

definition oauth_Serve :: "'sig ssh_oauth \<Rightarrow> (oauth_state, unit) handler" where
  "oauth_Serve e st ctx w r =
     (if rPath r = ''/auth'' then
        if rMethod r = ''GET'' then
          bind_outcome (RouteRateLimited (so_allow e r) (ParseForm (so_malformed e r) (ssh_auth e))
              (os_auth_attempts st, os_accounts st) ctx w r)
            (\<lambda>((n, ac), w'). Return (st\<lparr>os_auth_attempts := n, os_accounts := ac\<rparr>, w'))
        else Return (st, WriteHeader 405 w)
      else if rPath r = ''/token'' then
        if rMethod r = ''POST'' then
          bind_outcome (RouteRateLimited (so_allow e r) (ParseForm (so_malformed e r) (ssh_token e))
              (os_token_attempts st, os_accounts st) ctx w r)
            (\<lambda>((n, ac), w'). Return (st\<lparr>os_token_attempts := n, os_accounts := ac\<rparr>, w'))
        else Return (st, WriteHeader 405 w)
      else Return (st, WriteHeader 404 w))"

section \<open>Lemmas\<close>

subsection \<open>Claims\<close>

definition code_claims :: "'sig ssh_oauth \<Rightarrow> string \<Rightarrow> RegisteredClaims" where
  "code_claims e ident =
     (let t = so_clock e 0 - so_clock e 0 mod 1000000000 in
      \<lparr>rc_ID = so_fresh e 0, rc_Issuer = ident, rc_Subject = ident, rc_Audience = [],
       rc_ExpiresAt = NewNumericDate (t + 60000000000), rc_NotBefore = Some t, rc_IssuedAt = Some t\<rparr>)"

definition session_claims :: "'sig ssh_oauth \<Rightarrow> string \<Rightarrow> string \<Rightarrow> RegisteredClaims" where
  "session_claims e pid ident =
     (let t = so_clock e 1 - so_clock e 1 mod 1000000000 in
      \<lparr>rc_ID = so_fresh e 1, rc_Issuer = ident, rc_Subject = pid, rc_Audience = [],
       rc_ExpiresAt = NewNumericDate (t + 604800000000000), rc_NotBefore = Some t, rc_IssuedAt = Some t\<rparr>)"

lemma code_claims_eq:
  "NewJWTClaims (so_fresh e 0) (so_clock e 0) ident [ClaimsOptionExpiration 60000000000, ClaimsOptionIssuer ident] =
   Return (code_claims e ident)"
  by (simp add: NewJWTClaims_def ClaimsOptionExpiration_def ClaimsOptionIssuer_def NewNumericDate_def code_claims_def Let_def)

lemma access_claims_eq: "access_claims e p iden = Return (session_claims e (pf_ID p) (is_ID iden))"
  by (simp add: access_claims_def NewJWTClaims_def ClaimsOptionAuthnExpiration_def ClaimsOptionExpiration_def
      ClaimsOptionIssuer_def NewNumericDate_def session_claims_def Let_def)

lemma refresh_claims_audience:
  "\<exists>c. refresh_claims e p iden = Return c \<and> rc_Audience c = [] \<and> rc_ExpiresAt c = None \<and> rc_Subject c = pf_ID p"
  by (simp add: refresh_claims_def NewJWTClaims_def ClaimsOptionAuthnRefreshExpiration_def ClaimsOptionIssuer_def)

lemma code_expires: "\<exists>t. rc_ExpiresAt (code_claims e ident) = Some t"
  by (simp add: code_claims_def Let_def NewNumericDate_def)

lemma session_expires: "\<exists>t. rc_ExpiresAt (session_claims e pid ident) = Some t"
  by (simp add: session_claims_def Let_def NewNumericDate_def)

lemma session_fields [simp]: "rc_Audience (session_claims e pid ident) = []" "rc_Subject (session_claims e pid ident) = pid"
  by (simp_all add: session_claims_def Let_def)

subsection \<open>What is found\<close>

lemma find_uuid_member: "find_uuid db s key tbl = Inr r \<Longrightarrow> r \<in> set tbl \<and> sql_uuid db s = Inr (key r)"
  by (auto simp: find_uuid_def find_where_def query_row_def filter_eq_Cons_iff split: sum.splits option.splits list.splits)

lemma find_uuid_row:
  "sql_err db = None \<Longrightarrow> sql_uuid db k = Inr k \<Longrightarrow> row_of key tbl k = Some r \<Longrightarrow> find_uuid db k key tbl = Inr r"
  using find_where_row_of [of db key k tbl] by (simp add: find_uuid_def)

lemma find_identity_state: "find_identity e ident st = (st1, res) \<Longrightarrow> st1 = st\<lparr>ac_stmts := Suc (ac_stmts st)\<rparr>"
  by (auto simp: find_identity_def on_identities_def Let_def)

lemma find_identity_row: "find_identity e ident st = (st1, Inr i) \<Longrightarrow> i \<in> set (ac_identities st)"
  using find_uuid_member [of _ ident is_ID _ i]
  by (auto simp: find_identity_def on_identities_def IdentityFindByID_def Let_def)

lemma find_identity_key: "find_identity e ident st = (st1, Inr i) \<Longrightarrow> \<exists>n. sql_uuid (so_db e n) ident = Inr (is_ID i)"
  using find_uuid_member
  by (fastforce simp: find_identity_def on_identities_def IdentityFindByID_def Let_def)

lemma granted_identity_tables:
  "granted_identity e msg r st = (st1, res) \<Longrightarrow>
   ac_identities st1 = ac_identities st \<and> ac_profiles st1 = ac_profiles st \<and> ac_tokens st1 = ac_tokens st \<and> ac_authz st1 = ac_authz st"
  by (auto simp: granted_identity_def password_grant_def code_grant_def refresh_grant_def
      dest!: find_identity_state split: option.splits prod.splits sum.splits if_splits)

text \<open>What a grant rests on.\<close>

definition grant_checks :: "'sig ssh_oauth \<Rightarrow> token_form \<Rightarrow> request \<Rightarrow> Identity \<Rightarrow> bool" where
  "grant_checks e msg r iden \<longleftrightarrow>
     (tf_GrantType msg = ''password'' \<and>
        (\<exists>name password pkey raw sig. BasicAuth r = Some (name, password) \<and>
          DecodeBase64PublicKey (so_parse_key e) (is_PublicKey iden) = Inr pkey \<and>
          b64_raw_url_decode (tf_Password msg) = Some raw \<and> so_signature e raw = Inr sig \<and>
          so_verify e pkey (so_uuid_bytes e password) sig = None)) \<or>
     (tf_GrantType msg = ''authorization_code'' \<and>
        (\<exists>claims. Validate (so_parse e) (so_algos e) ''*jwt.RegisteredClaims'' (code_key e iden) (tf_Code msg) = Inr claims)) \<or>
     (tf_GrantType msg = ''refresh_token'' \<and>
        (\<exists>claims. Validate (so_parse e) (so_algos e) ''*jwt.RegisteredClaims'' (so_secret e)
            (so_form_value e r ''refresh_token'') = Inr claims \<and>
          (\<exists>n. sql_uuid (so_db e n) (LastOrZero [] (rc_Audience claims)) = Inr (is_ID iden))))"

lemma granted_identity_checks:
  "granted_identity e msg r st = (st1, Some iden) \<Longrightarrow> iden \<in> set (ac_identities st) \<and> grant_checks e msg r iden"
  by (auto simp: granted_identity_def password_grant_def code_grant_def refresh_grant_def grant_checks_def
      dest: find_identity_key find_identity_row split: option.splits prod.splits sum.splits if_splits)

subsection \<open>The steps of a login\<close>

lemma refused_or: "refuse st w c = Return (st, fst (WriteEmptyJSON w c))"
  by (simp add: refuse_def)

text \<open>The request of a code, as a function of the identity that is stored.\<close>

definition auth_asks :: "'sig ssh_oauth \<Rightarrow> request \<Rightarrow> string \<Rightarrow> pubkey \<Rightarrow> bool" where
  "auth_asks e r state pub \<longleftrightarrow> so_auth_form e r = Inr state \<and>
     (\<exists>decoded pkey. b64_url_decode state = Some decoded \<and> so_state e decoded = Inr pkey \<and> so_parse_key e pkey = Inr pub)"

definition auth_identity :: "'sig ssh_oauth \<Rightarrow> pubkey \<Rightarrow> Identity" where
  "auth_identity e pub = zero_Identity\<lparr>is_ID := FingerprintMD5 (ky_md5uuid (so_keys e)) pub,
     is_PublicKey := EncodeBase64PublicKey pub, is_ProfileID := uuid_Nil_string\<rparr>"

lemma ssh_auth_steps:
  assumes "auth_asks e r state pub"
    and "on_identities (so_db e) (\<lambda>d. IdentityInsertZeroWithDefaults d (auth_identity e pub)) st = (st1, Inr iden)"
  shows "ssh_auth e st ctx w r =
    (case on_tokens (so_db e) (\<lambda>d. ConsumedTokenInsertWithDefaults d (ConsumedTokenString (ky_md5uuid (so_keys e)) state
        (claims_instant (the (rc_ExpiresAt (code_claims e (is_ID iden))))))) st1 of
       (st2, Inl err) \<Rightarrow> refuse st2 w 400
     | (st2, Inr consumed) \<Rightarrow>
         (case so_sign e (code_key e iden) (code_claims e (is_ID iden)) of
            Inl err \<Rightarrow> refuse st2 w 400
          | Inr code \<Rightarrow> Return (st2, answer_with e w (AuthJSON code state))))"
proof -
  obtain t where "rc_ExpiresAt (code_claims e (is_ID iden)) = Some t" using code_expires by blast
  with assms show ?thesis
    by (auto simp: ssh_auth_def auth_asks_def auth_identity_def code_claims_eq Let_def)
qed

lemma ssh_token_steps:
  assumes "so_token_form e r = Inr msg" "granted_identity e msg r st = (st1, Some iden)" "\<not> so_is_nil e (is_ProfileID iden)"
    and "on_profiles (so_db e) (\<lambda>d tbl. (tbl, ProfileFindByID d (is_ProfileID iden) tbl)) st1 = (st2, Inr p)"
    and "so_form_value e r ''access_type'' \<noteq> ''offline''"
    and "so_sign e (so_secret e) (session_claims e (pf_ID p) (is_ID iden)) = Inr token"
  shows "\<exists>n. ssh_token e st ctx w r = Return (st2, answer_with e w (TokenJSON token ''BEARER'' [] n))"
proof -
  obtain t where "rc_ExpiresAt (session_claims e (pf_ID p) (is_ID iden)) = Some t" using session_expires by blast
  with assms show ?thesis
    by (auto simp: ssh_token_def issue_tokens_def access_claims_eq)
qed

lemma insert_zero_known:
  assumes "sql_err db = None" "sql_uuid db fp = Inr fp" "sql_uuid db pid = Inr pid" "is_ID a = fp" "is_ProfileID a = pid"
    and "row_of is_ID tbl fp = Some i"
  shows "\<exists>tbl'. IdentityInsertZeroWithDefaults db a tbl = (tbl', Inr (i\<lparr>is_UpdatedAt := sql_now db\<rparr>)) \<and>
    row_of is_ID tbl' fp = Some (i\<lparr>is_UpdatedAt := sql_now db\<rparr>)"
proof -
  let ?new = "Identity_row db (a\<lparr>is_ID := fp, is_ProfileID := pid\<rparr>)"
  have ins: "IdentityInsertZeroWithDefaults db a tbl = upsert is_ID db (Identity_zero_conflict db) ?new tbl"
    using assms(2-5) by (simp add: IdentityInsertZeroWithDefaults_def insert_identity_def uuid_arg_def)
  obtain tbl' r where ok: "upsert is_ID db (Identity_zero_conflict db) ?new tbl = (tbl', Inr r)"
    using upsert_total [of db "Identity_zero_conflict db" ?new "\<lambda>old. old\<lparr>is_UpdatedAt := sql_now db\<rparr>", OF assms(1)]
    by (metis Identity_zero_conflict_def)
  from zero_identities.upsert_stored [OF ok] assms(6) have "r = i\<lparr>is_UpdatedAt := sql_now db\<rparr>" "row_of is_ID tbl' fp = Some r"
    by (auto simp: Identity_row_def Identity_zero_conflict_def)
  with ins ok show ?thesis by simp
qed

lemma insert_zero_new:
  assumes "sql_err db = None" "sql_uuid db fp = Inr fp" "sql_uuid db pid = Inr pid" "is_ID a = fp" "is_ProfileID a = pid"
    and "row_of is_ID tbl fp = None"
  shows "\<exists>tbl'. IdentityInsertZeroWithDefaults db a tbl = (tbl', Inr (Identity_row db a)) \<and> row_of is_ID tbl' fp = Some (Identity_row db a)"
proof -
  have same: "a\<lparr>is_ID := fp, is_ProfileID := pid\<rparr> = a" using assms(4,5) by simp
  have "IdentityInsertZeroWithDefaults db a tbl =
      upsert is_ID db (Identity_zero_conflict db) (Identity_row db (a\<lparr>is_ID := fp, is_ProfileID := pid\<rparr>)) tbl"
    using assms(2-5) by (simp add: IdentityInsertZeroWithDefaults_def insert_identity_def uuid_arg_def)
  then have ins: "IdentityInsertZeroWithDefaults db a tbl = upsert is_ID db (Identity_zero_conflict db) (Identity_row db a) tbl"
    unfolding same .
  with zero_identities.upsert_new [of db tbl "Identity_row db a"] assms show ?thesis
    by (simp add: Identity_row_def row_of_append)
qed

lemma token_consumed:
  assumes "on_tokens db (\<lambda>d. ConsumedTokenInsertWithDefaults d (ConsumedTokenString md5uuid state t)) st = (st1, res)"
    and "sql_uuid (db (ac_stmts st)) (md5uuid (string_bytes state)) = Inr u"
  shows "res = Inr c \<Longrightarrow> \<exists>row \<in> set (ac_tokens st1). ct_ID row = u"
    and "\<exists>row \<in> set (ac_tokens st). ct_ID row = u \<Longrightarrow> \<exists>err. res = Inl err \<and> ac_tokens st1 = ac_tokens st"
  using assms
  by (auto simp: on_tokens_def ConsumedTokenInsertWithDefaults_def uuid_arg_def ConsumedTokenString_def insert_unique_def
      ConsumedToken_row_def clashes_iff split: option.splits if_splits)

lemma identities_tokens: "on_identities db q st = (st1, res) \<Longrightarrow> ac_tokens st1 = ac_tokens st"
  by (auto simp: on_identities_def split: prod.splits)

text \<open>What a request for a code does up to the insert of its state.\<close>

lemma ssh_auth_cases:
  assumes "ssh_auth e st ctx w r = Return (st', w')" "so_auth_form e r = Inr state"
  obtains (early) "ac_tokens st' = ac_tokens st" "w' = fst (WriteEmptyJSON w 400)"
  | (late) st1 t st2 res where "ac_tokens st1 = ac_tokens st" "ac_tokens st' = ac_tokens st2"
    "on_tokens (so_db e) (\<lambda>d. ConsumedTokenInsertWithDefaults d (ConsumedTokenString (ky_md5uuid (so_keys e)) state t)) st1 = (st2, res)"
    "\<And>err. res = Inl err \<Longrightarrow> w' = fst (WriteEmptyJSON w 400)"
proof (cases "\<exists>pub. auth_asks e r state pub")
  case False
  with assms show thesis
    by (intro early) (auto simp: ssh_auth_def auth_asks_def refuse_def split: option.splits sum.splits)
next
  case True
  then obtain pub where asks: "auth_asks e r state pub" by blast
  obtain st1 res where one: "on_identities (so_db e) (\<lambda>d. IdentityInsertZeroWithDefaults d (auth_identity e pub)) st = (st1, res)"
    by fastforce
  note same = identities_tokens [OF one]
  show thesis
  proof (cases res)
    case (Inl err)
    with asks one assms(1) same show thesis
      by (intro early) (auto simp: ssh_auth_def auth_asks_def auth_identity_def refuse_def Let_def)
  next
    case (Inr iden)
    let ?t = "claims_instant (the (rc_ExpiresAt (code_claims e (is_ID iden))))"
    obtain st2 tres where two: "on_tokens (so_db e) (\<lambda>d. ConsumedTokenInsertWithDefaults d
        (ConsumedTokenString (ky_md5uuid (so_keys e)) state ?t)) st1 = (st2, tres)" by fastforce
    with ssh_auth_steps [OF asks one [unfolded Inr], of ctx w] assms(1) have "st' = st2" "\<And>err. tres = Inl err \<Longrightarrow> w' = fst (WriteEmptyJSON w 400)"
      by (auto simp: refuse_def split: sum.splits)
    with late [OF same _ two] show thesis by blast
  qed
qed

lemma ssh_auth_returns: "\<exists>st' w'. ssh_auth e st ctx w r = Return (st', w')"
proof -
  have never: "rc_ExpiresAt (code_claims e i) = None \<longleftrightarrow> False" for i using code_expires [of e i] by auto
  show ?thesis
    by (auto simp del: not_None_eq simp: never ssh_auth_def refuse_def code_claims_eq Let_def split: sum.split option.split prod.split)
qed

section \<open>Properties\<close>

text \<open>A public key is enough to log in. If the key of an identity with a profile is known, which is no secret, a
  request for a code with a state that was not used yet is answered with a code, and that code with an
  access token of the profile. No signature is asked for: the code is signed by the service itself.\<close>

theorem public_key_suffices:
  assumes "\<And>n. sql_err (so_db e n) = None" "casts_to (so_keys e) fp" "casts_to (so_keys e) pid" "casts_to (so_keys e) uuid_Nil_string"
    and "casts_to (so_keys e) (ky_md5uuid (so_keys e) (string_bytes state))"
    and "row_of is_ID (ac_identities st) fp = Some i" "is_ProfileID i = pid" "\<not> so_is_nil e pid"
    and "row_of pf_ID (ac_profiles st) pid = Some p" "fp = FingerprintMD5 (ky_md5uuid (so_keys e)) pub"
    and "auth_asks e ask state pub" "row_of ct_ID (ac_tokens st) (ky_md5uuid (so_keys e) (string_bytes state)) = None"
    and "so_sign e (code_key e i) (code_claims e fp) = Inr code" "rc_Subject (so_peek e code) = fp"
    and "Validate (so_parse e) (so_algos e) ''*jwt.RegisteredClaims'' (code_key e i) code = Inr (code_claims e fp)"
    and "so_token_form e redeem = Inr msg" "tf_GrantType msg = ''authorization_code''" "tf_Code msg = code"
    and "so_form_value e redeem ''access_type'' \<noteq> ''offline''"
    and "so_sign e (so_secret e) (session_claims e pid fp) = Inr token"
  shows "\<exists>st1 st2 n. ssh_auth e st () w ask = Return (st1, answer_with e w (AuthJSON code state)) \<and>
    ssh_token e st1 () w' redeem = Return (st2, answer_with e w' (TokenJSON token ''BEARER'' [] n))"
proof -
  let ?n = "ac_stmts st" and ?iden = "auth_identity e pub" and ?key = "ky_md5uuid (so_keys e)"
  let ?i = "i\<lparr>is_UpdatedAt := sql_now (so_db e ?n)\<rparr>"
  have casts: "sql_uuid (so_db e k) fp = Inr fp" "sql_uuid (so_db e k) pid = Inr pid"
    "sql_uuid (so_db e k) uuid_Nil_string = Inr uuid_Nil_string"
    "sql_uuid (so_db e k) (?key (string_bytes state)) = Inr (?key (string_bytes state))" for k
    using assms(2-5) by (simp_all add: casts_to_def so_db_def)
  have idi: "is_ID i = fp" using row_of_Some [OF assms(6)] by simp
  have "is_ID ?iden = fp" "is_ProfileID ?iden = uuid_Nil_string"
    using assms(10) by (simp_all add: auth_identity_def)
  from insert_zero_known [OF assms(1) casts(1,3) this assms(6)] obtain tbl where
    ins: "IdentityInsertZeroWithDefaults (so_db e ?n) ?iden (ac_identities st) = (tbl, Inr ?i)" "row_of is_ID tbl fp = Some ?i"
    by blast
  let ?st1 = "st\<lparr>ac_stmts := Suc ?n, ac_identities := tbl\<rparr>"
  have one: "on_identities (so_db e) (\<lambda>d. IdentityInsertZeroWithDefaults d ?iden) st = (?st1, Inr ?i)"
    using ins(1) by (simp add: on_identities_def)
  have ck: "code_key e ?i = code_key e i" by (simp add: code_key_def)
  let ?t = "ConsumedTokenString ?key state (claims_instant (the (rc_ExpiresAt (code_claims e fp))))"
  obtain toks c where tok: "ConsumedTokenInsertWithDefaults (so_db e (Suc ?n)) ?t (ac_tokens st) = (toks, Inr c)"
    using assms(1) casts(4) assms(12)
    by (auto simp: ConsumedTokenInsertWithDefaults_def uuid_arg_def insert_unique_def clashes_iff ConsumedTokenString_def
        ConsumedToken_row_def row_of_None_iff)
  let ?st2 = "?st1\<lparr>ac_stmts := Suc (Suc ?n), ac_tokens := toks\<rparr>"
  have auth: "ssh_auth e st () w ask = Return (?st2, answer_with e w (AuthJSON code state))"
    using ssh_auth_steps [OF assms(11) one] tok assms(13) idi ck by (simp add: on_tokens_def)
  let ?st3 = "?st2\<lparr>ac_stmts := Suc (Suc (Suc ?n))\<rparr>"
  have find: "find_identity e fp ?st2 = (?st3, Inr ?i)"
    using find_uuid_row [OF assms(1) casts(1) ins(2)]
    by (simp add: find_identity_def on_identities_def IdentityFindByID_def)
  then have granted: "granted_identity e msg redeem ?st2 = (?st3, Some ?i)"
    using assms(14,15,17,18) ck by (simp add: granted_identity_def code_grant_def)
  let ?st4 = "?st3\<lparr>ac_stmts := Suc (Suc (Suc (Suc ?n)))\<rparr>"
  have prof: "on_profiles (so_db e) (\<lambda>d tbl. (tbl, ProfileFindByID d (is_ProfileID ?i) tbl)) ?st3 = (?st4, Inr p)"
    using find_uuid_row [OF assms(1) casts(2) assms(9)] assms(7) by (simp add: on_profiles_def ProfileFindByID_def)
  have "pf_ID p = pid" using row_of_Some [OF assms(9)] by simp
  with ssh_token_steps [OF assms(16) granted _ prof assms(19), of token "()" w'] assms(7,8,20) idi auth
  show ?thesis by fastforce
qed

text \<open>C8: nobody gets a token for a key without a profile. An answer to \<^verbatim>\<open>/token\<close> that is not a refusal is for a registered
  identity whose profile is set and exists, and rests on a signature under the stored key over the password, a
  code signed with the key of the identity, or a token signed with the secret.\<close>

theorem token_guarded:
  assumes "ssh_token e st ctx w r = Return (st', w')" "w' \<noteq> fst (WriteEmptyJSON w 400)"
  shows "\<exists>msg iden p n. so_token_form e r = Inr msg \<and> iden \<in> set (ac_identities st) \<and> grant_checks e msg r iden \<and>
    \<not> so_is_nil e (is_ProfileID iden) \<and> p \<in> set (ac_profiles st) \<and> sql_uuid (so_db e n) (is_ProfileID iden) = Inr (pf_ID p)"
proof -
  obtain msg where msg: "so_token_form e r = Inr msg"
    using assms by (cases "so_token_form e r") (auto simp: ssh_token_def refuse_def)
  obtain st1 res where g: "granted_identity e msg r st = (st1, res)" by fastforce
  then obtain iden where iden: "res = Some iden" "\<not> so_is_nil e (is_ProfileID iden)"
    using assms msg by (cases res) (auto simp: ssh_token_def refuse_def split: if_splits)
  obtain st2 pres where p: "on_profiles (so_db e) (\<lambda>d tbl. (tbl, ProfileFindByID d (is_ProfileID iden) tbl)) st1 = (st2, pres)"
    by fastforce
  then obtain q where q: "pres = Inr q"
    using assms msg g iden by (cases pres) (auto simp: ssh_token_def refuse_def)
  have "find_uuid (so_db e (ac_stmts st1)) (is_ProfileID iden) pf_ID (ac_profiles st1) = Inr q"
    using p q by (simp add: on_profiles_def ProfileFindByID_def)
  from find_uuid_member [OF this] granted_identity_tables [OF g] granted_identity_checks [OF g [unfolded iden(1)]] msg iden(2)
  show ?thesis by auto
qed

text \<open>C17: a state is good for one code. Once a request with a state has been answered with anything but a refusal, every later
  request with that state is refused, as long as the row that records it is there.\<close>

theorem state_used_once:
  assumes "ssh_auth e st ctx w ask = Return (st1, w1)" "w1 \<noteq> fst (WriteEmptyJSON w 400)"
    and "so_auth_form e ask = Inr state" "so_auth_form e2 again = Inr state" "so_keys e2 = so_keys e"
    and "casts_to (so_keys e) (ky_md5uuid (so_keys e) (string_bytes state))"
    and "set (ac_tokens st1) \<subseteq> set (ac_tokens st2)"
    and "ssh_auth e2 st2 ctx2 w' again = Return (st3, w3)"
  shows "w3 = fst (WriteEmptyJSON w' 400) \<and> ac_tokens st3 = ac_tokens st2"
proof -
  let ?u = "ky_md5uuid (so_keys e) (string_bytes state)"
  have cast: "sql_uuid (so_db e n) ?u = Inr ?u" "so_db e2 = so_db e" for n
    using assms(5,6) by (auto simp: casts_to_def so_db_def)
  from assms(1,3) have "\<exists>row \<in> set (ac_tokens st1). ct_ID row = ?u"
  proof (cases rule: ssh_auth_cases)
    case early
    with assms(2) show ?thesis by simp
  next
    case (late s1 t s2 res)
    with assms(2) obtain c where "res = Inr c" by (cases res) auto
    with token_consumed(1) [OF late(3) cast(1)] late(2) show ?thesis by simp
  qed
  with assms(7) have used: "\<exists>row \<in> set (ac_tokens st2). ct_ID row = ?u" by blast
  from assms(8,4) show ?thesis
  proof (cases rule: ssh_auth_cases)
    case (late s1 t s2 res)
    with token_consumed(2) [OF late(3) [unfolded assms(5) cast(2)] cast(1)] used show ?thesis by auto
  qed simp
qed

text \<open>The tokens for a refresh are useless. A refresh looks for the identity the audience of its token names; the tokens the
  service issues have no audience, so with a database that refuses the empty text as a \<^verbatim>\<open>UUID\<close> every
  refresh with a token whose claims have no audience is refused.\<close>

theorem refresh_always_refused:
  assumes "so_token_form e r = Inr msg" "tf_GrantType msg = ''refresh_token''" "\<And>n. isl (sql_uuid (so_db e n) [])"
    and "\<And>claims. Validate (so_parse e) (so_algos e) ''*jwt.RegisteredClaims'' (so_secret e)
        (so_form_value e r ''refresh_token'') = Inr claims \<Longrightarrow> rc_Audience claims = []"
  shows "(\<exists>st'. ssh_token e st ctx w r = refuse st' w 400) \<and>
    (\<exists>c. refresh_claims e p iden = Return c \<and> rc_Audience c = [])"
proof -
  have empty: "snd (find_identity e [] st) = Inl err" if "sql_uuid (so_db e (ac_stmts st)) [] = Inl err" for err
    using that by (simp add: find_identity_def on_identities_def IdentityFindByID_def find_uuid_def)
  obtain err where "sql_uuid (so_db e (ac_stmts st)) [] = Inl err" using assms(3) by (meson isl_def)
  from empty [OF this] have "\<exists>st1. granted_identity e msg r st = (st1, None)"
    using assms(2,4)
    by (cases "find_identity e [] st") (auto simp: granted_identity_def refresh_grant_def LastOrZero_def Last_def split: sum.splits)
  then have "\<exists>st'. ssh_token e st ctx w r = refuse st' w 400" using assms(1) by (auto simp: ssh_token_def)
  with refresh_claims_audience show ?thesis by blast
qed

definition oauth_db :: sqldb where
  "oauth_db = plain_db\<lparr>sql_uuid := (\<lambda>s. if s = [] then Inl (Fundamental ''invalid uuid'') else Inr s)\<rparr>"

definition demo_claims :: RegisteredClaims where
  "demo_claims = \<lparr>rc_ID = ''f'', rc_Issuer = ''k'', rc_Subject = ''k'', rc_Audience = [], rc_ExpiresAt = Some 60000000000,
     rc_NotBefore = Some 0, rc_IssuedAt = Some 0\<rparr>"

definition demo_oauth :: "unit ssh_oauth" where
  "demo_oauth = \<lparr>so_keys = \<lparr>ky_md5uuid = (\<lambda>_. ''k''), ky_db = (\<lambda>_. oauth_db), ky_draw = (\<lambda>_. ''w'')\<rparr>, so_secret = [],
     so_algos = [], so_parse = (\<lambda>_ _ _. Inr (demo_claims, True)), so_peek = (\<lambda>_. demo_claims),
     so_sign = (\<lambda>key _. Inr (if key = [] then ''session'' else ''code'')), so_fresh = (\<lambda>_. ''f''), so_clock = (\<lambda>_. 0),
     so_parse_key = Inr, so_signature = (\<lambda>_. Inr ()), so_verify = (\<lambda>_ _ _. Some (Fundamental ''signature'')),
     so_uuid_bytes = string_bytes, so_is_nil = (\<lambda>s. s = uuid_Nil_string), so_state = (\<lambda>_. Inr [1]),
     so_auth_form = (\<lambda>_. Inr []),
     so_token_form = (\<lambda>r. Inr \<lparr>tf_GrantType = (if rMethod r = ''GET'' then ''authorization_code'' else ''refresh_token''),
       tf_Username = [], tf_Password = [], tf_Code = ''code''\<rparr>),
     so_form_value = (\<lambda>_ _. []), so_encode = (\<lambda>a. Inr (case a of AuthJSON c _ \<Rightarrow> c | TokenJSON t _ _ _ \<Rightarrow> t)),
     so_malformed = (\<lambda>_. False), so_allow = (\<lambda>_. True)\<rparr>"

definition demo_accounts :: accounts where
  "demo_accounts = no_accounts\<lparr>ac_profiles := [zero_Profile\<lparr>pf_ID := ''p''\<rparr>],
     ac_identities := [zero_Identity\<lparr>is_ID := ''k'', is_ProfileID := ''p''\<rparr>]\<rparr>"

lemmas demo_oauth_simps = demo_oauth_def oauth_db_def plain_db_def demo_accounts_def no_accounts_def zero_Profile_def
  zero_Identity_def

lemma demo_code_claims: "code_claims demo_oauth ''k'' = demo_claims"
  by (simp add: code_claims_def demo_oauth_def demo_claims_def NewNumericDate_def)

lemma demo_code_key: "code_key demo_oauth i = string_bytes ''k''" "string_bytes ''k'' \<noteq> []"
  by (simp_all add: code_key_def demo_oauth_def string_bytes_def)

lemma demo_casts: "s \<noteq> [] \<Longrightarrow> casts_to (so_keys demo_oauth) s" "sql_err (so_db demo_oauth n) = None"
  by (simp_all add: casts_to_def so_db_def demo_oauth_simps)

lemma demo_asks: "auth_asks demo_oauth r [] [1]"
  by (simp add: auth_asks_def demo_oauth_def b64_url_decode_def b64_decode_def)

theorem public_key_suffices_witness:
  "\<exists>st1 st2 n. ssh_auth demo_oauth demo_accounts () fresh_response key_request =
      Return (st1, answer_with demo_oauth fresh_response (AuthJSON ''code'' [])) \<and>
    ssh_token demo_oauth st1 () fresh_response key_request =
      Return (st2, answer_with demo_oauth fresh_response (TokenJSON ''session'' ''BEARER'' [] n))"
proof (rule public_key_suffices [where fp = "''k''" and pid = "''p''" and pub = "[1]" and
      i = "zero_Identity\<lparr>is_ID := ''k'', is_ProfileID := ''p''\<rparr>" and p = "zero_Profile\<lparr>pf_ID := ''p''\<rparr>" and
      msg = "\<lparr>tf_GrantType = ''authorization_code'', tf_Username = [], tf_Password = [], tf_Code = ''code''\<rparr>"])
  show "auth_asks demo_oauth key_request [] [1]" by (rule demo_asks)
  show "casts_to (so_keys demo_oauth) uuid_Nil_string" by (rule demo_casts) (simp add: uuid_Nil_string_def)
  show "\<not> so_is_nil demo_oauth ''p''" by (simp add: demo_oauth_def uuid_Nil_string_def)
  show "so_sign demo_oauth (code_key demo_oauth (zero_Identity\<lparr>is_ID := ''k'', is_ProfileID := ''p''\<rparr>))
      (code_claims demo_oauth ''k'') = Inr ''code''"
    unfolding demo_code_key(1) using demo_code_key(2) by (simp add: demo_oauth_def)
  show "Validate (so_parse demo_oauth) (so_algos demo_oauth) ''*jwt.RegisteredClaims''
      (code_key demo_oauth (zero_Identity\<lparr>is_ID := ''k'', is_ProfileID := ''p''\<rparr>)) ''code'' = Inr (code_claims demo_oauth ''k'')"
    unfolding demo_code_claims by (simp add: Validate_def demo_oauth_def)
qed (simp_all add: so_db_def casts_to_def row_of_def demo_oauth_simps demo_claims_def key_request_def FingerprintMD5_def)

lemma demo_fields: "rc_Subject (so_peek demo_oauth c) = ''k''"
  "Validate (so_parse demo_oauth) (so_algos demo_oauth) n key t = Inr demo_claims"
  by (simp_all add: Validate_def demo_oauth_def demo_claims_def)

lemma demo_oauth_token:
  "\<exists>st1 n. ssh_token demo_oauth demo_accounts () fresh_response key_request =
    Return (st1, answer_with demo_oauth fresh_response (TokenJSON ''session'' ''BEARER'' [] n))"
proof -
  let ?msg = "\<lparr>tf_GrantType = ''authorization_code'', tf_Username = [], tf_Password = [], tf_Code = ''code''\<rparr>"
  let ?i = "zero_Identity\<lparr>is_ID := ''k'', is_ProfileID := ''p''\<rparr>"
  have "find_identity demo_oauth ''k'' demo_accounts = (demo_accounts\<lparr>ac_stmts := 1\<rparr>, Inr ?i)"
    by (simp add: find_identity_def on_identities_def IdentityFindByID_def find_uuid_def find_where_def query_row_def
        so_db_def demo_oauth_simps)
  then have "granted_identity demo_oauth ?msg key_request demo_accounts = (demo_accounts\<lparr>ac_stmts := 1\<rparr>, Some ?i)"
    by (simp add: granted_identity_def code_grant_def demo_fields)
  from ssh_token_steps [OF _ this, of "demo_accounts\<lparr>ac_stmts := 2\<rparr>" "zero_Profile\<lparr>pf_ID := ''p''\<rparr>" "''session''" "()" fresh_response]
  show ?thesis
    by (auto simp: on_profiles_def ProfileFindByID_def find_uuid_def find_where_def query_row_def so_db_def demo_oauth_simps
        key_request_def uuid_Nil_string_def)
qed

lemma demo_answers: "answer_with demo_oauth fresh_response x \<noteq> fst (WriteEmptyJSON fresh_response 400)"
  by (auto simp: answer_with_def WriteJSON_def WriteEmptyJSON_def demo_oauth_def fresh_response_def Header_Set_def
      resp_Write_def WriteHeader_def Let_def)

theorem token_guarded_witness:
  "\<exists>st1 w1. ssh_token demo_oauth demo_accounts () fresh_response key_request = Return (st1, w1) \<and>
    (\<exists>msg iden. so_token_form demo_oauth key_request = Inr msg \<and> iden \<in> set (ac_identities demo_accounts) \<and>
      grant_checks demo_oauth msg key_request iden)"
  using demo_oauth_token demo_answers token_guarded [of demo_oauth demo_accounts "()" fresh_response key_request] by metis

lemma demo_auth:
  "\<exists>st1 code. ssh_auth demo_oauth demo_accounts () fresh_response key_request =
    Return (st1, answer_with demo_oauth fresh_response (AuthJSON code []))"
proof -
  have db: "sql_err (so_db demo_oauth n) = None" "sql_uuid (so_db demo_oauth n) ''k'' = Inr ''k''"
    "sql_uuid (so_db demo_oauth n) uuid_Nil_string = Inr uuid_Nil_string" for n
    by (simp_all add: so_db_def demo_oauth_simps uuid_Nil_string_def)
  have iden: "is_ID (auth_identity demo_oauth [1]) = ''k''" "is_ProfileID (auth_identity demo_oauth [1]) = uuid_Nil_string"
    by (simp_all add: auth_identity_def FingerprintMD5_def demo_oauth_def)
  have "row_of is_ID (ac_identities demo_accounts) ''k'' = Some (zero_Identity\<lparr>is_ID := ''k'', is_ProfileID := ''p''\<rparr>)"
    by (simp add: row_of_def demo_accounts_def)
  from insert_zero_known [OF db iden this] obtain tbl i where
    one: "IdentityInsertZeroWithDefaults (so_db demo_oauth 0) (auth_identity demo_oauth [1]) (ac_identities demo_accounts) = (tbl, Inr i)"
    by blast
  then have "on_identities (so_db demo_oauth) (\<lambda>d. IdentityInsertZeroWithDefaults d (auth_identity demo_oauth [1])) demo_accounts =
      (demo_accounts\<lparr>ac_stmts := 1, ac_identities := tbl\<rparr>, Inr i)"
    by (simp add: on_identities_def demo_accounts_def no_accounts_def)
  from ssh_auth_steps [OF demo_asks this, of "()" fresh_response key_request] show ?thesis
    by (auto simp: on_tokens_def ConsumedTokenInsertWithDefaults_def uuid_arg_def ConsumedTokenString_def insert_unique_def
        clashes_def so_db_def demo_oauth_simps)
qed

theorem state_used_once_witness:
  "\<exists>st1 w1 st3. ssh_auth demo_oauth demo_accounts () fresh_response key_request = Return (st1, w1) \<and>
    ssh_auth demo_oauth st1 () fresh_response key_request = Return (st3, fst (WriteEmptyJSON fresh_response 400))"
proof -
  obtain st1 code where first: "ssh_auth demo_oauth demo_accounts () fresh_response key_request =
    Return (st1, answer_with demo_oauth fresh_response (AuthJSON code []))" using demo_auth by blast
  obtain st3 w3 where again: "ssh_auth demo_oauth st1 () fresh_response key_request = Return (st3, w3)"
    using ssh_auth_returns by blast
  have form: "so_auth_form demo_oauth key_request = Inr []" by (simp add: demo_oauth_def)
  have "casts_to (so_keys demo_oauth) (ky_md5uuid (so_keys demo_oauth) (string_bytes []))"
    by (simp add: casts_to_def demo_oauth_simps)
  from state_used_once [OF first demo_answers form form refl this subset_refl again] first again show ?thesis by auto
qed

theorem refresh_always_refused_witness:
  "\<exists>st'. ssh_token demo_oauth demo_accounts () fresh_response (key_request\<lparr>rMethod := ''POST''\<rparr>) = refuse st' fresh_response 400"
  using refresh_always_refused [of demo_oauth "key_request\<lparr>rMethod := ''POST''\<rparr>"
      "\<lparr>tf_GrantType = ''refresh_token'', tf_Username = [], tf_Password = [], tf_Code = ''code''\<rparr>" demo_accounts "()" fresh_response]
  by (simp add: demo_fields so_db_def oauth_db_def) (simp add: demo_oauth_simps key_request_def demo_claims_def)

end
