(* ===== verification/Authnx.thy ===== *)
theory Authnx
  imports Sshoauth Sshx Httpx
begin

text \<open>
  The clients of the login: \<^verbatim>\<open>shallows/authn/authn.go\<close> with \<^verbatim>\<open>shallows/internal/oauth2x\<close>, and the tokens and the
  registration of \<^verbatim>\<open>shallows/metaapi/authn.jwt.client.go\<close> and \<^verbatim>\<open>authn.register.go\<close>.

  The state is the file system, which keeps the key, and the network \<open>'s\<close> behind the clients. The OAuth2 library (the
  address of a request for a code, the exchange of a code and of a password, the client that carries a token), the
  encoders and decoders, signatures, the clock and fresh identifiers are the record \<open>authn_env\<close>. A pointer with an error is
  a pair of options. Timeouts are left out.
\<close>

section \<open>Data\<close>

type_synonym 's client = "'s \<Rightarrow> request \<Rightarrow> ('s \<times> result) outcome"

record OEndpoint =
  oe_AuthURL :: string
  oe_TokenURL :: string

record OConfig =
  oc_ClientID :: string
  oc_ClientSecret :: string
  oc_Endpoint :: OEndpoint

record OToken =
  ot_TokenType :: string
  ot_AccessToken :: string
  ot_Expiry :: "int option"

record AuthResponse =
  ar_Code :: string
  ar_State :: string

text \<open>What is read of the answer to a login: the token to sign up with and the tokens of the profiles.\<close>

record Authed_msg =
  ad_SignupToken :: string
  ad_Profiles :: "string list"

record ('signer, 's) authn_env =
  an_keys :: "'signer key_library"
  an_fault :: faults
  an_key_path :: string
  an_sha256 :: "pubkey \<Rightarrow> string"
  an_fresh :: "nat \<Rightarrow> string"
  an_uuid_bytes :: "string \<Rightarrow> bytes"
  an_signature :: "'signer \<Rightarrow> bytes \<Rightarrow> goerr + bytes"
  an_state_json :: "string \<Rightarrow> bytes \<Rightarrow> goerr + bytes"
  an_login_json :: "string \<Rightarrow> bytes \<Rightarrow> string \<Rightarrow> string \<Rightarrow> goerr + bytes"
  an_secret :: bytes
  an_jwt_sign :: "bytes \<Rightarrow> RegisteredClaims \<Rightarrow> goerr + string"
  an_clock :: int
  an_request :: "string \<Rightarrow> string \<Rightarrow> goerr + request"
  an_code :: "response \<Rightarrow> goerr + AuthResponse"
  an_authed :: "response \<Rightarrow> goerr + Authed_msg"
  an_session :: "response \<Rightarrow> goerr + unit"
  an_bearer :: "response \<Rightarrow> goerr + string"
  an_code_url :: "OConfig \<Rightarrow> string \<Rightarrow> string"
  an_exchange :: "'s client \<Rightarrow> OConfig \<Rightarrow> string \<Rightarrow> 's \<Rightarrow> ('s \<times> (goerr + OToken)) outcome"
  an_password :: "'s client \<Rightarrow> OConfig \<Rightarrow> string \<Rightarrow> string \<Rightarrow> 's \<Rightarrow> ('s \<times> (goerr + OToken)) outcome"
  an_carry :: "OConfig \<Rightarrow> OToken \<Rightarrow> 's client"
  an_default :: "'s delegate"
  an_deeppool :: string

section \<open>Clients\<close>

definition with_retry :: "int list \<Rightarrow> 's delegate \<Rightarrow> 's client" where
  "with_retry codes d s req =
     bind_outcome (RetryTransport_RoundTrip (NewRetryTransport codes) d s req) (\<lambda>(s1, res, sent). Return (s1, res))"

definition RetryClient :: "'s delegate \<Rightarrow> 's client" where
  "RetryClient d = with_retry [429, 502, 500, 408] d"

definition NoRedirectFn :: "request \<Rightarrow> goerr option" where
  "NoRedirectFn req = (if rMethod req = ''ENDPOINT'' then Some (StringErr ''net/http: use last response'') else None)"

definition EndpointSSHAuth :: "string \<Rightarrow> OEndpoint" where
  "EndpointSSHAuth hostname = \<lparr>oe_AuthURL = hostname @ ''/oauth2/ssh/auth'', oe_TokenURL = hostname @ ''/oauth2/ssh/token''\<rparr>"

definition DeeppoolEndpoint :: "('signer, 's) authn_env \<Rightarrow> OEndpoint" where
  "DeeppoolEndpoint e = EndpointSSHAuth (''https://'' @ an_deeppool e)"

definition public_key :: "('signer, 's) authn_env \<Rightarrow> 'signer \<Rightarrow> pubkey" where
  "public_key e signer = kl_public_of (an_keys e) signer"

definition oauth2SSHConfig :: "('signer, 's) authn_env \<Rightarrow> 'signer \<Rightarrow> string \<Rightarrow> OEndpoint \<Rightarrow> OConfig" where
  "oauth2SSHConfig e signer otp ep =
     \<lparr>oc_ClientID = an_sha256 e (public_key e signer), oc_ClientSecret = otp, oc_Endpoint = ep\<rparr>"

definition OAuth2SSHConfig :: "('signer, 's) authn_env \<Rightarrow> 'signer \<Rightarrow> string \<Rightarrow> OEndpoint \<Rightarrow> OConfig" where
  "OAuth2SSHConfig e signer otp ep =
     \<lparr>oc_ClientID = an_sha256 e (public_key e signer), oc_ClientSecret = otp, oc_Endpoint = ep\<rparr>"

definition PublicKeyPath :: "('signer, 's) authn_env \<Rightarrow> string" where
  "PublicKeyPath e = an_key_path e @ ''.pub''"

definition UserDisplayName :: "string \<Rightarrow> string \<Rightarrow> string" where
  "UserDisplayName name username = FirstNonBlank [name, username]"

definition SSHSigner :: "('signer, 's) authn_env \<Rightarrow> os \<Rightarrow> os \<times> (goerr + 'signer)" where
  "SSHSigner e = ssh_AutoCached (an_keys e) (an_fault e) (KeyGen_Generate (an_keys e)) (an_key_path e)"

definition b64_url_encode :: "bytes \<Rightarrow> string" where
  "b64_url_encode bs = padded (b64_raw_url_encode bs)"

definition EncodeJSON :: "goerr + bytes \<Rightarrow> goerr + string" where
  "EncodeJSON marshalled = (case marshalled of Inl err \<Rightarrow> Inl err | Inr encoded \<Rightarrow> Inr (b64_url_encode encoded))"

text \<open>The answer to a request, unless its status is an error.\<close>

definition answered :: "('s \<times> result) outcome \<Rightarrow> ('s \<times> (goerr + response)) outcome" where
  "answered sent = bind_outcome sent (\<lambda>(s1, res). bind_outcome (AsError res) (\<lambda>(resp, err).
     (case err of
        Some err \<Rightarrow> Return (s1, Inl err)
      | None \<Rightarrow> (case resp of None \<Rightarrow> Panic | Some resp \<Rightarrow> Return (s1, Inr resp)))))"

definition ask ::
  "('signer, 's) authn_env \<Rightarrow> 's client \<Rightarrow> string \<Rightarrow> string \<Rightarrow> (request \<Rightarrow> request) \<Rightarrow> (response \<Rightarrow> goerr + 'a) \<Rightarrow>
   's \<Rightarrow> ('s \<times> (goerr + 'a)) outcome" where
  "ask e c method uri change dec s =
     (case an_request e method uri of
        Inl err \<Rightarrow> Return (s, Inl err)
      | Inr req \<Rightarrow>
          bind_outcome (answered (c s (change req))) (\<lambda>(s1, res).
            (case res of
               Inl err \<Rightarrow> Return (s1, Inl err)
             | Inr resp \<Rightarrow> Return (s1, dec resp))))"

definition RetrieveAuthCode ::
  "('signer, 's) authn_env \<Rightarrow> 's client \<Rightarrow> string \<Rightarrow> 's \<Rightarrow> ('s \<times> (goerr + AuthResponse)) outcome" where
  "RetrieveAuthCode e chttp uri s = ask e chttp ''GET'' uri (\<lambda>req. req) (an_code e) s"

section \<open>Logins\<close>

type_synonym 's pointed = "('s \<times> OToken option \<times> goerr option) outcome"

type_synonym 's given = "('s \<times> (goerr + OToken)) outcome"

definition wrapped :: "goerr \<Rightarrow> string \<Rightarrow> goerr + 'a" where
  "wrapped err message = (case Wrap (Some err) message of Some err \<Rightarrow> Inl err | None \<Rightarrow> Inl err)"

definition oauth2Bearer ::
  "('signer, 's) authn_env \<Rightarrow> 'signer \<Rightarrow> 's delegate \<Rightarrow> OConfig \<Rightarrow> string \<Rightarrow> string \<Rightarrow> 's \<Rightarrow> 's given" where
  "oauth2Bearer e signer d cfg email displayname s =
     (let c = with_retry [502, 429] d in
      case EncodeJSON (an_login_json e (an_fresh e 0) (public_key e signer) email displayname) of
        Inl err \<Rightarrow> Return (s, Inl err)
      | Inr state \<Rightarrow>
          bind_outcome (RetrieveAuthCode e c (an_code_url e cfg state) s) (\<lambda>(s1, res).
            (case res of
               Inl err \<Rightarrow> Return (s1, Inl err)
             | Inr exchanged \<Rightarrow>
                 if ar_State exchanged \<noteq> state then Return (s1, Inl (StringErr ''unexpected state''))
                 else bind_outcome (an_exchange e c cfg (ar_Code exchanged) s1) (\<lambda>(s2, res).
                   (case res of
                      Inl err \<Rightarrow> Return (s2, wrapped err ''token signature failure'')
                    | Inr token \<Rightarrow> Return (s2, Inr token))))))"

definition Oauth2Bearer ::
  "('signer, 's) authn_env \<Rightarrow> 'signer \<Rightarrow> 's delegate \<Rightarrow> string \<Rightarrow> string \<Rightarrow> 's \<Rightarrow> 's given" where
  "Oauth2Bearer e signer c email displayname =
     oauth2Bearer e signer c (oauth2SSHConfig e signer [] (DeeppoolEndpoint e)) email displayname"

text \<open>The client of the library is made of the configuration and the token.\<close>

definition Oauth2HTTPClient ::
  "('signer, 's) authn_env \<Rightarrow> os \<times> 's \<Rightarrow> ((os \<times> 's) \<times> (goerr + OConfig \<times> OToken)) outcome" where
  "Oauth2HTTPClient e st =
     (case SSHSigner e (fst st) of
        (o1, Inl err) \<Rightarrow> Return ((o1, snd st), wrapped err ''unable to read identity'')
      | (o1, Inr signer) \<Rightarrow>
          let cfg = oauth2SSHConfig e signer [] (DeeppoolEndpoint e) in
          bind_outcome (oauth2Bearer e signer (an_default e) cfg [] [] (snd st)) (\<lambda>(s1, res).
            (case res of
               Inl err \<Rightarrow> Return ((o1, s1), Inl err)
             | Inr token \<Rightarrow> Return ((o1, s1), Inr (cfg, token)))))"

definition AutoTokenState :: "('signer, 's) authn_env \<Rightarrow> 'signer \<Rightarrow> goerr + string" where
  "AutoTokenState e signer =
     (case EncodeJSON (an_state_json e (an_fresh e 0) (public_key e signer)) of
        Inl err \<Rightarrow> wrapped err ''unable to encode state''
      | Inr encoded \<Rightarrow> Inr encoded)"

text \<open>The error a wrong state is wrapped into is the one of the request, which is nil by then.\<close>

definition BearerForHost :: "('signer, 's) authn_env \<Rightarrow> 's client \<Rightarrow> string \<Rightarrow> os \<times> 's \<Rightarrow> (os \<times> 's) pointed" where
  "BearerForHost e c host st =
     (case SSHSigner e (fst st) of
        (o1, Inl err) \<Rightarrow> Return ((o1, snd st), None, Wrap (Some err) ''unable to read identity'')
      | (o1, Inr signer) \<Rightarrow>
          (case AutoTokenState e signer of
             Inl err \<Rightarrow> Return ((o1, snd st), None, Wrap (Some err) ''unable to generate authentication state'')
           | Inr state \<Rightarrow>
               let cfg = OAuth2SSHConfig e signer [] (EndpointSSHAuth host) in
               bind_outcome (RetrieveAuthCode e c (an_code_url e cfg state) (snd st)) (\<lambda>(s1, res).
                 (case res of
                    Inl err \<Rightarrow> Return ((o1, s1), None, Wrap (Some err) ''unable to retrieve auth code'')
                  | Inr r \<Rightarrow>
                      if ar_State r \<noteq> state then Return ((o1, s1), None, Wrap None ''invalid state'')
                      else bind_outcome (an_exchange e c cfg (ar_Code r) s1) (\<lambda>(s2, res).
                        (case res of
                           Inl err \<Rightarrow> Return ((o1, s2), None, Wrap (Some err) ''unable to exchange auth code'')
                         | Inr token \<Rightarrow> Return ((o1, s2), Some token, None)))))))"

definition OAuth2SSHToken ::
  "('signer, 's) authn_env \<Rightarrow> 's client \<Rightarrow> 'signer \<Rightarrow> OEndpoint \<Rightarrow> 's \<Rightarrow> ('s \<times> OConfig \<times> OToken option \<times> goerr option) outcome" where
  "OAuth2SSHToken e c signer ep s =
     (let password = an_fresh e 0; cfg = OAuth2SSHConfig e signer password ep in
      case an_signature e signer (an_uuid_bytes e password) of
        Inl err \<Rightarrow> Return (s, cfg, None, Some err)
      | Inr sig \<Rightarrow>
          bind_outcome (an_password e c cfg (oc_ClientID cfg) (b64_raw_url_encode sig) s) (\<lambda>(s1, res).
            (case res of
               Inl err \<Rightarrow> Return (s1, cfg, None, Some err)
             | Inr tok \<Rightarrow> Return (s1, cfg, Some tok, None))))"

section \<open>The tokens a daemon gives itself\<close>

definition own_claims :: "('signer, 's) authn_env \<Rightarrow> 'signer \<Rightarrow> RegisteredClaims outcome" where
  "own_claims e signer =
     (let ident = an_sha256 e (public_key e signer)
      in NewJWTClaims (an_fresh e 0) (an_clock e) ident [ClaimsOptionAuthnExpiration, ClaimsOptionIssuer ident])"

definition AutomaticTokenSource :: "('signer, 's) authn_env \<Rightarrow> os \<Rightarrow> os given" where
  "AutomaticTokenSource e st =
     (case SSHSigner e st of
        (st1, Inl err) \<Rightarrow> Return (st1, wrapped err ''unable to read identity'')
      | (st1, Inr signer) \<Rightarrow>
          bind_outcome (own_claims e signer) (\<lambda>claims.
            (case an_jwt_sign e (an_secret e) claims of
               Inl err \<Rightarrow> Return (st1, wrapped err ''unable to create bearer'')
             | Inr bearer \<Rightarrow>
                 (case rc_ExpiresAt claims of
                    None \<Rightarrow> Panic
                  | Some t \<Rightarrow> Return (st1, Inr \<lparr>ot_TokenType = ''bearer'', ot_AccessToken = bearer, ot_Expiry = Some t\<rparr>)))))"

definition NewBearer :: "('signer, 's) authn_env \<Rightarrow> os \<Rightarrow> (os \<times> string \<times> goerr option) outcome" where
  "NewBearer e st =
     (case SSHSigner e st of
        (st1, Inl err) \<Rightarrow> Return (st1, [], Wrap (Some err) ''unable to read identity'')
      | (st1, Inr signer) \<Rightarrow>
          bind_outcome (own_claims e signer) (\<lambda>claims.
            (case an_jwt_sign e (an_secret e) claims of
               Inl err \<Rightarrow> Return (st1, [], Wrap (Some err) ''token signature failure'')
             | Inr bearer \<Rightarrow> Return (st1, bearer, None))))"

section \<open>The remote service\<close>

definition service_url :: "('signer, 's) authn_env \<Rightarrow> string" where
  "service_url e = ''https://'' @ an_deeppool e"

definition jwttokensource_Token ::
  "('signer, 's) authn_env \<Rightarrow> 's client \<Rightarrow> string \<Rightarrow> 's \<Rightarrow> 's given" where
  "jwttokensource_Token e oauth2c ep s =
     bind_outcome (ask e oauth2c ''POST'' (ep @ ''/authn/ssh'') (\<lambda>req. req) (an_authed e) s) (\<lambda>(s1, res).
       (case res of
          Inl err \<Rightarrow> Return (s1, Inl err)
        | Inr authed \<Rightarrow>
            (case ad_Profiles authed of
               [] \<Rightarrow> Return (s1, Inl (StringErr
                 ''no profiles associated with this identity. this should have been done automatically during boot''))
             | [token] \<Rightarrow> Return (s1, Inr \<lparr>ot_TokenType = [], ot_AccessToken = token, ot_Expiry = None\<rparr>)
             | _ \<Rightarrow> Return (s1, Inl (StringErr ''mumlitple profiles per identity not supported'')))))"

definition metatokensource_Token ::
  "('signer, 's) authn_env \<Rightarrow> 's client \<Rightarrow> string \<Rightarrow> 's \<Rightarrow> 's given" where
  "metatokensource_Token e oauth2c ep s =
     bind_outcome (ask e oauth2c ''GET'' (ep @ ''/m/authz/'') (\<lambda>req. req) (an_bearer e) s) (\<lambda>(s1, res).
       (case res of
          Inl err \<Rightarrow> Return (s1, Inl err)
        | Inr bearer \<Rightarrow> Return (s1, Inr \<lparr>ot_TokenType = [], ot_AccessToken = bearer, ot_Expiry = None\<rparr>)))"

text \<open>\<^verbatim>\<open>AutoJWTClient\<close>: the source of the tokens of the client, over the client of the login.\<close>

definition AutoJWTClient ::
  "('signer, 's) authn_env \<Rightarrow> os \<times> 's \<Rightarrow> ((os \<times> 's) \<times> (goerr + ('s \<Rightarrow> 's given))) outcome" where
  "AutoJWTClient e st =
     bind_outcome (Oauth2HTTPClient e st) (\<lambda>(st1, res).
       (case res of
          Inl err \<Rightarrow> Return (st1, wrapped err ''failed to create oauth2 http client'')
        | Inr (cfg, token) \<Rightarrow>
            Return (st1, Inr (jwttokensource_Token e (an_carry e cfg token) (service_url e)))))"

definition Register :: "('signer, 's) authn_env \<Rightarrow> os \<times> 's \<Rightarrow> ((os \<times> 's) \<times> goerr option) outcome" where
  "Register e st =
     bind_outcome (Oauth2HTTPClient e st) (\<lambda>((o1, s1), res).
       (case res of
          Inl err \<Rightarrow> Return ((o1, s1), Some err)
        | Inr (cfg, token) \<Rightarrow>
            let c = an_carry e cfg token in
            bind_outcome (ask e c ''POST'' (service_url e @ ''/authn/ssh'') (\<lambda>req. req) (an_authed e) s1) (\<lambda>(s2, res).
              (case res of
                 Inl err \<Rightarrow> Return ((o1, s2), Some err)
               | Inr authed \<Rightarrow>
                   if ad_Profiles authed \<noteq> [] then Return ((o1, s2), None)
                   else bind_outcome (ask e c ''POST'' (service_url e @ ''/authn/signup'')
                       (\<lambda>req. req\<lparr>rHeader := hdr_add (rHeader req) ''authorization'' (''bearer '' @ ad_SignupToken authed)\<rparr>)
                       (an_session e) s2) (\<lambda>(s3, res). Return ((o1, s3), errored res))))))"

section \<open>Lemmas\<close>

lemma b64_url_round: "b64_url_decode (b64_url_encode bs) = Some bs"
proof -
  let ?t = "b64_raw_url_encode bs"
  have "CHR ''+'' \<notin> set ?t" "CHR ''/'' \<notin> set ?t" "CHR ''='' \<notin> set ?t" "CHR 0x0A \<notin> set ?t" "CHR 0x0D \<notin> set ?t"
    using encode_plain by blast+
  then have "b64_raw_url_decode ?t = b64_url_decode (padded ?t)"
    by (simp add: b64_raw_url_decode_def Let_def no_breaks padded_def)
  then show ?thesis by (simp add: b64_url_encode_def b64_raw_url_round)
qed

lemma SSHSigner_cached:
  "os_ReadFile (an_fault e) (an_key_path e) st = (st1, Inr raw) \<Longrightarrow> kl_parse_private (an_keys e) raw = Inr signer \<Longrightarrow>
   SSHSigner e st = (st1, Inr signer)"
  by (simp add: SSHSigner_def ssh_AutoCached_def loadcached_def)

lemma own_claims_expires: "\<exists>c. own_claims e signer = Return c \<and> rc_ExpiresAt c \<noteq> None \<and> rc_Subject c = an_sha256 e (public_key e signer)"
  by (simp add: own_claims_def NewJWTClaims_def Let_def ClaimsOptionAuthnExpiration_def ClaimsOptionExpiration_def
      ClaimsOptionIssuer_def NewNumericDate_def)

section \<open>Properties\<close>


text \<open>A wrong answer to a login is no error. When the service answers with another state than the one it was sent,
  \<^verbatim>\<open>BearerForHost\<close> returns neither a token nor an error.\<close>

theorem wrong_state_unreported:
  assumes "os_ReadFile (an_fault e) (an_key_path e) (fst st) = (o1, Inr raw)" "kl_parse_private (an_keys e) raw = Inr signer"
    and "AutoTokenState e signer = Inr state"
    and "RetrieveAuthCode e c (an_code_url e (OAuth2SSHConfig e signer [] (EndpointSSHAuth host)) state) (snd st) = Return (s1, Inr r)"
    and "ar_State r \<noteq> state"
  shows "BearerForHost e c host st = Return ((o1, s1), None, None)"
  using assms SSHSigner_cached [OF assms(1,2)] by (simp add: BearerForHost_def Let_def)

text \<open>A daemon accepts the tokens it gives itself. The token \<^verbatim>\<open>NewBearer\<close> makes with the key on the disk passes the
  authentication of a service with the same secret, which then answers the request.\<close>

theorem own_bearer_accepted:
  assumes "os_ReadFile (an_fault e) (an_key_path e) st = (st1, Inr raw)" "kl_parse_private (an_keys e) raw = Inr signer"
    and "own_claims e signer = Return claims" "an_jwt_sign e (an_secret e) claims = Inr bearer"
    and "parse alg (an_secret e) bearer = Inr (claims, True)" "CHR '' '' \<notin> set bearer"
    and "hdr_get (rHeader r) ''authorization'' = ''bearer '' @ bearer"
  shows "NewBearer e st = Return (st1, bearer, None) \<and>
    AuthenticateWithToken parse alg (an_secret e) original s ctx w r = original s ctx w r"
proof -
  have "Bearer r = bearer"
    using assms(7) by (simp add: Bearer_def HasPrefix_def ToLower_def to_lower_def)
  then have "Validate parse alg ''*jwt.RegisteredClaims'' (an_secret e) (Bearer r) = Inr claims"
    using assms(5,6) by (simp add: Validate_def strip_bearer_id)
  then show ?thesis
    using assms(3,4) SSHSigner_cached [OF assms(1,2)] by (simp add: NewBearer_def AuthenticateWithToken_def)
qed

text \<open>A login to the remote service needs exactly one profile. The answer to the login gives the token of the
  client when it names one profile, and an error when it names none or several.\<close>

theorem one_profile_token:
  assumes "ask e c ''POST'' (ep @ ''/authn/ssh'') (\<lambda>req. req) (an_authed e) s = Return (s1, Inr authed)"
  shows "\<exists>res. jwttokensource_Token e c ep s = Return (s1, res) \<and>
    (case res of
       Inr token \<Rightarrow> ad_Profiles authed = [ot_AccessToken token]
     | Inl err \<Rightarrow> length (ad_Profiles authed) \<noteq> 1)"
  using assms by (auto simp: jwttokensource_Token_def split: list.splits)

text \<open>A client with its key on the disk, and the service it asks.\<close>

definition signing_oauth :: "unit ssh_oauth" where
  "signing_oauth = demo_oauth\<lparr>so_keys := \<lparr>ky_md5uuid = (\<lambda>b. if b = [1] then ''k'' else ''q''), ky_db = (\<lambda>_. oauth_db),
       ky_draw = (\<lambda>_. ''w'')\<rparr>, so_verify := (\<lambda>_ _ _. None),
     so_token_form := (\<lambda>r. Inr \<lparr>tf_GrantType = ''password'', tf_Username = rPath r, tf_Password = rQuery r, tf_Code = []\<rparr>)\<rparr>"

definition login_request :: "OConfig \<Rightarrow> string \<Rightarrow> string \<Rightarrow> request" where
  "login_request cfg user pass = key_request\<lparr>rMethod := ''POST'', rPath := user, rQuery := pass\<rparr>"

definition login_answer :: "response_writer \<Rightarrow> goerr + OToken" where
  "login_answer w =
     (if map_option fst (wSent w) = Some 400 then Inl (Fundamental ''400 Bad Request'')
      else Inr \<lparr>ot_TokenType = ''BEARER'', ot_AccessToken = ''t'', ot_Expiry = None\<rparr>)"

definition demo_login :: "(bytes, accounts) authn_env" where
  "demo_login = \<lparr>an_keys = \<lparr>kl_generate = Inl (Fundamental ''entropy''), kl_public = Inr, kl_pkcs8 = Inr, kl_pem = (\<lambda>_ b. b),
       kl_authorized = (\<lambda>b. b), kl_parse_private = Inr, kl_public_of = (\<lambda>b. b)\<rparr>, an_fault = (\<lambda>_. None), an_key_path = ''/id'',
     an_sha256 = (\<lambda>_. ''SHA256:k''), an_fresh = (\<lambda>_. ''f''), an_uuid_bytes = string_bytes, an_signature = (\<lambda>_ _. Inr [7]),
     an_state_json = (\<lambda>_ _. Inr [3]), an_login_json = (\<lambda>_ _ _ _. Inr [3]), an_secret = [9], an_jwt_sign = (\<lambda>_ _. Inr ''t''),
     an_clock = 0, an_request = (\<lambda>m uri. Inr (key_request\<lparr>rMethod := m\<rparr>)),
     an_code = (\<lambda>_. Inr \<lparr>ar_Code = ''c'', ar_State = ''other''\<rparr>),
     an_authed = (\<lambda>_. Inr \<lparr>ad_SignupToken = ''s'', ad_Profiles = [''p'', ''q'']\<rparr>), an_session = (\<lambda>_. Inr ()),
     an_bearer = (\<lambda>_. Inr ''b''), an_code_url = (\<lambda>_ s. s), an_exchange = (\<lambda>_ _ _ s. Return (s, Inl (Fundamental ''exchange''))),
     an_password = (\<lambda>c cfg user pass s. bind_outcome (ssh_token signing_oauth s () fresh_response (login_request cfg user pass))
       (\<lambda>(s', w'). Return (s', login_answer w'))),
     an_carry = (\<lambda>_ _ s r. Return (s, None, Some (Fundamental ''offline''))), an_default = (\<lambda>s r. (s, 0, None, None)),
     an_deeppool = ''remote''\<rparr>"

definition key_disk :: os where
  "key_disk = \<lparr>nodes_of = [[''id''] \<mapsto> Regular [1]], cwd = [], calls = 0\<rparr>"

definition plain_client :: "accounts client" where
  "plain_client s r = Return (s, Some \<lparr>StatusCode = 200, Status = ''OK'', rsHeader = (\<lambda>_. []), rsChunks = [], rsErr = None\<rparr>, None)"

lemma key_disk_read: "os_ReadFile (an_fault demo_login) (an_key_path demo_login) key_disk = (key_disk\<lparr>calls := 1\<rparr>, Inr [1])"
  "kl_parse_private (an_keys demo_login) [1] = Inr [1]"
  by (simp_all add: demo_login_def key_disk_def os_ReadFile_def syscall_def resolve_def walk_from_def start_of_def HasPrefix_def
      is_directory_def components_def is_sep_def)


theorem wrong_state_unreported_witness:
  "BearerForHost demo_login plain_client ''h'' (key_disk, demo_accounts) =
    Return ((key_disk\<lparr>calls := 1\<rparr>, demo_accounts), None, None)"
proof (rule wrong_state_unreported [where raw = "[1]" and signer = "[1]" and state = "b64_url_encode [3]" and
      r = "\<lparr>ar_Code = ''c'', ar_State = ''other''\<rparr>"])
  show "ar_State \<lparr>ar_Code = ''c'', ar_State = ''other''\<rparr> \<noteq> b64_url_encode [3]"
    by code_simp
qed (simp_all add: key_disk_read, simp_all add: demo_login_def plain_client_def AutoTokenState_def EncodeJSON_def RetrieveAuthCode_def ask_def
    answered_def AsError_def)

theorem own_bearer_accepted_witness:
  "\<exists>claims. NewBearer demo_login key_disk = Return (key_disk\<lparr>calls := 1\<rparr>, ''t'', None) \<and>
    AuthenticateWithToken (\<lambda>_ _ _. Inr (claims, True)) [] (an_secret demo_login) (\<lambda>s ctx w r. Return (s + 1, w)) (0 :: nat) ()
      fresh_response (key_request\<lparr>rHeader := (\<lambda>_. [''bearer t''])\<rparr>) = Return (1, fresh_response)"
proof -
  obtain claims where c: "own_claims demo_login [1] = Return claims" using own_claims_expires [of demo_login "[1]"] by (elim exE conjE)
  have sign: "an_jwt_sign demo_login (an_secret demo_login) claims = Inr ''t''" by (simp add: demo_login_def)
  let ?r = "key_request\<lparr>rHeader := (\<lambda>_. [''bearer t''])\<rparr>"
  have hdr: "hdr_get (rHeader ?r) ''authorization'' = ''bearer '' @ ''t''" by (simp add: hdr_get_def)
  have plain: "CHR '' '' \<notin> set ''t''" by simp
  have "NewBearer demo_login key_disk = Return (key_disk\<lparr>calls := 1\<rparr>, ''t'', None) \<and>
    AuthenticateWithToken (\<lambda>_ _ _. Inr (claims, True)) [] (an_secret demo_login) h (0 :: nat) () fresh_response ?r =
      h 0 () fresh_response ?r" for h
    using own_bearer_accepted [of demo_login key_disk "key_disk\<lparr>calls := 1\<rparr>" "[1]" "[1]" claims "''t''"
        "\<lambda>_ _ _. Inr (claims, True)" "[]" ?r h 0 "()" fresh_response, OF key_disk_read c sign refl plain hdr] .
  from this [of "\<lambda>s ctx w r. Return (s + 1, w)"] show ?thesis by (intro exI [where x = claims]) simp
qed

theorem one_profile_token_witness:
  "\<exists>res. jwttokensource_Token demo_login plain_client ''e'' demo_accounts = Return (demo_accounts, res) \<and>
    (case res of Inr token \<Rightarrow> [''p'', ''q''] = [ot_AccessToken token] | Inl err \<Rightarrow> length [''p'', ''q''] \<noteq> 1)"
proof -
  have "ask demo_login plain_client ''POST'' (''e'' @ ''/authn/ssh'') (\<lambda>req. req) (an_authed demo_login) demo_accounts =
      Return (demo_accounts, Inr \<lparr>ad_SignupToken = ''s'', ad_Profiles = [''p'', ''q'']\<rparr>)"
    by (simp add: ask_def answered_def plain_client_def AsError_def demo_login_def)
  from one_profile_token [OF this] show ?thesis unfolding Authed_msg.select_convs .
qed

end
