(* ===== verification/Cmdmeta.thy ===== *)
theory Cmdmeta
  imports Metadb Sshx
begin

text \<open>
  The commands that provision the system: \<^verbatim>\<open>shallows/cmd/cmdmeta\<close>, that is the keys of its users
  (\<^verbatim>\<open>cmd.iden.bootstrap.go\<close>) and its own (\<^verbatim>\<open>cmd.identity.go\<close>).

  The state of the first is the accounts, of the second the file system. The parser of authorized keys, the
  generator of keys and opening the database are parameters. What is printed is left out.
\<close>

section \<open>Users\<close>

text \<open>\<open>bs_fresh\<close> are the identifiers and watermarks the database draws, numbered by the statement.\<close>

record bootstrap_env =
  bs_keys :: key_env
  bs_fresh :: "nat \<Rightarrow> string"
  bs_database :: "goerr option"
  bs_parse :: "bytes \<Rightarrow> bytes \<times> (goerr + Parsed)"
  bs_fault :: faults

definition BootstrapPublicKey_Run :: "bootstrap_env \<Rightarrow> string \<Rightarrow> accounts \<Rightarrow> accounts \<times> goerr option" where
  "BootstrapPublicKey_Run e key st =
     (case bs_database e of
        Some err \<Rightarrow> (st, Some err)
      | None \<Rightarrow>
          (case snd (bs_parse e (string_bytes key)) of
             Inl err \<Rightarrow> (st, Wrap (Some err) ''unable to parse public key'')
           | Inr parsed \<Rightarrow> ImportParsed (bs_keys e) parsed st))"

text \<open>The body of the loop over the keys of the file. The permissions are inserted without the profile they are for.\<close>

definition bootstrap_key :: "bootstrap_env \<Rightarrow> Parsed \<Rightarrow> accounts \<Rightarrow> accounts \<times> goerr option" where
  "bootstrap_key e parsed st =
     (let db = ky_db (bs_keys e) in
      case on_profiles db (\<lambda>d. ProfileInsertWithDefaults d (bs_fresh e (ac_stmts st)) (ky_draw (bs_keys e) (ac_stmts st))
          (zero_Profile\<lparr>pf_Description := ps_Comment parsed\<rparr>)) st of
        (st1, Inl err) \<Rightarrow> (st1, Wrap (Some err) ''unable to create profile'')
      | (st1, Inr p) \<Rightarrow>
          (case on_authz db (\<lambda>d. AuthzInsertWithDefaults d (bs_fresh e (ac_stmts st1)) (Clone zero_Authz [AuthzOptionAdmin])) st1 of
             (st2, Inl err) \<Rightarrow> (st2, Wrap (Some err) ''unable to setup authorizations'')
           | (st2, Inr a) \<Rightarrow>
               (case on_identities db (\<lambda>d. IdentityInsertWithDefaults d
                   (zero_Identity\<lparr>is_ID := FingerprintMD5 (ky_md5uuid (bs_keys e)) (ps_PublicKey parsed),
                     is_PublicKey := EncodeBase64PublicKey (ps_PublicKey parsed), is_ProfileID := pf_ID p\<rparr>)) st2 of
                  (st3, Inl err) \<Rightarrow> (st3, Wrap (Some err) ''unable create ssh identity'')
                | (st3, Inr iden) \<Rightarrow> (st3, None))))"

definition BootstrapAuthorized_Run ::
  "bootstrap_env \<Rightarrow> string \<Rightarrow> os \<Rightarrow> accounts \<Rightarrow> (os \<times> accounts \<times> goerr option) option" where
  "BootstrapAuthorized_Run e file fs st =
     (case bs_database e of
        Some err \<Rightarrow> Some (fs, st, Some err)
      | None \<Rightarrow>
          (case os_ReadFile (bs_fault e) file fs of
             (fs1, Inl err) \<Rightarrow> Some (fs1, st, Wrap (Some err) (''unable to read authorized keys from '' @ file))
           | (fs1, Inr encoded) \<Rightarrow>
               map_option (Pair fs1)
                 (ParseAuthorizedKeys (bs_parse e) (\<lambda>(s, _) p. case bootstrap_key e p s of (s', err) \<Rightarrow> ((s', err), err = None))
                   (st, None) encoded)))"

section \<open>The identity of the device\<close>

text \<open>\<open>seeded\<close> is what the generator makes of a seed.\<close>

definition GenerateID_Run ::
  "'signer key_library \<Rightarrow> (string \<Rightarrow> goerr + bytes \<times> bytes) \<Rightarrow> faults \<Rightarrow> string \<Rightarrow> bool \<Rightarrow> string \<Rightarrow> os \<Rightarrow> os \<times> (goerr + 'signer)" where
  "GenerateID_Run l seeded fault keypath force seed st =
     (case Exists fault keypath st of (st1, exists) \<Rightarrow>
        if exists \<and> \<not> force
        then (st1, Inl (Fundamental (''an identity already exists at '' @ keypath @
            '', use --force to overwrite, but maybe you should back it up first'')))
        else (case os_Remove fault keypath st1 of
            (st2, Inl err) \<Rightarrow> (st2, case Wrap (Some err) ''unable to remove old key'' of Some err \<Rightarrow> Inl err | None \<Rightarrow> Inl err)
          | (st2, Inr _) \<Rightarrow> ssh_AutoCached l fault (seeded seed) keypath st2))"

section \<open>Properties\<close>

text \<open>C25: the keys of a file are never imported. With a database that refuses the empty text as a \<^verbatim>\<open>UUID\<close> the command ends with an
  error at the first key of the file: no identity and no permission is recorded, and every run leaves one
  more profile at most.\<close>

theorem bootstrap_file_never_imports:
  assumes "bs_database e = None" "os_ReadFile (bs_fault e) file fs = (fs1, Inr encoded)" "encoded \<noteq> []"
    and "bs_parse e encoded = (rest, Inr parsed)" "\<And>n. isl (sql_uuid (ky_db (bs_keys e) n) [])"
  shows "\<exists>st' err. BootstrapAuthorized_Run e file fs st = Some (fs1, st', Some err) \<and>
    ac_identities st' = ac_identities st \<and> ac_authz st' = ac_authz st \<and> length (ac_profiles st') \<le> Suc (length (ac_profiles st))"
proof -
  let ?db = "ky_db (bs_keys e)" and ?body = "\<lambda>(s, _) p. case bootstrap_key e p s of (s', err) \<Rightarrow> ((s', err), err = None)"
  obtain st' err where key: "bootstrap_key e parsed st = (st', Some err)" "ac_identities st' = ac_identities st"
    "ac_authz st' = ac_authz st" "length (ac_profiles st') \<le> Suc (length (ac_profiles st))"
  proof -
    let ?ins = "\<lambda>d. ProfileInsertWithDefaults d (bs_fresh e (ac_stmts st)) (ky_draw (bs_keys e) (ac_stmts st))
      (zero_Profile\<lparr>pf_Description := ps_Comment parsed\<rparr>)"
    obtain st1 r1 where one: "on_profiles ?db ?ins st = (st1, r1)" by fastforce
    obtain tbl where tbl: "?ins (?db (ac_stmts st)) (ac_profiles st) = (tbl, r1)" "st1 = st\<lparr>ac_stmts := Suc (ac_stmts st), ac_profiles := tbl\<rparr>"
      using one by (auto simp: on_profiles_def split: prod.splits)
    have size: "length tbl \<le> Suc (length (ac_profiles st))"
      using tbl(1) by (auto simp: ProfileInsertWithDefaults_def upsert_def update_where_def split: option.splits if_splits)
    obtain uerr where uerr: "sql_uuid (?db (ac_stmts st1)) [] = Inl uerr" using assms(5) by (meson isl_def)
    then have two: "on_authz ?db (\<lambda>d. AuthzInsertWithDefaults d i (Clone zero_Authz [AuthzOptionAdmin])) st1 =
        (st1\<lparr>ac_stmts := Suc (ac_stmts st1)\<rparr>, Inl uerr)" for i
      by (simp add: on_authz_def AuthzInsertWithDefaults_def uuid_arg_def zero_Authz_def AuthzOptionAdmin_def)
    show thesis
      using that one two tbl size
      by (cases r1) (auto simp: bootstrap_key_def Let_def)
  qed
  have "ParseAuthorizedKeys (bs_parse e) ?body (st, None) encoded = Some (st', Some err)"
    using assms(3,4) key(1) by (subst ParseAuthorizedKeys.simps) simp
  with assms(1,2) key(2-4) show ?thesis by (auto simp: BootstrapAuthorized_Run_def)
qed

text \<open>An identity can only be generated where there is one. The command succeeds only if a file with the key was there before,
  and with the flag to overwrite it unless it is a dangling link.\<close>

theorem generate_only_replaces:
  assumes "GenerateID_Run l seeded fault keypath force seed st = (st', Inr signer)"
  shows "\<exists>q nd. resolve st False keypath = Inr q \<and> nodes_of st q = Some nd \<and> (snd (Exists fault keypath st) \<longrightarrow> force)"
proof -
  obtain st1 ex where one: "Exists fault keypath st = (st1, ex)" by fastforce
  obtain st2 r where two: "os_Remove fault keypath st1 = (st2, r)" by fastforce
  from assms one two obtain u where r: "r = Inr u" "ex \<longrightarrow> force"
    by (cases r) (auto simp: GenerateID_Run_def Let_def split: if_splits option.splits)
  from one have same: "nodes_of st1 = nodes_of st" "cwd st1 = cwd st"
    by (auto simp: Exists_def os_Stat_def syscall_def Let_def split: option.splits sum.splits prod.splits)
  from two r(1) obtain q nd where "resolve st1 False keypath = Inr q" "nodes_of st1 q = Some nd"
    by (auto simp: os_Remove_def syscall_def Let_def split: option.splits sum.splits prod.splits if_splits)
  with same r(2) one show ?thesis by (auto simp: resolve_def start_of_def)
qed

definition strict_db :: sqldb where
  "strict_db = plain_db\<lparr>sql_uuid := (\<lambda>s. if s = [] then Inl (Fundamental ''invalid uuid'') else Inr s)\<rparr>"

definition demo_bootstrap :: bootstrap_env where
  "demo_bootstrap = \<lparr>bs_keys = plain_keys\<lparr>ky_db := (\<lambda>_. strict_db)\<rparr>, bs_fresh = (\<lambda>_. ''p''), bs_database = None,
     bs_parse = (\<lambda>_. ([], Inr one_key)), bs_fault = (\<lambda>_. None)\<rparr>"

definition key_file :: os where
  "key_file = \<lparr>nodes_of = [[''k''] \<mapsto> Regular [1]], cwd = [], calls = 0\<rparr>"

lemmas key_file_eval = resolve_def walk_from_def is_directory_def start_of_def HasPrefix_def components_def max_links_def is_sep_def
  os_ReadFile_def os_WriteFile_def os_Write_def os_Remove_def os_Stat_def syscall_def key_file_def

theorem bootstrap_file_never_imports_witness:
  "\<exists>fs' st' err. BootstrapAuthorized_Run demo_bootstrap ''/k'' key_file no_accounts = Some (fs', st', Some err) \<and>
    ac_identities st' = [] \<and> ac_authz st' = []"
proof -
  have "os_ReadFile (bs_fault demo_bootstrap) ''/k'' key_file = (key_file\<lparr>calls := 1\<rparr>, Inr [1])"
    by (simp add: demo_bootstrap_def key_file_eval)
  then show ?thesis
    using bootstrap_file_never_imports [of demo_bootstrap "''/k''" key_file "key_file\<lparr>calls := 1\<rparr>" "[1]" "[]" one_key no_accounts]
    by (auto simp: demo_bootstrap_def strict_db_def plain_db_def no_accounts_def)
qed

theorem generate_only_replaces_witness:
  "\<exists>st' q nd. GenerateID_Run demo_keys (\<lambda>_. Inr ([7], [8])) (\<lambda>_. None) ''/k'' True ''seed'' key_file = (st', Inr [7]) \<and>
    resolve key_file False ''/k'' = Inr q \<and> nodes_of key_file q = Some nd"
proof -
  have "\<exists>st'. GenerateID_Run demo_keys (\<lambda>_. Inr ([7], [8])) (\<lambda>_. None) ''/k'' True ''seed'' key_file = (st', Inr [7])"
    by (simp add: GenerateID_Run_def Exists_def ssh_AutoCached_def loadcached_def demo_keys_def key_file_eval)
  then obtain st' where run: "GenerateID_Run demo_keys (\<lambda>_. Inr ([7], [8])) (\<lambda>_. None) ''/k'' True ''seed'' key_file = (st', Inr [7])"
    by blast
  from generate_only_replaces [OF run] run show ?thesis by blast
qed

end
