(* ===== verification/Rss.thy ===== *)
theory Rss
  imports Timex Langx Gostd
begin

text \<open>
  Feeds as they are read: \<^verbatim>\<open>shallows/rss\<close>.

  The decoder of \<^verbatim>\<open>encoding/xml\<close> is a parameter that makes a \<open>Root\<close> of the bytes of a feed, as are
  \<^verbatim>\<open>url.Parse\<close> followed by \<^verbatim>\<open>Hostname\<close> and \<^verbatim>\<open>time.Parse\<close>. The names of the unexported types carry
  an \<open>x\<close>.
\<close>

record Enclosure =
  e_URL :: string
  e_Mimetype :: string
  e_Length :: u64

record Retrovibed =
  Entropy :: string
  r_Mimetype :: string

datatype xmlTime = XmlTime (xt_value: instant) (hasValue: bool)

record xsource =
  xs_URL :: string
  xs_Value :: string

record xitem =
  xi_GUID :: string
  xi_Title :: string
  xi_Link :: string
  xi_Description :: string
  xi_PubDate :: xmlTime
  xi_Source :: "xsource option"
  xi_Enclosures :: "Enclosure list"

record channel =
  ch_Title :: string
  ch_Items :: "xitem list"
  ch_TTL :: int
  ch_LastBuildDate :: xmlTime
  ch_Language :: string
  ch_Retrovibed :: Retrovibed

record Source =
  s_Description :: string
  s_URL :: string

record Item =
  i_Guid :: string
  i_Title :: string
  i_Source :: "Source option"
  i_Link :: string
  i_PublishDate :: instant
  i_Description :: string
  i_Enclosures :: "Enclosure list"

definition zero_Enclosure :: Enclosure where
  "zero_Enclosure = \<lparr>e_URL = '''', e_Mimetype = '''', e_Length = 0\<rparr>"

section \<open>Dates\<close>

definition timestamp_formats :: "string list" where
  "timestamp_formats = [''01/02 03:04:05PM '' @ [CHR 0x27] @ ''06 -0700'', ''02 Jan 06 15:04 MST'',
     ''Monday, 02-Jan-06 15:04:05 MST'', ''Mon Jan _2 15:04:05 2006'',
     ''Mon Jan _2 15:04:05 MST 2006'', ''Mon Jan 02 15:04:05 -0700 2006'',
     ''Mon, 02 Jan 2006 15:04:05 MST'', ''Mon, 02 Jan 2006 15:04:05 -0700'',
     ''2006-01-02T15:04:05Z07:00'', ''2006-01-02T15:04:05.999999999Z07:00'', ''3:04PM'',
     ''Jan _2 15:04:05'', ''Jan _2 15:04:05.000'', ''Jan _2 15:04:05.000000'',
     ''Jan _2 15:04:05.000000000'']"


text \<open>\<^verbatim>\<open>parseTimestamp\<close>: the first format that parses, or the error of the first format. \<open>encoded\<close>
  of the second definition is what \<^verbatim>\<open>DecodeElement\<close> leaves, its own error is not looked at.\<close>

fun parse_formats ::
  "(string \<Rightarrow> string \<Rightarrow> goerr + instant) \<Rightarrow> string \<Rightarrow> string list \<Rightarrow> goerr option \<Rightarrow> instant \<times> goerr option" where
  "parse_formats time_parse encoded [] err = (0, err)"
| "parse_formats time_parse encoded (f # formats) err =
     (case time_parse f encoded of
        Inr ts \<Rightarrow> (ts, None)
      | Inl failed \<Rightarrow> parse_formats time_parse encoded formats (Compact [err, Some failed]))"

definition parseTimestamp :: "(string \<Rightarrow> string \<Rightarrow> goerr + instant) \<Rightarrow> string \<Rightarrow> instant \<times> goerr option" where
  "parseTimestamp time_parse encoded = parse_formats time_parse encoded timestamp_formats None"

definition UnmarshalXML ::
  "(string \<Rightarrow> string \<Rightarrow> goerr + instant) \<Rightarrow> string \<Rightarrow> xmlTime \<times> goerr option" where
  "UnmarshalXML time_parse encoded =
     (case parseTimestamp time_parse encoded of
        (ts, Some err) \<Rightarrow> (XmlTime 0 False, Some err)
      | (ts, None) \<Rightarrow> (XmlTime ts True, None))"

definition Timestamp :: "xmlTime \<Rightarrow> instant \<Rightarrow> instant" where
  "Timestamp t fallback = (if hasValue t then xt_value t else fallback)"

section \<open>Feeds\<close>

definition extractSource :: "(string \<Rightarrow> string option) \<Rightarrow> string \<Rightarrow> string" where
  "extractSource hostname urlRaw = (case hostname urlRaw of None \<Rightarrow> '''' | Some h \<Rightarrow> h)"

definition parse_item :: "(string \<Rightarrow> string option) \<Rightarrow> string \<Rightarrow> xitem \<Rightarrow> Item" where
  "parse_item hostname originURL it =
     \<lparr>i_Guid = '''', i_Title = xi_Title it,
      i_Source = Some (case xi_Source it of
          Some src \<Rightarrow> \<lparr>s_Description = xs_Value src, s_URL = xs_URL src\<rparr>
        | None \<Rightarrow> \<lparr>s_Description = extractSource hostname originURL, s_URL = originURL\<rparr>),
      i_Link = xi_Link it,
      i_PublishDate = (if hasValue (xi_PubDate it) then xt_value (xi_PubDate it) else 0),
      i_Description = xi_Description it, i_Enclosures = xi_Enclosures it\<rparr>"

definition parseData ::
  "(bytes \<Rightarrow> goerr + channel) \<Rightarrow> (string \<Rightarrow> string option) \<Rightarrow> bytes \<Rightarrow> string \<Rightarrow> goerr + channel \<times> Item list" where
  "parseData xml hostname data originURL =
     (case xml data of
        Inl err \<Rightarrow> Inl err
      | Inr ch \<Rightarrow>
          Inr (ch, map (parse_item hostname originURL)
            (filter (\<lambda>it. \<not> (xi_Title it = '''' \<and> xi_Link it = '''' \<and> xi_Description it = ''''))
              (ch_Items ch))))"

definition Parse :: "(bytes \<Rightarrow> goerr + channel) \<Rightarrow> (string \<Rightarrow> string option) \<Rightarrow> bytes \<Rightarrow> goerr + channel \<times> Item list" where
  "Parse xml hostname data = parseData xml hostname data ''''"

definition FindEnclosureURLByMimetype :: "string \<Rightarrow> Item list \<Rightarrow> Enclosure list" where
  "FindEnclosureURLByMimetype mimetype items =
     concat (map (\<lambda>i. filter (\<lambda>e. e_Mimetype e = mimetype) (i_Enclosures i)) items)"

definition ItemToEnclosure :: "Item \<Rightarrow> string \<Rightarrow> Enclosure" where
  "ItemToEnclosure i mimetype = \<lparr>e_URL = i_Link i, e_Mimetype = mimetype, e_Length = 0\<rparr>"

section \<open>Lemmas\<close>

lemma FirstOrDefault_nonzero:
  "\<forall>v \<in> set items. v \<noteq> zero \<Longrightarrow>
   FirstOrDefault zero fallback items = (case items of [] \<Rightarrow> fallback | v # _ \<Rightarrow> v)"
  by (cases items) simp_all

lemma Find_mimetype: "e \<in> set (FindEnclosureURLByMimetype mimetype items) \<Longrightarrow> e_Mimetype e = mimetype"
  by (auto simp: FindEnclosureURLByMimetype_def)

lemma parse_formats_first:
  "time_parse f encoded = Inr ts \<Longrightarrow> \<forall>g \<in> set gs. isl (time_parse g encoded) \<Longrightarrow>
   parse_formats time_parse encoded (gs @ f # fs) err = (ts, None)"
  by (induction gs arbitrary: err) (auto split: sum.splits)

end
