(* ===== verification/Daemons.thy ===== *)
theory Daemons
  imports Tracking Rss Asynccompute
begin

text \<open>
  The background work on torrents: \<^verbatim>\<open>shallows/cmd/retrovibed/daemons\<close>.

  The state is a \<open>station\<close>: the tables, the \<^verbatim>\<open>.torrent\<close> files by name, the downloads started and
  the number of statements run so far, which selects what the database does with the next
  one. Torrent client, network, decoders and clock are parameters. A daemon that only logs an
  error has no error in its result; messages that end in a value a library formats are cut
  before it.
\<close>

section \<open>The state\<close>

record station =
  stmts :: nat
  torrents_tbl :: torrents
  feeds_tbl :: "RSS list"
  unknown_tbl :: "UnknownHash list"
  peers_tbl :: "Peer list"
  infofiles :: "string \<rightharpoonup> bytes"
  started :: "TMetadata list"

type_synonym database = "nat \<Rightarrow> sqldb"

definition on_torrents ::
  "database \<Rightarrow> (sqldb \<Rightarrow> torrent_query) \<Rightarrow> station \<Rightarrow> station \<times> (goerr + TMetadata)" where
  "on_torrents db q st =
     (let (tbl, res) = q (db (stmts st)) (torrents_tbl st)
      in (st\<lparr>stmts := Suc (stmts st), torrents_tbl := tbl\<rparr>, res))"

definition on_feeds ::
  "database \<Rightarrow> (sqldb \<Rightarrow> feed_query) \<Rightarrow> station \<Rightarrow> station \<times> (goerr + RSS)" where
  "on_feeds db q st =
     (let (tbl, res) = q (db (stmts st)) (feeds_tbl st)
      in (st\<lparr>stmts := Suc (stmts st), feeds_tbl := tbl\<rparr>, res))"

definition on_unknown ::
  "database \<Rightarrow> (sqldb \<Rightarrow> unknown_query) \<Rightarrow> station \<Rightarrow> station \<times> (goerr + UnknownHash)" where
  "on_unknown db q st =
     (let (tbl, res) = q (db (stmts st)) (unknown_tbl st)
      in (st\<lparr>stmts := Suc (stmts st), unknown_tbl := tbl\<rparr>, res))"

definition on_peers ::
  "database \<Rightarrow> (sqldb \<Rightarrow> peer_query) \<Rightarrow> station \<Rightarrow> station \<times> (goerr + Peer)" where
  "on_peers db q st =
     (let (tbl, res) = q (db (stmts st)) (peers_tbl st)
      in (st\<lparr>stmts := Suc (stmts st), peers_tbl := tbl\<rparr>, res))"

definition failure :: "goerr + 'a \<Rightarrow> goerr option" where
  "failure r = (case r of Inl e \<Rightarrow> Some e | Inr _ \<Rightarrow> None)"

section \<open>Downloads\<close>

text \<open>\<open>new_torrent\<close> is \<^verbatim>\<open>torrent.New\<close> on the record and its info file; \<open>start\<close> is the client's
  \<^verbatim>\<open>Start\<close>, which sees what was started before and says whether the torrent was added.\<close>

record client =
  new_torrent :: "(string \<rightharpoonup> bytes) \<Rightarrow> TMetadata \<Rightarrow> goerr option"
  start_torrent :: "TMetadata list \<Rightarrow> TMetadata \<Rightarrow> goerr + bool"

fun resume_loop ::
  "client \<Rightarrow> (string \<rightharpoonup> bytes) \<Rightarrow> TMetadata list \<Rightarrow> TMetadata list \<Rightarrow> TMetadata list" where
  "resume_loop cl files [] running = running"
| "resume_loop cl files (md # mds) running =
     (if new_torrent cl files md \<noteq> None then running
      else (case start_torrent cl running md of
          Inl err \<Rightarrow> resume_loop cl files mds running
        | Inr False \<Rightarrow> resume_loop cl files mds running
        | Inr True \<Rightarrow> resume_loop cl files mds (running @ [md])))"

definition resumable :: "instant \<Rightarrow> TMetadata \<Rightarrow> bool" where
  "resumable now m \<longleftrightarrow>
     TMetadataQueryInitiated now m \<and> TMetadataQueryIncomplete m \<and> TMetadataQueryNotPaused m"

definition ResumeDownloads :: "database \<Rightarrow> client \<Rightarrow> station \<Rightarrow> station" where
  "ResumeDownloads db cl st =
     (let d = db (stmts st);
          rows = scanned (rs_rows (select_where d (resumable (sql_now d)) (torrents_tbl st)))
      in st\<lparr>stmts := Suc (stmts st), started := resume_loop cl (infofiles st) rows (started st)\<rparr>)"

text \<open>\<open>verify\<close> is \<^verbatim>\<open>Start\<close> with the sample to verify: an error, no info, or the bytes completed.\<close>

fun verify_loop ::
  "database \<Rightarrow> client \<Rightarrow> (TMetadata \<Rightarrow> goerr + u64 option) \<Rightarrow> TMetadata list \<Rightarrow> station \<Rightarrow> station" where
  "verify_loop db cl verify [] st = st"
| "verify_loop db cl verify (md # mds) st =
     (if new_torrent cl (infofiles st) md \<noteq> None then st
      else (case verify md of
          Inl err \<Rightarrow> verify_loop db cl verify mds st
        | Inr None \<Rightarrow> verify_loop db cl verify mds st
        | Inr (Some completed) \<Rightarrow>
            verify_loop db cl verify mds
              (fst (on_torrents db (\<lambda>d. TMetadataVerifyByID d (t_ID md) 0 completed) st))))"

definition VerifyTorrents ::
  "database \<Rightarrow> client \<Rightarrow> (TMetadata \<Rightarrow> goerr + u64 option) \<Rightarrow> station \<Rightarrow> station" where
  "VerifyTorrents db cl verify st =
     (let d = db (stmts st);
          rows = scanned (rs_rows (select_where d (TMetadataQueryNeedsVerification (sql_now d)) (torrents_tbl st)))
      in verify_loop db cl verify rows (st\<lparr>stmts := Suc (stmts st)\<rparr>))"

section \<open>Announcements\<close>

text \<open>What a tracker answers: \<^verbatim>\<open>tracker.ErrMissingInfoHash\<close>, another error, or the seconds of an
  interval, a signed 32-bit number.\<close>

datatype announcement = MissingInfoHash | AnnounceFailed goerr | AnnounceInterval int

definition announceDHT :: "TMetadata \<Rightarrow> duration" where
  "announceDHT md = 0"

definition announceTracker ::
  "database \<Rightarrow> announcement \<Rightarrow> TMetadata \<Rightarrow> station \<Rightarrow> station \<times> duration" where
  "announceTracker db reply md st =
     (if Blank (t_Tracker md) then (st, 0)
      else (case reply of
          MissingInfoHash \<Rightarrow>
            (fst (on_torrents db (\<lambda>d. TMetadataDisableAnnounced d (t_ID md)) st), 40 * Minute)
        | AnnounceFailed err \<Rightarrow> (st, 40 * Minute)
        | AnnounceInterval i \<Rightarrow> (st, DurationMax [i * Second, 10 * Minute])))"

text \<open>The job of the pool; \<open>jitter\<close> is \<^verbatim>\<open>backoffx.Random(5 * time.Minute)\<close>.\<close>

definition announce ::
  "database \<Rightarrow> instant \<Rightarrow> duration \<Rightarrow> announcement \<Rightarrow> TMetadata \<Rightarrow> station \<Rightarrow> station \<times> goerr option" where
  "announce db now jitter reply i st =
     (let (st1, d) = announceTracker db reply i st;
          nextts = now + DurationMax [announceDHT i, d] + jitter;
          (st2, res) = on_torrents db (\<lambda>d. TMetadataAnnounced d (t_ID i) nextts) st1
      in (st2, case res of Inl err \<Rightarrow> Wrap (Some err) ''failed to record announcement'' | Inr _ \<Rightarrow> None))"

definition due_announcements :: "sqldb \<Rightarrow> torrents \<Rightarrow> TMetadata list" where
  "due_announcements d tbl =
     scanned (rs_rows (select_where d (\<lambda>m. TMetadataQueryNotPaused m \<and> TMetadataQuerySeeding m \<and>
       TMetadataQueryNeedsAnnounce (sql_now d) m) tbl))"

text \<open>How long the loop of \<^verbatim>\<open>AnnounceSeeded\<close> sleeps until: the earliest announcement to come, or
  ten minutes from now, plus the delay.\<close>

definition announce_wakeup :: "sqldb \<Rightarrow> instant \<Rightarrow> duration \<Rightarrow> torrents \<Rightarrow> instant" where
  "announce_wakeup d now delay tbl =
     (let due = map t_NextAnnounceAt (filter (\<lambda>m. TMetadataQueryNotPaused m \<and> TMetadataQuerySeeding m \<and>
            TMetadataQueryAnnounceable m) tbl)
      in (if sql_err d \<noteq> None \<or> due = [] then now + 10 * Minute else min_list due) + delay)"

section \<open>Known media\<close>

text \<open>\<^verbatim>\<open>KnownBestMatch\<close> is the parameter \<open>best_match\<close>, the identifier of the media a text is about.\<close>

definition DetectKnownMedia :: "(string \<Rightarrow> goerr + string) \<Rightarrow> string \<Rightarrow> string \<times> goerr option" where
  "DetectKnownMedia best_match query =
     (case best_match query of
        Inr uid \<Rightarrow> (uid, None)
      | Inl err \<Rightarrow>
          if IgnoreNoRows (Some err) \<noteq> None then (uuid_Nil_string, Wrap (Some err) ''unable to score'')
          else (uuid_Nil_string, None))"

text \<open>\<open>is_nil\<close> is \<^verbatim>\<open>uuid.FromStringOrNil(uid).IsNil()\<close>.\<close>

fun identify_loop ::
  "database \<Rightarrow> (string \<Rightarrow> goerr + string) \<Rightarrow> (string \<Rightarrow> bool) \<Rightarrow> TMetadata list \<Rightarrow> station \<Rightarrow> station" where
  "identify_loop db best_match is_nil [] st = st"
| "identify_loop db best_match is_nil (md # mds) st =
     (let (uid, err) = DetectKnownMedia best_match (t_Description md) in
      if err \<noteq> None \<or> is_nil uid then identify_loop db best_match is_nil mds st
      else identify_loop db best_match is_nil mds
        (fst (on_torrents db (\<lambda>d. TMetadataAssignKnownMediaID d (t_ID md) uid) st)))"

text \<open>\<open>transfer\<close> is the statement that hands the identifiers on to the library. Its error is
  dropped: what is wrapped is the error of the iterator, which is nil there.\<close>

definition IdentifyTorrentyMedia ::
  "database \<Rightarrow> (string \<Rightarrow> goerr + string) \<Rightarrow> (string \<Rightarrow> bool) \<Rightarrow> goerr option \<Rightarrow> station \<Rightarrow> station \<times> goerr option" where
  "IdentifyTorrentyMedia db best_match is_nil transfer st =
     (let d = db (stmts st);
          rs = select_where d TMetadataQueryNeedsKnownMediaID (torrents_tbl st);
          st' = identify_loop db best_match is_nil (scanned (rs_rows rs)) (st\<lparr>stmts := Suc (stmts st)\<rparr>)
      in case rs_err rs of
           Some err \<Rightarrow> (st', Wrap (Some err) ''failed to mark known media torrents'')
         | None \<Rightarrow>
             if transfer \<noteq> None then (st', Wrap None ''failed to associate known media with upstream library'')
             else (st', None))"

section \<open>Feeds\<close>

record metainfo =
  mi_hash :: bytes
  mi_announce :: string
  mi_info :: "goerr + torrent_info"

record feed_env =
  fe_db :: database
  fe_client :: client
  fe_now :: instant
  fe_newrequest :: "string \<Rightarrow> goerr option"
  fe_feed :: "string \<Rightarrow> goerr + bytes"
  fe_xml :: "bytes \<Rightarrow> goerr + channel"
  fe_hostname :: "string \<Rightarrow> string option"
  fe_wait :: "goerr option"
  fe_get :: "string \<Rightarrow> goerr + bytes"
  fe_load :: "bytes \<Rightarrow> goerr + metainfo"
  fe_write :: "string \<Rightarrow> goerr option"
  fe_magnet :: "string \<Rightarrow> goerr + magnet"
  fe_best_match :: "string \<Rightarrow> goerr + string"
  fe_md5uuid :: "bytes \<Rightarrow> string"
  fe_seed :: string
  fe_uuid :: "string \<Rightarrow> uuid"
  fe_transform :: "string \<Rightarrow> goerr + string"

definition info_name :: "bytes \<Rightarrow> string" where
  "info_name hash = hex_EncodeToString hash @ ''.torrent''"

definition feed_seed :: "feed_env \<Rightarrow> RSS \<Rightarrow> channel \<Rightarrow> bytes" where
  "feed_seed env feed ch =
     FirstNonNil [fe_uuid env (f_EncryptionSeed feed), fe_uuid env (Entropy (ch_Retrovibed ch))]"

text \<open>The end of both handlers: the torrent is recorded and, where the feed wants it, started.\<close>

definition record_torrent :: "feed_env \<Rightarrow> RSS \<Rightarrow> TMetadata \<Rightarrow> station \<Rightarrow> station \<times> goerr option" where
  "record_torrent env feed md st =
     (case on_torrents (fe_db env) (\<lambda>d. TMetadataInsertWithDefaults d md) st of
        (st1, Inl err) \<Rightarrow> (st1, Wrap (Some err) (''unable to record torrent metadata: '' @ f_ID feed))
      | (st1, Inr meta) \<Rightarrow>
          if f_Autodownload feed then
            (case on_torrents (fe_db env) (\<lambda>d. TMetadataAutoDownloadByID d (t_ID meta)) st1 of
               (st2, Inl err) \<Rightarrow>
                 (st2, Wrap (Some err) (''unable to mark torrent for automatic download: '' @ f_ID feed))
             | (st2, Inr _) \<Rightarrow> (st2, None))
          else (st1, None))"

definition http_torrent :: "feed_env \<Rightarrow> RSS \<Rightarrow> channel \<Rightarrow> Enclosure \<Rightarrow> Item \<Rightarrow> metainfo \<Rightarrow> torrent_info \<Rightarrow> TMetadata" where
  "http_torrent env feed ch uri i md mi =
     NewTMetadata (fe_md5uuid env) (fe_seed env) (mi_hash md)
       [TMetadataOptionFromInfo mi,
        TMetadataOptionDescription (FirstNonBlank [ti_Name mi, i_Title i]),
        TMetadataOptionTrackers [mi_announce md],
        TMetadataOptionKnownMediaID (fst (DetectKnownMedia (fe_best_match env) (ti_Name mi))),
        TMetadataOptionMimetype (FirstNonBlank [r_Mimetype (ch_Retrovibed ch), e_Mimetype uri]),
        TMetadataOptionEntropySeed (fe_md5uuid env) [mi_hash md, feed_seed env feed ch],
        TMetadataOptionAutoDescription (fe_transform env),
        TMetadataOptionAutoArchive (f_Autoarchive feed)]"

definition handlehttp ::
  "feed_env \<Rightarrow> RSS \<Rightarrow> channel \<Rightarrow> Enclosure \<Rightarrow> Item \<Rightarrow> station \<Rightarrow> station \<times> goerr option" where
  "handlehttp env feed ch uri i st =
     (if \<not> (HasPrefix (e_URL uri) ''http'' \<or> HasPrefix (e_URL uri) ''https'') then (st, None)
      else if fe_wait env \<noteq> None then (st, Wrap (fe_wait env) ''rate limited'')
      else if fe_newrequest env (e_URL uri) \<noteq> None then
        (st, Wrap (fe_newrequest env (e_URL uri)) (''unable to build torrent request: '' @ f_ID feed))
      else (case fe_get env (e_URL uri) of
        Inl err \<Rightarrow> (st, Wrap (Some err) (''unable to retrieve feed: '' @ f_ID feed))
      | Inr buf \<Rightarrow>
          (case fe_load env buf of
             Inl err \<Rightarrow> (st, Wrap (Some err) (''unable to read metainfo from response: '' @ f_ID feed))
           | Inr md \<Rightarrow>
               (case mi_info md of
                  Inl err \<Rightarrow> (st, Wrap (Some err) (''unable to read info from metadata: '' @ f_ID feed))
                | Inr mi \<Rightarrow>
                    (case fe_write env (info_name (mi_hash md)) of
                       Some err \<Rightarrow> (st, Wrap (Some err) (''unable to persist torrent to disk: '' @ f_ID feed))
                     | None \<Rightarrow>
                         record_torrent env feed (http_torrent env feed ch uri i md mi)
                           (st\<lparr>infofiles := (infofiles st)(info_name (mi_hash md) \<mapsto> buf)\<rparr>))))))"

definition magnet_torrent :: "feed_env \<Rightarrow> RSS \<Rightarrow> channel \<Rightarrow> Enclosure \<Rightarrow> Item \<Rightarrow> magnet \<Rightarrow> TMetadata" where
  "magnet_torrent env feed ch uri i md =
     NewTMetadata (fe_md5uuid env) (fe_seed env) (mg_InfoHash md)
       [TMetadataOptionFromMagnet md,
        TMetadataOptionBytes (uint (e_Length uri)),
        TMetadataOptionMimetype (FirstNonBlank [r_Mimetype (ch_Retrovibed ch), e_Mimetype uri]),
        TMetadataOptionDescription (i_Title i),
        TMetadataOptionKnownMediaID (fst (DetectKnownMedia (fe_best_match env) (mg_DisplayName md))),
        TMetadataOptionEntropySeed (fe_md5uuid env) [mg_InfoHash md, feed_seed env feed ch],
        TMetadataOptionAutoArchive (f_Autoarchive feed),
        TMetadataOptionAutoDescription (fe_transform env)]"

definition handlemagnet ::
  "feed_env \<Rightarrow> RSS \<Rightarrow> channel \<Rightarrow> Enclosure \<Rightarrow> Item \<Rightarrow> station \<Rightarrow> station \<times> goerr option" where
  "handlemagnet env feed ch uri i st =
     (if \<not> HasPrefix (e_URL uri) ''magnet'' then (st, None)
      else (case fe_magnet env (e_URL uri) of
        Inl err \<Rightarrow> (st, Wrap (Some err) (''unable to parse magnet link: '' @ f_ID feed))
      | Inr md \<Rightarrow> record_torrent env feed (magnet_torrent env feed ch uri i md) st))"

definition item_uri :: "Item \<Rightarrow> Enclosure" where
  "item_uri item =
     FirstOrDefault zero_Enclosure (ItemToEnclosure item mime_Bittorrent)
       (FindEnclosureURLByMimetype mime_Bittorrent [item])"

definition handle_item :: "feed_env \<Rightarrow> RSS \<Rightarrow> channel \<Rightarrow> Item \<Rightarrow> station \<Rightarrow> station" where
  "handle_item env feed ch item st =
     (case handlehttp env feed ch (item_uri item) item st of
        (st1, Some err) \<Rightarrow> st1
      | (st1, None) \<Rightarrow> fst (handlemagnet env feed ch (item_uri item) item st1))"

definition cooldown_feed :: "feed_env \<Rightarrow> RSS \<Rightarrow> int \<Rightarrow> instant \<Rightarrow> station \<Rightarrow> station \<times> (goerr + RSS)" where
  "cooldown_feed env feed ttl lastbuild =
     on_feeds (fe_db env) (\<lambda>d. RSSCooldownByID d (f_ID feed) ttl lastbuild)"

definition defaultttl :: int where "defaultttl = 1440"

text \<open>The body of the loop of \<^verbatim>\<open>DiscoverFromRSSFeedsOnce\<close>.\<close>

definition discover_feed :: "feed_env \<Rightarrow> RSS \<Rightarrow> station \<Rightarrow> station" where
  "discover_feed env feed st =
     (if fe_newrequest env (f_URL feed) \<noteq> None then st
      else (case fe_feed env (f_URL feed) of
        Inl err \<Rightarrow> fst (cooldown_feed env feed defaultttl (f_LastBuiltAt feed) st)
      | Inr body \<Rightarrow>
          (case Parse (fe_xml env) (fe_hostname env) body of
             Inl err \<Rightarrow> st
           | Inr (ch, items) \<Rightarrow>
               let v = Timestamp (ch_LastBuildDate ch) (fe_now env);
                   ttl = DefaultIfZero 0 defaultttl (ch_TTL ch) in
               if v \<le> f_LastBuiltAt feed then fst (cooldown_feed env feed ttl v st)
               else
                 let st1 = fold (handle_item env feed ch) items st;
                     updated = FirstNonBlank [f_Description feed, ch_Title ch];
                     (st2, res) =
                       (if updated \<noteq> f_Description feed
                        then on_feeds (fe_db env)
                               (\<lambda>d. RSSInsertWithDefaults d (feed\<lparr>f_Description := updated\<rparr>)) st1
                        else cooldown_feed env feed ttl v st1) in
                 if failure res \<noteq> None then st2 else ResumeDownloads (fe_db env) (fe_client env) st2)))"

text \<open>The query for the feeds is consumed as the loop runs, over the feeds that were due when it
  was made. The result is nil in every case: what is looked at is \<^verbatim>\<open>fctx.Err()\<close>, which is
  \<^verbatim>\<open>context.Canceled\<close> once the query has ended, and not the cause it was cancelled with.\<close>

definition DiscoverFromRSSFeedsOnce :: "feed_env \<Rightarrow> station \<Rightarrow> station \<times> goerr option" where
  "DiscoverFromRSSFeedsOnce env st =
     (let d = fe_db env (stmts st);
          feeds = take 128 (scanned (rs_rows (select_where d (RSSQueryNeedsCheck (sql_now d)) (feeds_tbl st))));
          st' = fold (discover_feed env) feeds (st\<lparr>stmts := Suc (stmts st)\<rparr>)
      in (st', IgnoreCancelled (Some (Sentinel Canceled))))"

text \<open>\<^verbatim>\<open>PrepareDefaultFeeds\<close> on the feeds that were decoded.\<close>

fun PrepareDefaultFeeds ::
  "database \<Rightarrow> (bytes \<Rightarrow> string) \<Rightarrow> (string \<Rightarrow> string option) \<Rightarrow> string \<Rightarrow> RSS list \<Rightarrow> station \<Rightarrow>
   (station \<times> goerr option) outcome" where
  "PrepareDefaultFeeds db md5uuid url_host rand [] st = Return (st, None)"
| "PrepareDefaultFeeds db md5uuid url_host rand (feed # feeds) st =
     (case RSSOptionDefaultEncryptionSeed md5uuid url_host rand (RSSOptionDefaultFeeds md5uuid feed feed) of
        Panic \<Rightarrow> Panic
      | Return feed' \<Rightarrow>
          (case on_feeds db (\<lambda>d. RSSInsertDefaultFeed d feed') st of
             (st1, Inl err) \<Rightarrow>
               Return (st1, Wrap (Some err) (''feed creation failed: '' @ f_Description feed' @ '' - '' @ f_URL feed'))
           | (st1, Inr _) \<Rightarrow> PrepareDefaultFeeds db md5uuid url_host rand feeds st1))"

section \<open>Sampling the network\<close>

text \<open>What a peer answers a sample request: the samples, how many it has and its interval.\<close>

record sample =
  sm_Sample :: bytes
  sm_Available :: int
  sm_Interval :: int

record sample_env =
  se_db :: database
  se_request :: "goerr option"
  se_query :: "goerr + bytes"
  se_unmarshal :: "bytes \<Rightarrow> sample \<times> goerr option"
  se_md5uuid :: "bytes \<Rightarrow> string"

text \<open>\<^verbatim>\<open>slices.Chunk(sample, 20)\<close>; the last chunk may be shorter.\<close>

function chunks :: "bytes \<Rightarrow> bytes list" where
  "chunks bs = (if bs = [] then [] else take 20 bs # chunks (drop 20 bs))"
  by pat_completeness auto
termination by (relation "measure length") auto

declare chunks.simps [simp del]

text \<open>\<^verbatim>\<open>metainfo.Hash(id)\<close> converts a slice to an array of 20 bytes, which panics on a shorter
  one.\<close>

definition as_hash :: "bytes \<Rightarrow> bytes outcome" where
  "as_hash bs = (if length bs < 20 then Panic else Return (take 20 bs))"

fun track_samples :: "sample_env \<Rightarrow> bytes list \<Rightarrow> station \<Rightarrow> (station \<times> goerr option) outcome" where
  "track_samples env [] st = Return (st, None)"
| "track_samples env (ident # idents) st =
     bind_outcome (as_hash ident) (\<lambda>hash.
       let d = se_db env (stmts st);
           st1 = st\<lparr>stmts := Suc (stmts st)\<rparr> in
       (case TMetadataFindByID d (HashUID (se_md5uuid env) hash) (torrents_tbl st) of
          Inr known \<Rightarrow> track_samples env idents st1
        | Inl err \<Rightarrow>
            if IgnoreNoRows (Some err) \<noteq> None
            then Return (st1, Wrap (Some err) ''unable to determine if infohash is known'')
            else (case on_unknown (se_db env)
                      (\<lambda>d. UnknownHashInsertWithDefaults d (NewUnknownHash (se_md5uuid env) hash [])) st1 of
                (st2, Inl err) \<Rightarrow>
                  Return (st2, Wrap (Some err) (''unable to track hash: '' @ HashUID (se_md5uuid env) hash))
              | (st2, Inr _) \<Rightarrow> track_samples env idents st2)))"

text \<open>The part of \<^verbatim>\<open>runsample\<close> before its deferred function. A failed query returns \<^verbatim>\<open>err\<close>, which is
  the error of the request and nil, and not the one of the query.\<close>

definition sample_peer :: "sample_env \<Rightarrow> Peer \<Rightarrow> station \<Rightarrow> (station \<times> goerr option) outcome" where
  "sample_peer env p st =
     (case se_request env of
        Some err \<Rightarrow> Return (st, Wrap (Some err) (''unable to prepare sample request: '' @ p_IP p))
      | None \<Rightarrow>
          (case se_query env of
             Inl _ \<Rightarrow> Return (st, Wrap None ''query failed'')
           | Inr raw \<Rightarrow>
               (case se_unmarshal env raw of
                  (_, Some err) \<Rightarrow> Return (st, Wrap (Some err) (''unable to deserialized sample response: '' @ p_IP p))
                | (resp, None) \<Rightarrow>
                    bind_outcome (track_samples env (chunks (sm_Sample resp)) st) (\<lambda>(st1, err).
                      if err \<noteq> None then Return (st1, err)
                      else (case on_peers (se_db env) (\<lambda>d. PeerMarkNextCheck d
                              (PeerOptionBEP51 (word_of_int (sm_Available resp)) (word_of_int (sm_Interval resp)) p)) st1 of
                          (st2, Inl err) \<Rightarrow> Return (st2, Wrap (Some err) (''unable update peer record: '' @ p_IP p))
                        | (st2, Inr _) \<Rightarrow> Return (st2, None))))))"

definition runsample :: "sample_env \<Rightarrow> Peer \<Rightarrow> station \<Rightarrow> (station \<times> goerr option) outcome" where
  "runsample env p st =
     bind_outcome (sample_peer env p st) (\<lambda>(st1, err).
       if err = None then Return (st1, None)
       else Return (fst (on_peers (se_db env) (\<lambda>d. PeerMarkNextCheck d
              (PeerOptionBEP51 (p_Bep51Available p) (p_Bep51TTL p) p)) st1), err))"

text \<open>\<open>trailing\<close> recognises \<^verbatim>\<open>bencode.ErrUnusedTrailingBytes\<close>, after which the decoded response is
  used all the same.\<close>

definition recordinterestingpeer :: "sample_env \<Rightarrow> (goerr \<Rightarrow> bool) \<Rightarrow> node_info \<Rightarrow> station \<Rightarrow> station \<times> goerr option" where
  "recordinterestingpeer env trailing n st =
     (case se_request env of
        Some err \<Rightarrow> (st, Wrap (Some err) ''unable to generate sample request'')
      | None \<Rightarrow>
          (case se_query env of
             Inl err \<Rightarrow> (st, Wrap (Some err) ''sample query failed'')
           | Inr raw \<Rightarrow>
               let (resp, err) = se_unmarshal env raw in
               if err \<noteq> None \<and> \<not> trailing (the err)
               then (st, Wrap err ''unable to deserialize sample response'')
               else if sm_Available resp = 0 then (st, None)
               else (case on_peers (se_db env) (\<lambda>d. PeerInsertWithDefaults d
                     (NewPeer (se_md5uuid env) n [PeerOptionBEP51 (word_of_int (sm_Available resp))
                        (word_of_int (sm_Interval resp))])) st of
                   (st1, Inl err) \<Rightarrow> (st1, Wrap (Some err) ''unable to record interesting peer'')
                 | (st1, Inr _) \<Rightarrow> (st1, None))))"

text \<open>The body of \<^verbatim>\<open>runsample\<close> in \<^verbatim>\<open>DiscoverDHTMetadata\<close>; \<open>info\<close> is the client's \<^verbatim>\<open>Info\<close> under the
  deadline.\<close>

definition locate_metadata ::
  "database \<Rightarrow> (bytes \<Rightarrow> string) \<Rightarrow> string \<Rightarrow> (string \<Rightarrow> goerr + string) \<Rightarrow> goerr option \<Rightarrow>
   goerr + torrent_info \<Rightarrow> UnknownHash \<Rightarrow> station \<Rightarrow> station \<times> goerr option" where
  "locate_metadata db md5uuid seed transform new_err info unk st =
     (if new_err \<noteq> None then (st, Wrap new_err (''unable to create metadata from infohash '' @ u_ID unk))
      else (case info of
        Inl err \<Rightarrow>
          if std_is (Some err) (TSentinel DeadlineExceeded) then
            (let (st1, res) = on_unknown db (\<lambda>d. UnknownHashCooldown d unk) st
             in (st1, Compact [failure res, Some err]))
          else (st, Wrap (Some err) (''unable to download metadata for infohash '' @ u_ID unk))
      | Inr i \<Rightarrow>
          (case on_torrents db (\<lambda>d. TMetadataInsertWithDefaults d
                  (NewTMetadata md5uuid seed (u_Infohash unk)
                     [TMetadataOptionFromInfo i, TMetadataOptionAutoDescription transform])) st of
             (st1, Inl err) \<Rightarrow> (st1, Wrap (Some err) ''unable to insert metadata'')
           | (st1, Inr md) \<Rightarrow>
               (case on_unknown db (\<lambda>d. UnknownHashDeleteByID d (HashUID md5uuid (u_Infohash unk))) st1 of
                  (st2, Inl err) \<Rightarrow> (st2, Wrap (Some err) (''unable to delete unknown infohash: '' @ u_ID unk))
                | (st2, Inr _) \<Rightarrow> (st2, None)))))"

section \<open>Archives of media metadata\<close>

text \<open>A file of the archive is what its lines decode to, \<^verbatim>\<open>io.EOF\<close> after them; \<open>run\<close> hands a record
  to the pool of inserts. The loop returns from its first round.\<close>

definition importtarfile :: "('k \<Rightarrow> 'q \<Rightarrow> 'q \<times> goerr option) \<Rightarrow> (goerr + 'k) list \<Rightarrow> 'q \<Rightarrow> 'q \<times> goerr option" where
  "importtarfile run content q =
     (case content of
        [] \<Rightarrow> (q, Ignore (Some (Sentinel EOF)) [TSentinel EOF])
      | Inl derr # _ \<Rightarrow> (q, Ignore (Some derr) [TSentinel EOF])
      | Inr v # _ \<Rightarrow> run v q)"

text \<open>The job of the pool on one archive: \<open>opened\<close> is the result of reading and opening it.\<close>

definition import_archive ::
  "database \<Rightarrow> ('k \<Rightarrow> 'q \<Rightarrow> 'q \<times> goerr option) \<Rightarrow> goerr + (goerr + 'k) list list \<Rightarrow> TMetadata \<Rightarrow>
   station \<Rightarrow> 'q \<Rightarrow> station \<times> 'q \<times> goerr option" where
  "import_archive db run opened md st q =
     (case opened of
        Inl err \<Rightarrow> (st, q, Some err)
      | Inr contents \<Rightarrow>
          let q' = fold (\<lambda>content q. fst (importtarfile run content q)) contents q in
          (case on_torrents db (\<lambda>d. TMetadataImportedByID d (t_ID md)) st of
             (st1, Inl err) \<Rightarrow> (st1, q', Wrap (Some err) ''unable to mark archive as imported'')
           | (st1, Inr _) \<Rightarrow> (st1, q', None)))"

definition importable :: "TMetadata \<Rightarrow> bool" where
  "importable m \<longleftrightarrow>
     TMetadataQueryMetadataArchive m \<and> TMetadataQueryCompleted True m \<and> TMetadataQueryNotImported m"

section \<open>Lemmas\<close>

lemma scanned_map_Inr [simp]: "scanned (map Inr rows) = rows"
  by (induction rows) simp_all

lemma rows_select: "sql_err d = None \<Longrightarrow> scanned (rs_rows (select_where d p tbl)) = filter p tbl"
  by (simp add: select_where_def)

lemma resume_loop_all:
  "\<forall>r m. start_torrent cl r m = Inr True \<Longrightarrow>
   resume_loop cl files mds running = running @ takeWhile (\<lambda>m. new_torrent cl files m = None) mds"
  by (induction mds arbitrary: running) simp_all

lemma on_torrents_by_id:
  assumes "on_torrents db (\<lambda>d. by_id d ident (f d)) st = (st', res)"
    and "sql_err (db (stmts st)) = None" "row_of t_ID (torrents_tbl st) ident = Some m"
    and "\<And>d m. t_ID (f d m) = t_ID m"
  shows "res = Inr (f (db (stmts st)) m) \<and> st' = st\<lparr>stmts := Suc (stmts st), torrents_tbl := torrents_tbl st'\<rparr> \<and>
    row_of t_ID (torrents_tbl st') ident = Some (f (db (stmts st)) m) \<and>
    (\<forall>k. k \<noteq> ident \<longrightarrow> row_of t_ID (torrents_tbl st') k = row_of t_ID (torrents_tbl st) k)"
proof -
  let ?d = "db (stmts st)"
  obtain tbl r where q: "by_id ?d ident (f ?d) (torrents_tbl st) = (tbl, r)"
    by fastforce
  have "snd (by_id ?d ident (f ?d) (torrents_tbl st)) = Inr (f ?d m)"
    unfolding by_id_def by (rule update_key_result [OF assms(2,3)]) simp
  with q have r: "r = Inr (f ?d m)" by simp
  from q by_id_row [OF q [unfolded r] assms(4)] assms(1,3) r show ?thesis
    by (auto simp: on_torrents_def)
qed

lemma on_feeds_frame:
  "on_feeds db q st = (st', res) \<Longrightarrow> torrents_tbl st' = torrents_tbl st \<and> stmts st' = Suc (stmts st)"
  by (auto simp: on_feeds_def split: prod.splits)

lemma on_torrents_frame:
  "on_torrents db q st = (st', res) \<Longrightarrow> feeds_tbl st' = feeds_tbl st"
  by (auto simp: on_torrents_def split: prod.splits)

lemma record_torrent_feeds: "feeds_tbl (fst (record_torrent env feed md st)) = feeds_tbl st"
  by (auto simp: record_torrent_def split: sum.splits prod.splits dest!: on_torrents_frame)

lemma handlehttp_feeds: "feeds_tbl (fst (handlehttp env feed ch uri i st)) = feeds_tbl st"
  by (auto simp: handlehttp_def record_torrent_feeds split: sum.splits option.splits)

lemma handlemagnet_feeds: "feeds_tbl (fst (handlemagnet env feed ch uri i st)) = feeds_tbl st"
  by (auto simp: handlemagnet_def record_torrent_feeds split: sum.splits)

lemma handle_item_feeds: "feeds_tbl (handle_item env feed ch item st) = feeds_tbl st"
  using handlehttp_feeds [of env feed ch "item_uri item" item st]
    handlemagnet_feeds [of env feed ch "item_uri item" item]
  by (auto simp: handle_item_def split: prod.splits option.splits)

lemma handle_items_feeds: "feeds_tbl (fold (handle_item env feed ch) items st) = feeds_tbl st"
  by (induction items arbitrary: st) (simp_all add: handle_item_feeds)

lemma ResumeDownloads_tables [simp]:
  "feeds_tbl (ResumeDownloads db cl st) = feeds_tbl st"
  "torrents_tbl (ResumeDownloads db cl st) = torrents_tbl st"
  by (simp_all add: ResumeDownloads_def Let_def)

section \<open>Properties\<close>


definition demo_client :: client where
  "demo_client = \<lparr>new_torrent = (\<lambda>files m. if files (info_name (t_Infohash m)) = None
       then Some (Fundamental ''missing'') else None),
     start_torrent = (\<lambda>running m. Inr True)\<rparr>"

definition demo_station :: "torrents \<Rightarrow> station" where
  "demo_station tbl = \<lparr>stmts = 0, torrents_tbl = tbl, feeds_tbl = [], unknown_tbl = [], peers_tbl = [],
     infofiles = Map.empty, started = []\<rparr>"


text \<open>A tracker that does not know the torrent is asked again. After a round of announcements
  the next one of the torrent is due after the jitter when it has no tracker, after the
  interval of the tracker and at least ten minutes when that answered, and after forty
  minutes when it failed, also when it answered that it does not know the torrent: the
  announcements that were disabled for that answer are enabled again by the same job.\<close>

theorem announce_schedules:
  assumes "\<forall>n. sql_err (db n) = None" "row_of t_ID (torrents_tbl st) (t_ID m) = Some row"
    and "announce db now jitter reply m st = (st', err)"
  shows "err = None \<and> (\<exists>row'. row_of t_ID (torrents_tbl st') (t_ID m) = Some row' \<and>
    t_NextAnnounceAt row' = now + jitter +
      (if Blank (t_Tracker m) then 0
       else case reply of AnnounceInterval i \<Rightarrow> max (i * Second) (10 * Minute) | _ \<Rightarrow> 40 * Minute))"
proof -
  obtain st1 d where tr: "announceTracker db reply m st = (st1, d)"
    by fastforce
  let ?d = "if Blank (t_Tracker m) then 0
       else case reply of AnnounceInterval i \<Rightarrow> max (i * Second) (10 * Minute) | _ \<Rightarrow> 40 * Minute"
  have bounds: "DurationMax [i * Second, 10 * Minute] = max (i * Second) (10 * Minute)" for i
    by (auto simp: DurationMax_def Minute_def Second_def)
  have d: "d = ?d"
    using tr by (auto simp: announceTracker_def bounds split: announcement.splits if_splits)
  have "0 \<le> 40 * Minute" "0 \<le> 10 * Minute"
    by (simp_all add: Minute_def Second_def)
  then have "0 \<le> d"
    unfolding d by (auto simp: le_max_iff_disj split: announcement.splits)
  then have max0: "DurationMax [announceDHT m, d] = d"
    by (simp add: announceDHT_def DurationMax_two)
  have "\<exists>row1. row_of t_ID (torrents_tbl st1) (t_ID m) = Some row1"
  proof (cases "Blank (t_Tracker m) \<or> reply \<noteq> MissingInfoHash")
    case True
    with tr assms(2) show ?thesis
      by (auto simp: announceTracker_def split: announcement.splits if_splits)
  next
    case False
    obtain st1' res where q: "on_torrents db (\<lambda>d. TMetadataDisableAnnounced d (t_ID m)) st = (st1', res)"
      by fastforce
    from on_torrents_by_id [OF q [unfolded TMetadataDisableAnnounced_def] _ assms(2)] assms(1) q tr False
    show ?thesis by (auto simp: announceTracker_def)
  qed
  then obtain row1 where row1: "row_of t_ID (torrents_tbl st1) (t_ID m) = Some row1" ..
  let ?next = "now + d + jitter"
  obtain st2 res where q: "on_torrents db (\<lambda>d. TMetadataAnnounced d (t_ID m) ?next) st1 = (st2, res)"
    by fastforce
  from on_torrents_by_id [OF q [unfolded TMetadataAnnounced_def] _ row1] assms(1)
  have "res = Inr (row1\<lparr>t_UpdatedAt := sql_now (db (stmts st1)), t_NextAnnounceAt := ?next\<rparr>)"
    "row_of t_ID (torrents_tbl st2) (t_ID m) =
       Some (row1\<lparr>t_UpdatedAt := sql_now (db (stmts st1)), t_NextAnnounceAt := ?next\<rparr>)"
    by auto
  moreover have "announce db now jitter reply m st =
      (st2, case res of Inl err \<Rightarrow> Wrap (Some err) ''failed to record announcement'' | Inr _ \<Rightarrow> None)"
    using tr q by (simp add: announce_def max0)
  ultimately show ?thesis
    using assms(3) d by (simp add: add.commute add.left_commute)
qed

theorem announce_schedules_witness:
  "\<exists>st' row. announce (\<lambda>_. demo_db) 1000 7 MissingInfoHash ((demo_torrent 1)\<lparr>t_Tracker := ''udp://x''\<rparr>)
       (demo_station [demo_torrent 1]) = (st', None) \<and>
     row_of t_ID (torrents_tbl st') (demo_md5 [1]) = Some row \<and> t_NextAnnounceAt row = 1007 + 40 * Minute"
proof -
  let ?m = "(demo_torrent 1)\<lparr>t_Tracker := ''udp://x''\<rparr>"
  obtain st' err where a: "announce (\<lambda>_. demo_db) 1000 7 MissingInfoHash ?m (demo_station [demo_torrent 1]) =
      (st', err)"
    by fastforce
  have blank: "\<not> Blank (t_Tracker ?m)"
    by (simp add: Blank_iff is_space_def)
  from announce_schedules [OF _ _ a] blank a show ?thesis
    by (auto simp: demo_station_def row_of_def demo_db_def)
qed

lemma cooldown_feed_row:
  assumes "fe_db env = (\<lambda>_. d)" "sql_err d = None" "0 \<le> sql_now d" "sql_now d \<le> 100000000000 * Second"
    and "0 \<le> ttl" "ttl \<le> 1000000" "row_of f_ID (feeds_tbl st) (f_ID feed) = Some row"
  shows "\<exists>st' row'. cooldown_feed env feed ttl v st = (st', Inr row') \<and>
    row_of f_ID (feeds_tbl st') (f_ID feed) = Some row' \<and>
    f_NextCheck row' = sql_now d + ttl * Minute \<and> f_LastBuiltAt row' = v"
proof -
  let ?f = "\<lambda>r. case sql_after d (ttl * 60) of
           Inl e \<Rightarrow> Inl e
         | Inr t \<Rightarrow> Inr (r\<lparr>f_UpdatedAt := sql_now d, f_NextCheck := t, f_LastBuiltAt := v\<rparr>)"
  let ?row = "row\<lparr>f_UpdatedAt := sql_now d, f_NextCheck := sql_now d + ttl * Minute, f_LastBuiltAt := v\<rparr>"
  have "sql_after d (ttl * 60) = Inr (sql_now d + ttl * 60 * Second)"
    using sql_after_near [of "ttl * 60" d] assms(3-6) by simp
  then have f: "?f r = Inr (r\<lparr>f_UpdatedAt := sql_now d, f_NextCheck := sql_now d + ttl * Minute,
      f_LastBuiltAt := v\<rparr>)" for r
    by (simp add: Minute_def)
  obtain tbl res where q: "update_where d (\<lambda>r. f_ID r = f_ID feed) ?f (feeds_tbl st) = (tbl, res)"
    by fastforce
  from update_key_result [OF assms(2,7), of ?f, OF f] q have res: "res = Inr ?row" by simp
  have "row_of f_ID tbl (f_ID feed) = Some ?row"
    using update_key_row_of [OF q [unfolded res]] by (fastforce split: sum.splits)
  with q res assms(1) show ?thesis
    by (simp add: cooldown_feed_def on_feeds_def RSSCooldownByID_def)
qed

lemma describe_feed_row:
  assumes "fe_db env = (\<lambda>_. d)" "sql_err d = None" "row_of f_ID (feeds_tbl st) (f_ID feed) = Some row"
    and "on_feeds (fe_db env) (\<lambda>d. RSSInsertWithDefaults d (feed\<lparr>f_Description := t\<rparr>)) st = (st', res)"
  shows "\<exists>row'. res = Inr row' \<and> row_of f_ID (feeds_tbl st') (f_ID feed) = Some row' \<and>
    f_NextCheck row' = f_NextCheck row \<and> f_LastBuiltAt row' = f_LastBuiltAt row"
proof -
  let ?new = "RSS_row d (feed\<lparr>f_Description := t\<rparr>)"
  let ?f = "\<lambda>old. old\<lparr>f_UpdatedAt := sql_now d, f_Autodownload := f_Autodownload ?new,
       f_Autoarchive := f_Autoarchive ?new, f_URL := f_URL ?new, f_Description := f_Description ?new\<rparr>"
  obtain tbl r where q: "update_where d (\<lambda>r. f_ID r = f_ID feed) (\<lambda>r. Inr (?f r)) (feeds_tbl st) = (tbl, r)"
    by fastforce
  from update_key_result [OF assms(2,3), of "\<lambda>r. Inr (?f r)" ?f] q have r: "r = Inr (?f row)" by simp
  have "f_ID feed \<in> set (map f_ID (feeds_tbl st))"
    using assms(3) row_of_None_iff [of f_ID "feeds_tbl st" "f_ID feed"] by auto
  then have "RSSInsertWithDefaults d (feed\<lparr>f_Description := t\<rparr>) (feeds_tbl st) = (tbl, r)"
    using q assms(2) by (simp add: RSSInsertWithDefaults_def upsert_def RSS_row_def)
  moreover have "row_of f_ID tbl (f_ID feed) = Some (?f row)"
    using update_key_row_of [OF q [unfolded r]] by fastforce
  ultimately show ?thesis
    using assms(1,4) r by (auto simp: on_feeds_def)
qed

text \<open>When a feed is read again. A feed that was fetched is due again after its own interval
  or, without one, after a day, counted from now, and keeps the date of its last change; but a
  feed that cannot be parsed and a feed that has just been given a title from the channel
  stay due at once, and the second is processed as if it had not been read.\<close>

theorem discover_feed_schedules:
  assumes "fe_db env = (\<lambda>_. d)" "sql_err d = None" "0 \<le> sql_now d" "sql_now d \<le> 100000000000 * Second"
    and "row_of f_ID (feeds_tbl st) (f_ID feed) = Some row"
    and "fe_newrequest env (f_URL feed) = None" "fe_feed env (f_URL feed) = Inr body"
    and "\<forall>ch items. Parse (fe_xml env) (fe_hostname env) body = Inr (ch, items) \<longrightarrow>
      0 \<le> ch_TTL ch \<and> ch_TTL ch \<le> 1000000"
  shows "\<exists>row'. row_of f_ID (feeds_tbl (discover_feed env feed st)) (f_ID feed) = Some row' \<and>
    (f_NextCheck row', f_LastBuiltAt row') =
      (case Parse (fe_xml env) (fe_hostname env) body of
         Inl err \<Rightarrow> (f_NextCheck row, f_LastBuiltAt row)
       | Inr (ch, items) \<Rightarrow>
           let v = Timestamp (ch_LastBuildDate ch) (fe_now env) in
           if f_LastBuiltAt feed < v \<and> Blank (f_Description feed) \<and>
              FirstNonBlank [f_Description feed, ch_Title ch] \<noteq> f_Description feed
           then (f_NextCheck row, f_LastBuiltAt row)
           else (sql_now d + (if ch_TTL ch = 0 then 1440 else ch_TTL ch) * Minute, v))"
proof (cases "Parse (fe_xml env) (fe_hostname env) body")
  case (Inl err)
  with assms show ?thesis by (simp add: discover_feed_def)
next
  case (Inr parsed)
  obtain ch items where p: "parsed = (ch, items)" by fastforce
  let ?ttl = "DefaultIfZero 0 defaultttl (ch_TTL ch)"
  have ttl: "?ttl = (if ch_TTL ch = 0 then 1440 else ch_TTL ch)" "0 \<le> ?ttl" "?ttl \<le> 1000000"
    using assms(8) Inr p by (auto simp: DefaultIfZero_def defaultttl_def)
  let ?v = "Timestamp (ch_LastBuildDate ch) (fe_now env)"
  let ?st1 = "fold (handle_item env feed ch) items st"
  let ?t = "FirstNonBlank [f_Description feed, ch_Title ch]"
  have row1: "row_of f_ID (feeds_tbl ?st1) (f_ID feed) = Some row"
    using assms(5) by (simp add: handle_items_feeds)
  consider (old) "?v \<le> f_LastBuiltAt feed" | (title) "f_LastBuiltAt feed < ?v" "?t \<noteq> f_Description feed"
    | (new) "f_LastBuiltAt feed < ?v" "?t = f_Description feed"
    by linarith
  then show ?thesis
  proof cases
    case old
    with cooldown_feed_row [OF assms(1-4) ttl(2,3) assms(5), of ?v] Inr p assms(6,7) ttl(1) show ?thesis
      by (auto simp: discover_feed_def Let_def)
  next
    case title
    obtain st2 res where q: "on_feeds (fe_db env)
        (\<lambda>d. RSSInsertWithDefaults d (feed\<lparr>f_Description := ?t\<rparr>)) ?st1 = (st2, res)"
      by fastforce
    have "Blank (f_Description feed)"
      using title(2) by (auto simp: Blank_def split: if_splits)
    with describe_feed_row [OF assms(1,2) row1 q] title q Inr p assms(6,7) show ?thesis
      by (auto simp: discover_feed_def Let_def failure_def)
  next
    case new
    with cooldown_feed_row [OF assms(1-4) ttl(2,3) row1, of ?v] Inr p assms(6,7) ttl(1) show ?thesis
      by (auto simp: discover_feed_def Let_def failure_def)
  qed
qed

definition demo_feed :: RSS where
  "demo_feed = zero_RSS\<lparr>f_ID := ''feed'', f_NextCheck := 5, f_Description := ''news'', f_Autodownload := True\<rparr>"

definition demo_env :: feed_env where
  "demo_env = \<lparr>fe_db = (\<lambda>_. demo_db), fe_client = demo_client, fe_now = 9, fe_newrequest = (\<lambda>_. None),
     fe_feed = (\<lambda>_. Inr []),
     fe_xml = (\<lambda>_. Inr \<lparr>ch_Title = ''title'', ch_Items = [], ch_TTL = 60, ch_LastBuildDate = XmlTime 7 True,
       ch_Language = '''', ch_Retrovibed = \<lparr>Entropy = '''', r_Mimetype = ''''\<rparr>\<rparr>),
     fe_hostname = (\<lambda>_. None), fe_wait = None, fe_get = (\<lambda>_. Inr []),
     fe_load = (\<lambda>_. Inl (Fundamental ''no torrent'')), fe_write = (\<lambda>_. None),
     fe_magnet = (\<lambda>_. Inl (Fundamental ''no magnet'')), fe_best_match = (\<lambda>_. Inl (Sentinel ErrNoRows)),
     fe_md5uuid = demo_md5, fe_seed = ''seed'', fe_uuid = (\<lambda>_. uuid_Nil), fe_transform = Inr\<rparr>"

lemma demo_news: "\<not> Blank ''news''"
  by (simp add: Blank_iff is_space_def)

theorem discover_feed_schedules_witness:
  "\<exists>row'. row_of f_ID (feeds_tbl (discover_feed demo_env demo_feed
       ((demo_station [])\<lparr>feeds_tbl := [demo_feed]\<rparr>))) (f_ID demo_feed) = Some row' \<and>
     f_NextCheck row' = sql_now demo_db + 60 * Minute \<and> f_LastBuiltAt row' = 7"
proof -
  have parse: "Parse (fe_xml demo_env) (fe_hostname demo_env) [] = Inr (projr (fe_xml demo_env []), [])"
    by (simp add: Parse_def parseData_def demo_env_def)
  have "\<exists>row'. row_of f_ID (feeds_tbl (discover_feed demo_env demo_feed
       ((demo_station [])\<lparr>feeds_tbl := [demo_feed]\<rparr>))) (f_ID demo_feed) = Some row' \<and>
    (f_NextCheck row', f_LastBuiltAt row') =
      (case Parse (fe_xml demo_env) (fe_hostname demo_env) [] of
         Inl err \<Rightarrow> (f_NextCheck demo_feed, f_LastBuiltAt demo_feed)
       | Inr (ch, items) \<Rightarrow>
           let v = Timestamp (ch_LastBuildDate ch) (fe_now demo_env) in
           if f_LastBuiltAt demo_feed < v \<and> Blank (f_Description demo_feed) \<and>
              FirstNonBlank [f_Description demo_feed, ch_Title ch] \<noteq> f_Description demo_feed
           then (f_NextCheck demo_feed, f_LastBuiltAt demo_feed)
           else (sql_now demo_db + (if ch_TTL ch = 0 then 1440 else ch_TTL ch) * Minute, v))"
    by (rule discover_feed_schedules)
      (auto simp: demo_env_def demo_db_def Second_def row_of_def Parse_def parseData_def)
  then show ?thesis
    using demo_news
    by (simp add: parse) (simp add: demo_env_def demo_feed_def Timestamp_def)
qed

text \<open>A feed that downloads by itself starts a torrent again that was deleted. Recording a
  torrent for such a feed initiates its row, also when the row was tombstoned by a deletion,
  and when it is incomplete and not paused the next round of resumed downloads takes it up.\<close>

theorem autodownload_restarts:
  assumes "fe_db env = (\<lambda>_. d)" "sql_err d = None" "f_Autodownload feed"
    and "TMetadataTombstoneByID d0 (t_ID md) tbl = (torrents_tbl st, Inr row)"
    and "sql_now d < later" "t_PausedAt row = Inf" "t_Downloaded row < t_Bytes row"
  shows "\<exists>st' row'. record_torrent env feed md st = (st', None) \<and>
    row_of t_ID (torrents_tbl st') (t_ID md) = Some row' \<and>
    t_TombstonedAt row' = sql_now d0 \<and> resumable later row'"
proof -
  from by_id_row [OF assms(4) [unfolded TMetadataTombstoneByID_def]]
  have row: "row_of t_ID (torrents_tbl st) (t_ID md) = Some row" "t_TombstonedAt row = sql_now d0"
    by auto
  obtain st1 res where q1: "on_torrents (fe_db env) (\<lambda>d. TMetadataInsertWithDefaults d md) st = (st1, res)"
    by fastforce
  obtain tbl1 res1 where i: "TMetadataInsertWithDefaults d md (torrents_tbl st) = (tbl1, res1)"
    by fastforce
  have "t_ID md \<in> set (map t_ID (torrents_tbl st))"
    using row(1) row_of_None_iff [of t_ID "torrents_tbl st" "t_ID md"] by auto
  then have "TMetadataInsertWithDefaults d md (torrents_tbl st) =
      update_where d (\<lambda>r. t_ID r = t_ID md)
        (\<lambda>r. Inr (r\<lparr>t_UpdatedAt := sql_now d, t_Tracker := t_Tracker (TMetadataInsert_row d md)\<rparr>))
        (torrents_tbl st)"
    using assms(2) by (simp add: TMetadataInsertWithDefaults_def upsert_def TMetadata_conflict_def)
  from i this update_key_result [OF assms(2) row(1), where
      f = "\<lambda>r. Inr (r\<lparr>t_UpdatedAt := sql_now d, t_Tracker := t_Tracker (TMetadataInsert_row d md)\<rparr>)"
      and g = "\<lambda>r. r\<lparr>t_UpdatedAt := sql_now d, t_Tracker := t_Tracker (TMetadataInsert_row d md)\<rparr>"]
  obtain meta where meta: "res1 = Inr meta" by simp
  from insert_row_of [OF i [unfolded meta]] row(1)
  have stored: "row_of t_ID tbl1 (t_ID md) = Some meta"
    "meta = row\<lparr>t_UpdatedAt := sql_now d, t_Tracker := t_Tracker md\<rparr>" by auto
  have st1: "torrents_tbl st1 = tbl1" "res = Inr meta"
    using q1 i meta assms(1) by (auto simp: on_torrents_def)
  have ident: "t_ID meta = t_ID md"
    using row_of_Some [OF stored(1)] by simp
  obtain st2 res2 where q2:
    "on_torrents (fe_db env) (\<lambda>d. TMetadataAutoDownloadByID d (t_ID meta)) st1 = (st2, res2)"
    by fastforce
  from on_torrents_by_id [OF q2 [unfolded TMetadataAutoDownloadByID_def ident]] stored(1) st1(1)
    assms(1,2)
  have r2: "res2 = Inr (meta\<lparr>t_InitiatedAt := sql_now d\<rparr>)"
    "row_of t_ID (torrents_tbl st2) (t_ID md) = Some (meta\<lparr>t_InitiatedAt := sql_now d\<rparr>)" by auto
  have "record_torrent env feed md st = (st2, None)"
    using q1 st1(2) assms(3) q2 r2(1) by (simp add: record_torrent_def)
  with r2(2) show ?thesis
    using stored(2) row(2) assms(5-7)
    by (auto simp: resumable_def TMetadataQueryInitiated_def TMetadataQueryIncomplete_def
        TMetadataQueryNotPaused_def)
qed

theorem autodownload_restarts_witness:
  "\<exists>st' row'. record_torrent demo_env demo_feed (demo_torrent 1)
       (demo_station (fst (TMetadataTombstoneByID demo_db (demo_md5 [1])
          [(demo_torrent 1)\<lparr>t_PausedAt := Inf\<rparr>]))) = (st', None) \<and>
     row_of t_ID (torrents_tbl st') (demo_md5 [1]) = Some row' \<and>
     t_TombstonedAt row' = sql_now demo_db \<and> resumable (sql_now demo_db + 1) row'"
proof -
  let ?row = "(demo_torrent 1)\<lparr>t_PausedAt := Inf, t_TombstonedAt := sql_now demo_db,
      t_InitiatedAt := Inf, t_Seeding := False\<rparr>"
  have q: "TMetadataTombstoneByID demo_db (t_ID (demo_torrent 1)) [(demo_torrent 1)\<lparr>t_PausedAt := Inf\<rparr>] =
      ([?row], Inr ?row)"
    by (simp add: TMetadataTombstoneByID_def by_id_def update_where_def query_row_def demo_db_def)
  then have q': "TMetadataTombstoneByID demo_db (t_ID (demo_torrent 1)) [(demo_torrent 1)\<lparr>t_PausedAt := Inf\<rparr>] =
      (torrents_tbl (demo_station [?row]), Inr ?row)"
    by (simp add: demo_station_def)
  have env: "fe_db demo_env = (\<lambda>_. demo_db)" "f_Autodownload demo_feed" "sql_err demo_db = None"
    by (simp_all add: demo_env_def demo_feed_def demo_db_def)
  have "\<exists>st' row'. record_torrent demo_env demo_feed (demo_torrent 1) (demo_station [?row]) = (st', None) \<and>
    row_of t_ID (torrents_tbl st') (t_ID (demo_torrent 1)) = Some row' \<and>
    t_TombstonedAt row' = sql_now demo_db \<and> resumable (sql_now demo_db + 1) row'"
    by (rule autodownload_restarts [OF env(1,3,2) q']) simp_all
  then show ?thesis
    using q by simp
qed

lemma chunks_append: "length xs = 20 \<Longrightarrow> chunks (xs @ ys) = xs # chunks ys"
  by (subst chunks.simps) auto

lemma track_samples_short:
  assumes "\<forall>n. sql_err (se_db env n) = None" "0 < length bs mod 20"
  shows "track_samples env (chunks bs) st = Panic"
  using assms(2)
proof (induction bs arbitrary: st rule: chunks.induct)
  case (1 bs)
  have ne: "bs \<noteq> []" using 1(2) by auto
  show ?case
  proof (cases "length bs < 20")
    case True
    with ne show ?thesis by (subst chunks.simps) (simp add: as_hash_def)
  next
    case False
    then have len: "0 < length (drop 20 bs) mod 20"
      using 1(2) by (simp add: mod_if [of "length bs"])
    have rest: "track_samples env (chunks (drop 20 bs)) st' = Panic" for st'
      using 1(1) [OF ne len] .
    have track: "\<exists>st2 u. on_unknown (se_db env) (\<lambda>d. UnknownHashInsertWithDefaults d a) st1 = (st2, Inr u)"
      for a st1
    proof -
      let ?d = "se_db env (stmts st1)"
      let ?f = "\<lambda>old. old\<lparr>u_UpdatedAt := sql_now ?d\<rparr>"
      have d: "sql_err ?d = None" using assms(1) by simp
      show ?thesis
      proof (cases "row_of u_ID (unknown_tbl st1) (u_ID a)")
        case None
        with d show ?thesis
          by (simp add: on_unknown_def UnknownHashInsertWithDefaults_def upsert_def UnknownHash_row_def
              row_of_None_iff)
      next
        case (Some old)
        then have "u_ID a \<in> set (map u_ID (unknown_tbl st1))"
          using row_of_None_iff [of u_ID "unknown_tbl st1" "u_ID a"] by auto
        with d update_key_result [OF d Some, of "\<lambda>r. Inr (?f r)" ?f] show ?thesis
          by (auto simp: on_unknown_def UnknownHashInsertWithDefaults_def upsert_def UnknownHash_row_def
              split: prod.splits)
      qed
    qed
    have find: "\<And>e. TMetadataFindByID (se_db env n) i tbl = Inl e \<Longrightarrow> IgnoreNoRows (Some e) = None" for n i tbl
      using assms(1)
      by (auto simp: TMetadataFindByID_def find_where_def query_row_def IgnoreNoRows_def split: list.splits)
    show ?thesis
      using ne False rest find track
      by (subst chunks.simps) (auto simp: as_hash_def Let_def split: sum.splits prod.splits, metis Inl_Inr_False prod.inject)
  qed
qed

text \<open>Any peer can stop the process. A peer that answers a sample request with samples whose
  length is not a multiple of 20 makes the worker convert the rest to a hash, which panics
  outside of any recovery.\<close>

theorem short_sample_panics:
  assumes "\<forall>n. sql_err (se_db env n) = None" "se_request env = None" "se_query env = Inr raw"
    and "se_unmarshal env raw = (resp, None)" "length (sm_Sample resp) mod 20 \<noteq> 0"
  shows "runsample env p st = Panic"
  using assms track_samples_short [of env "sm_Sample resp" st]
  by (simp add: runsample_def sample_peer_def)

definition demo_sample :: "goerr + bytes \<Rightarrow> nat \<Rightarrow> sample_env" where
  "demo_sample answer n = \<lparr>se_db = (\<lambda>_. demo_db), se_request = None, se_query = answer,
     se_unmarshal = (\<lambda>raw. (\<lparr>sm_Sample = replicate n 7, sm_Available = 3, sm_Interval = 60\<rparr>, None)),
     se_md5uuid = demo_md5\<rparr>"

definition demo_peer :: Peer where
  "demo_peer = NewPeer demo_md5 \<lparr>n_ID = [1], n_Network = ''udp'', n_IP = ''127.0.0.1'', n_Port = 1\<rparr> []"

theorem short_sample_panics_witness: "runsample (demo_sample (Inr []) 41) demo_peer (demo_station []) = Panic"
  by (rule short_sample_panics [where raw = "[]" and
      resp = "\<lparr>sm_Sample = replicate 41 7, sm_Available = 3, sm_Interval = 60\<rparr>"])
    (simp_all add: demo_sample_def demo_db_def)

lemma track_samples_peers:
  "track_samples env bs st = Return (st', err) \<Longrightarrow> peers_tbl st' = peers_tbl st"
proof (induction bs arbitrary: st)
  case (Cons b bs)
  have frame: "peers_tbl st2 = peers_tbl st1" if "on_unknown db q st1 = (st2, res)" for db q st1 st2 res
    using that by (auto simp: on_unknown_def split: prod.splits)
  from Cons show ?case
    by (fastforce simp: as_hash_def Let_def dest!: frame split: if_splits sum.splits prod.splits)
qed simp

text \<open>A peer that does not answer stays due. When the sample query fails the run reports
  success and changes nothing, so that the peer is asked again in the next round; a peer that
  answers is due again after its interval.\<close>

theorem runsample_reschedules:
  assumes "\<forall>n. sql_err (se_db env n) = None \<and> sql_now (se_db env n) = now"
    and "0 \<le> now" "now \<le> 100000000000 * Second" "se_request env = None"
    and "row_of p_ID (peers_tbl st) (p_ID p) = Some row"
    and "runsample env p st = Return (st', err)"
  shows "case se_query env of
      Inl _ \<Rightarrow> st' = st \<and> err = None
    | Inr raw \<Rightarrow> snd (se_unmarshal env raw) = None \<longrightarrow> err = None \<longrightarrow>
        (\<exists>row'. row_of p_ID (peers_tbl st') (p_ID p) = Some row' \<and>
          p_NextCheck row' = now + uint (word_of_int (sm_Interval (fst (se_unmarshal env raw))) :: u16) * Second)"
proof (cases "se_query env")
  case (Inl e)
  with assms(4,6) show ?thesis
    by (simp add: runsample_def sample_peer_def)
next
  case (Inr raw)
  obtain resp uerr where u: "se_unmarshal env raw = (resp, uerr)" by fastforce
  show ?thesis
  proof (cases "uerr = None \<and> err = None")
    case True
    from assms(4,6) Inr u True obtain st1 where
      t: "track_samples env (chunks (sm_Sample resp)) st = Return (st1, None)"
      by (auto simp: runsample_def sample_peer_def bind_outcome_Return_iff split: if_splits)
    let ?p = "PeerOptionBEP51 (word_of_int (sm_Available resp)) (word_of_int (sm_Interval resp)) p"
    obtain st2 res where q: "on_peers (se_db env) (\<lambda>d. PeerMarkNextCheck d ?p) st1 = (st2, res)"
      by fastforce
    from assms(4,6) Inr u True t q obtain r where r: "res = Inr r" "st' = st2"
      by (auto simp: runsample_def sample_peer_def bind_outcome_Return_iff split: sum.splits if_splits)
    let ?d = "se_db env (stmts st1)"
    let ?new = "Peer_row ?d ?p"
    from q r have up: "upsert p_ID ?d (next_check_conflict ?d) ?new (peers_tbl st1) = (peers_tbl st2, Inr r)"
      by (auto simp: on_peers_def PeerMarkNextCheck_def split: prod.splits)
    have ident: "p_ID ?new = p_ID p"
      by (simp add: Peer_row_def PeerOptionBEP51_def)
    have "row_of p_ID (peers_tbl st1) (p_ID p) = Some row"
      using track_samples_peers [OF t] assms(5) by simp
    with peers.upsert_stored [OF up] ident have stored: "row_of p_ID (peers_tbl st2) (p_ID p) = Some r"
      "next_check_conflict ?d row ?new = Inr r" by auto
    let ?secs = "uint (word_of_int (sm_Interval resp) :: u16)"
    have "?secs < 2 ^ 16"
      using uint_bounded [of "word_of_int (sm_Interval resp) :: u16"] by simp
    then have "sql_after ?d ?secs = Inr (now + ?secs * Second)"
      using sql_after_near [of ?secs ?d] assms(1-3) by simp
    with stored(2) have "p_NextCheck r = now + ?secs * Second"
      by (auto simp: next_check_conflict_def Peer_row_def PeerOptionBEP51_def)
    with stored(1) r(2) Inr u show ?thesis by simp
  qed (use Inr u in auto)
qed

theorem runsample_reschedules_witness:
  "runsample (demo_sample (Inl (Sentinel DeadlineExceeded)) 0) demo_peer
     ((demo_station [])\<lparr>peers_tbl := [demo_peer]\<rparr>) = Return ((demo_station [])\<lparr>peers_tbl := [demo_peer]\<rparr>, None)"
proof -
  let ?env = "demo_sample (Inl (Sentinel DeadlineExceeded)) 0"
  let ?st = "(demo_station [])\<lparr>peers_tbl := [demo_peer]\<rparr>"
  obtain st' err where r: "runsample ?env demo_peer ?st = Return (st', err)"
    by (simp add: runsample_def sample_peer_def demo_sample_def)
  have "case se_query ?env of
      Inl _ \<Rightarrow> st' = ?st \<and> err = None
    | Inr raw \<Rightarrow> snd (se_unmarshal ?env raw) = None \<longrightarrow> err = None \<longrightarrow>
        (\<exists>row'. row_of p_ID (peers_tbl st') (p_ID demo_peer) = Some row' \<and>
          p_NextCheck row' = sql_now demo_db + uint (word_of_int (sm_Interval (fst (se_unmarshal ?env raw))) :: u16) * Second)"
    by (rule runsample_reschedules [where row = demo_peer and st = ?st and p = demo_peer])
      (use r in \<open>simp_all add: demo_sample_def demo_db_def Second_def row_of_def\<close>)
  with r show ?thesis by (simp add: demo_sample_def)
qed

text \<open>An infohash leaves the unknown ones when it is found. When its metadata is located the
  torrent is in the table, whether it was known before or not, and its infohash is no longer
  among the unknown ones; after any failure that is not a deadline nothing has changed there,
  so that the infohash is due again at once.\<close>

theorem locate_metadata_moves:
  assumes "locate_metadata db md5uuid seed transform new_err info unk st = (st', err)"
  shows "(err = None \<longrightarrow> (\<exists>m. row_of t_ID (torrents_tbl st') (HashUID md5uuid (u_Infohash unk)) = Some m) \<and>
      (\<forall>u \<in> set (unknown_tbl st'). u_ID u \<noteq> HashUID md5uuid (u_Infohash unk))) \<and>
    (\<forall>e. new_err = None \<and> info = Inl e \<and> \<not> std_is (Some e) (TSentinel DeadlineExceeded) \<longrightarrow> st' = st)"
proof -
  let ?md = "NewTMetadata md5uuid seed (u_Infohash unk)
     [TMetadataOptionFromInfo (projr info), TMetadataOptionAutoDescription transform]"
  have ident: "t_ID ?md = HashUID md5uuid (u_Infohash unk)"
    by (simp add: NewTMetadata_def TMetadataOptionFromInfo_def TMetadataOptionAutoDescription_def)
  have "(\<exists>m. row_of t_ID (torrents_tbl st') (t_ID ?md) = Some m) \<and>
      (\<forall>u \<in> set (unknown_tbl st'). u_ID u \<noteq> t_ID ?md)" if "err = None"
  proof -
    from assms that obtain i where i: "info = Inr i" "new_err = None"
      by (auto simp: locate_metadata_def Compact_None_iff split: sum.splits if_splits prod.splits)
    obtain st1 r1 where q1: "on_torrents db (\<lambda>d. TMetadataInsertWithDefaults d ?md) st = (st1, r1)"
      by fastforce
    obtain st2 r2 where q2:
      "on_unknown db (\<lambda>d. UnknownHashDeleteByID d (HashUID md5uuid (u_Infohash unk))) st1 = (st2, r2)"
      by fastforce
    from assms that i q1 q2 obtain m u where r: "r1 = Inr m" "r2 = Inr u" "st' = st2"
      by (auto simp: locate_metadata_def split: sum.splits)
    from q1 r(1) have ins: "TMetadataInsertWithDefaults (db (stmts st)) ?md (torrents_tbl st) = (torrents_tbl st1, Inr m)"
      by (auto simp: on_torrents_def split: prod.splits)
    from insert_row_of [OF ins] have "row_of t_ID (torrents_tbl st1) (t_ID ?md) = Some m" by simp
    moreover have "torrents_tbl st2 = torrents_tbl st1"
      using q2 by (auto simp: on_unknown_def split: prod.splits)
    moreover have "\<forall>u \<in> set (unknown_tbl st2). u_ID u \<noteq> HashUID md5uuid (u_Infohash unk)"
      using q2 r(2)
      by (auto simp: on_unknown_def UnknownHashDeleteByID_def delete_where_def split: prod.splits option.splits)
    ultimately show ?thesis using r(3) ident by auto
  qed
  moreover have "st' = st" if "new_err = None" "info = Inl e" "\<not> std_is (Some e) (TSentinel DeadlineExceeded)" for e
    using assms that by (simp add: locate_metadata_def)
  ultimately show ?thesis
    using ident by auto
qed

theorem locate_metadata_moves_witness:
  "\<exists>st'. locate_metadata (\<lambda>_. demo_db) demo_md5 ''seed'' Inr None
       (Inr \<lparr>ti_Name = ''film'', ti_TotalLength = 9, ti_Private = None\<rparr>) demo_unknown
       ((demo_station [])\<lparr>unknown_tbl := [demo_unknown\<lparr>u_ID := demo_md5 [1]\<rparr>]\<rparr>) = (st', None) \<and>
     (\<exists>m. row_of t_ID (torrents_tbl st') (demo_md5 [1]) = Some m)"
proof -
  obtain st' err where l: "locate_metadata (\<lambda>_. demo_db) demo_md5 ''seed'' Inr None
       (Inr \<lparr>ti_Name = ''film'', ti_TotalLength = 9, ti_Private = None\<rparr>) demo_unknown
       ((demo_station [])\<lparr>unknown_tbl := [demo_unknown\<lparr>u_ID := demo_md5 [1]\<rparr>]\<rparr>) = (st', err)"
    by fastforce
  then have "err = None"
    by (auto simp: locate_metadata_def on_torrents_def on_unknown_def TMetadataInsertWithDefaults_def
        upsert_def UnknownHashDeleteByID_def delete_where_def query_row_def demo_db_def
        demo_station_def demo_unknown_def HashUID_def)
  with locate_metadata_moves [OF l] l show ?thesis
    by (auto simp: demo_unknown_def HashUID_def)
qed

text \<open>An archive of media metadata is marked imported after the first record of each of its
  files. When every record can be queued and the row is there, the records queued are the
  first ones of the files that start with one, in order, whatever follows them, and the row
  is not offered for import again.\<close>

theorem import_first_records:
  assumes "sql_err (db (stmts st)) = None" "row_of t_ID (torrents_tbl st) (t_ID md) = Some row"
    and "sql_now (db (stmts st)) \<noteq> Inf"
    and "import_archive db (\<lambda>v q. (q @ [v], None)) (Inr contents) md st q = (st', q', err)"
  shows "err = None \<and> q' = q @ concat (map (\<lambda>c. case c of Inr v # _ \<Rightarrow> [v] | _ \<Rightarrow> []) contents) \<and>
    (\<exists>row'. row_of t_ID (torrents_tbl st') (t_ID md) = Some row' \<and> \<not> importable row')"
proof -
  have q': "fold (\<lambda>content q. fst (importtarfile (\<lambda>v q. (q @ [v], None)) content q)) contents q =
      q @ concat (map (\<lambda>c. case c of Inr v # _ \<Rightarrow> [v] | _ \<Rightarrow> []) contents)"
  proof (induction contents arbitrary: q)
    case (Cons c cs)
    then show ?case
      by (auto simp: importtarfile_def split: list.splits sum.splits)
  qed simp
  obtain st1 res where u: "on_torrents db (\<lambda>d. TMetadataImportedByID d (t_ID md)) st = (st1, res)"
    by fastforce
  from on_torrents_by_id [OF u [unfolded TMetadataImportedByID_def] assms(1,2)]
  have r: "res = Inr (row\<lparr>t_UpdatedAt := sql_now (db (stmts st)), t_ImportedAt := sql_now (db (stmts st))\<rparr>)"
    "row_of t_ID (torrents_tbl st1) (t_ID md) =
       Some (row\<lparr>t_UpdatedAt := sql_now (db (stmts st)), t_ImportedAt := sql_now (db (stmts st))\<rparr>)"
    by auto
  with assms(3,4) u q' show ?thesis
    by (auto simp: import_archive_def Let_def importable_def TMetadataQueryNotImported_def)
qed

theorem import_first_records_witness:
  "\<exists>st'. import_archive (\<lambda>_. demo_db) (\<lambda>v q. (q @ [v], None)) (Inr [[Inr 1, Inr 2], [Inr (3 :: nat)]])
     (demo_torrent 1) (demo_station [demo_torrent 1]) [] = (st', [1, 3], None)"
proof -
  obtain st' q' err where i: "import_archive (\<lambda>_. demo_db) (\<lambda>v q. (q @ [v], None))
      (Inr [[Inr 1, Inr 2], [Inr (3 :: nat)]]) (demo_torrent 1) (demo_station [demo_torrent 1]) [] = (st', q', err)"
    by (metis prod_cases3)
  have "sql_now demo_db \<noteq> Inf"
    by (simp add: demo_db_def Inf_eq Second_def max_i64_def)
  with import_first_records [OF _ _ _ i] have "err = None \<and> q' = [1, 3]"
    by (simp add: demo_db_def demo_station_def row_of_def)
  with i show ?thesis by blast
qed

end
