(* ===== verification/Discovered.thy ===== *)
theory Discovered
  imports Mediaapi Daemons
begin

text \<open>
  The service over the torrents: \<^verbatim>\<open>shallows/media/http.discovered.go\<close>, and the request
  \<^verbatim>\<open>shallows/media/publish.go\<close> writes for it.

  The state is a \<open>site\<close>: the depot, the state of the torrent client and the downloads started,
  each a goroutine that runs \<open>Download\<close> of \<open>Importx\<close> on its own. The client, the storage of
  torrents, the decoders of metainfo and of multipart bodies are parameters. A torrent file that is read is a
  \<open>torrent_meta\<close>; the announce list of the vendored \<^verbatim>\<open>metainfo\<close> package is modelled as it reads.
\<close>

section \<open>Torrent files\<close>

record torrent_meta =
  tm_ID :: bytes
  tm_HashInfoBytes :: bytes
  tm_Info :: "goerr + torrent_info"
  tm_Announce :: string
  tm_AnnounceList :: "string list list"

definition OverridesAnnounce :: "string list list \<Rightarrow> string \<Rightarrow> bool" where
  "OverridesAnnounce al own \<longleftrightarrow> (\<exists>tier \<in> set al. \<exists>url \<in> set tier. url \<noteq> '''' \<or> own = '''')"

definition UpvertedAnnounceList :: "torrent_meta \<Rightarrow> string list list" where
  "UpvertedAnnounceList mi =
     (if OverridesAnnounce (tm_AnnounceList mi) (tm_Announce mi) then tm_AnnounceList mi
      else if tm_Announce mi \<noteq> '''' then [[tm_Announce mi]] else [])"

definition PublicTrackers :: "string list" where
  "PublicTrackers =
     [''udp://tracker.opentrackr.org:1337/announce'', ''udp://open.demonii.com:1337/announce'',
      ''udp://open.stealth.si:80/announce'', ''udp://explodie.org:6969/announce'',
      ''udp://exodus.desync.com:6969/announce'', ''udp://tracker.torrent.eu.org:451/announce'',
      ''udp://wepzone.net:6969/announce'', ''udp://tracker2.dler.org:80/announce'',
      ''udp://tracker.srv00.com:6969/announce'', ''udp://tracker.qu.ax:6969/announce'',
      ''udp://tracker.dler.org:6969/announce'', ''udp://tracker-udp.gbitt.info:80/announce'',
      ''udp://retracker01-msk-virt.corbina.net:80/announce'', ''udp://public.tracker.vraphim.com:6969/announce'',
      ''udp://p4p.arenabg.com:1337/announce'', ''udp://opentracker.io:6969/announce'',
      ''udp://open.dstud.io:6969/announce'', ''udp://ns-1.x-fins.com:6969/announce'',
      ''udp://leet-tracker.moe:1337/announce'', ''udp://discord.heihachi.pw:6969/announce'']"

section \<open>The service\<close>

record 'c site =
  si_depot :: depot
  si_client :: 'c
  si_spawned :: "TMetadata list"

text \<open>A part of a multipart body: its bytes and the error of its reader after them.\<close>

record part =
  pt_bytes :: bytes
  pt_err :: "goerr option"

record PublishedUploadRequest =
  pr_Entropy :: string
  pr_Mimetype :: string

text \<open>\<open>de_new\<close> is \<^verbatim>\<open>torrent.New\<close> with the options of the handler that calls it, \<open>de_start\<close> says
  whether the torrent was added. \<open>de_load\<close> also tells how many bytes the decoder read. The
  parts that follow the last one are an error of the reader.\<close>

record 'c site_env =
  de_api :: api
  de_env :: import_env
  de_dir :: string
  de_new :: "TMetadata \<Rightarrow> goerr option"
  de_start :: "bytes \<Rightarrow> 'c \<Rightarrow> 'c \<times> (goerr + bool)"
  de_stop :: "bytes \<Rightarrow> 'c \<Rightarrow> 'c \<times> goerr option"
  de_magnet :: "bytes \<Rightarrow> goerr + string"
  de_parse_magnet :: "string \<Rightarrow> goerr + magnet \<times> string list"
  de_parts :: "request \<Rightarrow> goerr + part list \<times> goerr"
  de_content :: "request \<Rightarrow> goerr + upload_file"
  de_load :: "bytes \<Rightarrow> goerr option \<Rightarrow> nat \<times> (goerr + torrent_meta)"
  de_open :: "torrent_info \<Rightarrow> bytes \<Rightarrow> os \<Rightarrow> os \<times> goerr option"
  de_copy :: "bytes \<Rightarrow> part \<Rightarrow> os \<Rightarrow> os \<times> (goerr + int)"
  de_published :: "bytes \<Rightarrow> goerr option \<Rightarrow> goerr + PublishedUploadRequest"
  de_uuid_bytes :: "string \<Rightarrow> bytes"
  de_sync :: "bytes \<Rightarrow> goerr + Download_msg"
  de_decode :: "request \<Rightarrow> DownloadSearchRequest \<Rightarrow> goerr + DownloadSearchRequest"
  de_match :: "string \<Rightarrow> goerr + (TMetadata \<Rightarrow> bool)"
  de_order :: "string \<Rightarrow> TMetadata list \<Rightarrow> TMetadata list"

type_synonym 'c site_handler = "('c site, unit) handler"

definition on_depot :: "(depot \<Rightarrow> depot \<times> 'a) \<Rightarrow> 'c site \<Rightarrow> 'c site \<times> 'a" where
  "on_depot f st = (let (d, r) = f (si_depot st) in (st\<lparr>si_depot := d\<rparr>, r))"

definition on_client :: "('c \<Rightarrow> 'c \<times> 'a) \<Rightarrow> 'c site \<Rightarrow> 'c site \<times> 'a" where
  "on_client f st = (let (c, r) = f (si_client st) in (st\<lparr>si_client := c\<rparr>, r))"

definition spawn_download :: "TMetadata \<Rightarrow> 'c site \<Rightarrow> 'c site" where
  "spawn_download md st = st\<lparr>si_spawned := si_spawned st @ [md]\<rparr>"

text \<open>A select of one row, and an update of the torrents.\<close>

definition find_torrent :: "'c site_env \<Rightarrow> string \<Rightarrow> 'c site \<Rightarrow> 'c site \<times> (goerr + TMetadata)" where
  "find_torrent e ident = on_depot (on_tracked (ie_db (de_env e)) (\<lambda>d tbl. (tbl, TMetadataFindByID d ident tbl)))"

definition change_torrent :: "'c site_env \<Rightarrow> (sqldb \<Rightarrow> torrent_query) \<Rightarrow> 'c site \<Rightarrow> 'c site \<times> (goerr + TMetadata)" where
  "change_torrent e q = on_depot (on_tracked (ie_db (de_env e)) q)"

definition download_message :: "'c site_env \<Rightarrow> TMetadata \<Rightarrow> Download_msg" where
  "download_message e md =
     Clone zero_Download [DownloadOptionFromTorrentMetadata (ap_time (de_api e)) (Clone md [TMetadata_JSONSafeEncode])]"

text \<open>\<^verbatim>\<open>torrent.New\<close> and \<^verbatim>\<open>Start\<close>: whether the torrent was added.\<close>

definition start_download :: "'c site_env \<Rightarrow> TMetadata \<Rightarrow> 'c site \<Rightarrow> 'c site \<times> (goerr + bool)" where
  "start_download e md st =
     (case de_new e md of
        Some err \<Rightarrow> (st, Inl err)
      | None \<Rightarrow> on_client (de_start e (t_Infohash md)) st)"

section \<open>Handlers\<close>

definition discovered_magnet :: "'c site_env \<Rightarrow> 'c site_handler" where
  "discovered_magnet e st ctx w r =
     (case de_magnet e (rBody r) of
        Inl err \<Rightarrow> refuse st w 400
      | Inr uri \<Rightarrow>
          (case de_parse_magnet e uri of
             Inl err \<Rightarrow> refuse st w 400
           | Inr (m, trackers) \<Rightarrow>
               let i = de_env e;
                   lmd = NewTMetadata (ie_md5uuid i) (ie_seed i) (mg_InfoHash m)
                     [TMetadataOptionFromMagnet m, TMetadataOptionTrackers trackers,
                      TMetadataOptionAutoDescription (ie_transform i)] in
               (case change_torrent e (\<lambda>d. TMetadataInsertWithDefaults d lmd) st of
                  (st1, Inl err) \<Rightarrow> refuse st1 w 500
                | (st1, Inr lmd) \<Rightarrow>
                    (case start_download e lmd st1 of
                       (st2, Inl err) \<Rightarrow> refuse st2 w 500
                     | (st2, Inr _) \<Rightarrow>
                         respond (de_api e) (spawn_download lmd st2) w
                           (MagnetCreateResponse (download_message e lmd))))))"

text \<open>\<^verbatim>\<open>NextPart\<close>: the next part and the ones left.\<close>

fun next_part :: "part list \<times> goerr \<Rightarrow> goerr + part \<times> part list \<times> goerr" where
  "next_part ([], err) = Inl err"
| "next_part (p # ps, err) = Inr (p, ps, err)"

definition torrent_file_name :: "'c site_env \<Rightarrow> bytes \<Rightarrow> string" where
  "torrent_file_name e ident = Path_of (de_dir e) [''torrent'', hex_EncodeToString ident @ ''.torrent'']"

text \<open>The last step of \<^verbatim>\<open>publish\<close>, once the contents and the torrent file are stored.\<close>

definition publish_record :: "'c site_env \<Rightarrow> torrent_meta \<Rightarrow> torrent_info \<Rightarrow> int \<Rightarrow> PublishedUploadRequest \<Rightarrow> 'c site_handler" where
  "publish_record e tm info n decoded st ctx w r =
     (let i = de_env e;
          lmd = NewTMetadata (ie_md5uuid i) (ie_seed i) (tm_HashInfoBytes tm)
            [TMetadataOptionFromInfo info, TMetadataOptionDownloaded n,
             TMetadataOptionTrackers (Flatten (UpvertedAnnounceList tm)),
             TMetadataOptionEntropySeed (ie_md5uuid i) [tm_ID tm, de_uuid_bytes e (pr_Entropy decoded)],
             TMetadataOptionMimetype (pr_Mimetype decoded), TMetadataOptionAutoSeeding,
             TMetadataOptionAutoDescription (ie_transform i)] in
      case change_torrent e (\<lambda>d. TMetadataInsertWithDefaults d lmd) st of
        (st1, Inl err) \<Rightarrow> refuse st1 w 500
      | (st1, Inr lmd) \<Rightarrow>
          respond (de_api e) st1 w (PublishedUploadResponse
            (PublishedOptionFromTorrentMetadata lmd
              \<lparr>pb_Id = '''', pb_Description = '''', pb_Mimetype = '''', pb_Bytes = 0, pb_Entropy = ''''\<rparr>)))"

definition torrent_limit :: nat where "torrent_limit = 128 * 1048576"

definition discovered_publish :: "'c site_env \<Rightarrow> 'c site_handler" where
  "discovered_publish e st ctx w r =
     (case de_parts e r of
        Inl err \<Rightarrow> refuse st w 400
      | Inr reader \<Rightarrow>
     (case next_part reader of
        Inl err \<Rightarrow> refuse st w 400
      | Inr (torfile, reader) \<Rightarrow>
     (case de_load e (take torrent_limit (pt_bytes torfile))
             (if length (pt_bytes torfile) < torrent_limit then pt_err torfile else None) of
        (read, Inl err) \<Rightarrow> refuse st w 413
      | (read, Inr tm) \<Rightarrow>
     (case tm_Info tm of
        Inl err \<Rightarrow> refuse st w 400
      | Inr info \<Rightarrow>
     (case on_depot (on_os (de_open e info (tm_ID tm))) st of
        (st1, Some err) \<Rightarrow> refuse st1 w 500
      | (st1, None) \<Rightarrow>
     (case next_part reader of
        Inl err \<Rightarrow> refuse st1 w 400
      | Inr (contents, reader) \<Rightarrow>
     (case on_depot (on_os (de_copy e (tm_ID tm) contents)) st1 of
        (st2, Inl err) \<Rightarrow> refuse st2 w 400
      | (st2, Inr n) \<Rightarrow>
     if n \<noteq> ti_TotalLength info then refuse st2 w 400
     else (case on_depot (on_os (os_WriteFile (ie_fault (de_env e)) (torrent_file_name e (tm_ID tm))
             (take read (pt_bytes torfile)))) st2 of
        (st3, Inl err) \<Rightarrow> refuse st3 w 400
      | (st3, Inr _) \<Rightarrow>
     (case next_part reader of
        Inl err \<Rightarrow> refuse st3 w 400
      | Inr (metadata, reader) \<Rightarrow>
     (case de_published e (pt_bytes metadata) (pt_err metadata) of
        Inl err \<Rightarrow> refuse st3 w 400
      | Inr decoded \<Rightarrow> publish_record e tm info n decoded st3 ctx w r))))))))))"

text \<open>\<^verbatim>\<open>upload\<close>: a torrent that is not private gets the public trackers as one more tier.\<close>

definition with_public_trackers :: "torrent_meta \<Rightarrow> torrent_meta" where
  "with_public_trackers tm =
     (case tm_Info tm of
        Inl err \<Rightarrow> tm
      | Inr info \<Rightarrow>
          if Autoderef False (ti_Private info) then tm
          else tm\<lparr>tm_AnnounceList := tm_AnnounceList tm @ [PublicTrackers]\<rparr>)"

text \<open>What follows the creation of the temporary file: the status of a failure, or the row.\<close>

definition discovered_receive :: "'c site_env \<Rightarrow> upload_file \<Rightarrow> string \<Rightarrow> 'c site \<Rightarrow> 'c site \<times> (int + TMetadata)" where
  "discovered_receive e f tmp st =
     (let i = de_env e in
      case on_depot (on_os (os_WriteFile (ie_fault i) tmp (uf_bytes f))) st of
        (st1, Inl err) \<Rightarrow> (st1, Inl 500)
      | (st1, Inr _) \<Rightarrow>
     if uf_err f \<noteq> None then (st1, Inl 500)
     else (case on_depot (on_os (os_ReadFile (ie_fault i) tmp)) st1 of
        (st2, Inl err) \<Rightarrow> (st2, Inl 500)
      | (st2, Inr content) \<Rightarrow>
     (case snd (de_load e content None) of
        Inl err \<Rightarrow> (st2, Inl 500)
      | Inr tm \<Rightarrow>
     (case tm_Info (with_public_trackers tm) of
        Inl err \<Rightarrow> (st2, Inl 500)
      | Inr info \<Rightarrow>
     let info = info\<lparr>ti_Name := uf_Filename f\<rparr>;
         lmd = NewTMetadata (ie_md5uuid i) (ie_seed i) (tm_HashInfoBytes tm)
           [TMetadataOptionFromInfo info,
            TMetadataOptionTrackers (Flatten (UpvertedAnnounceList (with_public_trackers tm))),
            TMetadataOptionAutoDescription (ie_transform i)] in
     (case change_torrent e (\<lambda>d. TMetadataInsertWithDefaults d lmd) st2 of
        (st3, Inl err) \<Rightarrow> (st3, Inl 500)
      | (st3, Inr lmd) \<Rightarrow>
     (case on_depot (on_os (os_Rename (ie_fault i) tmp (torrent_file_name e (t_Infohash lmd)))) st3 of
        (st4, Inl err) \<Rightarrow> (st4, Inl 500)
      | (st4, Inr _) \<Rightarrow>
     (case start_download e lmd st4 of
        (st5, Inl err) \<Rightarrow> (st5, Inl 500)
      | (st5, Inr _) \<Rightarrow> (spawn_download lmd st5, Inr lmd))))))))"

definition discovered_upload :: "'c site_env \<Rightarrow> 'c site_handler" where
  "discovered_upload e st ctx w r =
     (let i = de_env e in
      case de_content e r of
        Inl err \<Rightarrow> refuse st w 400
      | Inr f \<Rightarrow>
     (case on_depot (on_os (fsx_CreateTemp (ie_fault i) (ie_random i) (de_dir e) ''retrovibed.upload.*'')) st of
        (st1, Inl err) \<Rightarrow> refuse st1 w 500
      | (st1, Inr tmp) \<Rightarrow>
     (case discovered_receive e f tmp st1 of
        (st2, Inl code) \<Rightarrow> refuse (fst (on_depot (on_os (os_Remove (ie_fault i) tmp)) st2)) w code
      | (st2, Inr lmd) \<Rightarrow>
          respond (de_api e) st2 w (MediaUploadResponse
            (Clone zero_Media [MediaOptionFromTorrentMetadata (ap_time (de_api e)) lmd])))))"

text \<open>\<^verbatim>\<open>pause\<close> and \<^verbatim>\<open>delete\<close> stop the torrent first.\<close>

definition stop_download :: "'c site_env \<Rightarrow> TMetadata \<Rightarrow> 'c site \<Rightarrow> 'c site \<times> goerr option" where
  "stop_download e md st =
     (case de_new e md of
        Some err \<Rightarrow> (st, Some err)
      | None \<Rightarrow> on_client (de_stop e (t_Infohash md)) st)"

definition discovered_pause :: "'c site_env \<Rightarrow> string \<Rightarrow> 'c site_handler" where
  "discovered_pause e ident st ctx w r =
     (case find_torrent e ident st of
        (st1, Inl err) \<Rightarrow> refuse st1 w (row_status err)
      | (st1, Inr md) \<Rightarrow>
          (case stop_download e md st1 of
             (st2, Some err) \<Rightarrow> refuse st2 w 500
           | (st2, None) \<Rightarrow>
               (case change_torrent e (\<lambda>d. TMetadataPausedByID d ident) st2 of
                  (st3, Inl err) \<Rightarrow> refuse st3 w 500
                | (st3, Inr md) \<Rightarrow> respond (de_api e) st3 w (DownloadPauseResponse (download_message e md)))))"

definition discovered_delete :: "'c site_env \<Rightarrow> string \<Rightarrow> 'c site_handler" where
  "discovered_delete e ident st ctx w r =
     (case find_torrent e ident st of
        (st1, Inl err) \<Rightarrow> refuse st1 w (row_status err)
      | (st1, Inr md) \<Rightarrow>
          (case stop_download e md st1 of
             (st2, Some err) \<Rightarrow> refuse st2 w 500
           | (st2, None) \<Rightarrow>
               (case on_depot (\<lambda>d. let (d', md', err) = Delete (de_env e) (de_dir e) md d in (d', md', err)) st2 of
                  (st3, _, Some err) \<Rightarrow> refuse st3 w 500
                | (st3, md', None) \<Rightarrow> respond (de_api e) st3 w (DownloadDeleteResponse (download_message e md')))))"

text \<open>The goroutine shares its row with the handler; here it has the one found.\<close>

definition discovered_download :: "'c site_env \<Rightarrow> string \<Rightarrow> 'c site_handler" where
  "discovered_download e ident st ctx w r =
     (case find_torrent e ident st of
        (st1, Inl err) \<Rightarrow> refuse st1 w (row_status err)
      | (st1, Inr md) \<Rightarrow>
          (case start_download e md st1 of
             (st2, Inl err) \<Rightarrow> refuse st2 w 500
           | (st2, Inr added) \<Rightarrow>
               (case change_torrent e (\<lambda>d. TMetadataDownloadByID d ident) (if added then spawn_download md st2 else st2) of
                  (st3, Inl err) \<Rightarrow> refuse st3 w 500
                | (st3, Inr md) \<Rightarrow> respond (de_api e) st3 w (DownloadBeginResponse (download_message e md)))))"

definition discovered_metadata :: "'c site_env \<Rightarrow> string \<Rightarrow> 'c site_handler" where
  "discovered_metadata e ident st ctx w r =
     (case find_torrent e ident st of
        (st1, Inl err) \<Rightarrow> refuse st1 w (row_status err)
      | (st1, Inr md) \<Rightarrow> respond (de_api e) st1 w (DownloadMetadataResponse (download_message e md)))"

text \<open>A body without media dereferences nil.\<close>

definition discovered_metadatasync :: "'c site_env \<Rightarrow> string \<Rightarrow> 'c site_handler" where
  "discovered_metadatasync e ident st ctx w r =
     (case de_sync e (rBody r) of
        Inl err \<Rightarrow> refuse st w 400
      | Inr req \<Rightarrow>
     (case d_Media req of
        None \<Rightarrow> Panic
      | Some m \<Rightarrow>
     (case change_torrent e (\<lambda>d. TMetadataAssignKnownMediaID d ident (m_KnownMediaId m)) st of
        (st1, Inl err) \<Rightarrow> refuse st1 w 500
      | (st1, Inr tmd) \<Rightarrow>
     (case on_depot (\<lambda>dp. on_media (ie_db (de_env e))
             (\<lambda>d. LMetadataSyncKnownMediaIDFromTorrent d ident (dp_torrents dp)) dp) st1 of
        (st2, rs) \<Rightarrow>
          if IgnoreNoRows (Discard rs) \<noteq> None then refuse st2 w 500
          else respond (de_api e) st2 w (MetadataSyncResponse (Clone zero_Media
            [MediaOptionFromTorrentMetadata (ap_time (de_api e)) (Clone tmd [TMetadata_JSONSafeEncode])]))))))"

subsection \<open>Listings\<close>

definition select_torrents :: "'c site_env \<Rightarrow> (sqldb \<Rightarrow> torrents \<Rightarrow> 'a) \<Rightarrow> 'c site \<Rightarrow> 'c site \<times> 'a" where
  "select_torrents e q = on_depot (on_tracked (ie_db (de_env e)) (\<lambda>d tbl. (tbl, q d tbl)))"

definition downloading_page :: "'c site_env \<Rightarrow> DownloadSearchRequest \<Rightarrow> sqldb \<Rightarrow> torrents \<Rightarrow> TMetadata result_set" where
  "downloading_page e req d =
     search_page d (\<lambda>m. TMetadataQueryInitiated (sql_now d) m \<and> TMetadataQueryIncomplete m \<and> TMetadataQueryNotPaused m)
       (Inr (\<lambda>_. True)) (de_order e ''peers > 0 DESC, downloaded < bytes DESC, downloaded/bytes DESC'')
       (q_Offset req) (q_Limit req)"

definition available_page :: "'c site_env \<Rightarrow> DownloadSearchRequest \<Rightarrow> sqldb \<Rightarrow> torrents \<Rightarrow> TMetadata result_set" where
  "available_page e req d =
     search_page d (TMetadataQueryCompleted (q_Completed req)) (lucene_Query (de_match e) (q_Query req))
       (de_order e ''created_at DESC'') (q_Offset req) (q_Limit req)"

text \<open>The rows \<^verbatim>\<open>sqlxx.ScanEach\<close> appends.\<close>

definition each_row :: "'r result_set \<Rightarrow> goerr + 'r list" where
  "each_row rs =
     (case ScanEach rs (\<lambda>items p. (items @ [p], None)) [] of (rows, None) \<Rightarrow> Inr rows | (rows, Some err) \<Rightarrow> Inl err)"

definition discovered_downloading :: "'c site_env \<Rightarrow> 'c site_handler" where
  "discovered_downloading e st ctx w r =
     (case de_decode e r \<lparr>q_Query = [], q_Offset = 0, q_Limit = 100, q_Completed = False\<rparr> of
        Inl err \<Rightarrow> refuse st w 400
      | Inr req \<Rightarrow>
          let req = req\<lparr>q_Limit := min_from (q_Limit req) [100]\<rparr>;
              (st1, rs) = select_torrents e (downloading_page e req) st in
          (case collect_rows rs of
             Inl err \<Rightarrow> refuse st1 w 500
           | Inr rows \<Rightarrow> respond (de_api e) st1 w (DownloadSearchResponse req (map (download_message e) rows))))"

definition discovered_search :: "'c site_env \<Rightarrow> 'c site_handler" where
  "discovered_search e st ctx w r =
     (case de_decode e r \<lparr>q_Query = [], q_Offset = 0, q_Limit = 100, q_Completed = False\<rparr> of
        Inl err \<Rightarrow> refuse st w 400
      | Inr req \<Rightarrow>
          let req = req\<lparr>q_Limit := min_from (q_Limit req) [100]\<rparr>;
              (st1, rs) = select_torrents e (available_page e req) st in
          (case each_row rs of
             Inl err \<Rightarrow> refuse st1 w 500
           | Inr rows \<Rightarrow> respond (de_api e) st1 w (DownloadSearchResponse req (map (download_message e) rows))))"

section \<open>Routes\<close>

text \<open>Magnets are accepted without a token.\<close>

definition discovered_Serve :: "'c site_env \<Rightarrow> 'c site_handler" where
  "discovered_Serve e st ctx w r =
     (let a = de_api e; m = rMethod r; missing = Return (st, WriteHeader 405 w);
          guarded = (\<lambda>h. with_form a (authenticated a h) st ctx w r) in
      if rPath r = ''/'' then (if m = ''POST'' then guarded (discovered_upload e) else missing)
      else if rPath r = ''/publish'' \<and> m = ''POST'' then authenticated a (discovered_publish e) st ctx w r
      else if rPath r = ''/magnet'' \<and> m = ''POST'' then discovered_magnet e st ctx w r
      else if rPath r = ''/available'' \<and> m = ''GET'' then guarded (discovered_search e)
      else if rPath r = ''/downloading'' \<and> m = ''GET'' then guarded (discovered_downloading e)
      else (case (path_id_of ''/metadatasync'' (rPath r), path_id (rPath r), path_id_of ''/delete'' (rPath r)) of
          (Some ident, _) \<Rightarrow> if m = ''POST'' then guarded (discovered_metadatasync e ident) else missing
        | (None, Some ident, _) \<Rightarrow>
            if m = ''GET'' then guarded (discovered_metadata e ident)
            else if m = ''POST'' then guarded (discovered_download e ident)
            else if m = ''DELETE'' then guarded (discovered_pause e ident)
            else missing
        | (None, None, Some ident) \<Rightarrow> if m = ''DELETE'' then guarded (discovered_delete e ident) else missing
        | (None, None, None) \<Rightarrow> Return (st, WriteHeader 404 w)))"

section \<open>The request of \<^verbatim>\<open>publish\<close>\<close>

text \<open>\<^verbatim>\<open>PublishRequest\<close>: the parts it writes, or the error it returns before. The arguments are the
  encoded metadata, the encoded torrent, its info and its storage, which is read from the start: the bytes
  \<^verbatim>\<open>io.Copy\<close> gets of the section and its error. The last component is the error of the writer.\<close>

definition PublishRequest ::
  "goerr + bytes \<Rightarrow> goerr + bytes \<Rightarrow> goerr + torrent_info \<Rightarrow> goerr + (int \<Rightarrow> bytes \<times> goerr option) \<Rightarrow>
   goerr + part list \<times> goerr option" where
  "PublishRequest encodedreq encoded unmarshal disk =
     (case encodedreq of
        Inl err \<Rightarrow> Inl (WithStack (WithMessage err ''unable to encode publish metadata''))
      | Inr req \<Rightarrow>
     (case encoded of
        Inl err \<Rightarrow> Inl (WithStack (WithMessage err ''unable to encode torrent file''))
      | Inr tor \<Rightarrow>
     (case unmarshal of
        Inl err \<Rightarrow> Inl (WithStack (WithMessage err ''unable to decode torrent info''))
      | Inr info \<Rightarrow>
     (case disk of
        Inl err \<Rightarrow> Inl (WithStack (WithMessage err ''unable to open torrent reader''))
      | Inr section \<Rightarrow>
     (case section (ti_TotalLength info) of (bs, err) \<Rightarrow>
        let parts = [\<lparr>pt_bytes = tor, pt_err = None\<rparr>, \<lparr>pt_bytes = bs, pt_err = None\<rparr>] in
        if err \<noteq> None then Inr (parts, Wrap err ''unable to copy torrent'')
        else if int (length bs) < ti_TotalLength info
        then Inr (parts, Some (WithStack (Fundamental (''failed to copy entire torrent '' @ format_nat (length bs) @ '' < '' @
               format_int (ti_TotalLength info)))))
        else Inr (parts @ [\<lparr>pt_bytes = req, pt_err = None\<rparr>], None))))))"

section \<open>Lemmas\<close>

lemma on_depot_simps:
  "on_depot f st = (st', x) \<longleftrightarrow> (\<exists>d. f (si_depot st) = (d, x) \<and> st' = st\<lparr>si_depot := d\<rparr>)"
  by (auto simp: on_depot_def split: prod.splits)

lemma on_tracked_simps:
  "on_tracked db q dp = (dp', x) \<longleftrightarrow>
     (\<exists>tbl. q (db (dp_stmts dp)) (dp_torrents dp) = (tbl, x) \<and> dp' = dp\<lparr>dp_stmts := Suc (dp_stmts dp), dp_torrents := tbl\<rparr>)"
  by (auto simp: on_tracked_def split: prod.splits)

abbreviation rows_of :: "'c site \<Rightarrow> torrents" where
  "rows_of st \<equiv> dp_torrents (si_depot st)"

lemma change_torrent_rows:
  "change_torrent e q st = (st', x) \<Longrightarrow>
     \<exists>k. q (ie_db (de_env e) k) (rows_of st) = (rows_of st', x) \<and> si_spawned st' = si_spawned st \<and>
       dp_os (si_depot st') = dp_os (si_depot st)"
  by (auto simp: change_torrent_def on_depot_simps on_tracked_simps)

lemma find_torrent_rows:
  "find_torrent e ident st = (st', x) \<Longrightarrow>
     (\<exists>k. x = TMetadataFindByID (ie_db (de_env e) k) ident (rows_of st)) \<and> rows_of st' = rows_of st"
  by (auto simp: find_torrent_def on_depot_simps on_tracked_simps)

lemma client_rows:
  "on_client f st = (st', x) \<Longrightarrow> si_depot st' = si_depot st"
  "start_download e md st = (st', y) \<Longrightarrow> si_depot st' = si_depot st"
  "stop_download e md st = (st', z) \<Longrightarrow> si_depot st' = si_depot st"
  by (auto simp: on_client_def start_download_def stop_download_def split: prod.splits option.splits)

lemma spawn_download_depot [simp]: "si_depot (spawn_download md st) = si_depot st"
  by (simp add: spawn_download_def)

lemma on_os_torrents:
  "on_depot (on_os f) st = (st', x) \<Longrightarrow> rows_of st' = rows_of st"
  by (auto simp: on_depot_def on_os_def split: prod.splits)

text \<open>An answer with status 200 comes from \<open>respond\<close>.\<close>

definition accepted :: "response_writer \<Rightarrow> bool" where
  "accepted w \<longleftrightarrow> (\<exists>h. wSent w = Some (200, h))"

lemma refused [simp]:
  "wSent w = None \<Longrightarrow> accepted (fst (WriteEmptyJSON w code)) \<longleftrightarrow> code = 200"
  by (auto simp: accepted_def WriteEmptyJSON_def Header_Set_def WriteHeader_def resp_Write_def Let_def)

lemma row_status_ne [simp]: "row_status err \<noteq> 200"
  by (simp add: row_status_def)

text \<open>What an accepted request to pause or to download did.\<close>

lemma pause_accepted:
  assumes "discovered_pause e ident st ctx w r = Return (st', w')" "wSent w = None" "accepted w'"
  shows "\<exists>k m. TMetadataPausedByID (ie_db (de_env e) k) ident (rows_of st) = (rows_of st', Inr m)"
proof -
  obtain st1 x where find: "find_torrent e ident st = (st1, x)" by fastforce
  obtain md where md: "x = Inr md"
    using assms find by (cases x) (auto simp: discovered_pause_def answers)
  obtain st2 y where stop: "stop_download e md st1 = (st2, y)" by fastforce
  have y: "y = None"
    using assms find md stop by (cases y) (auto simp: discovered_pause_def answers)
  obtain st3 z where change: "change_torrent e (\<lambda>d. TMetadataPausedByID d ident) st2 = (st3, z)" by fastforce
  obtain m where "z = Inr m" "st' = st3"
    using assms find md stop y change by (cases z) (auto simp: discovered_pause_def answers)
  moreover have "rows_of st2 = rows_of st"
    using find_torrent_rows [OF find] client_rows(3) [OF stop] by simp
  ultimately show ?thesis
    using change_torrent_rows [OF change] by metis
qed

lemma download_accepted:
  assumes "discovered_download e ident st ctx w r = Return (st', w')" "wSent w = None" "accepted w'"
  shows "\<exists>k m. TMetadataDownloadByID (ie_db (de_env e) k) ident (rows_of st) = (rows_of st', Inr m)"
proof -
  obtain st1 x where find: "find_torrent e ident st = (st1, x)" by fastforce
  obtain md where md: "x = Inr md"
    using assms find by (cases x) (auto simp: discovered_download_def answers)
  obtain st2 y where start: "start_download e md st1 = (st2, y)" by fastforce
  obtain added where y: "y = Inr added"
    using assms find md start by (cases y) (auto simp: discovered_download_def answers)
  let ?st2 = "if added then spawn_download md st2 else st2"
  obtain st3 z where change: "change_torrent e (\<lambda>d. TMetadataDownloadByID d ident) ?st2 = (st3, z)" by fastforce
  obtain m where "z = Inr m" "st' = st3"
    using assms find md start y change by (cases z) (auto simp: discovered_download_def answers)
  moreover have "rows_of ?st2 = rows_of st"
    using find_torrent_rows [OF find] client_rows(2) [OF start] by simp
  ultimately show ?thesis
    using change_torrent_rows [OF change] by metis
qed

lemma magnet_accepted:
  assumes "discovered_magnet e st ctx w r = Return (st', w')" "wSent w = None" "accepted w'"
    and "de_magnet e (rBody r) = Inr uri" "de_parse_magnet e uri = Inr (m, trackers)"
  shows "\<exists>k md. TMetadataInsertWithDefaults (ie_db (de_env e) k)
      (NewTMetadata (ie_md5uuid (de_env e)) (ie_seed (de_env e)) (mg_InfoHash m)
         [TMetadataOptionFromMagnet m, TMetadataOptionTrackers trackers, TMetadataOptionAutoDescription (ie_transform (de_env e))])
      (rows_of st) = (rows_of st', Inr md) \<and> (\<exists>rest. si_spawned st' = rest @ [md])"
proof -
  let ?lmd = "NewTMetadata (ie_md5uuid (de_env e)) (ie_seed (de_env e)) (mg_InfoHash m)
     [TMetadataOptionFromMagnet m, TMetadataOptionTrackers trackers, TMetadataOptionAutoDescription (ie_transform (de_env e))]"
  obtain st1 x where change: "change_torrent e (\<lambda>d. TMetadataInsertWithDefaults d ?lmd) st = (st1, x)" by fastforce
  note def = assms(1) [unfolded discovered_magnet_def] assms(2-5) change
  obtain md where md: "x = Inr md"
    using def by (cases x) (auto simp: answers Let_def)
  obtain st2 y where start: "start_download e md st1 = (st2, y)" by fastforce
  have "st' = spawn_download md st2"
    using def md start by (cases y) (auto simp: answers Let_def)
  then show ?thesis
    using change_torrent_rows [OF change] client_rows(2) [OF start] md by (auto simp: spawn_download_def)
qed

lemma insert_new_row:
  assumes "TMetadataInsertWithDefaults d a tbl = (tbl', Inr m)" "row_of t_ID tbl (t_ID a) = None"
  shows "m = TMetadataInsert_row d a \<and> row_of t_ID tbl' (t_ID a) = Some m"
  using insert_row_of [OF assms(1)] assms(2) by simp

lemma Clone_keeps: "\<forall>opt \<in> set options. \<forall>m. f (opt m) = f m \<Longrightarrow> f (Clone x options) = f x"
  by (induction options arbitrary: x) auto

lemma NewTMetadata_ID:
  assumes "\<forall>opt \<in> set options. \<forall>m. t_ID (opt m) = t_ID m"
  shows "t_ID (NewTMetadata md5uuid seed hash options) = md5uuid hash"
  unfolding NewTMetadata_def HashUID_def by (subst Clone_keeps [where f = t_ID, OF assms]) simp

lemmas option_IDs = TMetadataOptionFromMagnet_def TMetadataOptionFromInfo_def TMetadataOptionTrackers_def
  TMetadataOptionAutoDescription_def TMetadataOptionDownloaded_def TMetadataOptionEntropySeed_def
  TMetadataOptionMimetype_def TMetadataOptionAutoSeeding_def

text \<open>A deletion that reports no error has tombstoned the torrent.\<close>

lemma remove_depot: "on_os f dp = (dp', x) \<Longrightarrow> dp_torrents dp' = dp_torrents dp"
  by (auto simp: on_os_def split: prod.splits)

lemma on_media_torrents: "on_media db q dp = (dp', x) \<Longrightarrow> dp_torrents dp' = dp_torrents dp"
  by (auto simp: on_media_def split: prod.splits)

lemma Delete_tombstones:
  assumes "Delete i dir md dp = (dp', md', None)"
  shows "\<exists>k. TMetadataTombstoneByID (ie_db i k) (t_ID md) (dp_torrents dp) = (dp_torrents dp', Inr md')"
proof -
  obtain dp1 rs where one: "on_media (ie_db i) (\<lambda>d. LMetadataTombstoneByTorrentID d (t_ID md)) dp = (dp1, rs)" by fastforce
  obtain dp2 x where two: "on_tracked (ie_db i) (\<lambda>d. TMetadataTombstoneByID d (t_ID md)) dp1 = (dp2, x)" by fastforce
  note def = assms [unfolded Delete_def Let_def] one two
  obtain m where m: "Discard rs = None" "x = Inr m"
    using def by (cases "Discard rs"; cases x) auto
  have "md' = m \<and> dp_torrents dp' = dp_torrents dp2"
    using def m by (auto simp: on_os_def on_media_def split: prod.splits option.splits sum.splits)
  then show ?thesis
    using two m on_media_torrents [OF one] by (auto simp: on_tracked_simps)
qed

lemma delete_accepted:
  assumes "discovered_delete e ident st ctx w r = Return (st', w')" "wSent w = None" "accepted w'"
  shows "\<exists>k m. TMetadataTombstoneByID (ie_db (de_env e) k) ident (rows_of st) = (rows_of st', Inr m)"
proof -
  obtain st1 x where find: "find_torrent e ident st = (st1, x)" by fastforce
  obtain md where md: "x = Inr md"
    using assms find by (cases x) (auto simp: discovered_delete_def answers)
  then have "t_ID md = ident"
    using find_torrent_rows [OF find] filter_eq_ConsD
    by (fastforce simp: TMetadataFindByID_def find_where_def query_row_def split: option.splits list.splits)
  obtain st2 y where stop: "stop_download e md st1 = (st2, y)" by fastforce
  have y: "y = None"
    using assms find md stop by (cases y) (auto simp: discovered_delete_def answers)
  obtain dp' md' err where del: "Delete (de_env e) (de_dir e) md (si_depot st2) = (dp', md', err)"
    by (metis prod_cases3)
  have "err = None" "si_depot st' = dp'"
    using assms find md stop y del
    by (cases err; auto simp: discovered_delete_def answers on_depot_def)+
  with Delete_tombstones [of "de_env e" "de_dir e" md "si_depot st2" dp' md'] del \<open>t_ID md = ident\<close> show ?thesis
    using find_torrent_rows [OF find] client_rows(3) [OF stop] by auto
qed

section \<open>Properties\<close>


text \<open>Magnets are accepted from anyone, and forgotten at a restart. An accepted request starts
  a download without a token, but the row of a torrent that was unknown is not marked as
  initiated, so no restart resumes it and the listing of downloads never shows it.\<close>

theorem magnet_not_resumed:
  assumes "discovered_Serve e st () w r = Return (st', w')" "wSent w = None" "accepted w'"
    and "rMethod r = ''POST''" "rPath r = ''/magnet''"
    and "de_magnet e (rBody r) = Inr uri" "de_parse_magnet e uri = Inr (m, trackers)"
    and "row_of t_ID (rows_of st) (ie_md5uuid (de_env e) (mg_InfoHash m)) = None" "t0 \<le> Inf"
  shows "\<exists>md rest. si_spawned st' = rest @ [md] \<and>
    row_of t_ID (rows_of st') (ie_md5uuid (de_env e) (mg_InfoHash m)) = Some md \<and>
    \<not> resumable t0 md \<and> \<not> TMetadataQueryInitiated t0 md"
proof -
  have "discovered_magnet e st () w r = Return (st', w')"
    using assms(1,4,5) by (simp add: discovered_Serve_def Let_def)
  from magnet_accepted [OF this assms(2,3,6,7)] obtain k md rest where
    ins: "TMetadataInsertWithDefaults (ie_db (de_env e) k)
      (NewTMetadata (ie_md5uuid (de_env e)) (ie_seed (de_env e)) (mg_InfoHash m)
         [TMetadataOptionFromMagnet m, TMetadataOptionTrackers trackers, TMetadataOptionAutoDescription (ie_transform (de_env e))])
      (rows_of st) = (rows_of st', Inr md)" and spawned: "si_spawned st' = rest @ [md]"
    by blast
  have ident: "t_ID (NewTMetadata (ie_md5uuid (de_env e)) (ie_seed (de_env e)) (mg_InfoHash m)
      [TMetadataOptionFromMagnet m, TMetadataOptionTrackers trackers, TMetadataOptionAutoDescription (ie_transform (de_env e))]) =
    ie_md5uuid (de_env e) (mg_InfoHash m)"
    by (rule NewTMetadata_ID) (simp add: option_IDs)
  from insert_new_row [OF ins] assms(8) spawned show ?thesis
    unfolding ident using assms(9)
    by (auto simp: resumable_def TMetadataQueryInitiated_def TMetadataInsert_row_def)
qed

text \<open>A deleted torrent stays in the listing. After an accepted request to delete a torrent its
  row has a tombstone and is not resumed, but the search that asks for torrents of its state and has a
  page for all of them still returns it.\<close>

theorem deleted_torrent_listed:
  assumes "discovered_delete e ident st () w r = Return (st', w')" "wSent w = None" "accepted w'" "t0 \<le> Inf"
    and "\<And>clause rows. set (de_order e clause rows) = set rows"
    and "\<And>clause rows. length (de_order e clause rows) = length rows"
    and "sql_err d = None" "Blank (q_Query req)" "q_Offset req = 0" "length (rows_of st') \<le> unat (q_Limit req)"
  shows "\<exists>k m. row_of t_ID (rows_of st') ident = Some m \<and> t_TombstonedAt m = sql_now (ie_db (de_env e) k) \<and> \<not> resumable t0 m \<and>
    (q_Completed req = (t_Bytes m \<le> t_Downloaded m) \<longrightarrow>
      (\<exists>rows. collect_rows (available_page e req d (rows_of st')) = Inr rows \<and> m \<in> set rows))"
proof -
  from delete_accepted [OF assms(1-3)] obtain k m where
    "TMetadataTombstoneByID (ie_db (de_env e) k) ident (rows_of st) = (rows_of st', Inr m)" by blast
  from by_id_row [OF this [unfolded TMetadataTombstoneByID_def]] have
    row: "row_of t_ID (rows_of st') ident = Some m" and m: "t_TombstonedAt m = sql_now (ie_db (de_env e) k)" "t_InitiatedAt m = Inf"
    by auto
  let ?rows = "filter (\<lambda>m. TMetadataQueryCompleted (q_Completed req) m) (rows_of st')"
  let ?all = "de_order e ''created_at DESC'' ?rows"
  have "length ?all \<le> unat (q_Limit req)"
    unfolding assms(6) using assms(10) by (rule order_trans [OF length_filter_le])
  then have "collect_rows (available_page e req d (rows_of st')) = Inr ?all"
    using assms(7-9) by (simp add: available_page_def search_page_def lucene_Query_def collect_select_page)
  moreover have "m \<in> set ?all" if "q_Completed req = (t_Bytes m \<le> t_Downloaded m)"
    using that row_of_Some [OF row] assms(5) by (auto simp: TMetadataQueryCompleted_def)
  ultimately show ?thesis
    using row m assms(4) by (auto simp: resumable_def TMetadataQueryInitiated_def)
qed

text \<open>Without a valid token the only request that changes anything is the creation of a
  download from a magnet.\<close>

theorem discovered_Serve_guarded:
  assumes "Validate (ap_parse (de_api e)) (ap_algos (de_api e)) ''*jwt.RegisteredClaims'' (ap_secret (de_api e))
      (Bearer r) = Inl err"
    and "discovered_Serve e st () w r = Return (st', w')" "wSent w = None"
  shows "st' = st \<and> (\<exists>code h. wSent w' = Some (code, h) \<and> code \<in> {400, 401, 404, 405}) \<or>
    rMethod r = ''POST'' \<and> rPath r = ''/magnet''"
proof -
  have auth: "authenticated (de_api e) h st () w r = Return (st, Unauthorized w)" for h :: "'a site_handler"
    using assms(1) by (simp add: authenticated_def AuthenticateWithToken_def)
  show ?thesis
    using assms(2,3) unfolding discovered_Serve_def Let_def
    by (auto simp: with_form_def ParseForm_def auth Unauthorized_def WriteHeader_def resp_Write_def Header_Set_def
        split: if_splits option.splits)
qed

lemma insert_succeeds:
  assumes "sql_err d = None"
  shows "\<exists>tbl' m. TMetadataInsertWithDefaults d a tbl = (tbl', Inr m)"
proof (cases "row_of t_ID tbl (t_ID (TMetadataInsert_row d a))")
  case None
  from torrents.upsert_new [OF assms None] show ?thesis by (simp add: TMetadataInsertWithDefaults_def)
next
  case (Some old)
  let ?same = "\<lambda>m. t_ID m = t_ID (TMetadataInsert_row d a)"
  from Some have "filter ?same tbl \<noteq> []"
    using row_of_Some [OF Some] by (auto simp: filter_empty_conv)
  moreover from Some have "t_ID (TMetadataInsert_row d a) \<in> set (map t_ID tbl)"
    using row_of_None_iff [of t_ID tbl "t_ID (TMetadataInsert_row d a)"] by simp
  ultimately have "filter ?same tbl \<noteq> [] \<and> t_ID (TMetadataInsert_row d a) \<in> set (map t_ID tbl)" by simp
  then show ?thesis
    using assms by (auto simp: TMetadataInsertWithDefaults_def upsert_def TMetadata_conflict_def update_where_all
        query_row_def neq_Nil_conv split: list.split)
qed

text \<open>C16: what \<^verbatim>\<open>PublishRequest\<close> writes, \<^verbatim>\<open>publish\<close> accepts. When the storage takes the contents and the torrent
  file can be written, a new torrent is recorded as complete and seeding; one that is
  known already keeps its progress, so its contents are stored without being seeded.\<close>

theorem publish_accepts_request:
  assumes "PublishRequest (Inr mdjson) (Inr enc) (Inr info) (Inr disk) = Inr (parts, None)"
    and "int (length (fst (disk (ti_TotalLength info)))) \<le> ti_TotalLength info"
    and "de_parts e r = Inr (parts, eof)" "length enc < torrent_limit"
    and "de_load e enc None = (read, Inr tm)" "tm_Info tm = Inr info" "de_published e mdjson None = Inr decoded"
    and "de_open e info (tm_ID tm) (dp_os (si_depot st)) = (o1, None)"
    and "de_copy e (tm_ID tm) \<lparr>pt_bytes = fst (disk (ti_TotalLength info)), pt_err = None\<rparr> o1 =
      (o2, Inr (int (length (fst (disk (ti_TotalLength info))))))"
    and "os_WriteFile (ie_fault (de_env e)) (torrent_file_name e (tm_ID tm)) (take read enc) o2 = (o3, Inr u)"
    and "\<And>k. sql_err (ie_db (de_env e) k) = None"
  shows "\<exists>st' m k. discovered_publish e st () w r = respond (de_api e) st' w (PublishedUploadResponse
        (PublishedOptionFromTorrentMetadata m \<lparr>pb_Id = '''', pb_Description = '''', pb_Mimetype = '''', pb_Bytes = 0, pb_Entropy = ''''\<rparr>)) \<and>
      dp_os (si_depot st') = o3 \<and> row_of t_ID (rows_of st') (ie_md5uuid (de_env e) (tm_HashInfoBytes tm)) = Some m \<and>
      (case row_of t_ID (rows_of st) (ie_md5uuid (de_env e) (tm_HashInfoBytes tm)) of
         None \<Rightarrow> t_Seeding m \<and> t_Downloaded m = t_Bytes m \<and> t_Bytes m = word_of_int (ti_TotalLength info)
       | Some old \<Rightarrow> m = old\<lparr>t_UpdatedAt := sql_now (ie_db (de_env e) k), t_Tracker := t_Tracker m\<rparr>)"
proof -
  let ?i = "de_env e" and ?bs = "fst (disk (ti_TotalLength info))"
  obtain bs err where disk: "disk (ti_TotalLength info) = (bs, err)" by fastforce
  with assms(1,2) have parts: "parts = [\<lparr>pt_bytes = enc, pt_err = None\<rparr>, \<lparr>pt_bytes = bs, pt_err = None\<rparr>, \<lparr>pt_bytes = mdjson, pt_err = None\<rparr>]"
    and n: "int (length bs) = ti_TotalLength info"
    by (auto simp: PublishRequest_def Let_def split: if_splits)
  define options where "options = [TMetadataOptionFromInfo info, TMetadataOptionDownloaded (int (length bs)),
    TMetadataOptionTrackers (Flatten (UpvertedAnnounceList tm)),
    TMetadataOptionEntropySeed (ie_md5uuid ?i) [tm_ID tm, de_uuid_bytes e (pr_Entropy decoded)],
    TMetadataOptionMimetype (pr_Mimetype decoded), TMetadataOptionAutoSeeding, TMetadataOptionAutoDescription (ie_transform ?i)]"
  define lmd where "lmd = NewTMetadata (ie_md5uuid ?i) (ie_seed ?i) (tm_HashInfoBytes tm) options"
  have lmd: "t_ID lmd = ie_md5uuid ?i (tm_HashInfoBytes tm)"
    unfolding lmd_def by (rule NewTMetadata_ID) (simp add: options_def option_IDs)
  have complete: "t_Seeding lmd" "t_Downloaded lmd = t_Bytes lmd" "t_Bytes lmd = word_of_int (ti_TotalLength info)"
    using n by (simp_all add: lmd_def NewTMetadata_def options_def option_IDs)
  let ?st = "st\<lparr>si_depot := si_depot st\<lparr>dp_os := o3\<rparr>\<rparr>"
  let ?k = "dp_stmts (si_depot st)"
  obtain tbl' m where ins: "TMetadataInsertWithDefaults (ie_db ?i ?k) lmd (rows_of st) = (tbl', Inr m)"
    using insert_succeeds [OF assms(11)] by blast
  define st' where "st' = ?st\<lparr>si_depot := (si_depot ?st)\<lparr>dp_stmts := Suc ?k, dp_torrents := tbl'\<rparr>\<rparr>"
  have change: "change_torrent e (\<lambda>d. TMetadataInsertWithDefaults d lmd) ?st = (st', Inr m)"
    using ins by (simp add: change_torrent_def on_depot_def on_tracked_def st'_def)
  have "discovered_publish e st () w r = publish_record e tm info (int (length bs)) decoded ?st () w r"
    using assms(3-10) disk n
    by (simp add: discovered_publish_def parts on_depot_def on_os_def)
  also have "\<dots> = respond (de_api e) st' w (PublishedUploadResponse (PublishedOptionFromTorrentMetadata m
      \<lparr>pb_Id = '''', pb_Description = '''', pb_Mimetype = '''', pb_Bytes = 0, pb_Entropy = ''''\<rparr>))"
    using change by (simp add: publish_record_def Let_def lmd_def options_def)
  finally show ?thesis
    using insert_row_of [OF ins] lmd complete
    by (intro exI [of _ st'] exI [of _ m] exI [of _ ?k])
      (auto simp: st'_def TMetadataInsert_row_def split: option.splits)
qed

lemma insert_tracker:
  assumes "TMetadataInsertWithDefaults d a tbl = (tbl', Inr m)"
  shows "t_Tracker m = t_Tracker a"
  using insert_row_of [OF assms] by (auto simp: TMetadataInsert_row_def split: option.splits)

lemma on_depot_os:
  "on_depot (on_os g) st = (st', x) \<Longrightarrow> g (dp_os (si_depot st)) = (dp_os (si_depot st'), x)"
  by (auto simp: on_depot_def on_os_def split: prod.splits)

text \<open>What a successful upload has read and recorded.\<close>

lemma receive_steps:
  assumes "discovered_receive e f tmp st = (st', Inr md)"
  shows "\<exists>tm info. snd (de_load e (uf_bytes f) None) = Inr tm \<and> tm_Info (with_public_trackers tm) = Inr info \<and>
    t_Tracker md = FirstOrZero '''' (Flatten (UpvertedAnnounceList (with_public_trackers tm)))"
proof -
  let ?i = "de_env e"
  obtain st1 x1 where one: "on_depot (on_os (os_WriteFile (ie_fault ?i) tmp (uf_bytes f))) st = (st1, x1)" by fastforce
  note def = assms [unfolded discovered_receive_def Let_def]
  from def one obtain u where x1: "x1 = Inr u" "uf_err f = None"
    by (cases x1) (auto split: if_splits)
  obtain st2 x2 where two: "on_depot (on_os (os_ReadFile (ie_fault ?i) tmp)) st1 = (st2, x2)" by fastforce
  from def one x1 two obtain c where c: "x2 = Inr c"
    by (cases x2) auto
  have "c = uf_bytes f"
    using write_then_read on_depot_os [OF one] on_depot_os [OF two] x1 c by simp
  moreover from def one x1 two c obtain tm info where tm: "snd (de_load e c None) = Inr tm"
    "tm_Info (with_public_trackers tm) = Inr info"
    by (auto split: sum.splits)
  moreover define lmd where "lmd = NewTMetadata (ie_md5uuid ?i) (ie_seed ?i) (tm_HashInfoBytes tm)
      [TMetadataOptionFromInfo (info\<lparr>ti_Name := uf_Filename f\<rparr>),
       TMetadataOptionTrackers (Flatten (UpvertedAnnounceList (with_public_trackers tm))),
       TMetadataOptionAutoDescription (ie_transform ?i)]"
  obtain st3 x3 where three: "change_torrent e (\<lambda>d. TMetadataInsertWithDefaults d lmd) st2 = (st3, x3)" by fastforce
  ultimately have "x3 = Inr md"
    using def one x1 two c three [unfolded lmd_def] by (auto split: sum.splits prod.splits)
  with change_torrent_rows [OF three] insert_tracker have "t_Tracker md = t_Tracker lmd" by fastforce
  also have "t_Tracker lmd = FirstOrZero '''' (Flatten (UpvertedAnnounceList (with_public_trackers tm)))"
    by (simp add: lmd_def NewTMetadata_def option_IDs)
  finally show ?thesis
    using tm \<open>c = uf_bytes f\<close> by blast
qed

text \<open>Uploading a public torrent that names its tracker in \<^verbatim>\<open>announce\<close> alone loses that tracker: the
  row gets the first of the public trackers. A private torrent keeps its own.\<close>

theorem upload_loses_tracker:
  assumes "discovered_receive e f tmp st = (st', Inr md)" "snd (de_load e (uf_bytes f) None) = Inr tm"
    and "tm_Info tm = Inr info" "tm_AnnounceList tm = []" "tm_Announce tm \<noteq> ''''"
  shows "t_Tracker md = (if Autoderef False (ti_Private info) then tm_Announce tm
    else ''udp://tracker.opentrackr.org:1337/announce'')"
  using receive_steps [OF assms(1)] assms(2-5)
  by (auto simp: with_public_trackers_def UpvertedAnnounceList_def OverridesAnnounce_def PublicTrackers_def FirstOrZero_def)

text \<open>A service over the torrents for the witnesses: every request carries the same torrent.\<close>

definition demo_meta :: torrent_meta where
  "demo_meta = \<lparr>tm_ID = [1], tm_HashInfoBytes = [1], tm_Info = Inr \<lparr>ti_Name = ''n'', ti_TotalLength = 2, ti_Private = None\<rparr>,
     tm_Announce = ''u'', tm_AnnounceList = []\<rparr>"

definition demo_parts :: "part list" where
  "demo_parts = [\<lparr>pt_bytes = [2, 3], pt_err = None\<rparr>, \<lparr>pt_bytes = [7, 8], pt_err = None\<rparr>, \<lparr>pt_bytes = [1], pt_err = None\<rparr>]"

definition demo_discovered :: "unit site_env" where
  "demo_discovered = \<lparr>de_api = demo_media_api, de_env = demo_ie, de_dir = ''/t'', de_new = (\<lambda>_. None),
     de_start = (\<lambda>_ c. (c, Inr True)), de_stop = (\<lambda>_ c. (c, None)), de_magnet = (\<lambda>_. Inr ''magnet''),
     de_parse_magnet = (\<lambda>_. Inr (\<lparr>mg_InfoHash = [1], mg_DisplayName = ''n''\<rparr>, [])),
     de_parts = (\<lambda>_. Inr (demo_parts, Sentinel EOF)), de_content = (\<lambda>_. Inl (Fundamental ''no form'')),
     de_load = (\<lambda>_ _. (2, Inr demo_meta)), de_open = (\<lambda>_ _ fs. (fs, None)),
     de_copy = (\<lambda>_ p fs. (fs, Inr (int (length (pt_bytes p))))),
     de_published = (\<lambda>_ _. Inr \<lparr>pr_Entropy = ''e'', pr_Mimetype = ''m''\<rparr>), de_uuid_bytes = (\<lambda>_. []),
     de_sync = (\<lambda>_. Inr zero_Download), de_decode = (\<lambda>_ d. Inr d), de_match = (\<lambda>_. Inr (\<lambda>_. True)),
     de_order = (\<lambda>_ rows. rows)\<rparr>"

definition demo_site :: "torrents \<Rightarrow> unit site" where
  "demo_site rows = \<lparr>si_depot = (demo_depot [])\<lparr>dp_torrents := rows,
       dp_os := demo_os\<lparr>nodes_of := (nodes_of demo_os)([''t'', ''torrent''] \<mapsto> Directory)\<rparr>\<rparr>,
     si_client = (), si_spawned = []\<rparr>"

definition demo_request :: "string \<Rightarrow> string \<Rightarrow> request" where
  "demo_request m p = post_abc\<lparr>rMethod := m, rPath := p, rHeader := (\<lambda>_. [''Bearer token''])\<rparr>"

lemma demo_discovered_simps [simp]:
  "de_api demo_discovered = demo_media_api" "de_env demo_discovered = demo_ie" "de_order demo_discovered c rows = rows"
  "de_new demo_discovered md = None" "de_start demo_discovered h cl = (cl, Inr True)" "de_stop demo_discovered h cl = (cl, None)"
  "de_magnet demo_discovered body = Inr ''magnet''" "de_dir demo_discovered = ''/t''"
  "de_parse_magnet demo_discovered uri = Inr (\<lparr>mg_InfoHash = [1], mg_DisplayName = ''n''\<rparr>, [])"
  by (simp_all add: demo_discovered_def)

lemma demo_request_simps [simp]: "rMethod (demo_request m p) = m" "rPath (demo_request m p) = p"
  by (simp_all add: demo_request_def)

lemma demo_token: "Validate (ap_parse demo_media_api) (ap_algos demo_media_api) ''*jwt.RegisteredClaims'' (ap_secret demo_media_api)
    (Bearer (demo_request m p)) = Inr undefined"
proof -
  have "Bearer (demo_request m p) = ''token''"
    by (simp add: Bearer_def demo_request_def post_abc_def hdr_get_def) code_simp
  moreover have "strip_bearer ''token'' = ''token''" by code_simp
  ultimately show ?thesis by (simp add: Validate_def demo_media_api_def)
qed

lemma demo_guarded: "with_form demo_media_api (authenticated demo_media_api h) st () w (demo_request m p) = h st () w (demo_request m p)"
  by (simp add: with_form_def ParseForm_def authenticated_def AuthenticateWithToken_def demo_token)
    (simp add: demo_media_api_def)

lemma respond_accepted: "respond demo_media_api st fresh_response x = Return (st, w) \<Longrightarrow> accepted w"
  by (auto simp: respond_def accepted_def WriteJSON_def demo_media_api_def fresh_response_def Header_Set_def
      WriteHeader_def resp_Write_def Let_def)

definition demo_row :: TMetadata where
  "demo_row = zero_TMetadata\<lparr>t_ID := ''a'', t_Bytes := 9, t_PausedAt := Inf, t_InitiatedAt := 5\<rparr>"

lemma demo_path_ids:
  "path_id ''/a'' = Some ''a''" "path_id_of ''/metadatasync'' ''/a'' = None" "path_id_of ''/delete'' ''/a'' = None"
  by code_simp+

lemma demo_respond [simp]: "accepted (fst (WriteJSON (ap_encode demo_media_api) fresh_response x))"
  using respond_accepted by (auto simp: respond_def)

lemma demo_download_runs:
  "\<exists>st' w'. discovered_Serve demo_discovered (demo_site [demo_row]) () fresh_response (demo_request ''POST'' ''/a'') = Return (st', w') \<and>
     accepted w' \<and> rows_of st' = [demo_row\<lparr>t_PausedAt := Inf, t_InitiatedAt := sql_now demo_db\<rparr>]"
proof -
  have row: "t_ID demo_row = ''a''" by (simp add: demo_row_def)
  show ?thesis
    by (simp add: discovered_Serve_def demo_path_ids demo_guarded discovered_download_def find_torrent_def change_torrent_def
        on_depot_def on_tracked_def TMetadataFindByID_def find_where_def query_row_def row start_download_def
        on_client_def spawn_download_def TMetadataDownloadByID_def by_id_def update_where_all update_all_def Let_def
        demo_site_def demo_depot_def respond_def)
qed



theorem magnet_not_resumed_witness:
  "\<exists>st' w' md. discovered_Serve demo_discovered (demo_site []) () fresh_response (demo_request ''POST'' ''/magnet'') = Return (st', w') \<and>
     accepted w' \<and> si_spawned st' = [md] \<and> row_of t_ID (rows_of st') ''a'' = Some md \<and> \<not> resumable Inf md"
proof -
  let ?run = "discovered_Serve demo_discovered (demo_site []) () fresh_response (demo_request ''POST'' ''/magnet'')"
  obtain st' w' md where run: "?run = Return (st', w')" "accepted w'" "si_spawned st' = [md]"
    by (simp add: discovered_Serve_def discovered_magnet_def change_torrent_def on_depot_def on_tracked_def
        TMetadataInsertWithDefaults_def upsert_def start_download_def on_client_def spawn_download_def Let_def
        demo_site_def demo_depot_def respond_def)
  have "row_of t_ID (rows_of (demo_site [])) (ie_md5uuid (de_env demo_discovered) [1]) = None"
    by (simp add: row_of_def demo_site_def)
  from magnet_not_resumed [OF run(1) _ run(2) _ _ _ _ , of "''magnet''" "\<lparr>mg_InfoHash = [1], mg_DisplayName = ''n''\<rparr>" "[]" Inf] this
  have "row_of t_ID (rows_of st') ''a'' = Some md \<and> \<not> resumable Inf md"
    using run(3) by (auto simp: fresh_response_def demo_ie_def)
  with run show ?thesis by blast
qed

lemma demo_Delete:
  assumes "dp_media dp = []" "dp_torrents dp = [demo_row]"
  shows "\<exists>dp'. Delete demo_ie ''/t'' demo_row dp =
      (dp', demo_row\<lparr>t_TombstonedAt := sql_now demo_db, t_InitiatedAt := Inf, t_Seeding := False\<rparr>, None) \<and>
    dp_torrents dp' = [demo_row\<lparr>t_TombstonedAt := sql_now demo_db, t_InitiatedAt := Inf, t_Seeding := False\<rparr>]"
  using assms by (simp add: Delete_def on_media_def on_tracked_def on_os_def LMetadataTombstoneByTorrentID_def update_all_def
      Discard_def Iter_def select_where_def TMetadataTombstoneByID_def by_id_def update_where_def query_row_def Let_def)
    (simp add: demo_ie_def on_os_def)

theorem deleted_torrent_listed_witness:
  "\<exists>st' w' m rows. discovered_delete demo_discovered ''a'' (demo_site [demo_row]) () fresh_response (demo_request ''DELETE'' ''/a/delete'') = Return (st', w') \<and>
     accepted w' \<and> collect_rows (available_page demo_discovered \<lparr>q_Query = [], q_Offset = 0, q_Limit = 100, q_Completed = False\<rparr> demo_db
       (rows_of st')) = Inr rows \<and> m \<in> set rows \<and> t_ID m = ''a'' \<and> \<not> resumable Inf m"
proof -
  let ?run = "discovered_delete demo_discovered ''a'' (demo_site [demo_row]) () fresh_response (demo_request ''DELETE'' ''/a/delete'')"
  let ?req = "\<lparr>q_Query = [], q_Offset = 0, q_Limit = 100, q_Completed = False\<rparr> :: DownloadSearchRequest"
  have row: "t_ID demo_row = ''a''" by (simp add: demo_row_def)
  obtain dp' where "Delete demo_ie ''/t'' demo_row ((si_depot (demo_site [demo_row]))\<lparr>dp_stmts := 1\<rparr>) =
      (dp', demo_row\<lparr>t_TombstonedAt := sql_now demo_db, t_InitiatedAt := Inf, t_Seeding := False\<rparr>, None)"
    "dp_torrents dp' = [demo_row\<lparr>t_TombstonedAt := sql_now demo_db, t_InitiatedAt := Inf, t_Seeding := False\<rparr>]"
    using demo_Delete [of "(si_depot (demo_site [demo_row]))\<lparr>dp_stmts := 1\<rparr>"] by (auto simp: demo_site_def demo_depot_def)
  then obtain st' w' where run: "?run = Return (st', w')" "accepted w'"
    and rows: "rows_of st' = [demo_row\<lparr>t_TombstonedAt := sql_now demo_db, t_InitiatedAt := Inf, t_Seeding := False\<rparr>]"
    by (simp add: discovered_delete_def find_torrent_def on_depot_def on_tracked_def TMetadataFindByID_def find_where_def
        query_row_def row stop_download_def on_client_def demo_site_def demo_depot_def respond_def Let_def)
  obtain m where m: "row_of t_ID (rows_of st') ''a'' = Some m" "\<not> resumable Inf m"
    "\<exists>rows. collect_rows (available_page demo_discovered ?req demo_db (rows_of st')) = Inr rows \<and> m \<in> set rows"
    using deleted_torrent_listed [OF run(1) _ run(2), of Inf demo_db ?req] rows
    by (fastforce simp: fresh_response_def row_of_def row demo_row_def zero_TMetadata_def Blank_def TrimSpace_def)
  with run rows row show ?thesis by (force simp: row_of_def)
qed
lemma demo_malformed: "\<not> ap_malformed demo_media_api r"
  by (simp add: demo_media_api_def)

theorem discovered_Serve_guarded_witness:
  "\<exists>w'. discovered_Serve demo_discovered (demo_site [demo_row]) () fresh_response (post_abc\<lparr>rMethod := ''DELETE'', rPath := ''/a''\<rparr>) =
     Return (demo_site [demo_row], w') \<and> (\<exists>code h. wSent w' = Some (code, h) \<and> code \<in> {400, 401, 404, 405})"
proof -
  let ?r = "post_abc\<lparr>rMethod := ''DELETE'', rPath := ''/a''\<rparr>"
  have bearer: "Bearer ?r = ''''"
    by (simp add: Bearer_def post_abc_def hdr_get_def ToLower_def)
  have bad: "Validate (ap_parse demo_media_api) (ap_algos demo_media_api) ''*jwt.RegisteredClaims'' (ap_secret demo_media_api) (Bearer ?r) =
      Inl (WithStack (WithMessage (Fundamental ''invalid'') (''unable to parse jwt token: '' @ ''*jwt.RegisteredClaims'')))"
    unfolding bearer by (simp add: Validate_def demo_media_api_def strip_bearer.simps)
  have auth: "authenticated demo_media_api h st () w ?r = Return (st, Unauthorized w)" for h :: "unit site_handler" and st w
    by (simp add: authenticated_def AuthenticateWithToken_def bad)
  obtain st' w' where run: "discovered_Serve demo_discovered (demo_site [demo_row]) () fresh_response ?r = Return (st', w')"
    by (simp add: discovered_Serve_def demo_path_ids with_form_def ParseForm_def auth demo_malformed)
  have "st' = demo_site [demo_row] \<and> (\<exists>code h. wSent w' = Some (code, h) \<and> code \<in> {400, 401, 404, 405})"
    using bad discovered_Serve_guarded [OF _ run] by (simp add: fresh_response_def)
  with run show ?thesis by blast
qed

lemma demo_publish:
  "PublishRequest (Inr [1]) (Inr [2, 3]) (Inr \<lparr>ti_Name = ''n'', ti_TotalLength = 2, ti_Private = None\<rparr>) (Inr (\<lambda>_. ([7, 8], None))) =
     Inr (demo_parts, None)"
  "de_parts demo_discovered r = Inr (demo_parts, Sentinel EOF)" "length [2, 3 :: byte] < torrent_limit"
  "de_load demo_discovered [2, 3] None = (2, Inr demo_meta)"
  "tm_Info demo_meta = Inr \<lparr>ti_Name = ''n'', ti_TotalLength = 2, ti_Private = None\<rparr>"
  "de_published demo_discovered [1] None = Inr \<lparr>pr_Entropy = ''e'', pr_Mimetype = ''m''\<rparr>"
  "de_open demo_discovered i h fs = (fs, None)"
  "de_copy demo_discovered h \<lparr>pt_bytes = [7, 8], pt_err = None\<rparr> fs = (fs, Inr (int (length [7, 8 :: byte])))"
  "ie_md5uuid demo_ie bs = ''a''"
  by (simp_all add: PublishRequest_def demo_parts_def demo_discovered_def demo_meta_def torrent_limit_def demo_ie_def)

theorem publish_accepts_request_witness:
  "\<exists>st' m. discovered_publish demo_discovered (demo_site []) () fresh_response post_abc = respond demo_media_api st'
       fresh_response (PublishedUploadResponse (PublishedOptionFromTorrentMetadata m
         \<lparr>pb_Id = '''', pb_Description = '''', pb_Mimetype = '''', pb_Bytes = 0, pb_Entropy = ''''\<rparr>)) \<and>
     row_of t_ID (rows_of st') ''a'' = Some m \<and> t_Seeding m \<and> t_Downloaded m = t_Bytes m \<and> t_Bytes m = 2"
proof -
  let ?o = "dp_os (si_depot (demo_site []))"
  let ?w = "os_WriteFile (ie_fault demo_ie) (torrent_file_name demo_discovered [1]) [2, 3] ?o"
  have pos: "resolve ?o True (torrent_file_name demo_discovered [1]) = Inr [''t'', ''torrent'', ''01.torrent'']"
    by code_simp
  have "nodes_of ?o [''t'', ''torrent'', ''01.torrent''] = None"
    by code_simp
  with pos have wrote: "os_WriteFile (ie_fault demo_ie) (torrent_file_name demo_discovered (tm_ID demo_meta)) (take 2 [2, 3]) ?o = (fst ?w, Inr ())"
    by (simp add: os_WriteFile_def os_Write_def syscall_def errored_def Let_def demo_ie_def demo_meta_def prod_eq_iff)
  have rows: "rows_of (demo_site []) = []" "ti_TotalLength (projr (tm_Info demo_meta)) = 2"
    by (simp_all add: demo_site_def demo_meta_def)
  show ?thesis
    using publish_accepts_request [OF demo_publish(1) _ demo_publish(2-6), where r = post_abc and st = "demo_site []"
        and ?o1.0 = ?o and ?o2.0 = ?o and ?o3.0 = "fst ?w" and u = "()" and w = fresh_response] wrote rows
    by (auto simp: demo_publish row_of_def)
qed

theorem upload_loses_tracker_witness:
  "\<exists>st' md. discovered_receive demo_discovered \<lparr>uf_bytes = [2, 3], uf_err = None, uf_Filename = ''f'', uf_ContentType = ''t''\<rparr>
      ''/t/x'' (demo_site []) = (st', Inr md) \<and> tm_Announce demo_meta = ''u'' \<and>
      t_Tracker md = ''udp://tracker.opentrackr.org:1337/announce''"
proof -
  let ?f = "\<lparr>uf_bytes = [2, 3], uf_err = None, uf_Filename = ''f'', uf_ContentType = ''t''\<rparr>"
  have "\<not> isl (snd (discovered_receive demo_discovered ?f ''/t/x'' (demo_site [])))"
    by code_simp
  then obtain st' md where run: "discovered_receive demo_discovered ?f ''/t/x'' (demo_site []) = (st', Inr md)"
    by (metis isl_def prod.collapse sum.collapse(2))
  have "snd (de_load demo_discovered (uf_bytes ?f) None) = Inr demo_meta"
    by (simp add: demo_discovered_def)
  from upload_loses_tracker [OF run this demo_publish(5)] have "t_Tracker md = ''udp://tracker.opentrackr.org:1337/announce''"
    by (simp add: demo_meta_def Autoderef_def)
  with run show ?thesis by (auto simp: demo_meta_def)
qed

end
