(* ===== verification/Wireguardx.thy ===== *)
theory Wireguardx
  imports Netip Errorsx
begin

text \<open>
  The package \<^verbatim>\<open>shallows/internal/wireguardx\<close>: the configuration of the VPN tunnel and the
  parser of the \<^verbatim>\<open>wg-quick\<close> format.

  The parser is the fold of one step over the lines; its state is a \<open>parse_state\<close>, its
  errors the values of \<open>wg_error\<close>. A \<^verbatim>\<open>*ParseError\<close> keeps its two strings, except that the
  text of a failing base64 decoder, which \<^verbatim>\<open>parseKeyBase64\<close> includes in the first string,
  is not kept. Strings are ASCII: \<^verbatim>\<open>strings.ToLower\<close> keeps the length of such a line. The
  text of an address, the resolver of host names and the decoders of other encodings are
  arguments.
\<close>

unbundle bit_operations_syntax

section \<open>The configuration\<close>

type_synonym Key = bytes

definition KeyLength :: nat where "KeyLength = 32"

definition zero_key :: Key where "zero_key = replicate KeyLength 0"

record Endpoint =
  Host :: string
  ep_Port :: u16

record Interface =
  PrivateKey :: Key
  Addresses :: "Prefix list"
  ListenPort :: u16
  MTU :: u16
  DNS :: "Addr list"
  DNSSearch :: "string list"
  PreUp :: string
  PostUp :: string
  PreDown :: string
  PostDown :: string
  TableOff :: bool

record Peer =
  PublicKey :: Key
  PresharedKey :: Key
  AllowedIPs :: "Prefix list"
  p_Endpoint :: Endpoint
  PersistentKeepalive :: u16
  RxBytes :: u64
  TxBytes :: u64
  LastHandshakeTime :: int

record Config =
  Name :: string
  interface :: Interface
  Peers :: "Peer list"

definition zero_interface :: Interface where
  "zero_interface = \<lparr>PrivateKey = zero_key, Addresses = [], ListenPort = 0, MTU = 0, DNS = [],
     DNSSearch = [], PreUp = [], PostUp = [], PreDown = [], PostDown = [], TableOff = False\<rparr>"

definition zero_peer :: Peer where
  "zero_peer = \<lparr>PublicKey = zero_key, PresharedKey = zero_key, AllowedIPs = [],
     p_Endpoint = \<lparr>Host = [], ep_Port = 0\<rparr>, PersistentKeepalive = 0, RxBytes = 0, TxBytes = 0,
     LastHandshakeTime = 0\<rparr>"

definition IsZero :: "Key \<Rightarrow> bool" where
  "IsZero k \<longleftrightarrow> k = zero_key"

definition IsEmpty :: "Endpoint \<Rightarrow> bool" where
  "IsEmpty e \<longleftrightarrow> length (Host e) = 0"

definition Endpoint_String :: "Endpoint \<Rightarrow> string" where
  "Endpoint_String e =
     (if IndexByte (Host e) (CHR '':'') \<noteq> None
      then ''['' @ Host e @ '']:'' @ format_nat (unat (ep_Port e))
      else Host e @ '':'' @ format_nat (unat (ep_Port e)))"

text \<open>\<^verbatim>\<open>rand.Read\<close> fills the key or fails; \<^verbatim>\<open>NewPrivateKey\<close> clamps it for the curve.\<close>

definition NewPresharedKey :: "(nat \<Rightarrow> goerr + bytes) \<Rightarrow> goerr + Key" where
  "NewPresharedKey rand_read =
     (case rand_read KeyLength of Inl e \<Rightarrow> Inl e | Inr k \<Rightarrow> Inr k)"

definition NewPrivateKey :: "(nat \<Rightarrow> goerr + bytes) \<Rightarrow> goerr + Key" where
  "NewPrivateKey rand_read =
     (case NewPresharedKey rand_read of
        Inl e \<Rightarrow> Inl e
      | Inr k \<Rightarrow>
          let k = k[0 := (k ! 0) AND 248]
          in Inr (k[31 := ((k ! 31) AND 127) OR 64]))"

definition Redact :: "Config \<Rightarrow> Config" where
  "Redact conf =
     conf\<lparr>interface := (interface conf)\<lparr>PrivateKey := zero_key\<rparr>,
          Peers := map (\<lambda>p. p\<lparr>PublicKey := zero_key, PresharedKey := zero_key\<rparr>) (Peers conf)\<rparr>"

text \<open>The routes of a configuration are the keys of a map.\<close>

definition host_route :: "Prefix \<Rightarrow> Prefix" where
  "host_route a = PrefixFrom (pfx_addr a) (BitLen (pfx_addr a))"

definition all_routes :: "Config \<Rightarrow> Prefix list" where
  "all_routes conf =
     concat (map (\<lambda>a. [host_route a, Masked a]) (Addresses (interface conf))) @
     concat (map (\<lambda>p. map Masked (AllowedIPs p)) (Peers conf))"

definition IntersectsWith :: "Config \<Rightarrow> Config \<Rightarrow> bool" where
  "IntersectsWith conf other \<longleftrightarrow>
     (let allRoutes = all_routes conf in
      if list_ex (\<lambda>a. host_route a \<in> set allRoutes \<or> Masked a \<in> set allRoutes)
           (Addresses (interface other)) then True
      else list_ex (\<lambda>p. list_ex (\<lambda>a. Masked a \<in> set allRoutes) (AllowedIPs p)) (Peers other))"

text \<open>The loop of \<^verbatim>\<open>DeduplicateNetworkEntries\<close> over one slice: entries seen before are skipped,
  the others are written back over the front of the same array.\<close>

fun compact_front :: "('a \<Rightarrow> string) \<Rightarrow> string list \<Rightarrow> nat \<Rightarrow> nat \<Rightarrow> 'a list \<Rightarrow> 'a list \<times> nat" where
  "compact_front str m i 0 xs = (xs, i)"
| "compact_front str m i (Suc n) xs =
     (let a = xs ! (length xs - Suc n) in
      if str a \<in> set m then compact_front str m i n xs
      else compact_front str (str a # m) (i + 1) n (xs[i := a]))"

text \<open>The loop over the peers works on a copy of each peer: what it writes into the array of
  \<^verbatim>\<open>AllowedIPs\<close> stays, the shortened slice is lost with the copy.\<close>

definition DeduplicateNetworkEntries ::
  "(Prefix \<Rightarrow> string) \<Rightarrow> (Addr \<Rightarrow> string) \<Rightarrow> Config \<Rightarrow> Config" where
  "DeduplicateNetworkEntries prefix_str addr_str conf =
     (let ifc = interface conf;
          (as, i) = compact_front prefix_str [] 0 (length (Addresses ifc)) (Addresses ifc);
          (ds, j) = compact_front addr_str [] 0 (length (DNS ifc)) (DNS ifc)
      in conf\<lparr>interface := ifc\<lparr>Addresses := take i as, DNS := take j ds\<rparr>,
              Peers := map (\<lambda>p. p\<lparr>AllowedIPs :=
                 fst (compact_front prefix_str [] 0 (length (AllowedIPs p)) (AllowedIPs p))\<rparr>)
                 (Peers conf)\<rparr>)"

section \<open>Parsing values\<close>

datatype wg_error = ParseError string string | InvalidKey string | NumError string

definition parseIPCidr :: "string \<Rightarrow> wg_error + Prefix" where
  "parseIPCidr s =
     (case ParsePrefix s of
        Some ipcidr \<Rightarrow> Inr ipcidr
      | None \<Rightarrow>
          (case ParseAddr s of
             None \<Rightarrow> Inl (ParseError ''Invalid IP address: '' s)
           | Some addr \<Rightarrow> Inr (PrefixFrom addr (BitLen addr))))"

definition parsePort :: "string \<Rightarrow> wg_error + u16" where
  "parsePort s =
     (case Atoi s of
        None \<Rightarrow> Inl (NumError s)
      | Some m \<Rightarrow> if m < 0 \<or> 65535 < m then Inl (ParseError ''Invalid port'' s)
                 else Inr (word_of_int m))"

definition parseMTU :: "string \<Rightarrow> wg_error + u16" where
  "parseMTU s =
     (case Atoi s of
        None \<Rightarrow> Inl (NumError s)
      | Some m \<Rightarrow> if m < 576 \<or> 65535 < m then Inl (ParseError ''Invalid MTU'' s)
                 else Inr (word_of_int m))"

definition parsePersistentKeepalive :: "string \<Rightarrow> wg_error + u16" where
  "parsePersistentKeepalive s =
     (if s = ''off'' then Inr 0
      else (case Atoi s of
        None \<Rightarrow> Inl (NumError s)
      | Some m \<Rightarrow>
          if m < 0 \<or> 65535 < m then Inl (ParseError ''Invalid persistent keepalive'' s)
          else Inr (word_of_int m)))"

definition parseTableOff :: "string \<Rightarrow> wg_error + bool" where
  "parseTableOff s =
     (if s = ''off'' then Inr True
      else if s = ''auto'' \<or> s = ''main'' then Inr False
      else (case ParseUint 32 s of None \<Rightarrow> Inl (NumError s) | Some _ \<Rightarrow> Inr False))"

definition parseKeyBase64 :: "string \<Rightarrow> wg_error + Key" where
  "parseKeyBase64 s =
     (case b64_decode s of
        None \<Rightarrow> Inl (InvalidKey s)
      | Some k \<Rightarrow>
          if length k \<noteq> KeyLength
          then Inl (ParseError ''Keys must decode to exactly 32 bytes'' s)
          else Inr k)"

definition parseEndpoint :: "string \<Rightarrow> wg_error + Endpoint" where
  "parseEndpoint s =
     (case LastIndexByte s (CHR '':'') of
        None \<Rightarrow> Inl (ParseError ''Missing port from endpoint'' s)
      | Some i \<Rightarrow>
          let host = take i s; portStr = drop (i + 1) s in
          if length host < 1 then Inl (ParseError ''Invalid endpoint host'' host)
          else (case parsePort portStr of
             Inl e \<Rightarrow> Inl e
           | Inr port \<Rightarrow>
               let hostColon = (case IndexByte host (CHR '':'') of None \<Rightarrow> -1 | Some j \<Rightarrow> int j) in
               if hd host = CHR ''['' \<or> last host = CHR '']'' \<or> hostColon > 0 then
                 let err = ParseError ''Brackets must contain an IPv6 address'' host in
                 if 3 < length host \<and> hd host = CHR ''['' \<and> last host = CHR '']'' \<and> hostColon > 0
                 then
                   let end' = (case LastIndexByte host (CHR ''%'') of
                                 Some j \<Rightarrow> if 1 < j then j else length host - 1
                               | None \<Rightarrow> length host - 1);
                       maybeV6 = ParseAddr (slice 1 (end' - 1) host) in
                   (case maybeV6 of
                      None \<Rightarrow> Inl err
                    | Some a \<Rightarrow>
                        if \<not> Is6 a then Inl err
                        else Inr \<lparr>Host = slice 1 (length host - 2) host, ep_Port = port\<rparr>)
                 else Inl err
               else Inr \<lparr>Host = host, ep_Port = port\<rparr>))"

fun split_list_loop :: "string \<Rightarrow> string list \<Rightarrow> string list \<Rightarrow> wg_error + string list" where
  "split_list_loop s out [] = Inr out"
| "split_list_loop s out (split # splits) =
     (let trim = TrimSpace split in
      if length trim = 0 then Inl (ParseError ''Two commas in a row'' s)
      else split_list_loop s (out @ [trim]) splits)"

definition splitList :: "string \<Rightarrow> wg_error + string list" where
  "splitList s = split_list_loop s [] (split_str '','' s)"

section \<open>Parsing a file\<close>

datatype parserState = inInterfaceSection | inPeerSection | notInASection

record parse_state =
  st_conf :: Config
  st_section :: parserState
  sawPrivateKey :: bool
  st_peer :: "Peer option"

definition maybeAddPeer :: "Config \<Rightarrow> Peer option \<Rightarrow> Config" where
  "maybeAddPeer c p = (case p of None \<Rightarrow> c | Some p \<Rightarrow> c\<lparr>Peers := Peers c @ [p]\<rparr>)"

text \<open>The results of the value parsers are combined as the code does, returning on an error.\<close>

definition bind_err :: "'e + 'a \<Rightarrow> ('a \<Rightarrow> 'e + 'b) \<Rightarrow> 'e + 'b" where
  "bind_err m f = (case m of Inl e \<Rightarrow> Inl e | Inr x \<Rightarrow> f x)"

fun parse_prefixes :: "Prefix list \<Rightarrow> string list \<Rightarrow> wg_error + Prefix list" where
  "parse_prefixes acc [] = Inr acc"
| "parse_prefixes acc (address # addresses) =
     (case parseIPCidr address of
        Inl e \<Rightarrow> Inl e
      | Inr a \<Rightarrow> parse_prefixes (acc @ [a]) addresses)"

fun add_dns :: "Interface \<Rightarrow> string list \<Rightarrow> Interface" where
  "add_dns ifc [] = ifc"
| "add_dns ifc (address # addresses) =
     (case ParseAddr address of
        None \<Rightarrow> add_dns (ifc\<lparr>DNSSearch := DNSSearch ifc @ [address]\<rparr>) addresses
      | Some a \<Rightarrow> add_dns (ifc\<lparr>DNS := DNS ifc @ [a]\<rparr>) addresses)"

definition interface_key :: "string \<Rightarrow> string \<Rightarrow> Interface \<Rightarrow> wg_error + Interface" where
  "interface_key key val ifc =
     (if key = ''privatekey'' then
        bind_err (parseKeyBase64 val) (\<lambda>k. Inr (ifc\<lparr>PrivateKey := k\<rparr>))
      else if key = ''listenport'' then
        bind_err (parsePort val) (\<lambda>p. Inr (ifc\<lparr>ListenPort := p\<rparr>))
      else if key = ''mtu'' then
        bind_err (parseMTU val) (\<lambda>m. Inr (ifc\<lparr>MTU := m\<rparr>))
      else if key = ''address'' then
        bind_err (splitList val) (\<lambda>addresses.
        bind_err (parse_prefixes (Addresses ifc) addresses) (\<lambda>as.
          Inr (ifc\<lparr>Addresses := as\<rparr>)))
      else if key = ''dns'' then
        bind_err (splitList val) (\<lambda>addresses. Inr (add_dns ifc addresses))
      else if key = ''preup'' then Inr (ifc\<lparr>PreUp := val\<rparr>)
      else if key = ''postup'' then Inr (ifc\<lparr>PostUp := val\<rparr>)
      else if key = ''predown'' then Inr (ifc\<lparr>PreDown := val\<rparr>)
      else if key = ''postdown'' then Inr (ifc\<lparr>PostDown := val\<rparr>)
      else if key = ''table'' then
        bind_err (parseTableOff val) (\<lambda>t. Inr (ifc\<lparr>TableOff := t\<rparr>))
      else Inl (ParseError ''Invalid key for [Interface] section'' key))"

definition peer_key :: "string \<Rightarrow> string \<Rightarrow> Peer \<Rightarrow> wg_error + Peer" where
  "peer_key key val p =
     (if key = ''publickey'' then
        bind_err (parseKeyBase64 val) (\<lambda>k. Inr (p\<lparr>PublicKey := k\<rparr>))
      else if key = ''presharedkey'' then
        bind_err (parseKeyBase64 val) (\<lambda>k. Inr (p\<lparr>PresharedKey := k\<rparr>))
      else if key = ''allowedips'' then
        bind_err (splitList val) (\<lambda>addresses.
        bind_err (parse_prefixes (AllowedIPs p) addresses) (\<lambda>as.
          Inr (p\<lparr>AllowedIPs := as\<rparr>)))
      else if key = ''persistentkeepalive'' then
        bind_err (parsePersistentKeepalive val) (\<lambda>k. Inr (p\<lparr>PersistentKeepalive := k\<rparr>))
      else if key = ''endpoint'' then
        bind_err (parseEndpoint val) (\<lambda>e. Inr (p\<lparr>p_Endpoint := e\<rparr>))
      else Inl (ParseError ''Invalid key for [Peer] section'' key))"

text \<open>A peer line outside a peer would dereference a nil pointer; the section is only entered
  with a peer, so the case does not arise (lemma \<open>parse_line_inv\<close>).\<close>

definition key_line :: "string \<Rightarrow> parse_state \<Rightarrow> wg_error + parse_state" where
  "key_line line st =
     (case IndexByte line (CHR ''='') of
        None \<Rightarrow> Inl (ParseError ''Config key is missing an equals separator'' line)
      | Some equals \<Rightarrow>
          let key = TrimSpace (take equals (ToLower line));
              val = TrimSpace (drop (equals + 1) line) in
          if length val = 0 then Inl (ParseError ''Key must have a value'' line)
          else (case st_section st of
             inInterfaceSection \<Rightarrow>
               bind_err (interface_key key val (interface (st_conf st))) (\<lambda>ifc.
                 Inr (st\<lparr>st_conf := (st_conf st)\<lparr>interface := ifc\<rparr>,
                         sawPrivateKey := (sawPrivateKey st \<or> key = ''privatekey'')\<rparr>))
           | inPeerSection \<Rightarrow>
               bind_err (peer_key key val (the (st_peer st))) (\<lambda>p.
                 Inr (st\<lparr>st_peer := Some p\<rparr>))
           | notInASection \<Rightarrow> Inr st))"

text \<open>A line without its comment and the space around it.\<close>

definition line_text :: "string \<Rightarrow> string" where
  "line_text line = TrimSpace (case cut ''#'' line of None \<Rightarrow> line | Some (a, _) \<Rightarrow> a)"

definition parse_line :: "string \<Rightarrow> parse_state \<Rightarrow> wg_error + parse_state" where
  "parse_line line0 st =
     (let line = line_text line0;
          lineLower = ToLower line in
      if length line = 0 then Inr st
      else if lineLower = ''[interface]'' then
        Inr (st\<lparr>st_conf := maybeAddPeer (st_conf st) (st_peer st),
                st_section := inInterfaceSection\<rparr>)
      else if lineLower = ''[peer]'' then
        Inr (st\<lparr>st_conf := maybeAddPeer (st_conf st) (st_peer st),
                st_peer := Some zero_peer, st_section := inPeerSection\<rparr>)
      else if st_section st = notInASection then
        Inl (ParseError ''Line must occur in a section'' line)
      else key_line line st)"

fun parse_lines :: "string list \<Rightarrow> parse_state \<Rightarrow> wg_error + parse_state" where
  "parse_lines [] st = Inr st"
| "parse_lines (line # lines) st =
     (case parse_line line st of Inl e \<Rightarrow> Inl e | Inr st' \<Rightarrow> parse_lines lines st')"

definition init_state :: "string \<Rightarrow> parse_state" where
  "init_state name =
     \<lparr>st_conf = \<lparr>Name = name, interface = zero_interface, Peers = []\<rparr>,
      st_section = notInASection, sawPrivateKey = False, st_peer = None\<rparr>"

definition finish :: "parse_state \<Rightarrow> wg_error + Config" where
  "finish st =
     (let conf = maybeAddPeer (st_conf st) (st_peer st) in
      if \<not> sawPrivateKey st then
        Inl (ParseError ''An interface must have a private key'' ''[none specified]'')
      else if list_ex (\<lambda>p. IsZero (PublicKey p)) (Peers conf) then
        Inl (ParseError ''All peers must have public keys'' ''[none specified]'')
      else Inr conf)"

definition FromWgQuick :: "string \<Rightarrow> string \<Rightarrow> wg_error + Config" where
  "FromWgQuick s name =
     (case parse_lines (split_str (''\<newline>'') s) (init_state name) of
        Inl e \<Rightarrow> Inl e
      | Inr st \<Rightarrow> finish st)"

fun try_encodings :: "(string \<Rightarrow> string option) list \<Rightarrow> string \<Rightarrow> string \<Rightarrow> Config option" where
  "try_encodings [] s name = None"
| "try_encodings (decode # ds) s name =
     (case decode s of
        None \<Rightarrow> try_encodings ds s name
      | Some decoded \<Rightarrow>
          (case FromWgQuick decoded name of
             Inr c \<Rightarrow> Some c
           | Inl _ \<Rightarrow> try_encodings ds s name))"

definition FromWgQuickWithUnknownEncoding ::
  "(string \<Rightarrow> string option) list \<Rightarrow> string \<Rightarrow> string \<Rightarrow> wg_error + Config" where
  "FromWgQuickWithUnknownEncoding all s name =
     (case FromWgQuick s name of
        Inr c \<Rightarrow> Inr c
      | Inl firstErr \<Rightarrow>
          (case try_encodings all s name of Some c \<Rightarrow> Inr c | None \<Rightarrow> Inl firstErr))"

definition Parse :: "(string \<Rightarrow> goerr + string) \<Rightarrow> string \<Rightarrow> (goerr + wg_error) + Config" where
  "Parse read_file path =
     (case read_file path of
        Inl e \<Rightarrow> Inl (Inl e)
      | Inr raw \<Rightarrow>
          (case FromWgQuick raw ''retrovibed'' of Inl e \<Rightarrow> Inl (Inr e) | Inr c \<Rightarrow> Inr c))"

section \<open>The configuration of the device\<close>

definition hex_digit :: "nat \<Rightarrow> char" where
  "hex_digit d = (if d < 10 then char_of (48 + d) else char_of (87 + d))"

definition hex_bytes :: "bytes \<Rightarrow> string" where
  "hex_bytes bs = concat (map (\<lambda>b. [hex_digit (unat b div 16), hex_digit (unat b mod 16)]) bs)"

text \<open>\<^verbatim>\<open>langx.DefaultIfZero(peer.Endpoint.Host, resolved)\<close>: the resolved address, and where the
  resolver fails the string of its nil result.\<close>

definition FormatIPCSet ::
  "(string \<Rightarrow> string) \<Rightarrow> (Prefix \<Rightarrow> string) \<Rightarrow> Config \<Rightarrow> string list" where
  "FormatIPCSet resolved prefix_str wcfg =
     map (\<lambda>peer.
       let host = DefaultIfZero [] (Host (p_Endpoint peer)) (resolved (Host (p_Endpoint peer)));
           ep = (p_Endpoint peer)\<lparr>Host := host\<rparr> in
       ''private_key='' @ hex_bytes (PrivateKey (interface wcfg)) @ ''\<newline>'' @
       ''public_key='' @ hex_bytes (PublicKey peer) @ ''\<newline>'' @
       ''preshared_key='' @ hex_bytes (PresharedKey peer) @ ''\<newline>'' @
       ''endpoint='' @ Endpoint_String ep @ ''\<newline>'' @
       ''persistent_keepalive_interval='' @ format_nat (unat (PersistentKeepalive peer)) @ ''\<newline>'' @
       concat (map (\<lambda>ip. ''allowed_ip='' @ prefix_str ip @ ''\<newline>'') (AllowedIPs peer)))
     (Peers wcfg)"

section \<open>The invariant of the parser\<close>

definition interface_wf :: "Interface \<Rightarrow> bool" where
  "interface_wf ifc \<longleftrightarrow>
     length (PrivateKey ifc) = KeyLength \<and> (MTU ifc = 0 \<or> 576 \<le> unat (MTU ifc)) \<and>
     (\<forall>a \<in> set (Addresses ifc). prefix_wf a) \<and> (\<forall>a \<in> set (DNS ifc). addr_wf a)"

definition peer_wf :: "Peer \<Rightarrow> bool" where
  "peer_wf p \<longleftrightarrow>
     length (PublicKey p) = KeyLength \<and> length (PresharedKey p) = KeyLength \<and>
     (\<forall>a \<in> set (AllowedIPs p). prefix_wf a)"

definition parse_inv :: "string \<Rightarrow> parse_state \<Rightarrow> bool" where
  "parse_inv name st \<longleftrightarrow>
     Name (st_conf st) = name \<and> interface_wf (interface (st_conf st)) \<and>
     (\<forall>p \<in> set (Peers (st_conf st)). peer_wf p) \<and>
     (\<forall>p. st_peer st = Some p \<longrightarrow> peer_wf p) \<and>
     (st_section st = inPeerSection \<longrightarrow> st_peer st \<noteq> None)"

lemma bind_err_Inr [simp]: "bind_err m f = Inr y \<longleftrightarrow> (\<exists>x. m = Inr x \<and> f x = Inr y)"
  by (cases m) (simp_all add: bind_err_def)

lemma parseKeyBase64_length: "parseKeyBase64 s = Inr k \<Longrightarrow> length k = KeyLength"
  by (auto simp: parseKeyBase64_def split: option.splits if_splits)

lemma parseMTU_range: "parseMTU s = Inr m \<Longrightarrow> 576 \<le> unat m"
proof -
  assume m: "parseMTU s = Inr m"
  then obtain i where i: "Atoi s = Some i"
    by (cases "Atoi s") (auto simp: parseMTU_def)
  with m have r: "576 \<le> i" "i \<le> 65535" "m = word_of_int i"
    by (auto simp: parseMTU_def split: if_splits)
  then have "uint m = i"
    by (simp add: uint_word_of_int)
  with r show ?thesis by (simp add: unat_eq_nat_uint)
qed

lemma parseIPCidr_wf: "parseIPCidr s = Inr p \<Longrightarrow> prefix_wf p"
  by (auto simp: parseIPCidr_def split: option.splits
      intro!: prefix_wf_PrefixFrom dest: ParsePrefix_wf ParseAddr_wf)

lemma parse_prefixes_wf:
  "parse_prefixes acc ss = Inr as \<Longrightarrow> \<forall>a \<in> set acc. prefix_wf a \<Longrightarrow> \<forall>a \<in> set as. prefix_wf a"
  by (induction acc ss rule: parse_prefixes.induct)
    (auto split: sum.splits dest: parseIPCidr_wf)

lemma add_dns_wf: "interface_wf ifc \<Longrightarrow> interface_wf (add_dns ifc ss)"
proof (induction ifc ss rule: add_dns.induct)
  case (2 ifc address addresses)
  have "interface_wf (ifc\<lparr>DNS := DNS ifc @ [a]\<rparr>)" if "ParseAddr address = Some a" for a
    using 2(3) ParseAddr_wf [OF that] by (auto simp: interface_wf_def)
  moreover have "interface_wf (ifc\<lparr>DNSSearch := DNSSearch ifc @ [address]\<rparr>)"
    using 2(3) by (simp add: interface_wf_def)
  ultimately show ?case
    using 2 by (simp split: option.splits)
qed simp

lemma interface_key_wf:
  "interface_key key val ifc = Inr ifc' \<Longrightarrow> interface_wf ifc \<Longrightarrow> interface_wf ifc'"
  by (auto simp: interface_key_def add_dns_wf split: if_splits)
    (auto simp: interface_wf_def dest: parseKeyBase64_length parseMTU_range parse_prefixes_wf)

lemma peer_key_wf: "peer_key key val p = Inr p' \<Longrightarrow> peer_wf p \<Longrightarrow> peer_wf p'"
  by (auto simp: peer_key_def peer_wf_def split: if_splits
      dest: parseKeyBase64_length parse_prefixes_wf)

lemma zero_wf [simp]: "interface_wf zero_interface" "peer_wf zero_peer"
  by (simp_all add: interface_wf_def zero_interface_def peer_wf_def zero_peer_def
      zero_key_def KeyLength_def)

lemma maybeAddPeer_simps [simp]:
  "Name (maybeAddPeer c p) = Name c" "interface (maybeAddPeer c p) = interface c"
  "Peers (maybeAddPeer c p) = Peers c @ (case p of None \<Rightarrow> [] | Some p \<Rightarrow> [p])"
  by (simp_all add: maybeAddPeer_def split: option.splits)

lemma key_line_inv:
  assumes "key_line line st = Inr st'" "parse_inv name st"
  shows "parse_inv name st'"
proof (cases "st_section st")
  case inPeerSection
  with assms show ?thesis
    by (auto simp: key_line_def parse_inv_def Let_def split: option.splits if_splits
        dest: peer_key_wf)
qed (use assms in \<open>auto simp: key_line_def parse_inv_def Let_def split: option.splits if_splits
      dest: interface_key_wf\<close>)

lemma parse_line_inv:
  assumes "parse_line line st = Inr st'" "parse_inv name st"
  shows "parse_inv name st'"
proof -
  have sections: "parse_inv name (st\<lparr>st_conf := maybeAddPeer (st_conf st) (st_peer st),
      st_section := inInterfaceSection\<rparr>)"
    "parse_inv name (st\<lparr>st_conf := maybeAddPeer (st_conf st) (st_peer st),
      st_peer := Some zero_peer, st_section := inPeerSection\<rparr>)"
    using assms(2) by (auto simp: parse_inv_def split: option.splits)
  with assms key_line_inv show ?thesis
    unfolding parse_line_def Let_def by (auto split: if_splits simp del: maybeAddPeer_simps)
qed

lemma parse_lines_inv:
  "parse_lines lines st = Inr st' \<Longrightarrow> parse_inv name st \<Longrightarrow> parse_inv name st'"
  by (induction lines st rule: parse_lines.induct) (auto split: sum.splits dest: parse_line_inv)

lemma init_state_inv [simp]: "parse_inv name (init_state name)"
  by (simp add: parse_inv_def init_state_def)

section \<open>Removing duplicates\<close>

text \<open>The reference: the first entry of every rendering.\<close>

fun firsts :: "('a \<Rightarrow> string) \<Rightarrow> string list \<Rightarrow> 'a list \<Rightarrow> 'a list" where
  "firsts str m [] = []"
| "firsts str m (x # xs) =
     (if str x \<in> set m then firsts str m xs else x # firsts str (str x # m) xs)"

lemma firsts_distinct: "distinct (map str (firsts str m xs)) \<and> set m \<inter> str ` set (firsts str m xs) = {}"
  by (induction m xs rule: firsts.induct) auto

lemma firsts_set: "str ` set (firsts str m xs) \<union> set m = str ` set xs \<union> set m"
  by (induction m xs rule: firsts.induct) auto

lemma length_firsts_le [simp]: "length (firsts str m xs) \<le> length xs"
  by (induction m xs rule: firsts.induct) (auto intro: le_SucI)

lemma compact_front_eq:
  assumes "n \<le> length xs" "i \<le> length xs - n"
  shows "compact_front str m i n xs =
    (let u = firsts str m (drop (length xs - n) xs)
     in (take i xs @ u @ drop (i + length u) xs, i + length u))"
  using assms
proof (induction str m i n xs rule: compact_front.induct)
  case (1 str m i xs)
  then show ?case by simp
next
  case (2 str m i n xs)
  let ?p = "length xs - Suc n"
  have p: "drop ?p xs = xs ! ?p # drop (length xs - n) xs"
    using 2(3) by (metis Cons_nth_drop_Suc Suc_diff_Suc Suc_le_lessD diff_less
        less_le_trans zero_less_Suc length_greater_0_conv list.size(3) not_less_zero)
  show ?case
  proof (cases "str (xs ! ?p) \<in> set m")
    case True
    with 2 p show ?thesis by (simp add: Let_def)
  next
    case False
    let ?xs = "xs[i := xs ! ?p]"
    have i: "i < length xs" "i < length xs - n"
      using 2(3,4) by simp_all
    then have d: "drop (length xs - n) ?xs = drop (length xs - n) xs"
      by simp
    have t: "take (Suc i) ?xs = take i xs @ [xs ! ?p]"
      using i by (simp add: take_Suc_conv_app_nth)
    show ?thesis
      using 2(2) [OF refl False] False i p d t 2(3,4) by (simp add: Let_def)
  qed
qed

lemma compact_front_all:
  "compact_front str [] 0 (length xs) xs =
     (let u = firsts str [] xs in (u @ drop (length u) xs, length u))"
  by (simp add: compact_front_eq)

section \<open>Endpoints\<close>

lemma takeWhile_rev_last:
  "c \<notin> set b \<Longrightarrow> takeWhile (\<lambda>x. x \<noteq> c) (rev (a @ c # b)) = rev b"
  by (simp add: takeWhile_tail) (metis (mono_tags, lifting) set_rev takeWhile_eq_all_conv
      takeWhile_append2 append_Nil2 takeWhile.simps(2))

lemma LastIndexByte_append: "c \<notin> set b \<Longrightarrow> LastIndexByte (a @ c # b) c = Some (length a)"
  by (simp add: LastIndexByte_def takeWhile_rev_last del: rev_append)

lemma format_nat_no_char: "\<not> is_digit c \<Longrightarrow> c \<notin> set (format_nat n)"
  using format_nat_all_digits [of n] by (auto simp: all_digits_def)

lemma parsePort_format: "parsePort (format_nat (unat (p :: u16))) = Inr p"
proof -
  have r: "unat p < 65536"
    using unsigned_less [of p, where ?'a = nat] by simp
  then have "Atoi (format_nat (unat p)) = Some (int (unat p))"
    by (intro Atoi_format) simp
  moreover have "word_of_int (int (unat p)) = p"
    by simp
  moreover have "int (unat p) \<le> 65535"
    using r by linarith
  ultimately show ?thesis
    by (simp add: parsePort_def del: of_nat_unat)
qed

text \<open>The hosts an endpoint can name: a name or an IPv4 address, or an IPv6 address with an
  optional zone.\<close>

definition plain_host :: "string \<Rightarrow> bool" where
  "plain_host h \<longleftrightarrow> h \<noteq> [] \<and> CHR '':'' \<notin> set h \<and> hd h \<noteq> CHR ''['' \<and> last h \<noteq> CHR '']''"

definition literal6_host :: "string \<Rightarrow> bool" where
  "literal6_host h \<longleftrightarrow>
     CHR '':'' \<in> set h \<and> 2 \<le> length h \<and>
     (let a = (case LastIndexByte h (CHR ''%'') of
                 Some j \<Rightarrow> if 0 < j then take j h else h | None \<Rightarrow> h)
      in case ParseAddr a of Some ip \<Rightarrow> Is6 ip | None \<Rightarrow> False)"

lemma IndexByte_None_iff: "IndexByte h c = None \<longleftrightarrow> c \<notin> set h"
  by (simp add: IndexByte_def)

lemma port_no_colon: "CHR '':'' \<notin> set (format_nat n)"
  by (rule format_nat_no_char) (simp add: is_digit_def)

lemma parse_plain:
  assumes "plain_host (Host e)"
  shows "parseEndpoint (Host e @ CHR '':'' # format_nat (unat (ep_Port e))) = Inr e"
  using assms port_no_colon
  by (simp add: parseEndpoint_def LastIndexByte_append plain_host_def parsePort_format Let_def
      IndexByte_def)

lemma LastIndexByte_bracketed:
  "c \<noteq> CHR ''['' \<Longrightarrow> c \<noteq> CHR '']'' \<Longrightarrow>
   LastIndexByte (CHR ''['' # h @ '']'') c = map_option Suc (LastIndexByte h c)"
proof (cases "c \<in> set h")
  case True
  assume c: "c \<noteq> CHR ''[''" "c \<noteq> CHR '']''"
  from True obtain a b where h: "h = a @ c # b" "c \<notin> set b"
    by (meson split_list_last)
  with c LastIndexByte_append [of c "b @ '']''" "CHR ''['' # a"] LastIndexByte_append [of c b a]
  show ?thesis by simp
qed (simp add: LastIndexByte_def)

lemma parse_literal6:
  assumes "literal6_host (Host e)"
  shows "parseEndpoint ((CHR ''['' # Host e @ '']'') @ CHR '':'' # format_nat (unat (ep_Port e)))
    = Inr e"
proof -
  let ?h = "Host e" and ?fmt = "format_nat (unat (ep_Port e))"
  let ?host = "CHR ''['' # Host e @ '']''"
  let ?s = "?host @ CHR '':'' # ?fmt"
  let ?a = "case LastIndexByte ?h (CHR ''%'') of Some j \<Rightarrow> if 0 < j then take j ?h else ?h | None \<Rightarrow> ?h"
  have li: "LastIndexByte ?s (CHR '':'') = Some (length ?host)"
    by (rule LastIndexByte_append) (rule port_no_colon)
  have parts: "take (length ?host) ?s = ?host" "drop (length ?host + 1) ?s = ?fmt"
    by simp_all
  have len: "2 \<le> length ?h" and colon: "CHR '':'' \<in> set ?h"
    using assms by (simp_all add: literal6_host_def)
  then have conds: "(length ?host < 1) = False" "(3 < length ?host) = True"
    "(hd ?host = CHR ''['') = True" "(last ?host = CHR '']'') = True"
    "slice 1 (length ?host - 2) ?host = ?h"
    by (simp_all add: slice_def)
  obtain j where hc: "IndexByte ?host (CHR '':'') = Some (Suc j)"
    using colon by (simp add: IndexByte_def)
  have pos: "(0 < int (Suc j)) = True"
    by simp
  obtain ip where ip: "ParseAddr ?a = Some ip" "Is6 ip"
    using assms unfolding literal6_host_def Let_def
    by (cases "ParseAddr ?a") simp_all
  have sl: "slice 1 ((case LastIndexByte ?host (CHR ''%'') of
        Some j \<Rightarrow> if 1 < j then j else length ?host - 1 | None \<Rightarrow> length ?host - 1) - 1) ?host = ?a"
  proof (cases "LastIndexByte ?h (CHR ''%'')")
    case None
    then show ?thesis
      by (simp add: LastIndexByte_bracketed slice_def)
  next
    case (Some i)
    then have "i < length ?h"
      using len by (auto simp: LastIndexByte_def split: if_splits)
    with Some show ?thesis
      by (simp add: LastIndexByte_bracketed slice_def)
  qed
  show ?thesis
    by (simp only: parseEndpoint_def li option.case Let_def parts parsePort_format sum.case
        conds hc pos sl ip if_True if_False simp_thms)
      (cases e; simp)
qed

section \<open>Properties\<close>

text \<open>An endpoint survives being printed and parsed. An endpoint whose host is a name
  or an IPv4 address, or an IPv6 address with or without a zone, is what \<^verbatim>\<open>parseEndpoint\<close>
  returns for its string, the brackets of the IPv6 form included.\<close>

theorem parseEndpoint_String:
  assumes "plain_host (Host e) \<or> literal6_host (Host e)"
  shows "parseEndpoint (Endpoint_String e) = Inr e"
  using assms
proof
  assume h: "plain_host (Host e)"
  then have "Endpoint_String e = Host e @ CHR '':'' # format_nat (unat (ep_Port e))"
    by (simp add: Endpoint_String_def IndexByte_None_iff plain_host_def)
  with h show ?thesis by (simp add: parse_plain)
next
  assume h: "literal6_host (Host e)"
  then have "Endpoint_String e =
      (CHR ''['' # Host e @ '']'') @ CHR '':'' # format_nat (unat (ep_Port e))"
    by (simp add: Endpoint_String_def IndexByte_None_iff literal6_host_def)
  with parse_literal6 [OF h] show ?thesis by (simp only:)
qed

text \<open>C30: the parser accepts well-formed configurations only. A configuration that
  \<^verbatim>\<open>FromWgQuick\<close> returns has the given name, a private key of 32 bytes, an MTU of at least
  576 or none, addresses whose prefix length fits the address, and peers whose public keys
  have 32 bytes, not all zero, with allowed prefixes that fit too.\<close>

theorem FromWgQuick_wf:
  assumes "FromWgQuick s name = Inr c"
  shows "Name c = name \<and> interface_wf (interface c) \<and>
    (\<forall>p \<in> set (Peers c). peer_wf p \<and> \<not> IsZero (PublicKey p))"
proof -
  obtain st where st: "parse_lines (split_str (''\<newline>'') s) (init_state name) = Inr st"
    "finish st = Inr c"
    using assms by (auto simp: FromWgQuick_def split: sum.splits)
  then have c: "c = maybeAddPeer (st_conf st) (st_peer st)"
    "\<forall>p \<in> set (Peers c). \<not> IsZero (PublicKey p)"
    by (auto simp: finish_def Let_def list_ex_iff split: if_splits)
  have "parse_inv name st"
    using st(1) by (rule parse_lines_inv) simp
  with c show ?thesis
    by (auto simp: parse_inv_def split: option.splits)
qed

text \<open>Duplicate network entries. \<^verbatim>\<open>DeduplicateNetworkEntries\<close> leaves the first entry of
  every rendering in the addresses and in the DNS servers, and nothing else. For the
  allowed prefixes of a peer it does not: the front of the array is overwritten with the
  first entries, but the peer keeps its length, so the entries behind them stay.\<close>

theorem DeduplicateNetworkEntries_eq:
  "DeduplicateNetworkEntries ps as conf =
     conf\<lparr>interface := (interface conf)
            \<lparr>Addresses := firsts ps [] (Addresses (interface conf)),
             DNS := firsts as [] (DNS (interface conf))\<rparr>,
          Peers := map (\<lambda>p. p\<lparr>AllowedIPs := firsts ps [] (AllowedIPs p) @
             drop (length (firsts ps [] (AllowedIPs p))) (AllowedIPs p)\<rparr>) (Peers conf)\<rparr> \<and>
   distinct (map ps (firsts ps [] (Addresses (interface conf)))) \<and>
   ps ` set (firsts ps [] (Addresses (interface conf))) =
     ps ` set (Addresses (interface conf))"
  using firsts_distinct [of ps "[]" "Addresses (interface conf)"]
    firsts_set [of ps "[]" "Addresses (interface conf)"]
  by (simp add: DeduplicateNetworkEntries_def compact_front_all Let_def)

lemmas netip_eval = ParseAddr_def parseIPv6_def v6_groups.simps Let_def HasPrefix_def hex_value_def
  hex_group_def Is6_def parseIPv4_def parse_octet_def all_digits_def is_digit_def
  LastIndexByte_def IndexByte_def

theorem parseEndpoint_String_witness:
  "parseEndpoint (Endpoint_String \<lparr>Host = ''fe80::1%eth0'', ep_Port = 51820\<rparr>) =
     Inr \<lparr>Host = ''fe80::1%eth0'', ep_Port = 51820\<rparr>"
  by (rule parseEndpoint_String) (simp add: literal6_host_def netip_eval)

definition demo_file :: string where
  "demo_file =
     ''[Interface]'' @ ''\<newline>'' @
     ''PrivateKey = AQIDBAUGBwgJCgsMDQ4PEBESExQVFhcYGRobHB0eHyA='' @ ''\<newline>'' @
     ''Address = 10.0.0.2/24, fd00::2/64 # the tunnel'' @ ''\<newline>'' @
     ''[Peer]'' @ ''\<newline>'' @
     ''PublicKey = IB8eHRwbGhkYFxYVFBMSERAPDg0MCwoJCAcGBQQDAgE='' @ ''\<newline>'' @
     ''Endpoint = vpn.example.com:51820'' @ ''\<newline>'' @
     ''AllowedIPs = 0.0.0.0/0''"

lemmas line_eval = parse_line_def line_text_def key_line_def IndexByte_def HasPrefix_def
  TrimSpace_def is_space_def ToLower_def to_lower_def char_of_def bit_Suc_0_iff Let_def bind_err_def

lemmas value_eval = interface_key_def peer_key_def parseKeyBase64_def KeyLength_def splitList_def
  split_str.simps ParsePrefix_def parseIPCidr_def netip_eval Atoi_def parse_digits.simps
  parseEndpoint_def parsePort_def BitLen_def PrefixFrom_def in_i64I

lemma demo_keys:
  "b64_decode ''AQIDBAUGBwgJCgsMDQ4PEBESExQVFhcYGRobHB0eHyA='' =
     Some (map word_of_nat [1..<33])"
  "b64_decode ''IB8eHRwbGhkYFxYVFBMSERAPDg0MCwoJCAcGBQQDAgE='' =
     Some (rev (map word_of_nat [1..<33]))"
  by (simp_all add: b64_decode_def b64_value_def upt_conv_Cons)

lemma demo_lines: "split_str (''\<newline>'') demo_file = [''[Interface]'',
   ''PrivateKey = AQIDBAUGBwgJCgsMDQ4PEBESExQVFhcYGRobHB0eHyA='',
   ''Address = 10.0.0.2/24, fd00::2/64 # the tunnel'', ''[Peer]'',
   ''PublicKey = IB8eHRwbGhkYFxYVFBMSERAPDg0MCwoJCAcGBQQDAgE='',
   ''Endpoint = vpn.example.com:51820'', ''AllowedIPs = 0.0.0.0/0'']"
  by (simp add: demo_file_def split_str.simps HasPrefix_def)

lemma demo_parses: "\<exists>c. FromWgQuick demo_file name = Inr c"
  unfolding FromWgQuick_def demo_lines init_state_def
  by (simp add: line_eval value_eval demo_keys zero_peer_def zero_interface_def)
    (simp add: finish_def IsZero_def zero_key_def KeyLength_def numeral_eq_Suc)

theorem FromWgQuick_wf_witness:
  "\<exists>c. FromWgQuick demo_file ''wg0'' = Inr c \<and> Name c = ''wg0'' \<and> interface_wf (interface c) \<and>
    (\<forall>p \<in> set (Peers c). peer_wf p \<and> \<not> IsZero (PublicKey p))"
  using demo_parses FromWgQuick_wf [of demo_file "''wg0''"] by blast

definition is_header :: "string \<Rightarrow> bool" where
  "is_header line \<longleftrightarrow> ToLower (line_text line) \<in> {''[interface]'', ''[peer]''}"

lemma parse_line_in_interface:
  assumes "parse_line line st = Inr st'" "\<not> is_header line" "st_section st = inInterfaceSection"
  shows "st_section st' = inInterfaceSection \<and> st_peer st' = st_peer st \<and>
    Peers (st_conf st') = Peers (st_conf st)"
  using assms
  by (auto simp: parse_line_def is_header_def key_line_def Let_def split: if_splits option.splits)

lemma parse_lines_in_interface:
  assumes "parse_lines lines st = Inr st'" "\<forall>l \<in> set lines. \<not> is_header l"
    "st_section st = inInterfaceSection"
  shows "st_peer st' = st_peer st \<and> Peers (st_conf st') = Peers (st_conf st)"
  using assms
  by (induction lines st rule: parse_lines.induct)
    (auto split: sum.splits dest: parse_line_in_interface)

lemma parse_lines_append:
  "parse_lines (xs @ ys) st =
     (case parse_lines xs st of Inl e \<Rightarrow> Inl e | Inr st' \<Rightarrow> parse_lines ys st')"
  by (induction xs st rule: parse_lines.induct) (auto split: sum.splits)

text \<open>The order of the sections matters. When a file has its last \<^verbatim>\<open>[Interface]\<close> section
  behind a peer, that peer is in the resulting configuration twice: the section header
  appends the peer without forgetting it, and the end of the file appends it again.\<close>

theorem interface_after_peer_repeats_it:
  assumes "split_str (''\<newline>'') s = before @ [header] @ after"
    and "ToLower (line_text header) = ''[interface]''"
    and "\<forall>l \<in> set after. \<not> is_header l"
    and "parse_lines before (init_state name) = Inr st" "st_peer st = Some p"
    and "FromWgQuick s name = Inr c"
  shows "Peers c = Peers (st_conf st) @ [p, p]"
proof -
  let ?st = "st\<lparr>st_conf := maybeAddPeer (st_conf st) (st_peer st), st_section := inInterfaceSection\<rparr>"
  have hd: "parse_line header st = Inr ?st"
    using assms(2) by (auto simp: parse_line_def Let_def ToLower_def)
  obtain st' where st': "parse_lines after ?st = Inr st'" "finish st' = Inr c"
    using assms(1,4,6) hd by (auto simp: FromWgQuick_def parse_lines_append split: sum.splits)
  then have "st_peer st' = Some p \<and> Peers (st_conf st') = Peers (st_conf st) @ [p]"
    using parse_lines_in_interface [OF st'(1) assms(3)] assms(5) by simp
  with st'(2) show ?thesis
    by (auto simp: finish_def Let_def split: if_splits)
qed

definition swapped_file :: string where
  "swapped_file = ''[Peer]'' @ ''\<newline>'' @
     ''PublicKey = IB8eHRwbGhkYFxYVFBMSERAPDg0MCwoJCAcGBQQDAgE='' @ ''\<newline>'' @
     ''[Interface]'' @ ''\<newline>'' @
     ''PrivateKey = AQIDBAUGBwgJCgsMDQ4PEBESExQVFhcYGRobHB0eHyA=''"

lemma swapped_lines: "split_str (''\<newline>'') swapped_file =
   [''[Peer]'', ''PublicKey = IB8eHRwbGhkYFxYVFBMSERAPDg0MCwoJCAcGBQQDAgE=''] @
   [''[Interface]''] @ [''PrivateKey = AQIDBAUGBwgJCgsMDQ4PEBESExQVFhcYGRobHB0eHyA='']"
  by (simp add: swapped_file_def split_str.simps HasPrefix_def)

lemma swapped_first:
  "parse_lines [''[Peer]'', ''PublicKey = IB8eHRwbGhkYFxYVFBMSERAPDg0MCwoJCAcGBQQDAgE='']
     (init_state ''wg0'') =
   Inr ((init_state ''wg0'')\<lparr>st_section := inPeerSection,
     st_peer := Some (zero_peer\<lparr>PublicKey := rev (map word_of_nat [1..<33])\<rparr>)\<rparr>)"
  by (simp add: init_state_def line_eval value_eval demo_keys zero_peer_def)

lemma swapped_parses: "\<exists>c. FromWgQuick swapped_file ''wg0'' = Inr c"
  unfolding FromWgQuick_def swapped_lines init_state_def
  by (simp add: line_eval value_eval demo_keys zero_peer_def zero_interface_def)
    (simp add: finish_def IsZero_def zero_key_def KeyLength_def numeral_eq_Suc)

theorem interface_after_peer_repeats_it_witness:
  "\<exists>c. FromWgQuick swapped_file ''wg0'' = Inr c \<and>
     Peers c = [zero_peer\<lparr>PublicKey := rev (map word_of_nat [1..<33])\<rparr>,
                zero_peer\<lparr>PublicKey := rev (map word_of_nat [1..<33])\<rparr>]"
proof -
  obtain c where c: "FromWgQuick swapped_file ''wg0'' = Inr c"
    using swapped_parses by blast
  have "ToLower (line_text ''[Interface]'') = ''[interface]''"
    "\<forall>l \<in> set [''PrivateKey = AQIDBAUGBwgJCgsMDQ4PEBESExQVFhcYGRobHB0eHyA='']. \<not> is_header l"
    by (simp_all add: line_eval is_header_def)
  from interface_after_peer_repeats_it [OF swapped_lines this swapped_first _ c]
  have "Peers c = [zero_peer\<lparr>PublicKey := rev (map word_of_nat [1..<33])\<rparr>,
      zero_peer\<lparr>PublicKey := rev (map word_of_nat [1..<33])\<rparr>]"
    by (simp add: init_state_def)
  with c show ?thesis by blast
qed

end
