(* ===== verification/Wireguardapi.thy ===== *)
theory Wireguardapi
  imports Mediaapi Scanx Wireguardx
begin

text \<open>
  The service over the tunnels of the daemon, \<^verbatim>\<open>shallows/metaapi/http.wireguard.go\<close>: configurations are the files
  of a directory, and the one in use is the target of the link \<^verbatim>\<open>_current\<close>.

  The state is the file system of \<open>Osfs\<close>; the directory is an absolute path. The decoders of forms, the reader
  of the uploaded part, the names of the entries of a directory in the order \<^verbatim>\<open>ReadDir\<close> sorts them, and MD5 as
  hexadecimal text are parameters.
\<close>

section \<open>State\<close>

record Wireguard =
  wg_Id :: string

record WireguardSearchRequest =
  wq_Query :: string
  wq_Offset :: u64
  wq_Limit :: u64
  wq_Status :: u32

datatype tunnel_answer =
    WireguardSearchResponse WireguardSearchRequest "Wireguard list"
  | WireguardUploadResponse Wireguard
  | WireguardCurrentResponse Wireguard
  | WireguardTouchResponse
  | WireguardDeleteResponse Wireguard

record tunnels_env =
  te_parse :: "RegisteredClaims jwt_parse"
  te_algos :: "string list"
  te_secret :: bytes
  te_malformed :: "request \<Rightarrow> bool"
  te_answer :: "tunnel_answer \<Rightarrow> goerr + string"
  te_decode :: "request \<Rightarrow> WireguardSearchRequest \<Rightarrow> goerr + WireguardSearchRequest"
  te_content :: "request \<Rightarrow> goerr + upload_file"
  te_entries :: "os \<Rightarrow> string list \<Rightarrow> goerr + string list"
  te_md5 :: "bytes \<Rightarrow> string"
  te_random :: "nat \<Rightarrow> u32"
  te_fault :: faults
  te_dir :: string

type_synonym tunnels_handler = "(os, unit) handler"

definition Current_name :: string where "Current_name = ''_current''"

section \<open>The file system\<close>

text \<open>The name of a node from the root.\<close>

definition absolute :: "string list \<Rightarrow> string" where
  "absolute q = (if q = [] then ''/'' else concat (map (\<lambda>c. CHR ''/'' # c) q))"

text \<open>\<^verbatim>\<open>filepath.EvalSymlinks\<close> of an absolute path, with the kernel's bound on links instead of its own 255.\<close>

definition EvalSymlinks :: "faults \<Rightarrow> string \<Rightarrow> os \<Rightarrow> os \<times> (goerr + string)" where
  "EvalSymlinks fault p = syscall fault ''lstat'' p (\<lambda>st. (nodes_of st,
     case resolve st True p of
       Inl err \<Rightarrow> Inl err
     | Inr q \<Rightarrow> if q \<noteq> [] \<and> nodes_of st q = None then Inl ENOENT else Inr (absolute q)))"

text \<open>\<^verbatim>\<open>fs.WalkDir\<close> with the function of the search, which passes an error on and collects the paths of files. A path of more
  than \<open>max_depth\<close> components is too long for the kernel.\<close>

definition max_depth :: nat where "max_depth = 2048"

primrec walk_files ::
  "(os \<Rightarrow> string list \<Rightarrow> goerr + string list) \<Rightarrow> os \<Rightarrow> string list \<Rightarrow> nat \<Rightarrow> string list \<Rightarrow>
   string list \<times> goerr option \<Rightarrow> string list \<times> goerr option" where
  "walk_files entries st base 0 p acc = (fst acc, Some (PathErr ''open'' (absolute (base @ p)) (Errno EOTHER)))"
| "walk_files entries st base (Suc n) p acc =
     (if snd acc \<noteq> None then acc
      else if is_directory (nodes_of st) (base @ p) then
        (case entries st (base @ p) of
           Inl err \<Rightarrow> (fst acc, Some err)
         | Inr names \<Rightarrow> fold (\<lambda>c. walk_files entries st base n (p @ [c])) names acc)
      else if p = [Current_name] then acc
      else (fst acc @ [join_str ''/'' p], None))"

definition WalkDir :: "tunnels_env \<Rightarrow> os \<Rightarrow> os \<times> string list \<times> goerr option" where
  "WalkDir e st =
     (let root = Path_of (te_dir e) [] in
      if root = [] then (st, [], Some (PathErr ''stat'' ''.'' (Fundamental ''os: DirFS with empty root'')))
      else (case os_Stat (te_fault e) (root @ ''/.'') st of
          (st1, Inl err) \<Rightarrow> (st1, [], Some err)
        | (st1, Inr info) \<Rightarrow>
            (case resolve st1 True (root @ ''/.'') of
               Inl err \<Rightarrow> (st1, [], Some (PathErr ''open'' root (Errno err)))
             | Inr base \<Rightarrow> (st1, walk_files (te_entries e) st1 base max_depth [] ([], None)))))"

section \<open>Handlers\<close>

definition tunnel_reply :: "tunnels_env \<Rightarrow> os \<Rightarrow> response_writer \<Rightarrow> tunnel_answer \<Rightarrow> (os \<times> response_writer) outcome" where
  "tunnel_reply e st w x = Return (st, fst (WriteJSON (te_answer e) w x))"

definition needs_token :: "tunnels_env \<Rightarrow> tunnels_handler \<Rightarrow> tunnels_handler" where
  "needs_token e = AuthenticateWithToken (te_parse e) (te_algos e) (te_secret e)"

text \<open>The limit and the offset of the request are not used: every file is listed.\<close>

definition tunnels_search :: "tunnels_env \<Rightarrow> tunnels_handler" where
  "tunnels_search e st ctx w r =
     (case te_decode e r \<lparr>wq_Query = [], wq_Offset = 0, wq_Limit = 128, wq_Status = 0\<rparr> of
        Inl err \<Rightarrow> refuse st w 400
      | Inr req \<Rightarrow>
          let next = req\<lparr>wq_Limit := min_from (wq_Limit req) [128]\<rparr> in
          (case WalkDir e st of
             (st1, items, err) \<Rightarrow>
               if ErrIsNotExist err \<noteq> None \<or> err = None
               then tunnel_reply e st1 w (WireguardSearchResponse next (map Wireguard.make items))
               else refuse st1 w 400))"

text \<open>What follows the creation of the temporary file: the status of a failure, or the identifier.\<close>

definition tunnels_receive :: "tunnels_env \<Rightarrow> upload_file \<Rightarrow> string \<Rightarrow> os \<Rightarrow> os \<times> (int + string)" where
  "tunnels_receive e f tmp st =
     (case os_WriteFile (te_fault e) tmp (uf_bytes f) st of
        (st1, Inl err) \<Rightarrow> (st1, Inl 500)
      | (st1, Inr _) \<Rightarrow>
          if uf_err f \<noteq> None then (st1, Inl 500)
          else (case os_ReadFile (te_fault e) tmp st1 of
              (st2, Inl err) \<Rightarrow> (st2, Inl 400)
            | (st2, Inr raw) \<Rightarrow>
                (case FromWgQuick (bytes_string raw) ''retrovibed'' of
                   Inl err \<Rightarrow> (st2, Inl 400)
                 | Inr cfg \<Rightarrow>
                     (case os_Rename (te_fault e) tmp (Path_of (te_dir e) [te_md5 e (uf_bytes f)]) st2 of
                        (st3, Inl err) \<Rightarrow> (st3, Inl 500)
                      | (st3, Inr _) \<Rightarrow> (st3, Inr (te_md5 e (uf_bytes f)))))))"

text \<open>A response that cannot be written is a failure of the upload too: the deferred function then removes the temporary
  name, which is gone.\<close>

definition tunnels_create :: "tunnels_env \<Rightarrow> tunnels_handler" where
  "tunnels_create e st ctx w r =
     (case te_content e r of
        Inl err \<Rightarrow> refuse st w 400
      | Inr f \<Rightarrow>
          (case fsx_CreateTemp (te_fault e) (te_random e) (te_dir e) ''retrovibed.upload.*'' st of
             (st1, Inl err) \<Rightarrow> refuse st1 w 500
           | (st1, Inr tmp) \<Rightarrow>
               (case tunnels_receive e f tmp st1 of
                  (st2, Inl code) \<Rightarrow> refuse (fst (os_Remove (te_fault e) tmp st2)) w code
                | (st2, Inr ident) \<Rightarrow>
                    (case WriteJSON (te_answer e) w (WireguardUploadResponse \<lparr>wg_Id = ident\<rparr>) of
                       (w1, None) \<Rightarrow> Return (st2, w1)
                     | (w1, Some err) \<Rightarrow> Return (fst (os_Remove (te_fault e) tmp st2), w1)))))"

definition tunnels_current :: "tunnels_env \<Rightarrow> tunnels_handler" where
  "tunnels_current e st ctx w r =
     (let (st1, res) = EvalSymlinks (te_fault e) (Path_of (te_dir e) [Current_name]) st;
          realpath = (case res of Inl err \<Rightarrow> [] | Inr p \<Rightarrow> p)
      in if path_base realpath = ''.'' then refuse st1 w 404
         else (case os_ReadFile (te_fault e) realpath st1 of
             (st2, Inl err) \<Rightarrow> refuse st2 w 400
           | (st2, Inr raw) \<Rightarrow>
               (case FromWgQuick (bytes_string raw) ''retrovibed'' of
                  Inl err \<Rightarrow> refuse st2 w 400
                | Inr cfg \<Rightarrow> tunnel_reply e st2 w (WireguardCurrentResponse \<lparr>wg_Id = path_base realpath\<rparr>))))"

text \<open>Whether the file exists is not asked. A failure of \<^verbatim>\<open>Chmod\<close>, which follows the link, is only logged.\<close>

definition tunnels_touch :: "tunnels_env \<Rightarrow> string \<Rightarrow> tunnels_handler" where
  "tunnels_touch e ident st ctx w r =
     (let current = Path_of (te_dir e) [Current_name] in
      case os_RemoveAll (te_fault e) current st of
        (st1, res) \<Rightarrow>
          if IgnoreIsNotExist (errored res) \<noteq> None then refuse st1 w 400
          else (case os_Symlink (te_fault e) (Path_of (te_dir e) [ident]) current st1 of
              (st2, Inl err) \<Rightarrow> refuse st2 w 400
            | (st2, Inr _) \<Rightarrow> tunnel_reply e (fst (os_Chmod (te_fault e) current st2)) w WireguardTouchResponse))"

definition tunnels_delete :: "tunnels_env \<Rightarrow> string \<Rightarrow> tunnels_handler" where
  "tunnels_delete e ident st ctx w r =
     (case os_ReadFile (te_fault e) (Path_of (te_dir e) [ident]) st of
        (st1, Inl err) \<Rightarrow> refuse st1 w 400
      | (st1, Inr raw) \<Rightarrow>
          (case FromWgQuick (bytes_string raw) ''retrovibed'' of
             Inl err \<Rightarrow> refuse st1 w 400
           | Inr cfg \<Rightarrow>
               (case os_Remove (te_fault e) (Path_of (te_dir e) [ident]) st1 of
                  (st2, res) \<Rightarrow>
                    if IgnoreIsNotExist (errored res) \<noteq> None then refuse st2 w 400
                    else tunnel_reply e st2 w (WireguardDeleteResponse \<lparr>wg_Id = ident\<rparr>))))"

definition tunnels_Serve :: "tunnels_env \<Rightarrow> tunnels_handler" where
  "tunnels_Serve e st ctx w r =
     (if rPath r = ''/'' then
        (if rMethod r = ''GET'' then ParseForm (te_malformed e r) (needs_token e (tunnels_search e)) st ctx w r
         else if rMethod r = ''POST'' then needs_token e (tunnels_create e) st ctx w r
         else Return (st, WriteHeader 405 w))
      else if rPath r = ''/current'' \<and> rMethod r = ''GET'' then needs_token e (tunnels_current e) st ctx w r
      else (case path_id (rPath r) of
          None \<Rightarrow> Return (st, WriteHeader 404 w)
        | Some ident \<Rightarrow>
            if rMethod r = ''PUT'' then needs_token e (tunnels_touch e ident) st ctx w r
            else if rMethod r = ''DELETE'' then needs_token e (tunnels_delete e ident) st ctx w r
            else Return (st, WriteHeader 405 w)))"

section \<open>Lemmas\<close>

text \<open>Names from the root are read back as they are, and lead where they say when no link is on the way.\<close>

lemma absolute_snoc: "absolute (q @ [c]) = (if q = [] then [] else absolute q) @ CHR ''/'' # c"
  by (simp add: absolute_def)

lemma components_absolute: "list_all plain_name q \<Longrightarrow> components (absolute q) = q"
proof (induction q rule: rev_induct)
  case Nil
  then show ?case by (simp add: absolute_def components_def is_sep_def)
next
  case (snoc c q)
  then have c: "components c = [c]" by simp
  have q: "components (if q = [] then [] else absolute q) = q"
    using snoc by (auto simp: components_def [of "[]"])
  have "components (absolute (q @ [c])) = components (if q = [] then [] else absolute q) @ components c"
    unfolding absolute_snoc by (rule components_append)
  then show ?case unfolding c q .
qed

lemma absolute_rooted: "HasPrefix (absolute q) ''/''"
  by (cases q) (simp_all add: absolute_def HasPrefix_def)

lemma join_absolute: "q \<noteq> [] \<Longrightarrow> CHR ''/'' # join_str ''/'' q = absolute q"
proof (induction q rule: rev_induct)
  case (snoc c q)
  then show ?case by (cases "q = []") (auto simp: join_str_snoc absolute_snoc absolute_def)
qed simp

lemma clean_stack_plain: "list_all plain_name q \<Longrightarrow> clean_stack r st q = rev st @ q"
  by (induction q arbitrary: st) (auto simp: plain_name_def)

lemma clean_absolute: "list_all plain_name q \<Longrightarrow> q \<noteq> [] \<Longrightarrow> clean_path (absolute q)"
  using join_absolute [of q] absolute_rooted [of q]
  by (auto simp: clean_path_def path_clean_components components_absolute clean_stack_plain Let_def HasPrefix_def)

lemma base_absolute:
  assumes "plain_name c"
  shows "path_base (absolute (q @ [c])) = c"
proof -
  have c: "c \<noteq> []" "\<not> list_ex is_sep c" "\<forall>x \<in> set c. \<not> is_sep x" using assms by (auto simp: plain_name_def list_ex_iff)
  then have "dropWhile is_sep (rev (absolute (q @ [c]))) = rev (absolute (q @ [c]))"
    by (cases c rule: rev_cases) (auto simp: absolute_snoc)
  moreover have "snd (path_split (absolute (q @ [c]))) = c"
    using c(3) by (simp add: path_split_def Let_def absolute_snoc takeWhile_append is_sep_def)
  ultimately show ?thesis by (simp add: path_base_def absolute_snoc)
qed

lemma walk_straight:
  assumes "list_all plain_name cs" "\<And>k. k < length cs \<Longrightarrow> is_directory ns (d @ take k cs)"
    and "cs \<noteq> [] \<Longrightarrow> follow \<Longrightarrow> (\<And>t. ns (d @ cs) \<noteq> Some (Link t))"
  shows "walk ns follow n d cs = Inr (d @ cs)"
  using assms
proof (induction cs arbitrary: d)
  case (Cons c cs)
  have c: "c \<noteq> ''.''" "c \<noteq> ''..''" using Cons.prems(1) by (simp_all add: plain_name_def)
  show ?case
  proof (cases "cs = []")
    case True
    with c Cons.prems(3) show ?thesis by (auto split: option.splits node.splits)
  next
    case False
    then have "ns (d @ [c]) = Some Directory"
      using Cons.prems(2) [of 1] by (simp add: is_directory_def)
    moreover have "walk ns follow n (d @ [c]) cs = Inr ((d @ [c]) @ cs)"
      using Cons.prems(1,3) Cons.prems(2) [of "Suc k" for k] by (intro Cons.IH) auto
    ultimately show ?thesis using c by simp
  qed
qed simp

text \<open>The directory of the configurations, under its name from the root.\<close>

definition config_directory :: "tunnels_env \<Rightarrow> os \<Rightarrow> string list \<Rightarrow> bool" where
  "config_directory e st q \<longleftrightarrow> te_dir e = absolute q \<and> q \<noteq> [] \<and> list_all plain_name q \<and>
     is_directory (nodes_of st) q \<and> tree_ok (nodes_of st)"

lemma config_path: "config_directory e st q \<Longrightarrow> plain_name c \<Longrightarrow> Path_of (te_dir e) [c] = absolute (q @ [c])"
proof -
  assume a: "config_directory e st q" "plain_name c"
  then have "Path_of (te_dir e) [c] = path_join (absolute q) c"
    by (auto simp: config_directory_def intro: Path_of_plain clean_absolute)
  also have "\<dots> = absolute (q @ [c])"
  proof -
    obtain p x where q: "q = p @ [x]" using a(1) by (cases q rule: rev_cases) (auto simp: config_directory_def)
    then have "x \<noteq> []" "\<forall>y \<in> set x. \<not> is_sep y"
      using a(1) by (auto simp: config_directory_def plain_name_def list_ex_iff)
    then have "last (absolute q) \<noteq> CHR ''/''" by (cases x rule: rev_cases) (auto simp: q absolute_snoc is_sep_def)
    then show ?thesis by (simp add: path_join_def absolute_snoc [of q c] q) (simp add: absolute_def)
  qed
  finally show ?thesis .
qed

lemma config_above: "config_directory e st q \<Longrightarrow> is_directory (nodes_of st) (take k q)"
  using tree_ok_above [of "nodes_of st" q "take k q"]
  by (cases "take k q = q") (auto simp: config_directory_def is_directory_def)

lemma config_resolve:
  assumes "config_directory e st q" "plain_name c" "follow \<Longrightarrow> (\<And>t. nodes_of st (q @ [c]) \<noteq> Some (Link t))"
  shows "walk (nodes_of st) follow n [] (q @ [c]) = Inr (q @ [c])"
    "resolve st follow (absolute (q @ [c])) = Inr (q @ [c])"
proof -
  have q: "list_all plain_name q" "is_directory (nodes_of st) q" "tree_ok (nodes_of st)"
    using assms(1) by (simp_all add: config_directory_def)
  note config_above [OF assms(1)]
  then have "is_directory (nodes_of st) ([] @ take k (q @ [c]))" if "k < length (q @ [c])" for k
    using that q(2) by (cases "k = length q") auto
  then show w: "walk (nodes_of st) follow n [] (q @ [c]) = Inr (q @ [c])" for n
    using q(1) assms(2,3) walk_straight [of "q @ [c]" "nodes_of st" "[]" follow n] by auto
  show "resolve st follow (absolute (q @ [c])) = Inr (q @ [c])"
    using w q(1) assms(2)
    by (simp add: resolve_def walk_from_def start_of_def absolute_rooted is_directory_def components_absolute)
qed

lemma config_directory_keeps:
  "config_directory e st q \<Longrightarrow> tree_ok (nodes_of st') \<Longrightarrow> nodes_of st' q = nodes_of st q \<Longrightarrow> config_directory e st' q"
  by (auto simp: config_directory_def is_directory_def)

lemma read_config:
  assumes "config_directory e st q" "plain_name c" "\<And>t. nodes_of st (q @ [c]) \<noteq> Some (Link t)"
  shows "os_ReadFile (\<lambda>_. None) (absolute (q @ [c])) st = (st\<lparr>calls := Suc (calls st)\<rparr>,
    case nodes_of st (q @ [c]) of Some (Regular bs) \<Rightarrow> Inr bs
      | None \<Rightarrow> Inl (PathErr ''open'' (absolute (q @ [c])) (Errno ENOENT))
      | Some _ \<Rightarrow> Inl (PathErr ''open'' (absolute (q @ [c])) (Errno EOTHER)))"
  using config_resolve(2) [OF assms]
  by (auto simp: os_ReadFile_def syscall_def split: option.splits node.splits)

lemma no_directory_above: "take (length (q @ [c])) (q @ [d]) = q @ [c] \<longleftrightarrow> c = d"
  by auto

lemma plain_current: "plain_name Current_name"
  by (simp add: plain_name_def Current_name_def is_sep_def)

lemma touch_links:
  assumes "te_fault e = (\<lambda>_. None)" "config_directory e st q" "plain_name ident"
  shows "\<exists>st1. tunnels_touch e ident st ctx w r = tunnel_reply e st1 w WireguardTouchResponse \<and> config_directory e st1 q \<and>
    nodes_of st1 (q @ [Current_name]) = Some (Link (absolute (q @ [ident]))) \<and>
    (\<forall>c. c \<noteq> Current_name \<longrightarrow> nodes_of st1 (q @ [c]) = nodes_of st (q @ [c]))"
proof -
  let ?cur = "q @ [Current_name]"
  define st1 where "st1 = st\<lparr>calls := Suc (calls st), nodes_of := drop_tree ?cur (nodes_of st)\<rparr>"
  define st2 where "st2 = st1\<lparr>calls := Suc (calls st1), nodes_of := (nodes_of st1)(?cur \<mapsto> Link (absolute (q @ [ident])))\<rparr>"
  have one: "os_RemoveAll (\<lambda>_. None) (absolute ?cur) st = (st1, Inr ())"
    using config_resolve(2) [OF assms(2) plain_current, of False] by (simp add: os_RemoveAll_def syscall_def Let_def st1_def)
  have q: "nodes_of st q = Some Directory" "q \<noteq> []" "tree_ok (nodes_of st)"
    using assms(2) by (auto simp: config_directory_def is_directory_def)
  have c1: "config_directory e st1 q"
  proof (rule config_directory_keeps [OF assms(2)])
    show "tree_ok (nodes_of st1)" using tree_ok_drop_tree [OF q(3)] by (simp add: st1_def)
    show "nodes_of st1 q = nodes_of st q" by (simp add: st1_def drop_tree_def)
  qed
  have two: "os_Symlink (\<lambda>_. None) (absolute (q @ [ident])) (absolute ?cur) st1 = (st2, Inr ())"
    using config_resolve(2) [OF c1 plain_current, of False]
    by (simp add: os_Symlink_def syscall_def create_node_def Let_def st2_def) (simp add: st1_def drop_tree_def)
  have t1: "tree_ok (nodes_of st1)" "nodes_of st1 q = Some Directory" "nodes_of st1 ?cur = None"
    using c1 q(2) by (auto simp: config_directory_def is_directory_def) (simp add: st1_def drop_tree_def)
  then have "tree_ok (nodes_of st2)"
    using tree_ok_insert [of "nodes_of st1" ?cur] by (simp add: st2_def is_directory_def)
  then have c2: "config_directory e st2 q" using config_directory_keeps [OF c1, of st2] by (simp add: st2_def)
  define st3 where "st3 = fst (os_Chmod (\<lambda>_. None) (absolute ?cur) st2)"
  have same: "nodes_of st3 = nodes_of st2"
    by (auto simp: st3_def os_Chmod_def syscall_def Let_def split: sum.splits if_splits)
  have "config_directory e st3 q" using config_directory_keeps [OF c2, of st3] c2 by (simp add: same config_directory_def)
  moreover have "tunnels_touch e ident st ctx w r = tunnel_reply e st3 w WireguardTouchResponse"
    by (simp add: tunnels_touch_def assms(1) config_path [OF assms(2) plain_current] config_path [OF assms(2,3)] one two st3_def
        errored_def IgnoreIsNotExist_def)
  moreover have "nodes_of st3 (q @ [c]) = nodes_of st (q @ [c])" if "c \<noteq> Current_name" for c
    using that by (simp add: same st2_def st1_def drop_tree_def)
  ultimately show ?thesis
    by (intro exI [where x = st3]) (simp add: same st2_def)
qed

lemma link_resolves:
  assumes "config_directory e st q" "nodes_of st (q @ [Current_name]) = Some (Link (absolute (q @ [ident])))"
    and "plain_name ident" "\<And>t. nodes_of st (q @ [ident]) \<noteq> Some (Link t)"
  shows "resolve st True (absolute (q @ [Current_name])) = Inr (q @ [ident])"
proof -
  have q: "list_all plain_name q" using assms(1) by (simp add: config_directory_def)
  have "walk (nodes_of st) True max_links [] (q @ [Current_name]) = walk (nodes_of st) True max_links q [Current_name]"
    using config_above [OF assms(1)] q walk_straight [of q "nodes_of st" "[]" True 0] assms(1)
    by (intro walk_onward) (auto simp: config_directory_def is_directory_def)
  also have "\<dots> = walk (nodes_of st) True 39 [] (q @ [ident])"
    using assms(2,3) q plain_current by (simp add: absolute_rooted components_absolute max_links_def) (simp add: plain_name_def)
  also have "\<dots> = Inr (q @ [ident])" using config_resolve(1) [OF assms(1,3), of True] assms(4) by blast
  finally show ?thesis
    using q plain_current by (simp add: resolve_def walk_from_def start_of_def absolute_rooted is_directory_def components_absolute)
qed

lemma current_of_link:
  assumes "te_fault e = (\<lambda>_. None)" "config_directory e st q" "plain_name ident"
    and "nodes_of st (q @ [Current_name]) = Some (Link (absolute (q @ [ident])))"
    and "\<And>t. nodes_of st (q @ [ident]) \<noteq> Some (Link t)"
  shows "\<exists>st'. tunnels_current e st ctx w r =
      (case nodes_of st (q @ [ident]) of
         None \<Rightarrow> refuse st' w 404
       | Some (Regular raw) \<Rightarrow>
           (case FromWgQuick (bytes_string raw) ''retrovibed'' of
              Inl err \<Rightarrow> refuse st' w 400
            | Inr cfg \<Rightarrow> tunnel_reply e st' w (WireguardCurrentResponse \<lparr>wg_Id = ident\<rparr>))
       | Some _ \<Rightarrow> refuse st' w 400)"
proof -
  let ?st = "st\<lparr>calls := Suc (calls st)\<rparr>"
  have eval: "EvalSymlinks (\<lambda>_. None) (Path_of (te_dir e) [Current_name]) st = (?st,
      if nodes_of st (q @ [ident]) = None then Inl (PathErr ''lstat'' (absolute (q @ [Current_name])) (Errno ENOENT))
      else Inr (absolute (q @ [ident])))"
    using link_resolves [OF assms(2,4,3,5)]
    by (simp add: EvalSymlinks_def syscall_def config_path [OF assms(2) plain_current])
  have dir: "config_directory e ?st q" using assms(2) by (simp add: config_directory_def)
  have base: "path_base (absolute (q @ [ident])) = ident" "ident \<noteq> ''.''" "path_base [] = ''.''"
    using assms(3) by (simp_all add: base_absolute) (simp_all add: plain_name_def path_base_def)
  show ?thesis
    using read_config [OF dir assms(3)] assms(5)
    by (intro exI [where x = "if nodes_of st (q @ [ident]) = None then ?st else ?st\<lparr>calls := Suc (calls ?st)\<rparr>"])
      (auto simp: tunnels_current_def eval base assms(1) split: option.splits node.splits sum.splits)
qed

text \<open>An upload of a file that parses stores it under its identifier.\<close>

definition upload_name :: "tunnels_env \<Rightarrow> string" where
  "upload_name e = ''retrovibed.upload.'' @ format_nat (unat (te_random e 0))"

lemma plain_upload_name: "plain_name (upload_name e)"
proof -
  have "\<not> is_sep c" if "c \<in> set (format_nat n)" for c n
    using format_nat_no_char [of "CHR ''/''" n] that by (auto simp: is_sep_def is_digit_def)
  then show ?thesis by (auto simp: plain_name_def upload_name_def list_ex_iff is_sep_def)
qed

lemma upload_created:
  assumes "te_fault e = (\<lambda>_. None)" "config_directory e st q" "nodes_of st (q @ [upload_name e]) = None"
  shows "fsx_CreateTemp (te_fault e) (te_random e) (te_dir e) ''retrovibed.upload.*'' st =
    (st\<lparr>calls := Suc (calls st), nodes_of := (nodes_of st)(q @ [upload_name e] \<mapsto> Regular [])\<rparr>,
     Inr (absolute (q @ [upload_name e])))"
proof -
  have "path_join_list [upload_name e] = upload_name e"
    using path_clean_plain [OF plain_upload_name] by (simp add: upload_name_def)
  then have name: "path_join_list [te_dir e, upload_name e] = absolute (q @ [upload_name e])"
    using config_path [OF assms(2) plain_upload_name, of e] by (simp only: Path_of_def)
  have split: "prefixAndSuffix ''retrovibed.upload.*'' = Inr (''retrovibed.upload.'', [])"
    by (simp add: prefixAndSuffix_def is_sep_def)
  have "dirvirt_CreateExcl (te_fault e) (te_dir e) (upload_name e) st =
      (st\<lparr>calls := Suc (calls st), nodes_of := (nodes_of st)(q @ [upload_name e] \<mapsto> Regular [])\<rparr>, Inr ())"
    unfolding dirvirt_CreateExcl_def name os_CreateExcl_def
    using config_resolve(2) [OF assms(2) plain_upload_name, of False] assms(1,3)
    by (simp add: syscall_def create_node_def Let_def)
  then have loop: "create_temp_loop (dirvirt_CreateExcl (te_fault e) (te_dir e)) (te_random e) ''retrovibed.upload.'' [] 0 (Suc n) st =
      (st\<lparr>calls := Suc (calls st), nodes_of := (nodes_of st)(q @ [upload_name e] \<mapsto> Regular [])\<rparr>, Inr (upload_name e))" for n
    by (simp add: upload_name_def Let_def)
  have tries: "temp_tries = Suc 9999" by (simp add: temp_tries_def)
  show ?thesis
    unfolding fsx_CreateTemp_def split tries by (simp only: loop name sum.case prod.case)
qed

lemma upload_stores:
  assumes "te_fault e = (\<lambda>_. None)" "config_directory e st q" "nodes_of st (q @ [upload_name e]) = None"
    and "te_content e r = Inr f" "uf_err f = None" "FromWgQuick (bytes_string (uf_bytes f)) ''retrovibed'' = Inr cfg"
    and "te_md5 e (uf_bytes f) = ident" "plain_name ident" "nodes_of st (q @ [ident]) \<noteq> Some Directory"
    and "te_answer e (WireguardUploadResponse \<lparr>wg_Id = ident\<rparr>) = Inr body"
  shows "\<exists>st1. tunnels_create e st ctx w r = tunnel_reply e st1 w (WireguardUploadResponse \<lparr>wg_Id = ident\<rparr>) \<and>
    config_directory e st1 q \<and> nodes_of st1 (q @ [ident]) = Some (Regular (uf_bytes f))"
proof -
  let ?tmp = "q @ [upload_name e]" and ?id = "q @ [ident]"
  define st1 where "st1 = st\<lparr>calls := Suc (calls st), nodes_of := (nodes_of st)(?tmp \<mapsto> Regular [])\<rparr>"
  define st2 where "st2 = st1\<lparr>calls := Suc (calls st1), nodes_of := (nodes_of st)(?tmp \<mapsto> Regular (uf_bytes f))\<rparr>"
  define st3 where "st3 = st2\<lparr>calls := Suc (calls st2)\<rparr>"
  have q: "nodes_of st q = Some Directory" "q \<noteq> []" "tree_ok (nodes_of st)"
    using assms(2) by (auto simp: config_directory_def is_directory_def)
  have tree: "tree_ok ((nodes_of st)(?tmp \<mapsto> Regular bs))" for bs
    using q assms(3) by (intro tree_ok_insert) (auto simp: is_directory_def)
  have dir: "config_directory e st1 q" "config_directory e st2 q" "config_directory e st3 q"
    using tree by (auto intro!: config_directory_keeps [OF assms(2)] simp: st1_def st2_def st3_def)
  have wrote: "os_WriteFile (\<lambda>_. None) (absolute ?tmp) (uf_bytes f) st1 = (st2, Inr ())"
    using config_resolve(2) [OF dir(1) plain_upload_name, of True] q(2)
    by (simp add: os_WriteFile_def os_Write_def syscall_def Let_def) (simp add: st1_def st2_def)
  have read: "os_ReadFile (\<lambda>_. None) (absolute ?tmp) st2 = (st3, Inr (uf_bytes f))"
    using read_config [OF dir(2) plain_upload_name] by (simp add: st2_def st3_def)
  have held: "nodes_of st3 ?tmp = Some (Regular (uf_bytes f))" "tree_ok (nodes_of st3)"
    using tree by (simp_all add: st3_def st2_def)
  have free: "nodes_of st3 ?id \<noteq> Some Directory"
    using assms(9) by (simp add: st3_def st2_def)
  have "snd (os_Rename (\<lambda>_. None) (absolute ?tmp) (absolute ?id) st3) = Inr ()"
    using config_resolve(2) [OF dir(3) plain_upload_name, of False] config_resolve(2) [OF dir(3) assms(8), of False] held(1) free
    by (simp add: os_Rename_def syscall_def Let_def is_directory_def)
  then obtain st4 where move: "os_Rename (\<lambda>_. None) (absolute ?tmp) (absolute ?id) st3 = (st4, Inr ())"
    by (metis prod.collapse)
  have kept: "nodes_of st4 ?id = Some (Regular (uf_bytes f))" "nodes_of st4 q = Some Directory"
    using os_Rename_file [OF move config_resolve(2) [OF dir(3) plain_upload_name] held(1) config_resolve(2) [OF dir(3) assms(8)] held(2)]
      dir(3) q(2) by (auto simp: config_directory_def is_directory_def)
  have "tree_ok (nodes_of st4)"
    using os_Rename_tree_ok [OF held(2), of "\<lambda>_. None" "absolute ?tmp" "absolute ?id"] move by simp
  then have "config_directory e st4 q" using config_directory_keeps [OF assms(2)] kept(2) q(1) by simp
  moreover have "tunnels_create e st ctx w r = tunnel_reply e st4 w (WireguardUploadResponse \<lparr>wg_Id = ident\<rparr>)"
    using upload_created [OF assms(1-3)] wrote read move assms(1,4-7,10) config_path [OF assms(2,8)]
    by (simp add: tunnels_create_def tunnels_receive_def tunnel_reply_def WriteJSON_def Let_def flip: st1_def)
  ultimately show ?thesis using kept(1) by blast
qed

section \<open>Properties\<close>

text \<open>C9: what is uploaded can be put to use. A configuration that parses and is uploaded is answered with an identifier;
  touching that identifier and asking for the current tunnel is answered with it.\<close>

theorem uploaded_tunnel_current:
  assumes "te_fault e = (\<lambda>_. None)" "config_directory e st q" "nodes_of st (q @ [upload_name e]) = None"
    and "te_content e r = Inr f" "uf_err f = None" "FromWgQuick (bytes_string (uf_bytes f)) ''retrovibed'' = Inr cfg"
    and "te_md5 e (uf_bytes f) = ident" "plain_name ident" "nodes_of st (q @ [ident]) \<noteq> Some Directory"
    and "te_answer e (WireguardUploadResponse \<lparr>wg_Id = ident\<rparr>) = Inr body" "ident \<noteq> Current_name"
  shows "\<exists>st1 st2 st3. tunnels_create e st () w r = tunnel_reply e st1 w (WireguardUploadResponse \<lparr>wg_Id = ident\<rparr>) \<and>
    tunnels_touch e ident st1 () w' r' = tunnel_reply e st2 w' WireguardTouchResponse \<and>
    tunnels_current e st2 () w'' r'' = tunnel_reply e st3 w'' (WireguardCurrentResponse \<lparr>wg_Id = ident\<rparr>)"
proof -
  obtain st1 where one: "tunnels_create e st () w r = tunnel_reply e st1 w (WireguardUploadResponse \<lparr>wg_Id = ident\<rparr>)"
    "config_directory e st1 q" "nodes_of st1 (q @ [ident]) = Some (Regular (uf_bytes f))"
    using upload_stores [OF assms(1-10)] by blast
  obtain st2 where two: "tunnels_touch e ident st1 () w' r' = tunnel_reply e st2 w' WireguardTouchResponse"
    "config_directory e st2 q" "nodes_of st2 (q @ [Current_name]) = Some (Link (absolute (q @ [ident])))"
    "nodes_of st2 (q @ [ident]) = Some (Regular (uf_bytes f))"
    using touch_links [OF assms(1) one(2) assms(8), of "()" w' r'] assms(11) one(3) by auto
  with current_of_link [OF assms(1) two(2) assms(8) two(3)] assms(6) one(1) show ?thesis by fastforce
qed

text \<open>Touching a tunnel makes it the current one, whether it is there or not. The request for the current tunnel is
  answered with the touched identifier when that is a file that parses; and when there is no such file, the tunnel
  that was current before is lost and there is none.\<close>

theorem touch_then_current:
  assumes "te_fault e = (\<lambda>_. None)" "config_directory e st q" "plain_name ident" "ident \<noteq> Current_name"
    and "\<And>t. nodes_of st (q @ [ident]) \<noteq> Some (Link t)"
  shows "\<exists>st1 st2. tunnels_touch e ident st () w r = tunnel_reply e st1 w WireguardTouchResponse \<and>
    tunnels_current e st1 () w' r' =
      (case nodes_of st (q @ [ident]) of
         None \<Rightarrow> refuse st2 w' 404
       | Some (Regular raw) \<Rightarrow>
           (case FromWgQuick (bytes_string raw) ''retrovibed'' of
              Inl err \<Rightarrow> refuse st2 w' 400
            | Inr cfg \<Rightarrow> tunnel_reply e st2 w' (WireguardCurrentResponse \<lparr>wg_Id = ident\<rparr>))
       | Some _ \<Rightarrow> refuse st2 w' 400)"
proof -
  obtain st1 where one: "tunnels_touch e ident st () w r = tunnel_reply e st1 w WireguardTouchResponse"
    "config_directory e st1 q" "nodes_of st1 (q @ [Current_name]) = Some (Link (absolute (q @ [ident])))"
    "nodes_of st1 (q @ [ident]) = nodes_of st (q @ [ident])"
    using touch_links [OF assms(1-3)] assms(4) by blast
  have "nodes_of st1 (q @ [ident]) \<noteq> Some (Link t)" for t using assms(5) one(4) by simp
  with current_of_link [OF assms(1) one(2) assms(3) one(3)] one(1,4) show ?thesis by simp blast
qed

definition demo_tunnels :: tunnels_env where
  "demo_tunnels = \<lparr>te_parse = (\<lambda>_ _ s. Inl (Fundamental ''invalid'')), te_algos = [''HS512''], te_secret = [],
     te_malformed = (\<lambda>_. False), te_answer = (\<lambda>_. Inr ''{}''), te_decode = (\<lambda>_ req. Inr req),
     te_content = (\<lambda>_. Inr \<lparr>uf_bytes = string_bytes demo_file, uf_err = None, uf_Filename = ''f'', uf_ContentType = ''t''\<rparr>),
     te_entries = (\<lambda>_ _. Inr []), te_md5 = (\<lambda>_. ''0f''), te_random = (\<lambda>_. 7), te_fault = (\<lambda>_. None), te_dir = ''/w''\<rparr>"

definition demo_disk :: os where
  "demo_disk = \<lparr>nodes_of = [[''w''] \<mapsto> Directory, [''w'', Current_name] \<mapsto> Link ''/w/a''], cwd = [], calls = 0\<rparr>"

lemma demo_disk_ok: "config_directory demo_tunnels demo_disk [''w'']" "te_fault demo_tunnels = (\<lambda>_. None)"
  by (auto simp: config_directory_def demo_tunnels_def demo_disk_def absolute_def plain_name_def is_sep_def is_directory_def
      tree_ok_def append_eq_Cons_conv)

lemma bytes_of_string: "bytes_string (string_bytes s) = s"
  by (simp add: bytes_string_def string_bytes_def o_def unat_of_nat)

theorem touch_then_current_witness:
  "\<exists>st1 st2. tunnels_touch demo_tunnels ''b'' demo_disk () fresh_response post_abc =
      tunnel_reply demo_tunnels st1 fresh_response WireguardTouchResponse \<and>
    tunnels_current demo_tunnels st1 () fresh_response post_abc = refuse st2 fresh_response 404"
  using touch_then_current [OF demo_disk_ok(2,1), of "''b''" fresh_response post_abc fresh_response post_abc]
  by (simp add: demo_disk_def plain_name_def is_sep_def Current_name_def)

theorem uploaded_tunnel_current_witness:
  "\<exists>st1 st2 st3. tunnels_create demo_tunnels demo_disk () fresh_response post_abc =
      tunnel_reply demo_tunnels st1 fresh_response (WireguardUploadResponse \<lparr>wg_Id = ''0f''\<rparr>) \<and>
    tunnels_touch demo_tunnels ''0f'' st1 () fresh_response post_abc =
      tunnel_reply demo_tunnels st2 fresh_response WireguardTouchResponse \<and>
    tunnels_current demo_tunnels st2 () fresh_response post_abc =
      tunnel_reply demo_tunnels st3 fresh_response (WireguardCurrentResponse \<lparr>wg_Id = ''0f''\<rparr>)"
proof -
  have name: "upload_name demo_tunnels = ''retrovibed.upload.7''"
    by (simp add: upload_name_def demo_tunnels_def) code_simp
  obtain cfg where "FromWgQuick demo_file ''retrovibed'' = Inr cfg" using demo_parses by blast
  then show ?thesis
    using uploaded_tunnel_current [OF demo_disk_ok(2,1), of post_abc _ cfg "''0f''" "''{}''" fresh_response fresh_response post_abc
        fresh_response post_abc]
    by (simp add: name) (simp add: demo_tunnels_def demo_disk_def bytes_of_string plain_name_def is_sep_def Current_name_def)
qed

end
