(* ===== verification/Natpmp.thy ===== *)
theory Natpmp
  imports Errorsx Langx
begin

text \<open>
  The package \<^verbatim>\<open>shallows/internal/natpmp\<close>: the client of the NAT port mapping protocol
  that opens the port of the torrent client on the router.

  A message is a list of bytes, a 16- or 32-bit field is written and read in network
  byte order. The socket is the environment: round \<open>k\<close> of the retransmission loop is
  described by a \<open>round\<close> record, the values of the clock, of \<^verbatim>\<open>SetDeadline\<close>, of \<^verbatim>\<open>Write\<close>
  and of \<^verbatim>\<open>ReadFrom\<close> there. A packet of a stranger makes the loop go round without
  counting, so the loop has fuel, and a statement on it says which fuel is enough. The
  zero \<^verbatim>\<open>time.Time\<close> is \<open>None\<close>. An address is a value of any type with its rendering.
\<close>

unbundle bit_operations_syntax

section \<open>Network byte order\<close>

definition writeNetworkOrderUint16 :: "bytes \<Rightarrow> nat \<Rightarrow> u16 \<Rightarrow> bytes" where
  "writeNetworkOrderUint16 msg off d = msg[off := ucast (drop_bit 8 d), off + 1 := ucast d]"

definition writeNetworkOrderUint32 :: "bytes \<Rightarrow> nat \<Rightarrow> u32 \<Rightarrow> bytes" where
  "writeNetworkOrderUint32 msg off d =
     msg[off := ucast (drop_bit 24 d), off + 1 := ucast (drop_bit 16 d),
         off + 2 := ucast (drop_bit 8 d), off + 3 := ucast d]"

definition readNetworkOrderUint16 :: "bytes \<Rightarrow> u16" where
  "readNetworkOrderUint16 buf = push_bit 8 (ucast (buf ! 0)) OR ucast (buf ! 1)"

definition readNetworkOrderUint32 :: "bytes \<Rightarrow> u32" where
  "readNetworkOrderUint32 buf =
     push_bit 24 (ucast (buf ! 0)) OR push_bit 16 (ucast (buf ! 1)) OR
     push_bit 8 (ucast (buf ! 2)) OR ucast (buf ! 3)"

text \<open>The reference: the bytes of a number, most significant first.\<close>

definition be16 :: "u16 \<Rightarrow> bytes" where
  "be16 d = [ucast (drop_bit 8 d), ucast d]"

definition be32 :: "u32 \<Rightarrow> bytes" where
  "be32 d = [ucast (drop_bit 24 d), ucast (drop_bit 16 d), ucast (drop_bit 8 d), ucast d]"

lemma length_be [simp]: "length (be16 d) = 2" "length (be32 e) = 4"
  by (simp_all add: be16_def be32_def)

lemma byte_bit_high [simp]: "8 \<le> n \<Longrightarrow> \<not> bit (b :: byte) n"
  using bit_imp_le_length [of b n] by auto

lemma read_be16 [simp]: "readNetworkOrderUint16 (be16 d) = d"
proof (rule bit_word_eqI)
  fix n
  show "bit (readNetworkOrderUint16 (be16 d)) n = bit d n" if "n < LENGTH(16)"
    using that
    by (cases "n < 8") (auto simp: readNetworkOrderUint16_def be16_def bit_simps)
qed

lemma read_be32 [simp]: "readNetworkOrderUint32 (be32 d) = d"
proof (rule bit_word_eqI)
  fix n
  show "bit (readNetworkOrderUint32 (be32 d)) n = bit d n" if "n < LENGTH(32)"
    using that
    by (cases "n < 8"; cases "n < 16"; cases "n < 24")
      (auto simp: readNetworkOrderUint32_def be32_def bit_simps)
qed

lemma be16_read: "be16 (readNetworkOrderUint16 [a, b]) = [a, b]"
  unfolding be16_def readNetworkOrderUint16_def
  by (auto intro!: bit_word_eqI simp: bit_simps)

lemma be32_read: "be32 (readNetworkOrderUint32 [a, b, c, d]) = [a, b, c, d]"
  unfolding be32_def readNetworkOrderUint32_def
  by (auto intro!: bit_word_eqI simp: bit_simps)

section \<open>The client\<close>

definition nAT_PMP_PORT :: int where "nAT_PMP_PORT = 5351"
definition nAT_TRIES :: nat where "nAT_TRIES = 9"
definition nAT_INITIAL_MS :: int where "nAT_INITIAL_MS = 250"

datatype 'a reading = Received bytes 'a | ReadTimeout | ReadFailed goerr

record 'a round =
  loop_now :: int
  deadline_now :: int
  deadline_err :: "goerr option"
  write_err :: "goerr option"
  reading :: "'a reading"

text \<open>A dialer answers with an error, or with the moment of the call and the connection.\<close>

type_synonym 'a dialer = "string \<Rightarrow> string \<Rightarrow> goerr + (int \<times> (nat \<Rightarrow> 'a round))"

record 'a Client =
  gateway :: 'a
  c_dialer :: "'a dialer"
  timeout :: int

definition OptionDialer :: "'a dialer \<Rightarrow> 'a Client \<Rightarrow> 'a Client" where
  "OptionDialer d c = c\<lparr>c_dialer := d\<rparr>"

definition OptionTimeout :: "int \<Rightarrow> 'a Client \<Rightarrow> 'a Client" where
  "OptionTimeout d c = c\<lparr>timeout := d\<rparr>"

definition NewClient :: "'a dialer \<Rightarrow> 'a \<Rightarrow> ('a Client \<Rightarrow> 'a Client) list \<Rightarrow> 'a Client" where
  "NewClient netdialer gw options =
     Clone \<lparr>gateway = gw, c_dialer = netdialer, timeout = 0\<rparr> options"

text \<open>What the socket has seen: the deadlines set and the messages written, in order.\<close>

record netlog =
  deadlines :: "int option list"
  writes :: "bytes list"

definition minTime :: "int option \<Rightarrow> int option \<Rightarrow> int option" where
  "minTime a b =
     (case a of None \<Rightarrow> b
      | Some x \<Rightarrow> (case b of None \<Rightarrow> a | Some y \<Rightarrow> if x < y then a else b))"

definition before :: "int \<Rightarrow> int option \<Rightarrow> bool" where
  "before now t = (case t of None \<Rightarrow> False | Some x \<Rightarrow> now < x)"

definition shifted_deadline :: "int \<Rightarrow> nat \<Rightarrow> int" where
  "shifted_deadline now tries = now + i64 (i64 (nAT_INITIAL_MS * 2 ^ tries) * 1000000)"

type_synonym call_result = "(bytes option \<times> goerr option) \<times> netlog"

fun call_loop ::
  "'a \<Rightarrow> bytes \<Rightarrow> int option \<Rightarrow> (nat \<Rightarrow> 'a round) \<Rightarrow> nat \<Rightarrow> nat \<Rightarrow> nat \<Rightarrow> bool \<Rightarrow> bytes \<Rightarrow> netlog \<Rightarrow>
   call_result option" where
  "call_loop gw msg final conn 0 k tries needNew result lg = None"
| "call_loop gw msg final conn (Suc fuel) k tries needNew result lg =
     (let r = conn k in
      if \<not> ((tries < nAT_TRIES \<and> final = None) \<or> before (loop_now r) final)
      then Some ((None, Some (Fundamental ''timed out trying to contact gateway'')), lg)
      else
        let nextDeadline = Some (shifted_deadline (deadline_now r) tries);
            log1 = (if needNew then lg\<lparr>deadlines := deadlines lg @ [minTime nextDeadline final]\<rparr>
                    else lg) in
        if needNew \<and> deadline_err r \<noteq> None then Some ((Some result, deadline_err r), log1)
        else
          let log2 = log1\<lparr>writes := writes log1 @ [msg]\<rparr> in
          (case write_err r of
             Some e \<Rightarrow> Some ((Some result, Some e), log2)
           | None \<Rightarrow>
             (case reading r of
                ReadTimeout \<Rightarrow>
                  call_loop gw msg final conn fuel (k + 1) (tries + 1) True result log2
              | ReadFailed e \<Rightarrow> Some ((Some result, Some e), log2)
              | Received packet peer \<Rightarrow>
                  let bytesRead = min (length packet) (length result);
                      result' = take bytesRead packet @ drop bytesRead result in
                  if peer \<noteq> gw
                  then call_loop gw msg final conn fuel (k + 1) tries False result' log2
                  else Some ((Some (take bytesRead result'), None), log2))))"

definition call ::
  "('a \<Rightarrow> string) \<Rightarrow> nat \<Rightarrow> 'a dialer \<Rightarrow> 'a \<Rightarrow> bytes \<Rightarrow> int \<Rightarrow> call_result option" where
  "call addr_string fuel dial gw msg tmo =
     (case dial ''udp'' (addr_string gw @ '':'' @ format_int nAT_PMP_PORT) of
        Inl e \<Rightarrow> Some ((None, Some e), \<lparr>deadlines = [], writes = []\<rparr>)
      | Inr (now, conn) \<Rightarrow>
          call_loop gw msg (if tmo \<noteq> 0 then Some (now + tmo) else None) conn fuel 0 0 True
            (replicate 16 0) \<lparr>deadlines = [], writes = []\<rparr>)"

section \<open>Requests\<close>

definition protocolChecks :: "bytes \<Rightarrow> nat \<Rightarrow> bytes \<Rightarrow> goerr option" where
  "protocolChecks msg resultSize result =
     (if length result \<noteq> resultSize
      then Some (Fundamental (''unexpected result size '' @ format_nat (length result) @
        '', expected '' @ format_nat resultSize))
      else if result ! 0 \<noteq> 0
      then Some (Fundamental (''unknown protocol version '' @ format_nat (unat (result ! 0))))
      else
        let expectedOp = (msg ! 1) OR 0x80 in
        if result ! 1 \<noteq> expectedOp
        then Some (Fundamental (''unexpected opcode '' @ format_nat (unat (result ! 1)) @
          ''. Expected '' @ format_nat (unat expectedOp)))
        else
          let resultCode = readNetworkOrderUint16 (slice 2 2 result) in
          if resultCode \<noteq> 0
          then Some (Fundamental (''non-zero result code '' @ format_nat (unat resultCode)))
          else None)"

definition rpc ::
  "('a \<Rightarrow> string) \<Rightarrow> nat \<Rightarrow> 'a Client \<Rightarrow> bytes \<Rightarrow> nat \<Rightarrow> (bytes option \<times> goerr option) option" where
  "rpc addr_string fuel n msg resultSize =
     (case call addr_string fuel (c_dialer n) (gateway n) msg (timeout n) of
        None \<Rightarrow> None
      | Some ((result, err), lg) \<Rightarrow>
          if err \<noteq> None then Some (None, err)
          else (case result of
             None \<Rightarrow> Some (None, protocolChecks msg resultSize [])
           | Some r \<Rightarrow> Some (Some r, protocolChecks msg resultSize r)))"

record GetExternalAddressResult =
  ea_SecondsSinceStartOfEpoc :: u32
  ExternalIPAddress :: bytes

record AddPortMappingResult =
  pm_SecondsSinceStartOfEpoc :: u32
  InternalPort :: u16
  MappedExternalPort :: u16
  PortMappingLifetimeInSeconds :: u32

definition GetExternalAddress ::
  "('a \<Rightarrow> string) \<Rightarrow> nat \<Rightarrow> 'a Client \<Rightarrow> (goerr + GetExternalAddressResult) option" where
  "GetExternalAddress addr_string fuel n =
     (case rpc addr_string fuel n [0, 0] 12 of
        None \<Rightarrow> None
      | Some (response, Some e) \<Rightarrow> Some (Inl e)
      | Some (response, None) \<Rightarrow>
          let b = (case response of None \<Rightarrow> [] | Some b \<Rightarrow> b) in
          Some (Inr \<lparr>ea_SecondsSinceStartOfEpoc = readNetworkOrderUint32 (slice 4 4 b),
                     ExternalIPAddress = slice 8 4 b\<rparr>))"

definition mapping_opcode :: "string \<Rightarrow> byte option" where
  "mapping_opcode protocol =
     (if protocol = ''udp'' then Some 1 else if protocol = ''tcp'' then Some 2 else None)"

definition mapping_msg :: "byte \<Rightarrow> int \<Rightarrow> int \<Rightarrow> int \<Rightarrow> bytes" where
  "mapping_msg opcode internalPort requestedExternalPort lifetime =
     (let msg = (replicate 12 0)[0 := 0, 1 := opcode];
          msg = writeNetworkOrderUint16 msg 4 (word_of_int internalPort);
          msg = writeNetworkOrderUint16 msg 6 (word_of_int requestedExternalPort)
      in writeNetworkOrderUint32 msg 8 (word_of_int lifetime))"

definition AddPortMapping ::
  "('a \<Rightarrow> string) \<Rightarrow> nat \<Rightarrow> 'a Client \<Rightarrow> string \<Rightarrow> int \<Rightarrow> int \<Rightarrow> int \<Rightarrow>
   (goerr + AddPortMappingResult) option" where
  "AddPortMapping addr_string fuel n protocol internalPort requestedExternalPort lifetime =
     (case mapping_opcode protocol of
        None \<Rightarrow> Some (Inl (Fundamental (''unknown protocol '' @ protocol)))
      | Some opcode \<Rightarrow>
          (case rpc addr_string fuel n
                  (mapping_msg opcode internalPort requestedExternalPort lifetime) 16 of
             None \<Rightarrow> None
           | Some (response, Some e) \<Rightarrow> Some (Inl e)
           | Some (response, None) \<Rightarrow>
               let b = (case response of None \<Rightarrow> [] | Some b \<Rightarrow> b) in
               Some (Inr \<lparr>pm_SecondsSinceStartOfEpoc = readNetworkOrderUint32 (slice 4 4 b),
                          InternalPort = readNetworkOrderUint16 (slice 8 2 b),
                          MappedExternalPort = readNetworkOrderUint16 (slice 10 2 b),
                          PortMappingLifetimeInSeconds =
                            readNetworkOrderUint32 (slice 12 4 b)\<rparr>)))"

section \<open>Lemmas on messages\<close>

lemma list_update_Cons_numeral [simp]:
  "(x # xs)[numeral k := y] = x # xs[pred_numeral k := y]"
  by (simp add: numeral_eq_Suc)

lemma replicate_12: "replicate 12 (0 :: byte) = [0, 0, 0, 0, 0, 0, 0, 0, 0, 0, 0, 0]"
  by (simp add: numeral_eq_Suc)

lemma mapping_msg_eq:
  "mapping_msg opcode internalPort requestedExternalPort lifetime =
     [0, opcode, 0, 0] @ be16 (word_of_int internalPort) @
     be16 (word_of_int requestedExternalPort) @ be32 (word_of_int lifetime)"
  unfolding mapping_msg_def replicate_12 writeNetworkOrderUint16_def
    writeNetworkOrderUint32_def be16_def be32_def Let_def
  by simp

lemma length_16E:
  assumes "length b = 16"
  obtains b0 b1 b2 b3 b4 b5 b6 b7 b8 b9 b10 b11 b12 b13 b14 b15 where
    "b = [b0, b1, b2, b3, b4, b5, b6, b7, b8, b9, b10, b11, b12, b13, b14, b15]"
proof -
  have "length b = Suc (Suc (Suc (Suc (Suc (Suc (Suc (Suc (Suc (Suc (Suc (Suc (Suc (Suc (Suc (Suc 0)))))))))))))))"
    using assms by simp
  then show thesis
    by (auto simp only: length_Suc_conv length_0_conv intro: that)
qed

lemma read16_0_iff: "readNetworkOrderUint16 [a, b] = 0 \<longleftrightarrow> a = 0 \<and> b = 0"
proof
  assume "readNetworkOrderUint16 [a, b] = 0"
  then show "a = 0 \<and> b = 0"
    using be16_read [of a b] by (simp add: be16_def)
qed (simp add: readNetworkOrderUint16_def)

text \<open>The checks of a reply, and the fields read from it, as an equation on the reply.\<close>

definition mapping_reply :: "byte \<Rightarrow> AddPortMappingResult \<Rightarrow> bytes" where
  "mapping_reply opcode r =
     [0, opcode OR 0x80, 0, 0] @ be32 (pm_SecondsSinceStartOfEpoc r) @ be16 (InternalPort r) @
     be16 (MappedExternalPort r) @ be32 (PortMappingLifetimeInSeconds r)"

definition read_mapping :: "bytes \<Rightarrow> AddPortMappingResult" where
  "read_mapping b =
     \<lparr>pm_SecondsSinceStartOfEpoc = readNetworkOrderUint32 (slice 4 4 b),
      InternalPort = readNetworkOrderUint16 (slice 8 2 b),
      MappedExternalPort = readNetworkOrderUint16 (slice 10 2 b),
      PortMappingLifetimeInSeconds = readNetworkOrderUint32 (slice 12 4 b)\<rparr>"

lemma protocolChecks_None_iff:
  "protocolChecks msg sz b = None \<longleftrightarrow>
     length b = sz \<and> b ! 0 = 0 \<and> b ! 1 = (msg ! 1) OR 0x80 \<and>
     readNetworkOrderUint16 (slice 2 2 b) = 0"
  by (auto simp: protocolChecks_def Let_def)

lemma reply_iff:
  assumes "msg ! 1 = opcode"
  shows "protocolChecks msg 16 b = None \<and> read_mapping b = r \<longleftrightarrow> b = mapping_reply opcode r"
proof
  assume ok: "protocolChecks msg 16 b = None \<and> read_mapping b = r"
  then have "length b = 16"
    by (simp add: protocolChecks_None_iff)
  then obtain b0 b1 b2 b3 b4 b5 b6 b7 b8 b9 b10 b11 b12 b13 b14 b15 where
    b: "b = [b0, b1, b2, b3, b4, b5, b6, b7, b8, b9, b10, b11, b12, b13, b14, b15]"
    by (rule length_16E)
  show "b = mapping_reply opcode r"
    using ok assms
    by (auto simp: b protocolChecks_None_iff mapping_reply_def read_mapping_def slice_def
        read16_0_iff be16_read be32_read)
next
  assume b: "b = mapping_reply opcode r"
  have sl: "slice 2 2 b = [0, 0]" "slice 4 4 b = be32 (pm_SecondsSinceStartOfEpoc r)"
    "slice 8 2 b = be16 (InternalPort r)" "slice 10 2 b = be16 (MappedExternalPort r)"
    "slice 12 4 b = be32 (PortMappingLifetimeInSeconds r)"
    by (simp_all add: b mapping_reply_def slice_def)
  have "read_mapping b = r"
    by (simp add: read_mapping_def sl)
  moreover have "protocolChecks msg 16 b = None"
    using assms by (simp add: protocolChecks_None_iff sl read16_0_iff)
      (simp add: b mapping_reply_def)
  ultimately show "protocolChecks msg 16 b = None \<and> read_mapping b = r"
    by simp
qed

section \<open>Lemmas on the retransmission loop\<close>

lemma take_min_length: "take (min (length xs) n) xs = take n xs"
  by (cases "length xs \<le> n") (auto simp: min_def)

text \<open>A reply the loop returns is a packet of the gateway, cut to the buffer.\<close>

lemma call_loop_step:
  assumes "call_loop gw msg final conn (Suc fuel) k tries needNew result lg = Some ((Some b, None), lg')"
  obtains (finished) packet where "reading (conn k) = Received packet gw"
      "b = take (length result) packet"
  | (again) tries' needNew' result' lg'' where "length result' = length result"
      "call_loop gw msg final conn fuel (k + 1) tries' needNew' result' lg'' = Some ((Some b, None), lg')"
proof (cases "reading (conn k)")
  case (Received packet peer)
  then show thesis
    using assms by (cases "peer = gw")
      (auto simp: Let_def take_min_length split: if_splits option.splits
        intro: finished again [rotated])
next
  case ReadTimeout
  then show thesis
    using assms by (auto simp: Let_def split: if_splits option.splits intro: again [rotated])
next
  case (ReadFailed e)
  then show thesis
    using assms by (auto simp: Let_def split: if_splits option.splits)
qed

lemma call_loop_from_gateway:
  assumes "call_loop gw msg final conn fuel k tries needNew result lg = Some ((Some b, None), lg')"
    and "length result = 16"
  shows "\<exists>j packet. reading (conn j) = Received packet gw \<and> b = take 16 packet"
  using assms
proof (induction fuel arbitrary: k tries needNew result lg)
  case (Suc fuel)
  from Suc.prems(1) show ?case
  proof (cases rule: call_loop_step)
    case (finished packet)
    with Suc.prems(2) show ?thesis by auto
  next
    case again
    with Suc show ?thesis by metis
  qed
qed simp

text \<open>Without a reply every try ends with its timeout, and the tries run out.\<close>

lemma call_loop_silent:
  assumes "tries \<le> nAT_TRIES" and "nAT_TRIES - tries < fuel"
    and "\<And>j. reading (conn j) = ReadTimeout" "\<And>j. deadline_err (conn j) = None"
    "\<And>j. write_err (conn j) = None"
  shows "call_loop gw msg None conn fuel tries tries True result lg =
    Some ((None, Some (Fundamental ''timed out trying to contact gateway'')),
      \<lparr>deadlines = deadlines lg @
         map (\<lambda>j. Some (shifted_deadline (deadline_now (conn j)) j)) [tries..<nAT_TRIES],
       writes = writes lg @ replicate (nAT_TRIES - tries) msg\<rparr>)"
  using assms(1,2)
proof (induction "nAT_TRIES - tries" arbitrary: tries fuel lg)
  case 0
  then obtain f where "fuel = Suc f" "tries = nAT_TRIES"
    by (cases fuel) auto
  then show ?case
    by (simp add: Let_def before_def)
next
  case (Suc n)
  then obtain f where f: "fuel = Suc f" "tries < nAT_TRIES"
    by (cases fuel) auto
  have rep: "nAT_TRIES - tries = Suc (nAT_TRIES - (tries + 1))"
    and upt: "[tries..<nAT_TRIES] = tries # [tries + 1..<nAT_TRIES]"
    using f(2) by (auto simp: upt_conv_Cons)
  show ?case
    using f Suc(1) [of "tries + 1" f] Suc(2,4)
    by (simp add: Let_def assms(3-5) before_def minTime_def rep upt)
qed

lemma shifted_deadline_small:
  assumes "j < nAT_TRIES"
  shows "shifted_deadline now j = now + 250000000 * 2 ^ j"
proof -
  obtain x :: int where x: "2 ^ j = x" by simp
  have "(2::int) ^ j \<le> 2 ^ 9"
    using assms by (intro power_increasing) (simp_all add: nAT_TRIES_def)
  moreover have "(0::int) < 2 ^ j"
    by simp
  ultimately have "in_i64 (250 * 2 ^ j)" "in_i64 (250 * 2 ^ j * 1000000)"
    unfolding x by (auto simp: in_i64_def min_i64_def max_i64_def)
  then show ?thesis
    by (simp add: shifted_deadline_def nAT_INITIAL_MS_def)
qed

lemma port_string: "'':'' @ format_int nAT_PMP_PORT = '':5351''"
  by (simp add: nAT_PMP_PORT_def format_int_def format_nat.simps digit_char_def char_of_def bit_Suc_0_iff)

section \<open>Properties\<close>

text \<open>C31: \<^verbatim>\<open>AddPortMapping\<close> succeeds exactly on the reply the protocol prescribes. When the
  exchange of the request \<open>0, opcode, 0, 0, internal port, external port, lifetime\<close> (all
  in network byte order) yields the packet \<open>b\<close>, the call returns the result \<open>r\<close> if and
  only if \<open>b\<close> is the 16 bytes that encode \<open>r\<close> with version 0, the opcode with the reply
  bit, and result code 0; every other packet is an error.\<close>

theorem AddPortMapping_iff:
  assumes "mapping_opcode protocol = Some opcode"
    and "call addr_string fuel (c_dialer n) (gateway n)
      ([0, opcode, 0, 0] @ be16 (word_of_int internalPort) @
       be16 (word_of_int requestedExternalPort) @ be32 (word_of_int lifetime)) (timeout n)
      = Some ((Some b, None), lg)"
  shows "AddPortMapping addr_string fuel n protocol internalPort requestedExternalPort lifetime
      = Some (Inr r) \<longleftrightarrow> b = mapping_reply opcode r"
proof -
  let ?msg = "mapping_msg opcode internalPort requestedExternalPort lifetime"
  have op: "?msg ! 1 = opcode"
    by (simp add: mapping_msg_eq)
  have "AddPortMapping addr_string fuel n protocol internalPort requestedExternalPort lifetime =
    Some (case protocolChecks ?msg 16 b of Some e \<Rightarrow> Inl e | None \<Rightarrow> Inr (read_mapping b))"
    using assms
    by (auto simp: AddPortMapping_def rpc_def mapping_msg_eq read_mapping_def Let_def
        split: option.splits)
  then have "AddPortMapping addr_string fuel n protocol internalPort requestedExternalPort
      lifetime = Some (Inr r) \<longleftrightarrow> protocolChecks ?msg 16 b = None \<and> read_mapping b = r"
    by (auto split: option.splits)
  then show ?thesis
    using reply_iff [OF op] by simp
qed

definition demo_client :: "bytes \<Rightarrow> nat Client" where
  "demo_client b = NewClient (\<lambda>_ _. Inl (Sentinel Canceled)) 7
     [OptionDialer (\<lambda>net addr. Inr (0, \<lambda>k.
        \<lparr>loop_now = 0, deadline_now = 0, deadline_err = None, write_err = None,
         reading = (if k = 0 then Received [1, 2] 9 else Received b 7)\<rparr>))]"

definition demo_mapping :: AddPortMappingResult where
  "demo_mapping = \<lparr>pm_SecondsSinceStartOfEpoc = 1000, InternalPort = 80,
     MappedExternalPort = 8080, PortMappingLifetimeInSeconds = 3600\<rparr>"

lemma demo_client_call:
  "length b = 16 \<Longrightarrow> call s 2 (c_dialer (demo_client b)) (gateway (demo_client b)) msg
     (timeout (demo_client b)) =
   Some ((Some b, None), \<lparr>deadlines = [Some 250000000], writes = [msg, msg]\<rparr>)"
  by (simp add: call_def demo_client_def NewClient_def OptionDialer_def nAT_TRIES_def
      numeral_2_eq_2 Let_def minTime_def shifted_deadline_def nAT_INITIAL_MS_def in_i64I)

theorem AddPortMapping_iff_witness:
  "AddPortMapping (\<lambda>_. []) 2 (demo_client (mapping_reply 2 demo_mapping)) ''tcp'' 80 8080 3600
     = Some (Inr demo_mapping)"
proof -
  have "length (mapping_reply 2 demo_mapping) = 16"
    by (simp add: mapping_reply_def)
  then show ?thesis
    using AddPortMapping_iff [of "''tcp''" 2, OF _ demo_client_call, THEN iffD2]
    by (simp add: mapping_opcode_def)
qed

text \<open>The retransmission of a request terminates and keeps to its schedule. Without a
  timeout of its own, a client whose gateway stays silent sends the request nine times,
  waits 250 milliseconds doubled after every try (127.75 seconds in all), and then
  reports that the gateway could not be reached.\<close>

theorem call_gives_up:
  assumes "dial ''udp'' (addr_string gw @ '':5351'') = Inr (now, conn)"
    and "nAT_TRIES < fuel"
    and "\<And>j. reading (conn j) = ReadTimeout" "\<And>j. deadline_err (conn j) = None"
    "\<And>j. write_err (conn j) = None"
  shows "call addr_string fuel dial gw msg 0 =
    Some ((None, Some (Fundamental ''timed out trying to contact gateway'')),
      \<lparr>deadlines = map (\<lambda>j. Some (deadline_now (conn j) + 250000000 * 2 ^ j)) [0..<9],
       writes = replicate 9 msg\<rparr>)"
proof -
  have ds: "map (\<lambda>j. Some (shifted_deadline (deadline_now (conn j)) j)) [0..<nAT_TRIES] =
      map (\<lambda>j. Some (deadline_now (conn j) + 250000000 * 2 ^ j)) [0..<nAT_TRIES]"
    by (rule map_cong) (auto simp: shifted_deadline_small)
  have "call_loop gw msg None conn fuel 0 0 True (replicate 16 0) \<lparr>deadlines = [], writes = []\<rparr> =
    Some ((None, Some (Fundamental ''timed out trying to contact gateway'')),
      \<lparr>deadlines = map (\<lambda>j. Some (deadline_now (conn j) + 250000000 * 2 ^ j)) [0..<nAT_TRIES],
       writes = replicate nAT_TRIES msg\<rparr>)"
    using call_loop_silent [of 0 fuel conn gw msg "replicate 16 0"
        "\<lparr>deadlines = [], writes = []\<rparr>", OF _ _ assms(3-5)] assms(2) unfolding ds by simp
  moreover have "dial ''udp'' (addr_string gw @ '':'' @ format_int nAT_PMP_PORT) = Inr (now, conn)"
    using assms(1) by (simp only: port_string)
  ultimately show ?thesis
    unfolding call_def by (simp only: sum.case prod.case nAT_TRIES_def not_True_eq_False
        if_False simp_thms)
qed

theorem call_gives_up_witness:
  "call (\<lambda>_. ''10.0.0.1'') 10
     (\<lambda>net addr. Inr (0, \<lambda>k. \<lparr>loop_now = 0, deadline_now = 0, deadline_err = None,
        write_err = None, reading = ReadTimeout\<rparr>)) (7 :: nat) [0, 0] 0 =
    Some ((None, Some (Fundamental ''timed out trying to contact gateway'')),
      \<lparr>deadlines = map (\<lambda>j. Some (0 + 250000000 * 2 ^ j)) [0..<9],
       writes = replicate 9 [0, 0]\<rparr>)"
  by (subst call_gives_up [where now = 0 and conn = "\<lambda>k. \<lparr>loop_now = 0, deadline_now = 0,
        deadline_err = None, write_err = None, reading = ReadTimeout\<rparr>"])
    (simp_all add: nAT_TRIES_def)

text \<open>Only the gateway is believed. Whatever packets arrive on the socket, a reply that
  \<^verbatim>\<open>call\<close> returns without an error is a packet that the gateway sent, cut to the 16 bytes
  of the buffer, and a packet of another host never ends the exchange.\<close>

theorem call_from_gateway:
  assumes "call addr_string fuel dial gw msg tmo = Some ((Some b, None), lg)"
  shows "\<exists>now conn j packet. dial ''udp'' (addr_string gw @ '':'' @ format_int nAT_PMP_PORT) =
      Inr (now, conn) \<and> reading (conn j) = Received packet gw \<and> b = take 16 packet"
  using assms call_loop_from_gateway
  by (fastforce simp: call_def split: sum.splits prod.splits)

theorem call_from_gateway_witness:
  "\<exists>now conn j packet.
     c_dialer (demo_client (mapping_reply 2 demo_mapping)) ''udp''
       ('''' @ '':'' @ format_int nAT_PMP_PORT) = Inr (now, conn) \<and>
     reading (conn j) = Received packet (gateway (demo_client (mapping_reply 2 demo_mapping))) \<and>
     mapping_reply 2 demo_mapping = take 16 packet"
  by (rule call_from_gateway [OF demo_client_call [where s = "\<lambda>_. ''''" and msg = "[0, 0]"]])
    (simp add: mapping_reply_def)

end
