(* ===== verification/Vpnx.thy ===== *)
theory Vpnx
  imports Wireguardapi Natpmp
begin

text \<open>
  The tunnel of the torrents: \<^verbatim>\<open>shallows/cmd/retrovibed/daemons/vpn.monitor.go\<close>, the sockets of
  \<^verbatim>\<open>shallows/internal/torrentx/torrentx.go\<close>, and \<^verbatim>\<open>shallows/internal/fsnotifyx\<close>.

  The network stack of the tunnel, the sockets and the torrent client are parameters, each of a type of its own. The
  state is the client the monitor holds and those it closed. What happens in the background is a list of
  events, each with the file system at that moment.
\<close>

section \<open>Sockets\<close>

record ('dev, 'sock, 'bind, 'c) net_env =
  ne_fault :: faults
  ne_latest :: string
  ne_tun :: "Addr list \<Rightarrow> Addr list \<Rightarrow> int \<Rightarrow> goerr + 'dev"
  ne_resolved :: "string \<Rightarrow> string"
  ne_prefix :: "Prefix \<Rightarrow> string"
  ne_ipc :: "'dev \<Rightarrow> string \<Rightarrow> goerr option"
  ne_up :: "'dev \<Rightarrow> goerr option"
  ne_udp :: "'dev \<Rightarrow> u16 \<Rightarrow> goerr + 'sock"
  ne_utp :: "'sock \<Rightarrow> goerr + 'sock"
  ne_udp_port :: "'sock \<Rightarrow> u16 option"
  ne_tcp :: "'dev \<Rightarrow> u16 \<Rightarrow> goerr + 'sock"
  ne_bind :: "'sock \<Rightarrow> 'sock option \<Rightarrow> 'bind"
  ne_local_utp :: "u16 \<Rightarrow> goerr + 'sock"
  ne_local_tcp :: "u16 \<Rightarrow> goerr + 'sock"
  ne_client :: "('dev \<times> Config) option \<Rightarrow> 'bind \<Rightarrow> goerr + 'c"
  ne_wg_err :: "wg_error \<Rightarrow> goerr"

definition wrapped_as :: "string \<Rightarrow> goerr + 'a \<Rightarrow> goerr + 'a" where
  "wrapped_as message res =
     (case res of Inr x \<Rightarrow> Inr x | Inl err \<Rightarrow> (case Wrap (Some err) message of Some err \<Rightarrow> Inl err | None \<Rightarrow> Inl err))"

definition DefaultMTU :: int where "DefaultMTU = 1420"

text \<open>The first error of a loop that stops at it.\<close>

fun first_error :: "('a \<Rightarrow> goerr option) \<Rightarrow> 'a list \<Rightarrow> goerr option" where
  "first_error f [] = None"
| "first_error f (x # xs) = (case f x of Some err \<Rightarrow> Some err | None \<Rightarrow> first_error f xs)"

definition localsocket :: "('dev, 'sock, 'bind, 'c) net_env \<Rightarrow> u16 \<Rightarrow> goerr + 'sock \<times> 'sock option" where
  "localsocket e port =
     (case wrapped_as ''unable to open utp socket'' (ne_local_utp e port) of
        Inl err \<Rightarrow> Inl err
      | Inr s0 \<Rightarrow>
          (case ne_udp_port e s0 of
             None \<Rightarrow> Inr (s0, None)
           | Some p \<Rightarrow>
               (case wrapped_as ''unable to open tcp socket'' (ne_local_tcp e p) of
                  Inl err \<Rightarrow> Inl err
                | Inr s1 \<Rightarrow> Inr (s0, Some s1))))"

definition Autosocket :: "('dev, 'sock, 'bind, 'c) net_env \<Rightarrow> u16 \<Rightarrow> goerr + 'bind" where
  "Autosocket e p = (case localsocket e p of Inl err \<Rightarrow> Inl err | Inr (s1, s2) \<Rightarrow> Inr (ne_bind e s1 s2))"

definition WireguardSocket :: "('dev, 'sock, 'bind, 'c) net_env \<Rightarrow> Config \<Rightarrow> u16 \<Rightarrow> (goerr + 'dev \<times> 'bind) outcome" where
  "WireguardSocket e wcfg port =
     (if port = 0 then Panic
      else Return
     (case wrapped_as ''failed to create network tun device'' (ne_tun e (map pfx_addr (Addresses (interface wcfg)))
          (DNS (interface wcfg)) (DefaultIfZero 0 DefaultMTU (int (unat (MTU (interface wcfg)))))) of
        Inl err \<Rightarrow> Inl err
      | Inr dev \<Rightarrow>
     (case wrapped_as ''invalid ipcset for peer''
          (case first_error (ne_ipc e dev) (FormatIPCSet (ne_resolved e) (ne_prefix e) wcfg) of None \<Rightarrow> Inr () | Some err \<Rightarrow> Inl err) of
        Inl err \<Rightarrow> Inl err
      | Inr _ \<Rightarrow>
     (case wrapped_as ''network device failed to come up'' (case ne_up e dev of None \<Rightarrow> Inr () | Some err \<Rightarrow> Inl err) of
        Inl err \<Rightarrow> Inl err
      | Inr _ \<Rightarrow>
     (case wrapped_as ''failed to listen on port'' (ne_udp e dev port) of
        Inl err \<Rightarrow> Inl err
      | Inr conn \<Rightarrow>
     (case wrapped_as ''failed to create utp socket'' (ne_utp e conn) of
        Inl err \<Rightarrow> Inl err
      | Inr s0 \<Rightarrow>
          (case ne_udp_port e s0 of
             None \<Rightarrow> Inr (dev, ne_bind e s0 None)
           | Some p \<Rightarrow>
               (case wrapped_as ''unable to open tcp socket'' (ne_tcp e dev p) of
                  Inl err \<Rightarrow> Inl err
                | Inr s1 \<Rightarrow> Inr (dev, ne_bind e s0 (Some s1))))))))))"

text \<open>The two requests to the gateway dial one after the other. The mapping is asked for an hour.\<close>

definition ExternalPort ::
  "(Addr \<Rightarrow> string) \<Rightarrow> nat \<Rightarrow> Addr \<Rightarrow> Addr dialer \<Rightarrow> Config \<Rightarrow> Addr dialer \<Rightarrow> Addr dialer \<Rightarrow> u16 \<Rightarrow>
   (goerr + (bytes \<times> u16) \<times> int) option" where
  "ExternalPort addr_string fuel zero netdialer wcfg d1 d2 port =
     (let dnsgateway = FirstOrZero zero (DNS (interface wcfg));
          client = (\<lambda>d. NewClient netdialer dnsgateway [OptionTimeout 15000000000, OptionDialer d])
      in case GetExternalAddress addr_string fuel (client d1) of
           None \<Rightarrow> None
         | Some ext \<Rightarrow>
             (case wrapped_as (''unable to determine external ip: '' @ addr_string dnsgateway) ext of
                Inl err \<Rightarrow> Some (Inl err)
              | Inr ex \<Rightarrow>
                  (case AddPortMapping addr_string fuel (client d2) ''tcp'' (int (unat port)) (int (unat port)) 3600 of
                     None \<Rightarrow> None
                   | Some mapped \<Rightarrow>
                       (case wrapped_as (''unable to map port: '' @ addr_string dnsgateway) mapped of
                          Inl err \<Rightarrow> Some (Inl err)
                        | Inr result \<Rightarrow> Some (Inr ((ExternalIPAddress ex, MappedExternalPort result),
                            int (unat (PortMappingLifetimeInSeconds result)) * 1000000000))))))"

section \<open>Watching a file\<close>

record fs_event =
  ev_Name :: string
  ev_Op :: u32

definition op_Remove :: u32 where "op_Remove = 4"
definition op_Chmod :: u32 where "op_Chmod = 16"

type_synonym 'st action = "fs_event \<Rightarrow> os \<Rightarrow> 'st \<Rightarrow> (os \<times> 'st \<times> goerr option) outcome"

text \<open>\<open>watcher\<close> is the error of the library that watches. The events that follow are \<open>on_change\<close>, whose errors are logged.\<close>

definition OnceAndOnChange :: "faults \<Rightarrow> string \<Rightarrow> 'st action \<Rightarrow> goerr option \<Rightarrow> 'st action" where
  "OnceAndOnChange fault watched action watcher evt st s =
     (case Exists fault watched st of
        (st1, True) \<Rightarrow>
          bind_outcome (action evt st1 s) (\<lambda>(st2, s1, err).
            (case err of Some err \<Rightarrow> Return (st2, s1, Some err) | None \<Rightarrow> Return (st2, s1, watcher)))
      | (st1, False) \<Rightarrow> Return (st1, s, watcher))"

fun on_change :: "'st action \<Rightarrow> (os \<times> fs_event) list \<Rightarrow> 'st \<Rightarrow> 'st outcome" where
  "on_change action [] s = Return s"
| "on_change action ((st, evt) # evs) s =
     bind_outcome (action evt st s) (\<lambda>(st1, s1, err). on_change action evs s1)"

section \<open>The monitor\<close>

record 'c monitor =
  mo_client :: 'c
  mo_closed :: "'c list"

definition real_path :: "('dev, 'sock, 'bind, 'c) net_env \<Rightarrow> os \<Rightarrow> os \<times> string" where
  "real_path e st =
     (let (st1, res) = EvalSymlinks (ne_fault e) (ne_latest e) st
      in (st1, case res of Inl err \<Rightarrow> [] | Inr p \<Rightarrow> p))"

definition read_tunnel :: "('dev, 'sock, 'bind, 'c) net_env \<Rightarrow> string \<Rightarrow> os \<Rightarrow> os \<times> (goerr + Config)" where
  "read_tunnel e p st =
     (let (st1, res) = os_ReadFile (ne_fault e) p st in
      (st1, case Parse (\<lambda>_. map_sum id bytes_string res) p of
          Inr wcfg \<Rightarrow> Inr wcfg
        | Inl (Inl err) \<Rightarrow> Inl err
        | Inl (Inr err) \<Rightarrow> Inl (ne_wg_err e err)))"

text \<open>The path of the tunnel at the start, \<open>previous\<close>, is never changed.\<close>

definition reload_action ::
  "('dev, 'sock, 'bind, 'c) net_env \<Rightarrow> string \<Rightarrow> u16 \<Rightarrow> 'c monitor action" where
  "reload_action e previous port evt st m =
     (if ev_Op evt = op_Remove then Return (st, m, None)
      else case real_path e st of
        (st1, current) \<Rightarrow>
          if previous = current then Return (st1, m, None)
          else (case read_tunnel e (ev_Name evt) st1 of
              (st2, Inl err) \<Rightarrow> Return (st2, m, Wrap (Some err) ''unable to parse wireguard config'')
            | (st2, Inr wcfg) \<Rightarrow>
                bind_outcome (WireguardSocket e wcfg port) (\<lambda>res.
                  (case res of
                     Inl err \<Rightarrow> Return (st2, m, Wrap (Some err) ''unable to setup wireguard torrent socket'')
                   | Inr (wgnet, tnetwork) \<Rightarrow>
                       (case ne_client e (Some (wgnet, wcfg)) tnetwork of
                          Inl err \<Rightarrow> Return (st2, m, Wrap (Some err) ''unable to setup torrent client'')
                        | Inr nclient \<Rightarrow> Return (st2, \<lparr>mo_client = nclient, mo_closed = mo_closed m @ [mo_client m]\<rparr>, None))))))"

definition VPNReload ::
  "('dev, 'sock, 'bind, 'c) net_env \<Rightarrow> goerr option \<Rightarrow> u16 \<Rightarrow> 'c monitor \<Rightarrow> os \<Rightarrow> (os \<times> string \<times> 'c monitor \<times> goerr option) outcome" where
  "VPNReload e watcher port m st =
     (case real_path e st of
        (st1, previous) \<Rightarrow>
          bind_outcome (OnceAndOnChange (ne_fault e) (ne_latest e) (reload_action e previous port) watcher
              \<lparr>ev_Name = ne_latest e, ev_Op = op_Chmod\<rparr> st1 m) (\<lambda>(st2, m1, err).
            Return (st2, previous, m1, Wrap err ''unable setup wireguard monitoring'')))"

section \<open>Lemmas\<close>

lemma real_path_link:
  assumes "ne_fault n = (\<lambda>_. None)" "ne_latest n = absolute (q @ [Current_name])" "config_directory t st q" "plain_name ident"
    and "nodes_of st (q @ [Current_name]) = Some (Link (absolute (q @ [ident])))" "nodes_of st (q @ [ident]) = Some (Regular raw)"
  shows "real_path n st = (st\<lparr>calls := Suc (calls st)\<rparr>, absolute (q @ [ident]))"
  using link_resolves [OF assms(3,5,4)] assms(1,2,6) by (simp add: real_path_def EvalSymlinks_def syscall_def)

lemma read_tunnel_link:
  assumes "ne_fault n = (\<lambda>_. None)" "config_directory t st q" "plain_name ident"
    and "nodes_of st (q @ [Current_name]) = Some (Link (absolute (q @ [ident])))" "nodes_of st (q @ [ident]) = Some (Regular raw)"
    and "FromWgQuick (bytes_string raw) ''retrovibed'' = Inr cfg"
  shows "read_tunnel n (absolute (q @ [Current_name])) st = (st\<lparr>calls := Suc (calls st)\<rparr>, Inr cfg)"
  using link_resolves [OF assms(2,4,3)] assms(1,5,6)
  by (simp add: read_tunnel_def os_ReadFile_def syscall_def Parse_def)

lemma config_directory_calls [simp]: "config_directory t (st\<lparr>calls := k\<rparr>) q = config_directory t st q"
  by (simp add: config_directory_def)

section \<open>Properties\<close>


definition demo_net :: "(unit, unit, unit, nat) net_env" where
  "demo_net = \<lparr>ne_fault = (\<lambda>_. None), ne_latest = ''/w/_current'', ne_tun = (\<lambda>_ _ _. Inr ()), ne_resolved = (\<lambda>_. []),
     ne_prefix = (\<lambda>_. []), ne_ipc = (\<lambda>_ _. None), ne_up = (\<lambda>_. None), ne_udp = (\<lambda>_ _. Inr ()), ne_utp = Inr,
     ne_udp_port = (\<lambda>_. None), ne_tcp = (\<lambda>_ _. Inr ()), ne_bind = (\<lambda>_ _. ()), ne_local_utp = (\<lambda>_. Inr ()),
     ne_local_tcp = (\<lambda>_. Inr ()), ne_client = (\<lambda>_ _. Inr 7), ne_wg_err = (\<lambda>_. Fundamental ''parse'')\<rparr>"

definition two_tunnels :: os where
  "two_tunnels = demo_disk\<lparr>nodes_of := (nodes_of demo_disk)([''w'', ''a''] \<mapsto> Regular (string_bytes demo_file),
     [''w'', ''b''] \<mapsto> Regular (string_bytes demo_file))\<rparr>"

lemma two_tunnels_ok: "config_directory demo_tunnels two_tunnels [''w'']"
proof (rule config_directory_keeps [OF demo_disk_ok(1)])
  have "tree_ok (nodes_of demo_disk)" using demo_disk_ok(1) by (simp add: config_directory_def)
  then show "tree_ok (nodes_of two_tunnels)"
    unfolding two_tunnels_def by (auto simp: demo_disk_def Current_name_def is_directory_def intro!: tree_ok_insert)
qed (simp add: two_tunnels_def)

lemma demo_first_error: "first_error (\<lambda>_. None) xs = None"
  by (induction xs) simp_all


end
