(* ===== verification/Downloadsx.thy ===== *)
theory Downloadsx
  imports Discovered Vpnx
begin

text \<open>
  The watcher of the download directory: \<^verbatim>\<open>shallows/downloads\<close>.

  The state is the \<open>depot\<close> of the imports and the torrent client, of a type of its own. The client and what it
  does with a torrent, the decoder of torrent files, and the library that watches are parameters. A download is a
  goroutine; here it is the dir it was started for, and the downloads run one after the other in that order.
  What is logged is left out.
\<close>

section \<open>The state\<close>

text \<open>What \<^verbatim>\<open>torrent.NewFromMetaInfoFile\<close> reads of a file; \<open>dm_Info\<close> is \<^verbatim>\<open>UnmarshalInfo\<close>.\<close>

record dropped =
  dm_ID :: bytes
  dm_Info :: "goerr + torrent_info"
  dm_Trackers :: "string list"

text \<open>A torrent the client has started: \<open>rn_Info\<close> is nothing when the context ends before the info is there,
  the last three are the parameters of \<open>Download\<close>.\<close>

record running =
  rn_ID :: bytes
  rn_Info :: "torrent_info option"
  rn_transfer :: "os \<Rightarrow> os \<times> (goerr + int)"
  rn_files :: "os \<Rightarrow> import_root"
  rn_written :: u64

record 'c watch_env =
  we_env :: import_env
  we_rootstore :: string
  we_watch :: "string \<Rightarrow> goerr option"
  we_entries :: "os \<Rightarrow> string list \<Rightarrow> goerr + string list"
  we_load :: "string \<Rightarrow> os \<Rightarrow> os \<times> (goerr + dropped)"
  we_merge :: "string list \<Rightarrow> dropped \<Rightarrow> dropped"
  we_start :: "dropped \<Rightarrow> 'c \<Rightarrow> 'c \<times> (goerr + running)"
  we_tune :: "bytes \<Rightarrow> string list \<Rightarrow> 'c \<Rightarrow> 'c \<times> goerr option"

section \<open>One download\<close>

text \<open>The torrents that are not private get the public trackers.\<close>

definition public_merge :: "'c watch_env \<Rightarrow> dropped \<Rightarrow> dropped" where
  "public_merge e meta =
     (case dm_Info meta of
        Inl err \<Rightarrow> meta
      | Inr info \<Rightarrow> if \<not> Autoderef False (ti_Private info) then we_merge e PublicTrackers meta else meta)"

definition dropped_torrent :: "'c watch_env \<Rightarrow> dropped \<Rightarrow> running \<Rightarrow> torrent_info \<Rightarrow> TMetadata" where
  "dropped_torrent e meta dl info =
     NewTMetadata (ie_md5uuid (we_env e)) (ie_seed (we_env e)) (rn_ID dl)
       [TMetadataOptionFromInfo info, TMetadataOptionTrackers (dm_Trackers meta),
        TMetadataOptionAutoDescription (ie_transform (we_env e))]"

text \<open>What follows the info: the row is recorded and marked, the trackers are tuned, and the torrent is downloaded.\<close>

definition record_dropped ::
  "'c watch_env \<Rightarrow> dropped \<Rightarrow> running \<Rightarrow> torrent_info \<Rightarrow> depot \<times> 'c \<Rightarrow> depot \<times> 'c" where
  "record_dropped e meta dl info = (\<lambda>(st, c).
     (case on_tracked (ie_db (we_env e)) (\<lambda>d. TMetadataInsertWithDefaults d (dropped_torrent e meta dl info)) st of
        (st1, Inl err) \<Rightarrow> (st1, c)
      | (st1, Inr md) \<Rightarrow>
     (case on_tracked (ie_db (we_env e)) (\<lambda>d. TMetadataDownloadByID d (t_ID md)) st1 of
        (st2, Inl err) \<Rightarrow> (st2, c)
      | (st2, Inr md) \<Rightarrow>
     (case we_tune e (rn_ID dl) (dm_Trackers meta) c of
        (c1, Some err) \<Rightarrow> (st2, c1)
      | (c1, None) \<Rightarrow>
          (fst (Download (we_env e) (we_rootstore e) (rn_transfer dl) (rn_files dl) (rn_written dl) md st2), c1)))))"

definition Directory_download :: "'c watch_env \<Rightarrow> string \<Rightarrow> depot \<times> 'c \<Rightarrow> depot \<times> 'c" where
  "Directory_download e p = (\<lambda>(st, c).
     (case on_os (we_load e p) st of
        (st1, Inl err) \<Rightarrow> (st1, c)
      | (st1, Inr meta) \<Rightarrow>
          let meta = public_merge e meta in
          (case we_start e meta c of
             (c1, Inl err) \<Rightarrow> (st1, c1)
           | (c1, Inr dl) \<Rightarrow>
               (case rn_Info dl of
                  None \<Rightarrow> (st1, c1)
                | Some info \<Rightarrow> record_dropped e meta dl info (st1, c1)))))"

section \<open>The directory\<close>

text \<open>The function \<^verbatim>\<open>Add\<close> walks the directory with, on an entry that is not one itself: the downloads it starts.
  The name whose suffix is tested is that of the directory.\<close>

definition existing :: "string \<Rightarrow> string \<Rightarrow> string list" where
  "existing dir name = (if \<not> HasSuffix dir ''.torrent'' then [] else [path_join_list [dir, name]])"

text \<open>\<^verbatim>\<open>fs.WalkDir\<close> below \<open>base\<close>, with the bound of \<open>max_depth\<close> on the path.\<close>

primrec walk_existing ::
  "(os \<Rightarrow> string list \<Rightarrow> goerr + string list) \<Rightarrow> os \<Rightarrow> string \<Rightarrow> string list \<Rightarrow> nat \<Rightarrow> string list \<Rightarrow>
   string list \<times> goerr option \<Rightarrow> string list \<times> goerr option" where
  "walk_existing entries st dir base 0 p acc = (fst acc, Some (PathErr ''open'' (absolute (base @ p)) (Errno EOTHER)))"
| "walk_existing entries st dir base (Suc n) p acc =
     (if snd acc \<noteq> None then acc
      else if is_directory (nodes_of st) (base @ p) then
        (case entries st (base @ p) of
           Inl err \<Rightarrow> (fst acc, Some err)
         | Inr names \<Rightarrow> fold (\<lambda>c. walk_existing entries st dir base n (p @ [c])) names acc)
      else (fst acc @ existing dir (if p = [] then ''.'' else join_str ''/'' p), None))"

definition find_existing :: "'c watch_env \<Rightarrow> string \<Rightarrow> os \<Rightarrow> os \<times> string list \<times> goerr option" where
  "find_existing e dir st =
     (if dir = [] then (st, [], Some (PathErr ''stat'' ''.'' (Fundamental ''os: DirFS with empty root'')))
      else (case os_Stat (ie_fault (we_env e)) (dir @ ''/.'') st of
          (st1, Inl err) \<Rightarrow> (st1, [], Some err)
        | (st1, Inr info) \<Rightarrow>
            (case resolve st1 True (dir @ ''/.'') of
               Inl err \<Rightarrow> (st1, [], Some (PathErr ''open'' dir (Errno err)))
             | Inr base \<Rightarrow> (st1, walk_existing (we_entries e) st1 dir base max_depth [] ([], None)))))"

definition Directory_Add :: "'c watch_env \<Rightarrow> string \<Rightarrow> depot \<times> 'c \<Rightarrow> (depot \<times> 'c) \<times> string list \<times> goerr option" where
  "Directory_Add e dir = (\<lambda>(st, c).
     (case Wrap (we_watch e dir) (''unable to watch: '' @ dir) of
        Some err \<Rightarrow> ((st, c), [], Some err)
      | None \<Rightarrow>
          (case on_os (find_existing e dir) st of
             (st1, jobs, err) \<Rightarrow> ((st1, c), jobs, Wrap err ''unable to find existing torrents''))))"

text \<open>What the loop of \<^verbatim>\<open>background\<close> receives until its context ends, and the downloads it starts. The comparison
  is of the whole operation, which may be several at once.\<close>

definition op_Create :: u32 where "op_Create = 1"
definition op_Write :: u32 where "op_Write = 2"

fun Directory_background :: "(goerr + fs_event) list \<Rightarrow> string list" where
  "Directory_background [] = []"
| "Directory_background (Inl err # evs) = Directory_background evs"
| "Directory_background (Inr evt # evs) =
     (if ev_Op evt = op_Create then ev_Name evt # Directory_background evs
      else if ev_Op evt = op_Chmod then ev_Name evt # Directory_background evs
      else if ev_Op evt = op_Write then Directory_background evs
      else Directory_background evs)"

text \<open>\<open>watcher\<close> is the error of the library that watches.\<close>

definition NewDirectoryWatcher :: "goerr option \<Rightarrow> (goerr + fs_event) list \<Rightarrow> goerr + string list" where
  "NewDirectoryWatcher watcher evs = (case watcher of Some err \<Rightarrow> Inl err | None \<Rightarrow> Inr (Directory_background evs))"

text \<open>A directory watched from its addition on, as the daemon does, and its downloads.\<close>

definition watch_directory ::
  "'c watch_env \<Rightarrow> goerr option \<Rightarrow> string \<Rightarrow> (goerr + fs_event) list \<Rightarrow> depot \<times> 'c \<Rightarrow> (depot \<times> 'c) \<times> goerr option" where
  "watch_directory e watcher dir evs s =
     (case NewDirectoryWatcher watcher evs of
        Inl err \<Rightarrow> (s, Some err)
      | Inr dropped \<Rightarrow>
          (case Directory_Add e dir s of
             (s1, jobs, err) \<Rightarrow> (fold (Directory_download e) (jobs @ dropped) s1, err)))"

section \<open>Lemmas\<close>

lemma existing_plain [simp]: "\<not> HasSuffix dir ''.torrent'' \<Longrightarrow> existing dir name = []"
  by (simp add: existing_def)

lemma walk_existing_plain:
  assumes "\<not> HasSuffix dir ''.torrent''"
  shows "fst (walk_existing entries st dir base n p acc) = fst acc"
proof (induction n arbitrary: p acc)
  case (Suc n)
  have "fst (fold (\<lambda>c. walk_existing entries st dir base n (p @ [c])) names acc) = fst acc" for names
    by (induction names arbitrary: acc) (simp_all add: Suc.IH)
  then show ?case using assms by (auto split: sum.split)
qed simp

lemma background_quiet:
  "(\<And>evt. Inr evt \<in> set evs \<Longrightarrow> ev_Op evt \<noteq> op_Create \<and> ev_Op evt \<noteq> op_Chmod) \<Longrightarrow> Directory_background evs = []"
  by (induction evs rule: Directory_background.induct) (auto simp: op_Create_def op_Chmod_def op_Write_def)

lemma find_existing_plain:
  "find_existing e dir st = (st', jobs, err) \<Longrightarrow> \<not> HasSuffix dir ''.torrent'' \<Longrightarrow> jobs = []"
  using walk_existing_plain [of dir "we_entries e"]
  by (auto simp: find_existing_def split: if_splits prod.splits sum.splits) (metis fst_conv)+

lemma record_media_torrents: "record_media e md txs st = (st', err) \<Longrightarrow> dp_torrents st' = dp_torrents st"
  by (induction txs arbitrary: st) (auto simp: on_media_def split: prod.splits sum.splits)

lemma on_os_keeps: "on_os f st = (st', x) \<Longrightarrow> dp_torrents st' = dp_torrents st \<and> dp_media st' = dp_media st"
  by (auto simp: on_os_def split: prod.splits)

text \<open>A download changes the torrents at most by the statement that completes its own.\<close>

lemma Download_rows:
  assumes "Download e dir transfer files written md st = (st', err)"
  shows "dp_torrents st' = dp_torrents st \<or>
    (\<exists>k n res. TMetadataCompleteByID (ie_db e k) (t_ID md) 0 n written (dp_torrents st) = (dp_torrents st', res))"
  using assms
  by (auto simp: Download_def DownloadInto_def on_tracked_simps Let_def dest!: on_os_keeps record_media_torrents
      split: prod.splits sum.splits option.splits if_splits)

lemma completed_row:
  assumes "TMetadataCompleteByID d ident 0 n written tbl = (tbl', res)" "row_of t_ID tbl ident = Some m"
  shows "\<exists>m'. row_of t_ID tbl' ident = Some m' \<and> t_InitiatedAt m' = t_InitiatedAt m \<and> t_PausedAt m' = t_PausedAt m"
proof (cases res)
  case (Inl err)
  have "tbl' = tbl"
  proof (cases "sql_err d")
    case None
    have "snd (update_where d (\<lambda>r. t_ID r = ident) (\<lambda>r. Inr (f r)) tbl) = Inr (f m)" for f :: "TMetadata \<Rightarrow> TMetadata"
      by (rule update_key_result [OF None assms(2)]) simp
    from this [of "\<lambda>m. m\<lparr>t_UpdatedAt := sql_now d, t_VerifyAt := sql_now d, t_Downloaded := n, t_Uploaded := written,
        t_Peers := 0, t_Seeding := (t_Bytes m = n)\<rparr>"] assms(1) Inl show ?thesis
      by (simp add: TMetadataCompleteByID_def by_id_def)
  qed (use assms(1) in \<open>simp add: TMetadataCompleteByID_def by_id_def update_where_def\<close>)
  with assms(2) show ?thesis by simp
next
  case (Inr m')
  from by_id_row [OF assms(1) [unfolded this TMetadataCompleteByID_def]] assms(2) show ?thesis by auto
qed

section \<open>Properties\<close>

text \<open>C38: a torrent that is in the download directory when it is added is never downloaded. Where the path of the
  directory does not itself end in the suffix of torrents, and nothing but writes, removals and renames is reported
  of it, the watcher starts no torrent and leaves every row as it was, whatever the directory holds.\<close>

theorem existing_torrents_stay:
  assumes "\<not> HasSuffix dir ''.torrent''"
    and "\<And>evt. Inr evt \<in> set evs \<Longrightarrow> ev_Op evt \<noteq> op_Create \<and> ev_Op evt \<noteq> op_Chmod"
    and "watch_directory e watcher dir evs (st, c) = ((st', c'), err)"
  shows "c' = c \<and> dp_torrents st' = dp_torrents st \<and> dp_media st' = dp_media st"
proof -
  have quiet: "Directory_background evs = []" using assms(2) by (rule background_quiet)
  show ?thesis
  proof (cases "watcher = None \<and> we_watch e dir = None")
    case True
    obtain st1 jobs err1 where walk: "on_os (find_existing e dir) st = (st1, jobs, err1)" by (metis prod_cases3)
    then have "jobs = []"
      using find_existing_plain [OF _ assms(1)] by (auto simp: on_os_def split: prod.splits)
    with True walk assms(3) quiet on_os_keeps [OF walk] show ?thesis
      by (auto simp: watch_directory_def NewDirectoryWatcher_def Directory_Add_def)
  next
    case False
    with assms(3) quiet show ?thesis
      by (auto simp: watch_directory_def NewDirectoryWatcher_def Directory_Add_def split: option.splits)
  qed
qed

text \<open>C27: a torrent dropped into the directory outlives a restart. Once its file was read, the client has started
  it and its info is there, its row is stored and a restart resumes it exactly while it is incomplete, whether
  the trackers could be tuned and the download got through or not, and also where it was paused before.\<close>

theorem dropped_torrent_resumes:
  assumes "Directory_download e p (st, c) = (st', c')"
    and "we_load e p (dp_os st) = (fs, Inr meta)" "we_start e (public_merge e meta) c = (c1, Inr dl)" "rn_Info dl = Some info"
    and "\<And>k. sql_err (ie_db (we_env e) k) = None \<and> sql_now (ie_db (we_env e) k) < t0"
  shows "\<exists>m. row_of t_ID (dp_torrents st') (HashUID (ie_md5uuid (we_env e)) (rn_ID dl)) = Some m \<and>
    resumable t0 m = TMetadataQueryIncomplete m"
proof -
  let ?new = "dropped_torrent e (public_merge e meta) dl info" and ?db = "ie_db (we_env e)"
  let ?id = "HashUID (ie_md5uuid (we_env e)) (rn_ID dl)"
  have ident: "t_ID ?new = ?id"
    by (simp add: dropped_torrent_def HashUID_def NewTMetadata_ID option_IDs)
  obtain tbl md where ins: "TMetadataInsertWithDefaults (?db (dp_stmts st)) ?new (dp_torrents st) = (tbl, Inr md)"
    using insert_succeeds assms(5) by blast
  have md: "row_of t_ID tbl ?id = Some md" "t_ID md = ?id"
    using insert_row_of [OF ins] ident by (auto dest: row_of_Some)
  obtain tbl2 md2 where mark: "TMetadataDownloadByID (?db (Suc (dp_stmts st))) ?id tbl = (tbl2, Inr md2)"
    using update_key_result [OF _ md(1), of "?db (Suc (dp_stmts st))"] assms(5)
    by (metis TMetadataDownloadByID_def by_id_def eq_snd_iff)
  obtain m where row: "row_of t_ID tbl2 ?id = Some m" "t_PausedAt m = Inf" "t_InitiatedAt m < t0" "t_ID md2 = ?id"
    using by_id_row [OF mark [unfolded TMetadataDownloadByID_def]] assms(5) md by fastforce
  let ?st2 = "st\<lparr>dp_os := fs, dp_stmts := Suc (Suc (dp_stmts st)), dp_torrents := tbl2\<rparr>"
  have run: "Directory_download e p (st, c) = (case we_tune e (rn_ID dl) (dm_Trackers (public_merge e meta)) c1 of
      (c2, Some err) \<Rightarrow> (?st2, c2)
    | (c2, None) \<Rightarrow> (fst (Download (we_env e) (we_rootstore e) (rn_transfer dl) (rn_files dl) (rn_written dl) md2 ?st2), c2))"
    using assms(2-4) ins mark md(2)
    by (simp add: Directory_download_def record_dropped_def on_os_def on_tracked_def Let_def)
  obtain st3 res where down: "Download (we_env e) (we_rootstore e) (rn_transfer dl) (rn_files dl) (rn_written dl) md2 ?st2 = (st3, res)"
    by fastforce
  have "\<exists>m'. row_of t_ID (dp_torrents st3) ?id = Some m' \<and> t_PausedAt m' = Inf \<and> t_InitiatedAt m' < t0"
    using Download_rows [OF down] completed_row [OF _ row(1)] row by fastforce
  with run down assms(1) row show ?thesis
    by (auto simp: resumable_def TMetadataQueryInitiated_def TMetadataQueryNotPaused_def split: prod.splits option.splits)
qed

text \<open>A directory with one torrent for the witnesses; the client counts what it starts.\<close>

definition demo_running :: running where
  "demo_running = \<lparr>rn_ID = [1], rn_Info = Some \<lparr>ti_Name = ''n'', ti_TotalLength = 2, ti_Private = None\<rparr>,
     rn_transfer = (\<lambda>fs. (fs, Inl (Fundamental ''closed''))), rn_files = (\<lambda>_. demo_root), rn_written = 0\<rparr>"

definition demo_watch :: "nat watch_env" where
  "demo_watch = \<lparr>we_env = demo_ie, we_rootstore = ''/t'', we_watch = (\<lambda>_. None),
     we_entries = (\<lambda>st q. Inr (if q = [''w''] then [''a.torrent''] else [])),
     we_load = (\<lambda>p fs. (fs, Inr \<lparr>dm_ID = [1], dm_Info = Inr \<lparr>ti_Name = ''n'', ti_TotalLength = 2, ti_Private = None\<rparr>,
       dm_Trackers = [''u'']\<rparr>)),
     we_merge = (\<lambda>ts m. m\<lparr>dm_Trackers := dm_Trackers m @ ts\<rparr>), we_start = (\<lambda>m n. (Suc n, Inr demo_running)),
     we_tune = (\<lambda>_ _ n. (n, None))\<rparr>"

definition demo_drop :: depot where
  "demo_drop = (demo_depot [])\<lparr>dp_os := demo_os\<lparr>nodes_of :=
     [[''w''] \<mapsto> Directory, [''w'', ''a.torrent''] \<mapsto> Regular [7]]\<rparr>\<rparr>"

theorem existing_torrents_stay_witness:
  "\<exists>st' err. watch_directory demo_watch None ''/w'' [Inr \<lparr>ev_Name = ''/w/a.torrent'', ev_Op = op_Write\<rparr>] (demo_drop, 0) =
     ((st', 0), err) \<and> dp_torrents st' = []"
proof -
  let ?evs = "[Inr \<lparr>ev_Name = ''/w/a.torrent'', ev_Op = op_Write\<rparr>]"
  obtain st' c' err where run: "watch_directory demo_watch None ''/w'' ?evs (demo_drop, 0) = ((st', c'), err)"
    by (metis prod.exhaust)
  have "c' = 0 \<and> dp_torrents st' = dp_torrents demo_drop \<and> dp_media st' = dp_media demo_drop"
    by (rule existing_torrents_stay [OF _ _ run]) (auto simp: HasSuffix_def op_Create_def op_Chmod_def op_Write_def)
  with run show ?thesis by (simp add: demo_drop_def demo_depot_def)
qed

theorem dropped_torrent_resumes_witness:
  "\<exists>st' c' m. Directory_download demo_watch ''/w/a.torrent'' (demo_drop, 0) = (st', c') \<and>
     row_of t_ID (dp_torrents st') ''a'' = Some m \<and> resumable Inf m = TMetadataQueryIncomplete m"
proof -
  obtain st' c' where run: "Directory_download demo_watch ''/w/a.torrent'' (demo_drop, 0) = (st', c')" by fastforce
  have now: "sql_now demo_db < Inf" by (simp add: demo_db_def Inf_eq Second_def max_i64_def)
  have "\<exists>m. row_of t_ID (dp_torrents st') (HashUID (ie_md5uuid (we_env demo_watch)) (rn_ID demo_running)) = Some m \<and>
      resumable Inf m = TMetadataQueryIncomplete m"
    by (rule dropped_torrent_resumes [OF run])
      (simp_all add: demo_watch_def demo_running_def public_merge_def Autoderef_def now)
  with run show ?thesis by (auto simp: HashUID_def demo_watch_def demo_ie_def)
qed

end
