(* ===== verification/Server.thy ===== *)
theory Server
  imports Accountsapi Discovered Sshoauth Wireguardapi
begin

text \<open>
  The server of the daemon: the routes of \<^verbatim>\<open>shallows/cmd/retrovibed/daemons/cmd.daemon.go\<close> with the probe of
  \<^verbatim>\<open>shallows/internal/httpx/healthz.go\<close>.

  The state is what the services share: the depot with its files, media and torrents, the known media, the feeds
  and the accounts. A service is mounted under a prefix and sees the path below it. The middleware that
  injects failures is the identity at its default rate and is left out here; \<open>Httpx\<close> has it.
\<close>

section \<open>Routes\<close>

record 'c server =
  sv_site :: "'c site"
  sv_known :: "Known list"
  sv_feeds :: "RSS list"
  sv_oauth :: oauth_state

record ('c, 'sig) server_env =
  se_oauth :: "'sig ssh_oauth"
  se_tunnels :: tunnels_env
  se_accounts :: accounts_env
  se_authz :: api_env
  se_library :: library_env
  se_site :: "'c site_env"
  se_feeds :: feeds_env
  se_known :: known_env
  se_chance :: real
  se_failure_rate :: real
  se_healthy :: int

type_synonym 'c server_handler = "('c server, unit) handler"

text \<open>The path below a prefix. Every route of a service starts with a slash.\<close>

definition below :: "string \<Rightarrow> string \<Rightarrow> string option" where
  "below prefix p =
     (if take (length prefix) p = prefix \<and> take 1 (drop (length prefix) p) = ''/'' then Some (drop (length prefix) p) else None)"

text \<open>A service acts on its part of the state.\<close>

definition zoom :: "('s \<Rightarrow> 'a) \<Rightarrow> ('a \<Rightarrow> 's \<Rightarrow> 's) \<Rightarrow> 'x \<Rightarrow> ('a, 'x) handler \<Rightarrow> ('s, unit) handler" where
  "zoom get put ctx h st u w r = bind_outcome (h (get st) ctx w r) (\<lambda>(a, w'). Return (put a st, w'))"

definition sv_depot :: "'c server \<Rightarrow> depot" where "sv_depot st = si_depot (sv_site st)"
definition sv_os :: "'c server \<Rightarrow> os" where "sv_os st = dp_os (sv_depot st)"
definition sv_accounts :: "'c server \<Rightarrow> accounts" where "sv_accounts st = os_accounts (sv_oauth st)"

definition put_depot :: "depot \<Rightarrow> 'c server \<Rightarrow> 'c server" where
  "put_depot d st = st\<lparr>sv_site := (sv_site st)\<lparr>si_depot := d\<rparr>\<rparr>"

definition put_os :: "os \<Rightarrow> 'c server \<Rightarrow> 'c server" where
  "put_os fs st = put_depot ((sv_depot st)\<lparr>dp_os := fs\<rparr>) st"

definition put_accounts :: "accounts \<Rightarrow> 'c server \<Rightarrow> 'c server" where
  "put_accounts ac st = st\<lparr>sv_oauth := (sv_oauth st)\<lparr>os_accounts := ac\<rparr>\<rparr>"

text \<open>The service of permissions is stated on the map the rows stand for and changes the profile of its path: the rows
  that stand for the map afterwards.\<close>

definition store_grant :: "string \<Rightarrow> authz_table \<Rightarrow> Authz list \<Rightarrow> Authz list" where
  "store_grant pid m rows =
     (if m pid = authz_map rows pid then rows
      else (case m pid of
          None \<Rightarrow> filter (\<lambda>a. az_ProfileID a \<noteq> pid) rows
        | Some a \<Rightarrow>
            if pid \<in> set (map az_ProfileID rows) then map (\<lambda>b. if az_ProfileID b = pid then a else b) rows else rows @ [a]))"

definition authz_rows_Serve :: "api_env \<Rightarrow> (accounts, unit) handler" where
  "authz_rows_Serve e st ctx w r =
     bind_outcome (Serve e (authz_map (ac_authz st)) None w r) (\<lambda>(m, w').
       Return (case path_id (rPath r) of None \<Rightarrow> st | Some pid \<Rightarrow> st\<lparr>ac_authz := store_grant pid m (ac_authz st)\<rparr>, w'))"

text \<open>\<^verbatim>\<open>WriteHeader\<close> of \<^verbatim>\<open>net/http\<close> panics at a status of less than three digits. The daemon passes no failure.\<close>

definition net_WriteHeader :: "int \<Rightarrow> response_writer \<Rightarrow> response_writer outcome" where
  "net_WriteHeader code w =
     (if wSent w \<noteq> None then Return w else if code < 100 \<or> 999 < code then Panic else Return (WriteHeader code w))"

definition Healthz :: "real \<Rightarrow> real \<Rightarrow> int \<Rightarrow> int list \<Rightarrow> response_writer \<Rightarrow> response_writer outcome" where
  "Healthz chance prob defaultCode failures w =
     (if chance < prob then net_WriteHeader (FirstOrZero 0 failures) w else net_WriteHeader defaultCode w)"

definition mounted :: "('c, 'sig) server_env \<Rightarrow> (string \<times> 'c server_handler) list" where
  "mounted e =
     [(''/oauth2/ssh'', zoom sv_oauth (\<lambda>a st. st\<lparr>sv_oauth := a\<rparr>) () (oauth_Serve (se_oauth e))),
      (''/meta/u12t'', zoom sv_accounts put_accounts () (profiles_Serve (se_accounts e))),
      (''/meta/d'', zoom sv_accounts put_accounts () (daemons_Serve (se_accounts e))),
      (''/meta/authz'', zoom sv_accounts put_accounts () (authz_rows_Serve (se_authz e))),
      (''/wireguard'', zoom sv_os put_os () (tunnels_Serve (se_tunnels e))),
      (''/m'', zoom sv_depot put_depot () (library_Serve (se_library e))),
      (''/d'', zoom sv_site (\<lambda>a st. st\<lparr>sv_site := a\<rparr>) () (discovered_Serve (se_site e))),
      (''/rss'', zoom sv_feeds (\<lambda>a st. st\<lparr>sv_feeds := a\<rparr>) () (feeds_Serve (se_feeds e))),
      (''/k'', zoom sv_known (\<lambda>a st. st\<lparr>sv_known := a\<rparr>) () (known_Serve (se_known e)))]"

primrec route :: "(string \<times> 's media_handler) list \<Rightarrow> 's media_handler" where
  "route [] = (\<lambda>st ctx w r. Return (st, WriteHeader 404 w))"
| "route (m # ms) = (\<lambda>st ctx w r.
     case below (fst m) (rPath r) of Some p \<Rightarrow> snd m st ctx w (r\<lparr>rPath := p\<rparr>) | None \<Rightarrow> route ms st ctx w r)"

definition server_Serve :: "('c, 'sig) server_env \<Rightarrow> 'c server_handler" where
  "server_Serve e st ctx w r =
     (if rPath r = ''/healthz'' then
        if rMethod r = ''GET'' then
          bind_outcome (Healthz (se_chance e) (se_failure_rate e) (se_healthy e) [] w) (\<lambda>w'. Return (st, w'))
        else Return (st, WriteHeader 405 w)
      else route (mounted e) st ctx w r)"

section \<open>Lemmas\<close>

text \<open>The rows stand for the map.\<close>

lemma row_of_replace:
  assumes "az_ProfileID a = pid" "pid \<in> set (map az_ProfileID rows)"
  shows "row_of az_ProfileID (map (\<lambda>b. if az_ProfileID b = pid then a else b) rows) k =
     (if k = pid then Some a else row_of az_ProfileID rows k)"
proof (cases "k = pid")
  case True
  from assms(2) have "row_of az_ProfileID (map (\<lambda>b. if az_ProfileID b = pid then a else b) rows) pid = Some a"
    unfolding row_of_def by (induction rows) (auto simp: assms(1))
  with True show ?thesis by simp
next
  case False
  then have "row_of az_ProfileID (map (\<lambda>b. if az_ProfileID b = pid then a else b) rows) k = row_of az_ProfileID rows k"
    unfolding row_of_def by (induction rows) (simp_all add: assms(1))
  with False show ?thesis by simp
qed

lemma row_of_drop:
  "row_of az_ProfileID (filter (\<lambda>a. az_ProfileID a \<noteq> pid) rows) k = (if k = pid then None else row_of az_ProfileID rows k)"
  unfolding row_of_def by (induction rows) auto

lemma store_grant_map:
  assumes "\<And>k. k \<noteq> pid \<Longrightarrow> m k = authz_map rows k" "\<And>a. m pid = Some a \<Longrightarrow> az_ProfileID a = pid"
  shows "authz_map (store_grant pid m rows) = m"
proof (cases "m pid = authz_map rows pid")
  case True
  with assms(1) have "m k = authz_map rows k" for k by (cases "k = pid") auto
  with True show ?thesis by (auto simp: store_grant_def)
next
  case False
  show ?thesis
  proof (cases "m pid")
    case None
    with False assms(1) show ?thesis by (auto simp: store_grant_def authz_map_def row_of_drop)
  next
    case (Some a)
    have "row_of az_ProfileID (rows @ [a]) k = m k" if "pid \<notin> set (map az_ProfileID rows)" for k
    proof (cases "k = pid")
      case True
      with that have "row_of az_ProfileID rows k = None" by (simp add: row_of_None_iff)
      with True assms(2) [OF Some] Some show ?thesis by (simp add: row_of_append)
    next
      case False
      with assms(1) [of k] assms(2) [OF Some] show ?thesis by (simp add: row_of_append authz_map_def split: option.split)
    qed
    with Some False assms(1) assms(2) [OF Some] show ?thesis
      by (auto simp: store_grant_def authz_map_def row_of_replace)
  qed
qed

lemma store_grant_same [simp]: "store_grant pid (authz_map rows) rows = rows"
  by (simp add: store_grant_def)

text \<open>A handler that leaves the state as it was and answers with an error.\<close>

definition rejects :: "'s media_handler \<Rightarrow> request \<Rightarrow> bool" where
  "rejects h r \<longleftrightarrow> (\<forall>st w st' w'. wSent w = None \<longrightarrow> h st () w r = Return (st', w') \<longrightarrow>
     st' = st \<and> (\<exists>code hd. wSent w' = Some (code, hd) \<and> code \<in> {400, 401, 404, 405}))"

lemma rejectsD:
  assumes "rejects h r" "wSent w = None" "h st () w r = Return (st', w')"
  shows "st' = st \<and> (\<exists>code hd. wSent w' = Some (code, hd) \<and> code \<in> {400, 401, 404, 405})"
  using assms unfolding rejects_def by blast

lemma zoom_rejects:
  assumes "rejects h r" "\<And>st. put (get st) st = st"
  shows "rejects (zoom get put () h) r"
  unfolding rejects_def zoom_def
proof (intro allI impI)
  fix st w st' w'
  assume fresh: "wSent w = None" and run: "bind_outcome (h (get st) () w r) (\<lambda>(a, w'). Return (put a st, w')) = Return (st', w')"
  from run obtain a where a: "h (get st) () w r = Return (a, w')" "st' = put a st"
    by (cases "h (get st) () w r") auto
  with rejectsD [OF assms(1) fresh a(1)] assms(2) show "st' = st \<and> (\<exists>code hd. wSent w' = Some (code, hd) \<and> code \<in> {400, 401, 404, 405})"
    by simp
qed

lemma route_rejects:
  assumes "\<And>m p. m \<in> set ms \<Longrightarrow> below (fst m) (rPath r) = Some p \<Longrightarrow> rejects (snd m) (r\<lparr>rPath := p\<rparr>)"
  shows "rejects (route ms) r"
  using assms
proof (induction ms)
  case Nil
  show ?case by (auto simp: rejects_def WriteHeader_def)
next
  case (Cons m ms)
  show ?case
  proof (cases "below (fst m) (rPath r)")
    case None
    moreover have "rejects (route ms) r" using Cons.IH Cons.prems by auto
    ultimately show ?thesis by (simp add: rejects_def)
  next
    case (Some p)
    moreover have "rejects (snd m) (r\<lparr>rPath := p\<rparr>)" using Cons.prems [of m p] Some by simp
    ultimately show ?thesis by (simp add: rejects_def)
  qed
qed

text \<open>The services that ask for a token, without one.\<close>

lemma tunnels_rejects:
  assumes "Validate (te_parse e) (te_algos e) ''*jwt.RegisteredClaims'' (te_secret e) (Bearer r) = Inl err"
  shows "rejects (tunnels_Serve e) r"
proof -
  have auth: "needs_token e h st () w r = Return (st, Unauthorized w)" for h st w
    using assms by (simp add: needs_token_def AuthenticateWithToken_def)
  show ?thesis
    unfolding rejects_def tunnels_Serve_def
    by (auto simp: ParseForm_def auth Unauthorized_def WriteHeader_def resp_Write_def Header_Set_def split: if_splits option.splits)
qed

lemma known_rejects:
  assumes "Validate (ap_parse (ke_api e)) (ap_algos (ke_api e)) ''*jwt.RegisteredClaims'' (ap_secret (ke_api e)) (Bearer r) = Inl err"
  shows "rejects (known_Serve e) r"
proof -
  have auth: "authenticated (ke_api e) h st () w r = Return (st, Unauthorized w)" for h :: "Known list media_handler" and st w
    using assms by (simp add: authenticated_def AuthenticateWithToken_def)
  show ?thesis
    unfolding rejects_def known_Serve_def
    by (auto simp: with_form_def ParseForm_def auth Unauthorized_def WriteHeader_def resp_Write_def Header_Set_def
        split: if_splits option.splits)
qed

lemma authz_rejects:
  assumes "Validate (parse_registered e) (algos e) ''*jwt.RegisteredClaims'' (jwtsecret e) (Bearer r) = Inl err"
    and "Validate (parse_token e) (algos e) ''*metaapi.tokenclaims'' (jwtsecret e) (Bearer r) = Inl err'"
  shows "rejects (authz_rows_Serve e) r"
proof -
  have auth: "AuthenticateWithToken (parse_registered e) (algos e) (jwtsecret e) h m None w r = Return (m, Unauthorized w)"
    "AuthzTokenHTTP (parse_token e) (algos e) (jwtsecret e) check h m None w r = Return (m, Unauthorized w)"
    for h :: api_handler and m check w
    using assms by (simp_all add: AuthenticateWithToken_def AuthzTokenHTTP_def)
  show ?thesis
    unfolding rejects_def authz_rows_Serve_def Serve_def
    by (auto simp: ParseForm_def auth Unauthorized_def WriteHeader_def resp_Write_def Header_Set_def split: if_splits option.splits)
qed

lemma accounts_rejects:
  assumes "Validate (ae_parse e) (ae_algos e) ''*jwt.RegisteredClaims'' (ae_secret e) (Bearer r) = Inl err"
  shows "rejects (daemons_Serve e) r" "rejects (profiles_Serve e) r"
  unfolding rejects_def
  using accounts_Serve_guarded [OF assms, of "daemons_Serve e"] accounts_Serve_guarded [OF assms, of "profiles_Serve e"] by blast+

lemma library_rejects:
  assumes "Validate (ap_parse (le_api e)) (ap_algos (le_api e)) ''*jwt.RegisteredClaims'' (ap_secret (le_api e)) (Bearer r) = Inl err"
  shows "rejects (library_Serve e) r"
  unfolding rejects_def using library_Serve_guarded [OF assms] by blast

lemma discovered_rejects:
  assumes "Validate (ap_parse (de_api e)) (ap_algos (de_api e)) ''*jwt.RegisteredClaims'' (ap_secret (de_api e)) (Bearer r) = Inl err"
    and "\<not> (rMethod r = ''POST'' \<and> rPath r = ''/magnet'')"
  shows "rejects (discovered_Serve e) r"
  unfolding rejects_def using discovered_Serve_guarded [OF assms(1)] assms(2) by blast

lemma Bearer_path [simp]: "Bearer (r\<lparr>rPath := p\<rparr>) = Bearer r"
  "Bearer (r\<lparr>rMethod := v\<rparr>) = Bearer r"
  by (simp_all add: Bearer_def)

lemma below_append: "below prefix p = Some q \<Longrightarrow> p = prefix @ q"
  unfolding below_def by (metis append_take_drop_id option.inject option.distinct(1))

text \<open>What a part of the state puts back is the state.\<close>

lemma put_same [simp]: "put_depot (sv_depot st) st = st" "put_os (sv_os st) st = st" "put_accounts (sv_accounts st) st = st"
  by (simp_all add: put_depot_def sv_depot_def put_os_def sv_os_def put_accounts_def sv_accounts_def)

text \<open>The requests of a login and a deletion, one after the other.\<close>

lemma login_routes:
  assumes "so_allow e (r\<lparr>rMethod := m, rPath := p\<rparr>)" "\<not> so_malformed e (r\<lparr>rMethod := m, rPath := p\<rparr>)"
  shows "m = ''GET'' \<Longrightarrow> p = ''/auth'' \<Longrightarrow> ssh_auth e (os_accounts st) () w (r\<lparr>rMethod := m, rPath := p\<rparr>) = Return (ac, w') \<Longrightarrow>
      oauth_Serve e st () w (r\<lparr>rMethod := m, rPath := p\<rparr>) = Return (st\<lparr>os_auth_attempts := 0, os_accounts := ac\<rparr>, w')"
    and "m = ''POST'' \<Longrightarrow> p = ''/token'' \<Longrightarrow> ssh_token e (os_accounts st) () w (r\<lparr>rMethod := m, rPath := p\<rparr>) = Return (ac, w') \<Longrightarrow>
      oauth_Serve e st () w (r\<lparr>rMethod := m, rPath := p\<rparr>) = Return (st\<lparr>os_token_attempts := 0, os_accounts := ac\<rparr>, w')"
  using assms by (auto simp: oauth_Serve_def RouteRateLimited_def ParseForm_def)

lemma library_deletes:
  assumes "Validate (ap_parse (le_api e)) (ap_algos (le_api e)) ''*jwt.RegisteredClaims'' (ap_secret (le_api e)) (Bearer r) = Inr claims"
    and "rMethod r = ''DELETE''" "rPath r = CHR ''/'' # ident" "ident \<noteq> []" "CHR ''/'' \<notin> set ident" "\<not> ap_malformed (le_api e) r"
    and "sql_err (ie_db (le_env e) (dp_stmts st)) = None" "sql_uuid (ie_db (le_env e) (dp_stmts st)) ident = Inr ident"
    and "row_of ID (dp_media st) ident = Some m"
  shows "\<exists>st' w'. library_Serve e st () w r = Return (st', w') \<and>
    row_of ID (dp_media st') ident = Some (m\<lparr>TombstonedAt := sql_now (ie_db (le_env e) (dp_stmts st))\<rparr>)"
proof -
  let ?db = "ie_db (le_env e) (dp_stmts st)"
  have "path_id_of ''/metadatasync'' (rPath r) = None"
  proof (rule ccontr)
    assume "path_id_of ''/metadatasync'' (rPath r) \<noteq> None"
    then have "HasSuffix (CHR ''/'' # ident) ''/metadatasync''" "TrimSuffix (CHR ''/'' # ident) ''/metadatasync'' \<noteq> []"
      using assms(3) by (auto simp: path_id_of_def path_id_def split: if_splits list.splits)
    then obtain x where "CHR ''/'' # ident = x @ ''/metadatasync''" "x \<noteq> []"
      by (metis HasSuffix_def TrimSuffix_def append_take_drop_id)
    then show False using assms(5) by (cases x) auto
  qed
  moreover have "path_id (rPath r) = Some ident" using assms(3-5) by (simp add: path_id_def)
  moreover obtain tbl' m' where del: "LMetadataTombstoneByID ?db ident (dp_media st) = (tbl', Inr m')"
    "row_of ID tbl' ident = Some (m\<lparr>TombstonedAt := sql_now ?db\<rparr>)"
  proof -
    obtain rs where "filter (\<lambda>m. ID m = ident) (dp_media st) = m # rs"
      using assms(9) by (auto simp: row_of_filter split: list.splits)
    then obtain tbl' m' where del: "LMetadataTombstoneByID ?db ident (dp_media st) = (tbl', Inr m')"
      using assms(7,8) by (simp add: LMetadataTombstoneByID_def media_by_id_def uuid_arg_def update_where_all query_row_def)
    with media_by_id_stored [OF del [unfolded LMetadataTombstoneByID_def]] assms(8,9) that show thesis by auto
  qed
  ultimately show ?thesis
    using assms(1-6)
    by (simp add: library_Serve_def with_form_def ParseForm_def authenticated_def AuthenticateWithToken_def library_delete_def
        on_media_def respond_def Let_def)
qed

section \<open>Properties\<close>

text \<open>The services read the same secret from the environment and the same library of tokens.\<close>

definition one_secret :: "RegisteredClaims jwt_parse \<Rightarrow> string list \<Rightarrow> bytes \<Rightarrow> ('c, 'sig) server_env \<Rightarrow> bool" where
  "one_secret parse alg secret e \<longleftrightarrow>
     list_all (\<lambda>a. (ap_parse a, ap_algos a, ap_secret a) = (parse, alg, secret))
       [le_api (se_library e), de_api (se_site e), ke_api (se_known e)] \<and>
     (te_parse (se_tunnels e), te_algos (se_tunnels e), te_secret (se_tunnels e)) = (parse, alg, secret) \<and>
     (ae_parse (se_accounts e), ae_algos (se_accounts e), ae_secret (se_accounts e)) = (parse, alg, secret) \<and>
     (parse_registered (se_authz e), algos (se_authz e), jwtsecret (se_authz e)) = (parse, alg, secret)"

text \<open>The routes that ask for no token.\<close>

definition open_route :: "request \<Rightarrow> bool" where
  "open_route r \<longleftrightarrow> rPath r = ''/healthz'' \<or> below ''/oauth2/ssh'' (rPath r) \<noteq> None \<or> below ''/rss'' (rPath r) \<noteq> None \<or>
     rMethod r = ''POST'' \<and> rPath r = ''/d/magnet''"


text \<open>C5: whoever knows the public key of the operator can delete the library. The code and the token that the login gives for
  the key, with no signature, are accepted by the service of the media, which marks the media as deleted.\<close>

theorem public_key_deletes_media:
  assumes "oe = se_oauth e" "ac = sv_accounts st" "\<And>n. sql_err (so_db oe n) = None"
    and "casts_to (so_keys oe) fp" "casts_to (so_keys oe) pid" "casts_to (so_keys oe) uuid_Nil_string"
    and "casts_to (so_keys oe) (ky_md5uuid (so_keys oe) (string_bytes state))"
    and "row_of is_ID (ac_identities ac) fp = Some i" "is_ProfileID i = pid" "\<not> so_is_nil oe pid"
    and "row_of pf_ID (ac_profiles ac) pid = Some p" "fp = FingerprintMD5 (ky_md5uuid (so_keys oe)) pub"
    and "ask = req\<lparr>rMethod := ''GET'', rPath := ''/auth''\<rparr>" "so_allow oe ask" "\<not> so_malformed oe ask" "auth_asks oe ask state pub"
    and "row_of ct_ID (ac_tokens ac) (ky_md5uuid (so_keys oe) (string_bytes state)) = None"
    and "so_sign oe (code_key oe i) (code_claims oe fp) = Inr code" "rc_Subject (so_peek oe code) = fp"
    and "Validate (so_parse oe) (so_algos oe) ''*jwt.RegisteredClaims'' (code_key oe i) code = Inr (code_claims oe fp)"
    and "redeem = req'\<lparr>rMethod := ''POST'', rPath := ''/token''\<rparr>" "so_allow oe redeem" "\<not> so_malformed oe redeem"
    and "so_token_form oe redeem = Inr msg" "tf_GrantType msg = ''authorization_code''" "tf_Code msg = code"
    and "so_form_value oe redeem ''access_type'' \<noteq> ''offline''"
    and "so_sign oe (so_secret oe) (session_claims oe pid fp) = Inr token"
    and "le = se_library e" "db = ie_db (le_env le) (dp_stmts (sv_depot st))" "Bearer req'' = token"
    and "Validate (ap_parse (le_api le)) (ap_algos (le_api le)) ''*jwt.RegisteredClaims'' (ap_secret (le_api le)) token = Inr claims"
    and "ident \<noteq> []" "CHR ''/'' \<notin> set ident" "\<And>r. \<not> ap_malformed (le_api le) r" "sql_err db = None" "sql_uuid db ident = Inr ident"
    and "row_of ID (dp_media (sv_depot st)) ident = Some m"
  shows "\<exists>st1 st2 st3 n w3.
    server_Serve e st () w (req\<lparr>rMethod := ''GET'', rPath := ''/oauth2/ssh/auth''\<rparr>) =
      Return (st1, answer_with oe w (AuthJSON code state)) \<and>
    server_Serve e st1 () w' (req'\<lparr>rMethod := ''POST'', rPath := ''/oauth2/ssh/token''\<rparr>) =
      Return (st2, answer_with oe w' (TokenJSON token ''BEARER'' [] n)) \<and>
    server_Serve e st2 () w'' (req''\<lparr>rMethod := ''DELETE'', rPath := ''/m/'' @ ident\<rparr>) = Return (st3, w3) \<and>
    row_of ID (dp_media (sv_depot st3)) ident = Some (m\<lparr>TombstonedAt := sql_now db\<rparr>)"
proof -
  obtain ac1 ac2 n where login: "ssh_auth oe ac () w ask = Return (ac1, answer_with oe w (AuthJSON code state))"
    "ssh_token oe ac1 () w' redeem = Return (ac2, answer_with oe w' (TokenJSON token ''BEARER'' [] n))"
    using public_key_suffices [OF assms(3-12,16-20,24-28)] by blast
  let ?st1 = "st\<lparr>sv_oauth := (sv_oauth st)\<lparr>os_auth_attempts := 0, os_accounts := ac1\<rparr>\<rparr>"
  let ?st2 = "?st1\<lparr>sv_oauth := (sv_oauth ?st1)\<lparr>os_token_attempts := 0, os_accounts := ac2\<rparr>\<rparr>"
  have one: "server_Serve e st () w (req\<lparr>rMethod := ''GET'', rPath := ''/oauth2/ssh/auth''\<rparr>) =
      Return (?st1, answer_with oe w (AuthJSON code state))"
    using login_routes(1) [OF _ _ refl refl, of oe req "sv_oauth st" w ac1] login(1) assms(1,2,13-15)
    by (simp add: server_Serve_def mounted_def below_def zoom_def sv_accounts_def)
  have two: "server_Serve e ?st1 () w' (req'\<lparr>rMethod := ''POST'', rPath := ''/oauth2/ssh/token''\<rparr>) =
      Return (?st2, answer_with oe w' (TokenJSON token ''BEARER'' [] n))"
    using login_routes(2) [OF _ _ refl refl, of oe req' "sv_oauth ?st1" w' ac2] login(2) assms(1,21-23)
    by (simp add: server_Serve_def mounted_def below_def zoom_def)
  have depot: "sv_depot ?st2 = sv_depot st" by (simp add: sv_depot_def)
  obtain d w3 where three: "library_Serve le (sv_depot st) () w'' (req''\<lparr>rMethod := ''DELETE'', rPath := CHR ''/'' # ident\<rparr>) = Return (d, w3)"
    "row_of ID (dp_media d) ident = Some (m\<lparr>TombstonedAt := sql_now db\<rparr>)"
    using library_deletes [of le "req''\<lparr>rMethod := ''DELETE'', rPath := CHR ''/'' # ident\<rparr>" claims ident "sv_depot st" m w'']
      assms(30-38) by auto
  have "server_Serve e ?st2 () w'' (req''\<lparr>rMethod := ''DELETE'', rPath := ''/m/'' @ ident\<rparr>) = Return (put_depot d ?st2, w3)"
    using three(1) depot assms(29)
    by (simp add: server_Serve_def mounted_def below_def zoom_def)
  moreover have "row_of ID (dp_media (sv_depot (put_depot d ?st2))) ident = Some (m\<lparr>TombstonedAt := sql_now db\<rparr>)"
    using three(2) by (simp add: sv_depot_def put_depot_def)
  ultimately show ?thesis
    using one two
    by (intro exI [where x = ?st1] exI [where x = ?st2] exI [where x = "put_depot d ?st2"] exI [where x = n] exI [where x = w3] conjI)
qed

text \<open>The probe never answers with a failure. When the draw of the week is below the rate of failures it writes the status 0, at
  which the server panics.\<close>

lemma healthz_failure_panics:
  assumes "se_chance e < se_failure_rate e" "rMethod r = ''GET''" "rPath r = ''/healthz''" "wSent w = None"
  shows "server_Serve e st ctx w r = Panic"
  using assms by (simp add: server_Serve_def Healthz_def net_WriteHeader_def FirstOrZero_def)

text \<open>A server whose token is \<open>tok\<close>.\<close>

definition demo_parse :: "string \<Rightarrow> RegisteredClaims jwt_parse" where
  "demo_parse tok = (\<lambda>_ _ s. if s = tok then Inr (demo_claims, True) else Inl (Fundamental ''invalid''))"

definition demo_api_of :: "string \<Rightarrow> api" where
  "demo_api_of tok = demo_media_api\<lparr>ap_parse := demo_parse tok, ap_algos := []\<rparr>"

definition demo_form :: token_form where
  "demo_form = \<lparr>tf_GrantType = ''authorization_code'', tf_Username = [], tf_Password = [], tf_Code = ''code''\<rparr>"

definition code_oauth :: "unit ssh_oauth" where
  "code_oauth = demo_oauth\<lparr>so_token_form := (\<lambda>_. Inr demo_form)\<rparr>"

definition demo_server_env :: "string \<Rightarrow> (unit, unit) server_env" where
  "demo_server_env tok = \<lparr>se_oauth = code_oauth, se_tunnels = demo_tunnels\<lparr>te_parse := demo_parse tok, te_algos := []\<rparr>,
     se_accounts = (demo_account_service [])\<lparr>ae_parse := demo_parse tok, ae_algos := []\<rparr>,
     se_authz = plain_api\<lparr>parse_registered := demo_parse tok\<rparr>, se_library = demo_library\<lparr>le_api := demo_api_of tok\<rparr>,
     se_site = demo_discovered\<lparr>de_api := demo_api_of tok\<rparr>, se_feeds = demo_feeds,
     se_known = \<lparr>ke_api = demo_api_of tok, ke_db = demo_db, ke_decode = (\<lambda>_ d. Inr d), ke_match = (\<lambda>_. Inr (\<lambda>_. True)),
       ke_order = (\<lambda>_ rows. rows)\<rparr>, se_chance = 1, se_failure_rate = 0, se_healthy = 200\<rparr>"

definition demo_server :: "accounts \<Rightarrow> unit server" where
  "demo_server ac = \<lparr>sv_site = (demo_site [])\<lparr>si_depot := demo_depot [demo_media ''a'' Inf]\<rparr>, sv_known = [], sv_feeds = [],
     sv_oauth = \<lparr>os_auth_attempts = 0, os_token_attempts = 0, os_accounts = ac\<rparr>\<rparr>"

lemma demo_one_secret: "one_secret (demo_parse tok) [] [] (demo_server_env tok)"
  by (simp add: one_secret_def demo_server_env_def demo_api_of_def demo_media_api_def demo_tunnels_def demo_account_service_def
      plain_api_def)


lemma code_oauth_same:
  "so_db code_oauth = so_db demo_oauth" "code_key code_oauth = code_key demo_oauth" "code_claims code_oauth = code_claims demo_oauth"
  "session_claims code_oauth = session_claims demo_oauth" "auth_asks code_oauth = auth_asks demo_oauth"
  "so_keys code_oauth = so_keys demo_oauth" "so_sign code_oauth = so_sign demo_oauth" "so_parse code_oauth = so_parse demo_oauth"
  "so_algos code_oauth = so_algos demo_oauth" "so_peek code_oauth = so_peek demo_oauth" "so_is_nil code_oauth = so_is_nil demo_oauth"
  "so_allow code_oauth = so_allow demo_oauth" "so_malformed code_oauth = so_malformed demo_oauth" "so_secret code_oauth = so_secret demo_oauth"
  "so_form_value code_oauth = so_form_value demo_oauth" "so_encode code_oauth = so_encode demo_oauth"
  by (auto simp: code_oauth_def so_db_def code_key_def code_claims_def session_claims_def auth_asks_def fun_eq_iff)

theorem public_key_deletes_media_witness:
  "\<exists>st3 w3. (\<exists>st1 st2 n. server_Serve (demo_server_env ''session'') (demo_server demo_accounts) () fresh_response
        (key_request\<lparr>rMethod := ''GET'', rPath := ''/oauth2/ssh/auth''\<rparr>) =
        Return (st1, answer_with code_oauth fresh_response (AuthJSON ''code'' [])) \<and>
      server_Serve (demo_server_env ''session'') st1 () fresh_response (key_request\<lparr>rMethod := ''POST'', rPath := ''/oauth2/ssh/token''\<rparr>) =
        Return (st2, answer_with code_oauth fresh_response (TokenJSON ''session'' ''BEARER'' [] n)) \<and>
      server_Serve (demo_server_env ''session'') st2 () fresh_response
        (key_request\<lparr>rHeader := (\<lambda>_. [''bearer session'']), rMethod := ''DELETE'', rPath := ''/m/'' @ ''a''\<rparr>) = Return (st3, w3)) \<and>
    row_of ID (dp_media (sv_depot st3)) ''a'' = Some ((demo_media ''a'' Inf)\<lparr>TombstonedAt := 70000000000 * Second\<rparr>)"
proof -
  let ?e = "demo_server_env ''session''" and ?i = "zero_Identity\<lparr>is_ID := ''k'', is_ProfileID := ''p''\<rparr>"
  let ?bearer = "key_request\<lparr>rHeader := (\<lambda>_. [''bearer session''])\<rparr>"
  have e: "se_oauth ?e = code_oauth" "se_library ?e = demo_library\<lparr>le_api := demo_api_of ''session''\<rparr>"
    by (simp_all add: demo_server_env_def)
  have api: "ap_parse (demo_api_of ''session'') = demo_parse ''session''" "ap_malformed (demo_api_of ''session'') = (\<lambda>_. False)"
    by (simp_all add: demo_api_of_def demo_media_api_def)
  have db: "ie_db (le_env (demo_library\<lparr>le_api := demo_api_of ''session''\<rparr>)) n = demo_db" for n
    by (simp add: demo_library_def demo_ie_def)
  have st: "sv_accounts (demo_server demo_accounts) = demo_accounts" "sv_depot (demo_server demo_accounts) = demo_depot [demo_media ''a'' Inf]"
    by (simp_all add: sv_accounts_def sv_depot_def demo_server_def)
  have token: "Bearer ?bearer = ''session''"
    by (simp add: Bearer_def hdr_get_def HasPrefix_def ToLower_def to_lower_def)
  have "\<exists>st1 st2 st3 n w3. server_Serve ?e (demo_server demo_accounts) () fresh_response
        (key_request\<lparr>rMethod := ''GET'', rPath := ''/oauth2/ssh/auth''\<rparr>) =
        Return (st1, answer_with code_oauth fresh_response (AuthJSON ''code'' [])) \<and>
      server_Serve ?e st1 () fresh_response (key_request\<lparr>rMethod := ''POST'', rPath := ''/oauth2/ssh/token''\<rparr>) =
        Return (st2, answer_with code_oauth fresh_response (TokenJSON ''session'' ''BEARER'' [] n)) \<and>
      server_Serve ?e st2 () fresh_response (?bearer\<lparr>rMethod := ''DELETE'', rPath := ''/m/'' @ ''a''\<rparr>) = Return (st3, w3) \<and>
      row_of ID (dp_media (sv_depot st3)) ''a'' = Some ((demo_media ''a'' Inf)\<lparr>TombstonedAt := sql_now demo_db\<rparr>)"
  proof (rule public_key_deletes_media [where fp = "''k''" and pid = "''p''" and pub = "[1]" and i = ?i and p = "zero_Profile\<lparr>pf_ID := ''p''\<rparr>"
        and msg = demo_form and claims = demo_claims, OF e(1) [symmetric] st(1) [symmetric]])
    show "so_sign code_oauth (code_key code_oauth ?i) (code_claims code_oauth ''k'') = Inr ''code''"
      unfolding code_oauth_same demo_code_key(1) using demo_code_key(2) by (simp add: demo_oauth_def)
    show "Validate (so_parse code_oauth) (so_algos code_oauth) ''*jwt.RegisteredClaims'' (code_key code_oauth ?i) ''code'' =
        Inr (code_claims code_oauth ''k'')"
      unfolding code_oauth_same demo_code_claims by (simp add: Validate_def demo_oauth_def)
    show "auth_asks code_oauth (key_request\<lparr>rMethod := ''GET'', rPath := ''/auth''\<rparr>) [] [1]"
      unfolding code_oauth_same by (rule demo_asks)
    show "casts_to (so_keys code_oauth) uuid_Nil_string"
      unfolding code_oauth_same by (rule demo_casts) (simp add: uuid_Nil_string_def)
    show "\<not> so_is_nil code_oauth ''p''" unfolding code_oauth_same by (simp add: demo_oauth_def uuid_Nil_string_def)
    show "Validate (ap_parse (le_api (se_library ?e))) (ap_algos (le_api (se_library ?e))) ''*jwt.RegisteredClaims''
        (ap_secret (le_api (se_library ?e))) ''session'' = Inr demo_claims"
      unfolding e by (simp add: api Validate_def demo_parse_def strip_bearer.simps HasPrefix_def)
    show "Bearer ?bearer = ''session''" by (rule token)
    show "so_token_form code_oauth (key_request\<lparr>rMethod := ''POST'', rPath := ''/token''\<rparr>) = Inr demo_form"
      by (simp add: code_oauth_def)
    show "demo_db = ie_db (le_env (se_library ?e)) (dp_stmts (sv_depot (demo_server demo_accounts)))" unfolding e db ..
    show "row_of ID (dp_media (sv_depot (demo_server demo_accounts))) ''a'' = Some (demo_media ''a'' Inf)"
      by (simp add: st demo_depot_def demo_media_def row_of_def)
  qed (simp_all add: code_oauth_same e api demo_form_def,
      simp_all add: so_db_def casts_to_def row_of_def demo_oauth_simps demo_claims_def FingerprintMD5_def demo_db_def)
  then show ?thesis by (simp add: demo_db_def) blast
qed

end
