(* ===== verification/Startup.thy ===== *)
theory Startup
  imports Metadb Vpnx Asynccompute
begin

text \<open>
  The start of the daemon: \<^verbatim>\<open>Run\<close> of \<^verbatim>\<open>shallows/cmd/retrovibed/daemons/cmd.daemon.go\<close>, with
  \<^verbatim>\<open>archival.background.go\<close>; the routes it serves are in \<open>Server\<close>.

  A step acts on the file system, the accounts and the list of the services started so far, and may fail or
  panic. Constructors of the libraries are parameters that may fail; services are named, with the client of the torrents
  they are given. Failures that are only logged are left out.
\<close>

section \<open>The command and its environment\<close>

record Command =
  DisableMDNS :: bool
  AutoBootstrap :: bool
  AutoDiscovery :: bool
  AutoDownload :: bool
  AutoIdentifyMedia :: bool
  AutoArchive :: bool
  AutoReclaim :: bool
  TorrentResume :: bool
  TorrentPrivate :: bool
  TorrentPort :: u16
  TorrentPublicIP4 :: string
  TorrentPublicIP6 :: string
  TorrentMaxRequests :: u32
  HTTP_address :: string
  SelfSignedHosts :: "string list"

definition BeforeApply :: "Command \<Rightarrow> Command" where
  "BeforeApply t = t\<lparr>AutoReclaim := True, TorrentResume := True\<rparr>"

datatype storage = BlockStorage string | ArchivedStorage storage

datatype 'dev client_option =
    MetadataCacheDir string
  | StorageIn storage
  | CacheDirectory string
  | PeerID string
  | IPv4 string
  | IPv6 string
  | PEX bool
  | Seed bool
  | DialerOver "'dev option"
  | InfoLogger bool
  | DebugLogger bool
  | SamplingMuxer
  | BucketLimit int
  | DialPoolSize int
  | DialRateLimit int int
  | AcceptAny
  | MaxOutstandingRequests int
  | PeerLimits int int
  | UploadLimit int
  | HTTPUserAgent string
  | CountUploads
  | BootstrapPeerFile string
  | BootstrapGlobal
  | PrivateFirewall
  | MappedAddress Config 'dev u16
  | ConfigNoop

datatype 'c service =
    DefaultFeeds
  | DiskReclaim bool
  | Archival
  | DownloadWatcher string 'c
  | BootstrapNodes string 'c
  | Statistics
  | Checkpoints
  | MetadataImports
  | PeerDiscovery 'c
  | FeedDiscovery 'c
  | Verification 'c
  | Announcing 'c
  | Resuming 'c
  | Identification
  | TunnelWatch string

record 'c run_state =
  rs_os :: os
  rs_accounts :: accounts
  rs_services :: "'c service list"

record ('dev, 'sock, 'bind, 'c) boot =
  bo_net :: "('dev, 'sock, 'bind, 'c) net_env"
  bo_signer :: "goerr + pubkey"
  bo_listen :: "string \<Rightarrow> goerr option"
  bo_database :: "goerr option"
  bo_keys :: key_env
  bo_peer_id :: "pubkey \<Rightarrow> string"
  bo_peers :: string
  bo_root :: string
  bo_media :: string
  bo_torrents :: string
  bo_config :: string
  bo_archival :: "goerr option"
  bo_jwt_client :: "goerr option"
  bo_boolean :: "bool \<Rightarrow> string \<Rightarrow> bool"
  bo_cpus :: int
  bo_client :: "'dev client_option list \<Rightarrow> 'bind \<Rightarrow> goerr + 'c"
  bo_watcher_new :: "goerr option"
  bo_watch :: "string \<Rightarrow> goerr option"
  bo_downloads :: string
  bo_add_peers :: "'c \<Rightarrow> string \<Rightarrow> unit outcome"
  bo_watcher :: "goerr option"
  bo_tls :: "string list \<Rightarrow> goerr option"
  bo_mdns :: "goerr option"
  bo_closed :: "goerr \<Rightarrow> bool"

section \<open>Steps\<close>

type_synonym ('s, 'a) run_step = "'s \<Rightarrow> ('s \<times> (goerr + 'a)) outcome"

definition and_then :: "('s, 'a) run_step \<Rightarrow> ('a \<Rightarrow> ('s, 'b) run_step) \<Rightarrow> ('s, 'b) run_step" where
  "and_then m f s =
     bind_outcome (m s) (\<lambda>(s1, res). case res of Inl err \<Rightarrow> Return (s1, Inl err) | Inr x \<Rightarrow> f x s1)"

definition result_of :: "goerr + 'a \<Rightarrow> ('s, 'a) run_step" where
  "result_of res s = Return (s, res)"

definition check :: "goerr option \<Rightarrow> ('s, unit) run_step" where
  "check err = result_of (case err of None \<Rightarrow> Inr () | Some err \<Rightarrow> Inl err)"

definition spawn :: "'c service list \<Rightarrow> ('c run_state, unit) run_step" where
  "spawn services st = Return (st\<lparr>rs_services := rs_services st @ services\<rparr>, Inr ())"

definition on_files :: "(os \<Rightarrow> (os \<times> (goerr + 'a)) outcome) \<Rightarrow> ('c run_state, 'a) run_step" where
  "on_files f st = bind_outcome (f (rs_os st)) (\<lambda>(fs, res). Return (st\<lparr>rs_os := fs\<rparr>, res))"

section \<open>The phases of Run\<close>

text \<open>The key of the daemon is imported as the key of a user.\<close>

definition run_identity :: "('dev, 'sock, 'bind, 'c) boot \<Rightarrow> Command \<Rightarrow> ('c run_state, pubkey) run_step" where
  "run_identity e t =
     and_then (result_of (bo_signer e)) (\<lambda>pub.
     and_then (check (Wrap (bo_listen e (HTTP_address t)) ''unable to setup http socket'')) (\<lambda>_.
     and_then (check (bo_database e)) (\<lambda>_.
     and_then (\<lambda>st. case ImportPublicKey (bo_keys e) pub (rs_accounts st) of
         (ac, err) \<Rightarrow> check (Wrap err ''unable to import ssh identity'') (st\<lparr>rs_accounts := ac\<rparr>)) (\<lambda>_.
     and_then (spawn [DefaultFeeds]) (\<lambda>_. result_of (Inr pub))))))"

definition run_bootstrap :: "('dev, 'sock, 'bind, 'c) boot \<Rightarrow> Command \<Rightarrow> ('c run_state, 'dev client_option) run_step" where
  "run_bootstrap e t =
     and_then (on_files (\<lambda>fs. bind_outcome (IsRegularFile (ne_fault (bo_net e)) (bo_peers e) fs) (\<lambda>(fs1, yes). Return (fs1, Inr yes))))
       (\<lambda>regular. result_of (Inr
          (if AutoBootstrap t then BootstrapGlobal else if regular then BootstrapPeerFile (bo_peers e) else ConfigNoop)))"

definition firewall_option :: "Command \<Rightarrow> 'dev client_option" where
  "firewall_option t = (if TorrentPrivate t then PrivateFirewall else ConfigNoop)"

text \<open>\<^verbatim>\<open>AutoReclaim\<close> cannot fail; what \<^verbatim>\<open>AutoArchival\<close> returns is logged.\<close>

definition run_storage :: "('dev, 'sock, 'bind, 'c) boot \<Rightarrow> Command \<Rightarrow> ('c run_state, storage) run_step" where
  "run_storage e t =
     and_then (on_files (\<lambda>fs. (case MkDirs (ne_fault (bo_net e)) [bo_root e, bo_media e, bo_torrents e, bo_config e] fs of
          (fs1, Some err) \<Rightarrow> Return (fs1, Inl err) | (fs1, None) \<Rightarrow> Return (fs1, Inr ())))) (\<lambda>_.
     and_then (spawn [DiskReclaim (AutoReclaim t)]) (\<lambda>_.
       if AutoArchive t then
         and_then (spawn (if bo_archival e = None then [Archival] else [])) (\<lambda>_.
         and_then (check (Wrap (bo_jwt_client e) ''failed to create oauth2 http client for archival'')) (\<lambda>_.
           result_of (Inr (ArchivedStorage (BlockStorage (bo_torrents e))))))
       else result_of (Inr (BlockStorage (bo_torrents e)))))"

text \<open>The tunnel, if there is one and the torrents are not private.\<close>

definition run_tunnel :: "('dev, 'sock, 'bind, 'c) boot \<Rightarrow> Command \<Rightarrow> ('c run_state, (('dev \<times> Config) \<times> 'bind) option) run_step" where
  "run_tunnel e t =
     (let n = bo_net e in
      on_files (\<lambda>fs. case Exists (ne_fault n) (ne_latest n) fs of (fs1, exists) \<Rightarrow>
        if exists \<and> \<not> TorrentPrivate t then
          (case read_tunnel n (ne_latest n) fs1 of
             (fs2, Inl err) \<Rightarrow> Return (fs2, wrapped_as (''unable to parse wireguard configuration: '' @ ne_latest n) (Inl err))
           | (fs2, Inr wcfg) \<Rightarrow>
               bind_outcome (WireguardSocket n wcfg (TorrentPort t)) (\<lambda>res. Return (fs2,
                 wrapped_as ''unable to setup wireguard torrent socket''
                   (map_sum id (\<lambda>(dev, bind). Some ((dev, wcfg), bind)) res))))
        else Return (fs1, Inr None)))"

definition torrent_options ::
  "('dev, 'sock, 'bind, 'c) boot \<Rightarrow> Command \<Rightarrow> pubkey \<Rightarrow> 'dev client_option \<Rightarrow> storage \<Rightarrow> ('dev \<times> Config) option \<Rightarrow> 'dev client_option list" where
  "torrent_options e t pub bootstrap tstore wg =
     [MetadataCacheDir (bo_torrents e), StorageIn tstore, CacheDirectory (bo_torrents e), PeerID (bo_peer_id e pub),
      IPv4 (TorrentPublicIP4 t), IPv6 (TorrentPublicIP6 t), PEX (bo_boolean e True ''RETROVIBED_TORRENT_PEX''),
      Seed (bo_boolean e True ''RETROVIBED_TORRENT_ALLOW_SEEDING''), DialerOver (map_option fst wg),
      InfoLogger (bo_boolean e False ''RETROVIBED_TORRENT_LOGGING''), DebugLogger (bo_boolean e False ''RETROVIBED_TORRENT_LOGGING''),
      SamplingMuxer, BucketLimit 256, DialPoolSize (bo_cpus e), DialRateLimit 32 (bo_cpus e), AcceptAny,
      MaxOutstandingRequests (int (unat (TorrentMaxRequests t))), PeerLimits (bo_cpus e div 2) (bo_cpus e),
      UploadLimit (256 * 1048576), HTTPUserAgent ''retrovibed/0.0'', CountUploads, bootstrap, firewall_option t,
      (case wg of None \<Rightarrow> ConfigNoop | Some (dev, wcfg) \<Rightarrow> MappedAddress wcfg dev (TorrentPort t))]"

text \<open>The option \<open>CountUploads\<close>: what is done when a connection closes.\<close>

definition connection_closed :: "sqldb \<Rightarrow> bytes \<Rightarrow> u64 \<Rightarrow> torrents \<Rightarrow> torrents" where
  "connection_closed db ih written tbl = (if written = 0 then tbl else fst (TMetadataUploadedByID db ih written tbl))"

definition run_client ::
  "('dev, 'sock, 'bind, 'c) boot \<Rightarrow> Command \<Rightarrow> 'dev client_option list \<Rightarrow> (('dev \<times> Config) \<times> 'bind) option \<Rightarrow> ('c run_state, 'c) run_step" where
  "run_client e t options tunnel =
     and_then (result_of (case tunnel of Some (_, bind) \<Rightarrow> Inr bind
        | None \<Rightarrow> wrapped_as ''unable to setup torrent socket'' (Autosocket (bo_net e) (TorrentPort t)))) (\<lambda>bind.
       result_of (wrapped_as ''unable to setup torrent client'' (bo_client e options bind)))"

text \<open>The clients the monitor makes have the options of the first and those of their tunnel.\<close>

definition monitor_net :: "('dev, 'sock, 'bind, 'c) boot \<Rightarrow> Command \<Rightarrow> 'dev client_option list \<Rightarrow> ('dev, 'sock, 'bind, 'c) net_env" where
  "monitor_net e t options = (bo_net e)\<lparr>ne_client := (\<lambda>wg bind.
     bo_client e (options @ [DialerOver (map_option fst wg),
       (case wg of None \<Rightarrow> ConfigNoop | Some (dev, wcfg) \<Rightarrow> MappedAddress wcfg dev (TorrentPort t))]) bind)\<rparr>"

definition run_services :: "('dev, 'sock, 'bind, 'c) boot \<Rightarrow> Command \<Rightarrow> 'c \<Rightarrow> ('c run_state, unit) run_step" where
  "run_services e t c =
     and_then (if AutoDownload t
        then and_then (check (Wrap (bo_watcher_new e) ''unable to setup directory monitoring for torrents'')) (\<lambda>_.
          and_then (check (Wrap (bo_watch e (bo_downloads e)) ''unable to add the download directory to be watched'')) (\<lambda>_.
            spawn [DownloadWatcher (bo_downloads e) c]))
        else result_of (Inr ())) (\<lambda>_.
     and_then (\<lambda>st. bind_outcome (bo_add_peers e c (bo_peers e)) (\<lambda>_. Return (st, Inr ()))) (\<lambda>_.
       spawn ([BootstrapNodes (bo_peers e) c, Statistics, Checkpoints, MetadataImports] @
         (if AutoDiscovery t then [PeerDiscovery c] else []) @ [FeedDiscovery c, Verification c] @
         (if TorrentResume t then [Announcing c, Resuming c] else []) @
         (if AutoIdentifyMedia t then [Identification] else []))))"

definition run_monitor ::
  "('dev, 'sock, 'bind, 'c) boot \<Rightarrow> Command \<Rightarrow> 'dev client_option list \<Rightarrow> 'c \<Rightarrow> ('c run_state, 'c monitor) run_step" where
  "run_monitor e t options c st =
     bind_outcome (VPNReload (monitor_net e t options) (bo_watcher e) (TorrentPort t) \<lparr>mo_client = c, mo_closed = []\<rparr> (rs_os st))
       (\<lambda>(fs, previous, m, err).
         and_then (check err) (\<lambda>_. and_then (spawn [TunnelWatch previous]) (\<lambda>_. result_of (Inr m))) (st\<lparr>rs_os := fs\<rparr>))"

text \<open>Everything before the tunnel, and everything before the server: the client the services have and the monitor.\<close>

definition run_prepared :: "('dev, 'sock, 'bind, 'c) boot \<Rightarrow> Command \<Rightarrow> ('c run_state, pubkey \<times> 'dev client_option \<times> storage) run_step" where
  "run_prepared e t =
     and_then (run_identity e t) (\<lambda>pub.
     and_then (run_bootstrap e t) (\<lambda>bootstrap.
     and_then (run_storage e t) (\<lambda>tstore. result_of (Inr (pub, bootstrap, tstore)))))"

definition run_setup :: "('dev, 'sock, 'bind, 'c) boot \<Rightarrow> Command \<Rightarrow> ('c run_state, 'c \<times> 'c monitor) run_step" where
  "run_setup e t =
     and_then (run_prepared e t) (\<lambda>(pub, bootstrap, tstore).
     and_then (run_tunnel e t) (\<lambda>tunnel.
       let options = torrent_options e t pub bootstrap tstore (map_option fst tunnel) in
     and_then (run_client e t options tunnel) (\<lambda>c.
     and_then (run_services e t c) (\<lambda>_.
     and_then (run_monitor e t options c) (\<lambda>m.
     and_then (check (bo_tls e (SelfSignedHosts t))) (\<lambda>_.
     and_then (check (if DisableMDNS t then None else Wrap (bo_mdns e) ''unable to setup multicast service'')) (\<lambda>_.
       result_of (Inr (c, m)))))))))"

text \<open>The end of the server. \<open>causes\<close> are the arguments of the calls of \<^verbatim>\<open>asyncfailure\<close> in their order, of which the first counts; the end of the
  command itself is the report of a cancellation.\<close>

definition cancel_cause :: "goerr option list \<Rightarrow> goerr option" where
  "cancel_cause causes =
     (case causes of [] \<Rightarrow> None
      | r # _ \<Rightarrow> Some (case IgnoreCancelled r of None \<Rightarrow> Sentinel Canceled | Some cause \<Rightarrow> cause))"

definition run_served :: "('dev, 'sock, 'bind, 'c) boot \<Rightarrow> goerr \<Rightarrow> goerr option list \<Rightarrow> goerr option" where
  "run_served e cause causes =
     (if \<not> bo_closed e cause then Wrap (Some cause) ''http server stopped''
      else IgnoreCancelled (Compact [cancel_cause causes, map_option (\<lambda>_. Sentinel Canceled) (cancel_cause causes)]))"

definition Run :: "('dev, 'sock, 'bind, 'c) boot \<Rightarrow> Command \<Rightarrow> goerr \<Rightarrow> goerr option list \<Rightarrow> ('c run_state, unit) run_step" where
  "Run e t cause causes = and_then (run_setup e t) (\<lambda>_. check (run_served e cause causes))"

section \<open>Lemmas\<close>

lemma and_then_Inr:
  assumes "and_then m f s = Return (s', Inr y)"
  obtains s1 x where "m s = Return (s1, Inr x)" "f x s1 = Return (s', Inr y)"
  using assms by (cases "m s") (auto simp: and_then_def split: sum.splits)

lemma check_Inr [simp]: "check err s = Return (s', Inr u) \<longleftrightarrow> err = None \<and> s' = s"
  by (cases err) (auto simp: check_def result_of_def)

lemma result_of_Inr [simp]: "result_of res s = Return (s', Inr x) \<longleftrightarrow> res = Inr x \<and> s' = s"
  by (auto simp: result_of_def)

lemma spawn_Inr [simp]: "spawn xs s = Return (s', Inr u) \<longleftrightarrow> s' = s\<lparr>rs_services := rs_services s @ xs\<rparr>"
  by (auto simp: spawn_def)

lemma on_files_Inr:
  assumes "on_files f s = Return (s', Inr x)"
  obtains fs where "f (rs_os s) = Return (fs, Inr x)" "s' = s\<lparr>rs_os := fs\<rparr>"
  using assms by (cases "f (rs_os s)") (auto simp: on_files_def)

lemma wrapped_as_Inr [simp]: "wrapped_as msg res = Inr x \<longleftrightarrow> res = Inr x"
  by (cases res) (auto simp: wrapped_as_def split: option.splits)

text \<open>What each phase leaves behind when it succeeds.\<close>

lemma run_identity_ok:
  assumes "run_identity e t s = Return (s', Inr pub)"
  shows "bo_signer e = Inr pub \<and> rs_services s' = rs_services s @ [DefaultFeeds] \<and> rs_os s' = rs_os s \<and>
    ImportPublicKey (bo_keys e) pub (rs_accounts s) = (rs_accounts s', None)"
  using assms unfolding run_identity_def
  by (auto elim!: and_then_Inr split: prod.splits)

lemma run_bootstrap_ok:
  assumes "run_bootstrap e t s = Return (s', Inr b)"
  shows "rs_services s' = rs_services s \<and> rs_accounts s' = rs_accounts s"
  using assms unfolding run_bootstrap_def
  by (auto elim!: and_then_Inr on_files_Inr)

lemma run_storage_ok:
  assumes "run_storage e t s = Return (s', Inr ts)"
  shows "rs_services s' = rs_services s @ [DiskReclaim (AutoReclaim t)] @ (if AutoArchive t \<and> bo_archival e = None then [Archival] else []) \<and>
    rs_accounts s' = rs_accounts s"
  using assms unfolding run_storage_def
  by (auto elim!: and_then_Inr on_files_Inr split: if_splits)

lemma run_tunnel_ok:
  assumes "run_tunnel e t s = Return (s', Inr tunnel)"
  shows "rs_services s' = rs_services s \<and> rs_accounts s' = rs_accounts s \<and>
    (case tunnel of
       None \<Rightarrow> TorrentPrivate t \<or> \<not> snd (Exists (ne_fault (bo_net e)) (ne_latest (bo_net e)) (rs_os s))
     | Some ((dev, wcfg), bind) \<Rightarrow> \<not> TorrentPrivate t \<and> snd (Exists (ne_fault (bo_net e)) (ne_latest (bo_net e)) (rs_os s)) \<and>
         snd (read_tunnel (bo_net e) (ne_latest (bo_net e)) (fst (Exists (ne_fault (bo_net e)) (ne_latest (bo_net e)) (rs_os s)))) = Inr wcfg \<and>
         WireguardSocket (bo_net e) wcfg (TorrentPort t) = Return (Inr (dev, bind)))"
proof -
  obtain fs1 ex where ex: "Exists (ne_fault (bo_net e)) (ne_latest (bo_net e)) (rs_os s) = (fs1, ex)" by fastforce
  show ?thesis
  proof (cases "ex \<and> \<not> TorrentPrivate t")
    case False
    with assms ex show ?thesis by (auto simp: run_tunnel_def Let_def elim!: on_files_Inr)
  next
    case True
    obtain fs2 res where rd: "read_tunnel (bo_net e) (ne_latest (bo_net e)) fs1 = (fs2, res)" by fastforce
    with assms ex True obtain wcfg where w: "res = Inr wcfg"
      by (cases res) (auto simp: run_tunnel_def Let_def elim!: on_files_Inr)
    with assms ex True rd obtain dev bind where "WireguardSocket (bo_net e) wcfg (TorrentPort t) = Return (Inr (dev, bind))"
      "tunnel = Some ((dev, wcfg), bind)" "rs_services s' = rs_services s" "rs_accounts s' = rs_accounts s"
      by (cases "WireguardSocket (bo_net e) wcfg (TorrentPort t)")
        (auto simp: run_tunnel_def Let_def map_sum_def elim!: on_files_Inr split: sum.splits)
    with ex rd w True show ?thesis by simp
  qed
qed

lemma run_client_ok:
  assumes "run_client e t options tunnel s = Return (s', Inr c)"
  shows "s' = s \<and> (\<exists>bind. (case tunnel of None \<Rightarrow> Autosocket (bo_net e) (TorrentPort t) = Inr bind | Some (_, b) \<Rightarrow> bind = b) \<and>
    bo_client e options bind = Inr c)"
  using assms unfolding run_client_def
  by (auto elim!: and_then_Inr split: option.splits prod.splits)

lemma run_services_ok:
  assumes "run_services e t c s = Return (s', Inr u)"
  shows "rs_services s' = rs_services s @ (if AutoDownload t then [DownloadWatcher (bo_downloads e) c] else []) @
      [BootstrapNodes (bo_peers e) c, Statistics, Checkpoints, MetadataImports] @
      (if AutoDiscovery t then [PeerDiscovery c] else []) @ [FeedDiscovery c, Verification c] @
      (if TorrentResume t then [Announcing c, Resuming c] else []) @ (if AutoIdentifyMedia t then [Identification] else []) \<and>
    rs_accounts s' = rs_accounts s \<and> rs_os s' = rs_os s"
proof (cases "AutoDownload t")
  case True
  with assms show ?thesis
    unfolding run_services_def by (cases "bo_add_peers e c (bo_peers e)") (auto elim!: and_then_Inr)
next
  case False
  with assms show ?thesis
    unfolding run_services_def by (cases "bo_add_peers e c (bo_peers e)") (auto elim!: and_then_Inr)
qed

text \<open>A client that is replaced was closed.\<close>

lemma reload_closes:
  assumes "reload_action n previous port evt st m = Return (st', m', err)"
  shows "set (mo_closed m) \<subseteq> set (mo_closed m') \<and> (mo_client m' = mo_client m \<or> mo_client m \<in> set (mo_closed m'))"
proof -
  obtain st1 current where one: "real_path n st = (st1, current)" by fastforce
  obtain st2 res where two: "read_tunnel n (ev_Name evt) st1 = (st2, res)" by fastforce
  show ?thesis
  proof (cases "ev_Op evt = op_Remove \<or> previous = current")
    case True
    with assms one show ?thesis by (auto simp: reload_action_def split: if_splits)
  next
    case False
    show ?thesis
    proof (cases res)
      case (Inl e)
      with assms one two False show ?thesis by (auto simp: reload_action_def)
    next
      case (Inr wcfg)
      with assms one two False show ?thesis
        by (cases "WireguardSocket n wcfg port") (auto simp: reload_action_def split: sum.splits prod.splits)
    qed
  qed
qed

lemma on_change_closes:
  assumes "on_change (reload_action n previous port) evs m = Return m'"
  shows "set (mo_closed m) \<subseteq> set (mo_closed m') \<and> (mo_client m' = mo_client m \<or> mo_client m \<in> set (mo_closed m'))"
  using assms
proof (induction evs arbitrary: m)
  case Nil
  then show ?case by simp
next
  case (Cons ev evs)
  obtain st evt where ev: "ev = (st, evt)" by fastforce
  from Cons.prems ev obtain st1 m1 err where act: "reload_action n previous port evt st m = Return (st1, m1, err)"
    "on_change (reload_action n previous port) evs m1 = Return m'"
    by (cases "reload_action n previous port evt st m") auto
  from Cons.IH [OF act(2)] reload_closes [OF act(1)] show ?case by auto
qed

lemma run_monitor_ok:
  assumes "run_monitor e t options c s = Return (s', Inr m)"
  shows "\<exists>previous. rs_services s' = rs_services s @ [TunnelWatch previous] \<and> rs_accounts s' = rs_accounts s \<and>
    (mo_client m = c \<or> c \<in> set (mo_closed m))"
proof -
  let ?n = "monitor_net e t options" and ?m = "\<lparr>mo_client = c, mo_closed = []\<rparr>" and ?evt = "\<lparr>ev_Name = ne_latest (monitor_net e t options), ev_Op = op_Chmod\<rparr>"
  obtain fs previous err where vpn: "VPNReload ?n (bo_watcher e) (TorrentPort t) ?m (rs_os s) = Return (fs, previous, m, err)"
    and rest: "err = None" "rs_services s' = rs_services s @ [TunnelWatch previous]" "rs_accounts s' = rs_accounts s"
    using assms unfolding run_monitor_def
    by (cases "VPNReload ?n (bo_watcher e) (TorrentPort t) ?m (rs_os s)") (auto elim!: and_then_Inr)
  obtain st1 where "real_path ?n (rs_os s) = (st1, previous)"
    using vpn by (cases "real_path ?n (rs_os s)", cases "OnceAndOnChange (ne_fault ?n) (ne_latest ?n)
      (reload_action ?n (snd (real_path ?n (rs_os s))) (TorrentPort t)) (bo_watcher e) ?evt (fst (real_path ?n (rs_os s))) ?m")
      (auto simp: VPNReload_def)
  with vpn obtain st2 err2 where once: "OnceAndOnChange (ne_fault ?n) (ne_latest ?n) (reload_action ?n previous (TorrentPort t))
      (bo_watcher e) ?evt st1 ?m = Return (st2, m, err2)"
    by (cases "OnceAndOnChange (ne_fault ?n) (ne_latest ?n) (reload_action ?n previous (TorrentPort t)) (bo_watcher e) ?evt st1 ?m")
      (auto simp: VPNReload_def)
  obtain st3 ex where ex: "Exists (ne_fault ?n) (ne_latest ?n) st1 = (st3, ex)" by fastforce
  have "mo_client m = c \<or> c \<in> set (mo_closed m)"
  proof (cases ex)
    case True
    with once ex obtain st4 err4 where "reload_action ?n previous (TorrentPort t) ?evt st3 ?m = Return (st4, m, err4)"
      by (cases "reload_action ?n previous (TorrentPort t) ?evt st3 ?m") (auto simp: OnceAndOnChange_def split: option.splits)
    from reload_closes [OF this] show ?thesis by auto
  next
    case False
    with once ex show ?thesis by (auto simp: OnceAndOnChange_def)
  qed
  with rest show ?thesis by blast
qed

text \<open>The services a start leaves behind, all of them with the first client.\<close>

definition services_of :: "('dev, 'sock, 'bind, 'c) boot \<Rightarrow> Command \<Rightarrow> 'c \<Rightarrow> string \<Rightarrow> 'c service list" where
  "services_of e t c previous =
     [DefaultFeeds, DiskReclaim (AutoReclaim t)] @ (if AutoArchive t \<and> bo_archival e = None then [Archival] else []) @
     (if AutoDownload t then [DownloadWatcher (bo_downloads e) c] else []) @
     [BootstrapNodes (bo_peers e) c, Statistics, Checkpoints, MetadataImports] @
     (if AutoDiscovery t then [PeerDiscovery c] else []) @ [FeedDiscovery c, Verification c] @
     (if TorrentResume t then [Announcing c, Resuming c] else []) @ (if AutoIdentifyMedia t then [Identification] else []) @
     [TunnelWatch previous]"

lemma run_prepared_ok:
  assumes "run_prepared e t s = Return (s', Inr (pub, b, ts))"
  shows "bo_signer e = Inr pub \<and> ImportPublicKey (bo_keys e) pub (rs_accounts s) = (rs_accounts s', None) \<and>
    rs_services s' = rs_services s @ [DefaultFeeds, DiskReclaim (AutoReclaim t)] @ (if AutoArchive t \<and> bo_archival e = None then [Archival] else [])"
proof -
  from assms [unfolded run_prepared_def] obtain s1 p s2 b' s3 ts' where
    one: "run_identity e t s = Return (s1, Inr p)" and two: "run_bootstrap e t s1 = Return (s2, Inr b')"
    and three: "run_storage e t s2 = Return (s3, Inr ts')" and last: "result_of (Inr (p, b', ts')) s3 = Return (s', Inr (pub, b, ts))"
    by (elim and_then_Inr)
  with run_identity_ok [OF one] run_bootstrap_ok [OF two] run_storage_ok [OF three] show ?thesis by auto
qed

lemma run_setup_ok:
  assumes "run_setup e t s = Return (s', Inr (c, m))"
  shows "\<exists>s1 pub b ts tunnel s2 bind previous.
    run_prepared e t s = Return (s1, Inr (pub, b, ts)) \<and> run_tunnel e t s1 = Return (s2, Inr tunnel) \<and>
    (case tunnel of None \<Rightarrow> Autosocket (bo_net e) (TorrentPort t) = Inr bind | Some (_, b) \<Rightarrow> bind = b) \<and>
    bo_client e (torrent_options e t pub b ts (map_option fst tunnel)) bind = Inr c \<and>
    rs_accounts s' = rs_accounts s1 \<and> rs_services s' = rs_services s @ services_of e t c previous \<and>
    (mo_client m = c \<or> c \<in> set (mo_closed m))"
proof -
  from assms [unfolded run_setup_def Let_def] obtain s1 x where one: "run_prepared e t s = Return (s1, Inr x)"
    and rest: "(case x of (pub, bootstrap, tstore) \<Rightarrow>
      and_then (run_tunnel e t) (\<lambda>tunnel.
      and_then (run_client e t (torrent_options e t pub bootstrap tstore (map_option fst tunnel)) tunnel) (\<lambda>c.
      and_then (run_services e t c) (\<lambda>_.
      and_then (run_monitor e t (torrent_options e t pub bootstrap tstore (map_option fst tunnel)) c) (\<lambda>m.
      and_then (check (bo_tls e (SelfSignedHosts t))) (\<lambda>_.
      and_then (check (if DisableMDNS t then None else Wrap (bo_mdns e) ''unable to setup multicast service'')) (\<lambda>_.
        result_of (Inr (c, m))))))))) s1 = Return (s', Inr (c, m))"
    by (elim and_then_Inr)
  obtain pub b ts where x: "x = (pub, b, ts)" by (cases x)
  from rest [unfolded x prod.case] obtain s4 tunnel s5 c' s6 u s7 m' s8 u8 s9 u9 where
    four: "run_tunnel e t s1 = Return (s4, Inr tunnel)"
    and five': "run_client e t (torrent_options e t pub b ts (map_option fst tunnel)) tunnel s4 = Return (s5, Inr c')"
    and six': "run_services e t c' s5 = Return (s6, Inr u)"
    and seven': "run_monitor e t (torrent_options e t pub b ts (map_option fst tunnel)) c' s6 = Return (s7, Inr m')"
    and checks: "check (bo_tls e (SelfSignedHosts t)) s7 = Return (s8, Inr u8)"
      "check (if DisableMDNS t then None else Wrap (bo_mdns e) ''unable to setup multicast service'') s8 = Return (s9, Inr u9)"
      "result_of (Inr (c', m')) s9 = Return (s', Inr (c, m))"
    by (elim and_then_Inr)
  from checks have last: "s' = s7" and same: "c' = c" "m' = m" by auto
  note five = five' [unfolded same] and six = six' [unfolded same] and seven = seven' [unfolded same]
  from run_monitor_ok [OF seven] obtain previous where m: "rs_services s7 = rs_services s6 @ [TunnelWatch previous]"
    "rs_accounts s7 = rs_accounts s6" "mo_client m = c \<or> c \<in> set (mo_closed m)" by blast
  from run_client_ok [OF five] obtain bind where bind: "s5 = s4"
    "case tunnel of None \<Rightarrow> Autosocket (bo_net e) (TorrentPort t) = Inr bind | Some (_, b) \<Rightarrow> bind = b"
    "bo_client e (torrent_options e t pub b ts (map_option fst tunnel)) bind = Inr c" by blast
  have services: "rs_services s7 = rs_services s @ services_of e t c previous" "rs_accounts s7 = rs_accounts s1"
    using m bind(1) run_prepared_ok [OF one [unfolded x]] run_tunnel_ok [OF four] run_services_ok [OF six]
    unfolding services_of_def by simp_all
  show ?thesis
    using one [unfolded x] four bind(2,3) services m(3) last by blast
qed

section \<open>Properties\<close>

text \<open>C7: the torrents go through the tunnel that is configured, or the daemon does not start. A daemon that reaches its server
  made its client over the current tunnel if there is one, and over the local sockets only if there is none or the
  torrents are private. A tunnel that cannot be read or brought up ends the start.\<close>

theorem start_uses_tunnel:
  assumes "run_setup e t s = Return (s', Inr (c, m))" "run_prepared e t s = Return (s1, Inr (pub, b, ts))"
    and "Exists (ne_fault (bo_net e)) (ne_latest (bo_net e)) (rs_os s1) = (fs, configured)"
  shows "if configured \<and> \<not> TorrentPrivate t
    then \<exists>wcfg dev bind. snd (read_tunnel (bo_net e) (ne_latest (bo_net e)) fs) = Inr wcfg \<and>
      WireguardSocket (bo_net e) wcfg (TorrentPort t) = Return (Inr (dev, bind)) \<and>
      bo_client e (torrent_options e t pub b ts (Some (dev, wcfg))) bind = Inr c
    else \<exists>bind. Autosocket (bo_net e) (TorrentPort t) = Inr bind \<and> bo_client e (torrent_options e t pub b ts None) bind = Inr c"
proof -
  from run_setup_ok [OF assms(1)] assms(2) obtain tunnel s2 bind where t: "run_tunnel e t s1 = Return (s2, Inr tunnel)"
    "case tunnel of None \<Rightarrow> Autosocket (bo_net e) (TorrentPort t) = Inr bind | Some (_, b) \<Rightarrow> bind = b"
    "bo_client e (torrent_options e t pub b ts (map_option fst tunnel)) bind = Inr c" by auto
  from run_tunnel_ok [OF t(1)] t(2,3) assms(3) show ?thesis
    by (cases tunnel) auto
qed

text \<open>C23: after the monitor has switched to another tunnel, the other services keep a client that is closed. Whatever happens to the
  tunnel while the daemon runs, once the monitor has another client than the one of the start, that one was closed,
  and it is the one that verifies, discovers and resumes torrents.\<close>

theorem services_keep_closed_client:
  assumes "run_setup e t s = Return (s', Inr (c, m))" "rs_services s = []"
    and "on_change (reload_action n previous port) events m = Return m'" "mo_client m' \<noteq> c"
  shows "c \<in> set (mo_closed m') \<and> Verification c \<in> set (rs_services s') \<and> FeedDiscovery c \<in> set (rs_services s') \<and>
    (TorrentResume t \<longrightarrow> Resuming c \<in> set (rs_services s')) \<and>
    \<not> (\<exists>d. d \<noteq> c \<and> {Verification d, FeedDiscovery d, Resuming d, Announcing d, PeerDiscovery d} \<inter> set (rs_services s') \<noteq> {})"
proof -
  from run_setup_ok [OF assms(1)] assms(2) obtain previous where s: "rs_services s' = services_of e t c previous"
    "mo_client m = c \<or> c \<in> set (mo_closed m)" by auto
  have "c \<in> set (mo_closed m')" using on_change_closes [OF assms(3)] s(2) assms(4) by auto
  then show ?thesis unfolding s(1) services_of_def by auto
qed

text \<open>C20: a tunnel that does not exist is bypassed in silence. When a request makes an unknown tunnel the current one, the request
  succeeds, and the next start takes the link that leads nowhere for no tunnel: the torrents go through the
  local sockets, without an error.\<close>

theorem dangling_tunnel_bypassed:
  assumes "te_fault tu = (\<lambda>_. None)" "ne_fault (bo_net e) = (\<lambda>_. None)" "ne_latest (bo_net e) = absolute (q @ [Current_name])"
    and "config_directory tu (rs_os s) q" "plain_name ident" "ident \<noteq> Current_name" "nodes_of (rs_os s) (q @ [ident]) = None"
    and "Autosocket (bo_net e) (TorrentPort t) = Inr bind" "bo_client e options bind = Inr c"
  shows "\<exists>fs s1. tunnels_touch tu ident (rs_os s) () w r = tunnel_reply tu fs w WireguardTouchResponse \<and>
    run_tunnel e t (s\<lparr>rs_os := fs\<rparr>) = Return (s1, Inr None) \<and> run_client e t options None s1 = Return (s1, Inr c)"
proof -
  obtain fs where fs: "tunnels_touch tu ident (rs_os s) () w r = tunnel_reply tu fs w WireguardTouchResponse" "config_directory tu fs q"
    "nodes_of fs (q @ [Current_name]) = Some (Link (absolute (q @ [ident])))" "nodes_of fs (q @ [ident]) = None"
    using touch_links [OF assms(1,4,5), of "()" w r] assms(6,7) by auto
  have "resolve fs True (ne_latest (bo_net e)) = Inr (q @ [ident])"
    using link_resolves [OF fs(2,3) assms(5)] fs(4) assms(3) by simp
  then have "Exists (ne_fault (bo_net e)) (ne_latest (bo_net e)) fs = (fs\<lparr>calls := Suc (calls fs)\<rparr>, False)"
    using assms(2) fs(4) by (simp add: Exists_def os_Stat_def syscall_def errored_def ErrIsNotExist_def)
  then have "run_tunnel e t (s\<lparr>rs_os := fs\<rparr>) = Return (s\<lparr>rs_os := fs\<lparr>calls := Suc (calls fs)\<rparr>\<rparr>, Inr None)"
    by (simp add: run_tunnel_def Let_def on_files_def)
  moreover have "run_client e t options None s1 = Return (s1, Inr c)" for s1
    using assms(8,9) by (simp add: run_client_def and_then_def result_of_def wrapped_as_def)
  ultimately show ?thesis using fs(1) by blast
qed

text \<open>C21: taking the permission from the key of the daemon and giving it back keeps the daemon from starting again. The daemon
  imports its key at every start; once its permission was revoked and granted again, every later start ends
  with an error.\<close>

theorem regranted_start_fails:
  assumes "run_identity e t s = Return (s1, Inr pub)" "bo_keys e = k" "bo_keys e2 = k2" "ky_md5uuid k2 = ky_md5uuid k"
    and "fp = FingerprintMD5 (ky_md5uuid k) pub" "casts_to k fp" "casts_to k2 fp" "row_of az_ID (ac_authz (rs_accounts s)) fp = None"
    and "rows_AuthzDeleteByProfileID d1 fp (ac_authz (rs_accounts s1)) = (tbl1, Inr revoked)" "sql_uuid d1 fp = Inr fp"
    and "rows_AuthzUpsertWithDefaults d2 ident (zero_Authz\<lparr>az_ProfileID := fp, az_Usermanagement := um\<rparr>) tbl1 = (tbl2, Inr granted)"
    and "sql_uuid d2 fp = Inr fp" "ident \<noteq> fp" "\<And>n. sql_err (ky_db k2 n) = None"
    and "bo_signer e2 = Inr pub" "bo_listen e2 (HTTP_address t2) = None" "bo_database e2 = None"
    and "rs_accounts s2 = (rs_accounts s1)\<lparr>ac_authz := tbl2\<rparr>"
  shows "\<exists>s3 err. run_setup e2 t2 s2 = Return (s3, Inl err)"
proof -
  let ?parsed = "\<lparr>ps_PublicKey = pub, ps_Comment = [], ps_Options = []\<rparr>"
  have imp: "ImportParsed k ?parsed (rs_accounts s) = (rs_accounts s1, None)"
    using run_identity_ok [OF assms(1)] assms(2) by (simp add: ImportPublicKey_def)
  have "snd (ImportParsed k2 ?parsed ((rs_accounts s1)\<lparr>ac_authz := tbl2\<rparr>)) =
      Wrap (Some (sql_duplicate (ky_db k2 (Suc (ac_stmts (rs_accounts s1)))))) ''unable to setup authorizations''"
    using regranted_import_fails [OF imp assms(6,7,4) _ assms(8-14)] assms(5) by simp
  then obtain ac x where "ImportPublicKey k2 pub (rs_accounts s2) = (ac, Some x)"
    using assms(18) by (cases "ImportPublicKey k2 pub (rs_accounts s2)") (auto simp: ImportPublicKey_def Wrap_def)
  with assms(3,15-17) have "\<exists>s3 err. run_identity e2 t2 s2 = Return (s3, Inl err)"
    by (simp add: run_identity_def and_then_def result_of_def check_def Wrap_def)
  then show ?thesis
    by (auto simp: run_setup_def run_prepared_def and_then_def)
qed

text \<open>A failure of a service that runs in the background ends the command with that failure, unless it is a cancellation or another
  came first; what follows the end of the server otherwise is not an error.\<close>

lemma run_served_closed:
  assumes "bo_closed e cause"
  shows "run_served e cause causes = (case causes of [] \<Rightarrow> None | r # _ \<Rightarrow> IgnoreCancelled r)"
  using assms by (cases causes) (auto simp: run_served_def cancel_cause_def IgnoreCancelled_def split: option.split)

text \<open>A daemon with one tunnel, started twice.\<close>

definition demo_boot :: "(unit, unit, unit, nat) boot" where
  "demo_boot = \<lparr>bo_net = demo_net, bo_signer = Inr [1], bo_listen = (\<lambda>_. None), bo_database = None, bo_keys = plain_keys,
     bo_peer_id = (\<lambda>_. ''id''), bo_peers = ''/w/p'', bo_root = ''/w'', bo_media = ''/w'', bo_torrents = ''/w'', bo_config = ''/w'',
     bo_archival = None, bo_jwt_client = None, bo_boolean = (\<lambda>d _. d), bo_cpus = 4, bo_client = (\<lambda>options _. Inr (length options)),
     bo_watcher_new = None, bo_watch = (\<lambda>_. None), bo_downloads = ''/w'', bo_add_peers = (\<lambda>_ _. Return ()), bo_watcher = None,
     bo_tls = (\<lambda>_. None), bo_mdns = None, bo_closed = (\<lambda>_. True)\<rparr>"

definition demo_command :: Command where
  "demo_command = \<lparr>DisableMDNS = True, AutoBootstrap = False, AutoDiscovery = False, AutoDownload = False, AutoIdentifyMedia = False,
     AutoArchive = False, AutoReclaim = True, TorrentResume = True, TorrentPrivate = False, TorrentPort = 1, TorrentPublicIP4 = [],
     TorrentPublicIP6 = [], TorrentMaxRequests = 1024, HTTP_address = ''tcp://:9998'', SelfSignedHosts = []\<rparr>"

definition demo_run :: "nat run_state" where
  "demo_run = \<lparr>rs_os = two_tunnels, rs_accounts = no_accounts, rs_services = []\<rparr>"

lemma demo_boot_simps [simp]:
  "bo_net demo_boot = demo_net" "bo_signer demo_boot = Inr [1]" "bo_listen demo_boot a = None" "bo_database demo_boot = None"
  "bo_keys demo_boot = plain_keys" "bo_client demo_boot options bind = Inr (length options)" "bo_peers demo_boot = ''/w/p''"
  "bo_add_peers demo_boot c f = Return ()" "bo_watcher demo_boot = None" "bo_tls demo_boot hosts = None" "bo_cpus demo_boot = 4"
  "bo_root demo_boot = ''/w''" "bo_media demo_boot = ''/w''" "bo_torrents demo_boot = ''/w''" "bo_config demo_boot = ''/w''"
  by (simp_all add: demo_boot_def)

lemma demo_command_simps [simp]:
  "DisableMDNS demo_command" "\<not> AutoBootstrap demo_command" "\<not> AutoDownload demo_command" "\<not> AutoArchive demo_command"
  "\<not> TorrentPrivate demo_command" "TorrentPort demo_command = 1" "TorrentResume demo_command"
  by (simp_all add: demo_command_def)

lemmas disk_eval = resolve_def walk_from_def is_directory_def start_of_def HasPrefix_def components_def max_links_def is_sep_def
  os_Stat_def os_MkdirAll_def os_Chmod_def syscall_def two_tunnels_def demo_disk_def

lemma demo_identity:
  "\<exists>ac. run_identity demo_boot demo_command demo_run = Return (demo_run\<lparr>rs_accounts := ac, rs_services := [DefaultFeeds]\<rparr>, Inr [1]) \<and>
    ImportParsed plain_keys one_key no_accounts = (ac, None)"
proof -
  obtain ac where ac: "ImportParsed plain_keys one_key no_accounts = (ac, None)" using first_import by blast
  then show ?thesis
    by (simp add: run_identity_def and_then_def result_of_def check_def spawn_def demo_run_def ImportPublicKey_def one_key_def)
qed

lemma demo_dirs: "MkDirs (\<lambda>_. None) [''/w'', ''/w'', ''/w'', ''/w''] (two_tunnels\<lparr>calls := n\<rparr>) = (two_tunnels\<lparr>calls := 8 + n\<rparr>, None)"
  by (simp add: disk_eval)

lemma demo_prepared:
  "\<exists>ac. run_prepared demo_boot demo_command demo_run = Return (demo_run\<lparr>rs_os := two_tunnels\<lparr>calls := 9\<rparr>, rs_accounts := ac,
     rs_services := [DefaultFeeds, DiskReclaim (AutoReclaim demo_command)]\<rparr>, Inr ([1], ConfigNoop, BlockStorage ''/w''))"
proof -
  obtain ac where one: "run_identity demo_boot demo_command demo_run = Return (demo_run\<lparr>rs_accounts := ac, rs_services := [DefaultFeeds]\<rparr>, Inr [1])"
    using demo_identity by blast
  have two: "IsRegularFile (\<lambda>_. None) ''/w/p'' two_tunnels = Return (two_tunnels\<lparr>calls := 1\<rparr>, False)"
    by (simp add: IsRegularFile_def os_IsNotExist_def disk_eval Current_name_def)
  from one two show ?thesis
    by (simp add: run_prepared_def run_bootstrap_def run_storage_def and_then_def on_files_def result_of_def spawn_def demo_run_def demo_net_def
        demo_dirs del: MkDirs.simps)
qed

lemma demo_link:
  "config_directory demo_tunnels (two_tunnels\<lparr>calls := k\<rparr>) [''w'']" "ne_latest demo_net = absolute ([''w''] @ [Current_name])"
  "ne_fault demo_net = (\<lambda>_. None)" "plain_name ''a''"
  "nodes_of (two_tunnels\<lparr>calls := k\<rparr>) ([''w''] @ [Current_name]) = Some (Link (absolute ([''w''] @ [''a''])))"
  "nodes_of (two_tunnels\<lparr>calls := k\<rparr>) ([''w''] @ [''a'']) = Some (Regular (string_bytes demo_file))"
proof -
  show "config_directory demo_tunnels (two_tunnels\<lparr>calls := k\<rparr>) [''w'']" using two_tunnels_ok by simp
qed (simp_all add: demo_net_def absolute_def two_tunnels_def demo_disk_def Current_name_def plain_name_def is_sep_def)

lemma demo_current:
  "Exists (\<lambda>_. None) (ne_latest demo_net) (two_tunnels\<lparr>calls := k\<rparr>) = (two_tunnels\<lparr>calls := Suc k\<rparr>, True)"
  "real_path demo_net (two_tunnels\<lparr>calls := k\<rparr>) = (two_tunnels\<lparr>calls := Suc k\<rparr>, absolute ([''w''] @ [''a'']))"
proof -
  note link = demo_link(1) [of k] demo_link(2-4) demo_link(5) [of k] demo_link(6) [of k]
  have "resolve (two_tunnels\<lparr>calls := k\<rparr>) True (ne_latest demo_net) = Inr ([''w''] @ [''a''])"
    using link_resolves [OF link(1,5,4)] link(2,6) by simp
  with link(6) show "Exists (\<lambda>_. None) (ne_latest demo_net) (two_tunnels\<lparr>calls := k\<rparr>) = (two_tunnels\<lparr>calls := Suc k\<rparr>, True)"
    by (simp add: Exists_def os_Stat_def syscall_def errored_def ErrIsNotExist_def)
  show "real_path demo_net (two_tunnels\<lparr>calls := k\<rparr>) = (two_tunnels\<lparr>calls := Suc k\<rparr>, absolute ([''w''] @ [''a'']))"
    using real_path_link [OF link(3,2,1,4,5,6)] by simp
qed

lemma demo_tunnel:
  obtains cfg where "read_tunnel demo_net (ne_latest demo_net) (two_tunnels\<lparr>calls := k\<rparr>) = (two_tunnels\<lparr>calls := Suc k\<rparr>, Inr cfg)"
    "WireguardSocket demo_net cfg 1 = Return (Inr ((), ()))" "FromWgQuick (bytes_string (string_bytes demo_file)) ''retrovibed'' = Inr cfg"
proof -
  obtain cfg where cfg: "FromWgQuick (bytes_string (string_bytes demo_file)) ''retrovibed'' = Inr cfg"
    using demo_parses [of "''retrovibed''"] by (auto simp: bytes_of_string)
  note link = demo_link(1) [of k] demo_link(2-4) demo_link(5) [of k] demo_link(6) [of k]
  have "read_tunnel demo_net (ne_latest demo_net) (two_tunnels\<lparr>calls := k\<rparr>) = (two_tunnels\<lparr>calls := Suc k\<rparr>, Inr cfg)"
    using read_tunnel_link [OF link(3,1,4,5,6) cfg] link(2) by simp
  moreover have "WireguardSocket demo_net cfg 1 = Return (Inr ((), ()))"
    by (simp add: WireguardSocket_def demo_net_def wrapped_as_def demo_first_error)
  ultimately show thesis using cfg that by blast
qed

lemma demo_setup:
  obtains s' where "run_setup demo_boot demo_command demo_run = Return (s', Inr (24, \<lparr>mo_client = 24, mo_closed = []\<rparr>))"
proof -
  obtain ac where prepared: "run_prepared demo_boot demo_command demo_run = Return (demo_run\<lparr>rs_os := two_tunnels\<lparr>calls := 9\<rparr>,
      rs_accounts := ac, rs_services := [DefaultFeeds, DiskReclaim (AutoReclaim demo_command)]\<rparr>, Inr ([1], ConfigNoop, BlockStorage ''/w''))"
    using demo_prepared by blast
  let ?s = "demo_run\<lparr>rs_os := two_tunnels\<lparr>calls := 9\<rparr>, rs_accounts := ac, rs_services := [DefaultFeeds, DiskReclaim (AutoReclaim demo_command)]\<rparr>"
  obtain cfg where cfg: "read_tunnel demo_net (ne_latest demo_net) (two_tunnels\<lparr>calls := 10\<rparr>) = (two_tunnels\<lparr>calls := 11\<rparr>, Inr cfg)"
    "WireguardSocket demo_net cfg 1 = Return (Inr ((), ()))"
    using demo_tunnel [of 10] by auto
  have tunnel: "run_tunnel demo_boot demo_command ?s = Return (?s\<lparr>rs_os := two_tunnels\<lparr>calls := 11\<rparr>\<rparr>, Inr (Some (((), cfg), ())))"
    using cfg demo_current(1) [of 9] by (simp add: run_tunnel_def Let_def on_files_def demo_link(3) wrapped_as_def)
  let ?o = "torrent_options demo_boot demo_command [1] ConfigNoop (BlockStorage ''/w'') (Some ((), cfg))"
  have size: "length ?o = 24" by (simp add: torrent_options_def)
  obtain s3 where services: "run_services demo_boot demo_command 24 (?s\<lparr>rs_os := two_tunnels\<lparr>calls := 11\<rparr>\<rparr>) = Return (s3, Inr ())"
    "rs_os s3 = two_tunnels\<lparr>calls := 11\<rparr>"
    by (simp add: run_services_def and_then_def result_of_def spawn_def)
  have net: "real_path (monitor_net demo_boot demo_command ?o) = real_path demo_net" "ne_fault (monitor_net demo_boot demo_command ?o) = (\<lambda>_. None)"
    "ne_latest (monitor_net demo_boot demo_command ?o) = ne_latest demo_net"
    by (simp_all add: monitor_net_def real_path_def demo_link(3) fun_eq_iff)
  have vpn: "VPNReload (monitor_net demo_boot demo_command ?o) None 1 \<lparr>mo_client = 24, mo_closed = []\<rparr> (two_tunnels\<lparr>calls := 11\<rparr>) =
      Return (two_tunnels\<lparr>calls := 14\<rparr>, absolute ([''w''] @ [''a'']), \<lparr>mo_client = 24, mo_closed = []\<rparr>, None)"
    using demo_current(1) [of 12] demo_current(2) [of 11] demo_current(2) [of 13]
    by (simp add: VPNReload_def OnceAndOnChange_def reload_action_def net op_Chmod_def op_Remove_def)
  obtain s4 where monitor: "run_monitor demo_boot demo_command ?o 24 s3 = Return (s4, Inr \<lparr>mo_client = 24, mo_closed = []\<rparr>)"
    using vpn services(2) by (simp add: run_monitor_def and_then_def check_def result_of_def spawn_def)
  have "run_client demo_boot demo_command ?o (Some (((), cfg), ())) st = Return (st, Inr 24)" for st
    by (simp add: run_client_def and_then_def result_of_def wrapped_as_def size)
  with prepared tunnel services(1) monitor
  have "run_setup demo_boot demo_command demo_run = Return (s4, Inr (24, \<lparr>mo_client = 24, mo_closed = []\<rparr>))"
    by (simp add: run_setup_def and_then_def check_def result_of_def Let_def)
  then show thesis by (rule that)
qed

theorem start_uses_tunnel_witness:
  "\<exists>s1 wcfg. run_prepared demo_boot demo_command demo_run = Return (s1, Inr ([1], ConfigNoop, BlockStorage ''/w'')) \<and>
    bo_client demo_boot (torrent_options demo_boot demo_command [1] ConfigNoop (BlockStorage ''/w'') (Some ((), wcfg))) () = Inr 24"
proof -
  obtain ac where prepared: "run_prepared demo_boot demo_command demo_run = Return (demo_run\<lparr>rs_os := two_tunnels\<lparr>calls := 9\<rparr>,
      rs_accounts := ac, rs_services := [DefaultFeeds, DiskReclaim (AutoReclaim demo_command)]\<rparr>, Inr ([1], ConfigNoop, BlockStorage ''/w''))"
    using demo_prepared by blast
  obtain s' where ready: "run_setup demo_boot demo_command demo_run = Return (s', Inr (24, \<lparr>mo_client = 24, mo_closed = []\<rparr>))"
    by (rule demo_setup)
  have "Exists (ne_fault (bo_net demo_boot)) (ne_latest (bo_net demo_boot)) (two_tunnels\<lparr>calls := 9\<rparr>) = (two_tunnels\<lparr>calls := 10\<rparr>, True)"
    using demo_current(1) [of 9] by (simp add: demo_link(3))
  with start_uses_tunnel [OF ready prepared] prepared show ?thesis by auto
qed

theorem services_keep_closed_client_witness:
  "\<exists>s'. run_setup demo_boot demo_command demo_run = Return (s', Inr (24, \<lparr>mo_client = 24, mo_closed = []\<rparr>)) \<and>
    on_change (reload_action demo_net [] 1) [(two_tunnels, \<lparr>ev_Name = ne_latest demo_net, ev_Op = 1\<rparr>)] \<lparr>mo_client = 24, mo_closed = []\<rparr> =
      Return \<lparr>mo_client = 7, mo_closed = [24]\<rparr> \<and> Resuming 24 \<in> set (rs_services s')"
proof -
  let ?m = "\<lparr>mo_client = 24, mo_closed = []\<rparr>" and ?evt = "\<lparr>ev_Name = ne_latest demo_net, ev_Op = 1\<rparr>"
  obtain s' where ready: "run_setup demo_boot demo_command demo_run = Return (s', Inr (24, ?m))"
    by (rule demo_setup)
  obtain cfg where cfg: "read_tunnel demo_net (ne_latest demo_net) (two_tunnels\<lparr>calls := 1\<rparr>) = (two_tunnels\<lparr>calls := 2\<rparr>, Inr cfg)"
    "WireguardSocket demo_net cfg 1 = Return (Inr ((), ()))"
    using demo_tunnel [of 1] by (auto simp: numeral_2_eq_2)
  have zero: "two_tunnels\<lparr>calls := 0\<rparr> = two_tunnels" by (simp add: two_tunnels_def demo_disk_def)
  have "real_path demo_net two_tunnels = (two_tunnels\<lparr>calls := 1\<rparr>, absolute ([''w''] @ [''a'']))"
    using demo_current(2) [of 0] zero by simp
  moreover have "absolute ([''w''] @ [''a'']) \<noteq> []" by (simp add: absolute_def)
  moreover have "ne_client demo_net x y = Inr 7" for x y by (simp add: demo_net_def)
  ultimately have run: "on_change (reload_action demo_net [] 1) [(two_tunnels, ?evt)] ?m = Return \<lparr>mo_client = 7, mo_closed = [24]\<rparr>"
    using cfg by (simp add: reload_action_def op_Remove_def)
  have "rs_services demo_run = []" by (simp add: demo_run_def)
  from services_keep_closed_client [OF ready this run] ready run show ?thesis by auto
qed

theorem dangling_tunnel_bypassed_witness:
  "\<exists>fs s1. tunnels_touch demo_tunnels ''c'' two_tunnels () fresh_response post_abc =
      tunnel_reply demo_tunnels fs fresh_response WireguardTouchResponse \<and>
    run_tunnel demo_boot demo_command (demo_run\<lparr>rs_os := fs\<rparr>) = Return (s1, Inr None) \<and>
    run_client demo_boot demo_command [SamplingMuxer] None s1 = Return (s1, Inr 1)"
proof -
  have os: "rs_os demo_run = two_tunnels" by (simp add: demo_run_def)
  have "\<exists>fs s1. tunnels_touch demo_tunnels ''c'' (rs_os demo_run) () fresh_response post_abc =
      tunnel_reply demo_tunnels fs fresh_response WireguardTouchResponse \<and>
    run_tunnel demo_boot demo_command (demo_run\<lparr>rs_os := fs\<rparr>) = Return (s1, Inr None) \<and>
    run_client demo_boot demo_command [SamplingMuxer] None s1 = Return (s1, Inr 1)"
  proof (rule dangling_tunnel_bypassed [where q = "[''w'']" and bind = "()"])
    show "config_directory demo_tunnels (rs_os demo_run) [''w'']" unfolding os by (rule two_tunnels_ok)
    show "nodes_of (rs_os demo_run) ([''w''] @ [''c'']) = None"
      unfolding os by (simp add: two_tunnels_def demo_disk_def Current_name_def)
  qed (simp_all add: demo_disk_ok(2) demo_link(2,3) plain_name_def is_sep_def Current_name_def Autosocket_def localsocket_def wrapped_as_def,
      simp_all add: demo_net_def)
  then show ?thesis unfolding os .
qed

theorem regranted_start_fails_witness:
  "\<exists>s1 tbl1 revoked tbl2 granted s3 err. run_identity demo_boot demo_command demo_run = Return (s1, Inr [1]) \<and>
    rows_AuthzDeleteByProfileID plain_db ''k'' (ac_authz (rs_accounts s1)) = (tbl1, Inr revoked) \<and>
    rows_AuthzUpsertWithDefaults plain_db ''r'' (zero_Authz\<lparr>az_ProfileID := ''k'', az_Usermanagement := True\<rparr>) tbl1 = (tbl2, Inr granted) \<and>
    run_setup demo_boot demo_command (s1\<lparr>rs_accounts := (rs_accounts s1)\<lparr>ac_authz := tbl2\<rparr>\<rparr>) = Return (s3, Inl err)"
proof -
  obtain ac where one: "run_identity demo_boot demo_command demo_run = Return (demo_run\<lparr>rs_accounts := ac, rs_services := [DefaultFeeds]\<rparr>, Inr [1])"
    (is "_ = Return (?s1, _)") and ac: "ImportParsed plain_keys one_key no_accounts = (ac, None)"
    using demo_identity by blast
  have rows: "ac_authz ac = [\<lparr>az_CreatedAt = 7, az_ID = ''k'', az_ProfileID = ''k'', az_UpdatedAt = 0, az_Usermanagement = True\<rparr>]"
    using first_import ac by auto
  obtain revoked where del: "rows_AuthzDeleteByProfileID plain_db ''k'' (ac_authz (rs_accounts ?s1)) = ([], Inr revoked)"
    by (simp add: rows rows_AuthzDeleteByProfileID_def uuid_arg_def plain_db_def delete_where_def query_row_def)
  obtain tbl2 granted where up: "rows_AuthzUpsertWithDefaults plain_db ''r''
      (zero_Authz\<lparr>az_ProfileID := ''k'', az_Usermanagement := True\<rparr>) [] = (tbl2, Inr granted)"
    by (simp add: rows_AuthzUpsertWithDefaults_def uuid_arg_def plain_db_def upsert_unique_def insert_unique_def clashes_def)
  have cast: "casts_to plain_keys ''k''" by (simp add: casts_to_def plain_keys_def plain_db_def)
  let ?s2 = "?s1\<lparr>rs_accounts := (rs_accounts ?s1)\<lparr>ac_authz := tbl2\<rparr>\<rparr>"
  have "\<exists>s3 err. run_setup demo_boot demo_command ?s2 = Return (s3, Inl err)"
    by (rule regranted_start_fails [OF one demo_boot_simps(5,5) refl _ cast cast _ del _ up])
      (simp_all add: demo_run_def no_accounts_def row_of_def plain_keys_def plain_db_def FingerprintMD5_def)
  with one del up show ?thesis by blast
qed

end
