(* ===== verification/Spec2Isabelle.thy ===== *)
theory Spec2Isabelle
  imports Accountsapi Archival Asynccompute Authnx Backoffx Cmdmeta Daemons Deeppool Discovered Downloadsx Httpx Importx LibraryCache
    Librarydb Mediaapi Metaapi Metadb Natpmp Osfs Scanx Server Sshoauth Sshx Startup Timex Uuidx Vfs Vpnx Wireguardapi Wireguardx
begin

text \<open>
  A verification development of retrovibed, a media library over torrents: the server under
  \<^verbatim>\<open>src/shallows\<close>, written in Go. The theories are shallow embeddings of its packages; paths below are
  relative to \<^verbatim>\<open>src/shallows\<close>.

  The program. A daemon (\<^verbatim>\<open>cmd/retrovibed/daemons\<close>) finds torrents in feeds and in the DHT, downloads
  them with a torrent client into a cache of fixed size blocks (\<^verbatim>\<open>blockcache\<close>), records them in SQL tables
  (\<^verbatim>\<open>tracking\<close>, \<^verbatim>\<open>library\<close>) and links what they hold into a media directory. Media can be archived, encrypted
  (\<^verbatim>\<open>internal/cryptox\<close>), at a remote service (\<^verbatim>\<open>deeppool\<close>); what the disk does not hold is downloaded
  again, block by block, when it is read. HTTP services (\<^verbatim>\<open>media\<close>, \<^verbatim>\<open>metaapi\<close>) list, upload,
  publish and delete media, torrents and feeds for clients with a token, keep the daemons, the profiles, their
  permissions and the tunnels, and issue the tokens to the owners of ssh keys.

  How the program is modelled. Machine integers are words and wrap (\<open>Prelude\<close>); Go's \<^verbatim>\<open>error\<close> is
  the datatype \<open>goerr\<close> and a call that may fail returns a sum; a call that may panic returns an
  \<open>outcome\<close>. State is passed explicitly: the disk as a map from paths to bytes under the caches, and
  as a tree of nodes with links under the operations on files (\<open>Osfs\<close>); tables as lists of rows;
  handlers as functions of their state, the response and the request. Concurrency is a
  step relation (\<open>Asynccompute\<close>, \<open>Archival\<close>). Third party code (the SQL engine below the statements,
  the cipher, the decoders, the torrent client, the clock, random numbers and sockets) is an argument of
  the definitions that use it; the hypotheses on it are stated in the theorems.

  Foundations.
  \<^item> \<open>Prelude\<close>: words, outcomes, positioned reads and writes of a file. \<open>Errorsx\<close>
    (\<^verbatim>\<open>internal/errorsx\<close>): error values, wrapping, \<^verbatim>\<open>errors.Is\<close>. \<open>Langx\<close> (\<^verbatim>\<open>langx\<close>, \<^verbatim>\<open>slicesx\<close>, \<^verbatim>\<open>numericx\<close>,
    \<^verbatim>\<open>stringsx\<close>, \<^verbatim>\<open>bytesx\<close>), \<open>Gostd\<close> and \<open>Netip\<close> (functions of Go's standard library), \<open>Timex\<close>, \<open>Uuidx\<close>,
    \<open>Backoffx\<close> with their bounds, \<open>Iox\<close> (readers and section writers), \<open>Httpx\<close> (responses, transports,
    middleware), \<open>Jwtx\<close> (bearer tokens).
  \<^item> \<open>Sqlx\<close> (\<^verbatim>\<open>internal/sqlx\<close>, \<^verbatim>\<open>internal/sqlxx\<close>): result sets, their iterators, and the statements the
    generated queries are made of. The locale \<open>conflict_rule\<close> is the contract of an insert with \<^verbatim>\<open>ON CONFLICT\<close>
    and is interpreted for the five tables that have one.
  \<^item> \<open>Osfs\<close> (\<^verbatim>\<open>internal/fsx\<close>): system calls on a tree with symbolic links; every call may fail as
    \<open>fault\<close> says. A walk follows at most 40 links, as Linux does, and a temporary name is tried 10000
    times, as \<^verbatim>\<open>os.CreateTemp\<close> does. Every operation keeps the tree well formed (\<open>run_os_tree_ok\<close>).

  The caches.
  \<^item> \<open>Blockcache\<close>: \<^verbatim>\<open>DirCache\<close> and the storage of torrents over it. The locale \<open>random_access\<close> says what
    a store promises, that a read returns exactly what is held and a write changes its range only, and is
    interpreted for both. \<open>Vfs\<close>: files and directories over a cache.
  \<^item> \<open>Cryptox\<close>: the stream ciphers. \<open>Deeppool\<close>: the range download. \<open>LibraryMeta\<close>: the record of media.
    \<open>LibraryCache\<close>: reads that fall back to the archive, their block ranges, and the file system of the
    library.
  \<^item> \<open>Archival\<close>: archiving, reclaiming disk, and the wakeup of the background passes.
    \<open>Asynccompute\<close>: the worker pool, all its schedules, termination by a multiset of pending work.

  Tables and background work.
  \<^item> \<open>Tracking\<close>: torrents, unknown infohashes, peers and feeds with every statement on them.
    \<open>Librarydb\<close>: media and known media. \<open>Rss\<close>: feeds as they are read.
  \<^item> \<open>Scanx\<close>: the code \<^verbatim>\<open>genieql\<close> generates around the statements, that is the scanners, which make records of
    rows, and the texts and arguments of the inserts. Inserting the arguments and scanning the row is
    what the operations on rows do (\<open>torrent_insert_refines\<close> and the lemmas beside it).
  \<^item> \<open>Sshx\<close> (\<^verbatim>\<open>internal/sshx\<close>): public keys as texts, lists of authorized keys, and keys kept in files.
    \<open>Metadb\<close> (\<^verbatim>\<open>meta\<close>, \<^verbatim>\<open>meta/identityssh\<close>): daemons, profiles, permissions, consumed tokens and identities with
    every statement on them, their scanners, and the import of keys. The locale \<open>unique_rule\<close> extends
    \<open>conflict_rule\<close> by the columns without an \<^verbatim>\<open>ON CONFLICT\<close>, and is interpreted for daemons and permissions.
    The rows of permissions implement the map \<open>Metaapi\<close> works on (\<open>authz_rows_refine\<close>).
  \<^item> \<open>Daemons\<close>: resuming and announcing torrents, reading feeds, sampling the DHT, importing metadata.
  \<^item> \<open>Importx\<close>: files on their way into the library, the download of a torrent and its deletion.
    \<open>Downloadsx\<close> (\<^verbatim>\<open>downloads\<close>): the watched directory, whose torrents are downloaded.
  \<^item> \<open>Natpmp\<close>: port mappings; the request is sent nine times, so the fuel of its loop is ten rounds.
    \<open>Wireguardx\<close>: the parser of tunnels.

  Services.
  \<^item> \<open>Metaapi\<close>: permissions. \<open>Mediaapi\<close>: media, known media and feeds. \<open>Discovered\<close>: torrents, magnets,
    publishing and uploads. A torrent file is limited to 128 MiB, as in the code.
  \<^item> \<open>Sshoauth\<close> (\<^verbatim>\<open>metaapi/http.oauth2.ssh.go\<close>): codes and tokens for ssh keys. \<open>Accountsapi\<close>
    (\<^verbatim>\<open>http.daemons.go\<close>, \<^verbatim>\<open>http.usermanagement.go\<close>): daemons and profiles. \<open>Wireguardapi\<close> (\<^verbatim>\<open>http.wireguard.go\<close>):
    tunnels as files, and the link to the current one. A search for tunnels goes at most 2048 directories
    deep, which is as deep as a path the kernel accepts.
  \<^item> \<open>Authnx\<close> (\<^verbatim>\<open>authn\<close>, \<^verbatim>\<open>metaapi/authn.*.go\<close>): the client of these logins, at other daemons and at the remote
    service, over the file of its key.
  \<^item> \<open>Vpnx\<close> (\<^verbatim>\<open>internal/torrentx\<close>, \<^verbatim>\<open>internal/fsnotifyx\<close>, \<^verbatim>\<open>vpn.monitor.go\<close>): the sockets of the torrents and the monitor that
    changes their client when another tunnel becomes current; what happens to the file is a list of events.
  \<^item> \<open>Server\<close> and \<open>Startup\<close> (\<^verbatim>\<open>cmd/retrovibed/daemons/cmd.daemon.go\<close>): the server, that is all services under their
    prefixes over one state, and the start of the daemon, a sequence of steps that may fail with the list of the services it
    leaves running. \<open>Cmdmeta\<close> (\<^verbatim>\<open>cmd/cmdmeta\<close>): the commands that provision keys.
  \<^item> This theory: what follows when an upload meets the file system of the library.

  What the lemmas show. The caches: a write is read back, does not disturb disjoint ranges, and a read
  returns what is held or fails; block ranges stay inside the media; decryption from any aligned offset
  is the section of the plain text. The tables: identifiers stay unique, only complete torrents
  seed, inserts keep what is known. The services: what needs a token and on what evidence one is issued, what stays
  hidden, what a restart resumes. The start: whether the torrents go through the tunnel, and which services have which client. Where the code does not do what it means to, the theorem states what it does.

  Bounds and fuel. The loops over blocks, links, rows and names recurse on their data. Loops that
  the program bounds by a count (\<^verbatim>\<open>natpmp\<close>, temporary names, links) carry it as an argument. The
  batch iterator of \<open>Tracking\<close> and the segmenter of \<open>Uuidx\<close> have fuel; their theorems ask for more than the
  number of rows, and for the 1024 segments.

  Not modelled: the command line but for the identities; SQL text
  below the level of statements; the XML writer, multipart encoders and archive readers, which are calls of
  libraries; deadlines, buffer pools and logging; the communities at the remote
  service; the watch of the directory of downloads; the certificates of \<^verbatim>\<open>internal/tlsx\<close>, which are calls of a library; the
  console, which is written in Dart.
\<close>

section \<open>Uploads and the file system of the library\<close>

text \<open>Where a received upload is stored.\<close>

lemma received_upload:
  assumes "library_receive e f tmp st = (st', Inr md)"
    and "tree_ok (nodes_of (dp_os st))" "dir_at (dp_os st) (le_dir e) q" "clean_path (le_dir e)"
    and "plain_name (ie_md5uuid (le_env e) (uf_bytes f))"
    and "resolve (dp_os st) False tmp = Inr t" "nodes_of (dp_os st) t = Some (Regular [])"
  shows "ID md = ie_md5uuid (le_env e) (uf_bytes f) \<and> row_of ID (dp_media st') (ID md) = Some md \<and>
    nodes_of (dp_os st') (q @ [ID md]) = Some (Regular (uf_bytes f)) \<and> dir_at (dp_os st') (le_dir e) q"
proof -
  let ?i = "le_env e"
  let ?u = "ie_md5uuid ?i (uf_bytes f)"
  obtain st1 x1 where one: "on_os (os_WriteFile (ie_fault ?i) tmp (uf_bytes f)) st = (st1, x1)" by fastforce
  note def = assms(1) [unfolded library_receive_def Let_def]
  from def one obtain u where x1: "x1 = Inr u" "uf_err f = None"
    by (cases x1) (auto split: if_splits)
  define a where "a = NewMetadata (ie_seed ?i) ?u
    [MetadataOptionBytes (of_nat (length (uf_bytes f))), MetadataOptionDescription (uf_Filename f),
     MetadataOptionMimetype (uf_ContentType f)]"
  have ida: "ID a = ?u"
    by (simp add: a_def NewMetadata_def MetadataOptionBytes_def MetadataOptionDescription_def MetadataOptionMimetype_def)
  obtain st2 x2 where two: "on_media (ie_db ?i) (\<lambda>d. LMetadataInsertWithDefaults d a) st1 = (st2, x2)" by fastforce
  from def one x1 two obtain m where x2: "x2 = Inr m"
    by (cases x2) (auto simp: a_def)
  obtain st3 x3 where three: "on_os (fsx_Rename (Some (dirvirt_Rename (ie_fault ?i) (le_dir e))) tmp (ID m)) st2 = (st3, x3)" by fastforce
  from def one x1 two x2 three obtain v where x3: "x3 = Inr v" "st' = st3" "md = m"
    by (cases x3) (auto simp: a_def)
  from two x2 media_insert_row [of _ a] have row: "row_of ID (dp_media st2) ?u = Some m" "ID m = ?u" "dp_os st2 = dp_os st1"
    using ida by (auto simp: on_media_def split: prod.splits)
  from one x1 os_WriteFile_entry obtain t' where t': "resolve (dp_os st) True tmp = Inr t'"
    "nodes_of (dp_os st1) = (nodes_of (dp_os st))(t' \<mapsto> Regular (uf_bytes f))" "cwd (dp_os st1) = cwd (dp_os st)" "t' \<noteq> []"
    by (fastforce simp: on_os_def split: prod.splits)
  have "resolve (dp_os st) True tmp = Inr t"
  proof -
    have "(nodes_of (dp_os st))(t \<mapsto> Regular []) = nodes_of (dp_os st)" using assms(7) by auto
    with resolve_file [OF assms(6), of True "Regular []" "[]" "dp_os st"] assms(7) show ?thesis by auto
  qed
  with t' have t: "t' = t" by simp
  have tmp: "resolve (dp_os st1) False tmp = Inr t"
    using resolve_file [OF assms(6), of False "Regular (uf_bytes f)"] assms(7) t' t by auto
  have ok: "tree_ok (nodes_of (dp_os st1))"
    unfolding t' t using assms(2,7) tree_ok_parent [OF assms(2), of t] by (intro tree_ok_insert) auto
  have dir: "dir_at (dp_os st1) (le_dir e) q"
    using assms(7) t' t by (intro dir_at_keeps [OF assms(3)]) auto
  have "path_join_list [le_dir e, ?u] = path_join (le_dir e) ?u"
    using path_clean_join [OF assms(4,5)] assms(4,5) by (simp add: plain_name_def clean_path_def)
  then have new: "resolve (dp_os st1) False (path_join_list [le_dir e, ?u]) = Inr (q @ [?u])"
    using resolve_entry [OF dir assms(5)] by simp
  from three x3 row have ren: "os_Rename (ie_fault ?i) tmp (path_join_list [le_dir e, ?u]) (dp_os st1) = (dp_os st', Inr v)" "dp_media st' = dp_media st2"
    by (auto simp: on_os_def fsx_Rename_def dirvirt_Rename_def split: prod.splits simp del: path_join_list.simps)
  from os_Rename_file [OF ren(1) tmp _ new ok] t' t
  have "nodes_of (dp_os st') (q @ [?u]) = Some (Regular (uf_bytes f)) \<and> cwd (dp_os st') = cwd (dp_os st1) \<and>
    (\<forall>p. nodes_of (dp_os st1) p = Some Directory \<longrightarrow> nodes_of (dp_os st') p = Some Directory)"
    by auto
  with dir_at_keeps [OF dir, of "dp_os st'"] row ren(2) x3 show ?thesis by auto
qed

text \<open>C4: media that is uploaded cannot be played. The upload is stored as a file under the identifier of the
  media; the file system of the library makes a directory of that name before it opens the
  media, and so fails for it whatever the system calls do.\<close>

theorem uploaded_media_unopenable:
  assumes "library_upload e st () w r = Return (st', w')" "wSent w = None" "wSent w' = Some (200, h)"
    and "le_content e r = Inr f" "tree_ok (nodes_of (dp_os st))" "dir_at (dp_os st) (le_dir e) q" "clean_path (le_dir e)"
    and "plain_name (ie_md5uuid (le_env e) (uf_bytes f))"
  shows "\<exists>md. row_of ID (dp_media st') (ie_md5uuid (le_env e) (uf_bytes f)) = Some md \<and>
    nodes_of (dp_os st') (q @ [ie_md5uuid (le_env e) (uf_bytes f)]) = Some (Regular (uf_bytes f)) \<and>
    (\<forall>fault. \<exists>err. vstoragefs_Open (\<lambda>_. Inr md) (\<lambda>n. Path_of (le_dir e) [n])
       (\<lambda>p. errored (snd (os_MkdirAll fault p (dp_os st')))) name = Inl err)"
proof -
  obtain st1 x where temp: "on_os (fsx_CreateTemp (ie_fault (le_env e)) (ie_random (le_env e)) (le_dir e) ''retrovibed.upload.*'') st = (st1, x)"
    by fastforce
  note def = assms(1) [unfolded library_upload_def Let_def] assms(2-4) temp
  obtain tmp where x: "x = Inr tmp"
    using def by (cases x) (auto simp: answers WriteEmptyJSON_def Header_Set_def WriteHeader_def resp_Write_def Let_def)
  obtain st2 y where rec: "library_receive e f tmp st1 = (st2, y)" by fastforce
  obtain md where y: "y = Inr md" "st' = st2"
  proof (cases y)
    case (Inl code)
    then have "code = 500"
      using rec by (auto simp: library_receive_def Let_def split: sum.splits prod.splits if_splits)
    then have False
      using def x rec Inl by (auto simp: answers WriteEmptyJSON_def Header_Set_def WriteHeader_def resp_Write_def Let_def)
    then show ?thesis ..
  qed (use def x rec that in \<open>auto simp: answers\<close>)
  from temp x CreateTemp_cases obtain t where t: "resolve (dp_os st) False tmp = Inr t" "t \<noteq> []" "nodes_of (dp_os st) t = None"
    "nodes_of (dp_os st1) = (nodes_of (dp_os st))(t \<mapsto> Regular [])" "cwd (dp_os st1) = cwd (dp_os st)"
    by (fastforce simp: on_os_def split: prod.splits)
  have ok: "tree_ok (nodes_of (dp_os st1))"
    using t new_node_tree_ok [OF assms(5), of False "start_of (dp_os st) tmp" "components tmp" t] by (auto simp: resolve_def)
  have dir: "dir_at (dp_os st1) (le_dir e) q"
    using t by (intro dir_at_keeps [OF assms(6)]) auto
  have tmp: "resolve (dp_os st1) False tmp = Inr t"
    using resolve_file [OF t(1), of False "Regular []" "[]" "dp_os st1"] t by auto
  from received_upload [OF rec [unfolded y] ok dir assms(7,8) tmp] t(4) y(2)
  have stored: "ID md = ie_md5uuid (le_env e) (uf_bytes f)" "row_of ID (dp_media st') (ID md) = Some md"
    "nodes_of (dp_os st') (q @ [ID md]) = Some (Regular (uf_bytes f))" "dir_at (dp_os st') (le_dir e) q"
    by auto
  have "\<exists>err. vstoragefs_Open (\<lambda>_. Inr md) (\<lambda>n. Path_of (le_dir e) [n])
       (\<lambda>p. errored (snd (os_MkdirAll fault p (dp_os st')))) name = Inl err" for fault
  proof -
    obtain o' res where mk: "os_MkdirAll fault (path_join (le_dir e) (ID md)) (dp_os st') = (o', res)" by fastforce
    from MkdirAll_on_file [OF stored(4) _ stored(3) mk] assms(8) stored(1) obtain err where "res = Inl err" by auto
    with mk Path_of_plain [OF assms(7,8)] stored(1) show ?thesis
      by (simp add: vstoragefs_Open_def NewDirectoryCache_def errored_def)
  qed
  with stored show ?thesis by auto
qed

theorem uploaded_media_unopenable_witness:
  "\<exists>st' w' md. library_upload demo_library (demo_depot []) () fresh_response post_abc = Return (st', w') \<and>
     row_of ID (dp_media st') ''a'' = Some md \<and> nodes_of (dp_os st') [''m'', ''a''] = Some (Regular [7, 8]) \<and>
     (\<exists>err. vstoragefs_Open (\<lambda>_. Inr md) (\<lambda>n. Path_of ''/m'' [n]) (\<lambda>p. errored (snd (os_MkdirAll (\<lambda>_. None) p (dp_os st')))) ''a'' = Inl err)"
proof -
  let ?run = "library_upload demo_library (demo_depot []) () fresh_response post_abc"
  let ?f = "\<lparr>uf_bytes = [7, 8], uf_err = None, uf_Filename = ''f'', uf_ContentType = ''video/mp4''\<rparr>"
  have "case on_os (fsx_CreateTemp (ie_fault demo_ie) (ie_random demo_ie) ''/m'' ''retrovibed.upload.*'') (demo_depot []) of
      (st1, Inr tmp) \<Rightarrow> \<not> isl (snd (library_receive demo_library ?f tmp st1)) | (st1, Inl err) \<Rightarrow> False"
    by code_simp
  then obtain st1 tmp st' md where "on_os (fsx_CreateTemp (ie_fault demo_ie) (ie_random demo_ie) ''/m'' ''retrovibed.upload.*'') (demo_depot []) = (st1, Inr tmp)"
    "library_receive demo_library ?f tmp st1 = (st', Inr md)"
    by (auto split: prod.splits sum.splits) (metis isl_def prod.collapse sum.collapse(2))
  moreover have "le_dir demo_library = ''/m''" "le_content demo_library post_abc = Inr ?f"
    by (simp_all add: demo_library_def)
  ultimately have "?run = respond demo_media_api st' fresh_response (MediaUploadResponse (media_message demo_library md))"
    by (simp add: library_upload_def Let_def)
  then obtain w' h where run: "?run = Return (st', w')" and w': "wSent w' = Some (200, h)"
    by (auto simp: respond_def WriteJSON_def demo_media_api_def fresh_response_def Header_Set_def WriteHeader_def resp_Write_def Let_def)
  have "tree_ok (nodes_of demo_os)"
    by (auto simp: tree_ok_def is_directory_def demo_os_def Cons_eq_append_conv append_eq_Cons_conv split: if_splits)
  moreover have "dir_at demo_os ''/m'' [''m'']" "clean_path ''/m''" "plain_name ''a''"
    by code_simp+
  ultimately show ?thesis
    using uploaded_media_unopenable [OF run _ w', of ?f "[''m'']" "''a''"] run
    by (auto simp: demo_library_def demo_ie_def demo_depot_def fresh_response_def dest: row_of_Some)
qed

end
